(* ===== verification/Prelude.thy ===== *)
theory Prelude
  imports Main "HOL-Library.Word"
begin

text \<open>
  The vocabulary every theory of the development shares: the machine integers of the C++
  code as words of their width, the lemma collections the component proofs use, and a few
  facts about words and lists that the library does not state in the form the proofs need.
\<close>

unbundle bit_operations_syntax

type_synonym u8 = "8 word"
type_synonym u16 = "16 word"
type_synonym u32 = "32 word"
type_synonym u64 = "64 word"

text \<open>
  Two collections: \<open>model_defs\<close> holds the unfolding rules of small definitions (predicates,
  guards, record initialisers) that a proof about a handler wants opened, \<open>frame_rules\<close> the
  facts that an operation leaves a field alone.
\<close>

named_theorems model_defs
named_theorems frame_rules

text \<open>\<open>std::numeric_limits<std::uint64_t>::max()\<close>.\<close>

abbreviation UINT64_MAX :: u64 where
  "UINT64_MAX \<equiv> - 1"

abbreviation UINT32_MAX :: u32 where
  "UINT32_MAX \<equiv> - 1"

text \<open>A C record's presence: a null pointer is \<open>None\<close>.\<close>

type_synonym 'a pointer = "'a option"

text \<open>The C idiom \<open>flag != 0U\<close>.\<close>

definition is_set :: "u32 \<Rightarrow> bool" where
  [simp, model_defs]: "is_set x \<longleftrightarrow> x \<noteq> 0"

definition bit_of :: "nat \<Rightarrow> u32" where
  "bit_of n = push_bit n 1"

text \<open>Every record of the C interfaces starts with its size in bytes and its version.\<close>

record header =
  struct_size :: u32
  abi_version :: u32

section \<open>Words\<close>

lemma unat_sub_le: "b \<le> a \<Longrightarrow> unat (a - b) = unat a - unat (b :: u64)"
  by (simp add: unat_sub)

lemma word_diff_le_iff:
  fixes a b c :: u64
  assumes "b \<le> a"
  shows "a - b \<le> c \<longleftrightarrow> unat a - unat b \<le> unat c"
  using assms by (simp add: word_le_nat_alt unat_sub)

lemma unat_add_no_overflow:
  fixes a b :: u64
  assumes "\<not> UINT64_MAX - a < b"
  shows "unat (a + b) = unat a + unat b"
proof -
  have "unat b \<le> unat (UINT64_MAX - a)"
    using assms by (simp add: not_less word_le_nat_alt)
  also have "\<dots> = unat UINT64_MAX - unat a"
    by (rule unat_sub) simp
  finally have *: "unat b \<le> unat UINT64_MAX - unat a" .
  have "unat a < 2 ^ LENGTH(64)" by (rule unsigned_less)
  with * have "unat a + unat b < 2 ^ 64"
    by (simp add: unsigned_minus_1_eq_mask mask_eq_exp_minus_1)
  then show ?thesis
    by (simp add: unat_word_ariths)
qed

text \<open>A 64-bit addition that stops at the maximum.\<close>

definition saturating_add :: "u64 \<Rightarrow> u64 \<Rightarrow> u64" where
  "saturating_add l r = (if r > UINT64_MAX - l then UINT64_MAX else l + r)"

lemma word_le_add_no_overflow:
  fixes a b :: u64
  assumes "\<not> UINT64_MAX - a < b"
  shows "a \<le> a + b" and "b \<le> a + b"
  using unat_add_no_overflow [OF assms] by (simp_all add: word_le_nat_alt)

lemma unat_saturating_add:
  "unat (saturating_add l r) = min (unat l + unat r) (2 ^ 64 - 1)"
proof (cases "UINT64_MAX - l < r")
  case False
  have "unat l + unat r < 2 ^ LENGTH(64)"
    by (subst unat_add_no_overflow [OF False, symmetric]) (rule unsigned_less)
  with unat_add_no_overflow [OF False] False show ?thesis
    by (simp add: saturating_add_def)
next
  case True
  have "unat (UINT64_MAX - l) = 2 ^ 64 - 1 - unat l"
    by (subst unat_sub) (simp_all add: unsigned_minus_1_eq_mask mask_eq_exp_minus_1)
  with True have "2 ^ 64 - 1 - unat l < unat r"
    by (simp add: word_less_nat_alt)
  then have "2 ^ 64 - 1 < unat l + unat r" by linarith
  with True show ?thesis
    by (simp add: saturating_add_def unsigned_minus_1_eq_mask mask_eq_exp_minus_1)
qed

lemma saturating_add_ge [simp]: "l \<le> saturating_add l r"
proof -
  have "unat l < 2 ^ LENGTH(64)" by (rule unsigned_less)
  then show ?thesis by (simp add: word_le_nat_alt unat_saturating_add)
qed

text \<open>The range of \<open>std::min\<close> and \<open>std::max\<close> on unsigned integers.\<close>

definition umin :: "'a :: len word \<Rightarrow> 'a word \<Rightarrow> 'a word" where
  "umin a b = (if b < a then b else a)"

definition umax :: "'a :: len word \<Rightarrow> 'a word \<Rightarrow> 'a word" where
  "umax a b = (if a < b then b else a)"

lemma umax_ge [simp]: "a \<le> umax a b" "b \<le> umax a b"
  by (auto simp: umax_def not_less)

lemma umin_le [simp]: "umin a b \<le> a" "umin a b \<le> b"
  by (auto simp: umin_def not_less)

text \<open>A byte of a word, as a \<open>static_cast<std::uint8_t>\<close> of a shifted value.\<close>

definition byte_of :: "nat \<Rightarrow> 'a :: len word \<Rightarrow> u8" where
  "byte_of n w = ucast (drop_bit (8 * n) w)"

section \<open>Lists\<close>

lemma list_all_nthD: "list_all P xs \<Longrightarrow> i < length xs \<Longrightarrow> P (xs ! i)"
  by (simp add: list_all_length)

lemma nth_update_cases: "i < length xs \<Longrightarrow> xs[i := v] ! j = (if j = i then v else xs ! j)"
  by (simp add: nth_list_update)

lemma list_all_update: "list_all P xs \<Longrightarrow> P v \<Longrightarrow> list_all P (xs[i := v])"
  by (metis list_all_iff set_update_subset_insert insertE subsetD)

end
