(* ===== verification/Binary64.thy ===== *)
theory Binary64
  imports Complex_Main "HOL-Library.Log_Nat" Prelude
begin

text \<open>
  IEEE 754 binary64, the C++ \<open>double\<close> of x86-64, as an executable type: a value is not-a-number,
  an infinity or a finite rational, and the arithmetic rounds the exact rational result to the
  nearest representable value, ties to even, with overflow to infinity and gradual underflow.
  The comparisons are those of the language: every comparison with not-a-number is false. The
  class instances give the C++ operators to the models, so \<open>a + b < c\<close> is the source's
  expression. The sign of a zero is not kept: no modelled expression divides by a zero or reads
  a sign bit, so the two zeros cannot be told apart.
\<close>

datatype dbl = DNaN | DPosInf | DNegInf | Fin rat

section \<open>Rounding\<close>

text \<open>Round half to even on a nonnegative rational.\<close>

definition round_even :: "rat \<Rightarrow> nat" where
  "round_even x =
     (let f = nat \<lfloor>x\<rfloor>; r = x - of_nat f
      in if r < 1 / 2 then f else if 1 / 2 < r then Suc f else if even f then f else Suc f)"

text \<open>
  A finite nonnegative value is counted in units of the least subnormal, \<open>2 ^ -1074\<close>. Its
  integer part has some number of bits; beyond 53 the low bits are rounded away.
\<close>

definition grid_shift :: "rat \<Rightarrow> nat" where
  "grid_shift q = floorlog 2 (nat \<lfloor>q\<rfloor>) - 53"

definition round_grid :: "rat \<Rightarrow> rat" where
  "round_grid q = of_nat (round_even (q / 2 ^ grid_shift q)) * 2 ^ grid_shift q"

definition round_pos :: "rat \<Rightarrow> dbl" where
  "round_pos x =
     (let r = round_grid (x * 2 ^ 1074) / 2 ^ 1074
      in if r < 2 ^ 1024 then Fin r else DPosInf)"

fun dneg :: "dbl \<Rightarrow> dbl" where
  "dneg DNaN = DNaN"
| "dneg DPosInf = DNegInf"
| "dneg DNegInf = DPosInf"
| "dneg (Fin x) = Fin (- x)"

definition rnd :: "rat \<Rightarrow> dbl" where
  "rnd x = (if x < 0 then dneg (round_pos (- x)) else round_pos x)"

section \<open>Comparisons and arithmetic\<close>

fun dless :: "dbl \<Rightarrow> dbl \<Rightarrow> bool" where
  "dless DNaN _ = False"
| "dless _ DNaN = False"
| "dless DNegInf b = (b \<noteq> DNegInf)"
| "dless DPosInf _ = False"
| "dless (Fin x) DPosInf = True"
| "dless (Fin x) DNegInf = False"
| "dless (Fin x) (Fin y) = (x < y)"

fun dless_eq :: "dbl \<Rightarrow> dbl \<Rightarrow> bool" where
  "dless_eq DNaN _ = False"
| "dless_eq _ DNaN = False"
| "dless_eq DNegInf _ = True"
| "dless_eq DPosInf b = (b = DPosInf)"
| "dless_eq (Fin x) DPosInf = True"
| "dless_eq (Fin x) DNegInf = False"
| "dless_eq (Fin x) (Fin y) = (x \<le> y)"

text \<open>The language's \<open>==\<close>: not-a-number differs from itself.\<close>

definition deq :: "dbl \<Rightarrow> dbl \<Rightarrow> bool" where
  "deq a b \<longleftrightarrow> a = b \<and> a \<noteq> DNaN"

fun dadd :: "dbl \<Rightarrow> dbl \<Rightarrow> dbl" where
  "dadd DNaN _ = DNaN"
| "dadd _ DNaN = DNaN"
| "dadd DPosInf b = (if b = DNegInf then DNaN else DPosInf)"
| "dadd DNegInf b = (if b = DPosInf then DNaN else DNegInf)"
| "dadd (Fin _) DPosInf = DPosInf"
| "dadd (Fin _) DNegInf = DNegInf"
| "dadd (Fin x) (Fin y) = rnd (x + y)"

definition signed_inf :: "bool \<Rightarrow> dbl" where
  "signed_inf negative = (if negative then DNegInf else DPosInf)"

fun dsign :: "dbl \<Rightarrow> rat" where
  "dsign DNaN = 0"
| "dsign DPosInf = 1"
| "dsign DNegInf = - 1"
| "dsign (Fin x) = sgn x"

fun dmul :: "dbl \<Rightarrow> dbl \<Rightarrow> dbl" where
  "dmul DNaN _ = DNaN"
| "dmul _ DNaN = DNaN"
| "dmul (Fin x) (Fin y) = rnd (x * y)"
| "dmul a b = (if dsign a * dsign b = 0 then DNaN else signed_inf (dsign a * dsign b < 0))"

fun ddiv :: "dbl \<Rightarrow> dbl \<Rightarrow> dbl" where
  "ddiv DNaN _ = DNaN"
| "ddiv _ DNaN = DNaN"
| "ddiv (Fin x) (Fin y) =
     (if y = 0 then (if x = 0 then DNaN else signed_inf (x < 0)) else rnd (x / y))"
| "ddiv (Fin x) _ = Fin 0"
| "ddiv a (Fin y) = signed_inf (dsign a * (if y < 0 then - 1 else 1) < 0)"
| "ddiv _ _ = DNaN"

fun disfinite :: "dbl \<Rightarrow> bool" where
  "disfinite (Fin _) = True"
| "disfinite _ = False"

fun dabs :: "dbl \<Rightarrow> dbl" where
  "dabs DNaN = DNaN"
| "dabs (Fin x) = Fin \<bar>x\<bar>"
| "dabs _ = DPosInf"

instantiation dbl :: "{ord, zero, one, plus, minus, uminus, times, inverse, abs}"
begin

definition less_dbl :: "dbl \<Rightarrow> dbl \<Rightarrow> bool" where
  "less_dbl = dless"

definition less_eq_dbl :: "dbl \<Rightarrow> dbl \<Rightarrow> bool" where
  "less_eq_dbl = dless_eq"

definition zero_dbl :: dbl where
  "zero_dbl = Fin 0"

definition one_dbl :: dbl where
  "one_dbl = Fin 1"

definition plus_dbl :: "dbl \<Rightarrow> dbl \<Rightarrow> dbl" where
  "plus_dbl = dadd"

definition minus_dbl :: "dbl \<Rightarrow> dbl \<Rightarrow> dbl" where
  "minus_dbl a b = dadd a (dneg b)"

definition uminus_dbl :: "dbl \<Rightarrow> dbl" where
  "uminus_dbl = dneg"

definition times_dbl :: "dbl \<Rightarrow> dbl \<Rightarrow> dbl" where
  "times_dbl = dmul"

definition divide_dbl :: "dbl \<Rightarrow> dbl \<Rightarrow> dbl" where
  "divide_dbl = ddiv"

definition inverse_dbl :: "dbl \<Rightarrow> dbl" where
  "inverse_dbl a = ddiv (Fin 1) a"

definition abs_dbl :: "dbl \<Rightarrow> dbl" where
  "abs_dbl = dabs"

instance ..

end

lemmas dbl_ops = less_dbl_def less_eq_dbl_def zero_dbl_def one_dbl_def plus_dbl_def minus_dbl_def
  uminus_dbl_def times_dbl_def divide_dbl_def abs_dbl_def

text \<open>A decimal literal of the source denotes the nearest representable value.\<close>

definition lit :: "rat \<Rightarrow> dbl" where
  "lit = rnd"

text \<open>\<open>static_cast<double>\<close> of an unsigned integer.\<close>

definition dbl_of_word :: "'a :: len word \<Rightarrow> dbl" where
  "dbl_of_word w = rnd (of_nat (unat w))"

definition dbl_of_int :: "int \<Rightarrow> dbl" where
  "dbl_of_int i = rnd (of_int i)"

definition dbl_of_nat :: "nat \<Rightarrow> dbl" where
  "dbl_of_nat n = rnd (of_nat n)"

text \<open>The standard library's \<open>std::min\<close>, \<open>std::max\<close> and \<open>std::clamp\<close>.\<close>

definition dmin :: "dbl \<Rightarrow> dbl \<Rightarrow> dbl" where
  "dmin a b = (if b < a then b else a)"

definition dmax :: "dbl \<Rightarrow> dbl \<Rightarrow> dbl" where
  "dmax a b = (if a < b then b else a)"

definition dclamp :: "dbl \<Rightarrow> dbl \<Rightarrow> dbl \<Rightarrow> dbl" where
  "dclamp v lo hi = (if v < lo then lo else if hi < v then hi else v)"

section \<open>Simplification rules\<close>

lemma Fin_less [simp]: "Fin x < Fin y \<longleftrightarrow> x < y"
  by (simp add: less_dbl_def)

lemma Fin_le [simp]: "Fin x \<le> Fin y \<longleftrightarrow> x \<le> y"
  by (simp add: less_eq_dbl_def)

lemma NaN_cmp [simp]:
  "\<not> DNaN < b" "\<not> b < DNaN" "\<not> DNaN \<le> b" "\<not> b \<le> DNaN"
  by (cases b; simp add: less_dbl_def less_eq_dbl_def)+

lemma Inf_cmp [simp]:
  "\<not> DPosInf < b" "\<not> b < DNegInf" "DPosInf \<le> Fin x \<longleftrightarrow> False" "Fin x \<le> DNegInf \<longleftrightarrow> False"
  "Fin x < DPosInf" "Fin x \<le> DPosInf" "DNegInf < Fin x" "DNegInf \<le> Fin x" "DNegInf < DPosInf"
  by (cases b; simp add: less_dbl_def less_eq_dbl_def)+

lemma zero_dbl [simp]: "0 = Fin 0" and one_dbl [simp]: "1 = Fin 1"
  by (simp_all add: zero_dbl_def one_dbl_def)

lemma abs_Fin [simp]: "\<bar>Fin x\<bar> = Fin \<bar>x\<bar>"
  by (simp add: abs_dbl_def)

lemma uminus_Fin [simp]: "- Fin x = Fin (- x)"
  by (simp add: uminus_dbl_def)

lemma plus_Fin: "Fin x + Fin y = rnd (x + y)"
  and minus_Fin: "Fin x - Fin y = rnd (x - y)"
  and times_Fin: "Fin x * Fin y = rnd (x * y)"
  and divide_Fin: "y \<noteq> 0 \<Longrightarrow> Fin x / Fin y = rnd (x / y)"
  by (simp_all add: dbl_ops)

lemma disfinite_iff: "disfinite a \<longleftrightarrow> (\<exists>x. a = Fin x)"
  by (cases a) auto

lemma dless_imp_le: "a < b \<Longrightarrow> a \<le> (b :: dbl)"
  by (cases a; cases b) (auto simp: less_dbl_def less_eq_dbl_def)

lemma dle_refl: "a \<noteq> DNaN \<Longrightarrow> a \<le> (a :: dbl)"
  by (cases a) (auto simp: less_eq_dbl_def)

lemma dle_trans: "a \<le> b \<Longrightarrow> b \<le> c \<Longrightarrow> a \<le> (c :: dbl)"
  by (cases a; cases b; cases c) (auto simp: less_eq_dbl_def)

lemma dle_less_trans: "a \<le> b \<Longrightarrow> b < c \<Longrightarrow> a < (c :: dbl)"
  by (cases a; cases b; cases c) (auto simp: less_dbl_def less_eq_dbl_def)

lemma dless_le_trans: "a < b \<Longrightarrow> b \<le> c \<Longrightarrow> a < (c :: dbl)"
  by (cases a; cases b; cases c) (auto simp: less_dbl_def less_eq_dbl_def)

lemma not_dless: "a \<noteq> DNaN \<Longrightarrow> b \<noteq> DNaN \<Longrightarrow> \<not> a < b \<longleftrightarrow> b \<le> (a :: dbl)"
  by (cases a; cases b) (auto simp: less_dbl_def less_eq_dbl_def)

lemma dless_not_NaN: "a < b \<Longrightarrow> a \<noteq> DNaN \<and> b \<noteq> (DNaN :: dbl)"
  by auto

lemma dabs_nonneg: "a \<noteq> DNaN \<Longrightarrow> 0 \<le> \<bar>a :: dbl\<bar>"
  by (cases a) (auto simp: abs_dbl_def)

lemma dclamp_bounds:
  assumes "lo \<le> hi" "v \<noteq> DNaN"
  shows "lo \<le> dclamp v lo hi" "dclamp v lo hi \<le> hi"
proof -
  have n: "lo \<noteq> DNaN" "hi \<noteq> DNaN" using assms by auto
  show "lo \<le> dclamp v lo hi"
    using assms n by (auto simp: dclamp_def not_dless dle_refl)
  show "dclamp v lo hi \<le> hi"
    using assms n by (auto simp: dclamp_def not_dless dle_refl)
qed

section \<open>Rounding is monotone and exact on representable values\<close>

lemma round_even_int [simp]: "round_even (of_nat n) = n"
  by (simp add: round_even_def)

lemma round_even_near:
  assumes "0 \<le> x"
  shows "nat \<lfloor>x\<rfloor> \<le> round_even x" "round_even x \<le> Suc (nat \<lfloor>x\<rfloor>)"
  by (auto simp: round_even_def Let_def)

lemma round_even_mono:
  assumes "0 \<le> x" "x \<le> y"
  shows "round_even x \<le> round_even y"
proof (cases "nat \<lfloor>x\<rfloor> = nat \<lfloor>y\<rfloor>")
  case True
  then show ?thesis
    using assms by (auto simp: round_even_def Let_def)
next
  case False
  moreover have "nat \<lfloor>x\<rfloor> \<le> nat \<lfloor>y\<rfloor>"
    using assms by (intro nat_mono floor_mono)
  ultimately have "Suc (nat \<lfloor>x\<rfloor>) \<le> nat \<lfloor>y\<rfloor>" by simp
  then show ?thesis
    using round_even_near [of x] round_even_near [of y] assms by linarith
qed

lemma grid_shift_mono: "x \<le> y \<Longrightarrow> grid_shift x \<le> grid_shift y"
  unfolding grid_shift_def by (intro diff_le_mono floorlog_mono nat_mono floor_mono)

lemma below_grid:
  assumes "0 \<le> q"
  shows "q < 2 ^ (grid_shift q + 53)"
proof -
  let ?n = "nat \<lfloor>q\<rfloor>"
  have "floorlog 2 ?n \<le> grid_shift q + 53" by (simp add: grid_shift_def)
  then have "?n < 2 ^ (grid_shift q + 53)"
    by (rule floorlog_leD) simp
  then have "\<lfloor>q\<rfloor> < 2 ^ (grid_shift q + 53)"
    using assms by (simp add: nat_less_iff)
  then have "q < of_int (2 ^ (grid_shift q + 53))"
    by (simp only: floor_less_iff)
  then show ?thesis by simp
qed

lemma above_grid:
  assumes "0 \<le> q" "0 < grid_shift q"
  shows "2 ^ (grid_shift q + 52) \<le> q"
proof -
  let ?n = "nat \<lfloor>q\<rfloor>"
  have "grid_shift q + 53 \<le> floorlog 2 ?n" using assms by (simp add: grid_shift_def)
  then have "2 ^ (grid_shift q + 53 - 1) \<le> ?n"
    by (rule floorlog_geD) simp
  then have "2 ^ (grid_shift q + 52) \<le> \<lfloor>q\<rfloor>"
    using assms by (simp add: le_nat_iff add.commute)
  then have "of_int (2 ^ (grid_shift q + 52)) \<le> q"
    by (simp only: le_floor_iff)
  then show ?thesis by simp
qed

lemma round_even_le_nat: "0 \<le> x \<Longrightarrow> x \<le> of_nat n \<Longrightarrow> round_even x \<le> n"
  using round_even_mono [of x "of_nat n"] by simp

lemma round_even_ge_nat: "of_nat n \<le> x \<Longrightarrow> n \<le> round_even x"
  using round_even_mono [of "of_nat n" x] by simp

lemma round_grid_mono:
  assumes "0 \<le> x" "x \<le> y"
  shows "round_grid x \<le> round_grid y"
proof -
  let ?s = "grid_shift x" and ?t = "grid_shift y"
  have y: "0 \<le> y" using assms by simp
  have le: "?s \<le> ?t" using assms(2) by (rule grid_shift_mono)
  show ?thesis
  proof (cases "?s = ?t")
    case True
    have "round_even (x / 2 ^ ?t) \<le> round_even (y / 2 ^ ?t)"
      using assms by (intro round_even_mono divide_right_mono) simp_all
    with True show ?thesis by (simp add: round_grid_def)
  next
    case False
    with le have st: "Suc ?s \<le> ?t" by simp
    have "x / 2 ^ ?s \<le> of_nat (2 ^ 53)"
      using below_grid [OF assms(1)] by (simp add: field_simps power_add)
    then have "round_even (x / 2 ^ ?s) \<le> 2 ^ 53"
      using assms(1) by (intro round_even_le_nat) simp_all
    then have "round_grid x \<le> of_nat (2 ^ 53) * 2 ^ ?s"
      unfolding round_grid_def by (intro mult_right_mono) (simp_all only: of_nat_le_iff, simp)
    also have "\<dots> = 2 ^ 52 * 2 ^ Suc ?s" by simp
    also have "\<dots> \<le> 2 ^ 52 * 2 ^ ?t"
      using st by (intro mult_left_mono power_increasing) simp_all
    also have "of_nat (2 ^ 52) \<le> y / 2 ^ ?t"
      using above_grid [OF y] st by (simp add: field_simps power_add)
    then have "2 ^ 52 \<le> round_even (y / 2 ^ ?t)"
      by (rule round_even_ge_nat)
    then have "2 ^ 52 * 2 ^ ?t \<le> round_grid y"
      unfolding round_grid_def
      by (intro mult_right_mono) (metis of_nat_le_iff of_nat_numeral of_nat_power, simp)
    finally show ?thesis .
  qed
qed


lemma round_even_nonneg_grid: "0 \<le> q \<Longrightarrow> 0 \<le> round_grid q"
  by (simp add: round_grid_def)

lemma dneg_mono: "a \<le> b \<Longrightarrow> dneg b \<le> dneg a"
  by (cases a; cases b) (auto simp: less_eq_dbl_def)

lemma round_pos_mono:
  assumes "0 \<le> x" "x \<le> y"
  shows "round_pos x \<le> round_pos y"
proof -
  have "round_grid (x * 2 ^ 1074) \<le> round_grid (y * 2 ^ 1074)"
    using assms by (intro round_grid_mono mult_right_mono mult_nonneg_nonneg) simp_all
  then have "round_grid (x * 2 ^ 1074) / 2 ^ 1074 \<le> round_grid (y * 2 ^ 1074) / 2 ^ 1074"
    by (intro divide_right_mono) simp_all
  then show ?thesis
    unfolding round_pos_def Let_def
    by (simp only: split: if_split) (auto simp: less_eq_dbl_def simp del: divide_le_cancel)
qed

lemma round_pos_nonneg: "0 \<le> x \<Longrightarrow> Fin 0 \<le> round_pos x"
  unfolding round_pos_def Let_def by (simp add: round_even_nonneg_grid less_eq_dbl_def)

lemma round_grid_exact:
  assumes "m < 2 ^ 53" and "k \<ge> 0"
  shows "round_grid (of_nat (m * 2 ^ k)) = of_nat (m * 2 ^ k)"
proof (cases "m = 0")
  case True
  then show ?thesis by (simp add: round_grid_def round_even_def)
next
  case False
  let ?s = "grid_shift (of_nat (m * 2 ^ k))"
  have "floorlog 2 m \<le> 53" using assms by (intro floorlog_leI) simp_all
  moreover have "?s = floorlog 2 m + k - 53"
    using False unfolding grid_shift_def floor_of_nat nat_int by simp
  ultimately have s: "?s \<le> k" by simp
  then have "(of_nat (m * 2 ^ k) :: rat) / 2 ^ ?s = of_nat (m * 2 ^ (k - ?s))"
    by (simp add: field_simps flip: power_add)
  then have "round_even (of_nat (m * 2 ^ k) / 2 ^ ?s) = m * 2 ^ (k - ?s)"
    by (simp only: round_even_int)
  then show ?thesis
    using s unfolding round_grid_def by (simp flip: power_add)
qed

text \<open>The representable values: 53 significant bits, not below the least subnormal, finite.\<close>

definition representable :: "rat \<Rightarrow> bool" where
  "representable x \<longleftrightarrow>
     (\<exists>m k. m < (2 :: nat) ^ 53 \<and> \<bar>x\<bar> * 2 ^ 1074 = of_nat (m * 2 ^ k)) \<and> \<bar>x\<bar> < 2 ^ 1024"

lemma round_pos_exact:
  assumes "representable x" "0 \<le> x"
  shows "round_pos x = Fin x"
proof -
  from assms obtain m k where mk: "m < 2 ^ 53" "x * 2 ^ 1074 = of_nat (m * 2 ^ k)"
    and lt: "x < 2 ^ 1024"
    by (auto simp: representable_def)
  have "round_grid (x * 2 ^ 1074) = x * 2 ^ 1074"
    unfolding mk(2) by (rule round_grid_exact [OF mk(1)]) simp
  then have "round_grid (x * 2 ^ 1074) / 2 ^ 1074 = x"
    by (simp only: nonzero_mult_div_cancel_right [OF power_not_zero [OF zero_neq_numeral [symmetric]]])
  with lt show ?thesis by (simp only: round_pos_def Let_def if_True)
qed

lemma representable_minus [simp]: "representable (- x) = representable x"
  by (simp add: representable_def)

lemma rnd_exact: "representable x \<Longrightarrow> rnd x = Fin x"
  by (simp add: rnd_def round_pos_exact)

lemma representable_int:
  assumes "\<bar>n\<bar> < 2 ^ 53"
  shows "representable (of_int n)"
proof -
  have "\<bar>of_int n :: rat\<bar> * 2 ^ 1074 = of_nat (nat \<bar>n\<bar> * 2 ^ 1074)"
    by simp
  moreover have "nat \<bar>n\<bar> < 2 ^ 53" using assms by (simp add: nat_less_iff)
  moreover have "\<bar>of_int n :: rat\<bar> < 2 ^ 1024"
  proof -
    have "\<bar>of_int n :: rat\<bar> < of_int (2 ^ 53)"
      using assms unfolding of_int_abs [symmetric] of_int_less_iff .
    also have "\<dots> \<le> 2 ^ 1024" by simp
    finally show ?thesis .
  qed
  ultimately show ?thesis unfolding representable_def by blast
qed

lemma rnd_mono: "x \<le> y \<Longrightarrow> rnd x \<le> rnd y"
proof -
  assume xy: "x \<le> y"
  consider "0 \<le> x" | "x < 0" "0 \<le> y" | "y < 0" by linarith
  then show ?thesis
  proof cases
    case 1
    with xy show ?thesis by (simp add: rnd_def round_pos_mono)
  next
    case 2
    have "dneg (round_pos (- x)) \<le> Fin 0"
      using dneg_mono [OF round_pos_nonneg [of "- x"]] 2 by simp
    moreover have "Fin 0 \<le> round_pos y" using 2 by (simp add: round_pos_nonneg)
    ultimately have "dneg (round_pos (- x)) \<le> round_pos y" by (rule dle_trans)
    then show ?thesis using 2 by (simp add: rnd_def)
  next
    case 3
    with xy have "round_pos (- y) \<le> round_pos (- x)" by (intro round_pos_mono) simp_all
    with 3 xy show ?thesis by (simp add: rnd_def dneg_mono)
  qed
qed


lemma dyadic_scale:
  assumes "j \<le> N"
  shows "\<bar>of_int n / 2 ^ j :: rat\<bar> * 2 ^ N = of_nat (nat \<bar>n\<bar> * 2 ^ (N - j))"
proof -
  have "(2 :: rat) ^ N = 2 ^ j * 2 ^ (N - j)"
    using assms by (simp flip: power_add)
  then show ?thesis by (simp add: abs_divide)
qed

lemma representable_dyadic:
  assumes "\<bar>n\<bar> < 2 ^ 53" "j \<le> 1074"
  shows "representable (of_int n / 2 ^ j)"
proof -
  have "\<bar>of_int n / 2 ^ j :: rat\<bar> * 2 ^ 1074 = of_nat (nat \<bar>n\<bar> * 2 ^ (1074 - j))"
    by (rule dyadic_scale [OF assms(2)])
  moreover have "nat \<bar>n\<bar> < 2 ^ 53" using assms by (simp add: nat_less_iff)
  moreover have "\<bar>of_int n / 2 ^ j :: rat\<bar> \<le> \<bar>of_int n\<bar>"
    by (simp add: divide_le_eq mult_le_cancel_left1)
  moreover have "\<bar>of_int n :: rat\<bar> < 2 ^ 1024"
    using representable_int [OF assms(1)] by (simp only: representable_def)
  ultimately show ?thesis
    unfolding representable_def by (blast intro: le_less_trans)
qed

lemma representable_0 [simp]: "representable 0" and representable_1 [simp]: "representable 1"
  using representable_int [of 0] representable_int [of 1] by simp_all

lemma representable_numeral [simp]:
  "numeral n < (2 :: int) ^ 53 \<Longrightarrow> representable (numeral n)"
  using representable_int [of "numeral n"] by simp

lemma rnd_0 [simp]: "rnd 0 = Fin 0" and rnd_1 [simp]: "rnd 1 = Fin 1"
  by (simp_all add: rnd_exact)

lemma rnd_numeral [simp]: "numeral n < (2 :: int) ^ 53 \<Longrightarrow> rnd (numeral n) = Fin (numeral n)"
  by (simp add: rnd_exact)

lemma rnd_neg [simp]: "rnd (- x) = dneg (rnd x)"
proof -
  have "dneg (dneg a) = a" for a by (cases a) auto
  moreover have "round_pos 0 = Fin 0" by (rule round_pos_exact) simp_all
  ultimately show ?thesis by (cases "x = 0") (auto simp: rnd_def)
qed

lemma rnd_not_NaN [simp]: "rnd x \<noteq> DNaN"
proof -
  have "round_pos y \<noteq> DNaN" for y by (simp add: round_pos_def Let_def)
  then show ?thesis by (cases "round_pos (- x)") (auto simp: rnd_def)
qed

lemma rnd_le: "x \<le> y \<Longrightarrow> representable y \<Longrightarrow> rnd x \<le> Fin y"
  using rnd_mono [of x y] by (simp add: rnd_exact)

lemma rnd_ge: "x \<le> y \<Longrightarrow> representable x \<Longrightarrow> Fin x \<le> rnd y"
  using rnd_mono [of x y] by (simp add: rnd_exact)

lemma lit_nonneg: "0 \<le> x \<Longrightarrow> Fin 0 \<le> lit x"
  by (simp add: lit_def rnd_ge)

lemma between_finite:
  assumes "Fin x \<le> a" "a \<le> Fin y"
  obtains z where "a = Fin z" "x \<le> z" "z \<le> y"
  using assms by (cases a) (auto simp: less_eq_dbl_def)

lemma representable_power: "k \<le> 1023 \<Longrightarrow> representable (2 ^ k)"
proof -
  assume k: "k \<le> 1023"
  have "\<bar>2 ^ k :: rat\<bar> * 2 ^ 1074 = of_nat (1 * 2 ^ (k + 1074))"
    by (simp add: power_add)
  moreover have "(1 :: nat) < 2 ^ 53" by simp
  moreover have "\<bar>2 ^ k :: rat\<bar> < 2 ^ 1024"
    using k power_strict_increasing [of k 1024 "2 :: rat"] by simp
  ultimately show ?thesis unfolding representable_def by blast
qed

text \<open>What is between zero and a power of two stays there when it is rounded.\<close>

lemma rnd_between:
  assumes "0 \<le> x" "x \<le> 2 ^ k" "k \<le> 1023"
  shows "\<exists>z. rnd x = Fin z \<and> 0 \<le> z \<and> z \<le> 2 ^ k"
proof -
  have "Fin 0 \<le> rnd x" using assms(1) by (rule rnd_ge) simp
  moreover have "rnd x \<le> Fin (2 ^ k)"
    using assms(2) representable_power [OF assms(3)] by (rule rnd_le)
  ultimately obtain z where "rnd x = Fin z" "0 \<le> z" "z \<le> 2 ^ k"
    by (rule between_finite)
  then show ?thesis by blast
qed

lemma lit_unit: "0 \<le> x \<Longrightarrow> x \<le> 1 \<Longrightarrow> \<exists>z. lit x = Fin z \<and> 0 \<le> z \<and> z \<le> 1"
  using rnd_between [of x 0] by (simp add: lit_def)

lemma dbl_of_u64: "\<exists>z. dbl_of_word (w :: u64) = Fin z \<and> 0 \<le> z \<and> z \<le> 2 ^ 64"
proof -
  have "unat w < 2 ^ LENGTH(64)" by (rule unsigned_less)
  then have "unat w \<le> 2 ^ 64" by simp
  then have "rat_of_nat (unat w) \<le> rat_of_nat (2 ^ 64)" by (simp only: of_nat_le_iff)
  then show ?thesis
    unfolding dbl_of_word_def by (intro rnd_between of_nat_0_le_iff) simp_all
qed

text \<open>A count of nanoseconds in seconds is finite.\<close>

lemma seconds_finite: "\<exists>z. dbl_of_word (w :: u64) * lit (1 / 10 ^ 9) = Fin z \<and> 0 \<le> z"
proof -
  obtain y where y: "dbl_of_word w = Fin y" "0 \<le> y" "y \<le> 2 ^ 64" using dbl_of_u64 by blast
  obtain z where z: "lit (1 / 10 ^ 9) = Fin z" "0 \<le> z" "z \<le> 1"
    using lit_unit [of "1 / 10 ^ 9"] by auto
  have "y * z \<le> 2 ^ 64 * 1" using y z by (intro mult_mono) simp_all
  then have "\<exists>v. rnd (y * z) = Fin v \<and> 0 \<le> v \<and> v \<le> 2 ^ 64"
    using y z by (intro rnd_between) simp_all
  then show ?thesis unfolding y(1) z(1) times_Fin by blast
qed

end
