(* ===== verification/Damiao_Registers.thy ===== *)
theory Damiao_Registers
  imports Binary64
begin

text \<open>
  The part of the CAN codec (can/src/openarm_can.c) that the transport's frame classifier
  calls: the DaMiao register table and the register-write frame. A frame is an identifier, a
  length and eight bytes; a binary32 register value is carried as its bit pattern.
\<close>

record frame =
  can_id :: u32
  dlc :: u8
  data :: "u8 list"

datatype can_status = OA_CAN_OK | OA_CAN_EINVAL | OA_CAN_ERANGE

datatype register_value_type = OA_CAN_REGISTER_U32 | OA_CAN_REGISTER_F32

text \<open>\<open>oa_register_metadata\<close>: the type of a known register and whether it may be written.\<close>

definition oa_register_metadata :: "u32 \<Rightarrow> (register_value_type \<times> bool) option" where
  "oa_register_metadata rid =
     (if rid \<le> 36 \<or> (50 \<le> rid \<and> rid \<le> 55) \<or> (80 \<le> rid \<and> rid \<le> 81) then
        Some (if (7 \<le> rid \<and> rid \<le> 10) \<or> (13 \<le> rid \<and> rid \<le> 16) \<or> rid = 35 \<or> rid = 36
              then OA_CAN_REGISTER_U32 else OA_CAN_REGISTER_F32,
              rid \<le> 10 \<or> (21 \<le> rid \<and> rid \<le> 35))
      else None)"

definition oa_validate_register_u32 :: "u32 \<Rightarrow> u32 \<Rightarrow> can_status" where
  "oa_validate_register_u32 rid v =
     (if (rid = 7 \<or> rid = 8) \<and> v > 0x7ff then OA_CAN_ERANGE
      else if rid = 10 \<and> (v < 1 \<or> v > 4) then OA_CAN_ERANGE
      else if rid = 35 \<and> v > 9 then OA_CAN_ERANGE
      else OA_CAN_OK)"

text \<open>A binary32 bit pattern, widened to binary64 (exactly).\<close>

definition f32_value :: "u32 \<Rightarrow> dbl" where
  "f32_value w =
     (let s = (if bit w 31 then - 1 else 1 :: rat);
          e = unat (take_bit 8 (drop_bit 23 w));
          m = unat (take_bit 23 w)
      in if e = 255 then (if m \<noteq> 0 then DNaN else if bit w 31 then DNegInf else DPosInf)
         else if e = 0 then Fin (s * of_nat m / 2 ^ 149)
         else Fin (s * of_nat (2 ^ 23 + m) * 2 ^ e / 2 ^ 150))"

definition oa_validate_register_f32 :: "u32 \<Rightarrow> u32 \<Rightarrow> can_status" where
  "oa_validate_register_f32 rid bits =
     (let v = f32_value bits in
      if \<not> disfinite v then OA_CAN_EINVAL
      else if (rid = 0 \<and> v \<le> Fin 10) \<or> (rid = 1 \<and> v < Fin 0)
        \<or> (rid = 2 \<and> (v < Fin 80 \<or> Fin 200 \<le> v)) \<or> (rid = 3 \<and> (v \<le> Fin 0 \<or> Fin 1 \<le> v))
        \<or> (rid = 4 \<and> v \<le> Fin 0) \<or> (rid = 5 \<and> Fin 0 \<le> v) \<or> (rid = 6 \<and> v \<le> Fin 0)
        \<or> ((rid = 21 \<or> rid = 22 \<or> rid = 23) \<and> v \<le> Fin 0)
        \<or> (rid = 24 \<and> (v < Fin 100 \<or> Fin 10000 < v))
        \<or> (25 \<le> rid \<and> rid \<le> 28 \<and> v < Fin 0)
        \<or> (rid = 30 \<and> (v \<le> Fin 0 \<or> Fin 1 < v)) \<or> (rid = 31 \<and> (v < Fin 1 \<or> Fin 30 < v))
        \<or> (rid = 32 \<and> (v \<le> Fin 0 \<or> Fin 500 \<le> v))
        \<or> (rid = 33 \<and> (v < Fin 100 \<or> Fin 10000 < v))
        \<or> (rid = 34 \<and> (v \<le> Fin 0 \<or> Fin 10000 < v)) then OA_CAN_ERANGE
      else OA_CAN_OK)"

record register_write =
  send_id :: u16
  register_id :: u32
  value_type :: register_value_type
  value_u32 :: u32
  value_f32 :: u32

definition oa_valid_standard_id :: "u16 \<Rightarrow> bool" where
  "oa_valid_standard_id i \<longleftrightarrow> 0 < i \<and> i \<le> 0x7ff"

definition le_bytes32 :: "u32 \<Rightarrow> u8 list" where
  "le_bytes32 v = [byte_of 0 v, byte_of 1 v, byte_of 2 v, byte_of 3 v]"

text \<open>
  \<open>oa_can_make_register_write\<close>. The caller's record always carries its own size, version and a
  zero reserved field, and the bit pattern of 0.0f and -0.0f compare equal to 0.0f.
\<close>

definition oa_can_make_register_write :: "register_write \<Rightarrow> can_status + frame" where
  "oa_can_make_register_write w =
     (if \<not> oa_valid_standard_id (send_id w) then Inl OA_CAN_EINVAL
      else case oa_register_metadata (register_id w) of None \<Rightarrow> Inl OA_CAN_EINVAL
      | Some (ty, writable) \<Rightarrow>
          if \<not> writable \<or> value_type w \<noteq> ty then Inl OA_CAN_EINVAL
          else if (if ty = OA_CAN_REGISTER_U32 then \<not> deq (f32_value (value_f32 w)) (Fin 0)
                   else value_u32 w \<noteq> 0) then Inl OA_CAN_EINVAL
          else let status = (if ty = OA_CAN_REGISTER_U32
                             then oa_validate_register_u32 (register_id w) (value_u32 w)
                             else oa_validate_register_f32 (register_id w) (value_f32 w));
                   raw = (if ty = OA_CAN_REGISTER_U32 then value_u32 w else value_f32 w)
               in if status \<noteq> OA_CAN_OK then Inl status
                  else Inr \<lparr>can_id = 0x7ff, dlc = 8,
                            data = [byte_of 0 (send_id w), byte_of 1 (send_id w), 0x55,
                                    ucast (register_id w)] @ le_bytes32 raw\<rparr>)"

lemma make_register_write_target:
  "oa_can_make_register_write w = Inr f \<Longrightarrow> oa_valid_standard_id (send_id w)"
  by (auto simp: oa_can_make_register_write_def split: if_splits)

lemma make_register_write_writable:
  "oa_can_make_register_write w = Inr f \<Longrightarrow>
     \<exists>ty. oa_register_metadata (register_id w) = Some (ty, True) \<and> value_type w = ty"
  by (auto simp: oa_can_make_register_write_def split: if_splits option.splits)

lemma f32_value_0 [simp]: "f32_value 0 = Fin 0"
  by (simp add: f32_value_def)

end
