(* ===== verification/Transport.thy ===== *)
theory Transport
  imports Damiao_Registers
begin

text \<open>
  The transport of transport/src/transport.cpp and transport_internal.hpp: the classification
  of a frame before it is sent, the one-shot authorities that license a dangerous frame, and
  the four operations of the class \<open>Transport\<close> over an abstract \<open>Backend\<close>. The object's mutexes
  serialise the operations, so each is one step on the state.
\<close>

datatype transport_status =
    OA_TRANSPORT_OK | OA_TRANSPORT_EINVAL | OA_TRANSPORT_EABI | OA_TRANSPORT_ERANGE
  | OA_TRANSPORT_EPERMISSION | OA_TRANSPORT_ETIMEOUT | OA_TRANSPORT_ECLOSED | OA_TRANSPORT_EIO
  | OA_TRANSPORT_ELINK | OA_TRANSPORT_EFRAME | OA_TRANSPORT_ENOMEM | OA_TRANSPORT_EUNSUPPORTED

datatype frame_class =
    OA_TRANSPORT_FRAME_REGISTER_QUERY | OA_TRANSPORT_FRAME_STATUS_QUERY
  | OA_TRANSPORT_FRAME_DISABLE | OA_TRANSPORT_FRAME_ENABLE | OA_TRANSPORT_FRAME_MOTION
  | OA_TRANSPORT_FRAME_REGISTER_WRITE | OA_TRANSPORT_FRAME_SET_ZERO
  | OA_TRANSPORT_FRAME_CLEAR_ERROR | OA_TRANSPORT_FRAME_SAVE_PARAMETERS
  | OA_TRANSPORT_FRAME_UNKNOWN

datatype event_kind =
    OA_TRANSPORT_EVENT_FRAME | OA_TRANSPORT_EVENT_CAN_ERROR | OA_TRANSPORT_EVENT_LINK

datatype transport_clock = OA_TRANSPORT_CLOCK_NONE | OA_TRANSPORT_CLOCK_REALTIME

abbreviation OA_TRANSPORT_SFF_MASK :: u32 where
  "OA_TRANSPORT_SFF_MASK \<equiv> 0x7ff"

abbreviation OA_TRANSPORT_CAN_ERROR_MASK :: u32 where
  "OA_TRANSPORT_CAN_ERROR_MASK \<equiv> 0x1fffffff"

record event =
  ev_kind :: event_kind
  ev_flags :: u32
  dequeue_monotonic_ns :: u64
  kernel_timestamp_ns :: u64
  kernel_timestamp_clock :: transport_clock
  ev_can_error_mask :: u32
  rx_overflow_count :: u32
  rx_overflow_delta :: u32
  ev_link_up :: bool
  ev_frame :: frame

definition empty_frame :: frame where
  "empty_frame = \<lparr>can_id = 0, dlc = 0, data = replicate 8 0\<rparr>"

definition default_event :: event where
  "default_event = \<lparr>ev_kind = OA_TRANSPORT_EVENT_FRAME, ev_flags = 0, dequeue_monotonic_ns = 0,
     kernel_timestamp_ns = 0, kernel_timestamp_clock = OA_TRANSPORT_CLOCK_NONE,
     ev_can_error_mask = 0, rx_overflow_count = 0, rx_overflow_delta = 0, ev_link_up = False,
     ev_frame = empty_frame\<rparr>"

section \<open>Frame classification\<close>

definition allBytes :: "frame \<Rightarrow> nat \<Rightarrow> nat \<Rightarrow> u8 \<Rightarrow> bool" where
  "allBytes f first stop v \<longleftrightarrow> list_all (\<lambda>i. data f ! i = v) [first ..< stop]"

definition targetId :: "frame \<Rightarrow> u16" where
  "targetId f = ucast (data f ! 0) OR push_bit 8 (ucast (data f ! 1))"

definition validMotorTarget :: "u16 \<Rightarrow> bool" where
  "validMotorTarget t \<longleftrightarrow> 0 < t \<and> t < 0x7ff"

definition readU32 :: "u8 list \<Rightarrow> u32" where
  "readU32 d = ucast (d ! 0) OR push_bit 8 (ucast (d ! 1)) OR push_bit 16 (ucast (d ! 2))
     OR push_bit 24 (ucast (d ! 3))"

definition knownRegister :: "u8 \<Rightarrow> bool" where
  "knownRegister r \<longleftrightarrow> oa_register_metadata (ucast r) \<noteq> None"

text \<open>
  A register write is accepted when re-encoding what it says gives back the very same frame.
\<close>

definition register_write_of :: "frame \<Rightarrow> register_value_type \<Rightarrow> register_write" where
  "register_write_of f ty =
     (let raw = readU32 (drop 4 (data f)) in
      \<lparr>send_id = targetId f, register_id = ucast (data f ! 3), value_type = ty,
       value_u32 = (if ty = OA_CAN_REGISTER_U32 then raw else 0),
       value_f32 = (if ty = OA_CAN_REGISTER_U32 then 0 else raw)\<rparr>)"

definition validRegisterWrite :: "frame \<Rightarrow> bool" where
  "validRegisterWrite f \<longleftrightarrow>
     validMotorTarget (targetId f) \<and>
     (case oa_register_metadata (ucast (data f ! 3)) of None \<Rightarrow> False
      | Some (ty, writable) \<Rightarrow> writable \<and>
          (case oa_can_make_register_write (register_write_of f ty) of Inl _ \<Rightarrow> False
           | Inr expected \<Rightarrow> can_id expected = can_id f \<and> dlc expected = dlc f
                             \<and> data expected = data f))"

definition framesEqual :: "frame \<Rightarrow> frame \<Rightarrow> bool" where
  "framesEqual l r \<longleftrightarrow> can_id l = can_id r \<and> dlc l = dlc r \<and> data l = data r"

definition dangerousClass :: "frame_class \<Rightarrow> bool" where
  "dangerousClass c \<longleftrightarrow>
     c \<in> {OA_TRANSPORT_FRAME_DISABLE, OA_TRANSPORT_FRAME_ENABLE, OA_TRANSPORT_FRAME_REGISTER_WRITE,
          OA_TRANSPORT_FRAME_SET_ZERO, OA_TRANSPORT_FRAME_CLEAR_ERROR,
          OA_TRANSPORT_FRAME_SAVE_PARAMETERS}"

definition queryClass :: "frame_class \<Rightarrow> bool" where
  "queryClass c \<longleftrightarrow> c = OA_TRANSPORT_FRAME_REGISTER_QUERY \<or> c = OA_TRANSPORT_FRAME_STATUS_QUERY"

definition classify :: "frame \<Rightarrow> transport_status + frame_class" where
  "classify f =
     (if dlc f \<noteq> 8 \<or> can_id f > OA_TRANSPORT_SFF_MASK then Inl OA_TRANSPORT_EFRAME
      else if can_id f = 0 then Inr OA_TRANSPORT_FRAME_UNKNOWN
      else if can_id f = OA_TRANSPORT_SFF_MASK then
        Inr (let target = targetId f in
             if data f ! 2 = 0x33 \<and> validMotorTarget target \<and> knownRegister (data f ! 3)
                \<and> allBytes f 4 8 0 then OA_TRANSPORT_FRAME_REGISTER_QUERY
             else if data f ! 2 = 0xcc \<and> validMotorTarget target \<and> allBytes f 3 8 0
             then OA_TRANSPORT_FRAME_STATUS_QUERY
             else if data f ! 2 = 0x55 \<and> validRegisterWrite f
             then OA_TRANSPORT_FRAME_REGISTER_WRITE
             else if data f ! 2 = 0xaa \<and> validMotorTarget target \<and> allBytes f 3 8 0
             then OA_TRANSPORT_FRAME_SAVE_PARAMETERS
             else OA_TRANSPORT_FRAME_UNKNOWN)
      else if allBytes f 0 7 0xff then
        Inr (if data f ! 7 = 0xfc then OA_TRANSPORT_FRAME_ENABLE
             else if data f ! 7 = 0xfd then OA_TRANSPORT_FRAME_DISABLE
             else if data f ! 7 = 0xfe then OA_TRANSPORT_FRAME_SET_ZERO
             else if data f ! 7 = 0xfb then OA_TRANSPORT_FRAME_CLEAR_ERROR
             else OA_TRANSPORT_FRAME_UNKNOWN)
      else Inr OA_TRANSPORT_FRAME_UNKNOWN)"

section \<open>The operating system's randomness\<close>

text \<open>
  \<open>secureRandom64\<close> retries \<open>getrandom\<close> while it is interrupted. The results of the successive
  calls are a tape; \<open>None\<close> is a loop still running when the tape ends.
\<close>

datatype getrandom_result = Got_bytes nat u64 | Interrupted | Random_failed

fun secureRandom64 ::
  "getrandom_result list \<Rightarrow> ((transport_status + u64) \<times> getrandom_result list) option" where
  "secureRandom64 [] = None"
| "secureRandom64 (Got_bytes n v # rs) =
     Some (if n = 8 then (if v = 0 then Inl OA_TRANSPORT_EIO else Inr v)
           else Inl OA_TRANSPORT_EIO, rs)"
| "secureRandom64 (Interrupted # rs) = secureRandom64 rs"
| "secureRandom64 (Random_failed # rs) = Some (Inl OA_TRANSPORT_EIO, rs)"

lemma secureRandom64_shorter: "secureRandom64 rs = Some (r, rs') \<Longrightarrow> length rs' < length rs"
  by (induction rs rule: secureRandom64.induct) (auto split: if_splits)

section \<open>The abstract backend and the transport's state\<close>

text \<open>
  The pure virtual class \<open>Backend\<close>. An operation that waits may still be waiting when the
  answers of the operating system its state carries end: it is then \<open>None\<close>, and so is the
  transport's operation that called it.
\<close>

record 'b backend_ops =
  be_now :: "'b \<Rightarrow> ((transport_status + u64) \<times> 'b) option"
  be_send :: "frame \<Rightarrow> u64 \<Rightarrow> 'b \<Rightarrow> ((transport_status + u64) \<times> 'b) option"
  be_receive :: "u64 \<Rightarrow> 'b \<Rightarrow> ((transport_status + event) \<times> 'b) option"
  be_close :: "'b \<Rightarrow> 'b"
  be_permits :: "'b \<Rightarrow> bool"

record authority =
  auth_nonce :: "u64 \<times> u64"
  token_id :: u64

record grant =
  exact_frame :: frame
  grant_class :: frame_class
  expiry_ns :: u64

record 'b transport =
  backend :: 'b
  instance_nonce :: "u64 \<times> u64"
  max_deadline_horizon_ns :: u64
  closed :: bool
  grants :: "u64 \<rightharpoonup> grant"

definition new_transport :: "'b \<Rightarrow> u64 \<times> u64 \<Rightarrow> u64 \<Rightarrow> 'b transport" where
  "new_transport b nonce horizon =
     \<lparr>backend = b, instance_nonce = nonce, max_deadline_horizon_ns = horizon, closed = False,
      grants = Map.empty\<rparr>"

definition validateDeadline :: "'b transport \<Rightarrow> u64 \<Rightarrow> u64 \<Rightarrow> transport_status" where
  "validateDeadline t deadline now =
     (if deadline \<le> now then OA_TRANSPORT_ETIMEOUT
      else if deadline - now > max_deadline_horizon_ns t then OA_TRANSPORT_ERANGE
      else OA_TRANSPORT_OK)"

definition consumeAuthority ::
  "authority pointer \<Rightarrow> frame \<Rightarrow> frame_class \<Rightarrow> u64 \<Rightarrow> u64 \<Rightarrow> 'b transport
     \<Rightarrow> transport_status \<times> 'b transport" where
  "consumeAuthority auth f c now deadline t =
     (case auth of None \<Rightarrow> (OA_TRANSPORT_EPERMISSION, t)
      | Some a \<Rightarrow>
          if auth_nonce a \<noteq> instance_nonce t then (OA_TRANSPORT_EPERMISSION, t)
          else case grants t (token_id a) of None \<Rightarrow> (OA_TRANSPORT_EPERMISSION, t)
          | Some g \<Rightarrow>
              if expiry_ns g \<le> now
              then (OA_TRANSPORT_EPERMISSION, t\<lparr>grants := (grants t)(token_id a := None)\<rparr>)
              else if deadline > expiry_ns g \<or> grant_class g \<noteq> c \<or> \<not> framesEqual (exact_frame g) f
              then (OA_TRANSPORT_EPERMISSION, t)
              else (OA_TRANSPORT_OK, t\<lparr>grants := (grants t)(token_id a := None)\<rparr>))"

text \<open>\<open>Transport::send\<close>: the class and the time of transmission, or the error.\<close>

definition transport_send ::
  "'b backend_ops \<Rightarrow> frame \<Rightarrow> u64 \<Rightarrow> authority pointer \<Rightarrow> 'b transport
     \<Rightarrow> ((transport_status + frame_class \<times> u64) \<times> 'b transport) option" where
  "transport_send ops f deadline auth t =
     (if closed t then Some (Inl OA_TRANSPORT_ECLOSED, t)
      else case classify f of Inl e \<Rightarrow> Some (Inl e, t)
      | Inr c \<Rightarrow>
          if c = OA_TRANSPORT_FRAME_UNKNOWN \<or> c = OA_TRANSPORT_FRAME_MOTION
          then Some (Inl OA_TRANSPORT_EFRAME, t)
          else case be_now ops (backend t) of None \<Rightarrow> None
          | Some (Inl e, b) \<Rightarrow> Some (Inl e, t\<lparr>backend := b\<rparr>)
          | Some (Inr now, b) \<Rightarrow>
              let t1 = t\<lparr>backend := b\<rparr>; v = validateDeadline t1 deadline now in
              if v \<noteq> OA_TRANSPORT_OK then Some (Inl v, t1)
              else let (p, t2) = (if queryClass c
                                  then (if auth \<noteq> None then OA_TRANSPORT_EPERMISSION
                                        else OA_TRANSPORT_OK, t1)
                                  else consumeAuthority auth f c now deadline t1) in
              if p \<noteq> OA_TRANSPORT_OK then Some (Inl p, t2)
              else case be_send ops f deadline (backend t2) of None \<Rightarrow> None
              | Some (Inl e, b') \<Rightarrow> Some (Inl e, t2\<lparr>backend := b'\<rparr>)
              | Some (Inr sent, b') \<Rightarrow> Some (Inr (c, sent), t2\<lparr>backend := b'\<rparr>))"

definition transport_receive ::
  "'b backend_ops \<Rightarrow> u64 \<Rightarrow> 'b transport
     \<Rightarrow> ((transport_status + event) \<times> 'b transport) option" where
  "transport_receive ops deadline t =
     (if closed t then Some (Inl OA_TRANSPORT_ECLOSED, t)
      else case be_now ops (backend t) of None \<Rightarrow> None
      | Some (Inl e, b) \<Rightarrow> Some (Inl e, t\<lparr>backend := b\<rparr>)
      | Some (Inr now, b) \<Rightarrow>
          let t1 = t\<lparr>backend := b\<rparr>; v = validateDeadline t1 deadline now in
          if v \<noteq> OA_TRANSPORT_OK then Some (Inl v, t1)
          else case be_receive ops deadline (backend t1) of None \<Rightarrow> None
          | Some (r, b') \<Rightarrow> Some (r, t1\<lparr>backend := b'\<rparr>))"

definition transport_close :: "'b backend_ops \<Rightarrow> 'b transport \<Rightarrow> 'b transport" where
  "transport_close ops t =
     t\<lparr>closed := True, backend := be_close ops (backend t), grants := Map.empty\<rparr>"

section \<open>Issuing an authority\<close>

abbreviation kMaximumAuthorityLifetimeNs :: u64 where
  "kMaximumAuthorityLifetimeNs \<equiv> 5000000000"

text \<open>The \<open>do ... while\<close> that draws tokens until one is not in use.\<close>

function draw_token ::
  "(u64 \<rightharpoonup> grant) \<Rightarrow> getrandom_result list
     \<Rightarrow> ((transport_status + u64) \<times> getrandom_result list) option" where
  "draw_token gs rs =
     (case secureRandom64 rs of None \<Rightarrow> None
      | Some (Inl e, rs') \<Rightarrow> Some (Inl e, rs')
      | Some (Inr tok, rs') \<Rightarrow> if gs tok \<noteq> None then draw_token gs rs' else Some (Inr tok, rs'))"
  by pat_completeness auto
termination
  by (relation "measure (\<lambda>(_, rs). length rs)") (auto dest: secureRandom64_shorter)

declare draw_token.simps [simp del]

text \<open>Where memory may run out: inserting the grant, or allocating the authority after it.\<close>

datatype allocation = Alloc_ok | Grant_alloc_fails | Authority_alloc_fails

definition issueAuthority ::
  "'b backend_ops \<Rightarrow> frame \<Rightarrow> u64 \<Rightarrow> getrandom_result list \<Rightarrow> allocation \<Rightarrow> 'b transport
     \<Rightarrow> ((transport_status + authority) \<times> getrandom_result list \<times> 'b transport) option" where
  "issueAuthority ops f expiry rs alloc t =
     (if closed t then Some (Inl OA_TRANSPORT_ECLOSED, rs, t)
      else if \<not> be_permits ops (backend t) then Some (Inl OA_TRANSPORT_EPERMISSION, rs, t)
      else case classify f of Inl e \<Rightarrow> Some (Inl e, rs, t)
      | Inr c \<Rightarrow>
          if \<not> dangerousClass c then Some (Inl OA_TRANSPORT_EFRAME, rs, t)
          else case be_now ops (backend t) of None \<Rightarrow> None
          | Some (Inl e, b) \<Rightarrow> Some (Inl e, rs, t\<lparr>backend := b\<rparr>)
          | Some (Inr now, b) \<Rightarrow>
              let t1 = t\<lparr>backend := b\<rparr> in
              if expiry \<le> now \<or> expiry - now > kMaximumAuthorityLifetimeNs
              then Some (Inl OA_TRANSPORT_ERANGE, rs, t1)
              else case draw_token (grants t1) rs of None \<Rightarrow> None
              | Some (Inl e, rs') \<Rightarrow> Some (Inl e, rs', t1)
              | Some (Inr tok, rs') \<Rightarrow>
                  case alloc of
                    Grant_alloc_fails \<Rightarrow> Some (Inl OA_TRANSPORT_ENOMEM, rs', t1)
                  | Authority_alloc_fails \<Rightarrow>
                      Some (Inl OA_TRANSPORT_ENOMEM, rs',
                            t1\<lparr>grants := ((grants t1)(tok \<mapsto> \<lparr>exact_frame = f, grant_class = c,
                                            expiry_ns = expiry\<rparr>))(tok := None)\<rparr>)
                  | Alloc_ok \<Rightarrow>
                      Some (Inr \<lparr>auth_nonce = instance_nonce t1, token_id = tok\<rparr>, rs',
                            t1\<lparr>grants := (grants t1)(tok \<mapsto> \<lparr>exact_frame = f, grant_class = c,
                                           expiry_ns = expiry\<rparr>)\<rparr>))"

end
