(* ===== verification/Transport_Safety.thy ===== *)
theory Transport_Safety
  imports Transport
begin

text \<open>
  What the transport guarantees: the shape of the frames each class stands for, that a
  dangerous frame needs an authority issued for exactly that frame and uses it up, and that a
  backend which issues no authority carries queries only.
\<close>

section \<open>The frames of a class\<close>

lemma classify_not_motion: "classify f \<noteq> Inr OA_TRANSPORT_FRAME_MOTION"
  by (auto simp: classify_def Let_def split: if_splits)

lemma classify_length: "classify f = Inr c \<Longrightarrow> dlc f = 8 \<and> can_id f \<le> 0x7ff"
  by (auto simp: classify_def not_less split: if_splits)

lemma classify_sendable:
  assumes "classify f = Inr c" "c \<noteq> OA_TRANSPORT_FRAME_UNKNOWN"
  shows "queryClass c \<or> dangerousClass c"
  using assms classify_not_motion [of f]
  by (cases c) (auto simp: queryClass_def dangerousClass_def)

lemma query_not_dangerous: "queryClass c \<Longrightarrow> \<not> dangerousClass c"
  by (auto simp: queryClass_def dangerousClass_def)

lemma classify_query_frame:
  assumes "classify f = Inr c" "queryClass c"
  shows "can_id f = 0x7ff \<and> validMotorTarget (targetId f) \<and> data f ! 2 \<in> {0x33, 0xcc}
    \<and> allBytes f 4 8 0"
  using assms by (auto simp: classify_def queryClass_def Let_def allBytes_def split: if_splits)

lemma classify_service:
  assumes "classify f = Inr c" "c \<noteq> OA_TRANSPORT_FRAME_UNKNOWN" "can_id f = 0x7ff"
  shows "validMotorTarget (targetId f) \<and> data f ! 2 \<in> {0x33, 0xcc, 0x55, 0xaa}"
proof -
  have "validMotorTarget (targetId f)" if "validRegisterWrite f"
    using that by (simp add: validRegisterWrite_def)
  with assms show ?thesis by (simp add: classify_def Let_def split: if_splits)
qed

lemma classify_command:
  assumes "classify f = Inr c" "c \<noteq> OA_TRANSPORT_FRAME_UNKNOWN" "can_id f \<noteq> 0x7ff"
  shows "can_id f \<noteq> 0 \<and> allBytes f 0 7 0xff \<and> data f ! 7 \<in> {0xfb, 0xfc, 0xfd, 0xfe}"
  using assms by (simp add: classify_def split: if_splits)

lemma byte_join:
  "(ucast (byte_of 0 (x :: u16)) OR push_bit 8 (ucast (byte_of 1 x))) = x"
proof (rule bit_word_eqI)
  fix n assume "n < LENGTH(16)"
  then show "bit (ucast (byte_of 0 x) OR push_bit 8 (ucast (byte_of 1 x)) :: u16) n \<longleftrightarrow> bit x n"
    by (auto simp: byte_of_def bit_simps not_less)
qed

lemma readU32_le_bytes32: "readU32 (le_bytes32 v) = v"
proof (rule bit_word_eqI)
  fix n assume "n < LENGTH(32)"
  then consider "n < 8" | "8 \<le> n" "n < 16" | "16 \<le> n" "n < 24" | "24 \<le> n" "n < 32"
    by fastforce
  then show "bit (readU32 (le_bytes32 v)) n \<longleftrightarrow> bit v n"
    unfolding readU32_def le_bytes32_def byte_of_def
    by cases (auto simp: bit_simps)
qed

lemma register_id_byte:
  assumes "oa_register_metadata r = Some x"
  shows "ucast (ucast r :: u8) = (r :: u32)"
proof -
  have "r \<le> 81" using assms
    by (auto simp: oa_register_metadata_def word_le_nat_alt split: if_splits)
  then have "unat r < 256" by (simp add: word_le_nat_alt)
  then show ?thesis by (simp add: word_unat_eq_iff unsigned_ucast_eq unsigned_take_bit_eq)
      (simp add: take_bit_nat_eq_self)
qed

section \<open>The calls of one transport\<close>

text \<open>
  A caller's call with its arguments, and what the call did: a frame that went out, an
  authority that was issued, or anything else.
\<close>

datatype transport_call =
    Call_send frame u64 "authority pointer"
  | Call_receive u64
  | Call_close
  | Call_issue frame u64 "getrandom_result list" allocation

datatype transport_effect =
    Sent frame frame_class "authority pointer" u64
  | Issued frame authority
  | Other_effect

definition transport_call_step ::
  "'b backend_ops \<Rightarrow> transport_call \<Rightarrow> 'b transport \<Rightarrow> (transport_effect \<times> 'b transport) option" where
  "transport_call_step ops c t =
     (case c of
        Call_send f d a \<Rightarrow>
          (case transport_send ops f d a t of None \<Rightarrow> None
           | Some (Inl _, t') \<Rightarrow> Some (Other_effect, t')
           | Some (Inr (k, sent), t') \<Rightarrow> Some (Sent f k a sent, t'))
      | Call_receive d \<Rightarrow> map_option (\<lambda>(_, t'). (Other_effect, t')) (transport_receive ops d t)
      | Call_close \<Rightarrow> Some (Other_effect, transport_close ops t)
      | Call_issue f e rs al \<Rightarrow>
          (case issueAuthority ops f e rs al t of None \<Rightarrow> None
           | Some (Inl _, _, t') \<Rightarrow> Some (Other_effect, t')
           | Some (Inr a, _, t') \<Rightarrow> Some (Issued f a, t')))"

fun transport_run ::
  "'b backend_ops \<Rightarrow> transport_call list \<Rightarrow> 'b transport
     \<Rightarrow> (transport_effect list \<times> 'b transport) option" where
  "transport_run ops [] t = Some ([], t)"
| "transport_run ops (c # cs) t =
     (case transport_call_step ops c t of None \<Rightarrow> None
      | Some (e, t') \<Rightarrow> map_option (\<lambda>(es, t''). (e # es, t'')) (transport_run ops cs t'))"

section \<open>Consuming an authority\<close>

lemma consume_ok:
  assumes "consumeAuthority auth f c now deadline t = (OA_TRANSPORT_OK, t')"
  shows "\<exists>a g. auth = Some a \<and> auth_nonce a = instance_nonce t \<and> grants t (token_id a) = Some g
    \<and> now < expiry_ns g \<and> deadline \<le> expiry_ns g \<and> grant_class g = c \<and> framesEqual (exact_frame g) f
    \<and> t' = t\<lparr>grants := (grants t)(token_id a := None)\<rparr>"
  using assms
  by (auto simp: consumeAuthority_def not_le not_less split: option.splits if_splits)

lemma consume_grants:
  "consumeAuthority auth f c now deadline t = (p, t') \<Longrightarrow>
     grants t' = grants t \<or> (\<exists>a. auth = Some a \<and> auth_nonce a = instance_nonce t
       \<and> grants t' = (grants t)(token_id a := None))"
  by (auto simp: consumeAuthority_def split: option.splits if_splits)

lemma consume_frame [frame_rules]:
  "consumeAuthority auth f c now deadline t = (p, t') \<Longrightarrow>
     backend t' = backend t \<and> instance_nonce t' = instance_nonce t \<and> closed t' = closed t
     \<and> max_deadline_horizon_ns t' = max_deadline_horizon_ns t"
  by (auto simp: consumeAuthority_def split: option.splits if_splits)

lemma framesEqual_iff: "framesEqual f g \<longleftrightarrow> f = (g :: frame)"
  by (cases f, cases g) (auto simp: framesEqual_def)

text \<open>Everything a successful send went through.\<close>

lemma send_ok:
  assumes "transport_send ops f deadline auth t = Some (Inr (c, sent), t')"
  obtains now b b' t2 where
    "\<not> closed t" "classify f = Inr c" "be_now ops (backend t) = Some (Inr now, b)"
    "now < deadline" "deadline - now \<le> max_deadline_horizon_ns t"
    "be_send ops f deadline b = Some (Inr sent, b')" "t' = t2\<lparr>backend := b'\<rparr>"
    "queryClass c \<and> auth = None \<and> t2 = t\<lparr>backend := b\<rparr>
     \<or> dangerousClass c
       \<and> consumeAuthority auth f c now deadline (t\<lparr>backend := b\<rparr>) = (OA_TRANSPORT_OK, t2)"
proof -
  from assms obtain now b where *: "\<not> closed t" "classify f = Inr c"
      "c \<noteq> OA_TRANSPORT_FRAME_UNKNOWN" "be_now ops (backend t) = Some (Inr now, b)"
      "validateDeadline (t\<lparr>backend := b\<rparr>) deadline now = OA_TRANSPORT_OK"
    by (auto simp: transport_send_def Let_def split: if_splits sum.splits option.splits prod.splits)
  then have d: "now < deadline" "deadline - now \<le> max_deadline_horizon_ns t"
    by (auto simp: validateDeadline_def not_le not_less split: if_splits)
  have cl: "queryClass c \<or> dangerousClass c" using classify_sendable * by blast
  from assms * cl obtain t2 b' where
      "be_send ops f deadline (backend t2) = Some (Inr sent, b')" "t' = t2\<lparr>backend := b'\<rparr>"
      "queryClass c \<and> auth = None \<and> t2 = t\<lparr>backend := b\<rparr>
       \<or> dangerousClass c
         \<and> consumeAuthority auth f c now deadline (t\<lparr>backend := b\<rparr>) = (OA_TRANSPORT_OK, t2)"
    by (auto simp: transport_send_def Let_def query_not_dangerous
        split: if_splits sum.splits option.splits prod.splits)
  moreover from this have "backend t2 = b" by (auto dest: consume_frame)
  ultimately show thesis using that * d by metis
qed

section \<open>Register writes\<close>

lemma make_register_write_shape:
  assumes "oa_can_make_register_write w = Inr f"
  shows "f = \<lparr>can_id = 0x7ff, dlc = 8, data = [byte_of 0 (send_id w), byte_of 1 (send_id w), 0x55,
      ucast (register_id w)] @ le_bytes32 (if value_type w = OA_CAN_REGISTER_U32 then value_u32 w
                                           else value_f32 w)\<rparr>"
  using assms by (auto simp: oa_can_make_register_write_def Let_def split: if_splits option.splits)

lemma register_write_of_made:
  assumes "oa_can_make_register_write w = Inr f"
  shows "oa_can_make_register_write (register_write_of f (value_type w)) = Inr f"
proof -
  obtain ty where meta: "oa_register_metadata (register_id w) = Some (ty, True)"
    and ty: "value_type w = ty" using make_register_write_writable [OF assms] by blast
  define raw where "raw = (if ty = OA_CAN_REGISTER_U32 then value_u32 w else value_f32 w)"
  have f: "f = \<lparr>can_id = 0x7ff, dlc = 8, data = [byte_of 0 (send_id w), byte_of 1 (send_id w), 0x55,
      ucast (register_id w)] @ le_bytes32 raw\<rparr>"
    using make_register_write_shape [OF assms] by (simp add: raw_def ty)
  have target: "targetId f = send_id w"
    by (simp add: f targetId_def byte_join [unfolded One_nat_def])
  have rid: "ucast (data f ! 3) = register_id w"
    using register_id_byte [OF meta] by (simp add: f)
  have raw': "readU32 (drop 4 (data f)) = raw"
    by (simp add: f readU32_le_bytes32)
  have "register_write_of f ty = \<lparr>send_id = send_id w, register_id = register_id w, value_type = ty,
      value_u32 = (if ty = OA_CAN_REGISTER_U32 then raw else 0),
      value_f32 = (if ty = OA_CAN_REGISTER_U32 then 0 else raw)\<rparr>"
    by (simp add: register_write_of_def target rid raw' Let_def)
  then show ?thesis
    using assms meta
    by (auto simp: ty oa_can_make_register_write_def raw_def deq_def Let_def split: if_splits)
qed

lemma validRegisterWrite_made:
  assumes "oa_can_make_register_write w = Inr f" "send_id w \<noteq> 0x7ff"
  shows "validRegisterWrite f"
proof -
  obtain ty where meta: "oa_register_metadata (register_id w) = Some (ty, True)"
    and ty: "value_type w = ty" using make_register_write_writable [OF assms(1)] by blast
  note f = make_register_write_shape [OF assms(1)]
  have "validMotorTarget (send_id w)"
    using make_register_write_target [OF assms(1)] assms(2)
    by (simp add: validMotorTarget_def oa_valid_standard_id_def order_less_le)
  then have "validMotorTarget (targetId f)"
    by (simp add: f targetId_def byte_join [unfolded One_nat_def])
  moreover have "oa_register_metadata (ucast (data f ! 3)) = Some (ty, True)"
    using meta register_id_byte [OF meta] by (simp add: f)
  ultimately show ?thesis
    using register_write_of_made [OF assms(1)] ty by (simp add: validRegisterWrite_def)
qed

lemma classify_made:
  assumes "oa_can_make_register_write w = Inr f" "send_id w \<noteq> 0x7ff"
  shows "classify f = Inr OA_TRANSPORT_FRAME_REGISTER_WRITE"
  using validRegisterWrite_made [OF assms] make_register_write_shape [OF assms(1)]
  by (simp add: classify_def)

lemma classify_write_made:
  assumes "classify f = Inr OA_TRANSPORT_FRAME_REGISTER_WRITE"
  shows "\<exists>w. oa_can_make_register_write w = Inr f \<and> send_id w \<noteq> 0x7ff"
proof -
  have v: "validRegisterWrite f"
    using assms by (auto simp: classify_def Let_def split: if_splits)
  then obtain ty g where g: "oa_can_make_register_write (register_write_of f ty) = Inr g"
    and eq: "framesEqual g f" and tgt: "validMotorTarget (targetId f)"
    by (auto simp: validRegisterWrite_def framesEqual_def split: option.splits sum.splits)
  from eq have "g = f" by (simp add: framesEqual_iff)
  with g tgt show ?thesis
    by (intro exI [of _ "register_write_of f ty"])
      (auto simp: register_write_of_def validMotorTarget_def Let_def)
qed

section \<open>Accounting for the authorities\<close>

text \<open>The sends of \<open>f\<close> under authority \<open>a\<close>, its issues, and what the grant table still owes.\<close>

definition sends_of :: "frame \<Rightarrow> authority \<Rightarrow> transport_effect list \<Rightarrow> nat" where
  "sends_of f a es =
     length (filter (\<lambda>e. case e of Sent f' c a' _ \<Rightarrow> f' = f \<and> a' = Some a | _ \<Rightarrow> False) es)"

definition issues_of :: "frame \<Rightarrow> authority \<Rightarrow> transport_effect list \<Rightarrow> nat" where
  "issues_of f a es = length (filter (\<lambda>e. e = Issued f a) es)"

definition credit :: "frame \<Rightarrow> authority \<Rightarrow> 'b transport \<Rightarrow> nat" where
  "credit f a t =
     (case grants t (token_id a) of None \<Rightarrow> 0
      | Some g \<Rightarrow> if exact_frame g = f \<and> auth_nonce a = instance_nonce t then 1 else 0)"

lemma draw_token_fresh: "draw_token gs rs = Some (Inr tok, rs') \<Longrightarrow> gs tok = None"
proof (induction gs rs rule: draw_token.induct)
  case (1 gs rs)
  from 1(2) show ?case
    by (subst (asm) draw_token.simps)
      (auto split: option.splits sum.splits if_splits prod.splits dest: 1(1) [OF _ refl refl])
qed

lemma issue_ok:
  assumes "issueAuthority ops f expiry rs alloc t = Some (Inr a, rs', t')"
  obtains now b c where
    "\<not> closed t" "be_permits ops (backend t)" "classify f = Inr c" "dangerousClass c"
    "be_now ops (backend t) = Some (Inr now, b)" "now < expiry"
    "expiry - now \<le> kMaximumAuthorityLifetimeNs"
    "auth_nonce a = instance_nonce t" "grants t (token_id a) = None"
    "t' = t\<lparr>backend := b, grants := (grants t)(token_id a \<mapsto>
       \<lparr>exact_frame = f, grant_class = c, expiry_ns = expiry\<rparr>)\<rparr>"
proof -
  from assms have open_permits: "\<not> closed t" "be_permits ops (backend t)"
    by (auto simp: issueAuthority_def split: if_splits)
  with assms obtain c where c: "classify f = Inr c" "dangerousClass c"
    by (auto simp: issueAuthority_def split: if_splits sum.splits)
  with assms open_permits obtain now b where now: "be_now ops (backend t) = Some (Inr now, b)"
    by (auto simp: issueAuthority_def split: option.splits sum.splits)
  with assms open_permits c have range: "now < expiry" "expiry - now \<le> kMaximumAuthorityLifetimeNs"
    by (auto simp: issueAuthority_def Let_def split: if_splits)
  with assms open_permits c now obtain tok where tok: "draw_token (grants t) rs = Some (Inr tok, rs')"
    and res: "a = \<lparr>auth_nonce = instance_nonce t, token_id = tok\<rparr>"
      "t' = t\<lparr>backend := b, grants := (grants t)(tok \<mapsto>
         \<lparr>exact_frame = f, grant_class = c, expiry_ns = expiry\<rparr>)\<rparr>"
    by (auto simp: issueAuthority_def Let_def
        split: option.splits sum.splits allocation.splits if_splits)
  show thesis
    using that [OF open_permits c now range] res draw_token_fresh [OF tok] by simp
qed

lemma issue_error_grants:
  assumes "issueAuthority ops f expiry rs alloc t = Some (Inl e, rs', t')"
  shows "instance_nonce t' = instance_nonce t \<and> closed t' = closed t \<and> grants t' \<subseteq>\<^sub>m grants t"
  using assms
  by (auto simp: issueAuthority_def Let_def map_le_def
      split: if_splits sum.splits option.splits prod.splits allocation.splits)

lemma consume_shrinks:
  "consumeAuthority auth f c now deadline t = (p, t') \<Longrightarrow> grants t' \<subseteq>\<^sub>m grants t"
  using consume_grants [of auth f c now deadline t p t'] by (auto simp: map_le_def split: if_splits)

lemma send_shrinks:
  assumes "transport_send ops f deadline auth t = Some (r, t')"
  shows "instance_nonce t' = instance_nonce t \<and> closed t' = closed t \<and> grants t' \<subseteq>\<^sub>m grants t"
  using assms
  by (auto simp: transport_send_def Let_def dest: consume_frame consume_shrinks
      split: if_splits sum.splits option.splits prod.splits)

lemma receive_keeps:
  assumes "transport_receive ops deadline t = Some (r, t')"
  shows "instance_nonce t' = instance_nonce t \<and> closed t' = closed t \<and> grants t' = grants t"
  using assms
  by (auto simp: transport_receive_def Let_def split: if_splits sum.splits option.splits prod.splits)

lemma credit_mono:
  assumes "grants t' \<subseteq>\<^sub>m grants t" "instance_nonce t' = instance_nonce t"
  shows "credit f a t' \<le> credit f a t"
proof (cases "grants t' (token_id a)")
  case None
  then show ?thesis by (simp add: credit_def)
next
  case (Some g)
  then have "grants t (token_id a) = Some g"
    using assms(1) by (metis map_le_def domI)
  with Some assms(2) show ?thesis by (simp add: credit_def)
qed

lemma credit_step:
  assumes "transport_call_step ops c t = Some (e, t')"
  shows "sends_of f a [e] + credit f a t' \<le> issues_of f a [e] + credit f a t"
proof (cases c)
  case (Call_send f' d auth)
  with assms consider (err) x where "transport_send ops f' d auth t = Some (Inl x, t')" "e = Other_effect"
    | (ok) k sent where "transport_send ops f' d auth t = Some (Inr (k, sent), t')" "e = Sent f' k auth sent"
    by (auto simp: transport_call_step_def split: option.splits sum.splits prod.splits)
  then show ?thesis
  proof cases
    case err
    then have "credit f a t' \<le> credit f a t"
      using credit_mono send_shrinks [OF err(1)] by blast
    with err(2) show ?thesis by (simp add: sends_of_def issues_of_def)
  next
    case ok
    show ?thesis
    proof (cases "f' = f \<and> auth = Some a")
      case True
      from ok(1) obtain b t2 b' now where "t' = t2\<lparr>backend := b'\<rparr>"
        and "consumeAuthority auth f' k now d (t\<lparr>backend := b\<rparr>) = (OA_TRANSPORT_OK, t2)"
        using True by (elim send_ok) auto
      then have "credit f a t = 1 \<and> credit f a t' = 0"
        using True by (auto dest!: consume_ok simp: credit_def framesEqual_iff)
      with ok(2) True show ?thesis by (simp add: sends_of_def issues_of_def)
    next
      case False
      then have "sends_of f a [e] = 0" by (auto simp: sends_of_def ok(2))
      moreover have "credit f a t' \<le> credit f a t"
        using credit_mono send_shrinks [OF ok(1)] by blast
      ultimately show ?thesis by simp
    qed
  qed
next
  case (Call_receive d)
  with assms obtain r where "transport_receive ops d t = Some (r, t')" "e = Other_effect"
    by (auto simp: transport_call_step_def)
  then show ?thesis using receive_keeps [of ops d t r t'] by (simp add: sends_of_def credit_def split: option.split)
next
  case Call_close
  with assms show ?thesis
    by (auto simp: transport_call_step_def transport_close_def sends_of_def credit_def)
next
  case (Call_issue f' x rs al)
  with assms consider (err) y rs' where "issueAuthority ops f' x rs al t = Some (Inl y, rs', t')" "e = Other_effect"
    | (ok) a' rs' where "issueAuthority ops f' x rs al t = Some (Inr a', rs', t')" "e = Issued f' a'"
    by (auto simp: transport_call_step_def split: option.splits sum.splits prod.splits)
  then show ?thesis
  proof cases
    case err
    then have "credit f a t' \<le> credit f a t"
      using credit_mono issue_error_grants [OF err(1)] by blast
    with err(2) show ?thesis by (simp add: sends_of_def issues_of_def)
  next
    case ok
    then show ?thesis
      by (elim issue_ok) (cases a, cases a', auto simp: sends_of_def issues_of_def credit_def
          split: option.split)
  qed
qed

lemma sends_of_Cons: "sends_of f a (e # es) = sends_of f a [e] + sends_of f a es"
  by (simp add: sends_of_def)

lemma issues_of_Cons: "issues_of f a (e # es) = issues_of f a [e] + issues_of f a es"
  by (simp add: issues_of_def)

lemma run_credit:
  assumes "transport_run ops cs t = Some (es, t')"
  shows "sends_of f a es + credit f a t' \<le> issues_of f a es + credit f a t"
  using assms
proof (induction cs arbitrary: t es)
  case Nil
  then show ?case by (simp add: sends_of_def issues_of_def)
next
  case (Cons c cs)
  then obtain e t1 es' where step: "transport_call_step ops c t = Some (e, t1)"
    and run: "transport_run ops cs t1 = Some (es', t')" and es: "es = e # es'"
    by (auto split: option.splits prod.splits)
  from Cons.IH [OF run] credit_step [OF step, of f a] show ?case
    unfolding es sends_of_Cons [of f a e es'] issues_of_Cons [of f a e es'] by simp
qed

section \<open>A backend that issues no authority\<close>

locale query_only_backend =
  fixes ops :: "'b backend_ops"
  assumes never_permits: "\<not> be_permits ops b"
begin

lemma no_issue: "issueAuthority ops f x rs al t \<noteq> Some (Inr a, rs', t')"
proof
  assume "issueAuthority ops f x rs al t = Some (Inr a, rs', t')"
  then show False using never_permits by (elim issue_ok) blast
qed

lemma step_queries:
  assumes "transport_call_step ops c t = Some (e, t')" "grants t = Map.empty"
  shows "grants t' = Map.empty
    \<and> (case e of Sent f k a _ \<Rightarrow> queryClass k \<and> classify f = Inr k \<and> a = None | Issued _ _ \<Rightarrow> False
       | Other_effect \<Rightarrow> True)"
proof -
  have empty: "grants t' = Map.empty" if "grants t' \<subseteq>\<^sub>m grants t"
    using that assms(2) by (metis dom_eq_empty_conv map_le_implies_dom_le subset_empty)
  show ?thesis
  proof (cases c)
    case (Call_send f d auth)
    with assms(1) consider (err) x where "transport_send ops f d auth t = Some (Inl x, t')" "e = Other_effect"
      | (ok) k sent where "transport_send ops f d auth t = Some (Inr (k, sent), t')" "e = Sent f k auth sent"
      by (auto simp: transport_call_step_def split: option.splits sum.splits prod.splits)
    then show ?thesis
    proof cases
      case err
      then show ?thesis using empty send_shrinks by fastforce
    next
      case ok
      then have "queryClass k \<and> classify f = Inr k \<and> auth = None"
        using assms(2) by (elim send_ok) (auto dest!: consume_ok)
      with ok show ?thesis using empty send_shrinks [OF ok(1)] by simp
    qed
  next
    case (Call_receive d)
    with assms show ?thesis by (auto simp: transport_call_step_def dest: receive_keeps)
  next
    case Call_close
    with assms show ?thesis by (auto simp: transport_call_step_def transport_close_def)
  next
    case (Call_issue f x rs al)
    with assms(1) no_issue obtain y rs' where "issueAuthority ops f x rs al t = Some (Inl y, rs', t')"
        "e = Other_effect"
      by (auto simp: transport_call_step_def split: option.splits sum.splits prod.splits)
    then show ?thesis using empty issue_error_grants by fastforce
  qed
qed

lemma run_queries:
  assumes "transport_run ops cs t = Some (es, t')" "grants t = Map.empty"
  shows "grants t' = Map.empty \<and> (\<forall>e\<in>set es. case e of
      Sent f k a _ \<Rightarrow> queryClass k \<and> classify f = Inr k \<and> a = None
    | Issued _ _ \<Rightarrow> False | Other_effect \<Rightarrow> True)"
  using assms
proof (induction cs arbitrary: t es)
  case (Cons c cs)
  then obtain e t1 es' where step: "transport_call_step ops c t = Some (e, t1)"
    and run: "transport_run ops cs t1 = Some (es', t')" and es: "es = e # es'"
    by (auto split: option.splits prod.splits)
  from step_queries [OF step Cons.prems(2)] Cons.IH [OF run] show ?case by (simp add: es)
qed simp

end

section \<open>A closed transport\<close>

lemma closed_step:
  assumes "transport_call_step ops c t = Some (e, t')" "closed t" "grants t = Map.empty"
  shows "e = Other_effect \<and> closed t' \<and> grants t' = Map.empty"
  using assms
  by (auto simp: transport_call_step_def transport_send_def transport_receive_def issueAuthority_def
      transport_close_def split: transport_call.splits)

lemma closed_run:
  assumes "transport_run ops cs t = Some (es, t')" "closed t" "grants t = Map.empty"
  shows "set es \<subseteq> {Other_effect} \<and> closed t' \<and> grants t' = Map.empty"
  using assms
proof (induction cs arbitrary: t es)
  case (Cons c cs)
  then obtain e t1 es' where "transport_call_step ops c t = Some (e, t1)"
    "transport_run ops cs t1 = Some (es', t')" "es = e # es'"
    by (auto split: option.splits prod.splits)
  with closed_step [of ops c t e t1] Cons show ?case by auto
qed simp

section \<open>Properties\<close>

text \<open>
  A concrete backend for the witnesses: a clock that stands still at the state's value, sends
  that succeed at once, no events, and authorities permitted.
\<close>

definition still_backend :: "u64 backend_ops" where
  "still_backend = \<lparr>be_now = (\<lambda>b. Some (Inr b, b)), be_send = (\<lambda>_ _ b. Some (Inr b, b)),
     be_receive = (\<lambda>_ b. Some (Inl OA_TRANSPORT_ETIMEOUT, b)), be_close = id,
     be_permits = (\<lambda>_. True)\<rparr>"

definition enable_frame :: "u32 \<Rightarrow> frame" where
  "enable_frame i = \<lparr>can_id = i, dlc = 8, data = replicate 7 0xff @ [0xfc]\<rparr>"

definition licensed_transport :: "u64 transport" where
  "licensed_transport = (new_transport 100 (1, 2) 1000)
     \<lparr>grants := [7 \<mapsto> \<lparr>exact_frame = enable_frame 3, grant_class = OA_TRANSPORT_FRAME_ENABLE,
                      expiry_ns = 600\<rparr>]\<rparr>"

lemma classify_enable_frame: "classify (enable_frame 3) = Inr OA_TRANSPORT_FRAME_ENABLE"
  by code_simp

lemma licensed_send:
  "transport_send still_backend (enable_frame 3) 500 (Some \<lparr>auth_nonce = (1, 2), token_id = 7\<rparr>)
     licensed_transport
   = Some (Inr (OA_TRANSPORT_FRAME_ENABLE, 100), new_transport 100 (1, 2) 1000)"
  by (simp add: transport_send_def classify_enable_frame licensed_transport_def new_transport_def
      still_backend_def validateDeadline_def consumeAuthority_def queryClass_def framesEqual_def)

text \<open>
  C1: a dangerous frame goes out only under an authority of this transport whose grant names
  exactly that frame and class, is unexpired now and at the deadline, and is used up by the
  send.
\<close>

theorem dangerous_send_licensed:
  assumes "transport_send ops f deadline auth t = Some (Inr (c, sent), t')" "dangerousClass c"
  shows "\<exists>a g now b. auth = Some a \<and> auth_nonce a = instance_nonce t
    \<and> grants t (token_id a) = Some g \<and> exact_frame g = f \<and> grant_class g = c
    \<and> be_now ops (backend t) = Some (Inr now, b) \<and> now < expiry_ns g \<and> deadline \<le> expiry_ns g
    \<and> grants t' = (grants t)(token_id a := None)"
  using assms(1)
proof (rule send_ok)
  fix now b b' t2
  assume now: "be_now ops (backend t) = Some (Inr now, b)" and t': "t' = t2\<lparr>backend := b'\<rparr>"
    and "queryClass c \<and> auth = None \<and> t2 = t\<lparr>backend := b\<rparr> \<or> dangerousClass c
       \<and> consumeAuthority auth f c now deadline (t\<lparr>backend := b\<rparr>) = (OA_TRANSPORT_OK, t2)"
  with assms(2) have "consumeAuthority auth f c now deadline (t\<lparr>backend := b\<rparr>) = (OA_TRANSPORT_OK, t2)"
    using query_not_dangerous by blast
  from consume_ok [OF this] now t' show ?thesis by (auto simp: framesEqual_iff)
qed

theorem dangerous_send_licensed_witness:
  "\<exists>g. grants licensed_transport 7 = Some g \<and> exact_frame g = enable_frame 3 \<and> 500 \<le> expiry_ns g"
  using dangerous_send_licensed [OF licensed_send] by (auto simp: dangerousClass_def)

text \<open>
  C2: authorities are linear. In any sequence of calls on a newly opened transport, the frame
  \<open>f\<close> is sent under authority \<open>a\<close> at most as often as \<open>a\<close> was issued for \<open>f\<close>.
\<close>

theorem authority_linear:
  assumes "transport_run ops cs (new_transport b nonce horizon) = Some (es, t)"
  shows "sends_of f a es \<le> issues_of f a es"
  using run_credit [OF assms, of f a] by (simp add: credit_def new_transport_def)

definition enable_calls :: "transport_call list" where
  "enable_calls =
     [Call_issue (enable_frame 3) 600 [Interrupted, Got_bytes 8 7] Alloc_ok,
      Call_send (enable_frame 3) 500 (Some \<lparr>auth_nonce = (1, 2), token_id = 7\<rparr>),
      Call_send (enable_frame 3) 500 (Some \<lparr>auth_nonce = (1, 2), token_id = 7\<rparr>)]"

lemma enable_run:
  "transport_run still_backend enable_calls (new_transport 100 (1, 2) 1000)
   = Some ([Issued (enable_frame 3) \<lparr>auth_nonce = (1, 2), token_id = 7\<rparr>,
            Sent (enable_frame 3) OA_TRANSPORT_FRAME_ENABLE (Some \<lparr>auth_nonce = (1, 2), token_id = 7\<rparr>) 100,
            Other_effect], new_transport 100 (1, 2) 1000)"
proof -
  have issue: "issueAuthority still_backend (enable_frame 3) 600 [Interrupted, Got_bytes 8 7] Alloc_ok
      (new_transport 100 (1, 2) 1000)
    = Some (Inr \<lparr>auth_nonce = (1, 2), token_id = 7\<rparr>, [], licensed_transport)"
    by (simp add: issueAuthority_def classify_enable_frame new_transport_def still_backend_def
        draw_token.simps dangerousClass_def licensed_transport_def)
  have again: "transport_send still_backend (enable_frame 3) 500
      (Some \<lparr>auth_nonce = (1, 2), token_id = 7\<rparr>) (new_transport 100 (1, 2) 1000)
    = Some (Inl OA_TRANSPORT_EPERMISSION, new_transport 100 (1, 2) 1000)"
    by (simp add: transport_send_def classify_enable_frame new_transport_def
      still_backend_def validateDeadline_def consumeAuthority_def queryClass_def)
  show ?thesis
    by (simp add: enable_calls_def transport_call_step_def issue licensed_send again)
qed

theorem authority_linear_witness:
  "sends_of (enable_frame 3) \<lparr>auth_nonce = (1, 2), token_id = 7\<rparr>
     [Issued (enable_frame 3) \<lparr>auth_nonce = (1, 2), token_id = 7\<rparr>,
      Sent (enable_frame 3) OA_TRANSPORT_FRAME_ENABLE (Some \<lparr>auth_nonce = (1, 2), token_id = 7\<rparr>) 100,
      Other_effect] \<le> 1"
  using authority_linear [OF enable_run, of "enable_frame 3" "\<lparr>auth_nonce = (1, 2), token_id = 7\<rparr>"]
  by (simp add: issues_of_def)

text \<open>
  What a transport may put on the bus. Every frame it sends is eight bytes long and is
  either a service frame (query, status, register write or save) to a valid motor, or one of the
  four special commands to a single motor, so never a motion command.
\<close>

theorem sent_frame_shape:
  assumes "transport_send ops f deadline auth t = Some (Inr (c, sent), t')"
  shows "dlc f = 8 \<and> c \<noteq> OA_TRANSPORT_FRAME_MOTION \<and> c \<noteq> OA_TRANSPORT_FRAME_UNKNOWN
    \<and> (can_id f = 0x7ff \<and> validMotorTarget (targetId f) \<and> data f ! 2 \<in> {0x33, 0xcc, 0x55, 0xaa}
       \<or> 0 < can_id f \<and> can_id f < 0x7ff \<and> allBytes f 0 7 0xff
         \<and> data f ! 7 \<in> {0xfb, 0xfc, 0xfd, 0xfe})"
proof -
  from assms have c: "classify f = Inr c"
    and sendable: "queryClass c \<or> dangerousClass c" by (blast elim: send_ok)+
  then have "c \<noteq> OA_TRANSPORT_FRAME_MOTION" and "c \<noteq> OA_TRANSPORT_FRAME_UNKNOWN"
    by (auto simp: queryClass_def dangerousClass_def)
  then show ?thesis
    using c classify_service [OF c] classify_command [OF c] classify_length [OF c]
    by (auto simp: order_less_le)
qed

theorem sent_frame_shape_witness: "allBytes (enable_frame 3) 0 7 0xff"
  using sent_frame_shape [OF licensed_send] by (simp add: enable_frame_def)

text \<open>
  the classifier inverts the encoder. A frame is a register write exactly when the codec
  makes it from some write to a motor other than the service identifier.
\<close>

theorem register_write_classified:
  "classify f = Inr OA_TRANSPORT_FRAME_REGISTER_WRITE \<longleftrightarrow>
     (\<exists>w. oa_can_make_register_write w = Inr f \<and> send_id w \<noteq> 0x7ff)"
  using classify_made classify_write_made by blast

text \<open>
  Once closed, always closed. Whatever is called on a closed transport, nothing is sent, no
  authority is issued, and no grant remains.
\<close>

theorem closed_transport_inert:
  assumes "transport_run ops cs (transport_close ops t) = Some (es, t')"
  shows "set es \<subseteq> {Other_effect} \<and> closed t' \<and> grants t' = Map.empty"
  by (rule closed_run [OF assms]) (simp_all add: transport_close_def)

theorem closed_transport_inert_witness:
  "closed (transport_close still_backend licensed_transport)"
  using closed_transport_inert [of still_backend "[]" licensed_transport] by simp

end
