(* ===== verification/Ring_Buffer.thy ===== *)
theory Ring_Buffer
  imports Prelude
begin

text \<open>
  The program keeps four bounded queues in fixed arrays with a head index and a count: the
  link transitions of the SocketCAN backend, the delayed feedback generations of an arm, the
  events of the controller and the events of the runtime facade. This theory holds the
  array, the index arithmetic they share, the interface \<open>bounded_fifo\<close> that says the array
  behaves as a list, and its interpretation.
\<close>

record 'a ring =
  slots :: "'a list"
  head :: nat
  count :: nat

definition ring_init :: "nat \<Rightarrow> 'a \<Rightarrow> 'a ring" where
  "ring_init n x = \<lparr>slots = replicate n x, head = 0, count = 0\<rparr>"

text \<open>The guard \<open>count == array.size()\<close>.\<close>

definition ring_full :: "'a ring \<Rightarrow> bool" where
  "ring_full q \<longleftrightarrow> count q = length (slots q)"

definition ring_empty :: "'a ring \<Rightarrow> bool" where
  "ring_empty q \<longleftrightarrow> count q = 0"

text \<open>\<open>tail = (head + count) % size; array[tail] = x; ++count\<close>.\<close>

definition ring_push :: "'a \<Rightarrow> 'a ring \<Rightarrow> 'a ring" where
  "ring_push x q =
     q\<lparr>slots := (slots q)[(head q + count q) mod length (slots q) := x], count := Suc (count q)\<rparr>"

definition ring_front :: "'a ring \<Rightarrow> 'a" where
  "ring_front q = slots q ! head q"

text \<open>\<open>head = (head + 1) % size; --count\<close>.\<close>

definition ring_drop :: "'a ring \<Rightarrow> 'a ring" where
  "ring_drop q = q\<lparr>head := (head q + 1) mod length (slots q), count := count q - 1\<rparr>"

definition ring_clear :: "'a ring \<Rightarrow> 'a ring" where
  "ring_clear q = q\<lparr>head := 0, count := 0\<rparr>"

definition ring_wf :: "nat \<Rightarrow> 'a ring \<Rightarrow> bool" where
  "ring_wf n q \<longleftrightarrow> length (slots q) = n \<and> 0 < n \<and> head q < n \<and> count q \<le> n"

text \<open>The queue as a list, oldest element first.\<close>

definition ring_list :: "'a ring \<Rightarrow> 'a list" where
  "ring_list q = map (\<lambda>i. slots q ! ((head q + i) mod length (slots q))) [0 ..< count q]"

lemma length_ring_list [simp]: "length (ring_list q) = count q"
  by (simp add: ring_list_def)

lemma ring_wf_init: "0 < n \<Longrightarrow> ring_wf n (ring_init n x)"
  by (simp add: ring_wf_def ring_init_def)

lemma ring_list_init [simp]: "ring_list (ring_init n x) = []"
  by (simp add: ring_list_def ring_init_def)

lemma mod_add_inj:
  fixes h :: nat
  assumes "i < j" "j < n"
  shows "(h + i) mod n \<noteq> (h + j) mod n"
proof
  assume "(h + i) mod n = (h + j) mod n"
  then have "n dvd (h + j) - (h + i)"
    using assms by (subst mod_eq_dvd_iff_nat [symmetric]) auto
  then have "n dvd j - i" by simp
  with assms show False
    by (meson dvd_imp_le less_imp_diff_less not_le zero_less_diff)
qed

lemma ring_wf_push: "ring_wf n q \<Longrightarrow> \<not> ring_full q \<Longrightarrow> ring_wf n (ring_push x q)"
  by (auto simp: ring_wf_def ring_full_def ring_push_def)

lemma ring_wf_drop: "ring_wf n q \<Longrightarrow> ring_wf n (ring_drop q)"
  by (auto simp: ring_wf_def ring_drop_def)

lemma ring_wf_clear: "ring_wf n q \<Longrightarrow> ring_wf n (ring_clear q)"
  by (auto simp: ring_wf_def ring_clear_def)

lemma ring_list_clear [simp]: "ring_list (ring_clear q) = []"
  by (simp add: ring_list_def ring_clear_def)

lemma ring_list_push:
  assumes "ring_wf n q" "\<not> ring_full q"
  shows "ring_list (ring_push x q) = ring_list q @ [x]"
proof -
  let ?n = "length (slots q)"
  have lt: "count q < ?n" using assms by (auto simp: ring_wf_def ring_full_def)
  then have pos: "0 < ?n" by linarith
  from lt have "(head q + i) mod ?n \<noteq> (head q + count q) mod ?n" if "i < count q" for i
    using that mod_add_inj [of i "count q" ?n "head q"] by simp
  then have "slots (ring_push x q) ! ((head q + i) mod ?n) = slots q ! ((head q + i) mod ?n)"
    if "i < count q" for i
    using that by (simp add: ring_push_def nth_list_update_neq [OF not_sym])
  moreover have "slots (ring_push x q) ! ((head q + count q) mod ?n) = x"
    using pos by (simp add: ring_push_def)
  ultimately show ?thesis
    by (simp add: ring_list_def ring_push_def)
qed

lemma ring_list_drop:
  assumes "ring_wf n q"
  shows "ring_list (ring_drop q) = tl (ring_list q)"
proof (rule nth_equalityI)
  show "length (ring_list (ring_drop q)) = length (tl (ring_list q))"
    by (simp add: ring_drop_def)
next
  fix i assume "i < length (ring_list (ring_drop q))"
  then have i: "i < count q - 1" by (simp add: ring_drop_def)
  then have "(Suc (head q) mod length (slots q) + i) mod length (slots q)
      = (head q + Suc i) mod length (slots q)"
    by (simp add: mod_add_left_eq)
  with i show "ring_list (ring_drop q) ! i = tl (ring_list q) ! i"
    by (simp add: ring_list_def ring_drop_def nth_tl less_diff_conv)
qed

lemma ring_front_hd:
  assumes "ring_wf n q" "\<not> ring_empty q"
  shows "ring_front q = hd (ring_list q)"
  using assms by (simp add: ring_wf_def ring_empty_def ring_front_def ring_list_def hd_map
      upt_rec [of 0])

section \<open>The interface\<close>

text \<open>
  What every client of such an array relies on: a capacity, and an abstraction to lists under
  which a push appends, a drop removes the oldest element and the front is the oldest one.
\<close>

locale bounded_fifo =
  fixes capacity :: nat
    and good :: "'q \<Rightarrow> bool"
    and contents :: "'q \<Rightarrow> 'a list"
    and is_full :: "'q \<Rightarrow> bool"
    and push :: "'a \<Rightarrow> 'q \<Rightarrow> 'q"
    and front :: "'q \<Rightarrow> 'a"
    and drop_front :: "'q \<Rightarrow> 'q"
  assumes capacity_pos: "0 < capacity"
    and bounded: "good q \<Longrightarrow> length (contents q) \<le> capacity"
    and full_iff: "good q \<Longrightarrow> is_full q \<longleftrightarrow> length (contents q) = capacity"
    and good_push: "good q \<Longrightarrow> \<not> is_full q \<Longrightarrow> good (push x q)"
    and contents_push: "good q \<Longrightarrow> \<not> is_full q \<Longrightarrow> contents (push x q) = contents q @ [x]"
    and front_hd: "good q \<Longrightarrow> contents q \<noteq> [] \<Longrightarrow> front q = hd (contents q)"
    and good_drop: "good q \<Longrightarrow> good (drop_front q)"
    and contents_drop: "good q \<Longrightarrow> contents (drop_front q) = tl (contents q)"
begin

text \<open>The push that overwrites the oldest element when the array is full.\<close>

lemma overwrite_good:
  assumes "good q"
  shows "good (push x (if is_full q then drop_front q else q))"
proof (cases "is_full q")
  case True
  then have "\<not> is_full (drop_front q)"
    using assms capacity_pos by (simp add: full_iff good_drop contents_drop)
  with True assms show ?thesis by (simp add: good_push good_drop)
next
  case False
  with assms show ?thesis by (simp add: good_push)
qed

lemma overwrite_contents:
  assumes "good q"
  shows "contents (push x (if is_full q then drop_front q else q))
    = (if is_full q then tl (contents q) else contents q) @ [x]"
proof (cases "is_full q")
  case True
  then have "\<not> is_full (drop_front q)"
    using assms capacity_pos by (simp add: full_iff good_drop contents_drop)
  with True assms show ?thesis by (simp add: contents_push good_drop contents_drop)
next
  case False
  with assms show ?thesis by (simp add: contents_push)
qed

text \<open>What was pushed comes out first-in first-out.\<close>

lemma push_keeps_front:
  assumes "good q" "\<not> is_full q" "contents q \<noteq> []"
  shows "front (push x q) = front q"
  using assms by (simp add: front_hd good_push contents_push)

lemma push_then_drain:
  assumes "good q" "\<not> is_full q" "contents q = []"
  shows "front (push x q) = x \<and> contents (drop_front (push x q)) = []"
  using assms by (simp add: front_hd good_push contents_push contents_drop)

end

interpretation ring64: bounded_fifo 64 "ring_wf 64" ring_list ring_full ring_push ring_front ring_drop
proof unfold_locales
  fix q :: "'a ring" and x :: 'a
  show "0 < (64 :: nat)" by simp
  show "ring_wf 64 q \<Longrightarrow> length (ring_list q) \<le> 64" by (simp add: ring_wf_def)
  show "ring_wf 64 q \<Longrightarrow> ring_full q \<longleftrightarrow> length (ring_list q) = 64"
    by (simp add: ring_wf_def ring_full_def)
  show "ring_wf 64 q \<Longrightarrow> \<not> ring_full q \<Longrightarrow> ring_wf 64 (ring_push x q)"
    by (rule ring_wf_push)
  show "ring_wf 64 q \<Longrightarrow> \<not> ring_full q \<Longrightarrow> ring_list (ring_push x q) = ring_list q @ [x]"
    by (rule ring_list_push)
  show "ring_wf 64 q \<Longrightarrow> ring_list q \<noteq> [] \<Longrightarrow> ring_front q = hd (ring_list q)"
    using ring_front_hd [of 64 q] by (auto simp: ring_empty_def simp flip: length_0_conv)
  show "ring_wf 64 q \<Longrightarrow> ring_wf 64 (ring_drop q)" by (rule ring_wf_drop)
  show "ring_wf 64 q \<Longrightarrow> ring_list (ring_drop q) = tl (ring_list q)" by (rule ring_list_drop)
qed

end
