(* ===== verification/Socketcan.thy ===== *)
theory Socketcan
  imports Transport_Safety Ring_Buffer
begin

text \<open>
  The Linux backend, transport/src/socketcan_backend.cpp. What the kernel answers (clock,
  \<open>send\<close>, \<open>ppoll\<close>, the two \<open>recvmsg\<close>) is part of the state, one tape per system call in the
  order of the calls; a loop whose tape has ended is still running, \<open>None\<close>. The tape \<open>closers\<close>
  says before which loads of the atomic \<open>closed_\<close> another thread's \<open>close\<close> took place. The
  constants are those of Linux on a little-endian machine.
\<close>

datatype errno = EAGAIN | EWOULDBLOCK | EINTR | ENOBUFS | ENETDOWN | ENETUNREACH | ENODEV | Other_errno

section \<open>Little-endian reads from a buffer\<close>

text \<open>\<open>memcpy\<close> of \<open>n\<close> bytes from an offset; \<open>None\<close> is a read outside the buffer.\<close>

definition get_bytes :: "u8 list \<Rightarrow> nat \<Rightarrow> nat \<Rightarrow> u8 list option" where
  "get_bytes d off n = (if off + n \<le> length d then Some (take n (drop off d)) else None)"

definition le16 :: "u8 list \<Rightarrow> u16" where
  "le16 d = ucast (d ! 0) OR push_bit 8 (ucast (d ! 1))"

definition le64 :: "u8 list \<Rightarrow> u64" where
  "le64 d = ucast (readU32 d) OR push_bit 32 (ucast (readU32 (drop 4 d)))"

section \<open>Link datagrams\<close>

abbreviation NLMSGHDR_SIZE :: u64 where "NLMSGHDR_SIZE \<equiv> 16"
abbreviation IFINFOMSG_SIZE :: u64 where "IFINFOMSG_SIZE \<equiv> 16"
abbreviation NLMSG_ERROR :: u16 where "NLMSG_ERROR \<equiv> 2"
abbreviation NLMSG_OVERRUN :: u16 where "NLMSG_OVERRUN \<equiv> 4"
abbreviation RTM_NEWLINK :: u16 where "RTM_NEWLINK \<equiv> 16"
abbreviation RTM_DELLINK :: u16 where "RTM_DELLINK \<equiv> 17"
abbreviation IFF_UP :: u32 where "IFF_UP \<equiv> 1"
abbreviation IFF_RUNNING :: u32 where "IFF_RUNNING \<equiv> 0x40"
abbreviation MSG_CTRUNC :: u32 where "MSG_CTRUNC \<equiv> 0x8"
abbreviation MSG_TRUNC :: u32 where "MSG_TRUNC \<equiv> 0x20"

definition socketCanBackendPermitsAuthorityIssuance :: bool where
  "socketCanBackendPermitsAuthorityIssuance = False"

definition netlinkReceiveWasTruncated :: "nat \<Rightarrow> nat \<Rightarrow> u32 \<Rightarrow> bool" where
  "netlinkReceiveWasTruncated received capacity flags \<longleftrightarrow>
     received > capacity \<or> flags AND MSG_TRUNC \<noteq> 0"

text \<open>\<open>struct nlmsghdr\<close> and \<open>struct ifinfomsg\<close>, the fields the parser reads.\<close>

definition nlmsg_len :: "u8 list \<Rightarrow> u64" where
  "nlmsg_len h = ucast (readU32 h)"

definition nlmsg_type :: "u8 list \<Rightarrow> u16" where
  "nlmsg_type h = le16 (drop 4 h)"

definition ifi_index :: "u8 list \<Rightarrow> u32" where
  "ifi_index m = readU32 (drop 4 m)"

definition ifi_flags :: "u8 list \<Rightarrow> u32" where
  "ifi_flags m = readU32 (drop 8 m)"

text \<open>The rounding up of a length to a multiple of four.\<close>

definition nlmsg_align :: "u64 \<Rightarrow> u64" where
  "nlmsg_align n = (n + 3) AND NOT 3"

lemma unat_and_not_3: "unat ((w :: u64) AND NOT 3) = unat w div 4 * 4"
proof -
  have "w AND NOT 3 = push_bit 2 (drop_bit 2 w)"
  proof (rule bit_word_eqI)
    fix n assume "n < LENGTH(64)"
    have "bit (3 :: u64) n \<longleftrightarrow> n < 2"
      using bit_mask_iff [of 2 n, where 'a = u64] by (auto simp: mask_eq_exp_minus_1)
    moreover have "Suc (Suc (n - 2)) = n" if "2 \<le> n" using that by simp
    ultimately show "bit (w AND NOT 3) n \<longleftrightarrow> bit (push_bit 2 (drop_bit 2 w)) n"
      using \<open>n < LENGTH(64)\<close> by (auto simp: bit_simps not_less)
  qed
  moreover have "unat (drop_bit 2 w) = unat w div 4"
    using unsigned_less [of w, where 'a = nat]
    by (simp only: unsigned_drop_bit_eq) (simp add: drop_bit_eq_div take_bit_nat_eq_self)
  moreover have "unat w div 4 * 4 < 2 ^ LENGTH(64)"
    using unsigned_less [of w, where 'a = nat] by (rule le_less_trans [rotated]) simp
  moreover have "unat (push_bit 2 v) = take_bit LENGTH(64) (unat v * 4)" for v :: u64
    by (subst unsigned_push_bit_eq) (simp add: push_bit_eq_mult [of 2 "unat v"])
  ultimately show ?thesis by (simp only: take_bit_nat_eq_self)
qed

lemma nlmsg_align_nat: "unat n < 2 ^ 32 \<Longrightarrow> unat (nlmsg_align n) = (unat n + 3) div 4 * 4"
  unfolding nlmsg_align_def unat_and_not_3 by (simp add: unat_word_ariths)

lemma nlmsg_len_small: "unat (nlmsg_len h) < 2 ^ 32"
proof -
  have "unat (readU32 h) < 2 ^ LENGTH(32)" by (rule unsigned_less)
  then show ?thesis by (simp add: nlmsg_len_def unsigned_ucast_eq take_bit_nat_eq_self)
qed

text \<open>
  A step that does not go past what is left leaves less of it, by the size of the step: here the
  test of the rounded length is needed, without it the difference wraps.
\<close>

lemma step_shrinks:
  assumes "0 < k" "k \<le> len - (off :: u64)"
  shows "unat (len - (off + k)) < unat (len - off)"
proof -
  have "len - (off + k) = (len - off) - k" by simp
  moreover have "unat k \<le> unat (len - off)" "0 < unat k"
    using assms by (simp_all add: word_le_nat_alt word_less_nat_alt)
  ultimately show ?thesis using assms(2) by (simp only: unat_sub)
qed

lemma align_positive:
  assumes "\<not> nlmsg_len h < NLMSGHDR_SIZE"
  shows "0 < nlmsg_align (nlmsg_len h)" "nlmsg_len h \<le> nlmsg_align (nlmsg_len h)"
  using assms nlmsg_align_nat [OF nlmsg_len_small [of h]]
  by (simp_all add: word_less_nat_alt word_le_nat_alt)

text \<open>
  The loop of \<open>parseLinkDatagram\<close> from an offset with the batch so far. The outer option is the
  memory safety of its reads. Sizes are \<open>size_t\<close>, 64-bit words whose subtraction wraps.
\<close>

function parse_loop ::
  "u8 list \<Rightarrow> u64 \<Rightarrow> u32 \<Rightarrow> u64 \<Rightarrow> bool list \<Rightarrow> (transport_status + bool list) option" where
  "parse_loop d len ifindex off batch =
     (if len - off \<ge> NLMSGHDR_SIZE then
        case get_bytes d (unat off) (unat NLMSGHDR_SIZE) of None \<Rightarrow> None
        | Some h \<Rightarrow>
            let ml = nlmsg_len h; ty = nlmsg_type h in
            if ml < NLMSGHDR_SIZE \<or> ml > len - off then Some (Inl OA_TRANSPORT_EFRAME)
            else if ty = NLMSG_ERROR \<or> ty = NLMSG_OVERRUN then Some (Inl OA_TRANSPORT_EIO)
            else
              let continue = (\<lambda>batch'.
                    let aligned = nlmsg_align ml in
                    if aligned > len - off then
                      if ml \<noteq> len - off then Some (Inl OA_TRANSPORT_EFRAME)
                      else parse_loop d len ifindex (off + ml) batch'
                    else parse_loop d len ifindex (off + aligned) batch') in
              if (ty = RTM_NEWLINK \<or> ty = RTM_DELLINK) \<and> ml \<ge> NLMSGHDR_SIZE + IFINFOMSG_SIZE then
                case get_bytes d (unat off + unat NLMSGHDR_SIZE) (unat IFINFOMSG_SIZE) of None \<Rightarrow> None
                | Some info \<Rightarrow>
                    if 0 <s ifi_index info \<and> ifi_index info = ifindex then
                      if length batch = 64 then Some (Inl OA_TRANSPORT_EIO)
                      else continue (batch @ [ty = RTM_NEWLINK \<and> ifi_flags info AND IFF_UP \<noteq> 0
                                              \<and> ifi_flags info AND IFF_RUNNING \<noteq> 0])
                    else continue batch
              else continue batch
      else if off \<noteq> len then Some (Inl OA_TRANSPORT_EFRAME)
      else Some (Inr batch))"
  by pat_completeness auto

termination
proof (relation "measure (\<lambda>(d, len, ifindex, off, batch). unat (len - off))", goal_cases)
  case (2 d len ifindex off batch h ml ty batch' aligned)
  then have "0 < ml" "ml \<le> len - off" using align_positive(1) [of h] by (auto simp: word_gt_0)
  then show ?case unfolding in_measure prod.case by (rule step_shrinks)
next
  case (3 d len ifindex off batch h ml ty batch' aligned)
  then have "0 < aligned" "aligned \<le> len - off" using align_positive(1) [of h] by (auto simp: not_less)
  then show ?case unfolding in_measure prod.case by (rule step_shrinks)
qed simp

declare parse_loop.simps [simp del]

definition parseLinkDatagram ::
  "u8 list pointer \<Rightarrow> u64 \<Rightarrow> u32 \<Rightarrow> (transport_status + bool list) option" where
  "parseLinkDatagram buf len ifindex =
     (case buf of None \<Rightarrow> Some (Inl OA_TRANSPORT_EFRAME)
      | Some d \<Rightarrow> if len < NLMSGHDR_SIZE \<or> ifindex = 0 then Some (Inl OA_TRANSPORT_EFRAME)
                 else parse_loop d len ifindex 0 [])"

section \<open>The backend's state\<close>

datatype ready = Ready_Can | Ready_Link | Ready_Closed | Ready_Timeout | Ready_Failed

datatype poll_result = Poll_error errno | Poll_timeout | Poll_ready u16 u16 u16

record netlink_read =
  nl_count :: nat
  nl_bytes :: "u8 list"
  nl_flags :: u32
  nl_namelen :: nat
  nl_family :: u16
  nl_pid :: u32

record cmsg =
  cmsg_level :: nat
  cmsg_type :: nat
  cmsg_len :: nat
  cmsg_data :: "u8 list"

record can_read =
  cr_count :: nat
  cr_flags :: u32
  cr_frame :: frame
  cr_control :: "cmsg list"

record socketcan =
  clock :: "int list"
  writes :: "(errno + nat) list"
  polls :: "poll_result list"
  link_reads :: "(errno + netlink_read) list"
  can_reads :: "(errno + can_read) list"
  closers :: "bool list"
  ifindex :: u32
  link_up :: bool
  link_events :: "bool ring"
  last_overflow_count :: u32
  be_closed :: bool

text \<open>\<open>monotonicNow\<close>: the steady clock's signed count of nanoseconds, refused when negative.\<close>

definition monotonicNow :: "socketcan \<Rightarrow> ((transport_status + u64) \<times> socketcan) option" where
  "monotonicNow s =
     (case clock s of [] \<Rightarrow> None
      | ns # rest \<Rightarrow> Some (if ns < 0 then Inl OA_TRANSPORT_EIO else Inr (word_of_int ns),
                          s\<lparr>clock := rest\<rparr>))"

definition load_closed :: "socketcan \<Rightarrow> bool \<times> socketcan" where
  "load_closed s =
     (case closers s of [] \<Rightarrow> (be_closed s, s)
      | c # cs \<Rightarrow> (be_closed s \<or> c, s\<lparr>be_closed := be_closed s \<or> c, closers := cs\<rparr>))"

lemma monotonicNow_shorter:
  "monotonicNow s = Some (r, s') \<Longrightarrow> length (clock s') < length (clock s)"
  by (auto simp: monotonicNow_def split: list.splits)

lemma load_closed_clock: "load_closed s = (c, s') \<Longrightarrow> clock s' = clock s"
  by (auto simp: load_closed_def split: list.splits)

section \<open>Waiting\<close>

abbreviation POLLIN :: u16 where "POLLIN \<equiv> 1"
abbreviation POLLOUT :: u16 where "POLLOUT \<equiv> 4"
abbreviation POLL_BAD :: u16 where "POLL_BAD \<equiv> 0x38"

text \<open>The decision on the three \<open>revents\<close>; \<open>None\<close> goes round the loop again.\<close>

definition poll_decision :: "bool \<Rightarrow> u16 \<Rightarrow> u16 \<Rightarrow> u16 \<Rightarrow> ready option" where
  "poll_decision wr can wake link =
     (if wake AND POLLIN \<noteq> 0 then Some Ready_Closed
      else if wake AND POLL_BAD \<noteq> 0 then Some Ready_Failed
      else if \<not> wr \<and> link AND POLLIN \<noteq> 0 then Some Ready_Link
      else if \<not> wr \<and> link AND POLL_BAD \<noteq> 0 then Some Ready_Failed
      else if can AND ((if wr then POLLOUT else POLLIN) OR POLL_BAD) \<noteq> 0 then Some Ready_Can
      else None)"

function wait_ready :: "u64 \<Rightarrow> bool \<Rightarrow> socketcan \<Rightarrow> (ready \<times> socketcan) option" where
  "wait_ready deadline wr s =
     (case monotonicNow s of None \<Rightarrow> None
      | Some (Inl _, s1) \<Rightarrow> Some (Ready_Failed, s1)
      | Some (Inr now, s1) \<Rightarrow>
          if now \<ge> deadline then Some (Ready_Timeout, s1)
          else case polls s1 of [] \<Rightarrow> None
          | p # ps \<Rightarrow>
              let s2 = s1\<lparr>polls := ps\<rparr> in
              (case p of
                 Poll_timeout \<Rightarrow> Some (Ready_Timeout, s2)
               | Poll_error e \<Rightarrow> if e = EINTR then wait_ready deadline wr s2
                                else Some (Ready_Failed, s2)
               | Poll_ready can wake link \<Rightarrow>
                   (case poll_decision wr can wake link of
                      None \<Rightarrow> wait_ready deadline wr s2
                    | Some r \<Rightarrow> Some (r, s2))))"
  by pat_completeness auto
termination
  by (relation "measure (\<lambda>(_, _, s). length (clock s))") (auto dest: monotonicNow_shorter)

declare wait_ready.simps [simp del]

lemma wait_ready_shorter:
  "wait_ready deadline wr s = Some (r, s') \<Longrightarrow> length (clock s') < length (clock s)"
proof (induction "length (clock s)" arbitrary: s rule: less_induct)
  case less
  have IH: "length (clock s') < Suc (length ts)"
    if "wait_ready deadline wr (s\<lparr>clock := ts, polls := ps\<rparr>) = Some (r, s')" "clock s = t # ts" for t ts ps
    using less(1) [OF _ that(1)] that(2) by simp
  from less(2) show ?case
    by (subst (asm) wait_ready.simps)
      (auto simp: Let_def monotonicNow_def dest: IH
        split: option.splits sum.splits if_splits list.splits poll_result.splits)
qed

section \<open>Sending\<close>

text \<open>\<open>sizeof(struct can_frame)\<close> is 16.\<close>

function socketcan_send ::
  "frame \<Rightarrow> u64 \<Rightarrow> socketcan \<Rightarrow> ((transport_status + u64) \<times> socketcan) option" where
  "socketcan_send f deadline s =
     (case load_closed s of (c, s0) \<Rightarrow>
      if c then Some (Inl OA_TRANSPORT_ECLOSED, s0)
      else case monotonicNow s0 of None \<Rightarrow> None
      | Some (Inl _, s1) \<Rightarrow> Some (Inl OA_TRANSPORT_EIO, s1)
      | Some (Inr now, s1) \<Rightarrow>
          if now \<ge> deadline then Some (Inl OA_TRANSPORT_ETIMEOUT, s1)
          else case writes s1 of [] \<Rightarrow> None
          | w # ws \<Rightarrow>
              let s2 = s1\<lparr>writes := ws\<rparr> in
              (case w of
                 Inr n \<Rightarrow> if n = 16 then monotonicNow s2 else Some (Inl OA_TRANSPORT_EIO, s2)
               | Inl e \<Rightarrow>
                   if e = ENETDOWN \<or> e = ENETUNREACH \<or> e = ENODEV
                   then Some (Inl OA_TRANSPORT_ELINK, s2)
                   else if e \<noteq> EAGAIN \<and> e \<noteq> EWOULDBLOCK \<and> e \<noteq> ENOBUFS \<and> e \<noteq> EINTR
                   then Some (Inl OA_TRANSPORT_EIO, s2)
                   else if e = EINTR then socketcan_send f deadline s2
                   else case wait_ready deadline True s2 of None \<Rightarrow> None
                   | Some (r, s3) \<Rightarrow>
                       if r = Ready_Closed then Some (Inl OA_TRANSPORT_ECLOSED, s3)
                       else if r = Ready_Timeout then Some (Inl OA_TRANSPORT_ETIMEOUT, s3)
                       else if r = Ready_Failed then Some (Inl OA_TRANSPORT_EIO, s3)
                       else socketcan_send f deadline s3))"
  by pat_completeness auto
termination
  by (relation "measure (\<lambda>(_, _, s). length (clock s))")
    (fastforce dest: monotonicNow_shorter wait_ready_shorter load_closed_clock [OF sym])+

declare socketcan_send.simps [simp del]

section \<open>Link events\<close>

definition makeLinkEvent :: "bool \<Rightarrow> socketcan \<Rightarrow> ((transport_status + event) \<times> socketcan) option" where
  "makeLinkEvent up s =
     (case monotonicNow s of None \<Rightarrow> None
      | Some (Inl e, s') \<Rightarrow> Some (Inl e, s')
      | Some (Inr ns, s') \<Rightarrow>
          Some (Inr (default_event\<lparr>ev_kind := OA_TRANSPORT_EVENT_LINK, ev_link_up := up,
                                   dequeue_monotonic_ns := ns\<rparr>), s'))"

definition enqueueLink :: "bool \<Rightarrow> socketcan \<Rightarrow> bool \<times> socketcan" where
  "enqueueLink up s =
     (if ring_full (link_events s) then (False, s)
      else (True, s\<lparr>link_events := ring_push up (link_events s)\<rparr>))"

definition dequeueLink :: "socketcan \<Rightarrow> ((transport_status + event) \<times> socketcan) option" where
  "dequeueLink s =
     (if ring_empty (link_events s) then Some (Inl OA_TRANSPORT_EIO, s)
      else makeLinkEvent (ring_front (link_events s)) (s\<lparr>link_events := ring_drop (link_events s)\<rparr>))"

text \<open>The batch of a datagram: only the transitions that change the link's state are queued.\<close>

fun note_transitions :: "bool list \<Rightarrow> socketcan \<Rightarrow> bool \<times> socketcan" where
  "note_transitions [] s = (True, s)"
| "note_transitions (up # ups) s =
     (if up \<noteq> link_up s then
        case enqueueLink up (s\<lparr>link_up := up\<rparr>) of
          (False, s') \<Rightarrow> (False, s')
        | (True, s') \<Rightarrow> note_transitions ups s'
      else note_transitions ups s)"

lemma note_transitions_reads:
  "note_transitions ups s = (ok, s') \<Longrightarrow> link_reads s' = link_reads s \<and> clock s' = clock s"
  by (induction ups s rule: note_transitions.induct)
    (auto simp: enqueueLink_def split: if_splits)

abbreviation AF_NETLINK :: u16 where "AF_NETLINK \<equiv> 16"

text \<open>
  \<open>sizeof(struct sockaddr_nl)\<close> is 12. The datagram is read into an array of 8192 bytes; a parse
  that reads outside it would be undefined behaviour, \<open>None\<close>.
\<close>

definition netlink_buffer :: "netlink_read \<Rightarrow> u8 list" where
  "netlink_buffer m = take 8192 (nl_bytes m @ replicate 8192 0)"

function drainLinkEvents :: "socketcan \<Rightarrow> (transport_status \<times> socketcan) option" where
  "drainLinkEvents s =
     (case link_reads s of [] \<Rightarrow> None
      | Inl e # rs \<Rightarrow>
          let s1 = s\<lparr>link_reads := rs\<rparr> in
          if e = EAGAIN \<or> e = EWOULDBLOCK then Some (OA_TRANSPORT_OK, s1)
          else if e = EINTR then drainLinkEvents s1
          else Some (OA_TRANSPORT_EIO, s1)
      | Inr m # rs \<Rightarrow>
          let s1 = s\<lparr>link_reads := rs\<rparr> in
          if nl_count m = 0 then Some (OA_TRANSPORT_EIO, s1)
          else if netlinkReceiveWasTruncated (nl_count m) 8192 (nl_flags m)
               \<or> nl_namelen m < 12 \<or> nl_family m \<noteq> AF_NETLINK \<or> nl_pid m \<noteq> 0
          then Some (OA_TRANSPORT_EFRAME, s1)
          else case parseLinkDatagram (Some (netlink_buffer m)) (of_nat (nl_count m)) (ifindex s1) of None \<Rightarrow> None
          | Some (Inl e) \<Rightarrow> Some (e, s1)
          | Some (Inr batch) \<Rightarrow>
              (case note_transitions batch s1 of
                 (False, s2) \<Rightarrow> Some (OA_TRANSPORT_EIO, s2)
               | (True, s2) \<Rightarrow> drainLinkEvents s2))"
  by pat_completeness auto
termination
  by (relation "measure (\<lambda>s. length (link_reads s))") (auto dest!: note_transitions_reads [OF sym])

declare drainLinkEvents.simps [simp del]

section \<open>Receiving\<close>

abbreviation CAN_ERR_FLAG :: u32 where "CAN_ERR_FLAG \<equiv> 0x20000000"
abbreviation CAN_RTR_FLAG :: u32 where "CAN_RTR_FLAG \<equiv> 0x40000000"
abbreviation CAN_EFF_FLAG :: u32 where "CAN_EFF_FLAG \<equiv> 0x80000000"
abbreviation CAN_ERR_MASK :: u32 where "CAN_ERR_MASK \<equiv> 0x1fffffff"
abbreviation CAN_SFF_MASK :: u32 where "CAN_SFF_MASK \<equiv> 0x7ff"
abbreviation OA_TRANSPORT_EVENT_KERNEL_TIMESTAMP :: u32 where
  "OA_TRANSPORT_EVENT_KERNEL_TIMESTAMP \<equiv> 1"
abbreviation OA_TRANSPORT_EVENT_RX_OVERFLOW :: u32 where
  "OA_TRANSPORT_EVENT_RX_OVERFLOW \<equiv> 2"

text \<open>
  One control message: level \<open>SOL_SOCKET\<close> is 1, \<open>SCM_TIMESTAMPNS\<close> is 35 with a \<open>timespec\<close> of two
  signed 64-bit words (\<open>CMSG_LEN\<close> 32), \<open>SO_RXQ_OVFL\<close> is 40 with a 32-bit counter (\<open>CMSG_LEN\<close> 20).
\<close>

definition apply_cmsg :: "cmsg \<Rightarrow> event \<times> u32 \<Rightarrow> event \<times> u32" where
  "apply_cmsg m acc =
     (case acc of (ev, seen) \<Rightarrow>
      if cmsg_level m \<noteq> 1 then acc
      else if cmsg_type m = 35 \<and> cmsg_len m \<ge> 32 then
        let sec = le64 (cmsg_data m); nsec = le64 (drop 8 (cmsg_data m)) in
        if 0 \<le>s sec \<and> 0 \<le>s nsec \<and> nsec <s 1000000000 then
          (ev\<lparr>kernel_timestamp_ns := sec * 1000000000 + nsec,
              kernel_timestamp_clock := OA_TRANSPORT_CLOCK_REALTIME,
              ev_flags := ev_flags ev OR OA_TRANSPORT_EVENT_KERNEL_TIMESTAMP\<rparr>, seen)
        else acc
      else if cmsg_type m = 40 \<and> cmsg_len m \<ge> 20 then
        let overflow = readU32 (cmsg_data m); delta = overflow - seen in
        (ev\<lparr>rx_overflow_count := overflow, rx_overflow_delta := delta,
            ev_flags := (if delta \<noteq> 0 then ev_flags ev OR OA_TRANSPORT_EVENT_RX_OVERFLOW
                         else ev_flags ev)\<rparr>, overflow)
      else acc)"

definition receiveCan :: "socketcan \<Rightarrow> ((transport_status + event) \<times> socketcan) option" where
  "receiveCan s =
     (case can_reads s of [] \<Rightarrow> None
      | Inl e # rs \<Rightarrow>
          let s1 = s\<lparr>can_reads := rs\<rparr> in
          if e = EAGAIN \<or> e = EWOULDBLOCK \<or> e = EINTR then Some (Inl OA_TRANSPORT_ETIMEOUT, s1)
          else if e = ENETDOWN \<or> e = ENETUNREACH \<or> e = ENODEV
          then makeLinkEvent False (s1\<lparr>link_up := False\<rparr>)
          else Some (Inl OA_TRANSPORT_EIO, s1)
      | Inr m # rs \<Rightarrow>
          let s1 = s\<lparr>can_reads := rs\<rparr>; wire = can_id (cr_frame m);
              error_frame = wire AND CAN_ERR_FLAG \<noteq> 0 in
          if cr_count m \<noteq> 16 \<or> cr_flags m AND (MSG_TRUNC OR MSG_CTRUNC) \<noteq> 0 \<or> dlc (cr_frame m) \<noteq> 8
          then Some (Inl OA_TRANSPORT_EFRAME, s1)
          else if \<not> error_frame \<and> (wire AND (CAN_EFF_FLAG OR CAN_RTR_FLAG) \<noteq> 0
                                  \<or> wire AND CAN_SFF_MASK > OA_TRANSPORT_SFF_MASK)
          then Some (Inl OA_TRANSPORT_EFRAME, s1)
          else if error_frame \<and> wire AND (CAN_EFF_FLAG OR CAN_RTR_FLAG) \<noteq> 0
          then Some (Inl OA_TRANSPORT_EFRAME, s1)
          else
            let ev = default_event
                  \<lparr>ev_frame := cr_frame m,
                   ev_kind := (if error_frame then OA_TRANSPORT_EVENT_CAN_ERROR
                               else OA_TRANSPORT_EVENT_FRAME),
                   ev_can_error_mask := (if error_frame then wire AND CAN_ERR_MASK else 0),
                   ev_link_up := link_up s1, rx_overflow_count := last_overflow_count s1\<rparr>;
                (ev', seen) = fold apply_cmsg (cr_control m) (ev, last_overflow_count s1);
                s2 = s1\<lparr>last_overflow_count := seen\<rparr>
            in case monotonicNow s2 of None \<Rightarrow> None
               | Some (Inl e, s3) \<Rightarrow> Some (Inl e, s3)
               | Some (Inr ns, s3) \<Rightarrow> Some (Inr (ev'\<lparr>dequeue_monotonic_ns := ns\<rparr>), s3))"

lemma makeLinkEvent_shorter:
  "makeLinkEvent up s = Some (r, s') \<Longrightarrow> length (clock s') < length (clock s)"
  by (auto simp: makeLinkEvent_def dest: monotonicNow_shorter split: option.splits sum.splits)

lemma receiveCan_clock:
  "receiveCan s = Some (r, s') \<Longrightarrow> length (clock s') \<le> length (clock s)"
  by (auto simp: receiveCan_def Let_def dest!: monotonicNow_shorter makeLinkEvent_shorter
      split: option.splits sum.splits list.splits if_splits prod.splits)

lemma drainLinkEvents_clock: "drainLinkEvents s = Some (e, s') \<Longrightarrow> clock s' = clock s"
proof (induction "length (link_reads s)" arbitrary: s rule: less_induct)
  case less
  have IH: "clock s' = clock s1"
    if "drainLinkEvents s1 = Some (e, s')" "link_reads s1 = rs" "link_reads s = r # rs" for s1 r rs
    using less(1) [OF _ that(1)] that(2,3) by simp
  from less(2) show ?case
    by (subst (asm) drainLinkEvents.simps)
      (auto simp: Let_def dest!: note_transitions_reads dest: IH [where rs = "tl (link_reads s)"]
        split: list.splits sum.splits option.splits if_splits prod.splits bool.splits)
qed

text \<open>The \<open>while\<close> loop of \<open>receive\<close>.\<close>

function receive_loop ::
  "u64 \<Rightarrow> socketcan \<Rightarrow> ((transport_status + event) \<times> socketcan) option" where
  "receive_loop deadline s =
     (case load_closed s of (c, s0) \<Rightarrow>
      if c then Some (Inl OA_TRANSPORT_ECLOSED, s0)
      else case wait_ready deadline False s0 of None \<Rightarrow> None
      | Some (r, s1) \<Rightarrow>
          (case r of
             Ready_Closed \<Rightarrow> Some (Inl OA_TRANSPORT_ECLOSED, s1)
           | Ready_Timeout \<Rightarrow> Some (Inl OA_TRANSPORT_ETIMEOUT, s1)
           | Ready_Failed \<Rightarrow> Some (Inl OA_TRANSPORT_EIO, s1)
           | Ready_Link \<Rightarrow>
               (case drainLinkEvents s1 of None \<Rightarrow> None
                | Some (e, s2) \<Rightarrow>
                    if e \<noteq> OA_TRANSPORT_OK then Some (Inl e, s2)
                    else if \<not> ring_empty (link_events s2) then dequeueLink s2
                    else receive_loop deadline s2)
           | Ready_Can \<Rightarrow>
               (case receiveCan s1 of None \<Rightarrow> None
                | Some (res, s2) \<Rightarrow>
                    if res = Inl OA_TRANSPORT_ETIMEOUT then receive_loop deadline s2
                    else Some (res, s2))))"
  by pat_completeness auto
termination
  by (relation "measure (\<lambda>(_, s). length (clock s))")
    (fastforce dest: wait_ready_shorter drainLinkEvents_clock receiveCan_clock load_closed_clock [OF sym])+

declare receive_loop.simps [simp del]

definition socketcan_receive ::
  "u64 \<Rightarrow> socketcan \<Rightarrow> ((transport_status + event) \<times> socketcan) option" where
  "socketcan_receive deadline s =
     (case monotonicNow s of None \<Rightarrow> None
      | Some (Inl _, s1) \<Rightarrow> Some (Inl OA_TRANSPORT_EIO, s1)
      | Some (Inr now, s1) \<Rightarrow>
          if deadline \<le> now then Some (Inl OA_TRANSPORT_ETIMEOUT, s1)
          else if \<not> ring_empty (link_events s1) then dequeueLink s1
          else receive_loop deadline s1)"

text \<open>\<open>close\<close> sets the flag once and wakes a waiter; the wake is an answer of \<open>ppoll\<close>.\<close>

definition socketcan_close :: "socketcan \<Rightarrow> socketcan" where
  "socketcan_close s = s\<lparr>be_closed := True\<rparr>"

definition socketcan_ops :: "socketcan backend_ops" where
  "socketcan_ops =
     \<lparr>be_now = monotonicNow, be_send = socketcan_send, be_receive = socketcan_receive,
      be_close = socketcan_close, be_permits = (\<lambda>_. socketCanBackendPermitsAuthorityIssuance)\<rparr>"

section \<open>Opening and destroying the backend\<close>

text \<open>
  The kernel's answers to the calls \<open>makeSocketCanBackend\<close> makes, in their order: descriptors
  are negative on failure, a resolved name is \<open>None\<close> on failure. \<open>alloc_ok\<close> is the \<open>nothrow\<close> new.
\<close>

record open_answers =
  oa_can_fd :: int
  oa_link_fd :: int
  oa_link_bind_ok :: bool
  oa_ifindex :: u32
  oa_resolved :: "string option"
  oa_mtu :: "int option"
  oa_hwaddr :: "u16 option"
  oa_flags :: "u32 option"
  oa_filter_ok :: bool
  oa_err_filter_ok :: bool
  oa_own_msgs_ok :: bool
  oa_timestamp_ok :: bool
  oa_overflow_ok :: bool
  oa_rcvbuf_ok :: bool
  oa_can_bind_ok :: bool
  oa_wake_fd :: int
  oa_alloc_ok :: bool

record can_filter =
  filter_id :: u32
  filter_mask :: u32

record open_config =
  receive_buffer_bytes :: u32
  can_error_mask :: u32
  cfg_horizon_ns :: u64
  cfg_filters :: "can_filter list"

definition validInterfaceName :: "string \<Rightarrow> bool" where
  "validInterfaceName name \<longleftrightarrow> name \<noteq> [] \<and> length name < 16 \<and> CHR ''/'' \<notin> set name"

text \<open>\<open>CAN_MTU\<close> is 16 and \<open>ARPHRD_CAN\<close> is 280.\<close>

definition queryInterface :: "string \<Rightarrow> open_answers \<Rightarrow> transport_status + u32 \<times> bool" where
  "queryInterface name os =
     (if oa_ifindex os = 0 then Inl OA_TRANSPORT_EINVAL
      else if oa_resolved os \<noteq> Some name then Inl OA_TRANSPORT_EINVAL
      else if oa_mtu os \<noteq> Some 16 then Inl OA_TRANSPORT_EUNSUPPORTED
      else if oa_hwaddr os \<noteq> Some 280 then Inl OA_TRANSPORT_EUNSUPPORTED
      else case oa_flags os of None \<Rightarrow> Inl OA_TRANSPORT_EIO
      | Some fl \<Rightarrow> Inr (oa_ifindex os, fl AND IFF_UP \<noteq> 0 \<and> fl AND IFF_RUNNING \<noteq> 0))"

definition wire_filters :: "open_config \<Rightarrow> can_filter list" where
  "wire_filters cfg =
     map (\<lambda>f. \<lparr>filter_id = filter_id f,
               filter_mask = filter_mask f OR CAN_EFF_FLAG OR CAN_RTR_FLAG\<rparr>) (cfg_filters cfg)"

text \<open>The constructor: the initial state of the link is queued as its first event.\<close>

definition new_socketcan :: "u32 \<Rightarrow> bool \<Rightarrow> socketcan \<Rightarrow> socketcan" where
  "new_socketcan i up tapes =
     snd (enqueueLink up (tapes\<lparr>ifindex := i, link_up := up, link_events := ring_init 64 False,
                                last_overflow_count := 0, be_closed := False\<rparr>))"

text \<open>
  The result: the status, the backend when there is one, and the descriptors that are open,
  each \<open>close\<close> having removed its own from the list. \<open>sizeof(can_filter)\<close> is 8.
\<close>

definition makeSocketCanBackend ::
  "string \<Rightarrow> open_config \<Rightarrow> open_answers \<Rightarrow> socketcan
     \<Rightarrow> transport_status \<times> socketcan option \<times> int list" where
  "makeSocketCanBackend name cfg os tapes =
     (let can = oa_can_fd os; link = oa_link_fd os; wake = oa_wake_fd os in
      if \<not> validInterfaceName name then (OA_TRANSPORT_EINVAL, None, [])
      else if can < 0 then (OA_TRANSPORT_EIO, None, [])
      else let fds = [can] in
      if link < 0 then (OA_TRANSPORT_EIO, None, remove1 can fds)
      else let fds = link # fds in
      if \<not> oa_link_bind_ok os then (OA_TRANSPORT_EIO, None, remove1 can (remove1 link fds))
      else case queryInterface name os of
        Inl e \<Rightarrow> (e, None, remove1 can (remove1 link fds))
      | Inr (i, up) \<Rightarrow>
          if wire_filters cfg \<noteq> []
             \<and> (length (wire_filters cfg) * 8 > 2 ^ 32 - 1 \<or> \<not> oa_filter_ok os)
          then (OA_TRANSPORT_EIO, None, remove1 can (remove1 link fds))
          else if \<not> oa_err_filter_ok os \<or> \<not> oa_own_msgs_ok os \<or> \<not> oa_timestamp_ok os
               \<or> \<not> oa_overflow_ok os
          then (OA_TRANSPORT_EIO, None, remove1 can (remove1 link fds))
          else if receive_buffer_bytes cfg \<noteq> 0 \<and> receive_buffer_bytes cfg > 0x7fffffff
          then (OA_TRANSPORT_ERANGE, None, remove1 can (remove1 link fds))
          else if receive_buffer_bytes cfg \<noteq> 0 \<and> \<not> oa_rcvbuf_ok os
          then (OA_TRANSPORT_EIO, None, remove1 can (remove1 link fds))
          else if \<not> oa_can_bind_ok os
          then (OA_TRANSPORT_EIO, None, remove1 can (remove1 link fds))
          else if wake < 0 then (OA_TRANSPORT_EIO, None, remove1 can (remove1 link fds))
          else let fds = wake # fds in
          if \<not> oa_alloc_ok os
          then (OA_TRANSPORT_ENOMEM, None, remove1 can (remove1 wake (remove1 link fds)))
          else (OA_TRANSPORT_OK, Some (new_socketcan i up tapes), fds))"

text \<open>\<open>~SocketCanBackend\<close>, on the descriptors still open.\<close>

definition destroy_socketcan :: "open_answers \<Rightarrow> int list \<Rightarrow> int list" where
  "destroy_socketcan os fds =
     remove1 (oa_can_fd os) (remove1 (oa_wake_fd os) (remove1 (oa_link_fd os) fds))"

section \<open>Reading datagrams\<close>

lemma get_bytes_some: "off + n \<le> length d \<Longrightarrow> get_bytes d off n = Some (take n (drop off d))"
  by (simp add: get_bytes_def)

lemma parse_loop_end [simp]: "parse_loop d len i len batch = Some (Inr batch)"
  by (subst parse_loop.simps) simp

text \<open>Every read of the parser is inside the datagram it was given.\<close>

lemma parse_loop_safe:
  assumes "unat len \<le> length d"
  shows "off \<le> len \<Longrightarrow> parse_loop d len i off batch \<noteq> None"
proof (induction "unat (len - off)" arbitrary: off batch rule: less_induct)
  case less
  have left: "unat (len - off) = unat len - unat off" using less.prems by (rule unat_sub)
  show ?case
  proof (cases "len - off \<ge> NLMSGHDR_SIZE")
    case False
    then show ?thesis by (subst parse_loop.simps) simp
  next
    case True
    then have room: "unat off + 16 \<le> unat len" using left by (simp add: word_le_nat_alt)
    define h where "h = take 16 (drop (unat off) d)"
    define info where "info = take 16 (drop (unat off + 16) d)"
    have h: "get_bytes d (unat off) 16 = Some h"
      using room assms by (simp add: h_def get_bytes_some)
    have rec: "parse_loop d len i (off + k) b \<noteq> None" if "0 < k" "k \<le> len - off" for k b
    proof (rule less.hyps)
      show "unat (len - (off + k)) < unat (len - off)" using step_shrinks [OF that] by simp
      have "unat off + unat k \<le> unat len" using that(2) left less.prems by (simp add: word_le_nat_alt)
      moreover have "unat (off + k) \<le> unat off + unat k" by (simp add: unat_word_ariths)
      ultimately show "off + k \<le> len" by (simp add: word_le_nat_alt)
    qed
    have info: "get_bytes d (unat off + 16) 16 = Some info"
      if "32 \<le> nlmsg_len h" "nlmsg_len h \<le> len - off"
      using that assms left room by (simp add: info_def get_bytes_some word_le_nat_alt)
    show ?thesis
    proof (cases "nlmsg_len h < 16 \<or> len - off < nlmsg_len h")
      case True
      with \<open>len - off \<ge> NLMSGHDR_SIZE\<close> show ?thesis
        by (subst parse_loop.simps) (simp add: h Let_def)
    next
      case False
      then have pos: "nlmsg_len h \<le> len - off" "0 < nlmsg_len h"
        by (simp_all only: not_less de_Morgan_disj) (simp add: word_le_nat_alt word_less_nat_alt)
      have "0 < nlmsg_align (nlmsg_len h)" using align_positive(1) [of h] False by simp
      then show ?thesis
        using False True rec [OF pos(2,1)] rec [of "nlmsg_align (nlmsg_len h)"] info
        by (subst parse_loop.simps) (simp add: h Let_def not_less)
    qed
  qed
qed

lemma parse_loop_bounded:
  "parse_loop d len i off batch = Some (Inr out) \<Longrightarrow> length batch \<le> 64 \<Longrightarrow> length out \<le> 64"
proof (induction d len i off batch rule: parse_loop.induct)
  case (1 d len i off batch)
  from 1(3,4) show ?case
    by (subst (asm) parse_loop.simps)
      (auto simp: Let_def not_less intro: 1(1,2) split: if_splits option.splits)
qed

end
