(* ===== verification/Socketcan_Safety.thy ===== *)
theory Socketcan_Safety
  imports Socketcan
begin

text \<open>
  The link datagram parser against an encoder of netlink messages, the queue of link
  transitions against lists, what a send writes to the socket, the descriptors of the backend's
  life, and the transport over this backend.
\<close>

section \<open>An encoder of link messages\<close>

record link_msg =
  lm_type :: u16
  lm_index :: u32
  lm_flags :: u32
  lm_attributes :: "u8 list"

definition le_bytes16 :: "u16 \<Rightarrow> u8 list" where
  "le_bytes16 v = [byte_of 0 v, byte_of 1 v]"

definition lm_length :: "link_msg \<Rightarrow> nat" where
  "lm_length m = 32 + length (lm_attributes m)"

definition lm_padding :: "link_msg \<Rightarrow> nat" where
  "lm_padding m = (lm_length m + 3) div 4 * 4 - lm_length m"

definition encode_msg :: "link_msg \<Rightarrow> u8 list" where
  "encode_msg m = le_bytes32 (of_nat (lm_length m)) @ le_bytes16 (lm_type m) @ replicate 10 0
     @ replicate 4 0 @ le_bytes32 (lm_index m) @ le_bytes32 (lm_flags m) @ replicate 4 0
     @ lm_attributes m @ replicate (lm_padding m) 0"

definition lm_ok :: "link_msg \<Rightarrow> bool" where
  "lm_ok m \<longleftrightarrow> lm_type m \<noteq> NLMSG_ERROR \<and> lm_type m \<noteq> NLMSG_OVERRUN \<and> lm_length m < 2 ^ 32"

definition lm_about :: "u32 \<Rightarrow> link_msg \<Rightarrow> bool" where
  "lm_about i m \<longleftrightarrow> lm_index m = i \<and> (lm_type m = RTM_NEWLINK \<or> lm_type m = RTM_DELLINK)"

definition lm_running :: "link_msg \<Rightarrow> bool" where
  "lm_running m \<longleftrightarrow> lm_type m = RTM_NEWLINK \<and> lm_flags m AND IFF_UP \<noteq> 0
     \<and> lm_flags m AND IFF_RUNNING \<noteq> 0"

definition link_states :: "u32 \<Rightarrow> link_msg list \<Rightarrow> bool list" where
  "link_states i ms = map lm_running (filter (lm_about i) ms)"

lemma length_le_bytes [simp]: "length (le_bytes32 v) = 4" "length (le_bytes16 w) = 2"
  by (simp_all add: le_bytes32_def le_bytes16_def)

lemma readU32_append [simp]: "readU32 (le_bytes32 v @ xs) = v"
  using readU32_le_bytes32 [of v] by (simp add: readU32_def le_bytes32_def)

lemma le16_append [simp]: "le16 (le_bytes16 v @ xs) = v"
  using byte_join [of v] by (simp add: le16_def le_bytes16_def)

lemma length_encode: "length (encode_msg m) = lm_length m + lm_padding m"
  by (simp add: encode_msg_def lm_length_def)

lemma aligned_length: "(lm_length m + 3) div 4 * 4 = lm_length m + lm_padding m"
  by (simp add: lm_padding_def)

lemma nlmsg_len_encode:
  "lm_ok m \<Longrightarrow> unat (nlmsg_len (take 16 (encode_msg m @ xs))) = lm_length m"
  by (simp add: nlmsg_len_def encode_msg_def lm_ok_def unat_of_nat unsigned_ucast_eq take_bit_nat_eq_self)

lemma nlmsg_align_encode:
  "lm_ok m \<Longrightarrow> unat (nlmsg_align (nlmsg_len (take 16 (encode_msg m @ xs)))) = lm_length m + lm_padding m"
  by (simp only: nlmsg_align_nat [OF nlmsg_len_small] nlmsg_len_encode aligned_length)

lemma nlmsg_type_encode: "nlmsg_type (take 16 (encode_msg m @ xs)) = lm_type m"
  by (simp add: nlmsg_type_def encode_msg_def)

lemma ifi_encode:
  "ifi_index (take 16 (drop 16 (encode_msg m @ xs))) = lm_index m"
  "ifi_flags (take 16 (drop 16 (encode_msg m @ xs))) = lm_flags m"
  by (simp_all add: ifi_index_def ifi_flags_def encode_msg_def)

text \<open>Positions inside a buffer that \<open>size_t\<close> can index.\<close>

lemma size_sub: "n \<le> m \<Longrightarrow> m < 2 ^ 64 \<Longrightarrow> unat (word_of_nat m - word_of_nat n :: u64) = m - n"
  by (subst unat_sub) (simp_all add: word_le_nat_alt unat_of_nat)

lemma size_of: "n < 2 ^ 64 \<Longrightarrow> unat (word_of_nat n :: u64) = n"
  by (simp add: unat_of_nat)

lemma parse_loop_message:
  assumes "NLMSGHDR_SIZE \<le> n - off" "get_bytes d (unat off) (unat NLMSGHDR_SIZE) = Some h"
      "get_bytes d (unat off + unat NLMSGHDR_SIZE) (unat IFINFOMSG_SIZE) = Some info"
    and "\<not> nlmsg_len h < NLMSGHDR_SIZE" "\<not> n - off < nlmsg_len h" "\<not> n - off < nlmsg_align (nlmsg_len h)"
    and "32 \<le> nlmsg_len h" "nlmsg_type h \<noteq> NLMSG_ERROR" "nlmsg_type h \<noteq> NLMSG_OVERRUN" "0 <s i"
    and "next = off + nlmsg_align (nlmsg_len h)"
  shows "parse_loop d n i off batch =
    (if ifi_index info = i \<and> (nlmsg_type h = RTM_NEWLINK \<or> nlmsg_type h = RTM_DELLINK) then
       if length batch = 64 then Some (Inl OA_TRANSPORT_EIO)
       else parse_loop d n i next (batch @ [nlmsg_type h = RTM_NEWLINK \<and> ifi_flags info AND IFF_UP \<noteq> 0
                                            \<and> ifi_flags info AND IFF_RUNNING \<noteq> 0])
     else parse_loop d n i next batch)"
  using assms by (subst parse_loop.simps) (auto simp: Let_def)

lemma parse_step:
  assumes "lm_ok m" "0 <s i" and small: "length (pre @ encode_msg m @ post) < 2 ^ 64"
  shows "parse_loop (pre @ encode_msg m @ post) (of_nat (length (pre @ encode_msg m @ post))) i
      (of_nat (length pre)) batch
   = (if lm_about i m then
        if length batch = 64 then Some (Inl OA_TRANSPORT_EIO)
        else parse_loop (pre @ encode_msg m @ post) (of_nat (length (pre @ encode_msg m @ post))) i
               (of_nat (length (pre @ encode_msg m))) (batch @ [lm_running m])
      else parse_loop (pre @ encode_msg m @ post) (of_nat (length (pre @ encode_msg m @ post))) i
             (of_nat (length (pre @ encode_msg m))) batch)"
proof -
  let ?d = "pre @ encode_msg m @ post"
  let ?n = "of_nat (length ?d) :: u64" and ?o = "of_nat (length pre) :: u64"
    and ?next = "of_nat (length (pre @ encode_msg m)) :: u64"
  let ?h = "take 16 (encode_msg m @ post)" and ?info = "take 16 (drop 16 (encode_msg m @ post))"
  have len: "32 \<le> lm_length m" by (simp add: lm_length_def)
  have o: "unat ?o = length pre" using small by (intro size_of) simp
  have left: "unat (?n - ?o) = length (encode_msg m @ post)" using small by (subst size_sub) simp_all
  have h: "get_bytes ?d (unat ?o) (unat NLMSGHDR_SIZE) = Some ?h"
    using len by (simp add: o get_bytes_def length_encode)
  have info: "get_bytes ?d (unat ?o + unat NLMSGHDR_SIZE) (unat IFINFOMSG_SIZE) = Some ?info"
    using len by (simp add: o get_bytes_def length_encode)
  note ml = nlmsg_len_encode [OF assms(1), of post] and al = nlmsg_align_encode [OF assms(1), of post]
  have sizes: "?n - ?o \<ge> NLMSGHDR_SIZE" "\<not> nlmsg_len ?h < NLMSGHDR_SIZE" "\<not> nlmsg_len ?h > ?n - ?o"
      "\<not> nlmsg_align (nlmsg_len ?h) > ?n - ?o" "nlmsg_len ?h \<ge> NLMSGHDR_SIZE + IFINFOMSG_SIZE"
    using len by (simp_all only: word_le_nat_alt word_less_nat_alt left ml al) (simp_all add: length_encode)
  have read_back: "w = of_nat (unat w)" for w :: u64 by simp
  have "nlmsg_align (nlmsg_len ?h) = of_nat (unat (nlmsg_align (nlmsg_len ?h)))" by (rule read_back)
  also have "\<dots> = of_nat (length (encode_msg m))" by (simp only: al length_encode)
  finally have onward: "?o + nlmsg_align (nlmsg_len ?h) = ?next" by simp
  have ty: "nlmsg_type ?h \<noteq> NLMSG_ERROR" "nlmsg_type ?h \<noteq> NLMSG_OVERRUN"
    using assms(1) by (simp_all only: nlmsg_type_encode lm_ok_def simp_thms)
  have big: "32 \<le> nlmsg_len ?h" using len by (simp only: word_le_nat_alt ml) simp
  show ?thesis
    unfolding parse_loop_message [OF sizes(1) h info sizes(2-4) big ty assms(2) onward [symmetric]]
      nlmsg_type_encode ifi_encode lm_about_def lm_running_def ..
qed

lemma parse_messages:
  assumes "list_all lm_ok ms" "0 <s i" "length batch \<le> 64"
    and "length (pre @ concat (map encode_msg ms)) < 2 ^ 64"
  shows "parse_loop (pre @ concat (map encode_msg ms)) (of_nat (length (pre @ concat (map encode_msg ms)))) i
      (of_nat (length pre)) batch
    = Some (if length batch + length (link_states i ms) \<le> 64 then Inr (batch @ link_states i ms)
            else Inl OA_TRANSPORT_EIO)"
  using assms
proof (induction ms arbitrary: pre batch)
  case Nil
  then show ?case by (simp add: link_states_def)
next
  case (Cons m ms)
  let ?post = "concat (map encode_msg ms)"
  have ok: "lm_ok m" "list_all lm_ok ms" and small: "length (pre @ encode_msg m @ ?post) < 2 ^ 64"
    using Cons.prems(1,4) by simp_all
  have eq: "pre @ concat (map encode_msg (m # ms)) = pre @ encode_msg m @ ?post"
      "pre @ encode_msg m @ ?post = (pre @ encode_msg m) @ ?post" by simp_all
  note step = parse_step [OF ok(1) Cons.prems(2) small]
  have IH: "parse_loop (pre @ encode_msg m @ ?post) (of_nat (length (pre @ encode_msg m @ ?post))) i
      (of_nat (length (pre @ encode_msg m))) b
    = Some (if length b + length (link_states i ms) \<le> 64 then Inr (b @ link_states i ms) else Inl OA_TRANSPORT_EIO)"
    if "length b \<le> 64" for b
    using Cons.IH [OF ok(2) Cons.prems(2) that, of "pre @ encode_msg m"] small unfolding eq(2) by simp
  have states: "link_states i (m # ms) = (if lm_about i m then [lm_running m] else []) @ link_states i ms"
    by (simp add: link_states_def)
  show ?case
  proof (cases "lm_about i m \<and> length batch < 64")
    case True
    then have "length (batch @ [lm_running m]) \<le> 64" by simp
    from IH [OF this] True show ?thesis unfolding eq(1) step states by auto
  next
    case False
    then show ?thesis unfolding eq(1) step states using IH [OF Cons.prems(3)] Cons.prems(3) by auto
  qed
qed

section \<open>The queue of link transitions\<close>

definition backend_wf :: "socketcan \<Rightarrow> bool" where
  "backend_wf s \<longleftrightarrow> ring_wf 64 (link_events s)"

text \<open>The transitions a sequence of states makes, and the state it ends in.\<close>

fun changes :: "bool \<Rightarrow> bool list \<Rightarrow> bool list" where
  "changes l [] = []"
| "changes l (u # us) = (if u \<noteq> l then u # changes u us else changes l us)"

lemma changes_alternate: "changes l us = u # us' \<Longrightarrow> u = (\<not> l)"
  by (induction l us rule: changes.induct) (auto split: if_splits)

lemma enqueueLink_spec:
  assumes "backend_wf s"
  shows "case enqueueLink up s of (ok, s') \<Rightarrow> backend_wf s'
    \<and> (ok \<longleftrightarrow> length (ring_list (link_events s)) < 64)
    \<and> (ok \<longrightarrow> ring_list (link_events s') = ring_list (link_events s) @ [up])"
  using assms ring64.good_push [of "link_events s"] ring64.contents_push [of "link_events s"]
    ring64.full_iff [of "link_events s"] ring64.bounded [of "link_events s"]
  by (auto simp: backend_wf_def enqueueLink_def)

lemma note_transitions_spec:
  assumes "backend_wf s"
  shows "case note_transitions ups s of (ok, s') \<Rightarrow> backend_wf s'
    \<and> (ok \<longleftrightarrow> length (ring_list (link_events s)) + length (changes (link_up s) ups) \<le> 64)
    \<and> (ok \<longrightarrow> ring_list (link_events s')
                  = ring_list (link_events s) @ changes (link_up s) ups)"
  using assms
proof (induction ups s rule: note_transitions.induct)
  case (1 s)
  then show ?case
    using ring64.bounded [of "link_events s"] by (simp add: backend_wf_def)
next
  case (2 up ups s)
  show ?case
  proof (cases "up = link_up s")
    case True
    with 2 show ?thesis by simp
  next
    case False
    obtain ok s1 where e: "enqueueLink up (s\<lparr>link_up := up\<rparr>) = (ok, s1)" by fastforce
    have spec: "backend_wf s1" "ok \<longleftrightarrow> length (ring_list (link_events s)) < 64"
        "ok \<Longrightarrow> ring_list (link_events s1) = ring_list (link_events s) @ [up]"
      using enqueueLink_spec [of "s\<lparr>link_up := up\<rparr>" up] 2(3) e by (auto simp: backend_wf_def)
    have up: "ok \<Longrightarrow> link_up s1 = up" using e by (auto simp: enqueueLink_def split: if_splits)
    show ?thesis
    proof (cases ok)
      case True
      have "case note_transitions ups s1 of (ok', s') \<Rightarrow> backend_wf s'
        \<and> (ok' \<longleftrightarrow> length (ring_list (link_events s1)) + length (changes (link_up s1) ups) \<le> 64)
        \<and> (ok' \<longrightarrow> ring_list (link_events s')
                      = ring_list (link_events s1) @ changes (link_up s1) ups)"
        using 2(1) [OF _ e [symmetric]] False True e spec(1) by simp
      then show ?thesis using False True e spec up [OF True] by (auto simp: length_ring_list [symmetric] simp del: length_ring_list)
    next
      case no: False
      then show ?thesis using False e spec(1,2) by (auto simp: length_ring_list [symmetric] simp del: length_ring_list)
    qed
  qed
qed

section \<open>What a send writes\<close>

lemma wait_ready_writes: "wait_ready deadline wr s = Some (r, s') \<Longrightarrow> writes s' = writes s"
proof (induction "length (clock s)" arbitrary: s rule: less_induct)
  case less
  have IH: "writes s' = writes s"
    if "wait_ready deadline wr (s\<lparr>clock := ts, polls := ps\<rparr>) = Some (r, s')" "clock s = t # ts" for t ts ps
    using less(1) [OF _ that(1)] that(2) by simp
  from less(2) show ?case
    by (subst (asm) wait_ready.simps)
      (auto simp: Let_def monotonicNow_def intro: IH
        split: option.splits sum.splits if_splits list.splits poll_result.splits)
qed

lemma monotonicNow_error: "monotonicNow s = Some (Inl e, s') \<Longrightarrow> e = OA_TRANSPORT_EIO"
  by (auto simp: monotonicNow_def split: list.splits if_splits)

lemma monotonicNow_writes: "monotonicNow s = Some (r, s') \<Longrightarrow> writes s' = writes s"
  by (auto simp: monotonicNow_def split: list.splits)

lemma load_closed_writes: "load_closed s = (c, s') \<Longrightarrow> writes s' = writes s"
  by (auto simp: load_closed_def split: list.splits)

definition retried :: "errno list \<Rightarrow> bool" where
  "retried es \<longleftrightarrow> set es \<subseteq> {EAGAIN, EWOULDBLOCK, ENOBUFS, EINTR}"

text \<open>
  A send that succeeds wrote the frame once, after errors it may retry; one that reports
  anything but an I/O or a link error wrote nothing.
\<close>

lemma send_writes:
  assumes "socketcan_send f deadline s = Some (r, s')"
  shows "\<exists>es. retried es \<and>
    (case r of
       Inr _ \<Rightarrow> writes s = map Inl es @ [Inr 16] @ writes s'
     | Inl e \<Rightarrow> e = OA_TRANSPORT_EIO \<or> e = OA_TRANSPORT_ELINK \<or> writes s = map Inl es @ writes s')"
  using assms
proof (induction "length (clock s)" arbitrary: s rule: less_induct)
  case less
  obtain c s0 where lc: "load_closed s = (c, s0)" by fastforce
  have s0: "writes s0 = writes s" "clock s0 = clock s"
    using load_closed_writes [OF lc] load_closed_clock [OF lc] by simp_all
  have nil: "retried []" by (simp add: retried_def)
  show ?case
  proof (cases "c \<or> monotonicNow s0 = None \<or> (\<exists>e s1. monotonicNow s0 = Some (Inl e, s1))")
    case True
    then show ?thesis using less(2) lc s0 nil
      by (subst (asm) socketcan_send.simps)
        (auto split: option.splits sum.splits if_splits intro!: exI [of _ "[]"])
  next
    case False
    then obtain now s1 where now: "\<not> c" "monotonicNow s0 = Some (Inr now, s1)"
      by (cases "monotonicNow s0") (auto split: sum.splits, metis sum.exhaust)
    have s1: "writes s = writes s1" "length (clock s1) < length (clock s)"
      using monotonicNow_writes [OF now(2)] monotonicNow_shorter [OF now(2)] s0 by auto
    show ?thesis
    proof (cases "deadline \<le> now \<or> writes s1 = [] \<or> (\<exists>n. hd (writes s1) = Inr n)
        \<or> (\<exists>e. hd (writes s1) = Inl e \<and> \<not> retried [e])")
      case True
      then show ?thesis using less(2) lc now s1 nil
        by (cases "writes s1"; subst (asm) socketcan_send.simps)
          (auto simp: Let_def retried_def dest: monotonicNow_writes monotonicNow_error
            split: sum.splits if_splits intro!: exI [of _ "[]"])
    next
      case False
      then obtain e ws where w: "\<not> deadline \<le> now" "writes s1 = Inl e # ws" and e: "retried [e]"
        by (cases "writes s1") (auto, metis sum.exhaust)
      let ?s2 = "s1\<lparr>writes := ws\<rparr>"
      have again: ?thesis if "socketcan_send f deadline s3 = Some (r, s')"
        "writes s3 = ws" "length (clock s3) < length (clock s)" for s3
      proof -
        from less(1) [OF that(3,1)] obtain es where "retried es" and
          "case r of Inr _ \<Rightarrow> writes s3 = map Inl es @ [Inr 16] @ writes s'
           | Inl e \<Rightarrow> e = OA_TRANSPORT_EIO \<or> e = OA_TRANSPORT_ELINK \<or> writes s3 = map Inl es @ writes s'"
          by blast
        then show ?thesis using e that(2) w(2) s1(1)
          by (intro exI [of _ "e # es"]) (auto simp: retried_def split: sum.splits)
      qed
      have one: ?thesis if "writes s' = ws" "r = Inl x" for x
        using that e w(2) s1(1) by (intro exI [of _ "[e]"]) simp
      show ?thesis
      proof (cases "e = EINTR")
        case True
        then have "socketcan_send f deadline ?s2 = Some (r, s')"
          using less(2) lc now w by (subst (asm) socketcan_send.simps) (simp add: Let_def)
        then show ?thesis using again s1 by simp
      next
        case False
        with less(2) lc now w e obtain rd s3 where wt: "wait_ready deadline True ?s2 = Some (rd, s3)"
          and cont: "(if rd = Ready_Closed then Some (Inl OA_TRANSPORT_ECLOSED, s3)
                      else if rd = Ready_Timeout then Some (Inl OA_TRANSPORT_ETIMEOUT, s3)
                      else if rd = Ready_Failed then Some (Inl OA_TRANSPORT_EIO, s3)
                      else socketcan_send f deadline s3) = Some (r, s')"
          by (subst (asm) socketcan_send.simps) (auto simp: Let_def retried_def split: option.splits)
        have s3: "writes s3 = ws" "length (clock s3) < length (clock s)"
          using wait_ready_writes [OF wt] wait_ready_shorter [OF wt] s1 by auto
        from cont show ?thesis using again s3 one by (auto split: if_splits)
      qed
    qed
  qed
qed

section \<open>Delivered frames\<close>

lemma masked_never_exceeds: "\<not> (w AND CAN_SFF_MASK > OA_TRANSPORT_SFF_MASK)" for w :: u32
  by (simp add: not_less word_and_le1)

section \<open>Descriptors\<close>

lemma make_descriptors:
  assumes "makeSocketCanBackend name cfg os tapes = (st, b, fds)"
  shows "(b = None \<longrightarrow> st \<noteq> OA_TRANSPORT_OK \<and> fds = [])
    \<and> (b \<noteq> None \<longrightarrow> st = OA_TRANSPORT_OK \<and> fds = [oa_wake_fd os, oa_link_fd os, oa_can_fd os])"
  using assms
  by (auto simp: makeSocketCanBackend_def Let_def queryInterface_def split: if_splits sum.splits option.splits)

section \<open>The transport over this backend\<close>

interpretation socketcan: query_only_backend socketcan_ops
  by unfold_locales (simp add: socketcan_ops_def socketCanBackendPermitsAuthorityIssuance_def)

section \<open>Properties\<close>

definition sample_tapes :: socketcan where
  "sample_tapes = \<lparr>clock = [10, 20, 30, 40, 50, 60], writes = [Inl EINTR, Inl ENOBUFS, Inr 16],
     polls = [Poll_ready POLLOUT 0 0], link_reads = [], can_reads = [], closers = [], ifindex = 3,
     link_up = True, link_events = ring_init 64 False, last_overflow_count = 0, be_closed = False\<rparr>"

text \<open>
  C16: a handle over SocketCAN is query-only. Whatever calls are made on a transport opened over
  this backend, every frame it sends is a register or status query without an authority, no
  authority is ever issued, and its grant table stays empty.
\<close>

theorem socketcan_query_only:
  assumes "transport_run socketcan_ops cs (new_transport b nonce horizon) = Some (es, t)"
  shows "grants t = Map.empty \<and> (\<forall>e\<in>set es. case e of
      Sent f k a _ \<Rightarrow> queryClass k \<and> classify f = Inr k \<and> a = None
    | Issued _ _ \<Rightarrow> False | Other_effect \<Rightarrow> True)"
  by (rule socketcan.run_queries [OF assms]) (simp add: new_transport_def)

definition status_query :: frame where
  "status_query = \<lparr>can_id = 0x7ff, dlc = 8, data = [1, 0, 0xcc, 0, 0, 0, 0, 0]\<rparr>"

definition sample_tapes_sent :: socketcan where
  "sample_tapes_sent = sample_tapes\<lparr>clock := [], writes := [], polls := []\<rparr>"

lemma sample_send:
  "socketcan_send status_query 100 (sample_tapes\<lparr>clock := [20, 30, 40, 50, 60]\<rparr>)
   = Some (Inr 60, sample_tapes_sent)"
  by (simp add: sample_tapes_def sample_tapes_sent_def socketcan_send.simps wait_ready.simps
      load_closed_def monotonicNow_def poll_decision_def)

definition sample_calls :: "transport_call list" where
  "sample_calls =
     [Call_send status_query 100 None, Call_issue (enable_frame 3) 600 [Got_bytes 8 7] Alloc_ok]"

lemma sample_run:
  "transport_run socketcan_ops sample_calls (new_transport sample_tapes (1, 2) 1000)
   = Some ([Sent status_query OA_TRANSPORT_FRAME_STATUS_QUERY None 60, Other_effect],
           new_transport sample_tapes_sent (1, 2) 1000)"
proof -
  have c: "classify status_query = Inr OA_TRANSPORT_FRAME_STATUS_QUERY"
    by code_simp
  have now: "monotonicNow sample_tapes = Some (Inr 10, sample_tapes\<lparr>clock := [20, 30, 40, 50, 60]\<rparr>)"
    by (simp add: monotonicNow_def sample_tapes_def)
  have send: "transport_send socketcan_ops status_query 100 None (new_transport sample_tapes (1, 2) 1000)
    = Some (Inr (OA_TRANSPORT_FRAME_STATUS_QUERY, 60), new_transport sample_tapes_sent (1, 2) 1000)"
    by (simp add: transport_send_def c now sample_send new_transport_def socketcan_ops_def
        validateDeadline_def queryClass_def)
  have issue: "issueAuthority socketcan_ops f x rs al (new_transport b n h)
    = Some (Inl OA_TRANSPORT_EPERMISSION, rs, new_transport b n h)" for f x rs al b n h
    by (simp add: issueAuthority_def new_transport_def socketcan_ops_def
        socketCanBackendPermitsAuthorityIssuance_def)
  show ?thesis
    by (simp add: sample_calls_def transport_call_step_def send issue)
qed

theorem socketcan_query_only_witness:
  "grants (new_transport sample_tapes_sent (1, 2) 1000) = Map.empty"
  using socketcan_query_only [OF sample_run] by blast

text \<open>
  a send puts its frame on the socket at most once. When it succeeds, the frame was
  written exactly once, after errors that may be retried; when it reports a timeout or a close,
  nothing was written.
\<close>

theorem socketcan_send_once:
  assumes "socketcan_send f deadline s = Some (r, s')"
  shows "\<exists>es. retried es \<and>
    (case r of
       Inr _ \<Rightarrow> writes s = map Inl es @ [Inr 16] @ writes s'
     | Inl e \<Rightarrow> e = OA_TRANSPORT_EIO \<or> e = OA_TRANSPORT_ELINK \<or> writes s = map Inl es @ writes s')"
  by (rule send_writes [OF assms])

theorem socketcan_send_once_witness:
  "\<exists>es. retried es \<and> writes sample_tapes = map Inl es @ [Inr 16]"
  using socketcan_send_once [OF sample_send] by (simp add: sample_tapes_def sample_tapes_sent_def)

text \<open>
  C39: the datagram parser stays inside its buffer, on 64-bit sizes whose subtraction wraps. For
  every content of a datagram that lies in the buffer no read goes outside it, the loop ends, and
  the parser returns a status or at most 64 link states.
\<close>

theorem link_parser_safe:
  assumes "unat len \<le> length d"
  shows "\<exists>r. parseLinkDatagram (Some d) len i = Some r \<and> (\<forall>out. r = Inr out \<longrightarrow> length out \<le> 64)"
  using parse_loop_safe [OF assms, of 0 i "[]"] parse_loop_bounded [of d len i 0 "[]"]
  by (auto simp: parseLinkDatagram_def)

theorem link_parser_safe_witness:
  "\<exists>r. parseLinkDatagram (Some [18, 0, 0, 0, 16, 0, 0, 0, 0, 0, 0, 0, 0, 0, 0, 0, 0, 0]) 18 3 = Some r"
  using link_parser_safe [of 18 "[18, 0, 0, 0, 16, 0, 0, 0, 0, 0, 0, 0, 0, 0, 0, 0, 0, 0]" 3]
  by auto

text \<open>
  the parser reads what the kernel wrote. A datagram made of well-formed messages gives the
  states of the watched interface in their order, and an error when there are more than 64.
\<close>

theorem link_datagram_roundtrip:
  assumes "list_all lm_ok ms" "ms \<noteq> []" "0 <s i" "length (concat (map encode_msg ms)) < 2 ^ 64"
  shows "parseLinkDatagram (Some (concat (map encode_msg ms))) (of_nat (length (concat (map encode_msg ms)))) i
    = Some (if length (link_states i ms) \<le> 64 then Inr (link_states i ms) else Inl OA_TRANSPORT_EIO)"
proof -
  obtain m ms' where ms: "ms = m # ms'" using assms(2) by (cases ms) auto
  have "16 \<le> length (concat (map encode_msg ms))"
    by (simp add: ms length_encode lm_length_def)
  then have "\<not> (of_nat (length (concat (map encode_msg ms))) :: u64) < NLMSGHDR_SIZE"
    by (simp only: word_less_nat_alt size_of [OF assms(4)]) simp
  moreover have "i \<noteq> 0" using assms(3) by auto
  ultimately show ?thesis
    using parse_messages [of ms i "[]" "[]"] assms by (simp add: parseLinkDatagram_def)
qed

definition sample_msgs :: "link_msg list" where
  "sample_msgs =
     [\<lparr>lm_type = 16, lm_index = 3, lm_flags = 0x41, lm_attributes = [7]\<rparr>,
      \<lparr>lm_type = 16, lm_index = 2, lm_flags = 0, lm_attributes = []\<rparr>,
      \<lparr>lm_type = 17, lm_index = 3, lm_flags = 0x41, lm_attributes = []\<rparr>]"

theorem link_datagram_roundtrip_witness:
  "parseLinkDatagram (Some (concat (map encode_msg sample_msgs)))
     (of_nat (length (concat (map encode_msg sample_msgs)))) 3 = Some (Inr [True, False])"
proof -
  have "list_all lm_ok sample_msgs"
    by (simp add: sample_msgs_def lm_ok_def lm_length_def)
  moreover have "sample_msgs \<noteq> []" by (simp add: sample_msgs_def)
  moreover have "link_states 3 sample_msgs = [True, False]"
    by (simp add: link_states_def sample_msgs_def lm_about_def lm_running_def)
  moreover have "(0 :: u32) <s 3" by code_simp
  moreover have "length (concat (map encode_msg sample_msgs)) < 2 ^ 64"
    by (simp add: sample_msgs_def length_encode lm_padding_def lm_length_def)
  ultimately show ?thesis
    using link_datagram_roundtrip [of sample_msgs 3] by simp
qed

text \<open>
  The queue of link transitions refines a list. A batch appends its changes of state, in
  order and without repetitions, and is refused exactly when they do not fit in 64 entries.
\<close>

theorem link_queue_refines:
  assumes "backend_wf s"
  shows "case note_transitions ups s of (ok, s') \<Rightarrow> backend_wf s'
    \<and> (ok \<longleftrightarrow> length (ring_list (link_events s)) + length (changes (link_up s) ups) \<le> 64)
    \<and> (ok \<longrightarrow> ring_list (link_events s')
                  = ring_list (link_events s) @ changes (link_up s) ups)"
  by (rule note_transitions_spec [OF assms])

theorem link_queue_refines_witness:
  "fst (note_transitions [False, False, True] sample_tapes)"
proof -
  have "backend_wf sample_tapes"
    by (simp add: backend_wf_def sample_tapes_def ring_wf_init)
  from link_queue_refines [OF this, of "[False, False, True]"] show ?thesis
    by (simp add: sample_tapes_def split: prod.splits)
qed

text \<open>
  opening the backend leaks no descriptor. A failure leaves none open and reports an
  error; a success leaves the three descriptors open, and the destructor closes them all.
\<close>

theorem socketcan_descriptors:
  "case makeSocketCanBackend name cfg os tapes of (st, b, fds) \<Rightarrow>
     (b = None \<longrightarrow> st \<noteq> OA_TRANSPORT_OK \<and> fds = [])
   \<and> (b \<noteq> None \<longrightarrow> st = OA_TRANSPORT_OK \<and> length fds = 3 \<and> destroy_socketcan os fds = [])"
proof -
  obtain st b fds where m: "makeSocketCanBackend name cfg os tapes = (st, b, fds)"
    by (metis prod_cases3)
  from make_descriptors [OF m] show ?thesis
    by (auto simp: m destroy_socketcan_def)
qed

definition opened_answers :: open_answers where
  "opened_answers = \<lparr>oa_can_fd = 4, oa_link_fd = 5, oa_link_bind_ok = True, oa_ifindex = 3,
     oa_resolved = Some ''can0'', oa_mtu = Some 16, oa_hwaddr = Some 280, oa_flags = Some 0x41,
     oa_filter_ok = True, oa_err_filter_ok = True, oa_own_msgs_ok = True, oa_timestamp_ok = True,
     oa_overflow_ok = True, oa_rcvbuf_ok = True, oa_can_bind_ok = True, oa_wake_fd = 6,
     oa_alloc_ok = True\<rparr>"

theorem socketcan_descriptors_witness:
  "destroy_socketcan opened_answers (snd (snd (makeSocketCanBackend ''can0''
     \<lparr>receive_buffer_bytes = 0, can_error_mask = 1, cfg_horizon_ns = 5, cfg_filters = []\<rparr>
     opened_answers sample_tapes))) = []"
proof -
  let ?m = "makeSocketCanBackend ''can0''
     \<lparr>receive_buffer_bytes = 0, can_error_mask = 1, cfg_horizon_ns = 5, cfg_filters = []\<rparr>
     opened_answers sample_tapes"
  have "fst (snd ?m) \<noteq> None"
    by (simp add: makeSocketCanBackend_def Let_def validInterfaceName_def queryInterface_def
        opened_answers_def wire_filters_def)
  with socketcan_descriptors [where name = "''can0''" and os = opened_answers and tapes = sample_tapes
     and cfg = "\<lparr>receive_buffer_bytes = 0, can_error_mask = 1, cfg_horizon_ns = 5, cfg_filters = []\<rparr>"]
  show ?thesis by (simp add: split_beta)
qed

text \<open>
  the identifier check of \<open>receiveCan\<close> has no effect. The identifier is masked to eleven
  bits before it is compared with the eleven-bit maximum, so bits 11 to 28 are not checked: a
  frame with any identifier and no flag set is delivered as a standard frame, as it came.
\<close>

theorem wide_identifier_delivered:
  assumes "can_reads s = Inr m # rs" "clock s = ns # ts" "0 \<le> ns"
    and "cr_count m = 16" "cr_flags m AND (MSG_TRUNC OR MSG_CTRUNC) = 0" "dlc (cr_frame m) = 8"
    and "can_id (cr_frame m) AND 0xe0000000 = 0" "cr_control m = []"
  shows "\<exists>ev s'. receiveCan s = Some (Inr ev, s') \<and> ev_kind ev = OA_TRANSPORT_EVENT_FRAME
    \<and> ev_frame ev = cr_frame m"
proof -
  have "can_id (cr_frame m) AND k = 0" if k: "k AND 0xe0000000 = k" for k
  proof -
    have "can_id (cr_frame m) AND k = can_id (cr_frame m) AND (k AND 0xe0000000)"
      by (simp only: k)
    also have "\<dots> = (can_id (cr_frame m) AND 0xe0000000) AND k"
      by (simp only: and.assoc and.commute [of k])
    finally show ?thesis by (simp only: assms(7) and_zero_eq zero_and_eq)
  qed
  from this [of CAN_ERR_FLAG] this [of "CAN_EFF_FLAG OR CAN_RTR_FLAG"] show ?thesis
    using assms masked_never_exceeds [of "can_id (cr_frame m)"]
    by (simp add: receiveCan_def monotonicNow_def default_event_def)
qed

definition wide_frame_tapes :: socketcan where
  "wide_frame_tapes = sample_tapes\<lparr>can_reads :=
     [Inr \<lparr>cr_count = 16, cr_flags = 0,
           cr_frame = \<lparr>can_id = 0x12345800, dlc = 8, data = replicate 8 0\<rparr>, cr_control = []\<rparr>]\<rparr>"

theorem wide_identifier_delivered_witness:
  "\<exists>ev s'. receiveCan wide_frame_tapes = Some (Inr ev, s') \<and> can_id (ev_frame ev) = 0x12345800"
proof -
  have "\<exists>ev s'. receiveCan wide_frame_tapes = Some (Inr ev, s') \<and> ev_kind ev = OA_TRANSPORT_EVENT_FRAME
    \<and> ev_frame ev = \<lparr>can_id = 0x12345800, dlc = 8, data = replicate 8 0\<rparr>"
    by (rule wide_identifier_delivered
        [of wide_frame_tapes "\<lparr>cr_count = 16, cr_flags = 0,
           cr_frame = \<lparr>can_id = 0x12345800, dlc = 8, data = replicate 8 0\<rparr>, cr_control = []\<rparr>"
           "[]" 10 "[20, 30, 40, 50, 60]", unfolded can_read.select_convs])
      (simp_all add: wide_frame_tapes_def sample_tapes_def)
  then show ?thesis by auto
qed

end
