(* ===== verification/Transport_Api.thy ===== *)
theory Transport_Api
  imports Socketcan_Safety
begin

text \<open>
  The C interface of the transport, transport/src/c_api.cpp. Every public record starts with its
  size and version; a pointer may be null; an output parameter is returned as it is left. The
  handle is a transport over the SocketCAN backend; a failed allocation is an input.
\<close>

abbreviation OA_TRANSPORT_ABI_VERSION :: u32 where "OA_TRANSPORT_ABI_VERSION \<equiv> 1"
abbreviation OA_TRANSPORT_INTERFACE_NAME_CAPACITY :: nat where
  "OA_TRANSPORT_INTERFACE_NAME_CAPACITY \<equiv> 16"
abbreviation OA_TRANSPORT_MAX_FILTERS :: nat where "OA_TRANSPORT_MAX_FILTERS \<equiv> 64"
abbreviation kDefaultDeadlineHorizonNs :: u64 where "kDefaultDeadlineHorizonNs \<equiv> 5000000000"
abbreviation kMaximumDeadlineHorizonNs :: u64 where "kMaximumDeadlineHorizonNs \<equiv> 60000000000"

abbreviation SIZEOF_FRAME :: u32 where "SIZEOF_FRAME \<equiv> 24"
abbreviation SIZEOF_FILTER :: u32 where "SIZEOF_FILTER \<equiv> 16"
abbreviation SIZEOF_OPEN_OPTIONS :: u32 where "SIZEOF_OPEN_OPTIONS \<equiv> 24"
abbreviation SIZEOF_SEND_RESULT :: u32 where "SIZEOF_SEND_RESULT \<equiv> 24"
abbreviation SIZEOF_EVENT :: u32 where "SIZEOF_EVENT \<equiv> 80"

record public_frame = header +
  pf_frame :: frame

record public_filter = header +
  pub_filter :: can_filter

record open_options = header +
  opt_receive_buffer_bytes :: u32
  opt_can_error_mask :: u32
  opt_max_deadline_horizon_ns :: u64

record send_result = header +
  res_frame_class :: frame_class
  res_sent_ns :: u64

record public_event = header +
  pe_event :: event

definition validRecord :: "u32 \<Rightarrow> 'a header_scheme pointer \<Rightarrow> bool" where
  "validRecord sz r \<longleftrightarrow>
     (case r of None \<Rightarrow> False
      | Some x \<Rightarrow> struct_size x \<ge> sz \<and> abi_version x = OA_TRANSPORT_ABI_VERSION)"

definition validateFrame :: "public_frame pointer \<Rightarrow> transport_status" where
  "validateFrame f =
     (if \<not> validRecord SIZEOF_FRAME f
      then (if f = None then OA_TRANSPORT_EINVAL else OA_TRANSPORT_EABI)
      else case f of None \<Rightarrow> OA_TRANSPORT_EINVAL
      | Some x \<Rightarrow>
          if dlc (pf_frame x) \<noteq> 8 \<or> can_id (pf_frame x) > OA_TRANSPORT_SFF_MASK
          then OA_TRANSPORT_EFRAME else OA_TRANSPORT_OK)"

text \<open>The clock is asked only when there is a place for the answer.\<close>

definition oa_transport_now_monotonic_ns ::
  "u64 pointer \<Rightarrow> int \<Rightarrow> transport_status \<times> u64 pointer" where
  "oa_transport_now_monotonic_ns out ns =
     (case out of None \<Rightarrow> (OA_TRANSPORT_EINVAL, None)
      | Some old \<Rightarrow> if ns < 0 then (OA_TRANSPORT_EIO, Some old)
                   else (OA_TRANSPORT_OK, Some (word_of_int ns)))"

definition oa_transport_classify_send_frame ::
  "public_frame pointer \<Rightarrow> frame_class pointer \<Rightarrow> transport_status \<times> frame_class pointer" where
  "oa_transport_classify_send_frame f out =
     (if out = None then (OA_TRANSPORT_EINVAL, out)
      else if validateFrame f \<noteq> OA_TRANSPORT_OK then (validateFrame f, out)
      else case f of None \<Rightarrow> (OA_TRANSPORT_EINVAL, out)
      | Some x \<Rightarrow> (case classify (pf_frame x) of Inl e \<Rightarrow> (e, out)
                  | Inr c \<Rightarrow> (OA_TRANSPORT_OK, Some c)))"

section \<open>Opening\<close>

datatype open_memory = Open_memory_ok | No_memory_for_filters | No_memory_for_handle

text \<open>The options, defaults filled in, or the error; no options are all defaults.\<close>

definition open_settings :: "open_options pointer \<Rightarrow> transport_status + open_config" where
  "open_settings opts =
     (case opts of
        None \<Rightarrow> Inr \<lparr>receive_buffer_bytes = 0, can_error_mask = OA_TRANSPORT_CAN_ERROR_MASK,
                    cfg_horizon_ns = kDefaultDeadlineHorizonNs, cfg_filters = []\<rparr>
      | Some o' \<Rightarrow>
          if \<not> validRecord SIZEOF_OPEN_OPTIONS opts then Inl OA_TRANSPORT_EABI
          else
            let mask = (if opt_can_error_mask o' = 0 then OA_TRANSPORT_CAN_ERROR_MASK
                        else opt_can_error_mask o');
                horizon = (if opt_max_deadline_horizon_ns o' = 0 then kDefaultDeadlineHorizonNs
                           else opt_max_deadline_horizon_ns o')
            in if mask AND NOT OA_TRANSPORT_CAN_ERROR_MASK \<noteq> 0 \<or> horizon > kMaximumDeadlineHorizonNs
               then Inl OA_TRANSPORT_ERANGE
               else Inr \<lparr>receive_buffer_bytes = opt_receive_buffer_bytes o', can_error_mask = mask,
                         cfg_horizon_ns = horizon, cfg_filters = []\<rparr>)"

fun check_filters :: "public_filter list \<Rightarrow> transport_status + can_filter list" where
  "check_filters [] = Inr []"
| "check_filters (f # fs) =
     (let g = pub_filter f in
      if \<not> validRecord SIZEOF_FILTER (Some f) then Inl OA_TRANSPORT_EABI
      else if filter_id g > OA_TRANSPORT_SFF_MASK \<or> filter_mask g > OA_TRANSPORT_SFF_MASK
           \<or> filter_id g AND NOT (filter_mask g) \<noteq> 0 then Inl OA_TRANSPORT_ERANGE
      else case check_filters fs of Inl e \<Rightarrow> Inl e | Inr gs \<Rightarrow> Inr (g # gs))"

definition instance_nonces ::
  "getrandom_result list \<Rightarrow> (transport_status + u64 \<times> u64) option" where
  "instance_nonces rs =
     (case secureRandom64 rs of None \<Rightarrow> None
      | Some (Inl e, _) \<Rightarrow> Some (Inl e)
      | Some (Inr a, rs') \<Rightarrow>
          (case secureRandom64 rs' of None \<Rightarrow> None
           | Some (Inl e, _) \<Rightarrow> Some (Inl e)
           | Some (Inr b, _) \<Rightarrow> Some (Inr (a, b))))"

text \<open>
  \<open>oa_transport_open\<close>: the status, the handle, and the descriptors left open. A C string is its
  characters up to the terminator; \<open>strnlen\<close> looks at sixteen of them. On a failure after the
  backend was made, its destructor runs. The caller's array holds \<open>filter_count\<close> filters.
\<close>

definition oa_transport_open ::
  "string pointer \<Rightarrow> open_options pointer \<Rightarrow> public_filter list pointer \<Rightarrow> nat \<Rightarrow> bool
     \<Rightarrow> open_answers \<Rightarrow> socketcan \<Rightarrow> getrandom_result list \<Rightarrow> open_memory
     \<Rightarrow> (transport_status \<times> socketcan transport option \<times> int list) option" where
  "oa_transport_open name opts filters filter_count has_out os tapes rs mem =
     (case name of None \<Rightarrow> Some (OA_TRANSPORT_EINVAL, None, [])
      | Some nm \<Rightarrow>
          if \<not> has_out \<or> filter_count > OA_TRANSPORT_MAX_FILTERS
             \<or> (filter_count \<noteq> 0 \<and> filters = None)
          then Some (OA_TRANSPORT_EINVAL, None, [])
          else let name_length = min (length nm) OA_TRANSPORT_INTERFACE_NAME_CAPACITY in
          if name_length = 0 \<or> name_length \<ge> OA_TRANSPORT_INTERFACE_NAME_CAPACITY
          then Some (OA_TRANSPORT_EINVAL, None, [])
          else case open_settings opts of Inl e \<Rightarrow> Some (e, None, [])
          | Inr config \<Rightarrow>
              if cfg_horizon_ns config = 0 then Some (OA_TRANSPORT_ERANGE, None, [])
              else if mem = No_memory_for_filters then Some (OA_TRANSPORT_ENOMEM, None, [])
              else case check_filters (take filter_count (case filters of None \<Rightarrow> [] | Some fs \<Rightarrow> fs)) of
                Inl e \<Rightarrow> Some (e, None, [])
              | Inr fs \<Rightarrow>
                  (case makeSocketCanBackend (take name_length nm) (config\<lparr>cfg_filters := fs\<rparr>) os tapes of
                     (st, None, fds) \<Rightarrow> Some (st, None, fds)
                   | (st, Some be, fds) \<Rightarrow>
                       (case instance_nonces rs of None \<Rightarrow> None
                        | Some (Inl e) \<Rightarrow> Some (e, None, destroy_socketcan os fds)
                        | Some (Inr nonce) \<Rightarrow>
                            if mem = No_memory_for_handle
                            then Some (OA_TRANSPORT_ENOMEM, None, destroy_socketcan os fds)
                            else Some (OA_TRANSPORT_OK,
                                   Some (new_transport be nonce (cfg_horizon_ns config)), fds))))"

section \<open>The calls on a handle\<close>

text \<open>
  A handle that was opened always has its implementation, so a handle is a transport or null.
\<close>

definition oa_transport_close ::
  "socketcan transport pointer \<Rightarrow> transport_status \<times> socketcan transport pointer" where
  "oa_transport_close h =
     (case h of None \<Rightarrow> (OA_TRANSPORT_EINVAL, None)
      | Some t \<Rightarrow> (OA_TRANSPORT_OK, Some (transport_close socketcan_ops t)))"

text \<open>\<open>destroy\<close> closes the transport and then its backend's descriptors; the handle is gone.\<close>

definition oa_transport_destroy ::
  "open_answers \<Rightarrow> socketcan transport pointer \<Rightarrow> int list \<Rightarrow> int list" where
  "oa_transport_destroy os h fds =
     (case h of None \<Rightarrow> fds | Some _ \<Rightarrow> destroy_socketcan os fds)"

definition oa_transport_send ::
  "socketcan transport pointer \<Rightarrow> public_frame pointer \<Rightarrow> u64 \<Rightarrow> send_result pointer
     \<Rightarrow> (transport_status \<times> send_result pointer \<times> socketcan transport pointer) option" where
  "oa_transport_send h f deadline out =
     (case h of None \<Rightarrow> Some (OA_TRANSPORT_EINVAL, out, h)
      | Some t \<Rightarrow>
          if out = None then Some (OA_TRANSPORT_EINVAL, out, h)
          else if \<not> validRecord SIZEOF_SEND_RESULT out then Some (OA_TRANSPORT_EABI, out, h)
          else if validateFrame f \<noteq> OA_TRANSPORT_OK then Some (validateFrame f, out, h)
          else case f of None \<Rightarrow> Some (OA_TRANSPORT_EINVAL, out, h)
          | Some x \<Rightarrow>
              (case transport_send socketcan_ops (pf_frame x) deadline None t of None \<Rightarrow> None
               | Some (Inl e, t') \<Rightarrow> Some (e, out, Some t')
               | Some (Inr (c, sent), t') \<Rightarrow>
                   Some (OA_TRANSPORT_OK,
                         Some \<lparr>struct_size = SIZEOF_SEND_RESULT, abi_version = OA_TRANSPORT_ABI_VERSION,
                               res_frame_class = c, res_sent_ns = sent\<rparr>, Some t')))"

definition oa_transport_receive ::
  "socketcan transport pointer \<Rightarrow> u64 \<Rightarrow> public_event pointer
     \<Rightarrow> (transport_status \<times> public_event pointer \<times> socketcan transport pointer) option" where
  "oa_transport_receive h deadline out =
     (case h of None \<Rightarrow> Some (OA_TRANSPORT_EINVAL, out, h)
      | Some t \<Rightarrow>
          if out = None then Some (OA_TRANSPORT_EINVAL, out, h)
          else if \<not> validRecord SIZEOF_EVENT out then Some (OA_TRANSPORT_EABI, out, h)
          else
            (case transport_receive socketcan_ops deadline t of None \<Rightarrow> None
             | Some (Inl e, t') \<Rightarrow> Some (e, out, Some t')
             | Some (Inr ev, t') \<Rightarrow>
                 Some (OA_TRANSPORT_OK,
                       Some \<lparr>struct_size = SIZEOF_EVENT, abi_version = OA_TRANSPORT_ABI_VERSION,
                             pe_event = ev\<rparr>, Some t')))"

section \<open>Lemmas\<close>

lemma check_filters_ok:
  "check_filters fs = Inr gs \<Longrightarrow> gs = map pub_filter fs \<and>
     list_all (\<lambda>g. filter_id g \<le> OA_TRANSPORT_SFF_MASK \<and> filter_mask g \<le> OA_TRANSPORT_SFF_MASK
       \<and> filter_id g AND NOT (filter_mask g) = 0) gs"
  by (induction fs arbitrary: gs) (auto simp: Let_def not_less split: if_splits sum.splits)

lemma check_filters_error: "check_filters fs = Inl e \<Longrightarrow> e \<noteq> OA_TRANSPORT_OK"
  by (induction fs) (auto simp: Let_def split: if_splits sum.splits)

lemma secureRandom64_error: "secureRandom64 rs = Some (Inl e, rs') \<Longrightarrow> e = OA_TRANSPORT_EIO"
  by (induction rs rule: secureRandom64.induct) (auto split: if_splits)

lemma open_settings_error: "open_settings opts = Inl e \<Longrightarrow> e \<noteq> OA_TRANSPORT_OK"
  by (auto simp: open_settings_def Let_def split: option.splits if_splits)

lemma open_settings_horizon:
  "open_settings opts = Inr cfg \<Longrightarrow>
     cfg_horizon_ns cfg \<le> kMaximumDeadlineHorizonNs \<and> cfg_filters cfg = []"
  by (auto simp: open_settings_def Let_def not_less split: option.splits if_splits)

lemma destroy_made:
  assumes "makeSocketCanBackend name cfg os tapes = (st, Some b, fds)"
  shows "destroy_socketcan os fds = []"
  using make_descriptors [OF assms] by (simp add: destroy_socketcan_def)

lemma make_backend:
  assumes "makeSocketCanBackend name cfg os tapes = (st, Some b, fds)"
  shows "\<exists>up. b = new_socketcan (oa_ifindex os) up tapes"
  using assms
  by (auto simp: makeSocketCanBackend_def Let_def queryInterface_def
      split: if_splits sum.splits option.splits)

lemma open_fail:
  assumes "oa_transport_open name opts filters n has_out os tapes rs mem = Some (st, None, fds)"
  shows "st \<noteq> OA_TRANSPORT_OK \<and> fds = []"
proof -
  have rnd: "e \<noteq> OA_TRANSPORT_OK" if "instance_nonces rs = Some (Inl e)" for e
    using that by (auto simp: instance_nonces_def dest!: secureRandom64_error
        split: option.splits sum.splits)
  show ?thesis
    using assms
    by (auto simp: oa_transport_open_def Let_def destroy_made rnd
        dest: make_descriptors check_filters_error open_settings_error
        split: option.splits if_splits sum.splits prod.splits)
qed

lemma open_success:
  assumes "oa_transport_open name opts filters n has_out os tapes rs mem = Some (st, Some t, fds)"
  shows "st = OA_TRANSPORT_OK \<and> length fds = 3 \<and> destroy_socketcan os fds = []
    \<and> (\<exists>up nonce. t = new_transport (new_socketcan (oa_ifindex os) up tapes) nonce
                        (max_deadline_horizon_ns t))
    \<and> max_deadline_horizon_ns t \<noteq> 0 \<and> max_deadline_horizon_ns t \<le> kMaximumDeadlineHorizonNs"
proof -
  from assms obtain nm cfg gs b nonce st' where
      cfg: "open_settings opts = Inr cfg" "cfg_horizon_ns cfg \<noteq> 0"
    and m: "makeSocketCanBackend nm (cfg\<lparr>cfg_filters := gs\<rparr>) os tapes = (st', Some b, fds)"
    and t: "t = new_transport b nonce (cfg_horizon_ns cfg)" and st: "st = OA_TRANSPORT_OK"
    by (auto simp: oa_transport_open_def Let_def
        split: option.splits if_splits sum.splits prod.splits)
  have "length fds = 3" using make_descriptors [OF m] by simp
  moreover have "max_deadline_horizon_ns t = cfg_horizon_ns cfg" by (simp add: t new_transport_def)
  ultimately show ?thesis
    using st t cfg destroy_made [OF m] make_backend [OF m] open_settings_horizon [OF cfg(1)]
    by (cases nonce) auto
qed

lemma monotonicNow_not_ok [simp]: "monotonicNow s \<noteq> Some (Inl OA_TRANSPORT_OK, s')"
  by (auto dest!: monotonicNow_error)

lemma socketcan_send_error: "socketcan_send f deadline s \<noteq> Some (Inl OA_TRANSPORT_OK, s')"
proof (induction "length (clock s)" arbitrary: s rule: less_induct)
  case less
  obtain c s0 where lc: "load_closed s = (c, s0)" by fastforce
  note c0 = load_closed_clock [OF lc]
  have again: "socketcan_send f deadline s3 \<noteq> Some (Inl OA_TRANSPORT_OK, s')"
    if "monotonicNow s0 = Some (x, s1)" "wait_ready deadline True (s1\<lparr>writes := ws\<rparr>) = Some (r, s3)"
    for x s1 ws r s3
    using less wait_ready_shorter [OF that(2)] monotonicNow_shorter [OF that(1)] c0 by simp
  have retry: "socketcan_send f deadline (s1\<lparr>writes := ws\<rparr>) \<noteq> Some (Inl OA_TRANSPORT_OK, s')"
    if "monotonicNow s0 = Some (x, s1)" for x s1 ws
    using less monotonicNow_shorter [OF that(1)] c0 by simp
  show ?case
    by (subst socketcan_send.simps)
      (auto simp: lc Let_def retry again split: option.split sum.split list.split)
qed

lemma send_not_ok:
  assumes "transport_send socketcan_ops f d a t = Some (Inl e, t')"
  shows "e \<noteq> OA_TRANSPORT_OK"
  using assms
  by (auto simp: transport_send_def Let_def socketcan_ops_def classify_def socketcan_send_error
      split: option.splits sum.splits if_splits prod.splits)

lemma query_send:
  assumes "transport_send ops f d None t = Some (Inr (c, sent), t')"
  shows "queryClass c \<and> classify f = Inr c"
  using assms by (elim send_ok) (auto simp: consumeAuthority_def)

section \<open>Properties\<close>

text \<open>
  Opening a handle is all or nothing. A failure reports an error and leaves no descriptor
  open; a success gives an open transport over a fresh backend, with no grants and a deadline
  horizon of at most a minute, whose three descriptors \<open>destroy\<close> closes.
\<close>

theorem open_all_or_nothing:
  assumes "oa_transport_open name opts filters n has_out os tapes rs mem = Some (st, h, fds)"
  shows "case h of
      None \<Rightarrow> st \<noteq> OA_TRANSPORT_OK \<and> fds = []
    | Some t \<Rightarrow> st = OA_TRANSPORT_OK \<and> \<not> closed t \<and> grants t = Map.empty
        \<and> be_closed (backend t) = False \<and> ring_list (link_events (backend t)) = [link_up (backend t)]
        \<and> 0 < max_deadline_horizon_ns t \<and> max_deadline_horizon_ns t \<le> kMaximumDeadlineHorizonNs
        \<and> length fds = 3 \<and> oa_transport_destroy os h fds = []"
proof (cases h)
  case None
  with assms show ?thesis using open_fail by simp
next
  case (Some t)
  note ok = open_success [OF assms [unfolded Some]]
  then obtain up nonce where t: "t = new_transport (new_socketcan (oa_ifindex os) up tapes) nonce
      (max_deadline_horizon_ns t)" by blast
  have "closed t = False" "grants t = Map.empty"
    "backend t = new_socketcan (oa_ifindex os) up tapes"
    by (subst t, simp add: new_transport_def)+
  with ok show ?thesis
    by (auto simp: Some oa_transport_destroy_def new_socketcan_def enqueueLink_def ring_full_def
        ring_init_def ring_push_def ring_list_def word_neq_0_conv)
qed

lemma sample_open:
  "oa_transport_open (Some ''can0'') None None 0 True opened_answers sample_tapes
     [Got_bytes 8 1, Got_bytes 8 2] Open_memory_ok
   = Some (OA_TRANSPORT_OK,
       Some (new_transport (new_socketcan 3 True sample_tapes) (1, 2) kDefaultDeadlineHorizonNs), [6, 5, 4])"
  by (simp add: oa_transport_open_def open_settings_def instance_nonces_def makeSocketCanBackend_def
      validInterfaceName_def queryInterface_def wire_filters_def opened_answers_def)

theorem open_all_or_nothing_witness:
  "oa_transport_destroy opened_answers
     (Some (new_transport (new_socketcan 3 True sample_tapes) (1, 2) kDefaultDeadlineHorizonNs))
     [6, 5, 4] = []"
  using open_all_or_nothing [OF sample_open] by simp

text \<open>
  What a successful call of the public \<open>oa_transport_send\<close> means. Its pointers are set, its
  records have the size and version of this ABI, the frame is a query the transport sent, and
  the result records its class; on any other status the result record is left as it was.
\<close>

theorem public_send:
  assumes "oa_transport_send h f deadline out = Some (st, out', h')"
  shows "if st = OA_TRANSPORT_OK then
      \<exists>t t' x c sent. h = Some t \<and> h' = Some t' \<and> f = Some x
        \<and> validRecord SIZEOF_FRAME f \<and> validRecord SIZEOF_SEND_RESULT out
        \<and> transport_send socketcan_ops (pf_frame x) deadline None t = Some (Inr (c, sent), t')
        \<and> queryClass c
        \<and> out' = Some \<lparr>struct_size = SIZEOF_SEND_RESULT, abi_version = OA_TRANSPORT_ABI_VERSION,
                        res_frame_class = c, res_sent_ns = sent\<rparr>
    else out' = out"
proof (cases "st = OA_TRANSPORT_OK")
  case False
  with assms show ?thesis
    by (auto simp: oa_transport_send_def split: option.splits if_splits sum.splits prod.splits)
next
  case True
  with assms obtain t x where h: "h = Some t" "f = Some x" "validRecord SIZEOF_SEND_RESULT out"
      "validateFrame f = OA_TRANSPORT_OK"
    by (auto simp: oa_transport_send_def split: option.splits if_splits sum.splits prod.splits)
  then have "validRecord SIZEOF_FRAME f" by (auto simp: validateFrame_def split: if_splits)
  with True assms h show ?thesis
    by (auto simp: oa_transport_send_def dest: query_send send_not_ok
        split: option.splits if_splits sum.splits prod.splits)
qed

theorem public_send_witness:
  "\<exists>c. oa_transport_send (Some (new_transport sample_tapes (1, 2) 1000))
     (Some \<lparr>struct_size = 24, abi_version = 1, pf_frame = status_query\<rparr>) 100
     (Some \<lparr>struct_size = 24, abi_version = 1, res_frame_class = c, res_sent_ns = 0\<rparr>)
   \<noteq> None \<and> queryClass c"
proof -
  have c: "classify status_query = Inr OA_TRANSPORT_FRAME_STATUS_QUERY"
    by code_simp
  have now: "monotonicNow sample_tapes = Some (Inr 10, sample_tapes\<lparr>clock := [20, 30, 40, 50, 60]\<rparr>)"
    by (simp add: monotonicNow_def sample_tapes_def)
  let ?c = OA_TRANSPORT_FRAME_STATUS_QUERY
  have "oa_transport_send (Some (new_transport sample_tapes (1, 2) 1000))
     (Some \<lparr>struct_size = 24, abi_version = 1, pf_frame = status_query\<rparr>) 100
     (Some \<lparr>struct_size = 24, abi_version = 1, res_frame_class = ?c, res_sent_ns = 0\<rparr>)
   = Some (OA_TRANSPORT_OK, Some \<lparr>struct_size = 24, abi_version = 1, res_frame_class = ?c,
        res_sent_ns = 60\<rparr>, Some (new_transport sample_tapes_sent (1, 2) 1000))"
    by (simp add: oa_transport_send_def validRecord_def validateFrame_def status_query_def
        transport_send_def c [unfolded status_query_def] now sample_send [unfolded status_query_def]
        new_transport_def socketcan_ops_def validateDeadline_def queryClass_def)
  from public_send [OF this] this show ?thesis by auto
qed

end
