(* ===== verification/Latched_Machine.thy ===== *)
theory Latched_Machine
  imports Prelude
begin

text \<open>
  The interface the two calibration sessions share. A session is driven by calls, some of its
  states are terminal, and some calls emit a result (a mapping patch). The laws: a terminal
  state is frozen, and a call that emits takes a session that is not terminal to a terminal
  state. The consequence is proved here once: no sequence of calls emits twice.
\<close>

locale latched_machine =
  fixes step :: "'call \<Rightarrow> 's \<Rightarrow> 's"
    and terminal :: "'s \<Rightarrow> bool"
    and emits :: "'call \<Rightarrow> 's \<Rightarrow> bool"
  assumes terminal_frozen: "terminal s \<Longrightarrow> step c s = s"
    and emits_latches: "emits c s \<Longrightarrow> \<not> terminal s \<and> terminal (step c s)"
begin

lemma run_frozen: "terminal s \<Longrightarrow> fold step cs s = s"
  by (induction cs) (simp_all add: terminal_frozen)

fun emissions :: "'call list \<Rightarrow> 's \<Rightarrow> nat" where
  "emissions [] s = 0"
| "emissions (c # cs) s = (if emits c s then 1 else 0) + emissions cs (step c s)"

lemma emissions_terminal: "terminal s \<Longrightarrow> emissions cs s = 0"
  by (induction cs) (auto simp: terminal_frozen dest: emits_latches)

lemma emits_once: "emissions cs s \<le> 1"
  by (induction cs arbitrary: s) (auto dest: emits_latches simp: emissions_terminal)

end

end
