(* ===== verification/Commission_Manual.thy ===== *)
theory Commission_Manual
  imports Binary64 Latched_Machine
begin

text \<open>
  The manual calibration session of commission/src/calibration_session.cpp: samples of the
  joint's encoder held at one or two reference positions, from which the mapping
  \<open>model = a * output + b\<close> with \<open>a\<close> of magnitude one is computed, reviewed and committed once.
  Fields of a width the code relies on are words; a \<open>char[64]\<close> is a list of its characters.
\<close>

datatype commission_status =
    OA_COMMISSION_OK | OA_COMMISSION_EINVAL | OA_COMMISSION_EABI | OA_COMMISSION_ESTATE
  | OA_COMMISSION_ESTALE | OA_COMMISSION_EINTERLOCK | OA_COMMISSION_ELIMIT
  | OA_COMMISSION_EUNSTABLE | OA_COMMISSION_EREPEATABILITY | OA_COMMISSION_EUNSUPPORTED
  | OA_COMMISSION_ENOMEM | OA_COMMISSION_EFAULT

datatype manual_state =
    OA_MANUAL_COLLECT_REFERENCE_1 | OA_MANUAL_COLLECT_REFERENCE_2 | OA_MANUAL_CANDIDATE
  | OA_MANUAL_REVIEW | OA_MANUAL_COMMITTED | OA_MANUAL_ABORTED

datatype evidence_kind =
    OA_EVIDENCE_MANUAL_FIXTURE | OA_EVIDENCE_HARDWARE_QUALIFIED | OA_EVIDENCE_SIMULATION_ONLY

abbreviation OA_COMMISSION_ABI_V1 :: u32 where "OA_COMMISSION_ABI_V1 \<equiv> 1"
abbreviation OA_COMMISSION_TEXT_CAPACITY :: nat where "OA_COMMISSION_TEXT_CAPACITY \<equiv> 64"
abbreviation OA_COMMISSION_RIGHT :: u32 where "OA_COMMISSION_RIGHT \<equiv> 1"
abbreviation SIZEOF_ENCODER_SAMPLE :: u32 where "SIZEOF_ENCODER_SAMPLE \<equiv> 72"
abbreviation SIZEOF_MANUAL_REPORT :: u32 where "SIZEOF_MANUAL_REPORT \<equiv> 80"
abbreviation SIZEOF_MAPPING_PATCH :: u32 where "SIZEOF_MAPPING_PATCH \<equiv> 200"

record encoder_sample = header +
  feedback_seq :: u64
  sample_time_ns :: u64
  q_output_rad :: dbl
  dq_output_rad_s :: dbl
  torque_output_nm :: dbl
  mos_temperature_c :: dbl
  coil_temperature_c :: dbl
  drive_enabled :: u32
  drive_fault :: u32

record manual_options = header +
  mo_side :: u32
  mo_joint :: u32
  mo_expected_revision :: u64
  reference_count :: u32
  mo_known_sign :: int
  minimum_samples :: u32
  mo_maximum_sample_age_ns :: u64
  stability_dwell_ns :: u64
  reference_model_rad :: "dbl list"
  maximum_position_spread_rad :: dbl
  maximum_abs_velocity_rad_s :: dbl
  minimum_reference_separation_rad :: dbl
  maximum_scale_error :: dbl
  mo_motor_serial :: string

record mapping_patch = header +
  mp_expected_revision :: u64
  replacement_revision :: u64
  mp_side :: u32
  mp_joint :: u32
  mp_evidence_kind :: evidence_kind
  mp_recipe_kind :: u32
  mp_qualification_revision :: u64
  mp_fixture_revision :: u64
  mp_a :: dbl
  mp_b_rad :: dbl
  mp_motor_serial :: string
  mp_evidence_record :: string

definition finite_sample :: "encoder_sample \<Rightarrow> bool" where
  "finite_sample s \<longleftrightarrow> disfinite (q_output_rad s) \<and> disfinite (dq_output_rad_s s)
     \<and> disfinite (torque_output_nm s) \<and> disfinite (mos_temperature_c s)
     \<and> disfinite (coil_temperature_c s)"

definition valid_header :: "u32 \<Rightarrow> u32 \<Rightarrow> u32 \<Rightarrow> bool" where
  "valid_header sz version required \<longleftrightarrow> version = OA_COMMISSION_ABI_V1 \<and> sz \<ge> required"

abbreviation NUL :: char where "NUL \<equiv> CHR 0x00"

definition valid_text :: "string pointer \<Rightarrow> bool \<Rightarrow> bool" where
  "valid_text txt allow_empty \<longleftrightarrow>
     (case txt of None \<Rightarrow> False
      | Some t \<Rightarrow> NUL \<in> set (take OA_COMMISSION_TEXT_CAPACITY t) \<and> (allow_empty \<or> t ! 0 \<noteq> NUL))"

text \<open>\<open>copy_text\<close>: at most 63 characters up to the terminator, the rest of the array zero.\<close>

definition copy_text :: "string \<Rightarrow> string" where
  "copy_text t =
     (let s = take (OA_COMMISSION_TEXT_CAPACITY - 1) (takeWhile (\<lambda>c. c \<noteq> NUL) t)
      in s @ replicate (OA_COMMISSION_TEXT_CAPACITY - length s) NUL)"

section \<open>The accumulator of a reference\<close>

record sample_accumulator =
  acc_count :: u32
  first_time_ns :: u64
  acc_sum :: dbl
  acc_minimum :: dbl
  acc_maximum :: dbl

definition empty_accumulator :: sample_accumulator where
  "empty_accumulator = \<lparr>acc_count = 0, first_time_ns = 0, acc_sum = 0, acc_minimum = 0, acc_maximum = 0\<rparr>"

definition acc_reset :: "encoder_sample \<Rightarrow> sample_accumulator" where
  "acc_reset s = \<lparr>acc_count = 1, first_time_ns = sample_time_ns s, acc_sum = q_output_rad s,
     acc_minimum = q_output_rad s, acc_maximum = q_output_rad s\<rparr>"

definition acc_add :: "encoder_sample \<Rightarrow> sample_accumulator \<Rightarrow> sample_accumulator" where
  "acc_add s a =
     (if acc_count a = 0 then acc_reset s
      else a\<lparr>acc_count := acc_count a + 1, acc_sum := acc_sum a + q_output_rad s,
             acc_minimum := dmin (acc_minimum a) (q_output_rad s),
             acc_maximum := dmax (acc_maximum a) (q_output_rad s)\<rparr>)"

definition acc_mean :: "sample_accumulator \<Rightarrow> dbl" where
  "acc_mean a = (if acc_count a = 0 then 0 else acc_sum a / dbl_of_word (acc_count a))"

definition acc_spread :: "sample_accumulator \<Rightarrow> dbl" where
  "acc_spread a = (if acc_count a = 0 then 0 else acc_maximum a - acc_minimum a)"

section \<open>The session\<close>

record manual_session =
  options :: manual_options
  accumulators :: "sample_accumulator list"
  means :: "dbl list"
  spreads :: "dbl list"
  last_feedback_seq :: u64
  last_sample_time_ns :: u64
  m_state :: manual_state
  candidate_a :: dbl
  candidate_b :: dbl

definition new_manual :: "manual_options \<Rightarrow> manual_session" where
  "new_manual o' = \<lparr>options = o', accumulators = replicate 2 empty_accumulator, means = [0, 0],
     spreads = [0, 0], last_feedback_seq = 0, last_sample_time_ns = 0,
     m_state = OA_MANUAL_COLLECT_REFERENCE_1, candidate_a = 0, candidate_b = 0\<rparr>"

definition validate_sample :: "u64 \<Rightarrow> encoder_sample \<Rightarrow> manual_session \<Rightarrow> commission_status" where
  "validate_sample now x s =
     (if \<not> valid_header (struct_size x) (abi_version x) SIZEOF_ENCODER_SAMPLE \<or> \<not> finite_sample x
      then OA_COMMISSION_EINVAL
      else if feedback_seq x = 0 \<or> feedback_seq x \<le> last_feedback_seq s
         \<or> sample_time_ns x \<le> last_sample_time_ns s \<or> sample_time_ns x > now
         \<or> now - sample_time_ns x > mo_maximum_sample_age_ns (options s)
      then OA_COMMISSION_ESTALE
      else if drive_enabled x \<noteq> 0 \<or> drive_fault x \<noteq> 0 then OA_COMMISSION_EINTERLOCK
      else OA_COMMISSION_OK)"

definition latch_abort :: "commission_status \<Rightarrow> manual_session \<Rightarrow> commission_status \<times> manual_session" where
  "latch_abort st s =
     (st, s\<lparr>m_state := OA_MANUAL_ABORTED, accumulators := replicate 2 empty_accumulator,
            means := [0, 0], spreads := [0, 0], candidate_a := 0, candidate_b := 0\<rparr>)"

definition calculate_candidate :: "manual_session \<Rightarrow> commission_status \<times> manual_session" where
  "calculate_candidate s =
     (let o' = options s; model = reference_model_rad o' in
      if reference_count o' = 1 then
        let a = dbl_of_int (mo_known_sign o') in
        (OA_COMMISSION_OK, s\<lparr>candidate_a := a, candidate_b := model ! 0 - a * means s ! 0,
                             m_state := OA_MANUAL_CANDIDATE\<rparr>)
      else
        let output_delta = means s ! 1 - means s ! 0; model_delta = model ! 1 - model ! 0 in
        if \<bar>output_delta\<bar> < minimum_reference_separation_rad o'
           \<or> \<bar>model_delta\<bar> < minimum_reference_separation_rad o'
        then (OA_COMMISSION_ELIMIT, s)
        else
          let observed_scale = model_delta / output_delta;
              sign = (if observed_scale \<ge> 0 then 1 else - 1) in
          if \<bar>\<bar>observed_scale\<bar> - 1\<bar> > maximum_scale_error o'
             \<or> (mo_known_sign o' \<noteq> 0 \<and> \<not> deq sign (dbl_of_int (mo_known_sign o')))
          then (OA_COMMISSION_ELIMIT, s)
          else
            let first_offset = model ! 0 - sign * means s ! 0;
                second_offset = model ! 1 - sign * means s ! 1 in
            (OA_COMMISSION_OK, s\<lparr>candidate_a := sign,
               candidate_b := lit (1 / 2) * (first_offset + second_offset),
               m_state := OA_MANUAL_CANDIDATE\<rparr>))"

definition finish_reference :: "nat \<Rightarrow> manual_session \<Rightarrow> commission_status \<times> manual_session" where
  "finish_reference i s =
     (let s1 = s\<lparr>means := (means s)[i := acc_mean (accumulators s ! i)],
                spreads := (spreads s)[i := acc_spread (accumulators s ! i)]\<rparr> in
      if i = 0 \<and> reference_count (options s) = 2
      then (OA_COMMISSION_OK, s1\<lparr>m_state := OA_MANUAL_COLLECT_REFERENCE_2\<rparr>)
      else calculate_candidate s1)"

definition manual_sample ::
  "u32 \<Rightarrow> u64 \<Rightarrow> encoder_sample \<Rightarrow> manual_session \<Rightarrow> commission_status \<times> manual_session" where
  "manual_sample reference now x s =
     (let expected = (if m_state s = OA_MANUAL_COLLECT_REFERENCE_1 then 0 else 1) in
      if (m_state s \<noteq> OA_MANUAL_COLLECT_REFERENCE_1 \<and> m_state s \<noteq> OA_MANUAL_COLLECT_REFERENCE_2)
         \<or> reference \<noteq> expected
      then (OA_COMMISSION_ESTATE, s)
      else if validate_sample now x s \<noteq> OA_COMMISSION_OK
      then latch_abort (validate_sample now x s) s
      else
        let i = unat reference;
            s1 = s\<lparr>last_feedback_seq := feedback_seq x, last_sample_time_ns := sample_time_ns x\<rparr>;
            acc = accumulators s1 ! i;
            put = (\<lambda>a. s1\<lparr>accumulators := (accumulators s1)[i := a]\<rparr>) in
        if \<bar>dq_output_rad_s x\<bar> > maximum_abs_velocity_rad_s (options s)
        then (OA_COMMISSION_EUNSTABLE, put empty_accumulator)
        else
          let added = acc_add x acc in
          if acc_count acc \<noteq> 0 \<and> acc_spread added > maximum_position_spread_rad (options s)
          then (OA_COMMISSION_EUNSTABLE, put (acc_reset x))
          else
            let acc' = (if acc_count acc = 0 then acc_reset x else added) in
            if \<not> acc_count acc' \<ge> minimum_samples (options s)
               \<or> \<not> sample_time_ns x - first_time_ns acc' \<ge> stability_dwell_ns (options s)
            then (OA_COMMISSION_OK, put acc')
            else finish_reference i (put acc'))"

definition manual_begin_review :: "manual_session \<Rightarrow> commission_status \<times> manual_session" where
  "manual_begin_review s =
     (if m_state s \<noteq> OA_MANUAL_CANDIDATE then (OA_COMMISSION_ESTATE, s)
      else (OA_COMMISSION_OK, s\<lparr>m_state := OA_MANUAL_REVIEW\<rparr>))"

definition manual_commit ::
  "u64 \<Rightarrow> string pointer \<Rightarrow> manual_session
     \<Rightarrow> (commission_status + mapping_patch) \<times> manual_session" where
  "manual_commit revision evidence s =
     (let o' = options s in
      if m_state s \<noteq> OA_MANUAL_REVIEW then (Inl OA_COMMISSION_ESTATE, s)
      else if revision \<le> mo_expected_revision o' \<or> \<not> valid_text evidence False
      then (Inl OA_COMMISSION_EINVAL, s)
      else
        (Inr \<lparr>struct_size = SIZEOF_MAPPING_PATCH, abi_version = OA_COMMISSION_ABI_V1,
              mp_expected_revision = mo_expected_revision o', replacement_revision = revision,
              mp_side = mo_side o', mp_joint = mo_joint o',
              mp_evidence_kind = OA_EVIDENCE_MANUAL_FIXTURE, mp_recipe_kind = 0,
              mp_qualification_revision = 0, mp_fixture_revision = 0,
              mp_a = candidate_a s, mp_b_rad = candidate_b s,
              mp_motor_serial = copy_text (mo_motor_serial o'),
              mp_evidence_record = copy_text (case evidence of None \<Rightarrow> [] | Some t \<Rightarrow> t)\<rparr>,
         s\<lparr>m_state := OA_MANUAL_COMMITTED\<rparr>))"

definition manual_abort :: "manual_session \<Rightarrow> commission_status \<times> manual_session" where
  "manual_abort s =
     (if m_state s = OA_MANUAL_COMMITTED \<or> m_state s = OA_MANUAL_ABORTED
      then (OA_COMMISSION_ESTATE, s)
      else (OA_COMMISSION_OK, s\<lparr>m_state := OA_MANUAL_ABORTED, candidate_a := 0, candidate_b := 0\<rparr>))"

record manual_report = header +
  mr_state :: manual_state
  active_reference :: u32
  accepted_samples :: "u32 list"
  mean_output_rad :: "dbl list"
  spread_output_rad :: "dbl list"
  mr_candidate_a :: dbl
  mr_candidate_b_rad :: dbl

definition manual_report_of :: "manual_session \<Rightarrow> manual_report" where
  "manual_report_of s = \<lparr>struct_size = SIZEOF_MANUAL_REPORT, abi_version = OA_COMMISSION_ABI_V1,
     mr_state = m_state s,
     active_reference = (if m_state s = OA_MANUAL_COLLECT_REFERENCE_2 then 1 else 0),
     accepted_samples = map acc_count (accumulators s), mean_output_rad = means s,
     spread_output_rad = spreads s, mr_candidate_a = candidate_a s, mr_candidate_b_rad = candidate_b s\<rparr>"

section \<open>What the C interface requires of the options\<close>

definition valid_manual_options :: "manual_options \<Rightarrow> bool" where
  "valid_manual_options o' \<longleftrightarrow>
     \<not> (mo_side o' > OA_COMMISSION_RIGHT \<or> mo_joint o' > 7 \<or> mo_expected_revision o' = 0
        \<or> (reference_count o' \<noteq> 1 \<and> reference_count o' \<noteq> 2) \<or> minimum_samples o' < 2
        \<or> mo_maximum_sample_age_ns o' = 0 \<or> stability_dwell_ns o' = 0
        \<or> \<not> disfinite (reference_model_rad o' ! 0) \<or> \<not> disfinite (reference_model_rad o' ! 1)
        \<or> \<not> disfinite (maximum_position_spread_rad o')
        \<or> \<not> disfinite (maximum_abs_velocity_rad_s o')
        \<or> \<not> disfinite (minimum_reference_separation_rad o') \<or> \<not> disfinite (maximum_scale_error o')
        \<or> maximum_position_spread_rad o' \<le> 0 \<or> maximum_abs_velocity_rad_s o' \<le> 0
        \<or> minimum_reference_separation_rad o' \<le> 0 \<or> maximum_scale_error o' < 0
        \<or> maximum_scale_error o' \<ge> 1 \<or> \<not> valid_text (Some (mo_motor_serial o')) False)
     \<and> (if reference_count o' = 1 then mo_known_sign o' = - 1 \<or> mo_known_sign o' = 1
        else - 1 \<le> mo_known_sign o' \<and> mo_known_sign o' \<le> 1)"

end
