(* ===== verification/Manual_Safety.thy ===== *)
theory Manual_Safety
  imports Commission_Manual
begin

text \<open>
  What the manual session guarantees over any sequence of calls: the invariant of its
  accumulators and candidate, the order of its feedback, and that it commits at most once.
\<close>

datatype manual_call =
    Sample u32 u64 encoder_sample
  | Begin_review
  | Commit u64 "string pointer"
  | Abort

definition manual_step :: "manual_call \<Rightarrow> manual_session \<Rightarrow> manual_session" where
  "manual_step c s =
     (case c of
        Sample r now x \<Rightarrow> snd (manual_sample r now x s)
      | Begin_review \<Rightarrow> snd (manual_begin_review s)
      | Commit n ev \<Rightarrow> snd (manual_commit n ev s)
      | Abort \<Rightarrow> snd (manual_abort s))"

definition manual_terminal :: "manual_session \<Rightarrow> bool" where
  "manual_terminal s \<longleftrightarrow> m_state s = OA_MANUAL_COMMITTED \<or> m_state s = OA_MANUAL_ABORTED"

definition manual_emits :: "manual_call \<Rightarrow> manual_session \<Rightarrow> bool" where
  "manual_emits c s \<longleftrightarrow>
     (case c of Commit n ev \<Rightarrow> \<not> isl (fst (manual_commit n ev s)) | _ \<Rightarrow> False)"

interpretation manual: latched_machine manual_step manual_terminal manual_emits
  by unfold_locales
    (auto simp: manual_step_def manual_terminal_def manual_emits_def manual_sample_def Let_def
      manual_begin_review_def manual_commit_def manual_abort_def split: manual_call.splits)

section \<open>The invariant\<close>

definition acc_ok :: "manual_options \<Rightarrow> sample_accumulator \<Rightarrow> bool" where
  "acc_ok o' a \<longleftrightarrow> disfinite (acc_minimum a) \<and> disfinite (acc_maximum a)
     \<and> acc_spread a \<le> maximum_position_spread_rad o'"

definition ref_ok :: "nat \<Rightarrow> manual_session \<Rightarrow> bool" where
  "ref_ok i s \<longleftrightarrow> minimum_samples (options s) \<le> acc_count (accumulators s ! i)
     \<and> means s ! i = acc_mean (accumulators s ! i) \<and> spreads s ! i = acc_spread (accumulators s ! i)
     \<and> spreads s ! i \<le> maximum_position_spread_rad (options s)"

definition candidate_ok :: "manual_session \<Rightarrow> bool" where
  "candidate_ok s \<longleftrightarrow> ref_ok 0 s \<and> (reference_count (options s) = 2 \<longrightarrow> ref_ok 1 s)
     \<and> (candidate_a s = Fin 1 \<or> candidate_a s = Fin (- 1))
     \<and> (mo_known_sign (options s) \<noteq> 0 \<longrightarrow> candidate_a s = Fin (of_int (mo_known_sign (options s))))"

definition manual_inv :: "manual_session \<Rightarrow> bool" where
  "manual_inv s \<longleftrightarrow> valid_manual_options (options s)
     \<and> length (accumulators s) = 2 \<and> length (means s) = 2 \<and> length (spreads s) = 2
     \<and> list_all (acc_ok (options s)) (accumulators s)
     \<and> (m_state s = OA_MANUAL_COLLECT_REFERENCE_2 \<longrightarrow> reference_count (options s) = 2 \<and> ref_ok 0 s)
     \<and> (m_state s \<in> {OA_MANUAL_CANDIDATE, OA_MANUAL_REVIEW, OA_MANUAL_COMMITTED} \<longrightarrow> candidate_ok s)
     \<and> (m_state s = OA_MANUAL_ABORTED \<longrightarrow> candidate_a s = 0 \<and> candidate_b s = 0)"

lemma ref_ok_state [simp]: "ref_ok i (s\<lparr>m_state := st\<rparr>) = ref_ok i s"
  by (simp add: ref_ok_def)

lemma candidate_ok_state [simp]: "candidate_ok (s\<lparr>m_state := st\<rparr>) = candidate_ok s"
  by (simp add: candidate_ok_def)

lemma valid_optionsD:
  assumes "valid_manual_options o'"
  shows "Fin 0 \<le> maximum_position_spread_rad o'" "reference_count o' = 1 \<or> reference_count o' = 2"
    "reference_count o' = 1 \<Longrightarrow> mo_known_sign o' = - 1 \<or> mo_known_sign o' = 1"
    "mo_known_sign o' \<in> {- 1, 0, 1}" "2 \<le> minimum_samples o'"
  using assms
  by (auto simp: valid_manual_options_def disfinite_iff not_less split: if_splits)

lemma acc_ok_empty: "valid_manual_options o' \<Longrightarrow> acc_ok o' empty_accumulator"
  by (auto simp: acc_ok_def empty_accumulator_def acc_spread_def dest: valid_optionsD)

lemma acc_ok_reset:
  assumes "valid_manual_options o'" "finite_sample x"
  shows "acc_ok o' (acc_reset x)"
  using valid_optionsD(1) [OF assms(1)] assms(2)
  by (auto simp: acc_ok_def acc_reset_def acc_spread_def finite_sample_def disfinite_iff minus_Fin)

lemma acc_ok_add:
  assumes "valid_manual_options o'" "finite_sample x" "acc_ok o' a"
    and "\<not> acc_spread (acc_add x a) > maximum_position_spread_rad o'"
  shows "acc_ok o' (acc_add x a)"
proof -
  have fin: "disfinite (acc_minimum (acc_add x a)) \<and> disfinite (acc_maximum (acc_add x a))"
    using assms(2,3)
    by (auto simp: acc_add_def acc_reset_def acc_ok_def finite_sample_def dmin_def dmax_def)
  then have "acc_spread (acc_add x a) \<noteq> DNaN"
    by (auto simp: acc_spread_def disfinite_iff minus_Fin)
  moreover have "maximum_position_spread_rad o' \<noteq> DNaN"
    using valid_optionsD(1) [OF assms(1)] by auto
  ultimately show ?thesis
    using fin assms(4) by (simp add: acc_ok_def not_dless)
qed

lemma inv_new: "valid_manual_options o' \<Longrightarrow> manual_inv (new_manual o')"
  by (simp add: manual_inv_def new_manual_def numeral_2_eq_2 acc_ok_empty)

lemma inv_latch_abort: "manual_inv s \<Longrightarrow> manual_inv (snd (latch_abort st s))"
  by (simp add: manual_inv_def latch_abort_def acc_ok_empty numeral_2_eq_2)

lemma calculate_candidate_cases:
  assumes "valid_manual_options (options s)" "calculate_candidate s = (st, s')"
  shows "(st = OA_COMMISSION_ELIMIT \<and> s' = s \<and> reference_count (options s) = 2) \<or>
    (st = OA_COMMISSION_OK \<and> (\<exists>b sg. s' = s\<lparr>candidate_a := Fin (of_int sg), candidate_b := b,
        m_state := OA_MANUAL_CANDIDATE\<rparr>
      \<and> (sg = 1 \<or> sg = - 1) \<and> (mo_known_sign (options s) \<noteq> 0 \<longrightarrow> sg = mo_known_sign (options s))))"
proof (cases "reference_count (options s) = 1")
  case True
  with valid_optionsD(3) [OF assms(1)] assms(2) show ?thesis
    by (auto simp: calculate_candidate_def Let_def dbl_of_int_def)
next
  case False
  with valid_optionsD(2) [OF assms(1)] have two: "reference_count (options s) = 2" by blast
  have sign: "deq (Fin 1) (dbl_of_int k) \<longleftrightarrow> k = 1" "deq (Fin (- 1)) (dbl_of_int k) \<longleftrightarrow> k = - 1"
    if "k \<in> {- 1, 0, 1}" for k
    using that by (auto simp: dbl_of_int_def deq_def)
  show ?thesis
    using two False assms(2) sign [OF valid_optionsD(4) [OF assms(1)]]
    by (simp add: calculate_candidate_def Let_def split: if_splits)
      (metis of_int_1 of_int_minus)+
qed

lemma finish_reference_inv:
  assumes inv: "manual_inv s" and st: "m_state s = (if i = 0 then OA_MANUAL_COLLECT_REFERENCE_1
      else OA_MANUAL_COLLECT_REFERENCE_2)" and i: "i < 2"
    and enough: "minimum_samples (options s) \<le> acc_count (accumulators s ! i)"
  shows "manual_inv (snd (finish_reference i s))"
proof -
  let ?s1 = "s\<lparr>means := (means s)[i := acc_mean (accumulators s ! i)],
               spreads := (spreads s)[i := acc_spread (accumulators s ! i)]\<rparr>"
  have valid: "valid_manual_options (options s)" and lens: "length (accumulators s) = 2"
      "length (means s) = 2" "length (spreads s) = 2"
    and accs: "list_all (acc_ok (options s)) (accumulators s)"
    using inv by (simp_all add: manual_inv_def)
  have "acc_ok (options s) (accumulators s ! i)"
    using accs lens(1) i by (simp add: list_all_length)
  then have ri: "ref_ok i ?s1"
    using i lens enough by (simp add: ref_ok_def acc_ok_def)
  have r0: "ref_ok 0 ?s1" if "i = 1"
    using inv st that by (auto simp: manual_inv_def ref_ok_def)
  show ?thesis
  proof (cases "i = 0 \<and> reference_count (options s) = 2")
    case True
    then show ?thesis
      using valid lens accs ri by (simp add: finish_reference_def manual_inv_def ref_ok_def)
  next
    case False
    obtain r s' where calc: "calculate_candidate ?s1 = (r, s')" by fastforce
    have refs: "ref_ok 0 ?s1 \<and> (reference_count (options s) = 2 \<longrightarrow> ref_ok 1 ?s1)"
      using False ri r0 i by (cases "i = 0") (auto simp: less_2_cases_iff)
    from calculate_candidate_cases [OF _ calc] valid consider
      (limit) "s' = ?s1" "reference_count (options s) = 2"
      | (ok) b sg where "s' = ?s1\<lparr>candidate_a := Fin (of_int sg), candidate_b := b,
            m_state := OA_MANUAL_CANDIDATE\<rparr>" "sg = 1 \<or> sg = - 1"
          "mo_known_sign (options s) \<noteq> 0 \<longrightarrow> sg = mo_known_sign (options s)"
      by auto
    then have "manual_inv s'"
    proof cases
      case limit
      with False i have "i = 1" by auto
      with limit st valid lens accs r0 show ?thesis
        by (simp add: manual_inv_def)
    next
      case ok
      with valid lens accs refs show ?thesis
        by (auto simp: manual_inv_def candidate_ok_def ref_ok_def)
    qed
    with False calc show ?thesis by (auto simp: finish_reference_def Let_def)
  qed
qed

lemma sample_inv:
  assumes inv: "manual_inv s"
  shows "manual_inv (snd (manual_sample r now x s))"
proof (cases "(m_state s \<noteq> OA_MANUAL_COLLECT_REFERENCE_1 \<and> m_state s \<noteq> OA_MANUAL_COLLECT_REFERENCE_2)
    \<or> r \<noteq> (if m_state s = OA_MANUAL_COLLECT_REFERENCE_1 then 0 else 1)
    \<or> validate_sample now x s \<noteq> OA_COMMISSION_OK")
  case True
  with inv inv_latch_abort [OF inv] show ?thesis
    by (auto simp: manual_sample_def Let_def)
next
  case False
  define i where "i = unat r"
  have st: "m_state s = (if i = 0 then OA_MANUAL_COLLECT_REFERENCE_1 else OA_MANUAL_COLLECT_REFERENCE_2)"
    and i: "i < 2"
    using False by (auto simp: i_def)
  have fin: "finite_sample x"
    using False by (auto simp: validate_sample_def split: if_splits)
  have valid: "valid_manual_options (options s)" and lens: "length (accumulators s) = 2"
    and accs: "list_all (acc_ok (options s)) (accumulators s)"
    using inv by (simp_all add: manual_inv_def)
  have acc: "acc_ok (options s) (accumulators s ! i)"
    using accs lens i by (simp add: list_all_length)
  define put where "put = (\<lambda>a. s\<lparr>last_feedback_seq := feedback_seq x,
      last_sample_time_ns := sample_time_ns x, accumulators := (accumulators s)[i := a]\<rparr>)"
  have put_inv: "manual_inv (put a)" if "acc_ok (options s) a" for a
  proof -
    have "ref_ok 0 (put a) = ref_ok 0 s" if "i \<noteq> 0"
      using that by (simp add: put_def ref_ok_def)
    with inv st list_all_update [OF accs \<open>acc_ok (options s) a\<close>, of i] show ?thesis
      by (auto simp: put_def manual_inv_def split: if_splits)
  qed
  have put_st: "m_state (put a) = m_state s" "options (put a) = options s"
      "accumulators (put a) ! i = a" for a
    using i lens by (simp_all add: put_def)
  let ?a = "accumulators s ! i"
  let ?a' = "if acc_count ?a = 0 then acc_reset x else acc_add x ?a"
  show ?thesis
  proof (cases "\<bar>dq_output_rad_s x\<bar> > maximum_abs_velocity_rad_s (options s)
      \<or> acc_count ?a \<noteq> 0 \<and> acc_spread (acc_add x ?a) > maximum_position_spread_rad (options s)")
    case True
    then have "snd (manual_sample r now x s) = put empty_accumulator
        \<or> snd (manual_sample r now x s) = put (acc_reset x)"
      using False by (auto simp: manual_sample_def Let_def put_def i_def)
    then show ?thesis
      using put_inv acc_ok_empty [OF valid] acc_ok_reset [OF valid fin] by auto
  next
    case stable: False
    then have a': "acc_ok (options s) ?a'"
      using acc_ok_add [OF valid fin acc] acc_ok_reset [OF valid fin] by auto
    have "snd (manual_sample r now x s) = put ?a' \<or>
        minimum_samples (options s) \<le> acc_count ?a'
        \<and> snd (manual_sample r now x s) = snd (finish_reference i (put ?a'))"
      using False stable by (auto simp: manual_sample_def Let_def put_def i_def)
    then show ?thesis
      using put_inv [OF a'] finish_reference_inv [OF put_inv [OF a'], of i] st i
      by (auto simp: put_st)
  qed
qed

lemma step_inv:
  assumes "manual_inv s"
  shows "manual_inv (manual_step c s)"
proof (cases c)
  case (Sample r now x)
  with assms show ?thesis by (simp add: manual_step_def sample_inv)
next
  case Begin_review
  with assms show ?thesis
    by (simp add: manual_step_def manual_begin_review_def manual_inv_def)
next
  case (Commit n ev)
  with assms show ?thesis
    by (simp add: manual_step_def manual_commit_def manual_inv_def Let_def)
next
  case Abort
  with assms show ?thesis
    by (simp add: manual_step_def manual_abort_def manual_inv_def)
qed

lemma run_inv: "manual_inv s \<Longrightarrow> manual_inv (fold manual_step cs s)"
  by (induction cs arbitrary: s) (simp_all add: step_inv)

lemma calculate_candidate_options:
  "options (snd (calculate_candidate s)) = options s
    \<and> last_feedback_seq (snd (calculate_candidate s)) = last_feedback_seq s
    \<and> last_sample_time_ns (snd (calculate_candidate s)) = last_sample_time_ns s"
  by (simp add: calculate_candidate_def Let_def)

lemma step_options [simp]: "options (manual_step c s) = options s"
  by (cases c) (simp_all add: manual_step_def manual_sample_def Let_def latch_abort_def
      finish_reference_def manual_begin_review_def manual_commit_def manual_abort_def
      calculate_candidate_options)

lemma run_options [simp]: "options (fold manual_step cs s) = options s"
  by (induction cs arbitrary: s) simp_all

text \<open>The commits of a sequence of calls.\<close>

fun manual_commits :: "manual_call list \<Rightarrow> manual_session \<Rightarrow> nat" where
  "manual_commits [] s = 0"
| "manual_commits (c # cs) s =
     (if manual_emits c s then 1 else 0) + manual_commits cs (manual_step c s)"

lemma manual_commits_emissions: "manual_commits cs s = manual.emissions cs s"
  by (induction cs arbitrary: s) simp_all

section \<open>A sample session\<close>

definition sample_options :: manual_options where
  "sample_options = \<lparr>struct_size = 168, abi_version = 1, mo_side = 0, mo_joint = 3,
     mo_expected_revision = 4, reference_count = 1, mo_known_sign = 1, minimum_samples = 2,
     mo_maximum_sample_age_ns = 100, stability_dwell_ns = 10, reference_model_rad = [Fin 5, Fin 0],
     maximum_position_spread_rad = 1, maximum_abs_velocity_rad_s = 1,
     minimum_reference_separation_rad = 1, maximum_scale_error = 0,
     mo_motor_serial = ''A1'' @ replicate 62 NUL\<rparr>"

definition sample_encoder :: "u64 \<Rightarrow> u64 \<Rightarrow> encoder_sample" where
  "sample_encoder n t = \<lparr>struct_size = 72, abi_version = 1, feedback_seq = n, sample_time_ns = t,
     q_output_rad = Fin 2, dq_output_rad_s = 0, torque_output_nm = 0, mos_temperature_c = Fin 30,
     coil_temperature_c = Fin 30, drive_enabled = 0, drive_fault = 0\<rparr>"

definition sample_manual_calls :: "manual_call list" where
  "sample_manual_calls =
     [Sample 0 110 (sample_encoder 1 100), Sample 0 130 (sample_encoder 2 120), Begin_review]"

lemma sample_options_valid: "valid_manual_options sample_options"
  by (simp add: valid_manual_options_def sample_options_def valid_text_def uminus_dbl_def)

definition sample_collecting :: manual_session where
  "sample_collecting = (new_manual sample_options)
     \<lparr>last_feedback_seq := 1, last_sample_time_ns := 100,
      accumulators := [acc_reset (sample_encoder 1 100), empty_accumulator]\<rparr>"

definition sample_reviewed :: manual_session where
  "sample_reviewed = (new_manual sample_options)
     \<lparr>last_feedback_seq := 2, last_sample_time_ns := 120,
      accumulators := [acc_add (sample_encoder 2 120) (acc_reset (sample_encoder 1 100)), empty_accumulator],
      means := [Fin 2, Fin 0], candidate_a := Fin 1, candidate_b := Fin 3, m_state := OA_MANUAL_REVIEW\<rparr>"

lemma sample_validate:
  "last_feedback_seq s < n \<Longrightarrow> last_sample_time_ns s < t \<Longrightarrow> t \<le> now \<Longrightarrow>
     now - t \<le> mo_maximum_sample_age_ns (options s) \<Longrightarrow>
     validate_sample now (sample_encoder n t) s = OA_COMMISSION_OK"
  by (auto simp: validate_sample_def sample_encoder_def valid_header_def finite_sample_def)

lemma sample_enc [simp]:
  "dq_output_rad_s (sample_encoder n t) = Fin 0" "feedback_seq (sample_encoder n t) = n"
  "sample_time_ns (sample_encoder n t) = t"
  by (simp_all add: sample_encoder_def)

lemma sample_opts [simp]:
  "maximum_abs_velocity_rad_s sample_options = Fin 1" "maximum_position_spread_rad sample_options = Fin 1"
  "minimum_samples sample_options = 2" "stability_dwell_ns sample_options = 10"
  "mo_maximum_sample_age_ns sample_options = 100"
  by (simp_all add: sample_options_def)

lemma sample_acc [simp]:
  "acc_count (acc_reset (sample_encoder n t)) = 1" "first_time_ns (acc_reset (sample_encoder n t)) = t"
  "acc_count empty_accumulator = 0"
  by (simp_all add: acc_reset_def empty_accumulator_def)

lemma sample_first:
  "manual_sample 0 110 (sample_encoder 1 100) (new_manual sample_options)
   = (OA_COMMISSION_OK, sample_collecting)"
proof -
  have val: "validate_sample 110 (sample_encoder 1 100) (new_manual sample_options) = OA_COMMISSION_OK"
    by (simp add: sample_validate new_manual_def)
  have new: "m_state (new_manual sample_options) = OA_MANUAL_COLLECT_REFERENCE_1"
      "accumulators (new_manual sample_options) = [empty_accumulator, empty_accumulator]"
      "options (new_manual sample_options) = sample_options"
    by (simp_all add: new_manual_def numeral_2_eq_2)
  show ?thesis
    by (simp add: manual_sample_def val new sample_collecting_def Let_def)
qed

lemma sample_second:
  "snd (manual_sample 0 130 (sample_encoder 2 120) sample_collecting)
   = sample_reviewed\<lparr>m_state := OA_MANUAL_CANDIDATE\<rparr>"
proof -
  let ?acc = "acc_add (sample_encoder 2 120) (acc_reset (sample_encoder 1 100))"
  have acc: "acc_count ?acc = 2" "first_time_ns ?acc = 100" "acc_spread ?acc = Fin 0" "acc_mean ?acc = Fin 2"
    by (simp_all add: acc_add_def acc_reset_def sample_encoder_def acc_spread_def acc_mean_def dmin_def
        dmax_def minus_Fin plus_Fin divide_Fin dbl_of_word_def)
  have val: "validate_sample 130 (sample_encoder 2 120) sample_collecting = OA_COMMISSION_OK"
    by (simp add: sample_validate sample_collecting_def new_manual_def sample_options_def)
  have fin: "snd (finish_reference 0 (sample_collecting\<lparr>last_feedback_seq := 2,
      last_sample_time_ns := 120, accumulators := [?acc, empty_accumulator]\<rparr>))
      = sample_reviewed\<lparr>m_state := OA_MANUAL_CANDIDATE\<rparr>"
    by (simp add: finish_reference_def calculate_candidate_def acc sample_collecting_def sample_reviewed_def
        new_manual_def sample_options_def dbl_of_int_def times_Fin minus_Fin Let_def)
  have sc: "m_state sample_collecting = OA_MANUAL_COLLECT_REFERENCE_1"
      "accumulators sample_collecting = [acc_reset (sample_encoder 1 100), empty_accumulator]"
      "options sample_collecting = sample_options"
    by (simp_all add: sample_collecting_def new_manual_def)
  show ?thesis
    by (simp add: manual_sample_def val sc acc fin Let_def)
qed

lemma sample_manual_run:
  "fold manual_step sample_manual_calls (new_manual sample_options) = sample_reviewed"
  by (simp add: sample_manual_calls_def manual_step_def sample_first sample_second manual_begin_review_def)
    (simp add: sample_reviewed_def)

lemma sample_manual_commit:
  "\<exists>p s'. manual_commit 5 (Some [CHR ''x'', NUL]) sample_reviewed = (Inr p, s') \<and> mp_b_rad p = Fin 3"
  by (simp add: manual_commit_def sample_reviewed_def new_manual_def sample_options_def valid_text_def)

section \<open>Properties\<close>

text \<open>
  a sample taken with the drive enabled or faulted, out of order, in the future, too old or
  not finite ends the session. The candidate is cleared, and no later call changes anything.
\<close>

theorem manual_bad_sample_aborts:
  assumes "m_state s = OA_MANUAL_COLLECT_REFERENCE_1 \<and> r = 0 \<or> m_state s = OA_MANUAL_COLLECT_REFERENCE_2 \<and> r = 1"
    and "drive_enabled x \<noteq> 0 \<or> drive_fault x \<noteq> 0 \<or> feedback_seq x \<le> last_feedback_seq s
      \<or> sample_time_ns x \<le> last_sample_time_ns s \<or> now < sample_time_ns x
      \<or> mo_maximum_sample_age_ns (options s) < now - sample_time_ns x \<or> \<not> finite_sample x"
    and "manual_sample r now x s = (st, s')"
  shows "st \<noteq> OA_COMMISSION_OK \<and> m_state s' = OA_MANUAL_ABORTED \<and> candidate_a s' = 0
    \<and> candidate_b s' = 0 \<and> fold manual_step cs s' = s'"
proof -
  have bad: "validate_sample now x s \<noteq> OA_COMMISSION_OK"
    using assms(2) by (auto simp: validate_sample_def)
  with assms(1,3) have "st \<noteq> OA_COMMISSION_OK" "s' = snd (latch_abort (validate_sample now x s) s)"
    by (auto simp: manual_sample_def latch_abort_def)
  then show ?thesis
    using manual.run_frozen [of s' cs] by (simp add: latch_abort_def manual_terminal_def)
qed

text \<open>The samples that a session takes: those for the reference it is collecting.\<close>

definition collects :: "u32 \<Rightarrow> manual_session \<Rightarrow> bool" where
  "collects ref s \<longleftrightarrow>
     m_state s = OA_MANUAL_COLLECT_REFERENCE_1 \<and> ref = 0 \<or> m_state s = OA_MANUAL_COLLECT_REFERENCE_2 \<and> ref = 1"

definition clean_sample :: "u64 \<Rightarrow> encoder_sample \<Rightarrow> manual_session \<Rightarrow> bool" where
  "clean_sample now x s \<longleftrightarrow>
     drive_enabled x = 0 \<and> drive_fault x = 0 \<and> finite_sample x \<and> last_feedback_seq s < feedback_seq x
     \<and> last_sample_time_ns s < sample_time_ns x \<and> sample_time_ns x \<le> now
     \<and> now - sample_time_ns x \<le> mo_maximum_sample_age_ns (options s)"

lemma unclean_sample_ends:
  assumes "collects ref s" "\<not> clean_sample now x s"
  shows "m_state (fold manual_step (Sample ref now x # cs) s) = OA_MANUAL_ABORTED"
proof -
  obtain st s' where r: "manual_sample ref now x s = (st, s')" by fastforce
  have "m_state s' = OA_MANUAL_ABORTED \<and> fold manual_step cs s' = s'"
    using manual_bad_sample_aborts [OF assms(1) [unfolded collects_def] _ r, of cs] assms(2)
    by (auto simp: clean_sample_def not_le not_less)
  then show ?thesis by (simp add: manual_step_def r)
qed

text \<open>
  C21: a committed manual mapping is sound. From valid options and through any calls, a patch
  is produced only from REVIEW with a greater revision; its scale is one of the two signs and
  agrees with a known sign, and every reference used had enough samples within the spread. Every
  sample that the session took for a reference was taken with the drive off and without a fault, was
  finite, in order, and no older than allowed.
\<close>

theorem manual_commit_sound:
  assumes "valid_manual_options o'" "s = fold manual_step cs (new_manual o')"
    and "manual_commit n ev s = (Inr p, s')"
  shows "m_state s = OA_MANUAL_REVIEW \<and> m_state s' = OA_MANUAL_COMMITTED
    \<and> mp_expected_revision p = mo_expected_revision o' \<and> mo_expected_revision o' < replacement_revision p
    \<and> (mp_a p = Fin 1 \<or> mp_a p = Fin (- 1))
    \<and> (mo_known_sign o' \<noteq> 0 \<longrightarrow> mp_a p = Fin (of_int (mo_known_sign o')))
    \<and> ref_ok 0 s \<and> (reference_count o' = 2 \<longrightarrow> ref_ok 1 s)
    \<and> (\<forall>pre ref now x post. cs = pre @ Sample ref now x # post
         \<and> collects ref (fold manual_step pre (new_manual o'))
         \<longrightarrow> clean_sample now x (fold manual_step pre (new_manual o')))"
proof -
  have inv: "manual_inv s" and o': "options s = o'"
    using run_inv [OF inv_new [OF assms(1)]] by (simp_all add: assms(2) new_manual_def)
  from assms(3) have review: "m_state s = OA_MANUAL_REVIEW" and less: "mo_expected_revision o' < n"
    and p: "mp_expected_revision p = mo_expected_revision o'" "replacement_revision p = n"
      "mp_a p = candidate_a s" "m_state s' = OA_MANUAL_COMMITTED"
    by (auto simp: manual_commit_def Let_def o' not_le split: if_splits)
  have "candidate_ok s" using inv review by (simp add: manual_inv_def)
  moreover have "clean_sample now x (fold manual_step pre (new_manual o'))"
    if "cs = pre @ Sample ref now x # post" "collects ref (fold manual_step pre (new_manual o'))" for pre ref now x post
  proof (rule ccontr)
    assume "\<not> ?thesis"
    from unclean_sample_ends [OF that(2) this, of post] review show False by (simp add: assms(2) that(1))
  qed
  ultimately show ?thesis using review less p by (auto simp: candidate_ok_def o')
qed

theorem manual_commit_sound_witness:
  "\<exists>p s'. manual_commit 5 (Some [CHR ''x'', NUL]) sample_reviewed = (Inr p, s') \<and> mp_a p = Fin 1"
proof -
  obtain p s' where c: "manual_commit 5 (Some [CHR ''x'', NUL]) sample_reviewed = (Inr p, s')"
    using sample_manual_commit by blast
  from manual_commit_sound [OF sample_options_valid sample_manual_run [symmetric] c] c show ?thesis
    by (auto simp: sample_options_def)
qed

text \<open>
  A manual session commits at most once, whatever calls are made on it.
\<close>

theorem manual_commits_once:
  "manual_commits cs (new_manual o') \<le> 1"
  unfolding manual_commits_emissions by (rule manual.emits_once)

theorem manual_bad_sample_aborts_witness:
  "m_state (snd (manual_sample 0 130 ((sample_encoder 2 120)\<lparr>drive_enabled := 1\<rparr>) sample_collecting))
   = OA_MANUAL_ABORTED"
  using manual_bad_sample_aborts [of sample_collecting 0 "(sample_encoder 2 120)\<lparr>drive_enabled := 1\<rparr>" 130]
  by (simp add: prod_eq_iff) (simp add: sample_collecting_def new_manual_def)

end
