(* ===== verification/Commission_Recipe.thy ===== *)
theory Commission_Recipe
  imports Manual_Safety
begin

text \<open>
  The contact recipe of commission/src/calibration_session.cpp: a session that is fed one input
  (encoder sample, interlocks, evidence) per step and answers with the next action. It waits,
  approaches a stop, dwells on it, retreats, approaches again, compares the two stops, and
  offers a candidate for review. Each case of the switch in \<open>step\<close> is a definition.
\<close>

datatype recipe_state =
    OA_RECIPE_PRECHECK | OA_RECIPE_WAIT | OA_RECIPE_APPROACH | OA_RECIPE_CONTACT_DWELL
  | OA_RECIPE_RETREAT | OA_RECIPE_REAPPROACH | OA_RECIPE_REPEATABILITY | OA_RECIPE_CANDIDATE
  | OA_RECIPE_REVIEW | OA_RECIPE_COMMIT | OA_RECIPE_ABORT

datatype recipe_action =
    OA_RECIPE_ACTION_NONE | OA_RECIPE_ACTION_HOLD_DISABLED | OA_RECIPE_ACTION_APPROACH
  | OA_RECIPE_ACTION_CONTACT_DWELL | OA_RECIPE_ACTION_RETREAT | OA_RECIPE_ACTION_REAPPROACH
  | OA_RECIPE_ACTION_REVIEW | OA_RECIPE_ACTION_COMMIT_READY | OA_RECIPE_ACTION_ABORT_DISABLE

datatype abort_reason =
    OA_ABORT_NONE | OA_ABORT_CALLER | OA_ABORT_BAD_SAMPLE | OA_ABORT_STALE | OA_ABORT_INTERLOCK
  | OA_ABORT_LIMIT | OA_ABORT_TIMEOUT | OA_ABORT_CONTACT | OA_ABORT_REPEATABILITY
  | OA_ABORT_REVIEW_REJECTED | OA_ABORT_UNQUALIFIED

abbreviation OA_RECIPE_ARM_JOINT :: u32 where "OA_RECIPE_ARM_JOINT \<equiv> 1"
abbreviation OA_RECIPE_GRIPPER :: u32 where "OA_RECIPE_GRIPPER \<equiv> 2"
abbreviation OA_REVIEW_ACCEPT :: u32 where "OA_REVIEW_ACCEPT \<equiv> 1"
abbreviation OA_REVIEW_REJECT :: u32 where "OA_REVIEW_REJECT \<equiv> 2"
abbreviation SIZEOF_RECIPE_INPUT :: u32 where "SIZEOF_RECIPE_INPUT \<equiv> 184"
abbreviation SIZEOF_NEXT_ACTION :: u32 where "SIZEOF_NEXT_ACTION \<equiv> 72"
abbreviation SIZEOF_RECIPE_REPORT :: u32 where "SIZEOF_RECIPE_REPORT \<equiv> 64"

record recipe = header +
  recipe_kind :: u32
  rc_side :: u32
  rc_joint :: u32
  rc_known_sign :: int
  hardware_qualified :: u32
  simulation_only :: u32
  minimum_contact_samples :: u32
  rc_expected_revision :: u64
  qualification_revision :: u64
  simulation_evidence_revision :: u64
  rc_fixture_revision :: u64
  rc_maximum_sample_age_ns :: u64
  maximum_approach_time_ns :: u64
  contact_dwell_ns :: u64
  maximum_retreat_time_ns :: u64
  stop_model_rad :: dbl
  approach_direction :: dbl
  start_min_output_rad :: dbl
  start_max_output_rad :: dbl
  maximum_speed_rad_s :: dbl
  minimum_contact_travel_rad :: dbl
  maximum_approach_travel_rad :: dbl
  contact_velocity_rad_s :: dbl
  minimum_contact_torque_nm :: dbl
  maximum_torque_nm :: dbl
  maximum_contact_energy_j :: dbl
  maximum_temperature_c :: dbl
  retreat_distance_rad :: dbl
  repeatability_tolerance_rad :: dbl
  required_posture_mask :: u32
  required_posture_output_rad :: "dbl list"
  posture_tolerance_rad :: dbl
  rc_motor_serial :: string
  qualification_record :: string
  simulation_evidence_record :: string
  fixture_record :: string

record recipe_input = header +
  now_ns :: u64
  encoder :: encoder_sample
  estop_clear :: u32
  deadman_held :: u32
  operator_ready :: u32
  review_decision :: u32
  posture_mask :: u32
  evidence_revision :: u64
  in_fixture_revision :: u64
  posture_output_rad :: "dbl list"

record next_action = header +
  na_kind :: recipe_action
  na_state :: recipe_state
  valid_until_ns :: u64
  na_direction :: dbl
  target_output_rad :: dbl
  na_maximum_speed_rad_s :: dbl
  maximum_travel_rad :: dbl
  na_maximum_torque_nm :: dbl
  na_maximum_temperature_c :: dbl

record recipe_session =
  the_recipe :: recipe
  r_state :: recipe_state
  abort_reason_of :: abort_reason
  r_last_feedback_seq :: u64
  r_last_sample_time_ns :: u64
  phase_start_ns :: u64
  phase_deadline_ns :: u64
  dwell_start_ns :: u64
  last_energy_time_ns :: u64
  contact_samples :: u32
  phase_start_q :: dbl
  envelope_start_q :: dbl
  envelope_end_q :: dbl
  contact_sum_q :: dbl
  first_stop_q :: dbl
  second_stop_q :: dbl
  r_candidate_a :: dbl
  r_candidate_b :: dbl
  contact_energy_j :: dbl
  second_contact_active :: bool

definition new_recipe :: "recipe \<Rightarrow> recipe_session" where
  "new_recipe r = \<lparr>the_recipe = r, r_state = OA_RECIPE_PRECHECK, abort_reason_of = OA_ABORT_NONE,
     r_last_feedback_seq = 0, r_last_sample_time_ns = 0, phase_start_ns = 0, phase_deadline_ns = 0,
     dwell_start_ns = 0, last_energy_time_ns = 0, contact_samples = 0, phase_start_q = 0,
     envelope_start_q = 0, envelope_end_q = 0, contact_sum_q = 0, first_stop_q = 0,
     second_stop_q = 0, r_candidate_a = 0, r_candidate_b = 0, contact_energy_j = 0,
     second_contact_active = False\<rparr>"

definition kDirectionTolerance :: dbl where
  "kDirectionTolerance = lit (1 / 10 ^ 6)"

definition directional_travel :: "dbl \<Rightarrow> dbl \<Rightarrow> dbl \<Rightarrow> dbl" where
  "directional_travel from_q to_q direction = direction * (to_q - from_q)"

definition recipe_fail ::
  "commission_status \<Rightarrow> abort_reason \<Rightarrow> recipe_session \<Rightarrow> commission_status \<times> recipe_session" where
  "recipe_fail st reason s =
     (st, s\<lparr>r_state := OA_RECIPE_ABORT, abort_reason_of := reason, r_candidate_a := 0,
            r_candidate_b := 0\<rparr>)"

section \<open>Checks of an input\<close>

definition validate_binding :: "recipe_input \<Rightarrow> recipe_session \<Rightarrow> commission_status \<times> recipe_session" where
  "validate_binding x s =
     (let r = the_recipe s;
          expected = (if simulation_only r \<noteq> 0 then simulation_evidence_revision r
                      else qualification_revision r);
          posture = (\<lambda>i. \<not> bit (required_posture_mask r) i
                \<or> (disfinite (posture_output_rad x ! i)
                   \<and> \<not> \<bar>posture_output_rad x ! i - required_posture_output_rad r ! i\<bar>
                       > posture_tolerance_rad r))
      in if evidence_revision x \<noteq> expected \<or> in_fixture_revision x \<noteq> rc_fixture_revision r
         then recipe_fail OA_COMMISSION_EFAULT OA_ABORT_UNQUALIFIED s
         else if recipe_kind r \<noteq> OA_RECIPE_ARM_JOINT then (OA_COMMISSION_OK, s)
         else if posture_mask x \<noteq> required_posture_mask r
         then recipe_fail OA_COMMISSION_EFAULT OA_ABORT_UNQUALIFIED s
         else if \<not> list_all posture [0 ..< 7]
         then recipe_fail OA_COMMISSION_EFAULT OA_ABORT_UNQUALIFIED s
         else (OA_COMMISSION_OK, s))"

definition validate_input :: "recipe_input \<Rightarrow> recipe_session \<Rightarrow> commission_status \<times> recipe_session" where
  "validate_input x s =
     (let e = encoder x; r = the_recipe s in
      if \<not> valid_header (struct_size x) (abi_version x) SIZEOF_RECIPE_INPUT
         \<or> \<not> valid_header (struct_size e) (abi_version e) SIZEOF_ENCODER_SAMPLE
         \<or> \<not> finite_sample e
      then recipe_fail OA_COMMISSION_EINVAL OA_ABORT_BAD_SAMPLE s
      else if feedback_seq e = 0 \<or> feedback_seq e \<le> r_last_feedback_seq s
         \<or> sample_time_ns e \<le> r_last_sample_time_ns s \<or> sample_time_ns e > now_ns x
         \<or> now_ns x - sample_time_ns e > rc_maximum_sample_age_ns r
      then recipe_fail OA_COMMISSION_ESTALE OA_ABORT_STALE s
      else
        let s1 = s\<lparr>r_last_feedback_seq := feedback_seq e, r_last_sample_time_ns := sample_time_ns e\<rparr> in
        if drive_fault e \<noteq> 0 then recipe_fail OA_COMMISSION_EFAULT OA_ABORT_INTERLOCK s1
        else if mos_temperature_c e > maximum_temperature_c r
           \<or> coil_temperature_c e > maximum_temperature_c r
        then recipe_fail OA_COMMISSION_ELIMIT OA_ABORT_LIMIT s1
        else validate_binding x s1)"

definition update_energy :: "recipe_input \<Rightarrow> recipe_session \<Rightarrow> commission_status \<times> recipe_session" where
  "update_energy x s =
     (let e = encoder x in
      if last_energy_time_ns s = 0
      then (OA_COMMISSION_OK, s\<lparr>last_energy_time_ns := sample_time_ns e\<rparr>)
      else
        let seconds = dbl_of_word (sample_time_ns e - last_energy_time_ns s) * lit (1 / 10 ^ 9);
            energy = contact_energy_j s + \<bar>torque_output_nm e * dq_output_rad_s e\<bar> * seconds;
            s1 = s\<lparr>last_energy_time_ns := sample_time_ns e, contact_energy_j := energy\<rparr>
        in if \<not> disfinite energy \<or> energy > maximum_contact_energy_j (the_recipe s)
           then recipe_fail OA_COMMISSION_ELIMIT OA_ABORT_LIMIT s1
           else (OA_COMMISSION_OK, s1))"

definition enforce_motion_limits ::
  "recipe_input \<Rightarrow> recipe_session \<Rightarrow> commission_status \<times> recipe_session" where
  "enforce_motion_limits x s =
     (let e = encoder x; r = the_recipe s in
      if estop_clear x = 0 \<or> deadman_held x = 0
      then recipe_fail OA_COMMISSION_EINTERLOCK OA_ABORT_INTERLOCK s
      else if drive_enabled e = 0 then recipe_fail OA_COMMISSION_EINTERLOCK OA_ABORT_INTERLOCK s
      else if \<bar>dq_output_rad_s e\<bar> > maximum_speed_rad_s r \<or> \<bar>torque_output_nm e\<bar> > maximum_torque_nm r
         \<or> mos_temperature_c e > maximum_temperature_c r \<or> coil_temperature_c e > maximum_temperature_c r
      then recipe_fail OA_COMMISSION_ELIMIT OA_ABORT_LIMIT s
      else update_energy x s)"

definition contact_evidence :: "recipe_input \<Rightarrow> dbl \<Rightarrow> recipe_session \<Rightarrow> bool" where
  "contact_evidence x travel s \<longleftrightarrow>
     (let e = encoder x; r = the_recipe s in
      drive_enabled e \<noteq> 0 \<and> travel \<ge> minimum_contact_travel_rad r
      \<and> \<bar>dq_output_rad_s e\<bar> \<le> contact_velocity_rad_s r
      \<and> \<bar>torque_output_nm e\<bar> \<ge> minimum_contact_torque_nm r)"

definition recipe_action_of :: "recipe_action \<Rightarrow> recipe_input \<Rightarrow> recipe_session \<Rightarrow> next_action" where
  "recipe_action_of k x s =
     (let r = the_recipe s;
          base = \<lparr>struct_size = SIZEOF_NEXT_ACTION, abi_version = OA_COMMISSION_ABI_V1, na_kind = k,
                  na_state = r_state s, valid_until_ns = 0, na_direction = 0, target_output_rad = 0,
                  na_maximum_speed_rad_s = maximum_speed_rad_s r, maximum_travel_rad = 0,
                  na_maximum_torque_nm = maximum_torque_nm r,
                  na_maximum_temperature_c = maximum_temperature_c r\<rparr>;
          forward = base\<lparr>valid_until_ns := phase_deadline_ns s, na_direction := approach_direction r,
                         maximum_travel_rad := dmax 0 (directional_travel (phase_start_q s)
                           (envelope_end_q s) (approach_direction r)),
                         target_output_rad := envelope_end_q s\<rparr>
      in case k of
           OA_RECIPE_ACTION_APPROACH \<Rightarrow> forward
         | OA_RECIPE_ACTION_CONTACT_DWELL \<Rightarrow> forward
         | OA_RECIPE_ACTION_REAPPROACH \<Rightarrow> forward
         | OA_RECIPE_ACTION_RETREAT \<Rightarrow>
             base\<lparr>valid_until_ns := phase_deadline_ns s, na_direction := - approach_direction r,
                  maximum_travel_rad := retreat_distance_rad r,
                  target_output_rad := first_stop_q s - approach_direction r * retreat_distance_rad r\<rparr>
         | _ \<Rightarrow> base\<lparr>valid_until_ns := now_ns x\<rparr>)"

section \<open>The cases of the step\<close>

type_synonym recipe_result = "commission_status \<times> next_action \<times> recipe_session"

text \<open>The two ways a case ends: an action in the new state, or a failure that disables.\<close>

definition answer :: "recipe_input \<Rightarrow> recipe_action \<Rightarrow> recipe_session \<Rightarrow> recipe_result" where
  "answer x k s = (OA_COMMISSION_OK, recipe_action_of k x s, s)"

definition refuse :: "recipe_input \<Rightarrow> commission_status \<Rightarrow> abort_reason \<Rightarrow> recipe_session \<Rightarrow> recipe_result" where
  "refuse x st reason s =
     (let s' = snd (recipe_fail st reason s)
      in (st, recipe_action_of OA_RECIPE_ACTION_ABORT_DISABLE x s', s'))"

text \<open>A case that moves: first the motion limits, then the rest on the session they leave.\<close>

definition within_limits ::
  "recipe_input \<Rightarrow> (recipe_session \<Rightarrow> recipe_result) \<Rightarrow> recipe_session \<Rightarrow> recipe_result" where
  "within_limits x rest s =
     (let (st, s1) = enforce_motion_limits x s in
      if st \<noteq> OA_COMMISSION_OK
      then (st, recipe_action_of OA_RECIPE_ACTION_ABORT_DISABLE x s1, s1)
      else rest s1)"

definition recipe_precheck :: "recipe_input \<Rightarrow> recipe_session \<Rightarrow> recipe_result" where
  "recipe_precheck x s =
     (let e = encoder x; r = the_recipe s in
      if estop_clear x = 0 \<or> drive_enabled e \<noteq> 0 \<or> q_output_rad e < start_min_output_rad r
         \<or> q_output_rad e > start_max_output_rad r \<or> mos_temperature_c e > maximum_temperature_c r
         \<or> coil_temperature_c e > maximum_temperature_c r
      then refuse x OA_COMMISSION_EINTERLOCK OA_ABORT_INTERLOCK s
      else answer x OA_RECIPE_ACTION_HOLD_DISABLED (s\<lparr>r_state := OA_RECIPE_WAIT\<rparr>))"

definition recipe_wait :: "recipe_input \<Rightarrow> recipe_session \<Rightarrow> recipe_result" where
  "recipe_wait x s =
     (let e = encoder x; r = the_recipe s in
      if estop_clear x = 0 \<or> drive_enabled e \<noteq> 0
      then refuse x OA_COMMISSION_EINTERLOCK OA_ABORT_INTERLOCK s
      else if deadman_held x = 0 \<or> operator_ready x = 0
      then answer x OA_RECIPE_ACTION_HOLD_DISABLED s
      else answer x OA_RECIPE_ACTION_APPROACH
        (s\<lparr>r_state := OA_RECIPE_APPROACH, phase_start_ns := now_ns x,
           phase_start_q := q_output_rad e, envelope_start_q := q_output_rad e,
           envelope_end_q := q_output_rad e + approach_direction r * maximum_approach_travel_rad r,
           phase_deadline_ns := saturating_add (now_ns x) (maximum_approach_time_ns r),
           last_energy_time_ns := sample_time_ns e\<rparr>))"

definition start_contact :: "recipe_input \<Rightarrow> recipe_session \<Rightarrow> recipe_session" where
  "start_contact x s =
     s\<lparr>dwell_start_ns := sample_time_ns (encoder x), contact_samples := 1,
       contact_sum_q := q_output_rad (encoder x)\<rparr>"

definition add_contact :: "recipe_input \<Rightarrow> recipe_session \<Rightarrow> recipe_session" where
  "add_contact x s =
     s\<lparr>contact_samples := contact_samples s + 1,
       contact_sum_q := contact_sum_q s + q_output_rad (encoder x)\<rparr>"

definition dwell_short :: "recipe_input \<Rightarrow> recipe_session \<Rightarrow> bool" where
  "dwell_short x s \<longleftrightarrow>
     sample_time_ns (encoder x) - dwell_start_ns s < contact_dwell_ns (the_recipe s)
     \<or> contact_samples s < minimum_contact_samples (the_recipe s)"

definition contact_mean :: "recipe_session \<Rightarrow> dbl" where
  "contact_mean s = contact_sum_q s / dbl_of_word (contact_samples s)"

definition recipe_approach :: "recipe_input \<Rightarrow> recipe_session \<Rightarrow> recipe_result" where
  "recipe_approach x = within_limits x (\<lambda>s.
     let e = encoder x; r = the_recipe s;
         travel = directional_travel (envelope_start_q s) (q_output_rad e) (approach_direction r) in
     if travel < - kDirectionTolerance \<or> travel > maximum_approach_travel_rad r
     then refuse x OA_COMMISSION_ELIMIT OA_ABORT_LIMIT s
     else if now_ns x > phase_deadline_ns s then refuse x OA_COMMISSION_ELIMIT OA_ABORT_TIMEOUT s
     else if contact_evidence x travel s
     then answer x OA_RECIPE_ACTION_CONTACT_DWELL
       (start_contact x (s\<lparr>r_state := OA_RECIPE_CONTACT_DWELL\<rparr>))
     else answer x OA_RECIPE_ACTION_APPROACH s)"

definition recipe_contact_dwell :: "recipe_input \<Rightarrow> recipe_session \<Rightarrow> recipe_result" where
  "recipe_contact_dwell x = within_limits x (\<lambda>s.
     let e = encoder x; r = the_recipe s;
         travel = directional_travel (envelope_start_q s) (q_output_rad e) (approach_direction r) in
     if now_ns x > phase_deadline_ns s then refuse x OA_COMMISSION_ELIMIT OA_ABORT_TIMEOUT s
     else if travel > maximum_approach_travel_rad r \<or> \<not> contact_evidence x travel s
     then refuse x OA_COMMISSION_EFAULT OA_ABORT_CONTACT s
     else
       let s1 = add_contact x s in
       if dwell_short x s1 then answer x OA_RECIPE_ACTION_CONTACT_DWELL s1
       else answer x OA_RECIPE_ACTION_RETREAT
         (s1\<lparr>first_stop_q := contact_mean s1, r_state := OA_RECIPE_RETREAT,
             phase_start_ns := now_ns x, phase_start_q := q_output_rad e,
             phase_deadline_ns := saturating_add (now_ns x) (maximum_retreat_time_ns r)\<rparr>))"

definition recipe_retreat :: "recipe_input \<Rightarrow> recipe_session \<Rightarrow> recipe_result" where
  "recipe_retreat x = within_limits x (\<lambda>s.
     let e = encoder x; r = the_recipe s;
         travel = directional_travel (phase_start_q s) (q_output_rad e) (- approach_direction r);
         global = directional_travel (envelope_start_q s) (q_output_rad e) (approach_direction r) in
     if travel < - kDirectionTolerance
        \<or> travel > retreat_distance_rad r + repeatability_tolerance_rad r
        \<or> global < - kDirectionTolerance \<or> global > maximum_approach_travel_rad r
     then refuse x OA_COMMISSION_ELIMIT OA_ABORT_LIMIT s
     else if now_ns x > phase_deadline_ns s then refuse x OA_COMMISSION_ELIMIT OA_ABORT_TIMEOUT s
     else if travel \<ge> retreat_distance_rad r \<and> \<bar>dq_output_rad_s e\<bar> \<le> contact_velocity_rad_s r
     then answer x OA_RECIPE_ACTION_REAPPROACH
       (s\<lparr>r_state := OA_RECIPE_REAPPROACH, phase_start_ns := now_ns x, phase_start_q := q_output_rad e,
          phase_deadline_ns := saturating_add (now_ns x) (maximum_approach_time_ns r),
          last_energy_time_ns := sample_time_ns e, second_contact_active := False,
          contact_samples := 0, contact_sum_q := 0\<rparr>)
     else answer x OA_RECIPE_ACTION_RETREAT s)"

definition recipe_reapproach :: "recipe_input \<Rightarrow> recipe_session \<Rightarrow> recipe_result" where
  "recipe_reapproach x = within_limits x (\<lambda>s.
     let e = encoder x; r = the_recipe s;
         travel = directional_travel (phase_start_q s) (q_output_rad e) (approach_direction r);
         global = directional_travel (envelope_start_q s) (q_output_rad e) (approach_direction r) in
     if travel < - kDirectionTolerance \<or> global < - kDirectionTolerance
        \<or> global > maximum_approach_travel_rad r
     then refuse x OA_COMMISSION_ELIMIT OA_ABORT_LIMIT s
     else if now_ns x > phase_deadline_ns s then refuse x OA_COMMISSION_ELIMIT OA_ABORT_TIMEOUT s
     else if second_contact_active s then
       if \<not> contact_evidence x travel s then refuse x OA_COMMISSION_EFAULT OA_ABORT_CONTACT s
       else
         let s1 = add_contact x s in
         if dwell_short x s1 then answer x OA_RECIPE_ACTION_CONTACT_DWELL s1
         else answer x OA_RECIPE_ACTION_HOLD_DISABLED
           (s1\<lparr>second_stop_q := contact_mean s1, r_state := OA_RECIPE_REPEATABILITY\<rparr>)
     else if contact_evidence x travel s
     then answer x OA_RECIPE_ACTION_CONTACT_DWELL (start_contact x (s\<lparr>second_contact_active := True\<rparr>))
     else answer x OA_RECIPE_ACTION_REAPPROACH s)"

definition recipe_repeatability :: "recipe_input \<Rightarrow> recipe_session \<Rightarrow> recipe_result" where
  "recipe_repeatability x s =
     (let r = the_recipe s; a = dbl_of_int (rc_known_sign r) in
      if estop_clear x = 0 \<or> deadman_held x = 0 \<or> drive_enabled (encoder x) \<noteq> 0
      then refuse x OA_COMMISSION_EINTERLOCK OA_ABORT_INTERLOCK s
      else if \<bar>second_stop_q s - first_stop_q s\<bar> > repeatability_tolerance_rad r
      then refuse x OA_COMMISSION_EREPEATABILITY OA_ABORT_REPEATABILITY s
      else answer x OA_RECIPE_ACTION_REVIEW
        (s\<lparr>r_candidate_a := a,
           r_candidate_b := stop_model_rad r - a * lit (1 / 2) * (first_stop_q s + second_stop_q s),
           r_state := OA_RECIPE_CANDIDATE\<rparr>))"

definition recipe_candidate :: "recipe_input \<Rightarrow> recipe_session \<Rightarrow> recipe_result" where
  "recipe_candidate x s =
     (if estop_clear x = 0 \<or> drive_enabled (encoder x) \<noteq> 0
      then refuse x OA_COMMISSION_EINTERLOCK OA_ABORT_INTERLOCK s
      else if review_decision x = OA_REVIEW_REJECT
      then refuse x OA_COMMISSION_ESTATE OA_ABORT_REVIEW_REJECTED s
      else if review_decision x = OA_REVIEW_ACCEPT
      then answer x OA_RECIPE_ACTION_COMMIT_READY (s\<lparr>r_state := OA_RECIPE_REVIEW\<rparr>)
      else answer x OA_RECIPE_ACTION_REVIEW s)"

definition recipe_review :: "recipe_input \<Rightarrow> recipe_session \<Rightarrow> recipe_result" where
  "recipe_review x s =
     (if estop_clear x = 0 \<or> drive_enabled (encoder x) \<noteq> 0 \<or> review_decision x = OA_REVIEW_REJECT
      then refuse x OA_COMMISSION_ESTATE OA_ABORT_REVIEW_REJECTED s
      else answer x OA_RECIPE_ACTION_COMMIT_READY s)"

definition recipe_step :: "recipe_input \<Rightarrow> recipe_session \<Rightarrow> recipe_result" where
  "recipe_step x s =
     (if r_state s = OA_RECIPE_ABORT
      then (OA_COMMISSION_ESTATE, recipe_action_of OA_RECIPE_ACTION_ABORT_DISABLE x s, s)
      else if r_state s = OA_RECIPE_COMMIT
      then (OA_COMMISSION_ESTATE, recipe_action_of OA_RECIPE_ACTION_NONE x s, s)
      else
        let (st, s1) = validate_input x s in
        if st \<noteq> OA_COMMISSION_OK
        then (st, recipe_action_of OA_RECIPE_ACTION_ABORT_DISABLE x s1, s1)
        else case r_state s1 of
            OA_RECIPE_PRECHECK \<Rightarrow> recipe_precheck x s1
          | OA_RECIPE_WAIT \<Rightarrow> recipe_wait x s1
          | OA_RECIPE_APPROACH \<Rightarrow> recipe_approach x s1
          | OA_RECIPE_CONTACT_DWELL \<Rightarrow> recipe_contact_dwell x s1
          | OA_RECIPE_RETREAT \<Rightarrow> recipe_retreat x s1
          | OA_RECIPE_REAPPROACH \<Rightarrow> recipe_reapproach x s1
          | OA_RECIPE_REPEATABILITY \<Rightarrow> recipe_repeatability x s1
          | OA_RECIPE_CANDIDATE \<Rightarrow> recipe_candidate x s1
          | OA_RECIPE_REVIEW \<Rightarrow> recipe_review x s1
          | _ \<Rightarrow> refuse x OA_COMMISSION_ESTATE OA_ABORT_BAD_SAMPLE s1)"

section \<open>Commit, abort and report\<close>

definition recipe_commit ::
  "u64 \<Rightarrow> recipe_session \<Rightarrow> (commission_status + mapping_patch) \<times> recipe_session" where
  "recipe_commit revision s =
     (let r = the_recipe s; sim = simulation_only r \<noteq> 0 in
      if r_state s \<noteq> OA_RECIPE_REVIEW then (Inl OA_COMMISSION_ESTATE, s)
      else if revision \<le> rc_expected_revision r then (Inl OA_COMMISSION_EINVAL, s)
      else
        (Inr \<lparr>struct_size = SIZEOF_MAPPING_PATCH, abi_version = OA_COMMISSION_ABI_V1,
              mp_expected_revision = rc_expected_revision r, replacement_revision = revision,
              mp_side = rc_side r, mp_joint = rc_joint r,
              mp_evidence_kind = (if sim then OA_EVIDENCE_SIMULATION_ONLY
                                  else OA_EVIDENCE_HARDWARE_QUALIFIED),
              mp_recipe_kind = recipe_kind r,
              mp_qualification_revision = (if sim then simulation_evidence_revision r
                                           else qualification_revision r),
              mp_fixture_revision = rc_fixture_revision r,
              mp_a = r_candidate_a s, mp_b_rad = r_candidate_b s,
              mp_motor_serial = copy_text (rc_motor_serial r),
              mp_evidence_record = copy_text (if sim then simulation_evidence_record r
                                              else qualification_record r)\<rparr>,
         s\<lparr>r_state := OA_RECIPE_COMMIT\<rparr>))"

definition recipe_abort :: "recipe_session \<Rightarrow> commission_status \<times> recipe_session" where
  "recipe_abort s =
     (if r_state s = OA_RECIPE_ABORT \<or> r_state s = OA_RECIPE_COMMIT then (OA_COMMISSION_ESTATE, s)
      else recipe_fail OA_COMMISSION_OK OA_ABORT_CALLER s)"

record recipe_report = header +
  rr_state :: recipe_state
  rr_abort_reason :: abort_reason
  rr_last_feedback_seq :: u64
  first_stop_output_rad :: dbl
  second_stop_output_rad :: dbl
  rr_candidate_a :: dbl
  rr_candidate_b_rad :: dbl
  accumulated_contact_energy_j :: dbl

definition recipe_report_of :: "recipe_session \<Rightarrow> recipe_report" where
  "recipe_report_of s = \<lparr>struct_size = SIZEOF_RECIPE_REPORT, abi_version = OA_COMMISSION_ABI_V1,
     rr_state = r_state s, rr_abort_reason = abort_reason_of s,
     rr_last_feedback_seq = r_last_feedback_seq s, first_stop_output_rad = first_stop_q s,
     second_stop_output_rad = second_stop_q s, rr_candidate_a = r_candidate_a s,
     rr_candidate_b_rad = r_candidate_b s, accumulated_contact_energy_j = contact_energy_j s\<rparr>"

section \<open>What the C interface requires of a recipe\<close>

definition empty_text :: "string \<Rightarrow> bool" where
  "empty_text t \<longleftrightarrow> t ! 0 = NUL"

definition valid_recipe :: "recipe \<Rightarrow> bool" where
  "valid_recipe r \<longleftrightarrow>
     \<not> ((recipe_kind r \<noteq> OA_RECIPE_ARM_JOINT \<and> recipe_kind r \<noteq> OA_RECIPE_GRIPPER)
        \<or> rc_side r > OA_COMMISSION_RIGHT \<or> rc_joint r > 7
        \<or> (rc_known_sign r \<noteq> - 1 \<and> rc_known_sign r \<noteq> 1)
        \<or> hardware_qualified r > 1 \<or> simulation_only r > 1 \<or> minimum_contact_samples r < 2
        \<or> rc_expected_revision r = 0 \<or> rc_maximum_sample_age_ns r = 0
        \<or> maximum_approach_time_ns r = 0 \<or> contact_dwell_ns r = 0 \<or> maximum_retreat_time_ns r = 0
        \<or> rc_fixture_revision r = 0 \<or> \<not> valid_text (Some (rc_motor_serial r)) False
        \<or> \<not> valid_text (Some (fixture_record r)) False
        \<or> \<not> list_all disfinite [stop_model_rad r, approach_direction r, start_min_output_rad r,
             start_max_output_rad r, maximum_speed_rad_s r, minimum_contact_travel_rad r,
             maximum_approach_travel_rad r, contact_velocity_rad_s r, minimum_contact_torque_nm r,
             maximum_torque_nm r, maximum_contact_energy_j r, maximum_temperature_c r,
             retreat_distance_rad r, repeatability_tolerance_rad r, posture_tolerance_rad r]
        \<or> \<bar>\<bar>approach_direction r\<bar> - 1\<bar> > lit (1 / 10 ^ 12)
        \<or> start_min_output_rad r \<ge> start_max_output_rad r \<or> maximum_speed_rad_s r \<le> 0
        \<or> contact_velocity_rad_s r \<le> 0 \<or> contact_velocity_rad_s r \<ge> maximum_speed_rad_s r
        \<or> minimum_contact_travel_rad r \<le> 0
        \<or> maximum_approach_travel_rad r \<le> minimum_contact_travel_rad r
        \<or> minimum_contact_torque_nm r \<le> 0 \<or> maximum_torque_nm r \<le> minimum_contact_torque_nm r
        \<or> maximum_contact_energy_j r \<le> 0 \<or> maximum_temperature_c r \<le> 0
        \<or> retreat_distance_rad r \<le> 0 \<or> repeatability_tolerance_rad r \<le> 0
        \<or> retreat_distance_rad r > maximum_approach_travel_rad r)
     \<and> (if recipe_kind r = OA_RECIPE_ARM_JOINT then
          let expected_mask = 0x7f AND NOT (push_bit (unat (rc_joint r)) 1) in
          \<not> (rc_joint r > 6 \<or> hardware_qualified r \<noteq> 1 \<or> simulation_only r \<noteq> 0
             \<or> qualification_revision r = 0 \<or> \<not> valid_text (Some (qualification_record r)) False
             \<or> simulation_evidence_revision r \<noteq> 0 \<or> \<not> empty_text (simulation_evidence_record r)
             \<or> required_posture_mask r \<noteq> expected_mask \<or> posture_tolerance_rad r \<le> 0)
          \<and> list_all (\<lambda>i. disfinite (required_posture_output_rad r ! i)) [0 ..< 7]
        else rc_joint r = 7 \<and>
          ((hardware_qualified r = 1 \<and> simulation_only r = 0 \<and> qualification_revision r > 0
            \<and> valid_text (Some (qualification_record r)) False
            \<and> simulation_evidence_revision r = 0 \<and> empty_text (simulation_evidence_record r))
           \<or> (simulation_only r = 1 \<and> hardware_qualified r = 0 \<and> qualification_revision r = 0
              \<and> empty_text (qualification_record r) \<and> simulation_evidence_revision r > 0
              \<and> valid_text (Some (simulation_evidence_record r)) False)))"

end
