(* ===== verification/Recipe_Safety.thy ===== *)
theory Recipe_Safety
  imports Commission_Recipe
begin

text \<open>
  What the contact recipe guarantees: motion only under its interlocks and limits, failures
  that end disabled with the candidate cleared, phases that advance one at a time, bounded
  contact energy, and a candidate that comes from two stops within the tolerance.
\<close>

section \<open>The ways out of the helpers\<close>

definition aborted :: "recipe_session \<Rightarrow> bool" where
  "aborted s \<longleftrightarrow> r_state s = OA_RECIPE_ABORT \<and> r_candidate_a s = 0 \<and> r_candidate_b s = 0"

lemma recipe_fail_simps [simp]:
  "fst (recipe_fail st reason s) = st" "aborted (snd (recipe_fail st reason s))"
  "the_recipe (snd (recipe_fail st reason s)) = the_recipe s"
  by (simp_all add: recipe_fail_def aborted_def)

lemma action_kind [simp]:
  "na_kind (recipe_action_of k x s) = k" "na_state (recipe_action_of k x s) = r_state s"
  by (cases k; simp add: recipe_action_of_def Let_def)+

lemma refuse_simps [simp]:
  "fst (refuse x st reason s) = st" "na_kind (fst (snd (refuse x st reason s))) = OA_RECIPE_ACTION_ABORT_DISABLE"
  "aborted (snd (snd (refuse x st reason s)))" "the_recipe (snd (snd (refuse x st reason s))) = the_recipe s"
  by (simp_all add: refuse_def Let_def)

lemma answer_simps [simp]:
  "fst (answer x k s) = OA_COMMISSION_OK" "na_kind (fst (snd (answer x k s))) = k"
  "snd (snd (answer x k s)) = s" "fst (snd (answer x k s)) = recipe_action_of k x s"
  by (simp_all add: answer_def)

text \<open>An input that passed the checks.\<close>

definition input_ok :: "recipe_input \<Rightarrow> recipe_session \<Rightarrow> bool" where
  "input_ok x s \<longleftrightarrow>
     (let e = encoder x; r = the_recipe s in
      finite_sample e \<and> r_last_feedback_seq s < feedback_seq e
      \<and> r_last_sample_time_ns s < sample_time_ns e \<and> sample_time_ns e \<le> now_ns x
      \<and> now_ns x - sample_time_ns e \<le> rc_maximum_sample_age_ns r \<and> drive_fault e = 0
      \<and> \<not> mos_temperature_c e > maximum_temperature_c r
      \<and> \<not> coil_temperature_c e > maximum_temperature_c r)"

definition noted :: "recipe_input \<Rightarrow> recipe_session \<Rightarrow> recipe_session" where
  "noted x s = s\<lparr>r_last_feedback_seq := feedback_seq (encoder x),
                 r_last_sample_time_ns := sample_time_ns (encoder x)\<rparr>"

lemma noted_simps [simp]:
  "the_recipe (noted x s) = the_recipe s" "r_state (noted x s) = r_state s"
  "contact_energy_j (noted x s) = contact_energy_j s" "phase_deadline_ns (noted x s) = phase_deadline_ns s"
  "envelope_start_q (noted x s) = envelope_start_q s" "phase_start_q (noted x s) = phase_start_q s"
  "r_candidate_a (noted x s) = r_candidate_a s" "r_candidate_b (noted x s) = r_candidate_b s"
  "first_stop_q (noted x s) = first_stop_q s" "second_stop_q (noted x s) = second_stop_q s"
  by (simp_all add: noted_def)

lemma validate_binding_cases:
  "validate_binding x s = (OA_COMMISSION_OK, s)
   \<or> (\<exists>reason. validate_binding x s = recipe_fail OA_COMMISSION_EFAULT reason s)"
  by (auto simp: validate_binding_def Let_def)

lemma validate_input_cases:
  obtains (ok) "validate_input x s = (OA_COMMISSION_OK, noted x s)" "input_ok x s"
    | (bad) st s1 where "validate_input x s = (st, s1)" "st \<noteq> OA_COMMISSION_OK" "aborted s1"
        "the_recipe s1 = the_recipe s"
proof (cases "validate_input x s")
  case (Pair st s1)
  show thesis
  proof (cases "st = OA_COMMISSION_OK")
    case True
    then have "s1 = noted x s \<and> input_ok x s"
      using Pair validate_binding_cases [of x "noted x s"]
      by (auto simp: validate_input_def recipe_fail_def input_ok_def noted_def Let_def not_le not_less
          split: if_splits)
    with True Pair show thesis by (intro ok) simp_all
  next
    case False
    then have "aborted s1 \<and> the_recipe s1 = the_recipe s"
      using Pair validate_binding_cases [of x "noted x s"]
      by (auto simp: validate_input_def recipe_fail_def aborted_def noted_def Let_def split: if_splits)
    with False Pair show thesis by (intro bad [of st s1]) simp_all
  qed
qed

definition energy_ok :: "recipe_session \<Rightarrow> bool" where
  "energy_ok s \<longleftrightarrow> disfinite (contact_energy_j s)
     \<and> contact_energy_j s \<le> maximum_contact_energy_j (the_recipe s)"

definition limits_ok :: "recipe_input \<Rightarrow> recipe_session \<Rightarrow> bool" where
  "limits_ok x s \<longleftrightarrow>
     (let e = encoder x; r = the_recipe s in
      estop_clear x \<noteq> 0 \<and> deadman_held x \<noteq> 0 \<and> drive_enabled e \<noteq> 0
      \<and> \<not> \<bar>dq_output_rad_s e\<bar> > maximum_speed_rad_s r \<and> \<not> \<bar>torque_output_nm e\<bar> > maximum_torque_nm r)"

definition energy_step :: "recipe_session \<Rightarrow> u64 \<Rightarrow> dbl \<Rightarrow> recipe_session" where
  "energy_step s t en = s\<lparr>last_energy_time_ns := t, contact_energy_j := en\<rparr>"

lemma energy_step_simps [simp]:
  "the_recipe (energy_step s t en) = the_recipe s" "r_state (energy_step s t en) = r_state s"
  "contact_energy_j (energy_step s t en) = en" "phase_deadline_ns (energy_step s t en) = phase_deadline_ns s"
  "envelope_start_q (energy_step s t en) = envelope_start_q s" "phase_start_q (energy_step s t en) = phase_start_q s"
  "r_candidate_a (energy_step s t en) = r_candidate_a s" "r_candidate_b (energy_step s t en) = r_candidate_b s"
  by (simp_all add: energy_step_def)

text \<open>A finite bound makes the code's \<open>!(x > bound)\<close> the order \<open>x \<le> bound\<close>.\<close>

lemma enforce_cases:
  assumes "disfinite (maximum_contact_energy_j (the_recipe s))"
  obtains (ok) t en where "enforce_motion_limits x s = (OA_COMMISSION_OK, energy_step s t en)"
      "limits_ok x s" "energy_ok s \<longrightarrow> energy_ok (energy_step s t en)"
    | (bad) st s1 where "enforce_motion_limits x s = (st, s1)" "st \<noteq> OA_COMMISSION_OK" "aborted s1"
        "the_recipe s1 = the_recipe s"
proof (cases "enforce_motion_limits x s")
  case (Pair st s1)
  show thesis
  proof (cases "st = OA_COMMISSION_OK")
    case False
    then have "aborted s1 \<and> the_recipe s1 = the_recipe s"
      using Pair by (auto simp: enforce_motion_limits_def update_energy_def recipe_fail_def aborted_def
          Let_def split: if_splits)
    with False Pair show thesis by (intro bad [of st s1]) simp_all
  next
    case True
    then have lim: "limits_ok x s" and up: "update_energy x s = (OA_COMMISSION_OK, s1)"
      using Pair by (auto simp: enforce_motion_limits_def limits_ok_def recipe_fail_def Let_def
          split: if_splits)
    have "\<exists>t en. s1 = energy_step s t en \<and> (energy_ok s \<longrightarrow> energy_ok s1)"
    proof (cases "last_energy_time_ns s = 0")
      case True
      with up have "s1 = energy_step s (sample_time_ns (encoder x)) (contact_energy_j s)"
        by (cases s) (auto simp: update_energy_def energy_step_def)
      then show ?thesis by (auto simp: energy_ok_def)
    next
      case False
      let ?en = "contact_energy_j s + \<bar>torque_output_nm (encoder x) * dq_output_rad_s (encoder x)\<bar>
        * (dbl_of_word (sample_time_ns (encoder x) - last_energy_time_ns s) * lit (1 / 10 ^ 9))"
      from False up have s1: "s1 = energy_step s (sample_time_ns (encoder x)) ?en"
        and fin: "disfinite ?en" and le: "\<not> ?en > maximum_contact_energy_j (the_recipe s)"
        by (auto simp: update_energy_def energy_step_def recipe_fail_def Let_def split: if_splits)
      have "?en \<le> maximum_contact_energy_j (the_recipe s)"
        using fin le assms by (subst not_dless [symmetric]) (auto simp: disfinite_iff)
      with s1 fin show ?thesis by (auto simp: energy_ok_def)
    qed
    with True Pair lim show thesis by (auto intro: ok)
  qed
qed

section \<open>What every case keeps\<close>

fun phase_rank :: "recipe_state \<Rightarrow> nat" where
  "phase_rank OA_RECIPE_PRECHECK = 0"
| "phase_rank OA_RECIPE_WAIT = 1"
| "phase_rank OA_RECIPE_APPROACH = 2"
| "phase_rank OA_RECIPE_CONTACT_DWELL = 3"
| "phase_rank OA_RECIPE_RETREAT = 4"
| "phase_rank OA_RECIPE_REAPPROACH = 5"
| "phase_rank OA_RECIPE_REPEATABILITY = 6"
| "phase_rank OA_RECIPE_CANDIDATE = 7"
| "phase_rank OA_RECIPE_REVIEW = 8"
| "phase_rank OA_RECIPE_COMMIT = 9"
| "phase_rank OA_RECIPE_ABORT = 10"

definition motion_action :: "recipe_action \<Rightarrow> bool" where
  "motion_action k \<longleftrightarrow> k \<in> {OA_RECIPE_ACTION_APPROACH, OA_RECIPE_ACTION_CONTACT_DWELL,
     OA_RECIPE_ACTION_RETREAT, OA_RECIPE_ACTION_REAPPROACH}"

definition motion_licensed :: "recipe_input \<Rightarrow> recipe_session \<Rightarrow> bool" where
  "motion_licensed x s \<longleftrightarrow>
     (let r = the_recipe s in
      estop_clear x \<noteq> 0 \<and> deadman_held x \<noteq> 0 \<and>
      (if r_state s = OA_RECIPE_WAIT then drive_enabled (encoder x) = 0 \<and> operator_ready x \<noteq> 0
       else limits_ok x s \<and> now_ns x \<le> phase_deadline_ns s
         \<and> \<not> directional_travel (envelope_start_q s) (q_output_rad (encoder x)) (approach_direction r)
              > maximum_approach_travel_rad r))"

definition candidate_from_stops :: "recipe_session \<Rightarrow> bool" where
  "candidate_from_stops s \<longleftrightarrow>
     (let r = the_recipe s; a = dbl_of_int (rc_known_sign r) in
      r_candidate_a s = a
      \<and> r_candidate_b s = stop_model_rad r - a * lit (1 / 2) * (first_stop_q s + second_stop_q s)
      \<and> \<not> \<bar>second_stop_q s - first_stop_q s\<bar> > repeatability_tolerance_rad r)"

definition candidate_inv :: "recipe_session \<Rightarrow> bool" where
  "candidate_inv s \<longleftrightarrow>
     (r_state s \<in> {OA_RECIPE_CANDIDATE, OA_RECIPE_REVIEW, OA_RECIPE_COMMIT} \<longrightarrow> candidate_from_stops s)
     \<and> (r_state s = OA_RECIPE_ABORT \<longrightarrow> r_candidate_a s = 0 \<and> r_candidate_b s = 0)"

definition case_spec :: "recipe_input \<Rightarrow> recipe_session \<Rightarrow> recipe_result \<Rightarrow> bool" where
  "case_spec x s res \<longleftrightarrow>
     (case res of (st, a, s') \<Rightarrow>
       the_recipe s' = the_recipe s \<and>
       (if st = OA_COMMISSION_OK then
          r_state s' \<noteq> OA_RECIPE_ABORT \<and> r_state s' \<noteq> OA_RECIPE_COMMIT
          \<and> na_kind a \<noteq> OA_RECIPE_ACTION_ABORT_DISABLE
          \<and> (phase_rank (r_state s') = phase_rank (r_state s)
             \<or> phase_rank (r_state s') = Suc (phase_rank (r_state s)))
          \<and> (motion_action (na_kind a) \<longrightarrow> motion_licensed x s \<and> a = recipe_action_of (na_kind a) x s')
          \<and> (energy_ok s \<longrightarrow> energy_ok s') \<and> (candidate_inv s \<longrightarrow> candidate_inv s')
        else na_kind a = OA_RECIPE_ACTION_ABORT_DISABLE \<and> aborted s'))"

lemma case_spec_refuse: "st \<noteq> OA_COMMISSION_OK \<Longrightarrow> case_spec x s (refuse x st reason s)"
  by (simp add: case_spec_def split_beta)

lemma case_spec_refuse':
  "st \<noteq> OA_COMMISSION_OK \<Longrightarrow> the_recipe s1 = the_recipe s \<Longrightarrow> case_spec x s (refuse x st reason s1)"
  by (simp add: case_spec_def split_beta)

lemma case_spec_answer:
  assumes "the_recipe s' = the_recipe s" "r_state s' \<noteq> OA_RECIPE_ABORT" "r_state s' \<noteq> OA_RECIPE_COMMIT"
    and "k \<noteq> OA_RECIPE_ACTION_ABORT_DISABLE"
    and "phase_rank (r_state s') = phase_rank (r_state s)
      \<or> phase_rank (r_state s') = Suc (phase_rank (r_state s))"
    and "motion_action k \<Longrightarrow> motion_licensed x s" "energy_ok s \<Longrightarrow> energy_ok s'"
    and "candidate_inv s \<Longrightarrow> candidate_inv s'"
  shows "case_spec x s (answer x k s')"
  using assms by (simp add: case_spec_def split_beta)

lemma energy_ok_same:
  "contact_energy_j s' = contact_energy_j s \<Longrightarrow> the_recipe s' = the_recipe s \<Longrightarrow> energy_ok s' = energy_ok s"
  by (simp add: energy_ok_def)

text \<open>A moving case: it is enough to look at its rest on the session the limits leave.\<close>

lemma within_limits_spec:
  assumes "disfinite (maximum_contact_energy_j (the_recipe s))"
    and "\<And>t en. limits_ok x s \<Longrightarrow> energy_ok s \<longrightarrow> energy_ok (energy_step s t en)
      \<Longrightarrow> case_spec x s (rest (energy_step s t en))"
  shows "case_spec x s (within_limits x rest s)"
proof (cases rule: enforce_cases [OF assms(1), of x, case_names ok bad])
  case (ok t en)
  then show ?thesis using assms(2) by (simp add: within_limits_def)
next
  case (bad st s1)
  then show ?thesis by (simp add: within_limits_def case_spec_def)
qed

lemmas case_intros = case_spec_refuse' case_spec_answer

lemma precheck_spec: "r_state s = OA_RECIPE_PRECHECK \<Longrightarrow> case_spec x s (recipe_precheck x s)"
  by (auto simp: recipe_precheck_def Let_def motion_action_def energy_ok_def candidate_inv_def
      intro!: case_intros)

lemma wait_spec: "r_state s = OA_RECIPE_WAIT \<Longrightarrow> case_spec x s (recipe_wait x s)"
  by (auto simp: recipe_wait_def Let_def motion_action_def energy_ok_def candidate_inv_def
      motion_licensed_def intro!: case_intros)

lemma limits_interlocks: "limits_ok x s \<Longrightarrow> estop_clear x \<noteq> 0 \<and> deadman_held x \<noteq> 0"
  by (simp add: limits_ok_def Let_def)

lemma approach_spec:
  assumes "r_state s = OA_RECIPE_APPROACH" "disfinite (maximum_contact_energy_j (the_recipe s))"
  shows "case_spec x s (recipe_approach x s)"
  unfolding recipe_approach_def
proof (rule within_limits_spec [OF assms(2)], goal_cases)
  case (1 t en)
  with limits_interlocks [OF 1(1)] assms(1) show ?case
    by (auto simp: Let_def motion_licensed_def start_contact_def energy_ok_def candidate_inv_def
        not_less intro!: case_intros)
qed

lemma dwell_spec:
  assumes "r_state s = OA_RECIPE_CONTACT_DWELL" "disfinite (maximum_contact_energy_j (the_recipe s))"
  shows "case_spec x s (recipe_contact_dwell x s)"
  unfolding recipe_contact_dwell_def
proof (rule within_limits_spec [OF assms(2)], goal_cases)
  case (1 t en)
  with limits_interlocks [OF 1(1)] assms(1) show ?case
    by (auto simp: Let_def motion_licensed_def add_contact_def energy_ok_def candidate_inv_def
        not_less intro!: case_intros)
qed

lemma retreat_spec:
  assumes "r_state s = OA_RECIPE_RETREAT" "disfinite (maximum_contact_energy_j (the_recipe s))"
  shows "case_spec x s (recipe_retreat x s)"
  unfolding recipe_retreat_def
proof (rule within_limits_spec [OF assms(2)], goal_cases)
  case (1 t en)
  with limits_interlocks [OF 1(1)] assms(1) show ?case
    by (auto simp: Let_def motion_licensed_def energy_ok_def candidate_inv_def
        not_less intro!: case_intros)
qed

lemma reapproach_spec:
  assumes "r_state s = OA_RECIPE_REAPPROACH" "disfinite (maximum_contact_energy_j (the_recipe s))"
  shows "case_spec x s (recipe_reapproach x s)"
  unfolding recipe_reapproach_def
proof (rule within_limits_spec [OF assms(2)], goal_cases)
  case (1 t en)
  with limits_interlocks [OF 1(1)] assms(1) show ?case
    by (auto simp: Let_def motion_licensed_def add_contact_def start_contact_def energy_ok_def
        candidate_inv_def not_less intro!: case_intros)
qed

lemma repeatability_spec:
  "r_state s = OA_RECIPE_REPEATABILITY \<Longrightarrow> case_spec x s (recipe_repeatability x s)"
  by (auto simp: recipe_repeatability_def Let_def motion_action_def energy_ok_def candidate_inv_def
      candidate_from_stops_def intro!: case_intros)

lemma candidate_spec: "r_state s = OA_RECIPE_CANDIDATE \<Longrightarrow> case_spec x s (recipe_candidate x s)"
  by (auto simp: recipe_candidate_def Let_def motion_action_def energy_ok_def candidate_inv_def
      candidate_from_stops_def intro!: case_intros)

lemma review_spec: "r_state s = OA_RECIPE_REVIEW \<Longrightarrow> case_spec x s (recipe_review x s)"
  by (auto simp: recipe_review_def Let_def motion_action_def energy_ok_def candidate_inv_def
      candidate_from_stops_def intro!: case_intros)

section \<open>The step\<close>

lemma valid_recipeD:
  assumes "valid_recipe r"
  shows "disfinite (maximum_contact_energy_j r)" "Fin 0 \<le> maximum_contact_energy_j r"
    "rc_known_sign r = 1 \<or> rc_known_sign r = - 1"
  using assms by (auto simp: valid_recipe_def disfinite_iff not_le)

lemma case_spec_noted:
  "case_spec x (noted x s) res \<longleftrightarrow> case_spec x s res"
  by (simp add: case_spec_def motion_licensed_def limits_ok_def energy_ok_def candidate_inv_def
      candidate_from_stops_def)

lemma recipe_step_cases:
  assumes "disfinite (maximum_contact_energy_j (the_recipe s))"
    and "r_state s \<noteq> OA_RECIPE_ABORT" "r_state s \<noteq> OA_RECIPE_COMMIT"
  shows "case_spec x s (recipe_step x s)
    \<and> (fst (recipe_step x s) = OA_COMMISSION_OK \<longrightarrow> input_ok x s)"
proof (cases rule: validate_input_cases [of x s, case_names ok bad])
  case (bad st s1)
  then show ?thesis using assms by (simp add: recipe_step_def case_spec_def)
next
  case ok
  have fin: "disfinite (maximum_contact_energy_j (the_recipe (noted x s)))" using assms(1) by simp
  note specs = precheck_spec [of "noted x s" x] wait_spec [of "noted x s" x]
    approach_spec [OF _ fin, of x] dwell_spec [OF _ fin, of x] retreat_spec [OF _ fin, of x]
    reapproach_spec [OF _ fin, of x] repeatability_spec [of "noted x s" x]
    candidate_spec [of "noted x s" x] review_spec [of "noted x s" x]
  have "case_spec x (noted x s) (recipe_step x s)"
    using ok assms specs by (cases "r_state s") (simp_all add: recipe_step_def)
  with ok show ?thesis by (simp add: case_spec_noted)
qed

datatype recipe_call = Recipe_step recipe_input | Recipe_commit u64 | Recipe_abort

definition recipe_call_step :: "recipe_call \<Rightarrow> recipe_session \<Rightarrow> recipe_session" where
  "recipe_call_step c s =
     (case c of
        Recipe_step x \<Rightarrow> snd (snd (recipe_step x s))
      | Recipe_commit n \<Rightarrow> snd (recipe_commit n s)
      | Recipe_abort \<Rightarrow> snd (recipe_abort s))"

definition recipe_terminal :: "recipe_session \<Rightarrow> bool" where
  "recipe_terminal s \<longleftrightarrow> r_state s = OA_RECIPE_COMMIT \<or> r_state s = OA_RECIPE_ABORT"

definition recipe_emits :: "recipe_call \<Rightarrow> recipe_session \<Rightarrow> bool" where
  "recipe_emits c s \<longleftrightarrow>
     (case c of Recipe_commit n \<Rightarrow> \<not> isl (fst (recipe_commit n s)) | _ \<Rightarrow> False)"

interpretation recipe: latched_machine recipe_call_step recipe_terminal recipe_emits
  by unfold_locales
    (auto simp: recipe_call_step_def recipe_terminal_def recipe_emits_def recipe_step_def
      recipe_commit_def recipe_abort_def Let_def split: recipe_call.splits)

fun recipe_commits :: "recipe_call list \<Rightarrow> recipe_session \<Rightarrow> nat" where
  "recipe_commits [] s = 0"
| "recipe_commits (c # cs) s =
     (if recipe_emits c s then 1 else 0) + recipe_commits cs (recipe_call_step c s)"

lemma recipe_commits_emissions: "recipe_commits cs s = recipe.emissions cs s"
  by (induction cs arbitrary: s) simp_all

definition recipe_inv :: "recipe_session \<Rightarrow> bool" where
  "recipe_inv s \<longleftrightarrow> valid_recipe (the_recipe s) \<and> candidate_inv s
     \<and> (r_state s \<noteq> OA_RECIPE_ABORT \<longrightarrow> energy_ok s)"

lemma recipe_inv_new: "valid_recipe r \<Longrightarrow> recipe_inv (new_recipe r)"
  by (auto simp: recipe_inv_def new_recipe_def candidate_inv_def energy_ok_def dest: valid_recipeD)

lemma recipe_inv_step:
  assumes inv: "recipe_inv s"
  shows "recipe_inv (recipe_call_step c s) \<and> the_recipe (recipe_call_step c s) = the_recipe s"
proof (cases "recipe_terminal s")
  case True
  then show ?thesis using inv recipe.terminal_frozen by simp
next
  case False
  then have st: "r_state s \<noteq> OA_RECIPE_ABORT" "r_state s \<noteq> OA_RECIPE_COMMIT"
    by (auto simp: recipe_terminal_def)
  have fin: "disfinite (maximum_contact_energy_j (the_recipe s))"
    using inv valid_recipeD(1) by (simp add: recipe_inv_def)
  show ?thesis
  proof (cases c)
    case (Recipe_step x)
    obtain r a s' where res: "recipe_step x s = (r, a, s')" by (metis prod_cases3)
    then have s': "recipe_call_step c s = s'"
      by (simp add: Recipe_step recipe_call_step_def)
    have spec: "case_spec x s (r, a, s')"
      using recipe_step_cases [OF fin st, of x] res by simp
    show ?thesis
    proof (cases "r = OA_COMMISSION_OK")
      case True
      with spec inv st show ?thesis by (simp add: s' case_spec_def recipe_inv_def)
    next
      case False
      with spec inv show ?thesis
        by (simp add: s' case_spec_def recipe_inv_def aborted_def candidate_inv_def)
    qed
  next
    case (Recipe_commit n)
    have "recipe_call_step c s = s \<or>
        r_state s = OA_RECIPE_REVIEW \<and> recipe_call_step c s = s\<lparr>r_state := OA_RECIPE_COMMIT\<rparr>"
      by (simp add: Recipe_commit recipe_call_step_def recipe_commit_def Let_def)
    with inv st show ?thesis
      by (auto simp: recipe_inv_def candidate_inv_def candidate_from_stops_def energy_ok_def)
  next
    case Recipe_abort
    with inv st show ?thesis
      by (simp add: recipe_call_step_def recipe_abort_def recipe_inv_def candidate_inv_def
          recipe_fail_def)
  qed
qed

lemma recipe_inv_run:
  "recipe_inv s \<Longrightarrow> recipe_inv (fold recipe_call_step cs s)
     \<and> the_recipe (fold recipe_call_step cs s) = the_recipe s"
proof (induction cs arbitrary: s)
  case (Cons c cs)
  with recipe_inv_step [of s c] show ?case by simp
qed simp

end
