(* ===== verification/Recipe_Properties.thy ===== *)
theory Recipe_Properties
  imports Recipe_Safety
begin

text \<open>
  The properties of the contact recipe, and a complete run of one: ten inputs that take a
  gripper recipe from its first check to a committed mapping, used by the witnesses.
\<close>

definition sample_recipe :: recipe where
  "sample_recipe = \<lparr>struct_size = 544, abi_version = 1, recipe_kind = OA_RECIPE_GRIPPER, rc_side = 0,
     rc_joint = 7, rc_known_sign = 1, hardware_qualified = 1, simulation_only = 0,
     minimum_contact_samples = 2, rc_expected_revision = 4, qualification_revision = 9,
     simulation_evidence_revision = 0, rc_fixture_revision = 3, rc_maximum_sample_age_ns = 100,
     maximum_approach_time_ns = 1000, contact_dwell_ns = 10, maximum_retreat_time_ns = 1000,
     stop_model_rad = Fin 10, approach_direction = Fin 1, start_min_output_rad = Fin (- 1),
     start_max_output_rad = Fin 1, maximum_speed_rad_s = Fin 2, minimum_contact_travel_rad = Fin 1,
     maximum_approach_travel_rad = Fin 8, contact_velocity_rad_s = Fin 1,
     minimum_contact_torque_nm = Fin 1, maximum_torque_nm = Fin 4, maximum_contact_energy_j = Fin 5,
     maximum_temperature_c = Fin 80, retreat_distance_rad = Fin 2, repeatability_tolerance_rad = Fin 1,
     required_posture_mask = 0, required_posture_output_rad = [], posture_tolerance_rad = Fin 0,
     rc_motor_serial = ''A1'' @ replicate 62 NUL, qualification_record = ''q'' @ replicate 63 NUL,
     simulation_evidence_record = replicate 64 NUL, fixture_record = ''f'' @ replicate 63 NUL\<rparr>"

text \<open>An input at time \<open>t\<close>: position, torque, drive enabled, review decision.\<close>

definition sample_input :: "u64 \<Rightarrow> rat \<Rightarrow> rat \<Rightarrow> u32 \<Rightarrow> u32 \<Rightarrow> recipe_input" where
  "sample_input t q tq en rv = \<lparr>struct_size = 184, abi_version = 1, now_ns = t,
     encoder = \<lparr>struct_size = 72, abi_version = 1, feedback_seq = t, sample_time_ns = t,
       q_output_rad = Fin q, dq_output_rad_s = Fin 0, torque_output_nm = Fin tq,
       mos_temperature_c = Fin 30, coil_temperature_c = Fin 30, drive_enabled = en, drive_fault = 0\<rparr>,
     estop_clear = 1, deadman_held = 1, operator_ready = 1, review_decision = rv, posture_mask = 0,
     evidence_revision = 9, in_fixture_revision = 3, posture_output_rad = []\<rparr>"

lemma sample_recipe_valid: "valid_recipe sample_recipe"
  using lit_unit [of "1 / 10 ^ 12"]
  by (auto simp: valid_recipe_def sample_recipe_def valid_text_def empty_text_def minus_Fin not_less)

lemma sample_recipe_simps [simp]:
  "simulation_only sample_recipe = 0" "qualification_revision sample_recipe = 9"
  "rc_fixture_revision sample_recipe = 3" "recipe_kind sample_recipe = OA_RECIPE_GRIPPER"
  "rc_maximum_sample_age_ns sample_recipe = 100" "maximum_temperature_c sample_recipe = Fin 80"
  "start_min_output_rad sample_recipe = Fin (- 1)" "start_max_output_rad sample_recipe = Fin 1"
  "approach_direction sample_recipe = Fin 1" "maximum_approach_travel_rad sample_recipe = Fin 8"
  "maximum_approach_time_ns sample_recipe = 1000" "maximum_speed_rad_s sample_recipe = Fin 2"
  "maximum_torque_nm sample_recipe = Fin 4" "maximum_contact_energy_j sample_recipe = Fin 5"
  "minimum_contact_travel_rad sample_recipe = Fin 1" "contact_velocity_rad_s sample_recipe = Fin 1"
  "minimum_contact_torque_nm sample_recipe = Fin 1" "contact_dwell_ns sample_recipe = 10"
  "minimum_contact_samples sample_recipe = 2" "maximum_retreat_time_ns sample_recipe = 1000"
  "retreat_distance_rad sample_recipe = Fin 2" "repeatability_tolerance_rad sample_recipe = Fin 1"
  "rc_known_sign sample_recipe = 1" "stop_model_rad sample_recipe = Fin 10"
  "rc_expected_revision sample_recipe = 4"
  by (simp_all add: sample_recipe_def)

lemma sample_input_simps [simp]:
  "now_ns (sample_input t q tq en rv) = t" "estop_clear (sample_input t q tq en rv) = 1"
  "deadman_held (sample_input t q tq en rv) = 1" "operator_ready (sample_input t q tq en rv) = 1"
  "review_decision (sample_input t q tq en rv) = rv"
  "sample_time_ns (encoder (sample_input t q tq en rv)) = t"
  "feedback_seq (encoder (sample_input t q tq en rv)) = t"
  "q_output_rad (encoder (sample_input t q tq en rv)) = Fin q"
  "dq_output_rad_s (encoder (sample_input t q tq en rv)) = Fin 0"
  "torque_output_nm (encoder (sample_input t q tq en rv)) = Fin tq"
  "mos_temperature_c (encoder (sample_input t q tq en rv)) = Fin 30"
  "coil_temperature_c (encoder (sample_input t q tq en rv)) = Fin 30"
  "drive_enabled (encoder (sample_input t q tq en rv)) = en"
  by (simp_all add: sample_input_def)

lemma sample_step:
  assumes "the_recipe s = sample_recipe" "r_last_feedback_seq s < t" "r_last_sample_time_ns s < t"
  shows "validate_input (sample_input t q tq en rv) s
    = (OA_COMMISSION_OK, s\<lparr>r_last_feedback_seq := t, r_last_sample_time_ns := t\<rparr>)"
proof -
  have "validate_binding (sample_input t q tq en rv) s' = (OA_COMMISSION_OK, s')"
    if "the_recipe s' = sample_recipe" for s'
    using that by (simp add: validate_binding_def Let_def) (simp add: sample_input_def)
  moreover have "finite_sample (encoder (sample_input t q tq en rv))"
    by (simp add: finite_sample_def)
  moreover have "valid_header (struct_size (sample_input t q tq en rv)) (abi_version (sample_input t q tq en rv)) SIZEOF_RECIPE_INPUT"
    "valid_header (struct_size (encoder (sample_input t q tq en rv))) (abi_version (encoder (sample_input t q tq en rv))) SIZEOF_ENCODER_SAMPLE"
    "drive_fault (encoder (sample_input t q tq en rv)) = 0"
    by (simp_all add: sample_input_def valid_header_def)
  ultimately show ?thesis
    using assms by (auto simp: validate_input_def Let_def)
qed

text \<open>At zero speed no energy is added.\<close>

lemma zero_energy: "Fin 0 * (dbl_of_word (w :: u64) * lit (1 / 10 ^ 9)) = Fin 0"
  using seconds_finite [of w] by (auto simp: times_Fin)

lemma sample_limits:
  assumes "the_recipe s = sample_recipe" "contact_energy_j s = Fin 0" "0 \<le> tq" "tq \<le> 4" "en \<noteq> 0"
  shows "enforce_motion_limits (sample_input t q tq en rv) s
    = (OA_COMMISSION_OK, s\<lparr>last_energy_time_ns := t\<rparr>)"
proof -
  have "contact_energy_j (s\<lparr>last_energy_time_ns := t\<rparr>) = Fin 0" by (simp add: assms)
  then have "s\<lparr>last_energy_time_ns := t, contact_energy_j := Fin 0\<rparr> = s\<lparr>last_energy_time_ns := t\<rparr>"
    by (cases s) auto
  then show ?thesis
    using assms zero_energy [of "t - last_energy_time_ns s"]
    by (auto simp: enforce_motion_limits_def update_energy_def Let_def times_Fin plus_Fin)
qed

lemma not_below_tolerance [simp]: "0 \<le> z \<Longrightarrow> \<not> Fin z < - kDirectionTolerance"
  using lit_unit [of "1 / 10 ^ 6"] by (auto simp: kDirectionTolerance_def)

lemma saturating_small [simp]: "saturating_add 200 1000 = 1200" "saturating_add 400 1000 = 1400"
  "saturating_add 500 1000 = 1500"
  by (simp_all add: saturating_add_def)

lemmas sample_defs = recipe_call_step_def recipe_step_def sample_step new_recipe_def
  minus_Fin plus_Fin times_Fin divide_Fin directional_travel_def Let_def answer_def

definition sample_phase :: "recipe_state \<Rightarrow> u64 \<Rightarrow> recipe_session" where
  "sample_phase st t = (new_recipe sample_recipe)
     \<lparr>r_last_feedback_seq := t, r_last_sample_time_ns := t, r_state := st\<rparr>"

definition sample_moving :: "recipe_state \<Rightarrow> u64 \<Rightarrow> u64 \<Rightarrow> u64 \<Rightarrow> rat \<Rightarrow> recipe_session" where
  "sample_moving st t start deadline q = (sample_phase st t)
     \<lparr>phase_start_ns := start, phase_deadline_ns := deadline, phase_start_q := Fin q,
      envelope_end_q := Fin 8, last_energy_time_ns := t\<rparr>"

definition sample_contact :: "u64 \<Rightarrow> u32 \<Rightarrow> rat \<Rightarrow> recipe_session \<Rightarrow> recipe_session" where
  "sample_contact t n q s = s\<lparr>dwell_start_ns := t, contact_samples := n, contact_sum_q := Fin q\<rparr>"

lemmas sample_unfold = sample_defs sample_phase_def sample_moving_def sample_contact_def
  within_limits_def sample_limits contact_evidence_def start_contact_def add_contact_def
  dwell_short_def contact_mean_def dbl_of_word_def dbl_of_int_def

lemma sample_1:
  "recipe_call_step (Recipe_step (sample_input 100 0 0 0 0)) (new_recipe sample_recipe)
   = sample_phase OA_RECIPE_WAIT 100"
  by (simp add: sample_unfold recipe_precheck_def)

lemma sample_2:
  "recipe_call_step (Recipe_step (sample_input 200 0 0 0 0)) (sample_phase OA_RECIPE_WAIT 100)
   = sample_moving OA_RECIPE_APPROACH 200 200 1200 0"
  by (simp add: sample_unfold recipe_wait_def)

lemma sample_3:
  "recipe_call_step (Recipe_step (sample_input 300 4 2 1 0)) (sample_moving OA_RECIPE_APPROACH 200 200 1200 0)
   = sample_contact 300 1 4 (sample_moving OA_RECIPE_CONTACT_DWELL 300 200 1200 0)"
  by (simp add: sample_unfold recipe_approach_def)

lemma sample_4:
  "recipe_call_step (Recipe_step (sample_input 400 4 2 1 0))
     (sample_contact 300 1 4 (sample_moving OA_RECIPE_CONTACT_DWELL 300 200 1200 0))
   = (sample_contact 300 2 8 (sample_moving OA_RECIPE_RETREAT 400 400 1400 4))\<lparr>first_stop_q := Fin 4\<rparr>"
  by (simp add: sample_unfold recipe_contact_dwell_def)

lemma sample_5:
  "recipe_call_step (Recipe_step (sample_input 500 2 0 1 0))
     ((sample_contact 300 2 8 (sample_moving OA_RECIPE_RETREAT 400 400 1400 4))\<lparr>first_stop_q := Fin 4\<rparr>)
   = (sample_contact 300 0 0 (sample_moving OA_RECIPE_REAPPROACH 500 500 1500 2))\<lparr>first_stop_q := Fin 4\<rparr>"
  by (simp add: sample_unfold recipe_retreat_def)

lemma sample_6:
  "recipe_call_step (Recipe_step (sample_input 600 4 2 1 0))
     ((sample_contact 300 0 0 (sample_moving OA_RECIPE_REAPPROACH 500 500 1500 2))\<lparr>first_stop_q := Fin 4\<rparr>)
   = (sample_contact 600 1 4 (sample_moving OA_RECIPE_REAPPROACH 600 500 1500 2))
       \<lparr>first_stop_q := Fin 4, second_contact_active := True\<rparr>"
  by (simp add: sample_unfold recipe_reapproach_def)

definition sample_stopped :: "recipe_state \<Rightarrow> u64 \<Rightarrow> recipe_session" where
  "sample_stopped st t = (sample_contact 600 2 8 (sample_moving OA_RECIPE_REAPPROACH 700 500 1500 2))
     \<lparr>first_stop_q := Fin 4, second_stop_q := Fin 4, second_contact_active := True,
      r_state := st, r_last_feedback_seq := t, r_last_sample_time_ns := t\<rparr>"

lemma sample_7:
  "recipe_call_step (Recipe_step (sample_input 700 4 2 1 0))
     ((sample_contact 600 1 4 (sample_moving OA_RECIPE_REAPPROACH 600 500 1500 2))
       \<lparr>first_stop_q := Fin 4, second_contact_active := True\<rparr>)
   = sample_stopped OA_RECIPE_REPEATABILITY 700"
  by (simp add: sample_unfold recipe_reapproach_def sample_stopped_def)

lemma lit_half: "lit (1 / 2) = Fin (1 / 2)"
  using rnd_exact [OF representable_dyadic [of 1 1]] by (simp add: lit_def)

lemma sample_8:
  "recipe_call_step (Recipe_step (sample_input 800 4 0 0 0)) (sample_stopped OA_RECIPE_REPEATABILITY 700)
   = (sample_stopped OA_RECIPE_CANDIDATE 800)\<lparr>r_candidate_a := Fin 1, r_candidate_b := Fin 6\<rparr>"
  using rnd_exact [OF representable_dyadic [of 1 1]]
  by (simp add: sample_unfold recipe_repeatability_def sample_stopped_def lit_half)

lemma sample_9:
  "recipe_call_step (Recipe_step (sample_input 900 4 0 0 1))
     ((sample_stopped OA_RECIPE_CANDIDATE 800)\<lparr>r_candidate_a := Fin 1, r_candidate_b := Fin 6\<rparr>)
   = (sample_stopped OA_RECIPE_REVIEW 900)\<lparr>r_candidate_a := Fin 1, r_candidate_b := Fin 6\<rparr>"
  by (simp add: sample_unfold recipe_candidate_def sample_stopped_def)

definition sample_inputs :: "recipe_input list" where
  "sample_inputs =
     [sample_input 100 0 0 0 0, sample_input 200 0 0 0 0, sample_input 300 4 2 1 0,
      sample_input 400 4 2 1 0, sample_input 500 2 0 1 0, sample_input 600 4 2 1 0,
      sample_input 700 4 2 1 0, sample_input 800 4 0 0 0, sample_input 900 4 0 0 1]"

lemma sample_recipe_run:
  "fold recipe_call_step (map Recipe_step sample_inputs) (new_recipe sample_recipe)
   = (sample_stopped OA_RECIPE_REVIEW 900)\<lparr>r_candidate_a := Fin 1, r_candidate_b := Fin 6\<rparr>"
  by (simp add: sample_inputs_def sample_1 sample_2 sample_3 sample_4 sample_5 sample_6 sample_7
      sample_8 sample_9)

lemma sample_recipe_inv: "recipe_inv (fold recipe_call_step cs (new_recipe sample_recipe))"
  using recipe_inv_run [OF recipe_inv_new [OF sample_recipe_valid]] by blast

section \<open>Properties\<close>

text \<open>The limits that an action hands to the drive.\<close>

definition action_within :: "recipe \<Rightarrow> next_action \<Rightarrow> recipe_session \<Rightarrow> bool" where
  "action_within r a s \<longleftrightarrow>
     na_maximum_speed_rad_s a = maximum_speed_rad_s r \<and> na_maximum_torque_nm a = maximum_torque_nm r
     \<and> na_maximum_temperature_c a = maximum_temperature_c r \<and> valid_until_ns a = phase_deadline_ns s"

lemma motion_action_limits:
  "motion_action k \<Longrightarrow> action_within (the_recipe s) (recipe_action_of k x s) s"
  by (auto simp: motion_action_def action_within_def recipe_action_of_def Let_def)

text \<open>
  C5: the recipe only asks for motion under its interlocks. When a step answers with an
  approach, a dwell, a retreat or a second approach, the sample is fresh and in order, the drive
  has no fault and is not too hot, the emergency stop is clear and the deadman held. From WAIT,
  where the first motion is asked for, the drive is still off and the operator ready. In a moving
  phase the drive is on, the sample is within the speed, torque, travel and time limits, and the
  energy of the contact stays within its bound. The action carries the limits of the recipe on
  speed, torque and temperature and ends with the deadline of the phase.
\<close>

theorem recipe_motion_licensed:
  assumes "valid_recipe (the_recipe s)" "recipe_step x s = (st, a, s')" "motion_action (na_kind a)"
  shows "st = OA_COMMISSION_OK \<and> input_ok x s \<and> motion_licensed x s
    \<and> action_within (the_recipe s) a s' \<and> (energy_ok s \<longrightarrow> energy_ok s')"
proof -
  have st: "r_state s \<noteq> OA_RECIPE_ABORT" "r_state s \<noteq> OA_RECIPE_COMMIT"
    using assms(2,3) by (auto simp: recipe_step_def motion_action_def)
  have "motion_action OA_RECIPE_ACTION_ABORT_DISABLE = False" by (simp add: motion_action_def)
  then have "st = OA_COMMISSION_OK \<and> input_ok x s \<and> motion_licensed x s
      \<and> a = recipe_action_of (na_kind a) x s' \<and> the_recipe s' = the_recipe s \<and> (energy_ok s \<longrightarrow> energy_ok s')"
    using recipe_step_cases [OF valid_recipeD(1) [OF assms(1)] st, of x] assms(2,3)
    by (auto simp: case_spec_def split: if_splits)
  then show ?thesis using motion_action_limits [OF assms(3), of s' x] by metis
qed

lemma sample_approach_step:
  "fst (recipe_step (sample_input 200 0 0 0 0) (sample_phase OA_RECIPE_WAIT 100)) = OA_COMMISSION_OK
   \<and> na_kind (fst (snd (recipe_step (sample_input 200 0 0 0 0) (sample_phase OA_RECIPE_WAIT 100))))
     = OA_RECIPE_ACTION_APPROACH"
  by (simp add: recipe_step_def sample_step sample_phase_def new_recipe_def recipe_wait_def Let_def)

theorem recipe_motion_licensed_witness:
  "motion_licensed (sample_input 200 0 0 0 0) (sample_phase OA_RECIPE_WAIT 100)"
proof -
  obtain st a s' where r: "recipe_step (sample_input 200 0 0 0 0) (sample_phase OA_RECIPE_WAIT 100) = (st, a, s')"
    by (metis prod_cases3)
  have "valid_recipe (the_recipe (sample_phase OA_RECIPE_WAIT 100))"
    by (simp add: sample_phase_def new_recipe_def sample_recipe_valid)
  from recipe_motion_licensed [OF this r] sample_approach_step r show ?thesis
    by (simp add: motion_action_def)
qed



text \<open>
  C29: the phases cannot be skipped. A successful step stays in its phase or goes to the next
  one in the order of the recipe, and never aborts or commits.
\<close>

theorem recipe_phases_in_order:
  assumes "valid_recipe (the_recipe s)" "recipe_step x s = (OA_COMMISSION_OK, a, s')"
  shows "(phase_rank (r_state s') = phase_rank (r_state s)
      \<or> phase_rank (r_state s') = Suc (phase_rank (r_state s)))
    \<and> r_state s' \<noteq> OA_RECIPE_COMMIT \<and> r_state s' \<noteq> OA_RECIPE_ABORT"
proof -
  have st: "r_state s \<noteq> OA_RECIPE_ABORT" "r_state s \<noteq> OA_RECIPE_COMMIT"
    using assms(2) by (auto simp: recipe_step_def)
  show ?thesis
    using recipe_step_cases [OF valid_recipeD(1) [OF assms(1)] st, of x] assms(2)
    by (simp add: case_spec_def)
qed

theorem recipe_phases_in_order_witness:
  "r_state (snd (snd (recipe_step (sample_input 200 0 0 0 0) (sample_phase OA_RECIPE_WAIT 100))))
   \<noteq> OA_RECIPE_COMMIT"
proof -
  obtain st a s' where r: "recipe_step (sample_input 200 0 0 0 0) (sample_phase OA_RECIPE_WAIT 100) = (st, a, s')"
    by (metis prod_cases3)
  with sample_approach_step
  have ok: "recipe_step (sample_input 200 0 0 0 0) (sample_phase OA_RECIPE_WAIT 100) = (OA_COMMISSION_OK, a, s')"
    by simp
  have "valid_recipe (the_recipe (sample_phase OA_RECIPE_WAIT 100))"
    by (simp add: sample_phase_def new_recipe_def sample_recipe_valid)
  from recipe_phases_in_order [OF this ok] ok show ?thesis by simp
qed

text \<open>How a session comes to be in REVIEW, and stays there.\<close>

lemma step_to_review:
  assumes "valid_recipe (the_recipe s)" "r_state (recipe_call_step c s) = OA_RECIPE_REVIEW"
  shows "r_state s = OA_RECIPE_REVIEW
      \<and> (\<forall>y. c = Recipe_step y \<longrightarrow> review_decision y \<noteq> OA_REVIEW_REJECT \<and> estop_clear y \<noteq> 0 \<and> drive_enabled (encoder y) = 0)
    \<or> (\<exists>x. c = Recipe_step x \<and> r_state s = OA_RECIPE_CANDIDATE \<and> review_decision x = OA_REVIEW_ACCEPT
          \<and> estop_clear x \<noteq> 0 \<and> drive_enabled (encoder x) = 0)"
proof (cases c)
  case (Recipe_step x)
  obtain st a s' where res: "recipe_step x s = (st, a, s')" by (metis prod_cases3)
  with assms(2) have r: "r_state s' = OA_RECIPE_REVIEW" by (simp add: Recipe_step recipe_call_step_def)
  have live: "r_state s \<noteq> OA_RECIPE_ABORT" "r_state s \<noteq> OA_RECIPE_COMMIT"
    using res r by (auto simp: recipe_step_def)
  have spec: "case_spec x s (st, a, s')"
    using recipe_step_cases [OF valid_recipeD(1) [OF assms(1)] live, of x] res by simp
  have "st = OA_COMMISSION_OK" using spec r by (auto simp: case_spec_def aborted_def split: if_splits)
  with spec r have "phase_rank (r_state s) \<in> {7, 8}" by (auto simp: case_spec_def)
  then have "r_state s = OA_RECIPE_CANDIDATE \<or> r_state s = OA_RECIPE_REVIEW" by (cases "r_state s") auto
  then show ?thesis
    using res r \<open>st = OA_COMMISSION_OK\<close>
    by (cases rule: validate_input_cases [of x s])
      (auto simp: Recipe_step recipe_step_def recipe_candidate_def recipe_review_def refuse_def answer_def
        recipe_fail_def Let_def split: if_splits)
next
  case (Recipe_commit n)
  with assms(2) show ?thesis by (auto simp: recipe_call_step_def recipe_commit_def Let_def split: if_splits)
next
  case Recipe_abort
  with assms(2) show ?thesis by (auto simp: recipe_call_step_def recipe_abort_def recipe_fail_def split: if_splits)
qed

definition accepted_in_review :: "recipe_call list \<Rightarrow> recipe_session \<Rightarrow> bool" where
  "accepted_in_review cs s \<longleftrightarrow>
     (\<exists>pre x post. cs = pre @ Recipe_step x # post \<and> r_state (fold recipe_call_step pre s) = OA_RECIPE_CANDIDATE
        \<and> review_decision x = OA_REVIEW_ACCEPT \<and> estop_clear x \<noteq> 0 \<and> drive_enabled (encoder x) = 0
        \<and> (\<forall>y. Recipe_step y \<in> set post \<longrightarrow> review_decision y \<noteq> OA_REVIEW_REJECT \<and> estop_clear y \<noteq> 0
             \<and> drive_enabled (encoder y) = 0))"

lemma review_was_accepted:
  assumes "valid_recipe r" "r_state (fold recipe_call_step cs (new_recipe r)) = OA_RECIPE_REVIEW"
  shows "accepted_in_review cs (new_recipe r)"
  using assms(2)
proof (induction cs rule: rev_induct)
  case Nil
  then show ?case by (simp add: new_recipe_def)
next
  case (snoc c cs)
  let ?s = "fold recipe_call_step cs (new_recipe r)"
  have "valid_recipe (the_recipe ?s)"
    using recipe_inv_run [OF recipe_inv_new [OF assms(1)], of cs] assms(1) by (simp add: new_recipe_def)
  from step_to_review [OF this, of c] snoc.prems consider
    (stay) "r_state ?s = OA_RECIPE_REVIEW" "\<forall>y. c = Recipe_step y \<longrightarrow> review_decision y \<noteq> OA_REVIEW_REJECT
        \<and> estop_clear y \<noteq> 0 \<and> drive_enabled (encoder y) = 0"
    | (accept) x where "c = Recipe_step x" "r_state ?s = OA_RECIPE_CANDIDATE" "review_decision x = OA_REVIEW_ACCEPT"
        "estop_clear x \<noteq> 0" "drive_enabled (encoder x) = 0" by auto
  then show ?case
  proof cases
    case stay
    from snoc.IH [OF stay(1)] obtain pre x post where "cs = pre @ Recipe_step x # post"
      "r_state (fold recipe_call_step pre (new_recipe r)) = OA_RECIPE_CANDIDATE"
      "review_decision x = OA_REVIEW_ACCEPT" "estop_clear x \<noteq> 0" "drive_enabled (encoder x) = 0"
      "\<forall>y. Recipe_step y \<in> set post \<longrightarrow> review_decision y \<noteq> OA_REVIEW_REJECT \<and> estop_clear y \<noteq> 0
         \<and> drive_enabled (encoder y) = 0"
      by (auto simp: accepted_in_review_def)
    with stay(2) show ?thesis unfolding accepted_in_review_def
      by (intro exI [of _ pre] exI [of _ x] exI [of _ "post @ [c]"]) auto
  next
    case accept
    then show ?thesis unfolding accepted_in_review_def
      by (intro exI [of _ cs] exI [of _ x] exI [of _ "[]"]) simp
  qed
qed

text \<open>
  C25: a committed recipe is sound. Through any calls from a valid recipe, a patch comes only
  from REVIEW with a greater revision, and to get there a step in CANDIDATE had the decision to
  accept, with the emergency stop clear and the drive off, and no step since then rejected it, lost
  the emergency stop or saw the drive on. The scale of the patch is the known sign, its offset maps the
  mean of the two measured stops to the model's stop, the stops agree within the tolerance, and the
  energy put into the contact is within its bound.
\<close>

theorem recipe_commit_sound:
  assumes "valid_recipe r" "s = fold recipe_call_step cs (new_recipe r)"
    and "recipe_commit n s = (Inr p, s')"
  shows "r_state s = OA_RECIPE_REVIEW \<and> r_state s' = OA_RECIPE_COMMIT \<and> accepted_in_review cs (new_recipe r)
    \<and> replacement_revision p = n \<and> rc_expected_revision r < replacement_revision p
    \<and> (mp_a p = Fin 1 \<or> mp_a p = Fin (- 1)) \<and> mp_a p = dbl_of_int (rc_known_sign r)
    \<and> mp_b_rad p = stop_model_rad r - mp_a p * lit (1 / 2) * (first_stop_q s + second_stop_q s)
    \<and> \<not> \<bar>second_stop_q s - first_stop_q s\<bar> > repeatability_tolerance_rad r
    \<and> contact_energy_j s \<le> maximum_contact_energy_j r"
proof -
  have inv: "recipe_inv s" and r: "the_recipe s = r"
    using recipe_inv_run [OF recipe_inv_new [OF assms(1)]] by (simp_all add: assms(2) new_recipe_def)
  from assms(3) have review: "r_state s = OA_RECIPE_REVIEW" and less: "rc_expected_revision r < n"
    and p: "replacement_revision p = n" "mp_a p = r_candidate_a s" "mp_b_rad p = r_candidate_b s"
      "r_state s' = OA_RECIPE_COMMIT"
    by (auto simp: recipe_commit_def Let_def r not_le split: if_splits)
  have "candidate_from_stops s" "energy_ok s"
    using inv review by (auto simp: recipe_inv_def candidate_inv_def)
  moreover have "accepted_in_review cs (new_recipe r)"
    using review_was_accepted [OF assms(1), of cs] review assms(2) by simp
  ultimately show ?thesis
    using review less p valid_recipeD(3) [OF assms(1)]
    by (auto simp: candidate_from_stops_def energy_ok_def Let_def r dbl_of_int_def)
qed

lemma sample_recipe_commit:
  "\<exists>p s'. recipe_commit 5 (fold recipe_call_step (map Recipe_step sample_inputs) (new_recipe sample_recipe))
     = (Inr p, s') \<and> mp_b_rad p = Fin 6"
  by (simp add: sample_recipe_run) (simp add: recipe_commit_def sample_stopped_def sample_contact_def
      sample_moving_def sample_phase_def new_recipe_def)

theorem recipe_commit_sound_witness:
  "\<exists>p. fst (recipe_commit 5 (fold recipe_call_step (map Recipe_step sample_inputs)
     (new_recipe sample_recipe))) = Inr p \<and> mp_a p = dbl_of_int 1"
proof -
  obtain p s' where c: "recipe_commit 5 (fold recipe_call_step (map Recipe_step sample_inputs)
      (new_recipe sample_recipe)) = (Inr p, s')"
    using sample_recipe_commit by blast
  from recipe_commit_sound [OF sample_recipe_valid refl c] c show ?thesis by simp
qed

text \<open>A recipe session commits at most once, whatever calls are made on it.\<close>

theorem recipe_commits_once:
  "recipe_commits cs (new_recipe r) \<le> 1"
  unfolding recipe_commits_emissions by (rule recipe.emits_once)

text \<open>
  the procedure can be completed. There is a valid recipe and a sequence of inputs after
  which a commit gives the patch with the offset the two stops imply.
\<close>

theorem recipe_completes:
  "valid_recipe sample_recipe \<and>
   (\<exists>p s'. recipe_commit 5 (fold recipe_call_step (map Recipe_step sample_inputs) (new_recipe sample_recipe))
      = (Inr p, s') \<and> mp_a p = Fin 1 \<and> mp_b_rad p = Fin 6)"
proof (intro conjI)
  show "valid_recipe sample_recipe" by (rule sample_recipe_valid)
  show "\<exists>p s'. recipe_commit 5 (fold recipe_call_step (map Recipe_step sample_inputs) (new_recipe sample_recipe))
      = (Inr p, s') \<and> mp_a p = Fin 1 \<and> mp_b_rad p = Fin 6"
    by (simp add: sample_recipe_run) (simp add: recipe_commit_def sample_stopped_def sample_contact_def
        sample_moving_def sample_phase_def new_recipe_def)
qed

end
