(* ===== verification/Handle_Table.thy ===== *)
theory Handle_Table
  imports Prelude
begin

text \<open>
  The interface of a registry of handles. A handle is a 64-bit token standing for an entry; the
  table remembers which tokens were ever issued. The laws are what a client relies on: a new
  token was never issued before and is not null, an entry is found until it is removed, and the
  other entries are left alone. What follows is proved once: a token whose entry is gone never
  becomes valid again, whatever is done to the table.
\<close>

datatype 'e table_op = Table_add 'e | Table_change u64 'e | Table_remove u64

locale handle_table =
  fixes good :: "'r \<Rightarrow> bool"
    and lookup :: "'r \<Rightarrow> u64 \<rightharpoonup> 'e"
    and issued :: "'r \<Rightarrow> u64 \<Rightarrow> bool"
    and add :: "'e \<Rightarrow> 'r \<Rightarrow> u64 option \<times> 'r"
    and change :: "u64 \<Rightarrow> 'e \<Rightarrow> 'r \<Rightarrow> 'r"
    and remove :: "u64 \<Rightarrow> 'r \<Rightarrow> 'r"
  assumes live_issued: "good r \<Longrightarrow> lookup r t = Some e \<Longrightarrow> issued r t"
    and null_never: "good r \<Longrightarrow> \<not> issued r 0"
    and add_none: "add e r = (None, r') \<Longrightarrow> r' = r"
    and add_some: "good r \<Longrightarrow> add e r = (Some t, r') \<Longrightarrow>
      \<not> issued r t \<and> good r' \<and> issued r' = (issued r)(t := True) \<and> lookup r' = (lookup r)(t \<mapsto> e)"
    and change_live: "good r \<Longrightarrow> lookup r t \<noteq> None \<Longrightarrow>
      good (change t e r) \<and> issued (change t e r) = issued r \<and> lookup (change t e r) = (lookup r)(t \<mapsto> e)"
    and remove_any: "good r \<Longrightarrow>
      good (remove t r) \<and> issued (remove t r) = issued r \<and> lookup (remove t r) = (lookup r)(t := None)"
begin

fun apply_op :: "'e table_op \<Rightarrow> 'r \<Rightarrow> 'r" where
  "apply_op (Table_add e) r = snd (add e r)"
| "apply_op (Table_change t e) r = (if lookup r t = None then r else change t e r)"
| "apply_op (Table_remove t) r = remove t r"

lemma apply_good:
  assumes "good r"
  shows "good (apply_op p r)"
proof (cases p)
  case (Table_add e)
  obtain ot r' where a: "add e r = (ot, r')" by fastforce
  then show ?thesis
    using assms Table_add add_none [of e r r'] add_some [OF assms, of e] by (cases ot) auto
qed (use assms change_live remove_any in auto)

text \<open>A null pointer is never a live handle.\<close>

lemma null_dead: "good r \<Longrightarrow> lookup r 0 = None"
  using live_issued null_never by fastforce

definition dead :: "u64 \<Rightarrow> 'r \<Rightarrow> bool" where
  "dead t r \<longleftrightarrow> issued r t \<and> lookup r t = None"

lemma dead_op:
  assumes "good r" "dead t r"
  shows "dead t (apply_op p r)"
proof (cases p)
  case (Table_add e)
  obtain ot r' where a: "add e r = (ot, r')" by fastforce
  then show ?thesis
    using assms Table_add add_none [of e r r'] add_some [OF assms(1), of e]
    by (cases ot) (auto simp: dead_def)
qed (use assms change_live remove_any in \<open>auto simp: dead_def\<close>)

lemma dead_run: "good r \<Longrightarrow> dead t r \<Longrightarrow> dead t (fold apply_op ps r)"
  by (induction ps arbitrary: r) (simp_all add: dead_op apply_good)

lemma run_good: "good r \<Longrightarrow> good (fold apply_op ps r)"
  by (induction ps arbitrary: r) (simp_all add: apply_good)

end

end
