(* ===== verification/Commission_Api.thy ===== *)
theory Commission_Api
  imports Recipe_Properties Handle_Table
begin

text \<open>
  The C interface of commissioning, commission/src/c_api.cpp: the process-wide registry of
  handles and the exported calls. A handle is its token, zero being the null pointer. The
  registry's mutex makes each call one step on it. The flag \<open>no_memory\<close> of a create is the
  \<open>std::bad_alloc\<close> that \<open>guard\<close> turns into a status.
\<close>

datatype handle_kind = Manual | Recipe

record registry_entry =
  entry_kind :: handle_kind
  entry_manual :: "manual_session option"
  entry_recipe :: "recipe_session option"

record registry =
  handles :: "u64 \<rightharpoonup> registry_entry"
  next_token :: u64

definition new_registry :: registry where
  "new_registry = \<lparr>handles = Map.empty, next_token = 1\<rparr>"

section \<open>The registry\<close>

definition registry_add :: "registry_entry \<Rightarrow> registry \<Rightarrow> u64 option \<times> registry" where
  "registry_add e reg =
     (if next_token reg = UINT64_MAX then (None, reg)
      else if handles reg (next_token reg) \<noteq> None then (None, reg)
      else (Some (next_token reg),
            reg\<lparr>handles := (handles reg)(next_token reg \<mapsto> e), next_token := next_token reg + 1\<rparr>))"

definition add_manual :: "manual_session \<Rightarrow> registry \<Rightarrow> u64 option \<times> registry" where
  "add_manual s = registry_add \<lparr>entry_kind = Manual, entry_manual = Some s, entry_recipe = None\<rparr>"

definition add_recipe :: "recipe_session \<Rightarrow> registry \<Rightarrow> u64 option \<times> registry" where
  "add_recipe s = registry_add \<lparr>entry_kind = Recipe, entry_manual = None, entry_recipe = Some s\<rparr>"

definition registry_change :: "u64 \<Rightarrow> registry_entry \<Rightarrow> registry \<Rightarrow> registry" where
  "registry_change t e reg = reg\<lparr>handles := (handles reg)(t \<mapsto> e)\<rparr>"

definition registry_erase :: "u64 \<Rightarrow> registry \<Rightarrow> registry" where
  "registry_erase t reg = reg\<lparr>handles := (handles reg)(t := None)\<rparr>"

text \<open>
  \<open>use_manual\<close> and \<open>use_recipe\<close> run a callable on the session a token stands for; what it
  returns besides the status is the new content of the output parameters.
\<close>

definition use_manual ::
  "u64 \<Rightarrow> (manual_session \<Rightarrow> (commission_status \<times> 'o) \<times> manual_session) \<Rightarrow> 'o \<Rightarrow> registry
     \<Rightarrow> commission_status \<times> 'o \<times> registry" where
  "use_manual t f out reg =
     (case handles reg t of None \<Rightarrow> (OA_COMMISSION_EINVAL, out, reg)
      | Some e \<Rightarrow>
          if entry_kind e \<noteq> Manual then (OA_COMMISSION_EINVAL, out, reg)
          else case entry_manual e of None \<Rightarrow> (OA_COMMISSION_EINVAL, out, reg)
          | Some s \<Rightarrow>
              (case f s of ((st, out'), s') \<Rightarrow>
                 (st, out', registry_change t (e\<lparr>entry_manual := Some s'\<rparr>) reg)))"

definition use_recipe ::
  "u64 \<Rightarrow> (recipe_session \<Rightarrow> (commission_status \<times> 'o) \<times> recipe_session) \<Rightarrow> 'o \<Rightarrow> registry
     \<Rightarrow> commission_status \<times> 'o \<times> registry" where
  "use_recipe t f out reg =
     (case handles reg t of None \<Rightarrow> (OA_COMMISSION_EINVAL, out, reg)
      | Some e \<Rightarrow>
          if entry_kind e \<noteq> Recipe then (OA_COMMISSION_EINVAL, out, reg)
          else case entry_recipe e of None \<Rightarrow> (OA_COMMISSION_EINVAL, out, reg)
          | Some s \<Rightarrow>
              (case f s of ((st, out'), s') \<Rightarrow>
                 (st, out', registry_change t (e\<lparr>entry_recipe := Some s'\<rparr>) reg)))"

definition registry_remove :: "u64 \<Rightarrow> handle_kind \<Rightarrow> registry \<Rightarrow> bool \<times> registry" where
  "registry_remove t k reg =
     (case handles reg t of None \<Rightarrow> (False, reg)
      | Some e \<Rightarrow> if entry_kind e \<noteq> k then (False, reg) else (True, registry_erase t reg))"

definition validate_record :: "u32 \<Rightarrow> 'a header_scheme pointer \<Rightarrow> commission_status" where
  "validate_record required r =
     (case r of None \<Rightarrow> OA_COMMISSION_EINVAL
      | Some x \<Rightarrow>
          if struct_size x < 8 then OA_COMMISSION_EABI
          else if valid_header (struct_size x) (abi_version x) required then OA_COMMISSION_OK
          else OA_COMMISSION_EABI)"

abbreviation SIZEOF_MANUAL_OPTIONS :: u32 where "SIZEOF_MANUAL_OPTIONS \<equiv> 168"
abbreviation SIZEOF_RECIPE :: u32 where "SIZEOF_RECIPE \<equiv> 544"

section \<open>The manual calls\<close>

text \<open>The new value of \<open>*out_session\<close>; it is left alone only when a pointer is null.\<close>

definition oa_commission_manual_create ::
  "manual_options pointer \<Rightarrow> u64 pointer \<Rightarrow> bool \<Rightarrow> registry
     \<Rightarrow> commission_status \<times> u64 pointer \<times> registry" where
  "oa_commission_manual_create opts out no_memory reg =
     (case opts of None \<Rightarrow> (OA_COMMISSION_EINVAL, out, reg)
      | Some o' \<Rightarrow>
          if out = None then (OA_COMMISSION_EINVAL, out, reg)
          else if validate_record SIZEOF_MANUAL_OPTIONS opts \<noteq> OA_COMMISSION_OK
          then (validate_record SIZEOF_MANUAL_OPTIONS opts, Some 0, reg)
          else if \<not> valid_manual_options o' then (OA_COMMISSION_EINVAL, Some 0, reg)
          else if no_memory then (OA_COMMISSION_ENOMEM, Some 0, reg)
          else case add_manual (new_manual o') reg of
            (None, reg') \<Rightarrow> (OA_COMMISSION_ENOMEM, Some 0, reg')
          | (Some t, reg') \<Rightarrow> (OA_COMMISSION_OK, Some t, reg'))"

definition oa_commission_manual_destroy :: "u64 \<Rightarrow> registry \<Rightarrow> registry" where
  "oa_commission_manual_destroy h reg =
     (if h = 0 then reg else snd (registry_remove h Manual reg))"

definition oa_commission_manual_sample ::
  "u64 \<Rightarrow> u32 \<Rightarrow> u64 \<Rightarrow> encoder_sample pointer \<Rightarrow> manual_report pointer \<Rightarrow> registry
     \<Rightarrow> commission_status \<times> manual_report pointer \<times> registry" where
  "oa_commission_manual_sample h ref now x out reg =
     (case x of None \<Rightarrow> (OA_COMMISSION_EINVAL, out, reg)
      | Some e \<Rightarrow>
          if h = 0 then (OA_COMMISSION_EINVAL, out, reg)
          else if validate_record SIZEOF_ENCODER_SAMPLE x \<noteq> OA_COMMISSION_OK
          then (validate_record SIZEOF_ENCODER_SAMPLE x, out, reg)
          else if validate_record SIZEOF_MANUAL_REPORT out \<noteq> OA_COMMISSION_OK
          then (validate_record SIZEOF_MANUAL_REPORT out, out, reg)
          else use_manual h (\<lambda>s. case manual_sample ref now e s of (st, s') \<Rightarrow>
                 ((st, Some (manual_report_of s')), s')) out reg)"

definition oa_commission_manual_begin_review ::
  "u64 \<Rightarrow> manual_report pointer \<Rightarrow> registry
     \<Rightarrow> commission_status \<times> manual_report pointer \<times> registry" where
  "oa_commission_manual_begin_review h out reg =
     (if h = 0 then (OA_COMMISSION_EINVAL, out, reg)
      else if validate_record SIZEOF_MANUAL_REPORT out \<noteq> OA_COMMISSION_OK
      then (validate_record SIZEOF_MANUAL_REPORT out, out, reg)
      else use_manual h (\<lambda>s. case manual_begin_review s of (st, s') \<Rightarrow>
             ((st, Some (manual_report_of s')), s')) out reg)"

definition oa_commission_manual_commit ::
  "u64 \<Rightarrow> u64 \<Rightarrow> string pointer \<Rightarrow> mapping_patch pointer \<Rightarrow> registry
     \<Rightarrow> commission_status \<times> mapping_patch pointer \<times> registry" where
  "oa_commission_manual_commit h revision evidence out reg =
     (if h = 0 then (OA_COMMISSION_EINVAL, out, reg)
      else if validate_record SIZEOF_MAPPING_PATCH out \<noteq> OA_COMMISSION_OK
      then (validate_record SIZEOF_MAPPING_PATCH out, out, reg)
      else use_manual h (\<lambda>s. case manual_commit revision evidence s of
               (Inl e, s') \<Rightarrow> ((e, out), s')
             | (Inr p, s') \<Rightarrow> ((OA_COMMISSION_OK, Some p), s')) out reg)"

definition oa_commission_manual_abort :: "u64 \<Rightarrow> registry \<Rightarrow> commission_status \<times> registry" where
  "oa_commission_manual_abort h reg =
     (if h = 0 then (OA_COMMISSION_EINVAL, reg)
      else case use_manual h (\<lambda>s. case manual_abort s of (st, s') \<Rightarrow> ((st, ()), s')) () reg of
        (st, _, reg') \<Rightarrow> (st, reg'))"

definition oa_commission_manual_get_report ::
  "u64 \<Rightarrow> manual_report pointer \<Rightarrow> registry
     \<Rightarrow> commission_status \<times> manual_report pointer \<times> registry" where
  "oa_commission_manual_get_report h out reg =
     (if h = 0 then (OA_COMMISSION_EINVAL, out, reg)
      else if validate_record SIZEOF_MANUAL_REPORT out \<noteq> OA_COMMISSION_OK
      then (validate_record SIZEOF_MANUAL_REPORT out, out, reg)
      else use_manual h (\<lambda>s. ((OA_COMMISSION_OK, Some (manual_report_of s)), s)) out reg)"

section \<open>The recipe calls\<close>

definition oa_commission_recipe_create ::
  "recipe pointer \<Rightarrow> u64 pointer \<Rightarrow> bool \<Rightarrow> registry
     \<Rightarrow> commission_status \<times> u64 pointer \<times> registry" where
  "oa_commission_recipe_create rp out no_memory reg =
     (case rp of None \<Rightarrow> (OA_COMMISSION_EINVAL, out, reg)
      | Some r \<Rightarrow>
          if out = None then (OA_COMMISSION_EINVAL, out, reg)
          else if validate_record SIZEOF_RECIPE rp \<noteq> OA_COMMISSION_OK
          then (validate_record SIZEOF_RECIPE rp, Some 0, reg)
          else if \<not> valid_recipe r then
            let arm_unqualified = recipe_kind r = OA_RECIPE_ARM_JOINT
                \<and> (hardware_qualified r \<noteq> 1 \<or> qualification_revision r = 0
                   \<or> \<not> valid_text (Some (qualification_record r)) True
                   \<or> empty_text (qualification_record r))
            in (if arm_unqualified then OA_COMMISSION_EUNSUPPORTED else OA_COMMISSION_EINVAL, Some 0, reg)
          else if no_memory then (OA_COMMISSION_ENOMEM, Some 0, reg)
          else case add_recipe (new_recipe r) reg of
            (None, reg') \<Rightarrow> (OA_COMMISSION_ENOMEM, Some 0, reg')
          | (Some t, reg') \<Rightarrow> (OA_COMMISSION_OK, Some t, reg'))"

definition oa_commission_recipe_destroy :: "u64 \<Rightarrow> registry \<Rightarrow> registry" where
  "oa_commission_recipe_destroy h reg =
     (if h = 0 then reg else snd (registry_remove h Recipe reg))"

definition oa_commission_recipe_step ::
  "u64 \<Rightarrow> recipe_input pointer \<Rightarrow> next_action pointer \<Rightarrow> recipe_report pointer \<Rightarrow> registry
     \<Rightarrow> commission_status \<times> (next_action pointer \<times> recipe_report pointer) \<times> registry" where
  "oa_commission_recipe_step h xp act rep reg =
     (case xp of None \<Rightarrow> (OA_COMMISSION_EINVAL, (act, rep), reg)
      | Some x \<Rightarrow>
          if h = 0 then (OA_COMMISSION_EINVAL, (act, rep), reg)
          else if validate_record SIZEOF_RECIPE_INPUT xp \<noteq> OA_COMMISSION_OK
          then (validate_record SIZEOF_RECIPE_INPUT xp, (act, rep), reg)
          else if validate_record SIZEOF_ENCODER_SAMPLE (Some (encoder x)) \<noteq> OA_COMMISSION_OK
          then (validate_record SIZEOF_ENCODER_SAMPLE (Some (encoder x)), (act, rep), reg)
          else if validate_record SIZEOF_NEXT_ACTION act \<noteq> OA_COMMISSION_OK
          then (validate_record SIZEOF_NEXT_ACTION act, (act, rep), reg)
          else if validate_record SIZEOF_RECIPE_REPORT rep \<noteq> OA_COMMISSION_OK
          then (validate_record SIZEOF_RECIPE_REPORT rep, (act, rep), reg)
          else use_recipe h (\<lambda>s. case recipe_step x s of (st, a, s') \<Rightarrow>
                 ((st, (Some a, Some (recipe_report_of s'))), s')) (act, rep) reg)"

definition oa_commission_recipe_commit ::
  "u64 \<Rightarrow> u64 \<Rightarrow> mapping_patch pointer \<Rightarrow> registry
     \<Rightarrow> commission_status \<times> mapping_patch pointer \<times> registry" where
  "oa_commission_recipe_commit h revision out reg =
     (if h = 0 then (OA_COMMISSION_EINVAL, out, reg)
      else if validate_record SIZEOF_MAPPING_PATCH out \<noteq> OA_COMMISSION_OK
      then (validate_record SIZEOF_MAPPING_PATCH out, out, reg)
      else use_recipe h (\<lambda>s. case recipe_commit revision s of
               (Inl e, s') \<Rightarrow> ((e, out), s')
             | (Inr p, s') \<Rightarrow> ((OA_COMMISSION_OK, Some p), s')) out reg)"

definition oa_commission_recipe_abort :: "u64 \<Rightarrow> registry \<Rightarrow> commission_status \<times> registry" where
  "oa_commission_recipe_abort h reg =
     (if h = 0 then (OA_COMMISSION_EINVAL, reg)
      else case use_recipe h (\<lambda>s. case recipe_abort s of (st, s') \<Rightarrow> ((st, ()), s')) () reg of
        (st, _, reg') \<Rightarrow> (st, reg'))"

definition oa_commission_recipe_get_report ::
  "u64 \<Rightarrow> recipe_report pointer \<Rightarrow> registry
     \<Rightarrow> commission_status \<times> recipe_report pointer \<times> registry" where
  "oa_commission_recipe_get_report h out reg =
     (if h = 0 then (OA_COMMISSION_EINVAL, out, reg)
      else if validate_record SIZEOF_RECIPE_REPORT out \<noteq> OA_COMMISSION_OK
      then (validate_record SIZEOF_RECIPE_REPORT out, out, reg)
      else use_recipe h (\<lambda>s. ((OA_COMMISSION_OK, Some (recipe_report_of s)), s)) out reg)"

end
