(* ===== verification/Commission_Api_Safety.thy ===== *)
theory Commission_Api_Safety
  imports Commission_Api
begin

text \<open>
  The commissioning registry is a table of handles, every exported call is an operation of that
  table, and so a handle keeps its kind while it lives and is never valid again once destroyed.
\<close>

section \<open>The registry is a handle table\<close>

definition registry_good :: "registry \<Rightarrow> bool" where
  "registry_good reg \<longleftrightarrow> next_token reg \<noteq> 0
     \<and> (\<forall>t e. handles reg t = Some e \<longrightarrow> 0 < t \<and> t < next_token reg)"

definition registry_issued :: "registry \<Rightarrow> u64 \<Rightarrow> bool" where
  "registry_issued reg t \<longleftrightarrow> 0 < t \<and> t < next_token reg"

lemma next_token_unat:
  assumes "(n :: u64) \<noteq> UINT64_MAX"
  shows "unat (n + 1) = unat n + 1"
proof -
  have "UINT64_MAX - n \<noteq> 0" using assms by (metis eq_iff_diff_eq_0)
  then have "\<not> UINT64_MAX - n < 1" by (simp add: word_less_nat_alt unat_eq_0)
  from unat_add_no_overflow [OF this] show ?thesis by simp
qed

lemma next_token_step: "n \<noteq> UINT64_MAX \<Longrightarrow> t < n + 1 \<longleftrightarrow> t < n \<or> t = (n :: u64)"
  by (auto simp: word_less_nat_alt next_token_unat less_Suc_eq word_unat_eq_iff)

lemma registry_add_some:
  assumes "registry_good reg" "registry_add e reg = (Some t, reg')"
  shows "\<not> registry_issued reg t \<and> registry_good reg'
    \<and> registry_issued reg' = (registry_issued reg)(t := True)
    \<and> handles reg' = (handles reg)(t \<mapsto> e)"
proof -
  from assms(2) have t: "t = next_token reg" and n: "next_token reg \<noteq> UINT64_MAX"
    and reg': "reg' = reg\<lparr>handles := (handles reg)(t \<mapsto> e), next_token := t + 1\<rparr>"
    by (auto simp: registry_add_def split: if_splits)
  have pos: "0 < t" using assms(1) by (simp add: registry_good_def t word_neq_0_conv)
  note step = next_token_step [OF n]
  have "t + 1 \<noteq> 0" using next_token_unat [OF n] by (metis t unat_0 add_eq_0_iff_both_eq_0 one_neq_zero)
  then show ?thesis
    using assms(1) pos
    by (auto simp: registry_good_def registry_issued_def reg' t step fun_eq_iff)
qed

interpretation registry: handle_table registry_good handles registry_issued registry_add
  registry_change registry_erase
proof unfold_locales
  fix reg reg' :: registry and t e
  show "registry_good reg \<Longrightarrow> handles reg t = Some e \<Longrightarrow> registry_issued reg t"
    by (auto simp: registry_good_def registry_issued_def)
  show "registry_good reg \<Longrightarrow> \<not> registry_issued reg 0"
    by (simp add: registry_issued_def)
  show "registry_add e reg = (None, reg') \<Longrightarrow> reg' = reg"
    by (auto simp: registry_add_def split: if_splits)
  show "registry_good reg \<Longrightarrow> registry_add e reg = (Some t, reg') \<Longrightarrow>
      \<not> registry_issued reg t \<and> registry_good reg' \<and>
      registry_issued reg' = (registry_issued reg)(t := True) \<and> handles reg' = (handles reg)(t \<mapsto> e)"
    by (rule registry_add_some)
  show "registry_good reg \<Longrightarrow> handles reg t \<noteq> None \<Longrightarrow>
      registry_good (registry_change t e reg) \<and>
      registry_issued (registry_change t e reg) = registry_issued reg \<and>
      handles (registry_change t e reg) = (handles reg)(t \<mapsto> e)"
    by (auto simp: registry_good_def registry_issued_def registry_change_def)
  show "registry_good reg \<Longrightarrow>
      registry_good (registry_erase t reg) \<and> registry_issued (registry_erase t reg) = registry_issued reg \<and>
      handles (registry_erase t reg) = (handles reg)(t := None)"
    by (auto simp: registry_good_def registry_issued_def registry_erase_def split: if_splits)
qed

section \<open>Every call is an operation of the table\<close>

datatype commission_call =
    Manual_create "manual_options pointer" "u64 pointer" bool
  | Manual_destroy u64
  | Manual_sample u64 u32 u64 "encoder_sample pointer" "manual_report pointer"
  | Manual_begin_review u64 "manual_report pointer"
  | Manual_commit u64 u64 "string pointer" "mapping_patch pointer"
  | Manual_abort u64
  | Manual_get_report u64 "manual_report pointer"
  | Recipe_create "recipe pointer" "u64 pointer" bool
  | Recipe_destroy u64
  | Recipe_step_call u64 "recipe_input pointer" "next_action pointer" "recipe_report pointer"
  | Recipe_commit_call u64 u64 "mapping_patch pointer"
  | Recipe_abort_call u64
  | Recipe_get_report u64 "recipe_report pointer"

text \<open>The status of a call (a destroy has none) and the registry after it.\<close>

definition commission_call_step :: "commission_call \<Rightarrow> registry \<Rightarrow> commission_status option \<times> registry" where
  "commission_call_step c reg =
     (case c of
        Manual_create o' out nm \<Rightarrow>
          (case oa_commission_manual_create o' out nm reg of (st, _, r) \<Rightarrow> (Some st, r))
      | Manual_destroy h \<Rightarrow> (None, oa_commission_manual_destroy h reg)
      | Manual_sample h i n x out \<Rightarrow>
          (case oa_commission_manual_sample h i n x out reg of (st, _, r) \<Rightarrow> (Some st, r))
      | Manual_begin_review h out \<Rightarrow>
          (case oa_commission_manual_begin_review h out reg of (st, _, r) \<Rightarrow> (Some st, r))
      | Manual_commit h n ev out \<Rightarrow>
          (case oa_commission_manual_commit h n ev out reg of (st, _, r) \<Rightarrow> (Some st, r))
      | Manual_abort h \<Rightarrow> (case oa_commission_manual_abort h reg of (st, r) \<Rightarrow> (Some st, r))
      | Manual_get_report h out \<Rightarrow>
          (case oa_commission_manual_get_report h out reg of (st, _, r) \<Rightarrow> (Some st, r))
      | Recipe_create rp out nm \<Rightarrow>
          (case oa_commission_recipe_create rp out nm reg of (st, _, r) \<Rightarrow> (Some st, r))
      | Recipe_destroy h \<Rightarrow> (None, oa_commission_recipe_destroy h reg)
      | Recipe_step_call h x act rep \<Rightarrow>
          (case oa_commission_recipe_step h x act rep reg of (st, _, r) \<Rightarrow> (Some st, r))
      | Recipe_commit_call h n out \<Rightarrow>
          (case oa_commission_recipe_commit h n out reg of (st, _, r) \<Rightarrow> (Some st, r))
      | Recipe_abort_call h \<Rightarrow> (case oa_commission_recipe_abort h reg of (st, r) \<Rightarrow> (Some st, r))
      | Recipe_get_report h out \<Rightarrow>
          (case oa_commission_recipe_get_report h out reg of (st, _, r) \<Rightarrow> (Some st, r)))"

definition call_handle :: "commission_call \<Rightarrow> u64 option" where
  "call_handle c =
     (case c of Manual_create _ _ _ \<Rightarrow> None | Recipe_create _ _ _ \<Rightarrow> None
      | Manual_destroy h \<Rightarrow> Some h | Manual_sample h _ _ _ _ \<Rightarrow> Some h
      | Manual_begin_review h _ \<Rightarrow> Some h | Manual_commit h _ _ _ \<Rightarrow> Some h | Manual_abort h \<Rightarrow> Some h
      | Manual_get_report h _ \<Rightarrow> Some h | Recipe_destroy h \<Rightarrow> Some h | Recipe_step_call h _ _ _ \<Rightarrow> Some h
      | Recipe_commit_call h _ _ \<Rightarrow> Some h | Recipe_abort_call h \<Rightarrow> Some h
      | Recipe_get_report h _ \<Rightarrow> Some h)"

definition manual_call :: "commission_call \<Rightarrow> bool" where
  "manual_call c \<longleftrightarrow>
     (case c of Manual_create _ _ _ \<Rightarrow> True | Manual_destroy _ \<Rightarrow> True | Manual_sample _ _ _ _ _ \<Rightarrow> True
      | Manual_begin_review _ _ \<Rightarrow> True | Manual_commit _ _ _ _ \<Rightarrow> True | Manual_abort _ \<Rightarrow> True
      | Manual_get_report _ _ \<Rightarrow> True | _ \<Rightarrow> False)"

text \<open>The effect of a call: nothing, a new entry, the same kind of entry changed, or an erasure.\<close>

definition table_effect :: "registry \<Rightarrow> registry \<Rightarrow> bool" where
  "table_effect reg reg' \<longleftrightarrow> reg' = reg \<or>
     (\<exists>p. reg' = registry.apply_op p reg \<and>
       (\<forall>t e'. p = Table_change t e' \<longrightarrow>
          (\<exists>e. handles reg t = Some e \<and> entry_kind e' = entry_kind e)))"

lemma effect_same: "table_effect reg reg"
  by (simp add: table_effect_def)

lemma effect_add: "registry_add e reg = (ot, reg') \<Longrightarrow> table_effect reg reg'"
  unfolding table_effect_def by (intro disjI2 exI [of _ "Table_add e"]) simp

lemma effect_erase: "table_effect reg (registry_erase t reg)"
  unfolding table_effect_def by (intro disjI2 exI [of _ "Table_remove t"]) simp

lemma effect_change:
  "handles reg t = Some e \<Longrightarrow> entry_kind e' = entry_kind e \<Longrightarrow> table_effect reg (registry_change t e' reg)"
  unfolding table_effect_def by (intro disjI2 exI [of _ "Table_change t e'"]) simp

lemma effect_use_manual: "use_manual t f out reg = (st, out', reg') \<Longrightarrow> table_effect reg reg'"
  by (auto simp: use_manual_def intro: effect_same effect_change split: option.splits if_splits prod.splits)

lemma effect_use_recipe: "use_recipe t f out reg = (st, out', reg') \<Longrightarrow> table_effect reg reg'"
  by (auto simp: use_recipe_def intro: effect_same effect_change split: option.splits if_splits prod.splits)

lemma effect_remove: "registry_remove t k reg = (ok, reg') \<Longrightarrow> table_effect reg reg'"
  by (auto simp: registry_remove_def intro: effect_same effect_erase split: option.splits if_splits)

lemmas effects = effect_same effect_add effect_use_manual effect_use_recipe

lemma call_effect: "table_effect reg (snd (commission_call_step c reg))"
proof (cases c)
  case (Manual_destroy h)
  then show ?thesis
    using effect_remove [of h Manual reg]
    by (cases "registry_remove h Manual reg")
      (auto simp: commission_call_step_def oa_commission_manual_destroy_def effect_same)
next
  case (Recipe_destroy h)
  then show ?thesis
    using effect_remove [of h Recipe reg]
    by (cases "registry_remove h Recipe reg")
      (auto simp: commission_call_step_def oa_commission_recipe_destroy_def effect_same)
qed (auto simp: commission_call_step_def oa_commission_manual_create_def oa_commission_manual_sample_def
    oa_commission_manual_begin_review_def oa_commission_manual_commit_def oa_commission_manual_abort_def
    oa_commission_manual_get_report_def oa_commission_recipe_create_def oa_commission_recipe_step_def
    oa_commission_recipe_commit_def oa_commission_recipe_abort_def oa_commission_recipe_get_report_def
    add_manual_def add_recipe_def Let_def intro: effects split: option.splits prod.splits if_splits)

definition run_calls :: "commission_call list \<Rightarrow> registry \<Rightarrow> registry" where
  "run_calls cs reg = fold (\<lambda>c r. snd (commission_call_step c r)) cs reg"

lemma effect_good: "registry_good reg \<Longrightarrow> table_effect reg reg' \<Longrightarrow> registry_good reg'"
  by (auto simp: table_effect_def registry.apply_good)

lemma effect_dead: "registry_good reg \<Longrightarrow> table_effect reg reg' \<Longrightarrow> registry.dead h reg \<Longrightarrow> registry.dead h reg'"
  by (auto simp: table_effect_def registry.dead_op)

text \<open>An entry that is live before and after a call is of the same kind.\<close>

lemma effect_kind:
  assumes "registry_good reg" "table_effect reg reg'" "handles reg h = Some e" "handles reg' h = Some e'"
  shows "entry_kind e' = entry_kind e"
proof -
  from assms(2) consider "reg' = reg"
    | p where "reg' = registry.apply_op p reg" "\<forall>t e'. p = Table_change t e' \<longrightarrow>
          (\<exists>e. handles reg t = Some e \<and> entry_kind e' = entry_kind e)"
    unfolding table_effect_def by blast
  then show ?thesis
  proof cases
    case 1
    with assms show ?thesis by simp
  next
    case (2 p)
    show ?thesis
    proof (cases p)
      case (Table_add x)
      obtain ot r' where a: "registry_add x reg = (ot, r')" by fastforce
      show ?thesis
      proof (cases ot)
        case None
        with a Table_add 2 assms registry.add_none [of x reg r'] show ?thesis by simp
      next
        case (Some t)
        with a have new: "\<not> registry_issued reg t" "handles r' = (handles reg)(t \<mapsto> x)"
          using registry_add_some [OF assms(1)] by auto
        have "h \<noteq> t" using new(1) registry.live_issued [OF assms(1,3)] by auto
        with a Table_add 2(1) new(2) assms(3,4) show ?thesis by simp
      qed
    next
      case (Table_change t x)
      with 2 assms show ?thesis by (auto simp: registry_change_def split: if_splits)
    next
      case (Table_remove t)
      with 2 assms show ?thesis by (auto simp: registry_erase_def split: if_splits)
    qed
  qed
qed

lemma calls_good: "registry_good reg \<Longrightarrow> registry_good (run_calls cs reg)"
  unfolding run_calls_def
  by (induction cs arbitrary: reg) (simp_all add: effect_good call_effect)

lemma run_dead: "registry_good reg \<Longrightarrow> registry.dead h reg \<Longrightarrow> registry.dead h (run_calls cs reg)"
  unfolding run_calls_def
proof (induction cs arbitrary: reg)
  case (Cons c cs)
  with effect_good [OF Cons.prems(1) call_effect] effect_dead [OF Cons.prems(1) call_effect]
  show ?case by simp
qed simp

lemma new_registry_good: "registry_good new_registry"
  by (simp add: registry_good_def new_registry_def)

text \<open>A call through a handle that does not stand for a session of its kind does nothing.\<close>

definition wrong_handle :: "commission_call \<Rightarrow> registry \<Rightarrow> bool" where
  "wrong_handle c reg \<longleftrightarrow>
     (case call_handle c of None \<Rightarrow> False
      | Some h \<Rightarrow> \<forall>e. handles reg h = Some e \<longrightarrow> entry_kind e \<noteq> (if manual_call c then Manual else Recipe))"

lemma use_manual_wrong:
  "\<forall>e. handles reg h = Some e \<longrightarrow> entry_kind e \<noteq> Manual \<Longrightarrow>
     use_manual h f out reg = (OA_COMMISSION_EINVAL, out, reg)"
  by (auto simp: use_manual_def split: option.split)

lemma use_recipe_wrong:
  "\<forall>e. handles reg h = Some e \<longrightarrow> entry_kind e \<noteq> Recipe \<Longrightarrow>
     use_recipe h f out reg = (OA_COMMISSION_EINVAL, out, reg)"
  by (auto simp: use_recipe_def split: option.split)

lemma remove_wrong:
  "\<forall>e. handles reg h = Some e \<longrightarrow> entry_kind e \<noteq> k \<Longrightarrow> registry_remove h k reg = (False, reg)"
  by (auto simp: registry_remove_def split: option.split)

lemma wrong_handle_call:
  assumes "wrong_handle c reg"
  shows "fst (commission_call_step c reg) \<noteq> Some OA_COMMISSION_OK \<and> snd (commission_call_step c reg) = reg"
  using assms
  by (cases c) (auto simp: wrong_handle_def call_handle_def manual_call_def commission_call_step_def
      oa_commission_manual_sample_def oa_commission_manual_destroy_def oa_commission_recipe_destroy_def
      oa_commission_manual_begin_review_def oa_commission_manual_commit_def oa_commission_manual_abort_def
      oa_commission_manual_get_report_def oa_commission_recipe_step_def
      oa_commission_recipe_commit_def oa_commission_recipe_abort_def oa_commission_recipe_get_report_def
      use_manual_wrong use_recipe_wrong remove_wrong split: option.splits)

text \<open>A call changes no entry but that of its own handle.\<close>

lemma other_handle:
  assumes "registry_good reg" "registry_issued reg h" "call_handle c \<noteq> Some h"
  shows "handles (snd (commission_call_step c reg)) h = handles reg h"
proof -
  have um: "handles r h = handles reg h" if "use_manual t f out reg = (st, o', r)" "t \<noteq> h"
    for t :: u64 and f and out o' :: 'o and st r
    using that by (auto simp: use_manual_def registry_change_def split: option.splits if_splits prod.splits)
  have ur: "handles r h = handles reg h" if "use_recipe t f out reg = (st, o', r)" "t \<noteq> h"
    for t :: u64 and f and out o' :: 'o and st r
    using that by (auto simp: use_recipe_def registry_change_def split: option.splits if_splits prod.splits)
  have rm: "handles r h = handles reg h" if "registry_remove t k reg = (ok, r)" "t \<noteq> h" for t k ok r
    using that by (auto simp: registry_remove_def registry_erase_def split: option.splits if_splits)
  have ad: "handles r h = handles reg h" if "registry_add e reg = (ot, r)" for e ot r
    using that assms(1,2) registry.add_none [of e reg r] registry_add_some [of reg e _ r]
    by (cases ot) auto
  show ?thesis
  proof (cases c)
    case (Manual_destroy t)
    with assms(3) show ?thesis
      by (cases "registry_remove t Manual reg")
        (auto simp: commission_call_step_def oa_commission_manual_destroy_def call_handle_def dest: rm)
  next
    case (Recipe_destroy t)
    with assms(3) show ?thesis
      by (cases "registry_remove t Recipe reg")
        (auto simp: commission_call_step_def oa_commission_recipe_destroy_def call_handle_def dest: rm)
  qed (use assms(3) in \<open>auto simp: commission_call_step_def call_handle_def oa_commission_manual_create_def
      oa_commission_manual_sample_def oa_commission_manual_begin_review_def oa_commission_manual_commit_def
      oa_commission_manual_abort_def oa_commission_manual_get_report_def oa_commission_recipe_create_def
      oa_commission_recipe_step_def oa_commission_recipe_commit_def oa_commission_recipe_abort_def
      oa_commission_recipe_get_report_def add_manual_def add_recipe_def Let_def
      dest: um ur ad split: option.splits prod.splits if_splits\<close>)
qed

section \<open>Properties\<close>

definition sample_create :: commission_call where
  "sample_create = Manual_create (Some sample_options) (Some 0) False"

lemma sample_created:
  "run_calls [sample_create] new_registry
   = \<lparr>handles = [1 \<mapsto> \<lparr>entry_kind = Manual, entry_manual = Some (new_manual sample_options),
        entry_recipe = None\<rparr>], next_token = 2\<rparr>"
proof -
  have "validate_record SIZEOF_MANUAL_OPTIONS (Some sample_options) = OA_COMMISSION_OK"
    by (simp add: validate_record_def valid_header_def sample_options_def)
  then show ?thesis
    by (simp add: run_calls_def sample_create_def commission_call_step_def oa_commission_manual_create_def
        sample_options_valid add_manual_def registry_add_def new_registry_def)
qed

lemma sample_destroyed:
  "run_calls [sample_create, Manual_destroy 1] new_registry = \<lparr>handles = Map.empty, next_token = 2\<rparr>"
proof -
  have "run_calls [sample_create, Manual_destroy 1] new_registry
      = snd (commission_call_step (Manual_destroy 1) (run_calls [sample_create] new_registry))"
    by (simp add: run_calls_def)
  also have "\<dots> = \<lparr>handles = Map.empty, next_token = 2\<rparr>"
    unfolding sample_created
    by (simp add: commission_call_step_def oa_commission_manual_destroy_def registry_remove_def
        registry_erase_def)
  finally show ?thesis .
qed

text \<open>
  C35: a destroyed handle is dead for good. Once a token was issued and its session is gone, no
  sequence of calls brings it back, and every later call through it fails without an effect.
\<close>

theorem handle_never_revived:
  assumes "reg = run_calls cs0 new_registry" "registry_issued reg h" "handles reg h = None"
    and "call_handle c = Some h"
  shows "handles (run_calls cs reg) h = None
    \<and> fst (commission_call_step c (run_calls cs reg)) \<noteq> Some OA_COMMISSION_OK
    \<and> snd (commission_call_step c (run_calls cs reg)) = run_calls cs reg"
proof -
  have "registry_good reg" unfolding assms(1) by (rule calls_good [OF new_registry_good])
  moreover have "registry.dead h reg" using assms(2,3) by (simp add: registry.dead_def)
  ultimately have "registry.dead h (run_calls cs reg)" by (rule run_dead)
  then have none: "handles (run_calls cs reg) h = None" by (simp add: registry.dead_def)
  then have "wrong_handle c (run_calls cs reg)" by (simp add: wrong_handle_def assms(4))
  with none wrong_handle_call show ?thesis by blast
qed

theorem handle_never_revived_witness:
  "handles (run_calls [sample_create] (run_calls [sample_create, Manual_destroy 1] new_registry)) 1 = None"
  using handle_never_revived [OF refl, of "[sample_create, Manual_destroy 1]" 1 "Manual_abort 1" "[sample_create]"]
  by (simp add: sample_destroyed registry_issued_def call_handle_def)

text \<open>
  Handles are isolated and not confused. In a registry reached by any calls, a call through a
  handle of the other kind, a null or an unknown handle fails without an effect, and a call changes
  the session of no other handle.
\<close>

theorem handle_isolation:
  assumes "reg = run_calls cs new_registry"
  shows "(wrong_handle c reg \<longrightarrow> fst (commission_call_step c reg) \<noteq> Some OA_COMMISSION_OK
       \<and> snd (commission_call_step c reg) = reg)
    \<and> (registry_issued reg h \<and> call_handle c \<noteq> Some h
       \<longrightarrow> handles (snd (commission_call_step c reg)) h = handles reg h)"
  using wrong_handle_call [of c reg] other_handle [of reg h c] calls_good [OF new_registry_good, of cs]
  by (simp add: assms)

theorem handle_isolation_witness:
  "snd (commission_call_step (Recipe_abort_call 1) (run_calls [sample_create] new_registry))
   = run_calls [sample_create] new_registry"
  using handle_isolation [OF refl, of "Recipe_abort_call 1" "[sample_create]" 1]
  by (simp add: sample_created wrong_handle_def call_handle_def manual_call_def)

end
