(* ===== verification/Sha256.thy ===== *)
theory Sha256
  imports Prelude
begin

text \<open>
  runtime/src/sha256.cpp: SHA-256 and HMAC-SHA-256, with which the runtime names and
  authenticates its persistent records. Arrays are lists of their length. The lemmas bring the code
  into the form of the standard, blocks of a padded message and a hexadecimal text of bytes;
  \<open>Sha256_Standard\<close> compares that form with FIPS 180-4 and RFC 2104.
\<close>

text \<open>The round constants, four to a row.\<close>

definition sha256_k :: "u32 list" where
  "sha256_k = concat [
    [0x428a2f98, 0x71374491, 0xb5c0fbcf, 0xe9b5dba5],
    [0x3956c25b, 0x59f111f1, 0x923f82a4, 0xab1c5ed5],
    [0xd807aa98, 0x12835b01, 0x243185be, 0x550c7dc3],
    [0x72be5d74, 0x80deb1fe, 0x9bdc06a7, 0xc19bf174],
    [0xe49b69c1, 0xefbe4786, 0x0fc19dc6, 0x240ca1cc],
    [0x2de92c6f, 0x4a7484aa, 0x5cb0a9dc, 0x76f988da],
    [0x983e5152, 0xa831c66d, 0xb00327c8, 0xbf597fc7],
    [0xc6e00bf3, 0xd5a79147, 0x06ca6351, 0x14292967],
    [0x27b70a85, 0x2e1b2138, 0x4d2c6dfc, 0x53380d13],
    [0x650a7354, 0x766a0abb, 0x81c2c92e, 0x92722c85],
    [0xa2bfe8a1, 0xa81a664b, 0xc24b8b70, 0xc76c51a3],
    [0xd192e819, 0xd6990624, 0xf40e3585, 0x106aa070],
    [0x19a4c116, 0x1e376c08, 0x2748774c, 0x34b0bcb5],
    [0x391c0cb3, 0x4ed8aa4a, 0x5b9cca4f, 0x682e6ff3],
    [0x748f82ee, 0x78a5636f, 0x84c87814, 0x8cc70208],
    [0x90befffa, 0xa4506ceb, 0xbef9a3f7, 0xc67178f2]]"

definition sha256_initial :: "u32 list" where
  "sha256_initial = [0x6a09e667,0xbb67ae85,0x3c6ef372,0xa54ff53a,
                     0x510e527f,0x9b05688c,0x1f83d9ab,0x5be0cd19]"

definition sha_rotate :: "u32 \<Rightarrow> nat \<Rightarrow> u32" where
  "sha_rotate v amount = drop_bit amount v OR push_bit (32 - amount) v"

definition message_word :: "u8 list \<Rightarrow> nat \<Rightarrow> u32" where
  "message_word d i =
     push_bit 24 (ucast (d ! (i * 4))) OR push_bit 16 (ucast (d ! (i * 4 + 1)))
     OR push_bit 8 (ucast (d ! (i * 4 + 2))) OR ucast (d ! (i * 4 + 3))"

definition schedule_step :: "nat \<Rightarrow> u32 list \<Rightarrow> u32 list" where
  "schedule_step i w =
     (let s0 = sha_rotate (w ! (i - 15)) 7 XOR sha_rotate (w ! (i - 15)) 18 XOR drop_bit 3 (w ! (i - 15));
          s1 = sha_rotate (w ! (i - 2)) 17 XOR sha_rotate (w ! (i - 2)) 19 XOR drop_bit 10 (w ! (i - 2))
      in w[i := w ! (i - 16) + s0 + w ! (i - 7) + s1])"

definition schedule :: "u8 list \<Rightarrow> u32 list" where
  "schedule d = fold schedule_step [16 ..< 64]
     (fold (\<lambda>i w. w[i := message_word d i]) [0 ..< 16] (replicate 64 0))"

text \<open>The eight working variables, and one round.\<close>

type_synonym working = "u32 \<times> u32 \<times> u32 \<times> u32 \<times> u32 \<times> u32 \<times> u32 \<times> u32"

definition sha_round :: "u32 list \<Rightarrow> nat \<Rightarrow> working \<Rightarrow> working" where
  "sha_round w i v =
     (case v of (a, b, c, d, e, f, g, h) \<Rightarrow>
      let s1 = sha_rotate e 6 XOR sha_rotate e 11 XOR sha_rotate e 25;
          choice = (e AND f) XOR (NOT e AND g);
          temp1 = h + s1 + choice + sha256_k ! i + w ! i;
          s0 = sha_rotate a 2 XOR sha_rotate a 13 XOR sha_rotate a 22;
          majority = (a AND b) XOR (a AND c) XOR (b AND c);
          temp2 = s0 + majority
      in (temp1 + temp2, a, b, c, d + temp1, e, f, g))"

definition sha_block :: "u8 list \<Rightarrow> u32 list \<Rightarrow> u32 list" where
  "sha_block input st =
     (case fold (sha_round (schedule input)) [0 ..< 64]
             (st ! 0, st ! 1, st ! 2, st ! 3, st ! 4, st ! 5, st ! 6, st ! 7) of
        (a, b, c, d, e, f, g, h) \<Rightarrow>
          [st ! 0 + a, st ! 1 + b, st ! 2 + c, st ! 3 + d, st ! 4 + e, st ! 5 + f, st ! 6 + g, st ! 7 + h])"

text \<open>The whole blocks of the input: the offset reached and the state.\<close>

function whole_blocks :: "u8 list \<Rightarrow> nat \<Rightarrow> u32 list \<Rightarrow> nat \<times> u32 list" where
  "whole_blocks d off st =
     (if length d - off \<ge> 64 then whole_blocks d (off + 64) (sha_block (drop off d) st)
      else (off, st))"
  by pat_completeness auto
termination
  by (relation "measure (\<lambda>(d, off, st). length d - off)") auto

declare whole_blocks.simps [simp del]

definition sha_tail :: "u8 list \<Rightarrow> nat \<Rightarrow> u8 list" where
  "sha_tail d off =
     (let remaining = length d - off;
          t0 = fold (\<lambda>i t. t[i := d ! (off + i)]) [0 ..< remaining] (replicate 128 0);
          t1 = t0[remaining := 0x80];
          padded = (if remaining < 56 then 64 else 128);
          bits = (of_nat (length d) :: u64) * 8
      in fold (\<lambda>i t. t[padded - 1 - i := ucast (drop_bit (i * 8) bits)]) [0 ..< 8] t1)"

definition sha256_state :: "u8 list \<Rightarrow> u32 list" where
  "sha256_state d =
     (case whole_blocks d 0 sha256_initial of (off, st) \<Rightarrow>
      let tail = sha_tail d off;
          st1 = sha_block tail st
      in if length d - off < 56 then st1 else sha_block (drop 64 tail) st1)"

definition hex_digit :: "u8 \<Rightarrow> char" where
  "hex_digit n = ''0123456789abcdef'' ! unat n"

definition digest_byte :: "u32 list \<Rightarrow> nat \<Rightarrow> u8" where
  "digest_byte st i = ucast (drop_bit (24 - (i mod 4) * 8) (st ! (i div 4)))"

definition sha256_hex :: "u8 list \<Rightarrow> string" where
  "sha256_hex d =
     (let st = sha256_state d in
      fold (\<lambda>i r. (r[i * 2 := hex_digit (drop_bit 4 (digest_byte st i))])
                   [i * 2 + 1 := hex_digit (digest_byte st i AND 0xf)])
        [0 ..< 32] (replicate 64 CHR ''0''))"

definition hex_nibble :: "char \<Rightarrow> u8" where
  "hex_nibble c = (if of_char c \<ge> (97 :: nat) then of_char c - 97 + 10 else of_char c - 48)"

definition hmac_sha256_hex :: "u8 list \<Rightarrow> u8 list \<Rightarrow> string" where
  "hmac_sha256_hex key d =
     (let key_byte = (\<lambda>i. if i < length key then key ! i else 0);
          inner_pad = map (\<lambda>i. key_byte i XOR 0x36) [0 ..< 64];
          outer_pad = map (\<lambda>i. key_byte i XOR 0x5c) [0 ..< 64];
          inner_hex = sha256_hex (inner_pad @ d);
          inner_digest = map (\<lambda>i. push_bit 4 (hex_nibble (inner_hex ! (i * 2)))
                                   OR hex_nibble (inner_hex ! (i * 2 + 1))) [0 ..< 32]
      in sha256_hex (outer_pad @ inner_digest))"

section \<open>The standard's padding\<close>

definition be64 :: "u64 \<Rightarrow> u8 list" where
  "be64 v = map (\<lambda>i. ucast (drop_bit ((7 - i) * 8) v)) [0 ..< 8]"

definition padding_zeros :: "nat \<Rightarrow> nat" where
  "padding_zeros n = (119 - n mod 64) mod 64"

definition sha_pad :: "u8 list \<Rightarrow> u8 list" where
  "sha_pad d = d @ [0x80] @ replicate (padding_zeros (length d)) 0 @ be64 (of_nat (length d) * 8)"

fun chunk_fold :: "nat \<Rightarrow> u8 list \<Rightarrow> u32 list \<Rightarrow> u32 list" where
  "chunk_fold 0 d st = st"
| "chunk_fold (Suc n) d st = chunk_fold n (drop 64 d) (sha_block (take 64 d) st)"

definition reference_digest :: "u8 list \<Rightarrow> u8 list" where
  "reference_digest d =
     (let st = chunk_fold (length (sha_pad d) div 64) (sha_pad d) sha256_initial
      in map (digest_byte st) [0 ..< 32])"

lemma length_sha_pad: "length (sha_pad d) = (length d div 64 + (if length d mod 64 < 56 then 1 else 2)) * 64"
proof -
  have "(119 - r) mod 64 + r + 9 = (if r < 56 then 64 else 128)" if "r < 64" for r :: nat
  proof (cases "r < 56")
    case True
    then have "(119 - r) mod 64 = 55 - r"
      by (simp add: mod_if [of "119 - r"])
    with True show ?thesis by simp
  next
    case False
    with that show ?thesis by simp
  qed
  note padded = this
  define q r where "q = length d div 64" and "r = length d mod 64"
  then have d: "length d = q * 64 + r" and r: "r < 64" by simp_all
  show ?thesis
    using padded [OF r] r by (auto simp: sha_pad_def padding_zeros_def be64_def d split: if_splits)
qed

text \<open>A block reads the first 64 bytes only.\<close>

lemma fold_cong_upt:
  "(\<And>i x. i < n \<Longrightarrow> f i x = g i x) \<Longrightarrow> fold f [0 ..< n] x = fold g [0 ..< n] x"
  by (rule fold_cong) auto

lemma sha_block_take: "64 \<le> length d \<Longrightarrow> sha_block (take 64 d) st = sha_block d st"
proof -
  assume d: "64 \<le> length d"
  have "message_word (take 64 d) i = message_word d i" if "i < 16" for i
    using that d by (simp add: message_word_def)
  then have "schedule (take 64 d) = schedule d"
    unfolding schedule_def by (intro arg_cong [of _ _ "fold _ _"] fold_cong_upt) simp
  then show ?thesis by (simp add: sha_block_def)
qed

section \<open>The code computes the standard's digest\<close>

lemma chunk_fold_add: "chunk_fold (m + n) d st = chunk_fold n (drop (64 * m) d) (chunk_fold m d st)"
  by (induction m arbitrary: d st) (simp_all add: add.commute)

lemma chunk_fold_append:
  "64 * n \<le> length d \<Longrightarrow> chunk_fold n (d @ e) st = chunk_fold n d st"
  by (induction n arbitrary: d st) simp_all

lemma whole_blocks_eq:
  "off \<le> length d \<Longrightarrow> whole_blocks d off st
     = (off + (length d - off) div 64 * 64, chunk_fold ((length d - off) div 64) (drop off d) st)"
proof (induction "length d - off" arbitrary: off st rule: less_induct)
  case less
  show ?case
  proof (cases "length d - off \<ge> 64")
    case False
    then show ?thesis by (subst whole_blocks.simps) simp
  next
    case True
    define m where "m = length d - (off + 64)"
    have len: "length d - off = m + 64" using True by (simp add: m_def)
    have "whole_blocks d off st = whole_blocks d (off + 64) (sha_block (drop off d) st)"
      using True by (subst whole_blocks.simps) simp
    also have "\<dots> = (off + 64 + m div 64 * 64, chunk_fold (m div 64) (drop (off + 64) d) (sha_block (drop off d) st))"
      using less(1) [of "off + 64"] True by (simp add: m_def)
    also have "sha_block (drop off d) st = sha_block (take 64 (drop off d)) st"
      using True by (simp add: sha_block_take)
    finally have step: "whole_blocks d off st = (off + 64 + m div 64 * 64,
        chunk_fold (m div 64) (drop (off + 64) d) (sha_block (take 64 (drop off d)) st))" .
    have "(m + 64) div 64 = Suc (m div 64)" by simp
    then show ?thesis unfolding len by (simp add: step add.commute)
  qed
qed

lemma fold_update_prefix:
  "n \<le> length t \<Longrightarrow> fold (\<lambda>i t. t[i := f i]) [0 ..< n] t = map f [0 ..< n] @ drop n t"
proof (induction n)
  case (Suc n)
  then have "drop n t = t ! n # drop (Suc n) t" by (simp add: Cons_nth_drop_Suc)
  with Suc show ?case by (simp add: list_update_append)
qed simp

lemma fold_update_down:
  assumes "m \<le> p" "p \<le> length t"
  shows "length (fold (\<lambda>i t. t[p - 1 - i := g i]) [0 ..< m] t) = length t
    \<and> (\<forall>j<length t. fold (\<lambda>i t. t[p - 1 - i := g i]) [0 ..< m] t ! j
          = (if p - m \<le> j \<and> j < p then g (p - 1 - j) else t ! j))"
  using assms
proof (induction m)
  case (Suc m)
  then show ?case by (auto simp: nth_list_update)
qed auto

lemma sha_tail_eq:
  assumes off: "off = length d div 64 * 64"
  shows "take (if length d - off < 56 then 64 else 128) (sha_tail d off) = drop off (sha_pad d)
    \<and> length (sha_tail d off) = 128"
proof -
  define r where "r = length d - off"
  define p where "p = (if r < 56 then 64 else 128 :: nat)"
  define bits :: u64 where "bits = of_nat (length d) * 8"
  have rmod: "r = length d mod 64" and r: "r < 64"
    by (simp_all add: r_def off minus_div_mult_eq_mod)
  have z: "padding_zeros (length d) = p - 9 - r"
  proof (cases "r < 56")
    case True
    then have "(119 - r) mod 64 = 55 - r" by (simp add: mod_if [of "119 - r"])
    with True show ?thesis by (simp add: padding_zeros_def p_def flip: rmod)
  next
    case False
    with r show ?thesis by (simp add: padding_zeros_def p_def flip: rmod)
  qed
  define t1 where "t1 = (map (\<lambda>i. d ! (off + i)) [0 ..< r] @ drop r (replicate 128 (0 :: u8)))[r := 0x80]"
  have tail: "sha_tail d off = fold (\<lambda>i t. t[p - 1 - i := ucast (drop_bit (i * 8) bits)]) [0 ..< 8] t1"
    using r by (simp add: sha_tail_def Let_def fold_update_prefix t1_def bits_def p_def flip: r_def)
  have t1: "length t1 = 128" using r by (simp add: t1_def)
  have p: "8 \<le> p" "p \<le> 128" "r + 9 \<le> p" using r by (auto simp: p_def)
  note down = fold_update_down [of 8 p t1 "\<lambda>i. ucast (drop_bit (i * 8) bits)"]
  have len: "length (sha_tail d off) = 128" using down p t1 by (simp add: tail)
  have offd: "off + r = length d" by (simp add: r_def off)
  have "take p (sha_tail d off) = drop off (sha_pad d)"
  proof (rule nth_equalityI)
    show "length (take p (sha_tail d off)) = length (drop off (sha_pad d))"
      using p len offd by (simp add: sha_pad_def be64_def z)
  next
    fix j assume "j < length (take p (sha_tail d off))"
    then have j: "j < p" by simp
    have pad: "drop off (sha_pad d) = drop off d @ [0x80] @ replicate (p - 9 - r) 0 @ be64 bits"
      using offd by (simp add: sha_pad_def z bits_def)
    have dl: "length d - off = r" using offd by simp
    consider "j < r" | "j = r" | "r < j" "j < p - 8" | "p - 8 \<le> j" by linarith
    then have "sha_tail d off ! j = drop off (sha_pad d) ! j"
    proof cases
      case 1
      then have "sha_tail d off ! j = t1 ! j"
        using down p t1 j by (auto simp: tail)
      with 1 offd r show ?thesis by (simp add: pad t1_def nth_append dl)
    next
      case 2
      then have "sha_tail d off ! j = t1 ! j"
        using down p t1 j by (auto simp: tail)
      with 2 r show ?thesis by (simp add: pad t1_def nth_append dl)
    next
      case 3
      then have "sha_tail d off ! j = t1 ! j"
        using down p t1 j by (auto simp: tail)
      moreover have "t1 ! j = 0" using 3 r p by (simp add: t1_def nth_append)
      moreover have "j - Suc r < p - (9 + r)" using 3 by linarith
      then have "drop off (sha_pad d) ! j = 0" using 3 by (simp add: pad nth_append dl)
      ultimately show ?thesis by simp
    next
      case 4
      then have "sha_tail d off ! j = ucast (drop_bit ((p - 1 - j) * 8) bits)"
        using down p t1 j by (auto simp: tail)
      moreover define front where "front = drop off d @ [0x80] @ replicate (p - 9 - r) 0"
      have "length front = p - 8" using p by (simp add: front_def dl)
      moreover have "drop off (sha_pad d) = front @ be64 bits" by (simp add: pad front_def)
      ultimately have "drop off (sha_pad d) ! j = be64 bits ! (j - (p - 8))"
          "sha_tail d off ! j = ucast (drop_bit ((p - 1 - j) * 8) bits)"
        using 4 by (simp_all add: nth_append)
      moreover have "7 - (j - (p - 8)) = p - 1 - j" using 4 j p by linarith
      ultimately show ?thesis using 4 j p by (simp add: be64_def)
    qed
    then show "take p (sha_tail d off) ! j = drop off (sha_pad d) ! j" using j by simp
  qed
  then show ?thesis using len by (simp add: p_def r_def)
qed

lemma sha256_state_eq:
  "sha256_state d = chunk_fold (length (sha_pad d) div 64) (sha_pad d) sha256_initial"
proof -
  define off where "off = length d div 64 * 64"
  define n where "n = length d div 64"
  define small where "small = (length d - off < 56)"
  note tail = sha_tail_eq [OF off_def, folded small_def]
  have le: "64 * n \<le> length d" by (simp add: n_def)
  have off: "off = 64 * n" by (simp add: off_def n_def)
  have whole: "whole_blocks d 0 sha256_initial = (off, chunk_fold n d sha256_initial)"
    by (simp add: whole_blocks_eq off_def n_def)
  have rmod: "length d - off = length d mod 64"
    by (simp add: off_def minus_div_mult_eq_mod)
  have blocks: "length (sha_pad d) div 64 = n + (if small then 1 else 2)"
    by (simp add: length_sha_pad n_def small_def rmod)
  have "chunk_fold n (sha_pad d) sha256_initial = chunk_fold n d sha256_initial"
    using chunk_fold_append [OF le] by (simp add: sha_pad_def)
  moreover define e where "e = drop off (sha_pad d)"
  ultimately have ref: "chunk_fold (length (sha_pad d) div 64) (sha_pad d) sha256_initial
      = chunk_fold (if small then 1 else 2) e (chunk_fold n d sha256_initial)"
    by (simp add: blocks chunk_fold_add off)
  define t where "t = sha_tail d off"
  have take_t: "take (if small then 64 else 128) t = e" and len: "length t = 128"
    using tail by (simp_all add: t_def e_def)
  have code: "sha256_state d = (let st1 = sha_block t (chunk_fold n d sha256_initial)
      in if small then st1 else sha_block (drop 64 t) st1)"
    by (simp add: sha256_state_def whole t_def small_def Let_def)
  have first: "sha_block t st = sha_block (take 64 t) st" for st
    using len by (simp add: sha_block_take)
  have second: "sha_block (drop 64 t) st = sha_block (take 64 (drop 64 t)) st" for st
    using len by (simp add: sha_block_take)
  show ?thesis
  proof (cases small)
    case True
    then have "take 64 e = take 64 t" using take_t by auto
    then have "chunk_fold 1 e st = sha_block t st" for st by (simp add: first [of st])
    then show ?thesis using True by (simp only: code ref Let_def if_True)
  next
    case False
    then have "e = t" using take_t len by simp
    then have "chunk_fold 2 e st = sha_block (drop 64 t) (sha_block t st)" for st
      by (simp only: numeral_2_eq_2 chunk_fold.simps first [of st] second)
    then show ?thesis using False by (simp only: code ref Let_def if_False)
  qed
qed

section \<open>The hexadecimal text\<close>

lemma hex_digits:
  "list_all (\<lambda>k. hex_nibble (hex_digit (word_of_nat k)) = word_of_nat k
     \<and> hex_digit (word_of_nat k) \<in> set ''0123456789abcdef'') [0 ..< 16]"
  by code_simp

lemma hex_digit_ok:
  assumes "n < 16"
  shows "hex_nibble (hex_digit n) = n \<and> hex_digit n \<in> set ''0123456789abcdef''"
proof -
  have "unat n \<in> set [0 ..< 16]" using assms by (simp add: word_less_nat_alt)
  with hex_digits have "hex_nibble (hex_digit (word_of_nat (unat n))) = word_of_nat (unat n)
      \<and> hex_digit (word_of_nat (unat n)) \<in> set ''0123456789abcdef''"
    unfolding list_all_iff by blast
  then show ?thesis by simp
qed

lemma high_nibble: "drop_bit 4 (b :: u8) < 16"
proof -
  have b: "unat b < 2 ^ LENGTH(8)" by (rule unsigned_less)
  then have "unat b div 16 < 16" by simp
  moreover have "unat (drop_bit 4 b) = unat b div 16"
    using b
    by (simp only: unsigned_drop_bit_eq) (simp add: drop_bit_eq_div take_bit_nat_eq_self)
  ultimately show ?thesis by (simp add: word_less_nat_alt)
qed

lemma low_nibble: "(b :: u8) AND 0xf < 16"
  using word_and_le1 [of b "0xf"] by (simp add: word_le_nat_alt word_less_nat_alt)

lemma nibbles_join: "push_bit 4 (drop_bit 4 b) OR (b AND 0xf) = (b :: u8)"
proof -
  have *: "b AND 0xf = take_bit 4 b" by (simp add: take_bit_eq_mask mask_eq_exp_minus_1)
  show ?thesis
    unfolding *
  proof (rule bit_word_eqI)
    fix n assume "n < LENGTH(8)"
    then show "bit (push_bit 4 (drop_bit 4 b) OR take_bit 4 b) n \<longleftrightarrow> bit b n"
      by (cases "n < 4") (auto simp: bit_simps)
  qed
qed

text \<open>The two characters of each byte, as the loop writes them.\<close>

lemma fold_hex:
  assumes "2 * m \<le> length r"
  shows "length (fold (\<lambda>i r. (r[i * 2 := f i])[i * 2 + 1 := g i]) [0 ..< m] r) = length r
    \<and> (\<forall>i<m. fold (\<lambda>i r. (r[i * 2 := f i])[i * 2 + 1 := g i]) [0 ..< m] r ! (i * 2) = f i
          \<and> fold (\<lambda>i r. (r[i * 2 := f i])[i * 2 + 1 := g i]) [0 ..< m] r ! (i * 2 + 1) = g i)"
  using assms
proof (induction m)
  case (Suc m)
  then show ?case by (auto simp: nth_list_update less_Suc_eq)
qed simp

lemma sha256_hex_chars:
  "length (sha256_hex d) = 64 \<and> (\<forall>i<32.
     sha256_hex d ! (i * 2) = hex_digit (drop_bit 4 (digest_byte (sha256_state d) i))
   \<and> sha256_hex d ! (i * 2 + 1) = hex_digit (digest_byte (sha256_state d) i AND 0xf))"
  using fold_hex [of 32 "replicate 64 CHR ''0''" "\<lambda>i. hex_digit (drop_bit 4 (digest_byte (sha256_state d) i))"
    "\<lambda>i. hex_digit (digest_byte (sha256_state d) i AND 0xf)"]
  by (simp add: sha256_hex_def Let_def)

definition hex_bytes :: "u8 list \<Rightarrow> string" where
  "hex_bytes bs = concat (map (\<lambda>b. [hex_digit (drop_bit 4 b), hex_digit (b AND 0xf)]) bs)"

lemma hex_bytes_nth:
  "i < length bs \<Longrightarrow> hex_bytes bs ! (2 * i) = hex_digit (drop_bit 4 (bs ! i))
     \<and> hex_bytes bs ! (2 * i + 1) = hex_digit (bs ! i AND 0xf)"
proof (induction bs arbitrary: i)
  case (Cons b bs)
  then show ?case by (cases i) (auto simp: hex_bytes_def)
qed simp

lemma length_hex_bytes [simp]: "length (hex_bytes bs) = 2 * length bs"
  by (induction bs) (simp_all add: hex_bytes_def)

lemma sha256_hex_reference: "sha256_hex d = hex_bytes (reference_digest d)"
proof (rule nth_equalityI)
  show "length (sha256_hex d) = length (hex_bytes (reference_digest d))"
    using sha256_hex_chars [of d] by (simp add: reference_digest_def Let_def)
next
  fix j assume "j < length (sha256_hex d)"
  then have j: "j div 2 < 32" using sha256_hex_chars [of d] by simp
  have ref: "reference_digest d ! i = digest_byte (sha256_state d) i" if "i < 32" for i
    using that by (simp add: reference_digest_def sha256_state_eq)
  have len: "length (reference_digest d) = 32" by (simp add: reference_digest_def Let_def)
  show "sha256_hex d ! j = hex_bytes (reference_digest d) ! j"
  proof (cases "even j")
    case True
    then have "j = j div 2 * 2" by simp
    then show ?thesis
      using sha256_hex_chars [of d] j hex_bytes_nth [of "j div 2" "reference_digest d"] ref [OF j] len
      by (metis mult.commute)
  next
    case False
    then have "j = j div 2 * 2 + 1" by presburger
    then show ?thesis
      using sha256_hex_chars [of d] j hex_bytes_nth [of "j div 2" "reference_digest d"] ref [OF j] len
      by (metis mult.commute)
  qed
qed

lemma set_hex_bytes: "set (hex_bytes bs) \<subseteq> set ''0123456789abcdef''"
proof -
  have "hex_digit (drop_bit 4 b) \<in> set ''0123456789abcdef''"
      "hex_digit (b AND 0xf) \<in> set ''0123456789abcdef''" for b :: u8
    using hex_digit_ok [OF high_nibble] hex_digit_ok [OF low_nibble] by blast+
  moreover define alphabet where "alphabet = set ''0123456789abcdef''"
  ultimately show ?thesis unfolding alphabet_def [symmetric]
    by (induction bs) (simp_all add: hex_bytes_def)
qed

lemma length_reference_digest [simp]: "length (reference_digest d) = 32"
  by (simp add: reference_digest_def Let_def)

lemma hmac_pad:
  "map (\<lambda>i. (if i < length key then key ! i else 0) XOR c) [0 ..< 64]
     = map (\<lambda>b. b XOR c) (take 64 (key @ replicate 64 (0 :: u8)))"
  by (rule nth_equalityI) (auto simp: nth_append min_def)

lemma hex_bytes_decode:
  "map (\<lambda>i. push_bit 4 (hex_nibble (hex_bytes bs ! (i * 2))) OR hex_nibble (hex_bytes bs ! (i * 2 + 1)))
     [0 ..< length bs] = bs"
proof (rule nth_equalityI)
  fix i
  assume "i < length (map (\<lambda>i. push_bit 4 (hex_nibble (hex_bytes bs ! (i * 2)))
     OR hex_nibble (hex_bytes bs ! (i * 2 + 1))) [0 ..< length bs])"
  then have i: "i < length bs" by simp
  then show "map (\<lambda>i. push_bit 4 (hex_nibble (hex_bytes bs ! (i * 2)))
      OR hex_nibble (hex_bytes bs ! (i * 2 + 1))) [0 ..< length bs] ! i = bs ! i"
    using hex_bytes_nth [OF i] hex_digit_ok [OF high_nibble [of "bs ! i"]]
      hex_digit_ok [OF low_nibble [of "bs ! i"]] nibbles_join [of "bs ! i"]
    by (simp add: mult.commute)
qed simp

end
