(* ===== verification/Sha256_Standard.thy ===== *)
theory Sha256_Standard
  imports Complex_Main Sha256
begin

text \<open>
  SHA-256 as FIPS 180-4 states it, and the proof that runtime/src/sha256.cpp computes it. Nothing
  of the code is used in the standard's side: the constants are the first 32 bits of the fractional
  parts of roots of primes, the schedule is the recurrence of the standard and the functions are
  rotations and shifts of words.
\<close>

section \<open>The standard\<close>

text \<open>The first sixty-four primes, in two rows of the sieve.\<close>

definition prime_number :: "nat \<Rightarrow> bool" where
  "prime_number n \<longleftrightarrow> 1 < n \<and> list_all (\<lambda>d. \<not> d dvd n) [2 ..< n]"

definition fips_primes :: "nat list" where
  "fips_primes = take 64 (filter prime_number [0 ..< 312])"

text \<open>The first 32 bits of the fractional part of a root (4.2.2 and 5.3.3).\<close>

definition fractional_bits :: "nat \<Rightarrow> nat \<Rightarrow> u32" where
  "fractional_bits k p = word_of_int \<lfloor>frac (root k (real p)) * 2 ^ 32\<rfloor>"

definition fips_K :: "nat \<Rightarrow> u32" where
  "fips_K t = fractional_bits 3 (fips_primes ! t)"

definition fips_H0 :: "u32 list" where
  "fips_H0 = map (fractional_bits 2) (take 8 fips_primes)"

text \<open>The six functions of 4.1.2.\<close>

definition fips_Ch :: "u32 \<Rightarrow> u32 \<Rightarrow> u32 \<Rightarrow> u32" where
  "fips_Ch x y z = (x AND y) XOR (NOT x AND z)"

definition fips_Maj :: "u32 \<Rightarrow> u32 \<Rightarrow> u32 \<Rightarrow> u32" where
  "fips_Maj x y z = (x AND y) XOR (x AND z) XOR (y AND z)"

definition fips_Sigma0 :: "u32 \<Rightarrow> u32" where
  "fips_Sigma0 x = word_rotr 2 x XOR word_rotr 13 x XOR word_rotr 22 x"

definition fips_Sigma1 :: "u32 \<Rightarrow> u32" where
  "fips_Sigma1 x = word_rotr 6 x XOR word_rotr 11 x XOR word_rotr 25 x"

definition fips_sigma0 :: "u32 \<Rightarrow> u32" where
  "fips_sigma0 x = word_rotr 7 x XOR word_rotr 18 x XOR drop_bit 3 x"

definition fips_sigma1 :: "u32 \<Rightarrow> u32" where
  "fips_sigma1 x = word_rotr 17 x XOR word_rotr 19 x XOR drop_bit 10 x"

text \<open>The words of a block, most significant byte first, and the schedule (6.2.2, step 1).\<close>

definition fips_M :: "u8 list \<Rightarrow> nat \<Rightarrow> u32" where
  "fips_M block t =
     ucast (block ! (4 * t)) * 2 ^ 24 + ucast (block ! (4 * t + 1)) * 2 ^ 16
       + ucast (block ! (4 * t + 2)) * 2 ^ 8 + ucast (block ! (4 * t + 3))"

fun fips_W :: "(nat \<Rightarrow> u32) \<Rightarrow> nat \<Rightarrow> u32" where
  "fips_W M t =
     (if t < 16 then M t
      else fips_sigma1 (fips_W M (t - 2)) + fips_W M (t - 7) + fips_sigma0 (fips_W M (t - 15)) + fips_W M (t - 16))"

declare fips_W.simps [simp del]

text \<open>A round (step 3) and a block (steps 2 to 4).\<close>

definition fips_round :: "(nat \<Rightarrow> u32) \<Rightarrow> nat \<Rightarrow> working \<Rightarrow> working" where
  "fips_round W t v =
     (case v of (a, b, c, d, e, f, g, h) \<Rightarrow>
      let T1 = h + fips_Sigma1 e + fips_Ch e f g + fips_K t + W t;
          T2 = fips_Sigma0 a + fips_Maj a b c
      in (T1 + T2, a, b, c, d + T1, e, f, g))"

definition fips_block :: "u8 list \<Rightarrow> u32 list \<Rightarrow> u32 list" where
  "fips_block block H =
     (case fold (fips_round (fips_W (fips_M block))) [0 ..< 64]
             (H ! 0, H ! 1, H ! 2, H ! 3, H ! 4, H ! 5, H ! 6, H ! 7) of
        (a, b, c, d, e, f, g, h) \<Rightarrow>
          [a + H ! 0, b + H ! 1, c + H ! 2, d + H ! 3, e + H ! 4, f + H ! 5, g + H ! 6, h + H ! 7])"

text \<open>The padding (5.1.1): a bit 1, the fewest zeros that leave room for 64 bits, the length in bits.\<close>

definition fips_zeros :: "nat \<Rightarrow> nat" where
  "fips_zeros l = (LEAST k. (l + 1 + k) mod 512 = 448)"

definition fips_pad :: "u8 list \<Rightarrow> u8 list" where
  "fips_pad d = d @ [0x80] @ replicate (fips_zeros (8 * length d) div 8) 0
     @ map (\<lambda>i. of_nat (8 * length d div 2 ^ (8 * (7 - i)))) [0 ..< 8]"

fun fips_blocks :: "nat \<Rightarrow> u8 list \<Rightarrow> u32 list \<Rightarrow> u32 list" where
  "fips_blocks 0 d H = H"
| "fips_blocks (Suc n) d H = fips_blocks n (drop 64 d) (fips_block (take 64 d) H)"

definition fips_digest :: "u8 list \<Rightarrow> u8 list" where
  "fips_digest d =
     concat (map (\<lambda>w. map (\<lambda>i. of_nat (unat w div 2 ^ (8 * (3 - i)))) [0 ..< 4])
       (fips_blocks (length (fips_pad d) div 64) (fips_pad d) fips_H0))"

section \<open>The constants\<close>

text \<open>The bits of a root, from three comparisons of natural numbers.\<close>

lemma fractional_bitsI:
  assumes "0 < k" "B < 2 ^ 32" "(m * 2 ^ 32 + B) ^ k \<le> p * (2 ^ 32) ^ k" "p * (2 ^ 32) ^ k < (m * 2 ^ 32 + B + 1) ^ k"
  shows "fractional_bits k p = of_nat B"
proof -
  define x where "x = root k (real p)"
  have x: "0 \<le> x" "x ^ k = real p" using assms(1) by (simp_all add: x_def)
  have pow: "(x * 2 ^ 32) ^ k = real (p * (2 ^ 32) ^ k)" by (simp add: power_mult_distrib x(2))
  have "real (m * 2 ^ 32 + B) ^ k \<le> (x * 2 ^ 32) ^ k"
    unfolding pow using assms(3) by (simp only: of_nat_power [symmetric] of_nat_le_iff)
  then have lo: "real (m * 2 ^ 32 + B) \<le> x * 2 ^ 32"
    by (rule iffD1 [OF power_mono_iff, rotated 3]) (use x(1) assms(1) in simp_all)
  have "(x * 2 ^ 32) ^ k < real (m * 2 ^ 32 + B + 1) ^ k"
    unfolding pow using assms(4) by (simp only: of_nat_power [symmetric] of_nat_less_iff)
  then have hi: "x * 2 ^ 32 < real (m * 2 ^ 32 + B + 1)"
    by (rule power_less_imp_less_base) simp
  have "real m \<le> x" using lo by (simp add: field_simps)
  moreover have "x < real m + 1" using hi assms(2) by (simp add: field_simps)
  ultimately have "\<lfloor>x\<rfloor> = int m" by (simp add: floor_eq_iff)
  then have "frac x * 2 ^ 32 = x * 2 ^ 32 - real (m * 2 ^ 32)" by (simp add: frac_def algebra_simps)
  then have "\<lfloor>frac x * 2 ^ 32\<rfloor> = int B" using lo hi by (intro floor_unique) simp_all
  then show ?thesis by (simp add: fractional_bits_def flip: x_def)
qed

text \<open>Below 18 squared it is enough to divide by the primes below 18.\<close>

lemma small_factor: "\<exists>p \<in> {2, 3, 5, 7, 11, 13, 17}. p dvd c" if "2 \<le> c" "c < 18" for c :: nat
proof -
  have "c \<in> set [2 ..< 18]" using that by (simp only: set_upt atLeastLessThan_iff)
  moreover have "list_all (\<lambda>c. list_ex (\<lambda>p. p dvd c) [2, 3, 5, 7, 11, 13, 17]) [2 ..< 18 :: nat]" by code_simp
  ultimately have "list_ex (\<lambda>p. p dvd c) [2, 3, 5, 7, 11, 13, 17]" unfolding list_all_iff by blast
  then show ?thesis unfolding list_ex_iff by simp
qed

lemma prime_number_fast:
  assumes "n < 324"
  shows "prime_number n \<longleftrightarrow> 1 < n \<and> list_all (\<lambda>p. n \<le> p \<or> \<not> p dvd n) [2, 3, 5, 7, 11, 13, 17]"
proof
  assume "prime_number n"
  then show "1 < n \<and> list_all (\<lambda>p. n \<le> p \<or> \<not> p dvd n) [2, 3, 5, 7, 11, 13, 17]"
    by (auto simp: prime_number_def list_all_iff not_le)
next
  assume fast: "1 < n \<and> list_all (\<lambda>p. n \<le> p \<or> \<not> p dvd n) [2, 3, 5, 7, 11, 13, 17]"
  have False if d: "2 \<le> d" "d < n" "d dvd n" for d
  proof -
    obtain e where e: "n = d * e" using d(3) by (auto elim: dvdE)
    have "e \<noteq> 0" "e \<noteq> 1" using d e by auto
    then have e2: "2 \<le> e" by simp
    have "2 * e \<le> n" using d(1) unfolding e by (rule mult_le_mono1)
    with e2 have e3: "e < n" by simp
    have "min d e < 18"
    proof (rule ccontr)
      assume "\<not> min d e < 18"
      then have "18 * 18 \<le> d * e" by (intro mult_le_mono) simp_all
      with assms e show False by simp
    qed
    then obtain c where c: "2 \<le> c" "c < 18" "c < n" "c dvd n"
      using d e2 e3 e by (cases "d \<le> e") (auto simp: min_def)
    from small_factor [OF c(1,2)] obtain p where p: "p \<in> {2, 3, 5, 7, 11, 13, 17}" "p dvd c" by blast
    then have "p < n" "p dvd n" using c dvd_imp_le [OF p(2)] by (auto intro: dvd_trans)
    with fast p(1) show False by auto
  qed
  with fast show "prime_number n" by (auto simp: prime_number_def list_all_iff)
qed

lemma fips_primes_are:
  "fips_primes =
    [2, 3, 5, 7, 11, 13, 17, 19, 23, 29, 31, 37, 41, 43, 47, 53, 59, 61, 67, 71, 73, 79, 83, 89, 97, 101, 103, 107,
     109, 113, 127, 131, 137, 139, 149, 151, 157, 163, 167, 173, 179, 181, 191, 193, 197, 199, 211, 223, 227, 229,
     233, 239, 241, 251, 257, 263, 269, 271, 277, 281, 283, 293, 307, 311]"
proof -
  have "filter prime_number [0 ..< 312]
      = filter (\<lambda>n. 1 < n \<and> list_all (\<lambda>p. n \<le> p \<or> \<not> p dvd n) [2, 3, 5, 7, 11, 13, 17]) [0 ..< 312]"
    by (rule filter_cong [OF refl], rule prime_number_fast) simp
  moreover have "[0 ..< 312] = 0 # 1 # [2 ..< 312 :: nat]"
    using upt_conv_Cons [of 0 312] upt_conv_Cons [of "Suc 0" 312]
    by (simp add: numeral_2_eq_2 [symmetric] del: upt_rec_numeral)
  ultimately show ?thesis unfolding fips_primes_def by (simp only:) simp
qed

text \<open>The integer part of a root of a small number, and the test of the bits after it.\<close>

definition small_root :: "nat \<Rightarrow> nat \<Rightarrow> nat" where
  "small_root k p = length (filter (\<lambda>m. m ^ k \<le> p) [1 ..< 20])"

definition root_bits :: "nat \<Rightarrow> nat \<Rightarrow> u32 \<Rightarrow> bool" where
  "root_bits k p w \<longleftrightarrow>
     (let r = small_root k p * 2 ^ 32 + unat w; n = p * (2 ^ 32) ^ k in r ^ k \<le> n \<and> n < (r + 1) ^ k)"

lemma root_bits_fractional:
  assumes "0 < k" "root_bits k p w"
  shows "fractional_bits k p = w"
proof -
  have "unat w < 2 ^ LENGTH(32)" by (rule unsigned_less)
  then have "fractional_bits k p = of_nat (unat w)"
    using assms(2) by (intro fractional_bitsI [OF assms(1), where m = "small_root k p"]) (simp_all add: root_bits_def Let_def)
  then show ?thesis by simp
qed

lemma roots_are: "0 < k \<Longrightarrow> list_all2 (root_bits k) ps ws \<Longrightarrow> map (fractional_bits k) ps = ws"
  unfolding list_all2_conv_all_nth by (intro nth_equalityI) (auto intro: root_bits_fractional)

lemma roots_to_try: "[1 ..< 20] = [1, 2, 3, 4, 5, 6, 7, 8, 9, 10, 11, 12, 13, 14, 15, 16, 17, 18, 19 :: nat]"
  by (simp add: upt_rec)

lemma fips_K_roots: "list_all2 (root_bits 3) fips_primes sha256_k"
  unfolding fips_primes_are sha256_k_def root_bits_def small_root_def roots_to_try by simp

lemma fips_H0_roots: "list_all2 (root_bits 2) (take 8 fips_primes) sha256_initial"
  unfolding fips_primes_are sha256_initial_def root_bits_def small_root_def roots_to_try by simp

lemma fips_K_is: "t < 64 \<Longrightarrow> fips_K t = sha256_k ! t"
proof -
  assume "t < 64"
  moreover have "length fips_primes = 64" by (simp add: fips_primes_are)
  ultimately show ?thesis using roots_are [OF _ fips_K_roots] by (metis fips_K_def nth_map zero_less_numeral)
qed

lemma fips_H0_is: "fips_H0 = sha256_initial"
  unfolding fips_H0_def by (rule roots_are [OF _ fips_H0_roots]) simp

section \<open>Words\<close>

lemma sha_rotate_is:
  assumes "n < 32"
  shows "sha_rotate v n = word_rotr n v"
proof (rule bit_word_eqI)
  fix k assume k: "k < LENGTH(32)"
  show "bit (sha_rotate v n) k \<longleftrightarrow> bit (word_rotr n v) k"
  proof (cases "k + n < 32")
    case True
    with k assms show ?thesis by (auto simp: sha_rotate_def bit_simps add.commute)
  next
    case False
    then have "(k + n) mod 32 = k - (32 - n)" using k assms by (simp add: mod_if)
    moreover have "\<not> bit v (n + k)" using False using bit_imp_le_length [of v "n + k"] by auto
    ultimately show ?thesis using k assms False by (auto simp: sha_rotate_def bit_simps)
  qed
qed

lemma shifted_byte: "bit (push_bit m (ucast (b :: u8) :: u32)) n \<Longrightarrow> m \<le> n \<and> n < m + 8"
  using bit_imp_le_length [of b "n - m"] by (auto simp: bit_simps)

lemma message_word_is: "message_word d t = fips_M d t"
proof -
  have shift: "ucast b * 2 ^ k = push_bit k (ucast b :: u32)" for b :: u8 and k
    by (simp add: push_bit_eq_mult)
  have join: "x + y = x OR y" if "\<And>n. bit x n \<Longrightarrow> \<not> bit y n" for x y :: u32
    using that by (intro disjunctive_add) blast
  have low: "bit (ucast b :: u32) n \<Longrightarrow> n < 8" for b :: u8 and n
    using shifted_byte [of 0 b n] by simp
  show ?thesis
    unfolding message_word_def fips_M_def shift mult.commute [of t 4]
    by (subst join, (fastforce simp: bit_simps dest: shifted_byte low)?)+ (simp add: or.assoc)
qed

lemma byte_of_nat: "of_nat (n div 2 ^ k) = (ucast (drop_bit k (of_nat n :: 'a :: len word)) :: u8)"
  if "k + 8 \<le> LENGTH('a)"
proof (rule bit_word_eqI)
  fix j assume "j < LENGTH(8)"
  with that show "bit (of_nat (n div 2 ^ k) :: u8) j = bit (ucast (drop_bit k (of_nat n :: 'a word)) :: u8) j"
    by (auto simp: bit_simps simp flip: drop_bit_eq_div)
qed

section \<open>One block\<close>

lemma schedule_step_length [simp]: "length (schedule_step i w) = length w"
  by (simp add: schedule_step_def Let_def)

lemma schedule_from:
  assumes "16 \<le> n" "n \<le> 64"
  shows "length (fold schedule_step [16 ..< n] (map M [0 ..< 16] @ replicate 48 0)) = 64
    \<and> (\<forall>t < n. fold schedule_step [16 ..< n] (map M [0 ..< 16] @ replicate 48 0) ! t = fips_W M t)"
  using assms
proof (induction n rule: nat_induct_at_least)
  case base
  then show ?case by (simp add: nth_append fips_W.simps [of M])
next
  case (Suc n)
  define w where "w = fold schedule_step [16 ..< n] (map M [0 ..< 16] @ replicate 48 0)"
  have w: "length w = 64" "\<And>t. t < n \<Longrightarrow> w ! t = fips_W M t" using Suc by (auto simp: w_def)
  have "fold schedule_step [16 ..< Suc n] (map M [0 ..< 16] @ replicate 48 0) = schedule_step n w"
    using Suc.hyps by (simp add: w_def)
  moreover have "schedule_step n w ! n = fips_W M n"
    using w Suc.hyps Suc.prems
    by (simp add: schedule_step_def Let_def fips_W.simps [of M n] fips_sigma0_def fips_sigma1_def sha_rotate_is)
  moreover have "schedule_step n w ! t = fips_W M t" if "t < n" for t
    using w that by (simp add: schedule_step_def Let_def)
  ultimately show ?case using w(1) by (auto simp: less_Suc_eq)
qed

lemma schedule_is: "t < 64 \<Longrightarrow> schedule d ! t = fips_W (fips_M d) t"
  using schedule_from [of 64 "fips_M d"]
  by (simp add: schedule_def fold_update_prefix message_word_is)

lemma round_is: "t < 64 \<Longrightarrow> sha_round (schedule d) t v = fips_round (fips_W (fips_M d)) t v"
  by (cases v) (simp add: sha_round_def fips_round_def schedule_is fips_K_is fips_Sigma0_def fips_Sigma1_def
      fips_Ch_def fips_Maj_def sha_rotate_is Let_def)

lemma block_is: "sha_block d st = fips_block d st"
proof -
  have "fold (sha_round (schedule d)) [0 ..< 64] v = fold (fips_round (fips_W (fips_M d))) [0 ..< 64] v" for v
    by (rule fold_cong_upt) (rule round_is)
  then show ?thesis by (simp add: sha_block_def fips_block_def add.commute split: prod.splits)
qed

lemma blocks_are: "chunk_fold n d st = fips_blocks n d st"
  by (induction n arbitrary: d st) (simp_all add: block_is)

section \<open>The padding\<close>

lemma room_for_length: "(n + padding_zeros n + 1) mod 64 = 56"
proof -
  have "(r + (119 - r) mod 64 + 1) mod 64 = 56" if "r < 64" for r :: nat
  proof (cases "r < 56")
    case True
    then have "(119 - r) mod 64 = 55 - r" by (simp add: mod_if [of "119 - r"])
    with True show ?thesis by simp
  next
    case False
    with that show ?thesis by simp
  qed
  then have "(n mod 64 + ((119 - n mod 64) mod 64 + 1)) mod 64 = 56" by (simp add: add.assoc)
  then show ?thesis unfolding padding_zeros_def by (simp only: mod_add_left_eq add.assoc)
qed

lemma zeros_are: "fips_zeros (8 * n) = 8 * padding_zeros n + 7"
  unfolding fips_zeros_def
proof (rule Least_equality)
  have "8 * n + 1 + (8 * padding_zeros n + 7) = 8 * (n + padding_zeros n + 1)" by simp
  then have "(8 * n + 1 + (8 * padding_zeros n + 7)) mod (8 * 64) = 8 * ((n + padding_zeros n + 1) mod 64)"
    by (simp only: mod_mult_mult1)
  then show good: "(8 * n + 1 + (8 * padding_zeros n + 7)) mod 512 = 448" unfolding room_for_length by simp
  fix k assume k: "(8 * n + 1 + k) mod 512 = 448"
  show "8 * padding_zeros n + 7 \<le> k"
  proof (rule ccontr)
    assume less: "\<not> 8 * padding_zeros n + 7 \<le> k"
    then have "8 * n + 1 + k \<le> 8 * n + 1 + (8 * padding_zeros n + 7)" by simp
    from mod_eq_dvd_iff_nat [OF this, of 512] have "512 dvd 8 * n + 1 + (8 * padding_zeros n + 7) - (8 * n + 1 + k)"
      by (simp only: good k simp_thms)
    then have "512 dvd 8 * padding_zeros n + 7 - k" by (simp only: diff_cancel2 diff_add_inverse add_diff_cancel_left)
    moreover have "padding_zeros n < 64" by (simp add: padding_zeros_def)
    ultimately show False using less by (auto dest!: dvd_imp_le)
  qed
qed

lemma length_bytes_are: "be64 (of_nat n * 8) = map (\<lambda>i. of_nat (8 * n div 2 ^ (8 * (7 - i)))) [0 ..< 8]"
proof -
  have "ucast (drop_bit ((7 - i) * 8) (of_nat n * 8 :: u64)) = (of_nat (8 * n div 2 ^ (8 * (7 - i))) :: u8)" if "i < 8" for i
    using byte_of_nat [of "(7 - i) * 8" "8 * n", where 'a = 64] that by (simp add: mult.commute)
  then show ?thesis unfolding be64_def by (intro map_cong) simp_all
qed

lemma pad_is: "sha_pad d = fips_pad d"
proof -
  have "fips_zeros (8 * length d) div 8 = padding_zeros (length d)" unfolding zeros_are by simp
  then show ?thesis by (simp only: sha_pad_def fips_pad_def length_bytes_are)
qed

section \<open>The digest\<close>

lemma digest_byte_is: "digest_byte st i = of_nat (unat (st ! (i div 4)) div 2 ^ (8 * (3 - i mod 4)))"
proof -
  have "8 * (3 - i mod 4) = 24 - i mod 4 * 8" by simp
  then show ?thesis
    using byte_of_nat [of "24 - i mod 4 * 8" "unat (st ! (i div 4))", where 'a = 32] by (simp add: digest_byte_def)
qed

lemma digest_bytes_are:
  assumes "length st = 8"
  shows "map (digest_byte st) [0 ..< 32]
    = concat (map (\<lambda>w. map (\<lambda>i. of_nat (unat w div 2 ^ (8 * (3 - i)))) [0 ..< 4]) st)"
proof -
  have "map (digest_byte st) [0 ..< 4 * n]
      = concat (map (\<lambda>w. map (\<lambda>i. of_nat (unat w div 2 ^ (8 * (3 - i)))) [0 ..< 4]) (take n st))" if "n \<le> 8" for n
    using that
  proof (induction n)
    case (Suc n)
    have "map (digest_byte st) [4 * n ..< 4 * n + 4] = map (\<lambda>i. of_nat (unat (st ! n) div 2 ^ (8 * (3 - i)))) [0 ..< 4]"
      by (rule nth_equalityI) (auto simp: digest_byte_is)
    moreover have "[0 ..< 4 * Suc n] = [0 ..< 4 * n] @ [4 * n ..< 4 * n + 4]"
      using upt_add_eq_append [of 0 "4 * n" 4] by (simp add: add.commute)
    ultimately show ?case using Suc assms by (simp add: take_Suc_conv_app_nth)
  qed simp
  from this [of 8] assms show ?thesis by simp
qed

lemma length_fips_block [simp]: "length (fips_block b H) = 8"
  by (simp add: fips_block_def split: prod.splits)

lemma length_fips_blocks [simp]: "length (fips_blocks n d H) = (if n = 0 then length H else 8)"
  by (induction n arbitrary: d H) simp_all

lemma reference_is_fips: "reference_digest d = fips_digest d"
proof -
  have "length (fips_blocks n d fips_H0) = 8" for n d by (simp add: fips_H0_is sha256_initial_def)
  then show ?thesis
    by (simp only: reference_digest_def fips_digest_def Let_def blocks_are pad_is fips_H0_is digest_bytes_are)
qed

text \<open>
  C40: \<open>sha256_hex\<close> returns the lower-case hexadecimal text, 64 characters of 0-9a-f, of the digest
  that FIPS 180-4 defines. The standard is stated on its own: its constants as the leading bits of the
  fractional parts of square and cube roots of the first primes, its schedule as a recurrence, its six
  functions over rotations, its padding by the least number of zeros.
\<close>
theorem sha256_is_standard:
  "sha256_hex d = hex_bytes (fips_digest d)
   \<and> length (sha256_hex d) = 64 \<and> set (sha256_hex d) \<subseteq> set ''0123456789abcdef''"
  unfolding sha256_hex_reference reference_is_fips [symmetric] using set_hex_bytes by simp

text \<open>RFC 2104 on bytes, for a key of at most one block.\<close>

definition rfc2104_hmac :: "u8 list \<Rightarrow> u8 list \<Rightarrow> u8 list" where
  "rfc2104_hmac key d =
     (let block_key = take 64 (key @ replicate 64 0)
      in fips_digest (map (\<lambda>b. b XOR 0x5c) block_key @ fips_digest (map (\<lambda>b. b XOR 0x36) block_key @ d)))"

text \<open>
  \<open>hmac_sha256_hex\<close>, which takes the inner digest back from its hexadecimal text before it hashes
  again, computes the HMAC of RFC 2104 for every key of at most 64 bytes (the runtime's have 32).
\<close>
theorem hmac_is_rfc2104:
  "hmac_sha256_hex key d = hex_bytes (rfc2104_hmac key d)"
  using hex_bytes_decode [of "reference_digest d'" for d']
  by (simp add: hmac_sha256_hex_def rfc2104_hmac_def sha256_hex_reference hmac_pad Let_def flip: reference_is_fips)

end
