(* ===== verification/Motor_Sim.thy ===== *)
theory Motor_Sim
  imports Binary64
begin

text \<open>
  The joint motors of the control library (control/src/control_core.cpp, the class
  \<open>DamiaoMotorSimulator\<close>, and the records of control/include/openarm_control.h it uses): the
  configuration of a motor, the quantised fields of a feedback frame, the simulated plant, and
  how a frame is captured and published. The values are binary64 numbers and machine words as in
  the code. The lemmas bound the encoded fields and show that publishing a captured frame gives
  back what was encoded.
\<close>

section \<open>Records\<close>

datatype control_status = OA_CONTROL_OK | OA_CONTROL_EINVAL | OA_CONTROL_EABI | OA_CONTROL_ESTATE
  | OA_CONTROL_ESTALE | OA_CONTROL_ETIMEOUT | OA_CONTROL_ECAN | OA_CONTROL_EFAULT
  | OA_CONTROL_EESTOP | OA_CONTROL_ELIMIT | OA_CONTROL_EIDENTITY | OA_CONTROL_EUNREACHABLE
  | OA_CONTROL_ECOLLISION | OA_CONTROL_EBUSY | OA_CONTROL_EIO | OA_CONTROL_ENOMEM
  | OA_CONTROL_EUNSUPPORTED

abbreviation OA_CONTROL_ABI_V1 :: u32 where "OA_CONTROL_ABI_V1 \<equiv> 1"
abbreviation OA_MOTOR_DM8009 :: u32 where "OA_MOTOR_DM8009 \<equiv> 1"
abbreviation OA_MOTOR_DM4340 :: u32 where "OA_MOTOR_DM4340 \<equiv> 2"
abbreviation OA_MOTOR_DM4310 :: u32 where "OA_MOTOR_DM4310 \<equiv> 3"
abbreviation kAllJoints :: u32 where "kAllJoints \<equiv> 0x7f"

record motor_config = header +
  motor_type :: u32
  joint_index :: u32
  send_id :: u32
  receive_id :: u32
  embedded_motor_id :: u32
  control_mode :: u32
  bitrate :: u32
  timeout_ticks :: u32
  hardware_version :: u32
  software_version :: u32
  firmware_subversion :: u32
  q_scale :: dbl
  q_offset_rad :: dbl
  lower_rad :: dbl
  upper_rad :: dbl
  max_velocity_rad_s :: dbl
  max_acceleration_rad_s2 :: dbl
  max_jerk_rad_s3 :: dbl
  pmax_rad :: dbl
  vmax_rad_s :: dbl
  tmax_nm :: dbl
  gear_ratio :: dbl
  direction :: int
  serial :: string
  joint_name :: string

record measured_motor =
  raw_q :: dbl
  raw_dq :: dbl
  raw_tau :: dbl
  mm_status :: u8
  mos_c :: u8
  coil_c :: u8
  mm_t_ns :: u64
  valid :: bool

record feedback_frame =
  bytes :: "u8 list"
  ff_t_ns :: u64

record motor =
  m_config :: motor_config
  measured :: measured_motor
  plant_raw_q :: dbl
  plant_raw_dq :: dbl
  command_raw_q :: dbl
  command_raw_dq :: dbl
  enabled :: bool
  blocked :: bool
  reaction_gain_nm_per_rad :: dbl
  fault_status :: u8

section \<open>Quantised fields\<close>

text \<open>
  \<open>std::llround\<close>: half away from zero. For a value that is not finite the language leaves the
  result open; x86-64 gives the least 64-bit integer, whose low 32 bits are zero.
\<close>

fun llround :: "dbl \<Rightarrow> int" where
  "llround (Fin x) = (if x < 0 then - \<lfloor>- x + 1 / 2\<rfloor> else \<lfloor>x + 1 / 2\<rfloor>)"
| "llround _ = - (2 ^ 63)"

definition encode_field :: "dbl \<Rightarrow> dbl \<Rightarrow> u32 \<Rightarrow> u32" where
  "encode_field v sp maximum =
     (let unit = (dclamp v (- sp) sp + sp) / (lit 2 * sp)
      in of_int (llround (unit * dbl_of_word maximum)))"

definition decode_field :: "u32 \<Rightarrow> dbl \<Rightarrow> u32 \<Rightarrow> dbl" where
  "decode_field v sp maximum = dbl_of_word v / dbl_of_word maximum * (lit 2 * sp) - sp"

section \<open>The simulated motor\<close>

definition new_motor :: "motor_config \<Rightarrow> motor" where
  "new_motor cfg =
     (let q0 = - q_offset_rad cfg / q_scale cfg in
      \<lparr>m_config = cfg,
       measured = \<lparr>raw_q = 0, raw_dq = 0, raw_tau = 0, mm_status = 0, mos_c = 25, coil_c = 25,
                   mm_t_ns = 0, valid = False\<rparr>,
       plant_raw_q = q0, plant_raw_dq = 0, command_raw_q = q0, command_raw_dq = 0,
       enabled = False, blocked = False, reaction_gain_nm_per_rad = 0, fault_status = 0\<rparr>)"

definition motor_set_enabled :: "bool \<Rightarrow> motor \<Rightarrow> motor" where
  "motor_set_enabled on m = m\<lparr>enabled := on\<rparr>"

definition motor_set_fault :: "u8 \<Rightarrow> motor \<Rightarrow> motor" where
  "motor_set_fault st m = m\<lparr>fault_status := st\<rparr>"

definition motor_command :: "dbl \<Rightarrow> dbl \<Rightarrow> motor \<Rightarrow> motor" where
  "motor_command q dq m =
     m\<lparr>command_raw_q := (q - q_offset_rad (m_config m)) / q_scale (m_config m),
       command_raw_dq := dq / q_scale (m_config m)\<rparr>"

definition motor_set_blocked :: "bool \<Rightarrow> dbl \<Rightarrow> motor \<Rightarrow> motor" where
  "motor_set_blocked b gain m =
     (let fallback = tmax_nm (m_config m) / lit (15 / 100) in
      m\<lparr>blocked := b,
        reaction_gain_nm_per_rad := (if disfinite gain \<and> gain > 0 then gain else fallback)\<rparr>)"

text \<open>The plant of a free motor moves towards its command for \<open>dt_s\<close> seconds.\<close>

definition plant_step :: "dbl \<Rightarrow> motor \<Rightarrow> motor" where
  "plant_step dt_s m =
     (let max_velocity = max_velocity_rad_s (m_config m);
          max_acceleration = max_acceleration_rad_s2 (m_config m);
          position_error = command_raw_q m - plant_raw_q m;
          desired_velocity = dclamp (command_raw_dq m + lit 8 * position_error) (- max_velocity) max_velocity;
          acceleration = dclamp ((desired_velocity - plant_raw_dq m) / lit (8 / 100))
                           (- max_acceleration) max_acceleration;
          dq1 = dclamp (plant_raw_dq m + acceleration * dt_s) (- max_velocity) max_velocity;
          q1 = plant_raw_q m + dq1 * dt_s;
          remaining_error = command_raw_q m - q1;
          still = \<bar>command_raw_dq m\<bar> < lit (1 / 10 ^ 9);
          (q2, dq2) = (if position_error * remaining_error < 0 \<and> still then (command_raw_q m, 0)
                       else (q1, dq1));
          (q3, dq3) = (if \<bar>remaining_error\<bar> < lit (5 / 10 ^ 5) \<and> still \<and> \<bar>dq2\<bar> < lit (1 / 1000)
                       then (command_raw_q m, 0) else (q2, dq2))
      in m\<lparr>plant_raw_q := q3, plant_raw_dq := dq3\<rparr>)"

text \<open>The servo effort of a blocked motor.\<close>

definition contact_tau :: "motor \<Rightarrow> dbl" where
  "contact_tau m =
     (if blocked m then
        let error_model = (command_raw_q m - plant_raw_q m) * q_scale (m_config m);
            tau = reaction_gain_nm_per_rad m * error_model
        in if disfinite tau then tau else 0
      else 0)"

text \<open>The byte layout of a feedback frame.\<close>

definition frame_bytes :: "u8 \<Rightarrow> u32 \<Rightarrow> u32 \<Rightarrow> u32 \<Rightarrow> u32 \<Rightarrow> u8 list" where
  "frame_bytes st motor_id q_field dq_field tau_field =
     [ucast (push_bit 4 (ucast st :: u32) OR (motor_id AND 0x0f)),
      ucast (drop_bit 8 q_field AND 0xff),
      ucast (q_field AND 0xff),
      ucast (drop_bit 4 dq_field AND 0xff),
      ucast (push_bit 4 (dq_field AND 0x0f) OR (drop_bit 8 tau_field AND 0x0f)),
      ucast (tau_field AND 0xff),
      25, 25]"

definition motor_status :: "motor \<Rightarrow> u8" where
  "motor_status m = (if fault_status m \<noteq> 0 then fault_status m else if enabled m then 1 else 0)"

definition capture :: "dbl \<Rightarrow> u64 \<Rightarrow> bool \<Rightarrow> motor \<Rightarrow> feedback_frame \<times> motor" where
  "capture dt_s capture_ns frozen m =
     (let m1 = (if \<not> frozen \<and> \<not> blocked m then plant_step dt_s m else m);
          cfg = m_config m1;
          q_field = encode_field (plant_raw_q m1) (pmax_rad cfg) 65535;
          dq_field = encode_field (plant_raw_dq m1) (vmax_rad_s cfg) 4095;
          tau_field = encode_field (contact_tau m1 * q_scale cfg) (tmax_nm cfg) 4095
      in (\<lparr>bytes = frame_bytes (motor_status m1) (embedded_motor_id cfg) q_field dq_field tau_field,
           ff_t_ns = capture_ns\<rparr>, m1))"

definition publish_frame :: "feedback_frame \<Rightarrow> motor \<Rightarrow> motor" where
  "publish_frame f m =
     (let b = (\<lambda>i. ucast (bytes f ! i) :: u32); cfg = m_config m;
          decoded_q = push_bit 8 (b 1) OR b 2;
          decoded_dq = push_bit 4 (b 3) OR drop_bit 4 (b 4);
          decoded_tau = push_bit 8 (b 4 AND 0x0f) OR b 5
      in m\<lparr>measured := \<lparr>raw_q = decode_field decoded_q (pmax_rad cfg) 65535,
                        raw_dq = decode_field decoded_dq (vmax_rad_s cfg) 4095,
                        raw_tau = decode_field decoded_tau (tmax_nm cfg) 4095,
                        mm_status = drop_bit 4 (bytes f ! 0), mos_c = bytes f ! 6,
                        coil_c = bytes f ! 7, mm_t_ns = ff_t_ns f, valid = True\<rparr>\<rparr>)"

definition motor_force_state :: "dbl \<Rightarrow> dbl \<Rightarrow> u64 \<Rightarrow> motor \<Rightarrow> motor" where
  "motor_force_state q dq feedback_ns m =
     (let q1 = (q - q_offset_rad (m_config m)) / q_scale (m_config m);
          dq1 = dq / q_scale (m_config m);
          m1 = m\<lparr>plant_raw_q := q1, plant_raw_dq := dq1, command_raw_q := q1, command_raw_dq := dq1\<rparr>;
          (f, m2) = capture 0 feedback_ns True m1
      in publish_frame f m2)"

definition mapped_q :: "motor \<Rightarrow> dbl" where
  "mapped_q m = q_scale (m_config m) * raw_q (measured m) + q_offset_rad (m_config m)"

definition mapped_dq :: "motor \<Rightarrow> dbl" where
  "mapped_dq m = q_scale (m_config m) * raw_dq (measured m)"

definition mapped_tau :: "motor \<Rightarrow> dbl" where
  "mapped_tau m = raw_tau (measured m) / q_scale (m_config m)"

section \<open>What the operations keep\<close>

lemma plant_step_frame [frame_rules, simp]:
  "m_config (plant_step dt m) = m_config m" "measured (plant_step dt m) = measured m"
  "enabled (plant_step dt m) = enabled m" "fault_status (plant_step dt m) = fault_status m"
  "blocked (plant_step dt m) = blocked m"
  by (simp_all add: plant_step_def Let_def split_def)

lemma capture_frame [frame_rules, simp]:
  "m_config (snd (capture dt t fz m)) = m_config m" "measured (snd (capture dt t fz m)) = measured m"
  "enabled (snd (capture dt t fz m)) = enabled m" "ff_t_ns (fst (capture dt t fz m)) = t"
  "fault_status (snd (capture dt t fz m)) = fault_status m" "length (bytes (fst (capture dt t fz m))) = 8"
  by (simp_all add: capture_def Let_def frame_bytes_def)

lemma publish_frame_frame [frame_rules, simp]:
  "m_config (publish_frame f m) = m_config m" "enabled (publish_frame f m) = enabled m"
  "mm_t_ns (measured (publish_frame f m)) = ff_t_ns f" "valid (measured (publish_frame f m))"
  "fault_status (publish_frame f m) = fault_status m"
  by (simp_all add: publish_frame_def Let_def)

lemma motor_setters [frame_rules, simp]:
  "enabled (motor_set_enabled on m) = on" "measured (motor_set_enabled on m) = measured m"
  "m_config (motor_set_enabled on m) = m_config m"
  "enabled (motor_set_fault st m) = enabled m" "measured (motor_set_fault st m) = measured m"
  "m_config (motor_set_fault st m) = m_config m"
  "enabled (motor_command q dq m) = enabled m" "measured (motor_command q dq m) = measured m"
  "m_config (motor_command q dq m) = m_config m"
  "enabled (motor_set_blocked b g m) = enabled m" "measured (motor_set_blocked b g m) = measured m"
  "m_config (motor_set_blocked b g m) = m_config m"
  by (simp_all add: motor_set_enabled_def motor_set_fault_def motor_command_def motor_set_blocked_def Let_def)

lemma motor_force_state_frame [frame_rules, simp]:
  "m_config (motor_force_state q dq t m) = m_config m"
  "enabled (motor_force_state q dq t m) = enabled m"
  "fault_status (motor_force_state q dq t m) = fault_status m"
  "mm_t_ns (measured (motor_force_state q dq t m)) = t"
  "valid (measured (motor_force_state q dq t m))"
  by (simp_all add: motor_force_state_def Let_def split_def)

section \<open>Frames\<close>

text \<open>Publishing a frame recovers the fields that were put into it.\<close>

lemma field_bits:
  assumes "unat (w :: u32) < 2 ^ k" "bit w n"
  shows "n < k"
proof -
  have "bit (unat w) n" using assms(2) by (simp add: bit_unsigned_iff)
  then have "unat w div 2 ^ n \<noteq> 0" by (metis bit_iff_odd even_zero)
  then have "2 ^ n \<le> unat w" by (simp add: div_eq_0_iff)
  with assms(1) have "(2 :: nat) ^ n < 2 ^ k" by linarith
  then show ?thesis by simp
qed

lemma frame_bytes_fields:
  fixes st :: u8 and mid :: u32
  assumes q: "q_field \<le> 65535" and dq: "dq_field \<le> 4095" and tau: "tau_field \<le> 4095"
  defines "f \<equiv> frame_bytes st mid q_field dq_field tau_field"
  defines "b \<equiv> (\<lambda>i. ucast (f ! i) :: u32)"
  shows "push_bit 8 (b 1) OR b 2 = q_field"
    and "push_bit 4 (b 3) OR drop_bit 4 (b 4) = dq_field"
    and "push_bit 8 (b 4 AND 0x0f) OR b 5 = tau_field"
    and "drop_bit 4 (f ! 0) = st AND 0x0f"
proof -
  have m: "(0xff :: u32) = mask 8" "(0x0f :: u32) = mask 4" "(0x0f :: u8) = mask 4"
    by (simp_all add: mask_eq_exp_minus_1)
  have qb: "bit q_field n \<Longrightarrow> n < 16" for n
    using field_bits [of q_field 16 n] q by (simp add: word_le_nat_alt)
  have dqb: "bit dq_field n \<Longrightarrow> n < 12" for n
    using field_bits [of dq_field 12 n] dq by (simp add: word_le_nat_alt)
  have taub: "bit tau_field n \<Longrightarrow> n < 12" for n
    using field_bits [of tau_field 12 n] tau by (simp add: word_le_nat_alt)
  show "push_bit 8 (b 1) OR b 2 = q_field"
    by (rule bit_word_eqI) (auto simp: b_def f_def frame_bytes_def m bit_simps dest: qb)
  show "push_bit 4 (b 3) OR drop_bit 4 (b 4) = dq_field"
    by (rule bit_word_eqI)
      (auto simp: b_def f_def frame_bytes_def m bit_simps not_less intro: ccontr dest: dqb)
  show "push_bit 8 (b 4 AND 0x0f) OR b 5 = tau_field"
    by (rule bit_word_eqI) (auto simp: b_def f_def frame_bytes_def m bit_simps dest: taub)
  show "drop_bit 4 (f ! 0) = st AND 0x0f"
    by (rule bit_word_eqI) (auto simp: b_def f_def frame_bytes_def m bit_simps)
qed

text \<open>
  An encoded field never exceeds its maximum, whatever the value: a value outside the span is
  clamped, and one that is not a number becomes zero.
\<close>

lemma dclamp_cases:
  assumes "v \<noteq> DNaN" "0 \<le> s"
  shows "\<exists>c. dclamp v (- Fin s) (Fin s) = Fin c \<and> - s \<le> c \<and> c \<le> s"
  using assms by (cases v) (auto simp: dclamp_def)

lemma llround_bounds:
  assumes "0 \<le> x" "x \<le> of_nat n"
  shows "0 \<le> llround (Fin x)" "llround (Fin x) \<le> int n"
proof -
  have "x + 1 / 2 < of_int (int n + 1)" using assms by simp
  then have "\<lfloor>x + 1 / 2\<rfloor> < int n + 1" by (simp only: floor_less_iff)
  then show "llround (Fin x) \<le> int n" using assms by simp
  show "0 \<le> llround (Fin x)" using assms by simp
qed

lemma rnd_range:
  assumes "lo \<le> x" "x \<le> hi" "representable lo" "representable hi"
  shows "\<exists>z. rnd x = Fin z \<and> lo \<le> z \<and> z \<le> hi"
  using between_finite [OF rnd_ge [OF assms(1,3)] rnd_le [OF assms(2,4)]] by metis

lemma llround_no_number: "(of_int (- (2 ^ 63)) :: u32) = 0"
  by code_simp

lemma unat_small: "n < 2 ^ 31 \<Longrightarrow> unat (of_nat n :: u32) = n"
  by (simp add: unat_of_nat take_bit_nat_eq_self)

lemma encode_field_le:
  assumes s: "1 \<le> s" "s \<le> 1000" and n: "n < 2 ^ 31"
  shows "encode_field v (Fin s) (of_nat n) \<le> of_nat n"
proof (cases "v = DNaN")
  case True
  have "encode_field v (Fin s) (of_nat n) = of_int (- (2 ^ 63))"
    unfolding True by (simp add: encode_field_def Let_def dclamp_def dbl_ops del: of_int_minus of_int_numeral)
  then show ?thesis by (simp only: llround_no_number word_zero_le)
next
  case False
  obtain c where c: "dclamp v (- Fin s) (Fin s) = Fin c" "- s \<le> c" "c \<le> s"
    using dclamp_cases [OF False, of s] s by auto
  obtain y where y: "rnd (2 * s) = Fin y" "2 \<le> y" "y \<le> 2000"
    using rnd_range [of 2 "2 * s" 2000] s by auto
  obtain x where x: "rnd (c + s) = Fin x" "0 \<le> x" "x \<le> y"
  proof -
    have "rnd (c + s) \<le> Fin y" unfolding y(1) [symmetric] using c by (intro rnd_mono) simp
    moreover have "Fin 0 \<le> rnd (c + s)" using c by (intro rnd_ge) simp_all
    ultimately show ?thesis using that by (cases "rnd (c + s)") auto
  qed
  have "x / y \<le> 1" "0 \<le> x / y" using x y by simp_all
  then obtain u where u: "rnd (x / y) = Fin u" "0 \<le> u" "u \<le> 1"
    using rnd_range [of 0 "x / y" 1] by auto
  have rep: "representable (of_nat n)" using representable_int [of "int n"] n by simp
  then have m: "dbl_of_word (of_nat n :: u32) = Fin (of_nat n)"
    using n by (simp add: dbl_of_word_def unat_small rnd_exact)
  have "u * of_nat n \<le> of_nat n" "0 \<le> u * of_nat n" using u by (simp_all add: mult_left_le_one_le)
  then obtain z where z: "rnd (u * of_nat n) = Fin z" "0 \<le> z" "z \<le> of_nat n"
    using rnd_range [of 0 "u * of_nat n" "of_nat n"] rep by auto
  have y0: "y \<noteq> 0" using y by simp
  have two: "lit 2 = Fin 2" by (simp add: lit_def)
  have e: "encode_field v (Fin s) (of_nat n) = of_int (llround (Fin z))"
    by (simp only: encode_field_def Let_def c plus_Fin x two times_Fin y m divide_Fin [OF y0] u z)
  note b = llround_bounds [OF z(2,3)]
  then have "llround (Fin z) = int (nat (llround (Fin z)))" by simp
  then have "encode_field v (Fin s) (of_nat n) = of_nat (nat (llround (Fin z)))"
    unfolding e by (metis of_int_of_nat_eq)
  moreover have "nat (llround (Fin z)) \<le> n" using b by simp
  ultimately show ?thesis using n by (simp add: word_le_nat_alt unat_small)
qed

lemma frame_status: "drop_bit 4 (frame_bytes st mid qf dqf tauf ! 0) = st AND 0x0f"
proof -
  have m: "(0x0f :: u32) = mask 4" "(0x0f :: u8) = mask 4"
    by (simp_all add: mask_eq_exp_minus_1)
  show ?thesis by (rule bit_word_eqI) (auto simp: frame_bytes_def m bit_simps)
qed

lemma publish_capture_status [simp]:
  "mm_status (measured (publish_frame (fst (capture dt t fz m)) n)) = motor_status (snd (capture dt t fz m)) AND 0x0f"
  by (simp add: publish_frame_def capture_def Let_def frame_status)

lemma motor_force_state_status [simp]:
  "mm_status (measured (motor_force_state q dq t m)) = motor_status m AND 0x0f"
  by (simp add: motor_force_state_def Let_def split_def motor_status_def)

text \<open>
  a feedback frame carries what was captured. For a motor whose codec spans are at least 1
  and at most 1000 (the profiles have 10 to 54), publishing the frame of a capture gives back the
  status and the three quantised fields of the plant, whatever the plant's values are: the fields
  never overflow into each other in the eight bytes.
\<close>
theorem feedback_frame_roundtrip:
  assumes cfg: "pmax_rad (m_config m) = Fin a" "vmax_rad_s (m_config m) = Fin b" "tmax_nm (m_config m) = Fin c"
    and spans: "1 \<le> a" "a \<le> 1000" "1 \<le> b" "b \<le> 1000" "1 \<le> c" "c \<le> 1000"
    and cap: "capture dt_s t frozen m = (f, m')"
  shows "measured (publish_frame f m') =
    \<lparr>raw_q = decode_field (encode_field (plant_raw_q m') (Fin a) 65535) (Fin a) 65535,
     raw_dq = decode_field (encode_field (plant_raw_dq m') (Fin b) 4095) (Fin b) 4095,
     raw_tau = decode_field (encode_field (contact_tau m' * q_scale (m_config m)) (Fin c) 4095) (Fin c) 4095,
     mm_status = motor_status m' AND 0x0f, mos_c = 25, coil_c = 25, mm_t_ns = t, valid = True\<rparr>
    \<and> encode_field (plant_raw_q m') (Fin a) 65535 \<le> 65535
    \<and> encode_field (plant_raw_dq m') (Fin b) 4095 \<le> 4095
    \<and> encode_field (contact_tau m' * q_scale (m_config m)) (Fin c) 4095 \<le> 4095"
proof -
  have le: "encode_field v (Fin a) 65535 \<le> 65535" "encode_field v (Fin b) 4095 \<le> 4095"
      "encode_field v (Fin c) 4095 \<le> 4095" for v
    using encode_field_le [of a 65535 v] encode_field_le [of b 4095 v] encode_field_le [of c 4095 v] spans
    by simp_all
  have m': "m_config m' = m_config m" using cap capture_frame(1) [of dt_s t frozen m] by simp
  have f: "bytes f = frame_bytes (motor_status m') (embedded_motor_id (m_config m))
      (encode_field (plant_raw_q m') (Fin a) 65535) (encode_field (plant_raw_dq m') (Fin b) 4095)
      (encode_field (contact_tau m' * q_scale (m_config m)) (Fin c) 4095)" "ff_t_ns f = t"
    using cap m' by (auto simp: capture_def Let_def cfg)
  note fields = frame_bytes_fields [OF le(1) [of "plant_raw_q m'"] le(2) [of "plant_raw_dq m'"]
    le(3) [of "contact_tau m' * q_scale (m_config m)"]]
  have tail: "frame_bytes st i x y z ! 6 = 25" "frame_bytes st i x y z ! 7 = 25" for st i x y z
    by (simp_all add: frame_bytes_def eval_nat_numeral)
  show ?thesis
    unfolding publish_frame_def Let_def f m' cfg fields tail using le by simp
qed

theorem feedback_frame_roundtrip_witness:
  "let m = \<lparr>m_config = \<lparr>struct_size = 248, abi_version = 1, motor_type = 1, joint_index = 0, send_id = 1,
        receive_id = 17, embedded_motor_id = 1, control_mode = 1, bitrate = 1000000, timeout_ticks = 1000,
        hardware_version = 1, software_version = 1, firmware_subversion = 1, q_scale = 1, q_offset_rad = 0,
        lower_rad = - 1, upper_rad = 1, max_velocity_rad_s = 1, max_acceleration_rad_s2 = Fin 2,
        max_jerk_rad_s3 = Fin 10, pmax_rad = Fin (25 / 2), vmax_rad_s = Fin 45, tmax_nm = Fin 54,
        gear_ratio = Fin 9, direction = 1, serial = ''S'', joint_name = ''J''\<rparr>,
      measured = \<lparr>raw_q = 0, raw_dq = 0, raw_tau = 0, mm_status = 0, mos_c = 25, coil_c = 25,
        mm_t_ns = 0, valid = False\<rparr>,
      plant_raw_q = Fin 100, plant_raw_dq = DNaN, command_raw_q = 0, command_raw_dq = 0,
      enabled = True, blocked = False, reaction_gain_nm_per_rad = 0, fault_status = 0\<rparr>;
      r = capture 0 7 True m
    in mm_status (measured (publish_frame (fst r) (snd r))) = 1
       \<and> mm_t_ns (measured (publish_frame (fst r) (snd r))) = 7"
  unfolding Let_def
  by (subst (1 2) feedback_frame_roundtrip [OF _ _ _ _ _ _ _ _ _ prod.collapse [symmetric],
        where a = "25 / 2" and b = 45 and c = 54, THEN conjunct1])
    (simp_all add: motor_status_def)

end
