(* ===== verification/Kinematics.thy ===== *)
theory Kinematics
  imports Binary64
begin

text \<open>
  control/src/kinematics.cpp: the control library's view of the kinematic model, and the part of
  the mathematics library that the controller calls. The C model library (src/model) is a
  parameter, the record \<open>model_lib\<close>: its functions compute with sine and cosine, whose results the
  language does not fix, and the controller relies on nothing but their signatures. The square root
  is the correctly rounded one of IEEE 754; the cube root, which no standard rounds, is a field of
  the record.
\<close>

section \<open>Square root\<close>

text \<open>The integer square root, one bit at a time.\<close>

fun isqrt_from :: "nat \<Rightarrow> nat \<Rightarrow> nat \<Rightarrow> nat" where
  "isqrt_from 0 n r = r"
| "isqrt_from (Suc k) n r =
     (let r' = r + 2 ^ k in if r' * r' \<le> n then isqrt_from k n r' else isqrt_from k n r)"

definition isqrt :: "nat \<Rightarrow> nat" where
  "isqrt n = isqrt_from (floorlog 2 n) n 0"

lemma isqrt_from_bounds:
  "r * r \<le> n \<Longrightarrow> n < (r + 2 ^ k) * (r + 2 ^ k) \<Longrightarrow>
     isqrt_from k n r * isqrt_from k n r \<le> n \<and> n < Suc (isqrt_from k n r) * Suc (isqrt_from k n r)"
proof (induction k arbitrary: r)
  case (Suc k)
  have "r + 2 ^ k + 2 ^ k = r + 2 ^ Suc k" by simp
  with Suc show ?case by (simp only: isqrt_from.simps Let_def split: if_split) (metis not_le)
qed simp

lemma isqrt_bounds: "isqrt n * isqrt n \<le> n" "n < Suc (isqrt n) * Suc (isqrt n)"
proof -
  let ?k = "floorlog 2 n"
  have "n < 2 ^ ?k" by (rule floorlog_leD) simp_all
  also have "(2 :: nat) ^ ?k \<le> 2 ^ ?k * 2 ^ ?k" by simp
  finally have "n < (0 + 2 ^ ?k) * (0 + 2 ^ ?k)" by simp
  from isqrt_from_bounds [OF _ this] show "isqrt n * isqrt n \<le> n" "n < Suc (isqrt n) * Suc (isqrt n)"
    by (simp_all add: isqrt_def)
qed

text \<open>
  \<open>std::sqrt\<close>. The root is taken in units of \<open>2 ^ -600\<close>, in which every root of a positive double
  has more than 60 bits: half a unit added to an inexact integer root stands for the digits below
  it and rounds as the exact root does.
\<close>

fun dsqrt :: "dbl \<Rightarrow> dbl" where
  "dsqrt (Fin x) =
     (if x < 0 then DNaN
      else let y = x * 4 ^ 600; r = isqrt (nat \<lfloor>y\<rfloor>);
               root = of_nat r + (if of_nat (r * r) = y then 0 else 1 / 2)
           in rnd (root / 2 ^ 600))"
| "dsqrt DPosInf = DPosInf"
| "dsqrt _ = DNaN"

section \<open>The model library\<close>

type_synonym joint_vector = "dbl list"
type_synonym point = "dbl list"

record fk_result =
  joint_pre :: "dbl list list"
  joint_axis_body :: "dbl list list"
  hand_tcp :: "dbl list"

record ik_options = header +
  seed :: joint_vector
  posture :: joint_vector
  posture_weight :: joint_vector
  position_tolerance_m :: dbl
  max_joint_step_rad :: dbl
  damping_min :: dbl
  damping_max :: dbl
  limit_margin_rad :: dbl
  max_iterations :: u32

record ik_diagnostics =
  id_q :: joint_vector
  achieved_position_m :: point
  position_error_m :: dbl
  id_min_singular_value :: dbl
  id_collision_checked :: u32

text \<open>What the collision library reports of a pair of arms: whether it could evaluate, and the report.\<close>

record keepout_status =
  clear :: bool
  violation :: u32
  ks_side :: u32
  segment_a :: u32
  segment_b :: u32
  minimum_clearance_m :: dbl
  terminal_pair_active :: bool
  terminal_pair_clearance_m :: dbl
  tcp_separation_m :: dbl
  claw_contact_active :: bool
  claw_hand_gap_m :: dbl
  minimum_other_claw_gap_m :: dbl

record model_lib =
  oa_fk :: "nat \<Rightarrow> joint_vector \<Rightarrow> fk_result option"
  oa_geometric_jacobian :: "nat \<Rightarrow> joint_vector \<Rightarrow> dbl list list option"
  oa_ik_position :: "nat \<Rightarrow> point \<Rightarrow> ik_options \<Rightarrow> ik_diagnostics option"
  oa_model_limits :: "nat \<Rightarrow> nat \<Rightarrow> (dbl \<times> dbl) option"
  oa_collision_evaluate :: "fk_result \<Rightarrow> fk_result \<Rightarrow> u32 \<Rightarrow> bool \<times> keepout_status"
  cbrt :: "dbl \<Rightarrow> dbl"

section \<open>The wrapper\<close>

record kinematic_result =
  joint_xyz :: "dbl list list"
  joint_axis :: "dbl list list"
  tcp_transform :: "dbl list"
  tcp_xyz :: point

record ik_result =
  ik_q :: joint_vector
  achieved :: point
  residual :: dbl
  min_singular_value :: dbl
  ik_collision_checked :: bool

definition forward :: "model_lib \<Rightarrow> nat \<Rightarrow> joint_vector \<Rightarrow> kinematic_result option" where
  "forward lib side q =
     (case oa_fk lib side q of None \<Rightarrow> None
      | Some r \<Rightarrow> Some
          \<lparr>joint_xyz = map (\<lambda>j. map (\<lambda>axis. joint_pre r ! j ! (axis * 4 + 3)) [0 ..< 3]) [0 ..< length q],
           joint_axis = map (\<lambda>j. map (\<lambda>axis. joint_axis_body r ! j ! axis) [0 ..< 3]) [0 ..< length q],
           tcp_transform = hand_tcp r,
           tcp_xyz = map (\<lambda>axis. hand_tcp r ! (axis * 4 + 3)) [0 ..< 3]\<rparr>)"

definition jacobian :: "model_lib \<Rightarrow> nat \<Rightarrow> joint_vector \<Rightarrow> dbl list list option" where
  "jacobian lib side q =
     (case oa_geometric_jacobian lib side q of None \<Rightarrow> None
      | Some value \<Rightarrow>
          if list_all (\<lambda>row. list_all (\<lambda>column. disfinite (value ! row ! column)) [0 ..< 7]) [0 ..< 6]
          then Some (map (\<lambda>row. map (\<lambda>column. value ! row ! column) [0 ..< 7]) [0 ..< 6])
          else None)"

abbreviation OA_MODEL_ABI_VERSION :: u32 where "OA_MODEL_ABI_VERSION \<equiv> 2"
abbreviation SIZEOF_IK_OPTIONS :: u32 where "SIZEOF_IK_OPTIONS \<equiv> 224"

definition inverse_options :: "joint_vector \<Rightarrow> ik_options" where
  "inverse_options q =
     \<lparr>struct_size = SIZEOF_IK_OPTIONS, abi_version = OA_MODEL_ABI_VERSION, seed = q, posture = q,
      posture_weight = replicate 7 1, position_tolerance_m = lit (1 / 10 ^ 6),
      max_joint_step_rad = lit (12 / 100), damping_min = lit (1 / 10 ^ 5), damping_max = lit (1 / 10),
      limit_margin_rad = lit (1 / 10 ^ 5), max_iterations = 500\<rparr>"

definition inverse_kinematics :: "model_lib \<Rightarrow> nat \<Rightarrow> point \<Rightarrow> joint_vector \<Rightarrow> ik_result option" where
  "inverse_kinematics lib side target q =
     (case oa_ik_position lib side target (inverse_options q) of None \<Rightarrow> None
      | Some d \<Rightarrow>
          if \<not> disfinite (position_error_m d) then None
          else Some \<lparr>ik_q = id_q d, achieved = achieved_position_m d, residual = position_error_m d,
                     min_singular_value = id_min_singular_value d,
                     ik_collision_checked = id_collision_checked d \<noteq> 0\<rparr>)"

definition model_limit :: "model_lib \<Rightarrow> nat \<Rightarrow> nat \<Rightarrow> (dbl \<times> dbl) option" where
  "model_limit lib side joint = oa_model_limits lib side joint"

lemma forward_tcp: "forward lib side q = Some r \<Longrightarrow> length (tcp_xyz r) = 3"
  by (auto simp: forward_def split: option.splits)

lemma inverse_finite: "inverse_kinematics lib side target q = Some r \<Longrightarrow> disfinite (residual r)"
  by (auto simp: inverse_kinematics_def split: option.splits if_splits)

end
