(* ===== verification/Arm_Runtime.thy ===== *)
theory Arm_Runtime
  imports Motor_Sim Ring_Buffer Kinematics
begin

text \<open>
  One arm of the control library (control/src/control_core.cpp, the class \<open>ArmRuntime\<close>): seven
  simulated motors, the queue of feedback generations captured but not yet due, the injected
  faults, and the snapshot of the published feedback. A generation is published whole or not at
  all. The lemmas say what every operation keeps of the invariant \<open>arm_wf\<close> and of the motors'
  power, and when a snapshot is fresh.
\<close>

section \<open>Records\<close>

record arm_config = header +
  bus_name :: string
  ac_motor :: "motor_config list"

record feedback_generation =
  fg_frame :: "feedback_frame list"
  capture_ns :: u64
  ready_ns :: u64
  member_mask :: u32

record arm_runtime =
  motors :: "motor list"
  feedback_queue :: "feedback_generation ring"
  complete_cycles :: u64
  feedback_seq :: u64
  freeze_mask :: u32
  drop_mask :: u32
  fault_mask :: u32
  command_fail_mask :: u32
  feedback_delay_ns :: u64
  generation_mask :: u32
  generation_timestamp :: u64

record arm_snapshot = header +
  as_feedback_seq :: u64
  as_t_ns :: u64
  expected_mask :: u32
  fresh_mask :: u32
  as_fault_mask :: u32
  as_q :: "dbl list"
  as_dq :: "dbl list"
  as_tau :: "dbl list"
  as_raw_q :: "dbl list"
  as_raw_dq :: "dbl list"
  as_raw_tau :: "dbl list"
  as_status :: "u8 list"
  as_mos_c :: "u8 list"
  as_coil_c :: "u8 list"

abbreviation SIZEOF_ARM_SNAPSHOT :: u32 where "SIZEOF_ARM_SNAPSHOT \<equiv> 400"

abbreviation zero_joints :: joint_vector where "zero_joints \<equiv> replicate 7 0"

section \<open>Joint masks\<close>

definition has_bit :: "u32 \<Rightarrow> nat \<Rightarrow> bool" where
  "has_bit msk j \<longleftrightarrow> msk AND push_bit j 1 \<noteq> 0"

text \<open>\<open>for (joint) if (...) mask |= 1U << joint\<close>.\<close>

definition mask_where :: "(nat \<Rightarrow> bool) \<Rightarrow> u32" where
  "mask_where P = fold (\<lambda>j msk. if P j then msk OR push_bit j 1 else msk) [0 ..< 7] 0"

section \<open>Operations\<close>

definition new_arm :: "arm_config \<Rightarrow> arm_runtime" where
  "new_arm cfg =
     \<lparr>motors = map new_motor (ac_motor cfg),
      feedback_queue = ring_init 64 \<lparr>fg_frame = [], capture_ns = 0, ready_ns = 0, member_mask = 0\<rparr>,
      complete_cycles = 0, feedback_seq = 0, freeze_mask = 0, drop_mask = 0, fault_mask = 0,
      command_fail_mask = 0, feedback_delay_ns = 0, generation_mask = 0, generation_timestamp = 0\<rparr>"

definition arm_set_enabled :: "bool \<Rightarrow> arm_runtime \<Rightarrow> arm_runtime" where
  "arm_set_enabled on a = a\<lparr>motors := map (motor_set_enabled on) (motors a)\<rparr>"

definition set_fault_mask :: "u32 \<Rightarrow> u8 \<Rightarrow> arm_runtime \<Rightarrow> arm_runtime" where
  "set_fault_mask msk st a =
     a\<lparr>motors := map2 (\<lambda>j. motor_set_fault (if has_bit msk j then st else 0))
                  [0 ..< length (motors a)] (motors a)\<rparr>"

definition set_injection ::
  "u32 \<Rightarrow> u32 \<Rightarrow> u32 \<Rightarrow> u8 \<Rightarrow> u32 \<Rightarrow> u64 \<Rightarrow> arm_runtime \<Rightarrow> arm_runtime" where
  "set_injection freeze dropped faults st fails delay a =
     (let a1 = a\<lparr>freeze_mask := freeze AND kAllJoints, drop_mask := dropped AND kAllJoints,
                 fault_mask := faults AND kAllJoints, command_fail_mask := fails AND kAllJoints,
                 feedback_delay_ns := delay\<rparr>
      in set_fault_mask (fault_mask a1) (if fault_mask a1 = 0 then 0 else st) a1)"

definition enqueue_generation :: "feedback_generation \<Rightarrow> arm_runtime \<Rightarrow> bool \<times> arm_runtime" where
  "enqueue_generation g a =
     (if ring_full (feedback_queue a) then (False, a)
      else (True, a\<lparr>feedback_queue := ring_push g (feedback_queue a)\<rparr>))"

text \<open>
  Publish the generations that are due: whole ones until the queue is drained or one is not due,
  and at most one that lacks a member, which is not published but clears the mask.
\<close>

definition publish_generation :: "feedback_generation \<Rightarrow> arm_runtime \<Rightarrow> arm_runtime" where
  "publish_generation g a =
     a\<lparr>motors := map2 publish_frame (fg_frame g) (motors a), generation_mask := kAllJoints,
       generation_timestamp := capture_ns g, feedback_seq := feedback_seq a + 1,
       feedback_queue := ring_drop (feedback_queue a)\<rparr>"

function publish_due :: "u64 \<Rightarrow> arm_runtime \<Rightarrow> bool \<times> arm_runtime" where
  "publish_due now a =
     (let q = feedback_queue a; g = ring_front q in
      if ring_empty q \<or> ready_ns g > now then (True, a)
      else if member_mask g = kAllJoints then
        if feedback_seq a = UINT64_MAX then (False, a)
        else publish_due now (publish_generation g a)
      else (True, a\<lparr>generation_mask := member_mask g, feedback_queue := ring_drop q\<rparr>))"
  by pat_completeness auto
termination
  by (relation "measure (\<lambda>(now, a). count (feedback_queue a))")
    (auto simp: publish_generation_def ring_drop_def ring_empty_def)

declare publish_due.simps [simp del]

text \<open>One control cycle of the arm: command every motor, capture a generation, publish what is due.\<close>

definition command_motors ::
  "joint_vector \<Rightarrow> joint_vector \<Rightarrow> u64 \<Rightarrow> dbl \<Rightarrow> arm_runtime \<Rightarrow> (feedback_frame \<times> motor) list" where
  "command_motors q_ref dq_ref now dt_s a =
     map (\<lambda>j. capture dt_s now (has_bit (freeze_mask a) j)
              (motor_command (q_ref ! j) (dq_ref ! j) (motors a ! j)))
         [0 ..< length (motors a)]"

definition command_and_step ::
  "joint_vector \<Rightarrow> joint_vector \<Rightarrow> u64 \<Rightarrow> dbl \<Rightarrow> arm_runtime \<Rightarrow> bool \<times> arm_runtime" where
  "command_and_step q_ref dq_ref now dt_s a =
     (if command_fail_mask a \<noteq> 0 then (False, a\<lparr>generation_mask := 0\<rparr>)
      else if feedback_delay_ns a > UINT64_MAX - now then (False, a)
      else
        let moved = command_motors q_ref dq_ref now dt_s a;
            a1 = a\<lparr>motors := map snd moved\<rparr>;
            (queued, a2) = enqueue_generation
              \<lparr>fg_frame = map fst moved, capture_ns = now, ready_ns = now + feedback_delay_ns a,
               member_mask = kAllJoints AND NOT (drop_mask a)\<rparr> a1
        in if \<not> queued then (False, a2)
           else
             let (published, a3) = publish_due now a2
             in if \<not> published then (False, a3)
                else (True, a3\<lparr>complete_cycles := complete_cycles a3 + 1\<rparr>))"

definition clear_queue :: "arm_runtime \<Rightarrow> arm_runtime" where
  "clear_queue a = a\<lparr>feedback_queue := ring_clear (feedback_queue a)\<rparr>"

definition retire_pending_feedback :: "arm_runtime \<Rightarrow> arm_runtime" where
  "retire_pending_feedback a = clear_queue a"

definition arm_force_state :: "joint_vector \<Rightarrow> joint_vector \<Rightarrow> u64 \<Rightarrow> arm_runtime \<Rightarrow> arm_runtime" where
  "arm_force_state q dq now a =
     (let a1 = (clear_queue a)\<lparr>generation_mask := kAllJoints, generation_timestamp := now\<rparr>
      in a1\<lparr>motors := map (\<lambda>j. motor_force_state (q ! j) (dq ! j) now (motors a1 ! j))
                       [0 ..< length (motors a1)],
            feedback_seq := feedback_seq a1 + 1\<rparr>)"

definition measured_q :: "arm_runtime \<Rightarrow> joint_vector" where
  "measured_q a = map mapped_q (motors a)"

definition measured_dq :: "arm_runtime \<Rightarrow> joint_vector" where
  "measured_dq a = map mapped_dq (motors a)"

definition measured_tau :: "arm_runtime \<Rightarrow> joint_vector" where
  "measured_tau a = map mapped_tau (motors a)"

definition arm_materialize_stop :: "bool \<Rightarrow> u64 \<Rightarrow> arm_runtime \<Rightarrow> arm_runtime" where
  "arm_materialize_stop enabled_hold now a =
     (let held_q = measured_q a
      in arm_force_state held_q zero_joints now (arm_set_enabled enabled_hold a))"

definition joint_fresh :: "u64 \<Rightarrow> u64 \<Rightarrow> arm_runtime \<Rightarrow> nat \<Rightarrow> bool" where
  "joint_fresh now timeout a j \<longleftrightarrow>
     (let m = measured (motors a ! j) in
      has_bit (generation_mask a) j \<and> valid m \<and> now \<ge> mm_t_ns m \<and> now - mm_t_ns m \<le> timeout)"

definition arm_snapshot_of :: "u64 \<Rightarrow> u64 \<Rightarrow> arm_runtime \<Rightarrow> arm_snapshot" where
  "arm_snapshot_of now timeout a =
     (let ms = map measured (motors a) in
      \<lparr>struct_size = SIZEOF_ARM_SNAPSHOT, abi_version = OA_CONTROL_ABI_V1,
       as_feedback_seq = feedback_seq a,
       as_t_ns = fold (\<lambda>j t. if joint_fresh now timeout a j then umax t (mm_t_ns (ms ! j)) else t)
                   [0 ..< 7] 0,
       expected_mask = kAllJoints,
       fresh_mask = mask_where (joint_fresh now timeout a),
       as_fault_mask = mask_where (\<lambda>j. mm_status (ms ! j) \<ge> 8),
       as_q = measured_q a, as_dq = measured_dq a, as_tau = measured_tau a,
       as_raw_q = map raw_q ms, as_raw_dq = map raw_dq ms, as_raw_tau = map raw_tau ms,
       as_status = map mm_status ms, as_mos_c = map mos_c ms, as_coil_c = map coil_c ms\<rparr>)"

definition arm_set_blocked :: "bool \<Rightarrow> dbl \<Rightarrow> arm_runtime \<Rightarrow> arm_runtime" where
  "arm_set_blocked b gain a = a\<lparr>motors := map (motor_set_blocked b gain) (motors a)\<rparr>"

definition clear_contact :: "arm_runtime \<Rightarrow> arm_runtime" where
  "clear_contact a = a\<lparr>motors := map (motor_set_blocked False 0) (motors a)\<rparr>"

definition complete_fresh :: "u64 \<Rightarrow> u64 \<Rightarrow> arm_runtime \<Rightarrow> bool" where
  "complete_fresh now timeout a \<longleftrightarrow>
     (let s = arm_snapshot_of now timeout a in fresh_mask s = expected_mask s)"

definition fault_free :: "u64 \<Rightarrow> u64 \<Rightarrow> arm_runtime \<Rightarrow> bool" where
  "fault_free now timeout a \<longleftrightarrow> as_fault_mask (arm_snapshot_of now timeout a) = 0"

definition all_disabled :: "u64 \<Rightarrow> u64 \<Rightarrow> arm_runtime \<Rightarrow> bool" where
  "all_disabled now timeout a \<longleftrightarrow>
     (let s = arm_snapshot_of now timeout a
      in fresh_mask s = kAllJoints \<and> as_fault_mask s = 0 \<and> list_all (\<lambda>st. st = 0) (as_status s))"

section \<open>Masks, one bit per joint\<close>

lemma has_bit_iff: "has_bit msk j \<longleftrightarrow> bit msk j"
proof -
  have "msk AND push_bit j 1 = (if bit msk j then push_bit j 1 else 0)"
    by (rule bit_word_eqI) (auto simp: bit_simps)
  moreover have "bit msk j \<Longrightarrow> push_bit j (1 :: u32) \<noteq> 0"
    using bit_imp_le_length [of msk j] by (auto simp: push_bit_eq_mult not_less)
  ultimately show ?thesis by (auto simp: has_bit_def)
qed

lemma bit_mask_fold:
  "n \<le> 32 \<Longrightarrow> bit (fold (\<lambda>j msk. if P j then msk OR push_bit j 1 else msk) [0 ..< n] (0 :: u32)) j
     \<longleftrightarrow> j < n \<and> P j"
  by (induction n) (auto simp: bit_simps less_Suc_eq)

lemma bit_mask_where: "bit (mask_where P) j \<longleftrightarrow> j < 7 \<and> P j"
  unfolding mask_where_def by (rule bit_mask_fold) simp

lemma mask_where_0: "mask_where P = 0 \<longleftrightarrow> (\<forall>j<7. \<not> P j)"
  by (auto simp: bit_eq_iff bit_mask_where)

lemma bit_all_joints: "bit kAllJoints j \<longleftrightarrow> j < 7"
proof -
  have *: "kAllJoints = mask 7" by (simp add: mask_eq_exp_minus_1)
  show ?thesis by (subst *) (auto simp: bit_mask_iff)
qed

lemma has_bit_all_joints: "has_bit kAllJoints j \<longleftrightarrow> j < 7"
  by (simp only: has_bit_iff bit_all_joints)

lemma mask_where_all: "mask_where P = kAllJoints \<longleftrightarrow> (\<forall>j<7. P j)"
proof
  assume *: "mask_where P = kAllJoints"
  have "bit (mask_where P) j \<longleftrightarrow> j < 7" for j unfolding * by (rule bit_all_joints)
  then have "j < 7 \<and> P j \<longleftrightarrow> j < 7" for j by (simp add: bit_mask_where)
  then show "\<forall>j<7. P j" by blast
next
  assume "\<forall>j<7. P j"
  then show "mask_where P = kAllJoints"
    by (intro bit_word_eqI) (simp only: bit_all_joints bit_mask_where, auto)
qed

section \<open>The invariant\<close>

text \<open>
  Seven motors, a queue within its array, and coherence: every queued frame was captured with its
  generation, and the seven measurements in force were taken at the same instant.
\<close>

definition arm_wf :: "arm_runtime \<Rightarrow> bool" where
  "arm_wf a \<longleftrightarrow> length (motors a) = 7 \<and> ring_wf 64 (feedback_queue a)
     \<and> (\<forall>g\<in>set (ring_list (feedback_queue a)). length (fg_frame g) = 7
           \<and> list_all (\<lambda>f. ff_t_ns f = capture_ns g) (fg_frame g))
     \<and> list_all (\<lambda>m. mm_t_ns (measured m) = generation_timestamp a) (motors a)"

text \<open>No motor of the arm is powered.\<close>

definition unpowered :: "arm_runtime \<Rightarrow> bool" where
  "unpowered a \<longleftrightarrow> list_all (\<lambda>m. \<not> enabled m) (motors a)"

lemma arm_set_enabled_ok [simp]:
  "arm_wf (arm_set_enabled on a) = arm_wf a"
  "unpowered (arm_set_enabled False a)"
  by (simp_all add: arm_wf_def unpowered_def arm_set_enabled_def list_all_iff)

lemma clear_queue_ok [simp]:
  "arm_wf a \<Longrightarrow> arm_wf (clear_queue a)" "unpowered (clear_queue a) = unpowered a"
  "motors (clear_queue a) = motors a" "feedback_seq (clear_queue a) = feedback_seq a"
  by (simp_all add: arm_wf_def unpowered_def clear_queue_def ring_wf_clear)

lemma arm_wf_force_state [simp]: "arm_wf a \<Longrightarrow> arm_wf (arm_force_state q dq now a)"
  by (simp add: arm_force_state_def arm_wf_def Let_def clear_queue_def ring_wf_clear list_all_length)

lemma unpowered_force_state [simp]: "unpowered (arm_force_state q dq now a) = unpowered a"
  by (auto simp: arm_force_state_def unpowered_def Let_def clear_queue_def list_all_length)

lemma arm_wf_materialize_stop [simp]: "arm_wf a \<Longrightarrow> arm_wf (arm_materialize_stop h now a)"
  by (simp add: arm_materialize_stop_def)

lemma unpowered_materialize_stop [simp]: "unpowered (arm_materialize_stop False now a)"
  by (simp add: arm_materialize_stop_def)

lemma set_fault_mask_ok [simp]:
  "arm_wf (set_fault_mask msk st a) = arm_wf a" "unpowered (set_fault_mask msk st a) = unpowered a"
  by (auto simp: arm_wf_def unpowered_def set_fault_mask_def list_all_length)

lemma set_injection_ok [simp]:
  "arm_wf (set_injection f d ft st cf dl a) = arm_wf a"
  "unpowered (set_injection f d ft st cf dl a) = unpowered a"
  by (simp_all add: set_injection_def Let_def) (simp_all add: arm_wf_def unpowered_def)

lemma blocked_ok [simp]:
  "arm_wf (arm_set_blocked b g a) = arm_wf a" "unpowered (arm_set_blocked b g a) = unpowered a"
  "arm_wf (clear_contact a) = arm_wf a" "unpowered (clear_contact a) = unpowered a"
  by (simp_all add: arm_wf_def unpowered_def arm_set_blocked_def clear_contact_def list_all_iff)

lemma arm_wf_new: "length (ac_motor cfg) = 7 \<Longrightarrow> arm_wf (new_arm cfg)"
  by (simp add: arm_wf_def new_arm_def ring_wf_init list_all_length new_motor_def Let_def)

lemma unpowered_new [simp]: "unpowered (new_arm cfg)"
  by (simp add: unpowered_def new_arm_def new_motor_def Let_def list_all_iff)

section \<open>A control cycle\<close>

lemma set_tl_subset: "set (tl xs) \<subseteq> set xs"
  by (cases xs) auto

lemma command_motors_length [simp]: "length (command_motors q dq now dt a) = length (motors a)"
  by (simp add: command_motors_def)

lemma enabled_command_motors:
  "j < length (motors a) \<Longrightarrow> enabled (snd (command_motors q dq now dt a ! j)) = enabled (motors a ! j)
    \<and> measured (snd (command_motors q dq now dt a ! j)) = measured (motors a ! j)
    \<and> ff_t_ns (fst (command_motors q dq now dt a ! j)) = now"
  by (simp add: command_motors_def)

text \<open>Publishing due feedback keeps the invariant, the power and the injected faults.\<close>

lemma publish_generation_ok:
  assumes "arm_wf a" "\<not> ring_empty (feedback_queue a)" "g = ring_front (feedback_queue a)"
  shows "arm_wf (publish_generation g a)" "unpowered (publish_generation g a) = unpowered a"
proof -
  let ?q = "feedback_queue a"
  have wf: "ring_wf 64 ?q" and ms: "length (motors a) = 7" using assms by (simp_all add: arm_wf_def)
  have ne: "ring_list ?q \<noteq> []" using assms(2) by (simp add: ring_empty_def flip: length_0_conv)
  have g: "g = hd (ring_list ?q)" using assms(2,3) wf by (simp add: ring_front_hd)
  then have "g \<in> set (ring_list ?q)" using ne by simp
  then have len: "length (fg_frame g) = 7" "list_all (\<lambda>f. ff_t_ns f = capture_ns g) (fg_frame g)"
    using assms(1) by (simp_all add: arm_wf_def)
  have "set (tl (ring_list ?q)) \<subseteq> set (ring_list ?q)" by (rule set_tl_subset)
  then show "arm_wf (publish_generation g a)"
    using assms(1) len ring_wf_drop [OF wf] ring_list_drop [OF wf]
    by (auto simp: arm_wf_def publish_generation_def list_all_length [of _ "map2 _ _ _"] list_all_length [of _ "fg_frame g"])
  show "unpowered (publish_generation g a) = unpowered a"
    using len ms by (simp add: unpowered_def publish_generation_def list_all_length)
qed

lemma publish_due_ok:
  assumes "arm_wf a"
  shows "arm_wf (snd (publish_due now a)) \<and> unpowered (snd (publish_due now a)) = unpowered a"
  using assms
proof (induction now a rule: publish_due.induct)
  case (1 now a)
  let ?q = "feedback_queue a"
  have wf: "ring_wf 64 ?q" using "1.prems" by (simp add: arm_wf_def)
  show ?case
  proof (cases "ring_empty ?q \<or> ready_ns (ring_front ?q) > now")
    case True
    then show ?thesis using "1.prems" by (subst (1 2) publish_due.simps) (simp add: Let_def)
  next
    case waiting: False
    show ?thesis
    proof (cases "member_mask (ring_front ?q) = kAllJoints")
      case True
      show ?thesis
      proof (cases "feedback_seq a = UINT64_MAX")
        case True
        with waiting \<open>member_mask _ = _\<close> show ?thesis
          using "1.prems" by (subst (1 2) publish_due.simps) (simp add: Let_def)
      next
        case False
        with waiting True "1.prems" show ?thesis
          using "1.IH" [OF refl refl waiting True False] publish_generation_ok [OF "1.prems" _ refl]
          by (subst (1 2) publish_due.simps) (simp add: Let_def)
      qed
    next
      case False
      have "set (tl (ring_list ?q)) \<subseteq> set (ring_list ?q)" by (rule set_tl_subset)
      with waiting False "1.prems" show ?thesis
        using ring_wf_drop [OF wf] ring_list_drop [OF wf]
        by (subst (1 2) publish_due.simps) (auto simp: Let_def arm_wf_def unpowered_def)
    qed
  qed
qed

lemma command_and_step_ok:
  assumes "arm_wf a"
  shows "arm_wf (snd (command_and_step q dq now dt a))
    \<and> unpowered (snd (command_and_step q dq now dt a)) = unpowered a"
proof -
  define a1 where "a1 = a\<lparr>motors := map snd (command_motors q dq now dt a)\<rparr>"
  have a1: "arm_wf a1" "unpowered a1 = unpowered a"
    using assms by (simp_all add: a1_def arm_wf_def unpowered_def list_all_length enabled_command_motors)
  have enq: "arm_wf (snd (enqueue_generation g a1)) \<and> unpowered (snd (enqueue_generation g a1)) = unpowered a"
    if "length (fg_frame g) = 7 \<and> list_all (\<lambda>f. ff_t_ns f = capture_ns g) (fg_frame g)" for g
    using that a1 ring_wf_push [of 64 "feedback_queue a1" g] ring_list_push [of 64 "feedback_queue a1" g]
    by (auto simp: enqueue_generation_def arm_wf_def unpowered_def)
  have mask0: "arm_wf (a\<lparr>generation_mask := 0\<rparr>)" "unpowered (a\<lparr>generation_mask := 0\<rparr>) = unpowered a"
    using assms by (simp_all add: arm_wf_def unpowered_def)
  have cycle: "arm_wf (b\<lparr>complete_cycles := c\<rparr>) = arm_wf b"
      "unpowered (b\<lparr>complete_cycles := c\<rparr>) = unpowered b" for b c
    by (simp_all add: arm_wf_def unpowered_def)
  define g where "g = \<lparr>fg_frame = map fst (command_motors q dq now dt a), capture_ns = now,
      ready_ns = now + feedback_delay_ns a, member_mask = kAllJoints AND NOT (drop_mask a)\<rparr>"
  have "length (fg_frame g) = 7 \<and> list_all (\<lambda>f. ff_t_ns f = capture_ns g) (fg_frame g)"
    using assms by (simp add: g_def arm_wf_def list_all_length enabled_command_motors)
  note e = enq [OF this]
  have "command_and_step q dq now dt a = (if command_fail_mask a \<noteq> 0 then (False, a\<lparr>generation_mask := 0\<rparr>)
      else if feedback_delay_ns a > UINT64_MAX - now then (False, a)
      else let (queued, a2) = enqueue_generation g a1
        in if \<not> queued then (False, a2)
           else let (published, a3) = publish_due now a2
             in if \<not> published then (False, a3)
                else (True, a3\<lparr>complete_cycles := complete_cycles a3 + 1\<rparr>))"
    by (simp add: command_and_step_def Let_def a1_def g_def)
  then show ?thesis
    using assms e publish_due_ok [of "snd (enqueue_generation g a1)" now]
    by (simp add: mask0 cycle split_def Let_def)
qed

section \<open>Freshness, faults and power in a snapshot\<close>

lemma complete_fresh_iff: "complete_fresh now timeout a \<longleftrightarrow> (\<forall>j<7. joint_fresh now timeout a j)"
  by (simp add: complete_fresh_def arm_snapshot_of_def Let_def mask_where_all)

lemma fault_free_iff:
  "arm_wf a \<Longrightarrow> fault_free now timeout a \<longleftrightarrow> list_all (\<lambda>m. mm_status (measured m) < 8) (motors a)"
  by (simp add: fault_free_def arm_snapshot_of_def Let_def mask_where_0 arm_wf_def list_all_length not_le)

lemma all_disabled_iff:
  assumes "arm_wf a"
  shows "all_disabled now timeout a \<longleftrightarrow>
    complete_fresh now timeout a \<and> list_all (\<lambda>m. mm_status (measured m) = 0) (motors a)"
proof -
  have "list_all (\<lambda>m. mm_status (measured m) = 0) (motors a) \<Longrightarrow> fault_free now timeout a"
    using assms by (auto simp: fault_free_iff list_all_length)
  then show ?thesis
    by (auto simp: all_disabled_def complete_fresh_def fault_free_def Let_def arm_snapshot_of_def list.pred_map comp_def)
qed

lemma force_state_fresh: "arm_wf a \<Longrightarrow> complete_fresh now timeout (arm_force_state q dq now a)"
  by (simp add: complete_fresh_iff joint_fresh_def arm_force_state_def Let_def arm_wf_def
      has_bit_all_joints clear_queue_def)

lemma force_state_motors:
  "length (motors (arm_force_state q dq now a)) = length (motors a)"
  "j < length (motors a) \<Longrightarrow> motors (arm_force_state q dq now a) ! j
     = motor_force_state (q ! j) (dq ! j) now (motors a ! j)"
  by (simp_all add: arm_force_state_def Let_def clear_queue_def)

text \<open>No fault is injected.\<close>

definition faultless :: "arm_runtime \<Rightarrow> bool" where
  "faultless a \<longleftrightarrow> list_all (\<lambda>m. fault_status m = 0) (motors a)"

lemma force_state_healthy:
  assumes "arm_wf a" "faultless a"
  shows "fault_free now timeout (arm_force_state q dq t a)"
    and "unpowered a \<Longrightarrow> all_disabled t timeout (arm_force_state q dq t a)"
proof -
  let ?a = "arm_force_state q dq t a"
  have st: "mm_status (measured (motors ?a ! j)) = (if enabled (motors a ! j) then 1 else 0)" if "j < 7" for j
    using that assms by (simp add: arm_wf_def force_state_motors faultless_def list_all_length motor_status_def)
  show "fault_free now timeout ?a"
    using st assms(1) by (simp add: fault_free_iff list_all_length force_state_motors(1)) (simp add: arm_wf_def)
  show "all_disabled t timeout ?a" if "unpowered a"
    using st that assms(1) force_state_fresh [OF assms(1)]
    by (simp add: all_disabled_iff) (simp add: list_all_length unpowered_def arm_wf_def force_state_motors(1))
qed

lemma faultless_force_state [simp]: "faultless (arm_force_state q dq now a) = faultless a"
  by (simp add: faultless_def list_all_length force_state_motors)

lemma faultless_set_enabled [simp]: "faultless (arm_set_enabled on a) = faultless a"
  by (simp add: faultless_def list_all_length arm_set_enabled_def motor_set_enabled_def)

lemma faultless_new [simp]: "faultless (new_arm cfg)"
  by (simp add: faultless_def new_arm_def list.pred_map list.pred_True comp_def new_motor_def Let_def)

section \<open>Sequences of calls on an arm\<close>

datatype arm_call = Arm_enable bool
  | Arm_inject u32 u32 u32 u8 u32 u64
  | Arm_cycle joint_vector joint_vector u64 dbl
  | Arm_force joint_vector joint_vector u64
  | Arm_stop bool u64
  | Arm_retire
  | Arm_block bool dbl
  | Arm_unblock

fun arm_step :: "arm_call \<Rightarrow> arm_runtime \<Rightarrow> arm_runtime" where
  "arm_step (Arm_enable on) a = arm_set_enabled on a"
| "arm_step (Arm_inject fz dr fa st cf dl) a = set_injection fz dr fa st cf dl a"
| "arm_step (Arm_cycle q dq now dt) a = snd (command_and_step q dq now dt a)"
| "arm_step (Arm_force q dq now) a = arm_force_state q dq now a"
| "arm_step (Arm_stop h now) a = arm_materialize_stop h now a"
| "arm_step Arm_retire a = retire_pending_feedback a"
| "arm_step (Arm_block b g) a = arm_set_blocked b g a"
| "arm_step Arm_unblock a = clear_contact a"

lemma arm_step_wf: "arm_wf a \<Longrightarrow> arm_wf (arm_step c a)"
  by (cases c) (simp_all add: command_and_step_ok retire_pending_feedback_def)

lemma arm_run_wf: "arm_wf a \<Longrightarrow> arm_wf (fold arm_step cs a)"
  by (induction cs arbitrary: a) (simp_all add: arm_step_wf)

text \<open>
  C37: published feedback is coherent. Whatever calls are made on an arm of seven motors, the
  queue stays within its array, the seven measurements in force were captured at one instant, and
  a snapshot that reports complete fresh feedback is of an instant not in the future and no older
  than the timeout: measurements of different cycles are never mixed.
\<close>
theorem arm_feedback_coherent:
  assumes "length (ac_motor cfg) = 7" and a: "a = fold arm_step calls (new_arm cfg)"
  shows "length (ring_list (feedback_queue a)) \<le> 64
    \<and> list_all (\<lambda>m. mm_t_ns (measured m) = generation_timestamp a) (motors a)
    \<and> (complete_fresh now timeout a \<longrightarrow>
         generation_timestamp a \<le> now \<and> now - generation_timestamp a \<le> timeout)"
proof -
  have wf: "arm_wf a" unfolding a by (rule arm_run_wf [OF arm_wf_new [OF assms(1)]])
  then have t: "list_all (\<lambda>m. mm_t_ns (measured m) = generation_timestamp a) (motors a)"
      "length (ring_list (feedback_queue a)) \<le> 64" "length (motors a) = 7"
    by (simp_all add: arm_wf_def ring_wf_def)
  then have "mm_t_ns (measured (motors a ! 0)) = generation_timestamp a"
    by (simp add: list_all_length)
  moreover have "joint_fresh now timeout a 0" if "complete_fresh now timeout a"
    using that by (simp add: complete_fresh_iff)
  ultimately show ?thesis using t by (simp add: joint_fresh_def Let_def)
qed

text \<open>The motors of an arm in the samples.\<close>

definition sample_motor :: motor_config where
  "sample_motor = \<lparr>struct_size = 248, abi_version = 1, motor_type = 1, joint_index = 0, send_id = 1,
     receive_id = 17, embedded_motor_id = 1, control_mode = 1, bitrate = 1000000, timeout_ticks = 1000,
     hardware_version = 1, software_version = 1, firmware_subversion = 1, q_scale = 1, q_offset_rad = 0,
     lower_rad = - 1, upper_rad = 1, max_velocity_rad_s = 1, max_acceleration_rad_s2 = Fin 2,
     max_jerk_rad_s3 = Fin 10, pmax_rad = Fin (25 / 2), vmax_rad_s = Fin 45, tmax_nm = Fin 54,
     gear_ratio = Fin 9, direction = 1, serial = ''S'', joint_name = ''J''\<rparr>"

definition sample_arm :: arm_config where
  "sample_arm = \<lparr>struct_size = 0, abi_version = 1, bus_name = ''can0'', ac_motor = replicate 7 sample_motor\<rparr>"

theorem arm_feedback_coherent_witness:
  "complete_fresh 9 5 (fold arm_step [Arm_enable True, Arm_force zero_joints zero_joints 7] (new_arm sample_arm))
   \<and> list_all (\<lambda>m. mm_t_ns (measured m) = 7)
       (motors (fold arm_step [Arm_enable True, Arm_force zero_joints zero_joints 7] (new_arm sample_arm)))"
proof -
  let ?a = "fold arm_step [Arm_enable True, Arm_force zero_joints zero_joints 7] (new_arm sample_arm)"
  have "length (ac_motor sample_arm) = 7" by (simp add: sample_arm_def)
  note c = arm_feedback_coherent [OF this refl,
      of "[Arm_enable True, Arm_force zero_joints zero_joints 7]" 9 5]
  have "generation_timestamp ?a = 7" by (simp add: arm_force_state_def Let_def)
  moreover have "length (motors (new_arm sample_arm)) = 7" by (simp add: new_arm_def sample_arm_def)
  then have "complete_fresh 9 5 ?a"
    by (simp add: complete_fresh_iff joint_fresh_def arm_force_state_def Let_def
        has_bit_all_joints clear_queue_def arm_set_enabled_def)
  ultimately show ?thesis using c by (simp only:)
qed

section \<open>A generation with a missing member\<close>

lemma publish_incomplete:
  assumes wf: "ring_wf 64 (feedback_queue a)" and "ring_list (feedback_queue a) = [g]" "member_mask g \<noteq> kAllJoints"
  shows "publish_due now a = (True, if ready_ns g > now then a
    else a\<lparr>generation_mask := member_mask g, feedback_queue := ring_drop (feedback_queue a)\<rparr>)"
proof -
  have "count (feedback_queue a) = 1" using assms(2) by (metis length_ring_list length_Cons list.size(3) One_nat_def)
  then have "\<not> ring_empty (feedback_queue a)" by (simp add: ring_empty_def)
  moreover from this have "ring_front (feedback_queue a) = g" using assms(2) wf by (simp add: ring_front_hd)
  ultimately show ?thesis using assms(3) by (subst publish_due.simps) (simp add: Let_def)
qed

definition cycle_generation ::
  "joint_vector \<Rightarrow> joint_vector \<Rightarrow> u64 \<Rightarrow> dbl \<Rightarrow> arm_runtime \<Rightarrow> feedback_generation" where
  "cycle_generation q_ref dq_ref now dt a =
     \<lparr>fg_frame = map fst (command_motors q_ref dq_ref now dt a), capture_ns = now,
      ready_ns = now + feedback_delay_ns a, member_mask = kAllJoints AND NOT (drop_mask a)\<rparr>"

definition cycle_queued ::
  "joint_vector \<Rightarrow> joint_vector \<Rightarrow> u64 \<Rightarrow> dbl \<Rightarrow> arm_runtime \<Rightarrow> arm_runtime" where
  "cycle_queued q_ref dq_ref now dt a =
     a\<lparr>motors := map snd (command_motors q_ref dq_ref now dt a),
       feedback_queue := ring_push (cycle_generation q_ref dq_ref now dt a) (feedback_queue a)\<rparr>"

lemma cycle_incomplete:
  fixes q_ref dq_ref :: joint_vector and now :: u64 and dt :: dbl
  assumes a: "arm_wf a" and q: "ring_list (feedback_queue a) = []"
    and dropped: "j < 7" "has_bit (drop_mask a) j"
  defines "g \<equiv> cycle_generation q_ref dq_ref now dt a"
    and "a2 \<equiv> cycle_queued q_ref dq_ref now dt a"
  shows "command_and_step q_ref dq_ref now dt a =
    (if command_fail_mask a \<noteq> 0 then (False, a\<lparr>generation_mask := 0\<rparr>)
     else if feedback_delay_ns a > UINT64_MAX - now then (False, a)
     else (True, (if ready_ns g > now then a2
       else a2\<lparr>generation_mask := member_mask g, feedback_queue := ring_drop (feedback_queue a2)\<rparr>)
         \<lparr>complete_cycles := complete_cycles a + 1\<rparr>))"
    and "\<not> has_bit (member_mask g) j" "map measured (motors a2) = map measured (motors a)"
proof -
  have wf: "ring_wf 64 (feedback_queue a)" using a by (simp add: arm_wf_def)
  have nf: "\<not> ring_full (feedback_queue a)" using wf q by (simp add: ring64.full_iff)
  have q2: "ring_list (feedback_queue a2) = [g]" and wf2: "ring_wf 64 (feedback_queue a2)"
    using wf q nf ring64.contents_push [of "feedback_queue a" g] ring64.good_push [of "feedback_queue a" g]
    by (simp_all add: a2_def cycle_queued_def g_def)
  show lacks: "\<not> has_bit (member_mask g) j"
    using dropped by (simp add: g_def cycle_generation_def has_bit_iff bit_simps)
  show "map measured (motors a2) = map measured (motors a)"
    by (rule nth_equalityI) (simp_all add: a2_def cycle_queued_def enabled_command_motors)
  have "member_mask g \<noteq> kAllJoints" using lacks dropped(1) by (metis has_bit_all_joints)
  note due = publish_incomplete [OF wf2 q2 this, of now]
  have "enqueue_generation g (a\<lparr>motors := map snd (command_motors q_ref dq_ref now dt a)\<rparr>) = (True, a2)"
    using nf by (simp add: enqueue_generation_def a2_def cycle_queued_def g_def)
  then show "command_and_step q_ref dq_ref now dt a =
    (if command_fail_mask a \<noteq> 0 then (False, a\<lparr>generation_mask := 0\<rparr>)
     else if feedback_delay_ns a > UINT64_MAX - now then (False, a)
     else (True, (if ready_ns g > now then a2
       else a2\<lparr>generation_mask := member_mask g, feedback_queue := ring_drop (feedback_queue a2)\<rparr>)
         \<lparr>complete_cycles := complete_cycles a + 1\<rparr>))"
    using due by (simp add: command_and_step_def g_def cycle_generation_def Let_def)
      (simp add: a2_def cycle_queued_def)
qed

text \<open>
  A generation that lacks a member is withheld whole. When the feedback of a joint is dropped
  and no earlier generation is waiting, a control cycle that succeeds changes no measurement and no
  sequence number, and, without a feedback delay, the arm's feedback is not fresh after it.
\<close>
theorem incomplete_generation_withheld:
  assumes a: "arm_wf a" and q: "ring_list (feedback_queue a) = []"
    and dropped: "j < 7" "has_bit (drop_mask a) j"
    and ok: "command_and_step q_ref dq_ref now dt a = (True, a')"
  shows "map measured (motors a') = map measured (motors a) \<and> feedback_seq a' = feedback_seq a
    \<and> (feedback_delay_ns a = 0 \<longrightarrow> \<not> complete_fresh now timeout a')"
  using ok dropped(1) cycle_incomplete [OF a q dropped, of q_ref dq_ref now dt]
  by (auto simp: cycle_queued_def cycle_generation_def complete_fresh_iff joint_fresh_def Let_def split: if_splits)

theorem incomplete_generation_withheld_witness:
  "let a = set_injection 0 1 0 0 0 0 (new_arm sample_arm) in
   fst (command_and_step zero_joints zero_joints 5 0 a)
   \<and> feedback_seq (snd (command_and_step zero_joints zero_joints 5 0 a)) = 0"
proof -
  let ?a = "set_injection 0 1 0 0 0 0 (new_arm sample_arm)"
  have wf: "arm_wf ?a" by (simp add: arm_wf_new sample_arm_def)
  have f: "ring_list (feedback_queue ?a) = []" "command_fail_mask ?a = 0" "feedback_delay_ns ?a = 0"
      "feedback_seq ?a = 0" "drop_mask ?a = 1"
    by (simp_all add: set_injection_def set_fault_mask_def new_arm_def Let_def)
  have d: "has_bit (drop_mask ?a) 0" by (simp add: f has_bit_def)
  have ok: "fst (command_and_step zero_joints zero_joints 5 0 ?a)"
    by (subst cycle_incomplete(1) [OF wf f(1) _ d]) (simp_all add: f)
  then have "command_and_step zero_joints zero_joints 5 0 ?a = (True, snd (command_and_step zero_joints zero_joints 5 0 ?a))"
    by (metis prod.collapse)
  from incomplete_generation_withheld [OF wf f(1) _ d this] ok f(4) show ?thesis
    by (simp add: Let_def)
qed

end
