(* ===== verification/Control_State.thy ===== *)
theory Control_State
  imports Arm_Runtime
begin

text \<open>
  The state of the controller (control/src/control_core.hpp, the class \<open>Controller\<close>, and the
  records of control/include/openarm_control.h) and the operations every other one is built from:
  events, stopping the arms, latching a fault, and the tests on the feedback. The two arms are a
  pair, the seven joints a list.
\<close>

section \<open>The two arms\<close>

type_synonym 'a both = "'a \<times> 'a"

definition pick :: "nat \<Rightarrow> 'a both \<Rightarrow> 'a" where
  [model_defs]: "pick side p = (if side = 0 then fst p else snd p)"

definition put :: "nat \<Rightarrow> 'a \<Rightarrow> 'a both \<Rightarrow> 'a both" where
  [model_defs]: "put side x p = (if side = 0 then (x, snd p) else (fst p, x))"

definition map_both :: "('a \<Rightarrow> 'b) \<Rightarrow> 'a both \<Rightarrow> 'b both" where
  "map_both f p = (f (fst p), f (snd p))"

definition all_both :: "('a \<Rightarrow> bool) \<Rightarrow> 'a both \<Rightarrow> bool" where
  "all_both P p \<longleftrightarrow> P (fst p) \<and> P (snd p)"

lemma all_both_map [simp]: "all_both P (map_both f p) \<longleftrightarrow> all_both (\<lambda>x. P (f x)) p"
  by (simp add: all_both_def map_both_def)

lemma all_both_put: "all_both P p \<Longrightarrow> P x \<Longrightarrow> all_both P (put side x p)"
  by (simp add: all_both_def put_def)

lemma all_both_pick: "all_both P p \<Longrightarrow> P (pick side p)"
  by (simp add: all_both_def pick_def)

lemma all_both_mono: "all_both P p \<Longrightarrow> (\<And>x. P x \<Longrightarrow> Q x) \<Longrightarrow> all_both Q p"
  by (simp add: all_both_def)

lemma all_both_True [simp]: "all_both (\<lambda>x. True) p"
  by (simp add: all_both_def)

section \<open>Records\<close>

abbreviation OA_BACKEND_VIRTUAL :: u32 where "OA_BACKEND_VIRTUAL \<equiv> 1"
abbreviation OA_BACKEND_PHYSICAL :: u32 where "OA_BACKEND_PHYSICAL \<equiv> 2"
abbreviation OA_COLLISION_REJECT_ALL :: u32 where "OA_COLLISION_REJECT_ALL \<equiv> 0"
abbreviation OA_COLLISION_VIRTUAL_UNCHECKED :: u32 where "OA_COLLISION_VIRTUAL_UNCHECKED \<equiv> 1"
abbreviation OA_STOP_DISABLE :: u32 where "OA_STOP_DISABLE \<equiv> 1"
abbreviation OA_STOP_CONTROLLED :: u32 where "OA_STOP_CONTROLLED \<equiv> 2"
abbreviation OA_RIGHT :: u32 where "OA_RIGHT \<equiv> 1"
abbreviation OA_COLLISION_CONTACT_NONE :: u32 where "OA_COLLISION_CONTACT_NONE \<equiv> 0"
abbreviation OA_COLLISION_CONTACT_TERMINAL_CAPS :: u32 where "OA_COLLISION_CONTACT_TERMINAL_CAPS \<equiv> 1"

datatype lifecycle = OA_LIFECYCLE_CLOSED | OA_LIFECYCLE_VERIFYING | OA_LIFECYCLE_DISARMED
  | OA_LIFECYCLE_ARMING | OA_LIFECYCLE_ARMED_IDLE | OA_LIFECYCLE_EXECUTING | OA_LIFECYCLE_STOPPING
  | OA_LIFECYCLE_FAULT | OA_LIFECYCLE_ESTOP

datatype control_event_kind = OA_EVENT_VERIFIED | OA_EVENT_ARMED | OA_EVENT_STARTED
  | OA_EVENT_COMPLETED | OA_EVENT_STOPPED | OA_EVENT_FAULTED | OA_EVENT_DISARMED | OA_EVENT_QUEUED
  | OA_EVENT_SETTLING | OA_EVENT_ABORTED | OA_EVENT_ESTOP

datatype plan_kind = OA_PLAN_JOINT | OA_PLAN_PAIRED_TCP | OA_PLAN_CENTROID_TCP
  | OA_PLAN_MIRRORED_TCP | OA_PLAN_CONVERGE_TCP

datatype stop_cause = OA_STOP_CAUSE_NONE | OA_STOP_CAUSE_CONTACT | OA_STOP_CAUSE_KEEPOUT
  | OA_STOP_CAUSE_PLAN_COMPLETE | OA_STOP_CAUSE_ESTOP

record manifest_config = header +
  manifest_revision :: u64
  model_revision :: u64
  mc_arm :: "arm_config both"

record controller_options = header +
  backend :: u32
  collision_policy :: u32
  cycle_ns :: u64
  feedback_timeout_ns :: u64
  max_cross_bus_skew_ns :: u64
  collision_scene_revision :: u64

record control_event = header +
  ev_kind :: control_event_kind
  ev_lifecycle :: lifecycle
  ev_t_ns :: u64
  ev_command_id :: u64
  ev_feedback_seq :: u64
  ev_cause :: control_status

record motion_plan =
  mp_kind :: plan_kind
  active_arm_mask :: u32
  mp_manifest_revision :: u64
  mp_model_revision :: u64
  mp_collision_scene_revision :: u64
  controller_instance :: u64
  mp_verify_epoch :: u64
  seed_seq :: "u64 both"
  mp_expiry_ns :: u64
  duration_ns :: u64
  start_q :: "joint_vector both"
  target_q :: "joint_vector both"
  joint_position_tolerance :: "dbl both"
  joint_velocity_tolerance :: "dbl both"
  tcp_tolerance :: "dbl both"
  target_tcp :: "point both"
  achieved_tcp :: "point both"
  tcp_residual :: "dbl both"
  collision_checked :: bool
  contact_monitored :: bool
  contact_geometry_policy :: u32
  contact_persistence_cycles :: u32
  contact_threshold_nm :: "joint_vector both"
  waypoint_count :: nat
  waypoint_q :: "joint_vector list both"
  waypoint_time_ns :: "u64 list"

record contact_report = header +
  cr_cause :: stop_cause
  contact_detected :: u32
  contact_side_mask :: u32
  contact_joint_mask :: "u32 both"
  keepout_violation :: u32
  keepout_side :: u32
  keepout_segment_a :: u32
  keepout_segment_b :: u32
  stop_feedback_seq :: "u64 both"
  stop_monotonic_ns :: u64
  contact_torque_nm :: "joint_vector both"
  threshold_torque_nm :: "joint_vector both"
  stopped_q_rad :: "joint_vector both"
  stopped_tcp_m :: "point both"
  cr_minimum_clearance_m :: dbl

record sim_contact = header +
  sc_side :: u32
  sc_enabled :: u32
  center_m :: point
  radius_m :: dbl
  sc_reaction_gain_nm_per_rad :: dbl

record controller =
  c_manifest :: manifest_config
  c_options :: controller_options
  c_arm :: "arm_runtime both"
  lifecycle :: lifecycle
  now_ns :: u64
  verify_epoch :: u64
  nonce_counter :: u64
  outstanding_nonce :: u64
  outstanding_challenge_expiry :: u64
  next_command_id :: u64
  command_id :: u64
  command_start_ns :: u64
  command_expiry_ns :: u64
  producer_deadline_ns :: u64
  settle_start_ns :: u64
  settle_feedback_seq :: "u64 both"
  settle_feedback_intervals :: u32
  active_stop_kind :: u32
  command_started :: bool
  settling_published :: bool
  deadman_active :: bool
  instance_id :: u64
  contact_report_of :: contact_report
  contact_streak :: u32
  last_clearance_m :: dbl
  sim_contacts :: "sim_contact both"
  estop_latched :: bool
  executing :: "motion_plan option"
  events :: "control_event ring"

section \<open>Construction\<close>

definition empty_contact_report :: contact_report where
  "empty_contact_report =
     \<lparr>struct_size = 0, abi_version = 0, cr_cause = OA_STOP_CAUSE_NONE, contact_detected = 0,
      contact_side_mask = 0, contact_joint_mask = (0, 0), keepout_violation = 0, keepout_side = 0,
      keepout_segment_a = 0, keepout_segment_b = 0, stop_feedback_seq = (0, 0), stop_monotonic_ns = 0,
      contact_torque_nm = (zero_joints, zero_joints), threshold_torque_nm = (zero_joints, zero_joints),
      stopped_q_rad = (zero_joints, zero_joints), stopped_tcp_m = (replicate 3 0, replicate 3 0),
      cr_minimum_clearance_m = 0\<rparr>"

definition empty_sim_contact :: sim_contact where
  "empty_sim_contact =
     \<lparr>struct_size = 0, abi_version = 0, sc_side = 0, sc_enabled = 0, center_m = replicate 3 0,
      radius_m = 0, sc_reaction_gain_nm_per_rad = 0\<rparr>"

abbreviation SIZEOF_EVENT :: u32 where "SIZEOF_EVENT \<equiv> 48"

definition empty_event :: control_event where
  "empty_event =
     \<lparr>struct_size = 0, abi_version = 0, ev_kind = OA_EVENT_VERIFIED, ev_lifecycle = OA_LIFECYCLE_CLOSED,
      ev_t_ns = 0, ev_command_id = 0, ev_feedback_seq = 0, ev_cause = OA_CONTROL_OK\<rparr>"

text \<open>The constructor; the number of the instance comes from a process-wide counter.\<close>

definition valid_controller_options :: "controller_options \<Rightarrow> bool" where
  "valid_controller_options opt \<longleftrightarrow>
     (backend opt = OA_BACKEND_VIRTUAL \<or> backend opt = OA_BACKEND_PHYSICAL)
     \<and> (collision_policy opt = OA_COLLISION_REJECT_ALL
        \<or> collision_policy opt = OA_COLLISION_VIRTUAL_UNCHECKED)
     \<and> \<not> (cycle_ns opt = 0 \<or> feedback_timeout_ns opt < cycle_ns opt
          \<or> max_cross_bus_skew_ns opt = 0 \<or> cycle_ns opt > UINT64_MAX div 3)
     \<and> \<not> (backend opt = OA_BACKEND_PHYSICAL \<and> collision_policy opt = OA_COLLISION_VIRTUAL_UNCHECKED)
     \<and> \<not> (collision_policy opt = OA_COLLISION_VIRTUAL_UNCHECKED \<and> collision_scene_revision opt = 0)"

definition initial_controller :: "manifest_config \<Rightarrow> controller_options \<Rightarrow> u64 \<Rightarrow> controller" where
  "initial_controller man opt inst =
     \<lparr>c_manifest = man, c_options = opt, c_arm = map_both new_arm (mc_arm man),
      lifecycle = OA_LIFECYCLE_CLOSED, now_ns = 0, verify_epoch = 0,
      nonce_counter = 0x4f50454e41524d, outstanding_nonce = 0, outstanding_challenge_expiry = 0,
      next_command_id = 1, command_id = 0, command_start_ns = 0, command_expiry_ns = 0,
      producer_deadline_ns = 0, settle_start_ns = 0, settle_feedback_seq = (0, 0),
      settle_feedback_intervals = 0, active_stop_kind = OA_STOP_DISABLE, command_started = False,
      settling_published = False, deadman_active = True, instance_id = inst,
      contact_report_of = empty_contact_report, contact_streak = 0, last_clearance_m = 0,
      sim_contacts = (empty_sim_contact, empty_sim_contact), estop_latched = False,
      executing = None, events = ring_init 64 empty_event\<rparr>"

definition new_controller ::
  "manifest_config \<Rightarrow> controller_options \<Rightarrow> u64 \<Rightarrow> control_status + controller" where
  "new_controller man opt inst =
     (if valid_controller_options opt then Inr (initial_controller man opt inst)
      else Inl OA_CONTROL_EINVAL)"

section \<open>Tests on the feedback\<close>

definition feedback_integrity :: "controller \<Rightarrow> control_status" where
  "feedback_integrity c =
     (let timeout = feedback_timeout_ns (c_options c) in
      if \<not> complete_fresh (now_ns c) timeout (fst (c_arm c))
         \<or> \<not> complete_fresh (now_ns c) timeout (snd (c_arm c))
      then OA_CONTROL_ESTALE
      else
        let l = generation_timestamp (fst (c_arm c)); r = generation_timestamp (snd (c_arm c));
            skew = (if l > r then l - r else r - l)
        in if skew \<le> max_cross_bus_skew_ns (c_options c) then OA_CONTROL_OK else OA_CONTROL_ECAN)"

definition fresh :: "controller \<Rightarrow> bool" where
  "fresh c \<longleftrightarrow> feedback_integrity c = OA_CONTROL_OK"

definition healthy :: "controller \<Rightarrow> bool" where
  "healthy c \<longleftrightarrow> all_both (fault_free (now_ns c) (feedback_timeout_ns (c_options c))) (c_arm c)"

definition disabled :: "controller \<Rightarrow> bool" where
  "disabled c \<longleftrightarrow> all_both (all_disabled (now_ns c) (feedback_timeout_ns (c_options c))) (c_arm c)"

definition kStartDriftRad :: dbl where
  "kStartDriftRad = lit (1 / 1000)"

definition start_pose_matches :: "motion_plan \<Rightarrow> controller \<Rightarrow> bool" where
  "start_pose_matches p c \<longleftrightarrow>
     list_all (\<lambda>side. let q = measured_q (pick side (c_arm c)) in
       list_all (\<lambda>j. \<not> \<bar>q ! j - pick side (start_q p) ! j\<bar> > kStartDriftRad) [0 ..< 7]) [0, 1]"

section \<open>Stopping, events and faults\<close>

definition stop_arm :: "u32 \<Rightarrow> bool \<Rightarrow> u64 \<Rightarrow> arm_runtime \<Rightarrow> arm_runtime" where
  "stop_arm backend_kind enabled_hold now a =
     (if backend_kind = OA_BACKEND_VIRTUAL then
        if feedback_seq a \<noteq> 0 then arm_materialize_stop enabled_hold now a
        else retire_pending_feedback (arm_set_enabled False a)
      else arm_set_enabled False a)"

definition materialize_stop :: "bool \<Rightarrow> controller \<Rightarrow> controller" where
  "materialize_stop enabled_hold c =
     c\<lparr>c_arm := map_both (stop_arm (backend (c_options c)) enabled_hold (now_ns c)) (c_arm c)\<rparr>"

definition publish_event ::
  "control_event_kind \<Rightarrow> control_status \<Rightarrow> u64 \<Rightarrow> controller \<Rightarrow> bool \<times> controller" where
  "publish_event kind cause cid c =
     (let overflow = ring_full (events c);
          c1 = (if overflow then
                  (materialize_stop False
                     (c\<lparr>events := ring_drop (events c), executing := None, command_id := 0\<rparr>))
                     \<lparr>active_stop_kind := OA_STOP_DISABLE, lifecycle := OA_LIFECYCLE_FAULT\<rparr>
                else c);
          ev = \<lparr>struct_size = SIZEOF_EVENT, abi_version = OA_CONTROL_ABI_V1,
                ev_kind = (if overflow then OA_EVENT_FAULTED else kind),
                ev_lifecycle = lifecycle c1, ev_t_ns = now_ns c1, ev_command_id = cid,
                ev_feedback_seq = umin (feedback_seq (fst (c_arm c1))) (feedback_seq (snd (c_arm c1))),
                ev_cause = (if overflow then OA_CONTROL_EBUSY else cause)\<rparr>
      in (\<not> overflow, c1\<lparr>events := ring_push ev (events c1)\<rparr>))"

text \<open>\<open>publish(...) ? status : OA_CONTROL_EBUSY\<close>.\<close>

definition publishing ::
  "control_event_kind \<Rightarrow> control_status \<Rightarrow> u64 \<Rightarrow> control_status \<Rightarrow> controller
     \<Rightarrow> control_status \<times> controller" where
  "publishing kind cause cid st c =
     (let (published, c1) = publish_event kind cause cid c
      in (if published then st else OA_CONTROL_EBUSY, c1))"

definition latch_fault :: "control_status \<Rightarrow> bool \<Rightarrow> controller \<Rightarrow> control_status \<times> controller" where
  "latch_fault cause controlled_stop_available c =
     (let failed_id = command_id c;
          controlled_stop = controlled_stop_available \<and> backend (c_options c) = OA_BACKEND_VIRTUAL
            \<and> executing c \<noteq> None \<and> fresh c \<and> healthy c \<and> active_stop_kind c = OA_STOP_CONTROLLED;
          c1 = materialize_stop controlled_stop (c\<lparr>executing := None, command_id := 0\<rparr>);
          nonce = nonce_counter c1 + 1;
          c2 = c1\<lparr>active_stop_kind := OA_STOP_DISABLE, lifecycle := OA_LIFECYCLE_FAULT,
                  nonce_counter := nonce, outstanding_nonce := nonce\<rparr>
      in publishing OA_EVENT_FAULTED cause failed_id cause c2)"

definition poll_event :: "controller \<Rightarrow> (control_status + control_event) \<times> controller" where
  "poll_event c =
     (if ring_empty (events c) then (Inl OA_CONTROL_ETIMEOUT, c)
      else (Inr (ring_front (events c)), c\<lparr>events := ring_drop (events c)\<rparr>))"

section \<open>The invariant of the controller\<close>

text \<open>No motor of either arm is powered.\<close>

definition powerless :: "controller \<Rightarrow> bool" where
  "powerless c \<longleftrightarrow> all_both unpowered (c_arm c)"

text \<open>
  The arms are well formed and the event array sound; a command is in execution exactly in the
  lifecycle that says so, and without one there is no command id; the transient lifecycles are not
  seen between calls; the motors are without power whenever the controller is closed, disarmed or
  stopped, and always on the physical backend, which is never armed.
\<close>

definition control_inv :: "controller \<Rightarrow> bool" where
  "control_inv c \<longleftrightarrow>
     all_both arm_wf (c_arm c) \<and> ring_wf 64 (events c)
     \<and> (executing c \<noteq> None \<longleftrightarrow> lifecycle c = OA_LIFECYCLE_EXECUTING)
     \<and> (executing c = None \<longrightarrow> command_id c = 0)
     \<and> lifecycle c \<notin> {OA_LIFECYCLE_VERIFYING, OA_LIFECYCLE_ARMING, OA_LIFECYCLE_STOPPING}
     \<and> (lifecycle c \<in> {OA_LIFECYCLE_CLOSED, OA_LIFECYCLE_DISARMED, OA_LIFECYCLE_ESTOP} \<longrightarrow> powerless c)
     \<and> (backend (c_options c) = OA_BACKEND_PHYSICAL \<longrightarrow> powerless c
          \<and> lifecycle c \<in> {OA_LIFECYCLE_CLOSED, OA_LIFECYCLE_ESTOP, OA_LIFECYCLE_FAULT})"

definition base_inv :: "controller \<Rightarrow> bool" where
  "base_inv c \<longleftrightarrow> all_both arm_wf (c_arm c) \<and> ring_wf 64 (events c)
     \<and> (backend (c_options c) = OA_BACKEND_PHYSICAL \<longrightarrow> powerless c)"

lemma control_inv_base: "control_inv c \<Longrightarrow> base_inv c"
  by (simp add: control_inv_def base_inv_def)

lemma stop_arm_wf [simp]: "arm_wf a \<Longrightarrow> arm_wf (stop_arm b h now a)"
  by (simp add: stop_arm_def retire_pending_feedback_def)

lemma stop_arm_unpowered [simp]: "unpowered (stop_arm b False now a)"
  by (simp add: stop_arm_def retire_pending_feedback_def)

lemma materialize_stop_frame [simp]:
  "events (materialize_stop h c) = events c" "executing (materialize_stop h c) = executing c"
  "command_id (materialize_stop h c) = command_id c" "lifecycle (materialize_stop h c) = lifecycle c"
  "c_options (materialize_stop h c) = c_options c" "now_ns (materialize_stop h c) = now_ns c"
  "powerless (materialize_stop False c)" "c_manifest (materialize_stop h c) = c_manifest c"
  "outstanding_nonce (materialize_stop h c) = outstanding_nonce c"
  "nonce_counter (materialize_stop h c) = nonce_counter c"
  "all_both arm_wf (c_arm c) \<Longrightarrow> all_both arm_wf (c_arm (materialize_stop h c))"
  by (simp_all add: materialize_stop_def powerless_def all_both_def map_both_def)

lemma powerless_update [simp]:
  "powerless (c\<lparr>events := e\<rparr>) = powerless c" "powerless (c\<lparr>executing := x\<rparr>) = powerless c"
  "powerless (c\<lparr>command_id := i\<rparr>) = powerless c" "powerless (c\<lparr>lifecycle := l\<rparr>) = powerless c"
  "powerless (c\<lparr>active_stop_kind := k\<rparr>) = powerless c" "powerless (c\<lparr>outstanding_nonce := n\<rparr>) = powerless c"
  "powerless (c\<lparr>nonce_counter := n\<rparr>) = powerless c" "powerless (c\<lparr>now_ns := t\<rparr>) = powerless c"
  by (simp_all add: powerless_def)

text \<open>A published event keeps the invariant; on overflow it establishes it.\<close>

lemma publish_event_cases:
  assumes "ring_wf 64 (events c)"
  obtains (published) ev where "publish_event kind cause cid c = (True, c\<lparr>events := ring_push ev (events c)\<rparr>)"
      "\<not> ring_full (events c)" "ev_kind ev = kind" "ev_cause ev = cause" "ev_lifecycle ev = lifecycle c"
      "ev_command_id ev = cid" "ev_t_ns ev = now_ns c"
      "ring_wf 64 (ring_push ev (events c))" "ring_list (ring_push ev (events c)) = ring_list (events c) @ [ev]"
  | (overflow) c' where "publish_event kind cause cid c = (False, c')" "ring_full (events c)"
      "lifecycle c' = OA_LIFECYCLE_FAULT" "executing c' = None" "command_id c' = 0" "powerless c'"
      "ring_wf 64 (events c')" "now_ns c' = now_ns c" "c_options c' = c_options c"
      "all_both arm_wf (c_arm c) \<Longrightarrow> all_both arm_wf (c_arm c')"
      "nonce_counter c' = nonce_counter c" "outstanding_nonce c' = outstanding_nonce c"
      "c_manifest c' = c_manifest c"
proof (cases "ring_full (events c)")
  case False
  show thesis
    by (rule published [of "\<lparr>struct_size = SIZEOF_EVENT, abi_version = OA_CONTROL_ABI_V1, ev_kind = kind,
          ev_lifecycle = lifecycle c, ev_t_ns = now_ns c, ev_command_id = cid,
          ev_feedback_seq = umin (feedback_seq (fst (c_arm c))) (feedback_seq (snd (c_arm c))),
          ev_cause = cause\<rparr>"])
      (use False assms in \<open>simp_all add: publish_event_def Let_def ring64.good_push ring64.contents_push\<close>)
next
  case True
  then have nf: "\<not> ring_full (ring_drop (events c))"
    using assms by (simp add: ring64.full_iff ring64.good_drop ring64.contents_drop)
  show thesis
    by (rule overflow [of "snd (publish_event kind cause cid c)"])
      (use True assms nf in \<open>simp_all add: publish_event_def Let_def ring64.good_push ring64.good_drop\<close>)
qed

lemma publish_event_inv: "control_inv c \<Longrightarrow> control_inv (snd (publish_event kind cause cid c))"
  by (rule publish_event_cases [of c kind cause cid])
    (auto simp: control_inv_def powerless_def)

lemma publishing_inv: "control_inv c \<Longrightarrow> control_inv (snd (publishing kind cause cid st c))"
  using publish_event_inv [of c kind cause cid] by (simp add: publishing_def split_def Let_def)

lemma latch_fault_inv: "base_inv c \<Longrightarrow> control_inv (snd (latch_fault cause av c))"
  unfolding latch_fault_def Let_def
  by (rule publishing_inv) (auto simp: base_inv_def control_inv_def)

end
