(* ===== verification/Control_Session.thy ===== *)
theory Control_Session
  imports Control_State
begin

text \<open>
  The calls of the controller (control/src/control_core.cpp) other than planning, executing and the
  control cycle: opening, arming, the interlocks, stopping, resetting, the injections of the
  simulation and the reports.
\<close>

section \<open>Records\<close>

record verify_report = header +
  vr_verify_epoch :: u64
  verified_mask :: u32
  failure_mask :: u32

record arm_challenge = header +
  ac_verify_epoch :: u64
  ac_nonce :: u64
  ac_expiry_ns :: u64

record reset_request = header +
  rr_verify_epoch :: u64
  rr_nonce :: u64

record control_snapshot = header +
  sn_arm :: "arm_snapshot both"
  sn_manifest_revision :: u64
  sn_model_revision :: u64
  sn_max_cross_bus_skew_ns :: u64
  sn_lifecycle :: lifecycle

record arm_kinematics = header +
  ak_feedback_seq :: u64
  ak_q :: joint_vector
  ak_joint_xyz_m :: "dbl list list"
  ak_joint_axis_body :: "dbl list list"
  ak_tcp_transform :: "dbl list"
  ak_tcp_xyz_m :: point

record sim_fault = header +
  sf_side :: u32
  sf_freeze_mask :: u32
  sf_drop_mask :: u32
  sf_fault_mask :: u32
  sf_fault_status :: u32
  sf_command_fail_mask :: u32
  sf_feedback_delay_ns :: u64

record sim_state = header +
  ss_side :: u32
  ss_q :: joint_vector
  ss_dq :: joint_vector

section \<open>Opening and reporting\<close>

text \<open>Output records are passed in and returned.\<close>

definition open_and_verify :: "verify_report \<Rightarrow> controller \<Rightarrow> control_status \<times> verify_report \<times> controller" where
  "open_and_verify out c =
     (if lifecycle c \<noteq> OA_LIFECYCLE_CLOSED then (OA_CONTROL_ESTATE, out, c)
      else if backend (c_options c) = OA_BACKEND_PHYSICAL
      then (OA_CONTROL_EUNSUPPORTED, out\<lparr>vr_verify_epoch := 0, verified_mask := 0, failure_mask := 3\<rparr>, c)
      else
        let verify = (\<lambda>a. let verified_q = (if verify_epoch c = 0 then zero_joints else measured_q a)
                          in arm_force_state verified_q zero_joints (now_ns c) (arm_set_enabled False a));
            epoch = verify_epoch c + 1;
            c1 = c\<lparr>c_arm := map_both verify (c_arm c), verify_epoch := epoch,
                   lifecycle := OA_LIFECYCLE_DISARMED\<rparr>;
            (st, c2) = publishing OA_EVENT_VERIFIED OA_CONTROL_OK 0 OA_CONTROL_OK c1
        in (st, out\<lparr>vr_verify_epoch := epoch, verified_mask := 3, failure_mask := 0\<rparr>, c2))"

definition snapshot :: "control_snapshot \<Rightarrow> controller \<Rightarrow> control_status \<times> control_snapshot" where
  "snapshot out c =
     (if lifecycle c = OA_LIFECYCLE_CLOSED \<or> lifecycle c = OA_LIFECYCLE_VERIFYING
      then (OA_CONTROL_ESTATE, out)
      else
        let arm = map_both (arm_snapshot_of (now_ns c) (feedback_timeout_ns (c_options c))) (c_arm c);
            l = as_t_ns (fst arm); r = as_t_ns (snd arm)
        in (OA_CONTROL_OK,
            out\<lparr>sn_arm := arm, sn_manifest_revision := manifest_revision (c_manifest c),
                sn_model_revision := model_revision (c_manifest c),
                sn_max_cross_bus_skew_ns := (if l > r then l - r else r - l),
                sn_lifecycle := lifecycle c\<rparr>))"

definition kinematics ::
  "model_lib \<Rightarrow> u32 \<Rightarrow> u64 \<Rightarrow> arm_kinematics \<Rightarrow> controller \<Rightarrow> control_status \<times> arm_kinematics" where
  "kinematics lib side required_seq out c =
     (if side > OA_RIGHT \<or> \<not> fresh c
      then (if side > OA_RIGHT then OA_CONTROL_EINVAL else OA_CONTROL_ESTALE, out)
      else
        let runtime = pick (unat side) (c_arm c); q = measured_q runtime in
        if feedback_seq runtime \<noteq> required_seq then (OA_CONTROL_ESTALE, out)
        else case forward lib (unat side) q of None \<Rightarrow> (OA_CONTROL_EFAULT, out)
        | Some r \<Rightarrow>
            (OA_CONTROL_OK,
             out\<lparr>ak_feedback_seq := required_seq, ak_q := q, ak_joint_xyz_m := joint_xyz r,
                 ak_joint_axis_body := joint_axis r, ak_tcp_transform := tcp_transform r,
                 ak_tcp_xyz_m := tcp_xyz r\<rparr>))"

abbreviation SIZEOF_CONTACT_REPORT :: u32 where "SIZEOF_CONTACT_REPORT \<equiv> 464"

definition get_contact_report :: "contact_report \<Rightarrow> controller \<Rightarrow> control_status \<times> contact_report" where
  "get_contact_report out c =
     (if struct_size out < SIZEOF_CONTACT_REPORT \<or> abi_version out \<noteq> OA_CONTROL_ABI_V1
      then (OA_CONTROL_EABI, out)
      else (OA_CONTROL_OK,
            (contact_report_of c)\<lparr>struct_size := SIZEOF_CONTACT_REPORT, abi_version := OA_CONTROL_ABI_V1\<rparr>))"

section \<open>Arming\<close>

definition challenge :: "arm_challenge \<Rightarrow> controller \<Rightarrow> control_status \<times> arm_challenge \<times> controller" where
  "challenge out c =
     (let reset_challenge = (lifecycle c = OA_LIFECYCLE_FAULT \<or> lifecycle c = OA_LIFECYCLE_ESTOP) in
      if lifecycle c \<noteq> OA_LIFECYCLE_DISARMED \<and> \<not> reset_challenge then (OA_CONTROL_ESTATE, out, c)
      else if \<not> reset_challenge \<and> (\<not> fresh c \<or> \<not> healthy c \<or> \<not> disabled c)
      then if \<not> healthy c
           then (let (st, c1) = latch_fault OA_CONTROL_EFAULT False c in (st, out, c1))
           else (OA_CONTROL_ESTALE, out, c)
      else
        let nonce = nonce_counter c + 1; expiry = now_ns c + 1000000000
        in (OA_CONTROL_OK,
            out\<lparr>ac_verify_epoch := verify_epoch c, ac_nonce := nonce, ac_expiry_ns := expiry\<rparr>,
            c\<lparr>nonce_counter := nonce, outstanding_nonce := nonce, outstanding_challenge_expiry := expiry\<rparr>))"

definition power_arm :: "u64 \<Rightarrow> arm_runtime \<Rightarrow> arm_runtime" where
  "power_arm now a =
     (let a1 = arm_set_enabled True a in arm_force_state (measured_q a1) zero_joints now a1)"

definition arm :: "arm_challenge \<Rightarrow> controller \<Rightarrow> control_status \<times> controller" where
  "arm ch c =
     (if lifecycle c \<noteq> OA_LIFECYCLE_DISARMED then (OA_CONTROL_ESTATE, c)
      else if ac_verify_epoch ch \<noteq> verify_epoch c \<or> ac_nonce ch \<noteq> outstanding_nonce c
         \<or> outstanding_nonce c = 0 \<or> ac_expiry_ns ch \<noteq> outstanding_challenge_expiry c
         \<or> now_ns c > outstanding_challenge_expiry c
      then (OA_CONTROL_EIDENTITY, c)
      else if \<not> fresh c then (OA_CONTROL_ESTALE, c)
      else if \<not> healthy c \<or> \<not> disabled c \<or> \<not> deadman_active c
      then latch_fault (if \<not> deadman_active c then OA_CONTROL_EESTOP else OA_CONTROL_EFAULT) False c
      else publishing OA_EVENT_ARMED OA_CONTROL_OK 0 OA_CONTROL_OK
             (c\<lparr>c_arm := map_both (power_arm (now_ns c)) (c_arm c), outstanding_nonce := 0,
                lifecycle := OA_LIFECYCLE_ARMED_IDLE\<rparr>))"

section \<open>Interlocks, stopping, resetting\<close>

definition heartbeat :: "u64 \<Rightarrow> u64 \<Rightarrow> controller \<Rightarrow> control_status \<times> controller" where
  "heartbeat cid deadline c =
     (if lifecycle c \<noteq> OA_LIFECYCLE_EXECUTING \<or> cid = 0 \<or> cid \<noteq> command_id c
      then (OA_CONTROL_ESTATE, c)
      else if deadline \<le> now_ns c then latch_fault OA_CONTROL_ESTALE True c
      else (OA_CONTROL_OK, c\<lparr>producer_deadline_ns := deadline\<rparr>))"

definition set_interlock :: "bool \<Rightarrow> bool \<Rightarrow> controller \<Rightarrow> control_status \<times> controller" where
  "set_interlock estop_active deadman c =
     (let c1 = c\<lparr>deadman_active := deadman\<rparr> in
      if estop_active \<or> \<not> deadman then
        let failed_id = command_id c1;
            c2 = c1\<lparr>executing := None, command_id := 0\<rparr>;
            c3 = (if lifecycle c2 = OA_LIFECYCLE_CLOSED \<or> lifecycle c2 = OA_LIFECYCLE_VERIFYING
                  then c2\<lparr>c_arm := map_both (\<lambda>a. retire_pending_feedback (arm_set_enabled False a)) (c_arm c2)\<rparr>
                  else materialize_stop False c2);
            nonce = nonce_counter c3 + 1
        in publishing OA_EVENT_ESTOP OA_CONTROL_EESTOP failed_id OA_CONTROL_EESTOP
             (c3\<lparr>lifecycle := OA_LIFECYCLE_ESTOP, nonce_counter := nonce, outstanding_nonce := nonce\<rparr>)
      else (OA_CONTROL_OK, c1))"

definition set_collision_scene_revision :: "u64 \<Rightarrow> controller \<Rightarrow> control_status \<times> controller" where
  "set_collision_scene_revision revision c =
     (if backend (c_options c) \<noteq> OA_BACKEND_VIRTUAL \<or> revision = 0
      then (if revision = 0 then OA_CONTROL_EINVAL else OA_CONTROL_EUNSUPPORTED, c)
      else if lifecycle c = OA_LIFECYCLE_EXECUTING then (OA_CONTROL_EBUSY, c)
      else (OA_CONTROL_OK, c\<lparr>c_options := (c_options c)\<lparr>collision_scene_revision := revision\<rparr>\<rparr>))"

definition stop :: "u32 \<Rightarrow> controller \<Rightarrow> control_status \<times> controller" where
  "stop stop_kind c =
     (if stop_kind \<noteq> OA_STOP_DISABLE \<and> stop_kind \<noteq> OA_STOP_CONTROLLED then (OA_CONTROL_EINVAL, c)
      else if lifecycle c \<noteq> OA_LIFECYCLE_EXECUTING \<and> lifecycle c \<noteq> OA_LIFECYCLE_ARMED_IDLE
      then (OA_CONTROL_ESTATE, c)
      else
        let c1 = c\<lparr>lifecycle := OA_LIFECYCLE_STOPPING\<rparr>; stopped_id = command_id c1;
            (published, c2) = (if executing c1 \<noteq> None
                               then publish_event OA_EVENT_ABORTED OA_CONTROL_OK stopped_id c1
                               else (True, c1))
        in if \<not> published then (OA_CONTROL_EBUSY, c2)
           else
             let c3 = c2\<lparr>executing := None, command_id := 0\<rparr>;
                 c4 = (if stop_kind = OA_STOP_DISABLE
                       then (materialize_stop False c3)\<lparr>lifecycle := OA_LIFECYCLE_DISARMED\<rparr>
                       else (materialize_stop True c3)\<lparr>lifecycle := OA_LIFECYCLE_ARMED_IDLE\<rparr>)
             in publishing OA_EVENT_STOPPED OA_CONTROL_OK stopped_id OA_CONTROL_OK
                  (c4\<lparr>active_stop_kind := OA_STOP_DISABLE\<rparr>))"

definition disarm :: "u64 \<Rightarrow> controller \<Rightarrow> control_status \<times> controller" where
  "disarm deadline c =
     (if deadline < now_ns c then (OA_CONTROL_ETIMEOUT, c)
      else if lifecycle c \<noteq> OA_LIFECYCLE_ARMED_IDLE \<and> lifecycle c \<noteq> OA_LIFECYCLE_EXECUTING
         \<and> lifecycle c \<noteq> OA_LIFECYCLE_DISARMED
      then (OA_CONTROL_ESTATE, c)
      else publishing OA_EVENT_DISARMED OA_CONTROL_OK 0 OA_CONTROL_OK
             ((materialize_stop False (c\<lparr>executing := None, command_id := 0\<rparr>))
                \<lparr>lifecycle := OA_LIFECYCLE_DISARMED\<rparr>))"

definition reset_arm :: "arm_runtime \<Rightarrow> arm_runtime" where
  "reset_arm a = retire_pending_feedback (arm_set_enabled False (set_injection 0 0 0 0 0 0 a))"

definition reset :: "reset_request \<Rightarrow> controller \<Rightarrow> control_status \<times> controller" where
  "reset req c =
     (if lifecycle c \<noteq> OA_LIFECYCLE_FAULT \<and> lifecycle c \<noteq> OA_LIFECYCLE_ESTOP then (OA_CONTROL_ESTATE, c)
      else if rr_verify_epoch req \<noteq> verify_epoch c \<or> rr_nonce req \<noteq> outstanding_nonce c
         \<or> rr_nonce req = 0 \<or> now_ns c > outstanding_challenge_expiry c
      then (OA_CONTROL_EIDENTITY, c)
      else (OA_CONTROL_OK,
            c\<lparr>c_arm := map_both reset_arm (c_arm c), verify_epoch := verify_epoch c + 1,
              outstanding_nonce := 0, lifecycle := OA_LIFECYCLE_CLOSED\<rparr>))"

section \<open>Injections of the simulation\<close>

definition set_sim_contact :: "sim_contact \<Rightarrow> controller \<Rightarrow> control_status \<times> controller" where
  "set_sim_contact contact c =
     (let side = unat (sc_side contact) in
      if backend (c_options c) \<noteq> OA_BACKEND_VIRTUAL then (OA_CONTROL_EUNSUPPORTED, c)
      else if sc_side contact \<noteq> 0 \<and> sc_side contact \<noteq> OA_RIGHT then (OA_CONTROL_EINVAL, c)
      else if sc_enabled contact \<noteq> 0
         \<and> (\<not> list_all disfinite (center_m contact) \<or> \<not> disfinite (radius_m contact)
            \<or> radius_m contact \<le> 0 \<or> \<not> disfinite (sc_reaction_gain_nm_per_rad contact)
            \<or> sc_reaction_gain_nm_per_rad contact < 0)
      then (OA_CONTROL_EINVAL, c)
      else
        let c1 = c\<lparr>sim_contacts := put side contact (sim_contacts c)\<rparr>
        in (OA_CONTROL_OK,
            if sc_enabled contact = 0
            then c1\<lparr>c_arm := put side (clear_contact (pick side (c_arm c1))) (c_arm c1)\<rparr> else c1))"

definition set_sim_fault :: "sim_fault \<Rightarrow> controller \<Rightarrow> control_status \<times> controller" where
  "set_sim_fault f c =
     (if backend (c_options c) \<noteq> OA_BACKEND_VIRTUAL then (OA_CONTROL_EUNSUPPORTED, c)
      else if sf_side f > OA_RIGHT \<or> sf_freeze_mask f AND NOT kAllJoints \<noteq> 0
         \<or> sf_drop_mask f AND NOT kAllJoints \<noteq> 0 \<or> sf_fault_mask f AND NOT kAllJoints \<noteq> 0
         \<or> sf_command_fail_mask f AND NOT kAllJoints \<noteq> 0
         \<or> (sf_fault_mask f \<noteq> 0 \<and> sf_fault_status f \<noteq> 0 \<and> (sf_fault_status f < 8 \<or> sf_fault_status f > 14))
      then (OA_CONTROL_EINVAL, c)
      else
        let st = (if sf_fault_status f = 0 then 8 else ucast (sf_fault_status f) :: u8);
            side = unat (sf_side f);
            a1 = set_injection (sf_freeze_mask f) (sf_drop_mask f) (sf_fault_mask f) st
                   (sf_command_fail_mask f) (sf_feedback_delay_ns f) (pick side (c_arm c));
            a2 = (if sf_fault_mask f \<noteq> 0
                  then arm_force_state (measured_q a1) (measured_dq a1) (now_ns c) a1 else a1)
        in (OA_CONTROL_OK, c\<lparr>c_arm := put side a2 (c_arm c)\<rparr>))"

definition within_joint :: "motor_config \<Rightarrow> dbl \<Rightarrow> bool" where
  "within_joint m q \<longleftrightarrow>
     (let raw = (q - q_offset_rad m) / q_scale m in
      \<not> (q < lower_rad m \<or> q > upper_rad m \<or> \<bar>raw\<bar> > pmax_rad m))"

definition set_sim_state :: "sim_state \<Rightarrow> controller \<Rightarrow> control_status \<times> controller" where
  "set_sim_state s c =
     (let side = unat (ss_side s); ms = ac_motor (pick side (mc_arm (c_manifest c))) in
      if backend (c_options c) \<noteq> OA_BACKEND_VIRTUAL then (OA_CONTROL_EUNSUPPORTED, c)
      else if ss_side s > OA_RIGHT then (OA_CONTROL_EINVAL, c)
      else if \<not> list_all (\<lambda>j. disfinite (ss_q s ! j) \<and> disfinite (ss_dq s ! j)
               \<and> within_joint (ms ! j) (ss_q s ! j)
               \<and> \<not> \<bar>ss_dq s ! j\<bar> > max_velocity_rad_s (ms ! j)) [0 ..< 7]
      then (OA_CONTROL_ELIMIT, c)
      else (OA_CONTROL_OK,
            c\<lparr>c_arm := put side (arm_force_state (ss_q s) (ss_dq s) (now_ns c) (pick side (c_arm c))) (c_arm c)\<rparr>))"

section \<open>The invariant\<close>

lemma open_and_verify_inv: "control_inv c \<Longrightarrow> control_inv (snd (snd (open_and_verify out c)))"
  by (auto simp: open_and_verify_def Let_def split_def intro!: publishing_inv)
     (auto simp: control_inv_def all_both_def map_both_def powerless_def)

lemma reset_arm_ok [simp]: "arm_wf a \<Longrightarrow> arm_wf (reset_arm a)" "unpowered (reset_arm a)"
  by (simp_all add: reset_arm_def retire_pending_feedback_def)

lemma power_arm_wf [simp]: "arm_wf a \<Longrightarrow> arm_wf (power_arm now a)"
  by (simp add: power_arm_def Let_def)

lemma challenge_inv: "control_inv c \<Longrightarrow> control_inv (snd (snd (challenge out c)))"
  using latch_fault_inv [OF control_inv_base, of c]
  by (auto simp: challenge_def Let_def split_def) (auto simp: control_inv_def powerless_def)

lemma arm_inv: "control_inv c \<Longrightarrow> control_inv (snd (arm ch c))"
  using latch_fault_inv [OF control_inv_base, of c]
  by (auto simp: arm_def intro!: publishing_inv) (auto simp: control_inv_def all_both_def map_both_def)

lemma heartbeat_inv: "control_inv c \<Longrightarrow> control_inv (snd (heartbeat cid deadline c))"
  using latch_fault_inv [OF control_inv_base, of c]
  by (auto simp: heartbeat_def) (auto simp: control_inv_def powerless_def)

lemma set_interlock_inv: "control_inv c \<Longrightarrow> control_inv (snd (set_interlock e d c))"
  by (auto simp: set_interlock_def Let_def intro!: publishing_inv)
     (auto simp: control_inv_def all_both_def map_both_def powerless_def retire_pending_feedback_def
        materialize_stop_def)

lemma scene_revision_inv: "control_inv c \<Longrightarrow> control_inv (snd (set_collision_scene_revision r c))"
  by (auto simp: set_collision_scene_revision_def) (auto simp: control_inv_def powerless_def)

lemma stop_inv:
  assumes c: "control_inv c"
  shows "control_inv (snd (stop k c))"
proof (cases "(k = OA_STOP_DISABLE \<or> k = OA_STOP_CONTROLLED)
    \<and> (lifecycle c = OA_LIFECYCLE_EXECUTING \<or> lifecycle c = OA_LIFECYCLE_ARMED_IDLE)")
  case False
  then show ?thesis using c by (auto simp: stop_def)
next
  case True
  let ?c1 = "c\<lparr>lifecycle := OA_LIFECYCLE_STOPPING\<rparr>"
  have virtual: "backend (c_options c) \<noteq> OA_BACKEND_PHYSICAL" using c True by (auto simp: control_inv_def)
  have wf: "ring_wf 64 (events ?c1)" "all_both arm_wf (c_arm c)" using c by (simp_all add: control_inv_def)
  have rest: "control_inv (snd (publishing OA_EVENT_STOPPED OA_CONTROL_OK i OA_CONTROL_OK
      ((if k = OA_STOP_DISABLE
        then (materialize_stop False (c2\<lparr>executing := None, command_id := 0\<rparr>))\<lparr>lifecycle := OA_LIFECYCLE_DISARMED\<rparr>
        else (materialize_stop True (c2\<lparr>executing := None, command_id := 0\<rparr>))\<lparr>lifecycle := OA_LIFECYCLE_ARMED_IDLE\<rparr>)
       \<lparr>active_stop_kind := OA_STOP_DISABLE\<rparr>)))"
    if "ring_wf 64 (events c2)" "c_options c2 = c_options c" "all_both arm_wf (c_arm c2)" for c2 i
    using that virtual by (intro publishing_inv) (auto simp: control_inv_def)
  show ?thesis
  proof (rule publish_event_cases [OF wf(1), of OA_EVENT_ABORTED OA_CONTROL_OK "command_id c"])
    fix ev
    assume "publish_event OA_EVENT_ABORTED OA_CONTROL_OK (command_id c) ?c1
        = (True, ?c1\<lparr>events := ring_push ev (events ?c1)\<rparr>)"
      and "ring_wf 64 (ring_push ev (events ?c1))"
    then show ?thesis using True wf virtual rest c
      by (simp add: stop_def Let_def)
  next
    fix c'
    assume "publish_event OA_EVENT_ABORTED OA_CONTROL_OK (command_id c) ?c1 = (False, c')"
      and "lifecycle c' = OA_LIFECYCLE_FAULT" "executing c' = None" "command_id c' = 0" "powerless c'"
      "ring_wf 64 (events c')" "all_both arm_wf (c_arm ?c1) \<Longrightarrow> all_both arm_wf (c_arm c')"
    then have "control_inv c'" using wf by (simp add: control_inv_def)
    then show ?thesis using True wf virtual rest c \<open>publish_event _ _ _ _ = _\<close>
      by (simp add: stop_def Let_def)
  qed
qed

lemma disarm_inv: "control_inv c \<Longrightarrow> control_inv (snd (disarm d c))"
  by (auto simp: disarm_def intro!: publishing_inv) (auto simp: control_inv_def)

lemma reset_inv: "control_inv c \<Longrightarrow> control_inv (snd (reset req c))"
  by (auto simp: reset_def) (auto simp: control_inv_def all_both_def map_both_def powerless_def)

text \<open>A change of one arm that keeps it well formed and adds no power.\<close>

lemma put_arm_inv:
  assumes "control_inv c" "arm_wf a" "unpowered (pick side (c_arm c)) \<Longrightarrow> unpowered a"
  shows "control_inv (c\<lparr>c_arm := put side a (c_arm c)\<rparr>)"
  using assms by (auto simp: control_inv_def powerless_def all_both_def put_def pick_def)

lemma arm_of_inv: "control_inv c \<Longrightarrow> arm_wf (pick side (c_arm c))"
  by (simp add: control_inv_def all_both_pick)

lemma sim_contact_inv:
  assumes c: "control_inv c"
  shows "control_inv (snd (set_sim_contact k c))"
proof -
  have k: "control_inv (c\<lparr>sim_contacts := x\<rparr>)" for x using c by (simp add: control_inv_def powerless_def)
  have "control_inv (c\<lparr>sim_contacts := x, c_arm := put side (clear_contact (pick side (c_arm c))) (c_arm c)\<rparr>)"
    for x side
    using put_arm_inv [OF k, of "clear_contact (pick side (c_arm c))" side] c by (simp add: arm_of_inv)
  with k c show ?thesis by (simp add: set_sim_contact_def Let_def)
qed

lemma sim_fault_inv: "control_inv c \<Longrightarrow> control_inv (snd (set_sim_fault f c))"
  by (auto simp: set_sim_fault_def Let_def arm_of_inv intro!: put_arm_inv)

lemma sim_state_inv: "control_inv c \<Longrightarrow> control_inv (snd (set_sim_state s c))"
  by (auto simp: set_sim_state_def Let_def arm_of_inv intro!: put_arm_inv)

end
