(* ===== verification/Control_Plan.thy ===== *)
theory Control_Plan
  imports Control_Session
begin

text \<open>
  The planners of the controller (control/src/control_core.cpp): the move of one joint, and the four
  bimanual Cartesian moves over their shared body. A planner reads the measured state and returns a
  plan or a status; it changes the controller only when it finds a motor fault, or, the Cartesian
  ones, the emergency stop asserted. The flag \<open>estop\<close> is what \<open>oa_estop_asserted\<close> returns.
\<close>

section \<open>Requests\<close>

record joint_move = header +
  jm_expiry_ns :: u64
  jm_required_feedback_seq :: u64
  jm_side :: u32
  jm_joint :: u32
  target_rad :: dbl
  jm_velocity_scale :: dbl
  jm_acceleration_scale :: dbl
  jm_jerk_scale :: dbl
  position_tol_rad :: dbl
  velocity_tol_rad_s :: dbl

text \<open>The fields the four Cartesian requests share, then each request.\<close>

record tcp_move = header +
  tm_expiry_ns :: u64
  tm_required_feedback_seq :: "u64 both"
  tm_velocity_scale :: dbl
  tm_acceleration_scale :: dbl
  tm_jerk_scale :: dbl
  tm_tcp_tol_m :: dbl
  tm_collision_scene_revision :: u64
  tm_max_branch_step_rad :: dbl
  tm_min_singular_value :: dbl

record paired_tcp_move = tcp_move +
  left_tcp_m :: point
  right_tcp_m :: point

record centroid_tcp_move = tcp_move +
  target_centroid_m :: point

record mirrored_tcp_move = tcp_move +
  lead_side :: u32
  mm_reserved0 :: u32
  lead_tcp_m :: point

record converge_tcp_move = tcp_move +
  target_m :: point
  cm_contact_torque_nm :: joint_vector
  contact_torque_fraction :: dbl
  cm_contact_persistence_cycles :: u32
  cm_reserved0 :: u32
  stop_distance_m :: dbl
  minimum_progress_m :: dbl

record paired_plan_request =
  pr_kind :: plan_kind
  pr_move :: tcp_move
  pr_target_tcp :: "point both"
  pr_contact_geometry_policy :: u32

definition valid_scale :: "dbl \<Rightarrow> bool" where
  "valid_scale v \<longleftrightarrow> disfinite v \<and> v > 0 \<and> v \<le> 1"

section \<open>The duration of a segment\<close>

text \<open>
  \<open>long double\<close> of x86-64 has a significand of 64 bits: a value of at least one with \<open>b\<close> bits
  before the binary point is rounded in units of \<open>2 ^ (b - 64)\<close>. Every duration is at least ten
  cycles, so ten nanoseconds.
\<close>

definition round_extended :: "rat \<Rightarrow> rat" where
  "round_extended x =
     (let unit = 2 ^ floorlog 2 (nat \<lfloor>x\<rfloor>) / 2 ^ 64 in of_nat (round_even (x / unit)) * unit)"

fun duration_to_ns :: "dbl \<Rightarrow> u64" where
  "duration_to_ns (Fin x) =
     (let ns = \<lceil>round_extended (x * 10 ^ 9)\<rceil>
      in if ns \<ge> 2 ^ 64 - 1 then UINT64_MAX else of_int ns)"
| "duration_to_ns _ = UINT64_MAX"

definition joint_duration :: "model_lib \<Rightarrow> dbl \<Rightarrow> dbl \<Rightarrow> dbl \<Rightarrow> motor_config \<Rightarrow> dbl \<Rightarrow> dbl \<Rightarrow> dbl" where
  "joint_duration lib velocity acceleration jerk limit distance d =
     (let d1 = dmax d (distance * lit (22 / 10) / (max_velocity_rad_s limit * velocity));
          d2 = dmax d1 (dsqrt (distance * lit 8 / (max_acceleration_rad_s2 limit * acceleration)))
      in dmax d2 (cbrt lib (distance * lit 60 / (max_jerk_rad_s3 limit * jerk))))"

definition trajectory_duration ::
  "model_lib \<Rightarrow> joint_vector both \<Rightarrow> joint_vector both \<Rightarrow> dbl \<Rightarrow> dbl \<Rightarrow> dbl \<Rightarrow> u32 \<Rightarrow> controller \<Rightarrow> u64" where
  "trajectory_duration lib start target velocity acceleration jerk arm_mask c =
     duration_to_ns
       (fold (\<lambda>side d.
          if \<not> has_bit arm_mask side then d
          else fold (\<lambda>j. joint_duration lib velocity acceleration jerk
                           (ac_motor (pick side (mc_arm (c_manifest c))) ! j)
                           \<bar>pick side target ! j - pick side start ! j\<bar>) [0 ..< 7] d)
        [0, 1] (dbl_of_word (cycle_ns (c_options c)) * lit (1 / 10 ^ 8)))"

section \<open>One joint\<close>

definition collision_allowed :: "controller \<Rightarrow> bool" where
  "collision_allowed c \<longleftrightarrow> backend (c_options c) = OA_BACKEND_VIRTUAL
     \<and> collision_policy (c_options c) = OA_COLLISION_VIRTUAL_UNCHECKED"

text \<open>\<open>std::make_unique<MotionPlan>()\<close>; the arrays of waypoints have 33 entries.\<close>

definition empty_plan :: motion_plan where
  "empty_plan =
     \<lparr>mp_kind = OA_PLAN_JOINT, active_arm_mask = 0, mp_manifest_revision = 0, mp_model_revision = 0,
      mp_collision_scene_revision = 0, controller_instance = 0, mp_verify_epoch = 0, seed_seq = (0, 0),
      mp_expiry_ns = 0, duration_ns = 0, start_q = (zero_joints, zero_joints),
      target_q = (zero_joints, zero_joints),
      joint_position_tolerance = (lit (1 / 10 ^ 4), lit (1 / 10 ^ 4)),
      joint_velocity_tolerance = (lit (1 / 10 ^ 3), lit (1 / 10 ^ 3)), tcp_tolerance = (0, 0),
      target_tcp = (replicate 3 0, replicate 3 0), achieved_tcp = (replicate 3 0, replicate 3 0),
      tcp_residual = (0, 0), collision_checked = False, contact_monitored = False,
      contact_geometry_policy = 0, contact_persistence_cycles = 0,
      contact_threshold_nm = (zero_joints, zero_joints), waypoint_count = 0,
      waypoint_q = (replicate 33 zero_joints, replicate 33 zero_joints),
      waypoint_time_ns = replicate 33 0\<rparr>"

definition plan_joint ::
  "model_lib \<Rightarrow> joint_move \<Rightarrow> controller \<Rightarrow> (control_status + motion_plan) \<times> controller" where
  "plan_joint lib req c =
     (if lifecycle c \<noteq> OA_LIFECYCLE_ARMED_IDLE then (Inl OA_CONTROL_ESTATE, c)
      else if \<not> fresh c then (Inl OA_CONTROL_ESTALE, c)
      else if \<not> healthy c then (let (st, c1) = latch_fault OA_CONTROL_EFAULT False c in (Inl st, c1))
      else if \<not> collision_allowed c then (Inl OA_CONTROL_ECOLLISION, c)
      else if jm_side req > OA_RIGHT \<or> jm_joint req \<ge> 7
         \<or> jm_required_feedback_seq req \<noteq> feedback_seq (pick (unat (jm_side req)) (c_arm c))
         \<or> jm_expiry_ns req \<le> now_ns c \<or> \<not> disfinite (target_rad req)
         \<or> \<not> valid_scale (jm_velocity_scale req) \<or> \<not> valid_scale (jm_acceleration_scale req)
         \<or> \<not> valid_scale (jm_jerk_scale req) \<or> \<not> disfinite (position_tol_rad req)
         \<or> position_tol_rad req \<le> 0 \<or> \<not> disfinite (velocity_tol_rad_s req) \<or> velocity_tol_rad_s req \<le> 0
      then (Inl OA_CONTROL_EINVAL, c)
      else
        let side = unat (jm_side req); joint = unat (jm_joint req);
            m = ac_motor (pick side (mc_arm (c_manifest c))) ! joint;
            start = map_both measured_q (c_arm c);
            target = put side ((pick side start)[joint := target_rad req]) start;
            mask = push_bit side 1;
            duration = trajectory_duration lib start target (jm_velocity_scale req)
                         (jm_acceleration_scale req) (jm_jerk_scale req) mask c
        in if \<not> within_joint m (target_rad req) then (Inl OA_CONTROL_ELIMIT, c)
           else
             (Inr (empty_plan
                \<lparr>mp_kind := OA_PLAN_JOINT, active_arm_mask := mask,
                 mp_manifest_revision := manifest_revision (c_manifest c),
                 mp_model_revision := model_revision (c_manifest c),
                 mp_collision_scene_revision := collision_scene_revision (c_options c),
                 controller_instance := instance_id c, mp_verify_epoch := verify_epoch c,
                 mp_expiry_ns := jm_expiry_ns req, seed_seq := map_both feedback_seq (c_arm c),
                 start_q := start, target_q := target,
                 joint_position_tolerance :=
                   put side (position_tol_rad req) (joint_position_tolerance empty_plan),
                 joint_velocity_tolerance :=
                   put side (velocity_tol_rad_s req) (joint_velocity_tolerance empty_plan),
                 duration_ns := duration, waypoint_count := 2,
                 waypoint_time_ns := ((waypoint_time_ns empty_plan)[0 := 0])[1 := duration],
                 waypoint_q := (((fst (waypoint_q empty_plan))[0 := fst start])[1 := fst target],
                                ((snd (waypoint_q empty_plan))[0 := snd start])[1 := snd target])\<rparr>),
              c))"

section \<open>The shared body of the Cartesian planners\<close>

definition plan_preconditions :: "bool \<Rightarrow> controller \<Rightarrow> control_status \<times> controller" where
  "plan_preconditions estop c =
     (if estop then (OA_CONTROL_EESTOP, c\<lparr>estop_latched := True\<rparr>)
      else if lifecycle c \<noteq> OA_LIFECYCLE_ARMED_IDLE then (OA_CONTROL_ESTATE, c)
      else if \<not> fresh c then (OA_CONTROL_ESTALE, c)
      else if \<not> healthy c then latch_fault OA_CONTROL_EFAULT False c
      else if \<not> collision_allowed c then (OA_CONTROL_ECOLLISION, c)
      else (OA_CONTROL_OK, c))"

definition no_keepout_status :: keepout_status where
  "no_keepout_status =
     \<lparr>clear = False, violation = 0, ks_side = 0, segment_a = 0, segment_b = 0,
      minimum_clearance_m = DNegInf, terminal_pair_active = False, terminal_pair_clearance_m = 0,
      tcp_separation_m = 0, claw_contact_active = False, claw_hand_gap_m = 0,
      minimum_other_claw_gap_m = 0\<rparr>"

definition keepout_clear :: "model_lib \<Rightarrow> joint_vector both \<Rightarrow> u32 \<Rightarrow> bool \<times> keepout_status" where
  "keepout_clear lib q policy =
     (case (oa_fk lib 0 (fst q), oa_fk lib 1 (snd q)) of
        (Some l, Some r) \<Rightarrow>
          (let (evaluated, report) = oa_collision_evaluate lib l r policy in
           if \<not> evaluated then (False, report\<lparr>clear := False\<rparr>)
           else (clear report, report))
      | _ \<Rightarrow> (False, no_keepout_status))"

text \<open>One inverse solution per waypoint, each from its predecessor, within the limits of every joint.\<close>

definition waypoint_ok :: "motor_config list \<Rightarrow> dbl \<Rightarrow> joint_vector \<Rightarrow> joint_vector \<Rightarrow> bool" where
  "waypoint_ok ms branch_step predecessor q \<longleftrightarrow>
     list_all (\<lambda>j. within_joint (ms ! j) (q ! j) \<and> \<not> \<bar>q ! j - predecessor ! j\<bar> > branch_step) [0 ..< 7]"

fun ik_path ::
  "model_lib \<Rightarrow> nat \<Rightarrow> motor_config list \<Rightarrow> tcp_move \<Rightarrow> point \<Rightarrow> point \<Rightarrow> nat list \<Rightarrow> joint_vector
     \<Rightarrow> control_status + ik_result list" where
  "ik_path lib side ms mv from target [] predecessor = Inr []"
| "ik_path lib side ms mv from target (w # ws) predecessor =
     (let fraction = dbl_of_nat w / dbl_of_nat 16;
          tcp = map (\<lambda>axis. from ! axis + fraction * (target ! axis - from ! axis)) [0 ..< 3]
      in case inverse_kinematics lib side tcp predecessor of None \<Rightarrow> Inl OA_CONTROL_EUNREACHABLE
      | Some ik \<Rightarrow>
          if residual ik > tm_tcp_tol_m mv \<or> min_singular_value ik < tm_min_singular_value mv
             \<or> \<not> waypoint_ok ms (tm_max_branch_step_rad mv) predecessor (ik_q ik)
          then Inl OA_CONTROL_EUNREACHABLE
          else case ik_path lib side ms mv from target ws (ik_q ik) of Inl e \<Rightarrow> Inl e
          | Inr rest \<Rightarrow> Inr (ik # rest))"

definition arm_path ::
  "model_lib \<Rightarrow> nat \<Rightarrow> tcp_move \<Rightarrow> point \<Rightarrow> controller \<Rightarrow> control_status + ik_result list" where
  "arm_path lib side mv target c =
     (if \<not> list_all disfinite target then Inl OA_CONTROL_EINVAL
      else
        let start = measured_q (pick side (c_arm c)) in
        case forward lib side start of None \<Rightarrow> Inl OA_CONTROL_EFAULT
        | Some fk \<Rightarrow> ik_path lib side (ac_motor (pick side (mc_arm (c_manifest c)))) mv (tcp_xyz fk)
                       target [1 ..< 17] start)"

definition kRetreatMonotonicEpsilonM :: dbl where
  "kRetreatMonotonicEpsilonM = lit (1 / 10 ^ 6)"

text \<open>
  The proof of a retreat from the contact pose, over the planned waypoints: every one is clear in
  the scoped test, the terminal clearance does not fall while the pair is active, the pair is not
  entered again, and it is left at the end.
\<close>

fun retreat_proved :: "model_lib \<Rightarrow> joint_vector both list \<Rightarrow> bool \<Rightarrow> dbl \<Rightarrow> bool" where
  "retreat_proved lib [] cleared previous = cleared"
| "retreat_proved lib (q # qs) cleared previous =
     (let (ok, s) = keepout_clear lib q OA_COLLISION_CONTACT_TERMINAL_CAPS in
      if \<not> ok then False
      else if terminal_pair_active s then
        if cleared \<or> terminal_pair_clearance_m s < previous - kRetreatMonotonicEpsilonM then False
        else retreat_proved lib qs cleared (terminal_pair_clearance_m s)
      else retreat_proved lib qs True previous)"

text \<open>The contact policy of the plan, or a collision.\<close>

definition retreat_policy ::
  "model_lib \<Rightarrow> u32 \<Rightarrow> joint_vector both \<Rightarrow> joint_vector both list \<Rightarrow> u32 option" where
  "retreat_policy lib policy start waypoints =
     (if policy = OA_COLLISION_CONTACT_NONE then
        let strict_clear = fst (keepout_clear lib start OA_COLLISION_CONTACT_NONE);
            (scoped_clear, scoped) = keepout_clear lib start OA_COLLISION_CONTACT_TERMINAL_CAPS
        in if \<not> strict_clear \<and> scoped_clear \<and> terminal_pair_active scoped then
             if retreat_proved lib waypoints False (terminal_pair_clearance_m scoped)
             then Some OA_COLLISION_CONTACT_TERMINAL_CAPS else None
           else Some policy
      else Some policy)"

text \<open>The times of the waypoints, stopping where the sum would overflow.\<close>

fun waypoint_times :: "u64 \<Rightarrow> u64 list \<Rightarrow> u64 list option" where
  "waypoint_times t [] = Some [t]"
| "waypoint_times t (segment # segments) =
     (if segment > UINT64_MAX - t then None
      else map_option ((#) t) (waypoint_times (t + segment) segments))"

definition array33 :: "'a \<Rightarrow> 'a list \<Rightarrow> 'a list" where
  "array33 x xs = take 33 (xs @ replicate 33 x)"

definition valid_paired_request :: "paired_plan_request \<Rightarrow> controller \<Rightarrow> bool" where
  "valid_paired_request req c \<longleftrightarrow>
     (let mv = pr_move req in
      \<not> (tm_expiry_ns mv \<le> now_ns c
         \<or> fst (tm_required_feedback_seq mv) \<noteq> feedback_seq (fst (c_arm c))
         \<or> snd (tm_required_feedback_seq mv) \<noteq> feedback_seq (snd (c_arm c))
         \<or> \<not> valid_scale (tm_velocity_scale mv) \<or> \<not> valid_scale (tm_acceleration_scale mv)
         \<or> \<not> valid_scale (tm_jerk_scale mv) \<or> \<not> disfinite (tm_tcp_tol_m mv) \<or> tm_tcp_tol_m mv \<le> 0
         \<or> \<not> disfinite (tm_max_branch_step_rad mv) \<or> tm_max_branch_step_rad mv \<le> 0
         \<or> \<not> disfinite (tm_min_singular_value mv) \<or> tm_min_singular_value mv < 0
         \<or> tm_collision_scene_revision mv \<noteq> collision_scene_revision (c_options c)))"

definition paired_plan_of ::
  "paired_plan_request \<Rightarrow> ik_result list both \<Rightarrow> u32 \<Rightarrow> u64 list \<Rightarrow> controller \<Rightarrow> motion_plan" where
  "paired_plan_of req paths policy ts c =
     (let mv = pr_move req; start = map_both measured_q (c_arm c); tol = tm_tcp_tol_m mv in
      empty_plan
        \<lparr>mp_kind := pr_kind req, active_arm_mask := 3,
         mp_manifest_revision := manifest_revision (c_manifest c),
         mp_model_revision := model_revision (c_manifest c),
         mp_collision_scene_revision := tm_collision_scene_revision mv,
         contact_geometry_policy := policy, controller_instance := instance_id c,
         mp_verify_epoch := verify_epoch c, mp_expiry_ns := tm_expiry_ns mv, waypoint_count := 17,
         seed_seq := map_both feedback_seq (c_arm c), start_q := start,
         target_tcp := pr_target_tcp req, tcp_tolerance := (tol, tol),
         joint_position_tolerance := (lit (5 / 10 ^ 4), lit (5 / 10 ^ 4)),
         joint_velocity_tolerance := (lit (2 / 10 ^ 2), lit (2 / 10 ^ 2)),
         waypoint_q := (array33 zero_joints (fst start # map ik_q (fst paths)),
                        array33 zero_joints (snd start # map ik_q (snd paths))),
         target_q := map_both (\<lambda>p. ik_q (last p)) paths,
         achieved_tcp := map_both (\<lambda>p. achieved (last p)) paths,
         tcp_residual := map_both (\<lambda>p. residual (last p)) paths,
         collision_checked := False, waypoint_time_ns := array33 0 ts, duration_ns := ts ! 16\<rparr>)"

definition plan_paired_common ::
  "model_lib \<Rightarrow> paired_plan_request \<Rightarrow> controller \<Rightarrow> control_status + motion_plan" where
  "plan_paired_common lib req c =
     (if \<not> valid_paired_request req c then Inl OA_CONTROL_EINVAL
      else
        let mv = pr_move req; start = map_both measured_q (c_arm c) in
        case arm_path lib 0 mv (fst (pr_target_tcp req)) c of Inl e \<Rightarrow> Inl e
        | Inr l \<Rightarrow>
        case arm_path lib 1 mv (snd (pr_target_tcp req)) c of Inl e \<Rightarrow> Inl e
        | Inr r \<Rightarrow>
          let waypoints = zip (map ik_q l) (map ik_q r) in
          case retreat_policy lib (pr_contact_geometry_policy req) start waypoints of
            None \<Rightarrow> Inl OA_CONTROL_ECOLLISION
          | Some policy \<Rightarrow>
              case waypoint_times 0
                     (map2 (\<lambda>a b. trajectory_duration lib a b (tm_velocity_scale mv)
                                    (tm_acceleration_scale mv) (tm_jerk_scale mv) 3 c)
                        (start # butlast waypoints) waypoints) of
                None \<Rightarrow> Inl OA_CONTROL_EUNREACHABLE
              | Some ts \<Rightarrow> Inr (paired_plan_of req (l, r) policy ts c))"

section \<open>The four Cartesian moves\<close>

definition planning ::
  "bool \<Rightarrow> (controller \<Rightarrow> control_status + motion_plan) \<Rightarrow> controller
     \<Rightarrow> (control_status + motion_plan) \<times> controller" where
  "planning estop body c =
     (let (st, c1) = plan_preconditions estop c in
      if st \<noteq> OA_CONTROL_OK then (Inl st, c1) else (body c1, c1))"

definition plan_paired ::
  "model_lib \<Rightarrow> bool \<Rightarrow> paired_tcp_move \<Rightarrow> controller \<Rightarrow> (control_status + motion_plan) \<times> controller" where
  "plan_paired lib estop req = planning estop (\<lambda>c.
     plan_paired_common lib
       \<lparr>pr_kind = OA_PLAN_PAIRED_TCP, pr_move = tcp_move.truncate req,
        pr_target_tcp = (left_tcp_m req, right_tcp_m req),
        pr_contact_geometry_policy = OA_COLLISION_CONTACT_NONE\<rparr> c)"

definition difference :: "point \<Rightarrow> point \<Rightarrow> point" where
  "difference a b = map (\<lambda>i. a ! i - b ! i) [0 ..< 3]"

definition magnitude :: "point \<Rightarrow> dbl" where
  "magnitude v = dsqrt (v ! 0 * v ! 0 + v ! 1 * v ! 1 + v ! 2 * v ! 2)"

definition finite_point :: "point \<Rightarrow> bool" where
  "finite_point v \<longleftrightarrow> disfinite (v ! 0) \<and> disfinite (v ! 1) \<and> disfinite (v ! 2)"

text \<open>The measured tool centres of both arms.\<close>

definition measured_tcps :: "model_lib \<Rightarrow> controller \<Rightarrow> (point both) option" where
  "measured_tcps lib c =
     (case forward lib 0 (measured_q (fst (c_arm c))) of None \<Rightarrow> None
      | Some l \<Rightarrow> case forward lib 1 (measured_q (snd (c_arm c))) of None \<Rightarrow> None
      | Some r \<Rightarrow> Some (tcp_xyz l, tcp_xyz r))"

definition plan_centroid ::
  "model_lib \<Rightarrow> bool \<Rightarrow> centroid_tcp_move \<Rightarrow> controller \<Rightarrow> (control_status + motion_plan) \<times> controller" where
  "plan_centroid lib estop req = planning estop (\<lambda>c.
     if \<not> finite_point (target_centroid_m req) then Inl OA_CONTROL_EINVAL
     else case measured_tcps lib c of None \<Rightarrow> Inl OA_CONTROL_EFAULT
     | Some (l, r) \<Rightarrow>
         let delta = map (\<lambda>axis. target_centroid_m req ! axis - lit (1 / 2) * (l ! axis + r ! axis)) [0 ..< 3];
             left = map (\<lambda>axis. l ! axis + delta ! axis) [0 ..< 3];
             right = map (\<lambda>axis. r ! axis + delta ! axis) [0 ..< 3]
         in if \<not> list_all disfinite (delta @ left @ right) then Inl OA_CONTROL_EINVAL
            else plan_paired_common lib
                   \<lparr>pr_kind = OA_PLAN_CENTROID_TCP, pr_move = tcp_move.truncate req,
                    pr_target_tcp = (left, right),
                    pr_contact_geometry_policy = OA_COLLISION_CONTACT_NONE\<rparr> c)"

definition plan_mirrored ::
  "model_lib \<Rightarrow> bool \<Rightarrow> mirrored_tcp_move \<Rightarrow> controller \<Rightarrow> (control_status + motion_plan) \<times> controller" where
  "plan_mirrored lib estop req = planning estop (\<lambda>c.
     if lead_side req \<noteq> 0 \<and> lead_side req \<noteq> OA_RIGHT then Inl OA_CONTROL_EINVAL
     else if \<not> finite_point (lead_tcp_m req) then Inl OA_CONTROL_EINVAL
     else
       let t = lead_tcp_m req; lead = unat (lead_side req); follow = (if lead = 0 then 1 else 0);
           targets = put follow [t ! 0, - (t ! 1), t ! 2]
                       (put lead [t ! 0, t ! 1, t ! 2] (replicate 3 0, replicate 3 0))
       in plan_paired_common lib
            \<lparr>pr_kind = OA_PLAN_MIRRORED_TCP, pr_move = tcp_move.truncate req, pr_target_tcp = targets,
             pr_contact_geometry_policy = OA_COLLISION_CONTACT_NONE\<rparr> c)"

abbreviation kDefaultContactPersistenceCycles :: u32 where
  "kDefaultContactPersistenceCycles \<equiv> 3"

definition kDefaultContactTorqueFraction :: dbl where
  "kDefaultContactTorqueFraction = lit (1 / 4)"

definition configure_contact_thresholds ::
  "manifest_config \<Rightarrow> joint_vector \<Rightarrow> dbl \<Rightarrow> u32 \<Rightarrow> motion_plan \<Rightarrow> motion_plan option" where
  "configure_contact_thresholds man requested request_fraction cycles p =
     (let fraction = (if request_fraction > 0 then request_fraction else kDefaultContactTorqueFraction);
          threshold = (\<lambda>side j.
            let t = requested ! j in
            if \<not> disfinite t \<or> t \<le> 0 then fraction * tmax_nm (ac_motor (pick side (mc_arm man)) ! j)
            else t);
          thresholds = (map (threshold 0) [0 ..< 7], map (threshold 1) [0 ..< 7])
      in if all_both (list_all (\<lambda>t. \<not> (\<not> disfinite t \<or> t \<le> 0))) thresholds
         then Some (p\<lparr>contact_monitored := True,
                      contact_persistence_cycles :=
                        (if cycles = 0 then kDefaultContactPersistenceCycles else cycles),
                      contact_threshold_nm := thresholds\<rparr>)
         else None)"

text \<open>The target of one arm: its measured tool centre moved along its own ray to the point.\<close>

definition converge_target :: "model_lib \<Rightarrow> nat \<Rightarrow> converge_tcp_move \<Rightarrow> controller \<Rightarrow> control_status + point" where
  "converge_target lib side req c =
     (case forward lib side (measured_q (pick side (c_arm c))) of None \<Rightarrow> Inl OA_CONTROL_EFAULT
      | Some fk \<Rightarrow>
          let ray = difference [target_m req ! 0, target_m req ! 1, target_m req ! 2] (tcp_xyz fk);
              distance = magnitude ray
          in if \<not> disfinite distance then Inl OA_CONTROL_EINVAL
             else
               let travel = distance - stop_distance_m req in
               if travel < minimum_progress_m req then Inl OA_CONTROL_EUNREACHABLE
               else
                 let scale = travel / distance;
                     target = map (\<lambda>axis. tcp_xyz fk ! axis + ray ! axis * scale) [0 ..< 3]
                 in if \<not> list_all disfinite target then Inl OA_CONTROL_EINVAL else Inr target)"

definition plan_converge ::
  "model_lib \<Rightarrow> bool \<Rightarrow> converge_tcp_move \<Rightarrow> controller \<Rightarrow> (control_status + motion_plan) \<times> controller" where
  "plan_converge lib estop req = planning estop (\<lambda>c.
     if \<not> finite_point (target_m req) \<or> \<not> disfinite (stop_distance_m req) \<or> stop_distance_m req < 0
        \<or> \<not> disfinite (minimum_progress_m req) \<or> minimum_progress_m req < 0
        \<or> \<not> disfinite (contact_torque_fraction req)
     then Inl OA_CONTROL_EINVAL
     else case converge_target lib 0 req c of Inl e \<Rightarrow> Inl e
     | Inr l \<Rightarrow> case converge_target lib 1 req c of Inl e \<Rightarrow> Inl e
     | Inr r \<Rightarrow>
         case plan_paired_common lib
                \<lparr>pr_kind = OA_PLAN_CONVERGE_TCP, pr_move = tcp_move.truncate req, pr_target_tcp = (l, r),
                 pr_contact_geometry_policy = OA_COLLISION_CONTACT_TERMINAL_CAPS\<rparr> c of
           Inl e \<Rightarrow> Inl e
         | Inr p \<Rightarrow>
             case configure_contact_thresholds (c_manifest c) (cm_contact_torque_nm req)
                    (contact_torque_fraction req) (cm_contact_persistence_cycles req) p of
               None \<Rightarrow> Inl OA_CONTROL_EINVAL
             | Some p' \<Rightarrow> Inr p')"

end
