(* ===== verification/Control_Cycle.thy ===== *)
theory Control_Cycle
  imports Control_Plan
begin

text \<open>
  Executing a plan (control/src/control_core.cpp): the start of a command, the control cycle
  \<open>advance\<close> with its watchdogs, the interpolation of the reference, the contact and keepout monitors
  and the settling at the goal. \<open>advance\<close> takes the emergency stop it samples as an argument.
\<close>

section \<open>Starting a command\<close>

record execute_request = header +
  er_start_ns :: u64
  er_expiry_ns :: u64
  er_producer_deadline_ns :: u64
  er_stop_kind :: u32

definition reset_contact_report :: "model_lib \<Rightarrow> motion_plan \<Rightarrow> controller \<Rightarrow> controller" where
  "reset_contact_report lib p c =
     c\<lparr>contact_report_of := empty_contact_report\<lparr>struct_size := SIZEOF_CONTACT_REPORT,
         abi_version := OA_CONTROL_ABI_V1, cr_cause := OA_STOP_CAUSE_NONE,
         cr_minimum_clearance_m := DNaN\<rparr>,
       contact_streak := 0,
       last_clearance_m := minimum_clearance_m
         (snd (keepout_clear lib (map_both measured_q (c_arm c)) (contact_geometry_policy p)))\<rparr>"

definition execute ::
  "model_lib \<Rightarrow> motion_plan \<Rightarrow> execute_request \<Rightarrow> controller \<Rightarrow> (control_status + u64) \<times> controller" where
  "execute lib p req c =
     (if lifecycle c \<noteq> OA_LIFECYCLE_ARMED_IDLE then (Inl OA_CONTROL_ESTATE, c)
      else if \<not> fresh c then (Inl OA_CONTROL_ESTALE, c)
      else if \<not> healthy c then (let (st, c1) = latch_fault OA_CONTROL_EFAULT False c in (Inl st, c1))
      else if controller_instance p \<noteq> instance_id c \<or> mp_verify_epoch p \<noteq> verify_epoch c
      then (Inl OA_CONTROL_EIDENTITY, c)
      else if mp_manifest_revision p \<noteq> manifest_revision (c_manifest c)
         \<or> mp_model_revision p \<noteq> model_revision (c_manifest c)
         \<or> mp_collision_scene_revision p \<noteq> collision_scene_revision (c_options c)
         \<or> fst (seed_seq p) \<noteq> feedback_seq (fst (c_arm c))
         \<or> snd (seed_seq p) \<noteq> feedback_seq (snd (c_arm c)) \<or> \<not> start_pose_matches p c
      then (Inl OA_CONTROL_ESTALE, c)
      else
        let start_ns = (if er_start_ns req = 0 then now_ns c else er_start_ns req) in
        if start_ns < now_ns c \<or> er_expiry_ns req \<le> start_ns \<or> er_expiry_ns req > mp_expiry_ns p
           \<or> er_producer_deadline_ns req \<le> now_ns c
           \<or> (er_stop_kind req \<noteq> OA_STOP_DISABLE \<and> er_stop_kind req \<noteq> OA_STOP_CONTROLLED)
           \<or> duration_ns p > er_expiry_ns req - start_ns
        then (Inl OA_CONTROL_EINVAL, c)
        else
          let c1 = reset_contact_report lib p (c\<lparr>executing := Some p\<rparr>);
              cid = next_command_id c1; started = (start_ns = now_ns c1);
              c2 = c1\<lparr>command_id := cid, next_command_id := cid + 1, command_start_ns := start_ns,
                      command_expiry_ns := er_expiry_ns req,
                      producer_deadline_ns := er_producer_deadline_ns req, settle_start_ns := 0,
                      settle_feedback_seq := (0, 0), settle_feedback_intervals := 0,
                      active_stop_kind := er_stop_kind req, command_started := started,
                      settling_published := False, lifecycle := OA_LIFECYCLE_EXECUTING\<rparr>;
              (st, c3) = publishing (if started then OA_EVENT_STARTED else OA_EVENT_QUEUED)
                           OA_CONTROL_OK cid OA_CONTROL_OK c2
          in (if st = OA_CONTROL_OK then Inr cid else Inl st, c3))"

section \<open>The reference\<close>

definition smoothstep7 :: "dbl \<Rightarrow> dbl" where
  "smoothstep7 u =
     (let x = dclamp u 0 1 in
      x * x * x * x * (lit 35 + x * (lit (- 84) + x * (lit 70 - lit 20 * x))))"

definition smoothstep7_derivative :: "dbl \<Rightarrow> dbl" where
  "smoothstep7_derivative u =
     (let x = dclamp u 0 1; one_minus = 1 - x in
      lit 140 * x * x * x * one_minus * one_minus * one_minus)"

text \<open>\<open>while (segment + 1 < count && elapsed > time[segment]) ++segment\<close>, from segment 1.\<close>

function find_segment :: "u64 \<Rightarrow> nat \<Rightarrow> u64 list \<Rightarrow> nat \<Rightarrow> nat" where
  "find_segment elapsed n ts segment =
     (if segment + 1 < n \<and> elapsed > ts ! segment then find_segment elapsed n ts (segment + 1)
      else segment)"
  by pat_completeness auto
termination
  by (relation "measure (\<lambda>(elapsed, n, ts, segment). n - segment)") auto

declare find_segment.simps [simp del]

definition reference_at :: "motion_plan \<Rightarrow> u64 \<Rightarrow> u64 \<Rightarrow> (joint_vector \<times> joint_vector) both" where
  "reference_at p start_ns now =
     (let elapsed = (if now \<le> start_ns then 0 else now - start_ns);
          ts = waypoint_time_ns p;
          segment = find_segment elapsed (waypoint_count p) ts 1;
          segment_start = ts ! (segment - 1); segment_end = ts ! segment;
          segment_duration = segment_end - segment_start;
          segment_elapsed = (if elapsed \<le> segment_start then 0
                             else umin (elapsed - segment_start) segment_duration);
          u = (if segment_duration = 0 then 1
               else dbl_of_word segment_elapsed / dbl_of_word segment_duration);
          position_scale = smoothstep7 u;
          velocity_scale = (if segment_elapsed \<ge> segment_duration then 0
                            else smoothstep7_derivative u * lit (10 ^ 9) / dbl_of_word segment_duration)
      in map_both (\<lambda>wq.
           (map (\<lambda>j. let from = wq ! (segment - 1) ! j; delta = wq ! segment ! j - from
                     in from + delta * position_scale) [0 ..< 7],
            map (\<lambda>j. let from = wq ! (segment - 1) ! j; delta = wq ! segment ! j - from
                     in delta * velocity_scale) [0 ..< 7])) (waypoint_q p))"

section \<open>The monitors\<close>

text \<open>What a monitor records of the arms where it stops them.\<close>

definition record_stop :: "model_lib \<Rightarrow> controller \<Rightarrow> contact_report \<Rightarrow> contact_report" where
  "record_stop lib c r =
     (let q = map_both measured_q (c_arm c);
          tcp = (\<lambda>side. case forward lib side (pick side q) of None \<Rightarrow> pick side (stopped_tcp_m r)
                        | Some fk \<Rightarrow> tcp_xyz fk)
      in r\<lparr>stop_monotonic_ns := now_ns c, stop_feedback_seq := map_both feedback_seq (c_arm c),
           stopped_q_rad := q, stopped_tcp_m := (tcp 0, tcp 1)\<rparr>)"

definition kClearanceWorseningEpsilon :: dbl where
  "kClearanceWorseningEpsilon = lit (1 / 10 ^ 6)"

definition monitor_keepout :: "model_lib \<Rightarrow> motion_plan \<Rightarrow> controller \<Rightarrow> bool \<times> controller" where
  "monitor_keepout lib p c =
     (let previous = last_clearance_m c; policy = contact_geometry_policy p;
          (ok, s) = keepout_clear lib (map_both measured_q (c_arm c)) policy;
          c1 = c\<lparr>last_clearance_m := minimum_clearance_m s\<rparr>;
          noted = (contact_report_of c1)\<lparr>cr_minimum_clearance_m := minimum_clearance_m s\<rparr>
      in if ok then
           if contact_monitored p \<and> policy = OA_COLLISION_CONTACT_TERMINAL_CAPS
              \<and> terminal_pair_active s \<and> claw_contact_active s
           then (False, c1\<lparr>contact_report_of := record_stop lib c1
                   (noted\<lparr>cr_cause := OA_STOP_CAUSE_CONTACT, contact_detected := 1\<rparr>)\<rparr>)
           else (True, c1\<lparr>contact_report_of := noted\<rparr>)
         else if disfinite previous \<and> disfinite (minimum_clearance_m s)
            \<and> minimum_clearance_m s \<ge> previous - kClearanceWorseningEpsilon
         then (True, c1\<lparr>contact_report_of := noted\<rparr>)
         else (False, c1\<lparr>contact_report_of := record_stop lib c1
                 (noted\<lparr>cr_cause := OA_STOP_CAUSE_KEEPOUT, keepout_violation := violation s,
                        keepout_side := ks_side s, keepout_segment_a := segment_a s,
                        keepout_segment_b := segment_b s\<rparr>)\<rparr>))"

text \<open>The joints of one side whose torque reaches its threshold.\<close>

definition torque_mask :: "joint_vector \<Rightarrow> joint_vector \<Rightarrow> u32" where
  "torque_mask threshold tau =
     mask_where (\<lambda>j. threshold ! j > 0 \<and> \<bar>tau ! j\<bar> \<ge> threshold ! j)"

definition monitor_contact :: "model_lib \<Rightarrow> controller \<Rightarrow> bool \<times> controller" where
  "monitor_contact lib c =
     (case executing c of None \<Rightarrow> (True, c)
      | Some p \<Rightarrow>
          if \<not> contact_monitored p then (True, c)
          else
            let tau = map_both measured_tau (c_arm c);
                joint_mask = (torque_mask (fst (contact_threshold_nm p)) (fst tau),
                              torque_mask (snd (contact_threshold_nm p)) (snd tau));
                side_mask = (if fst joint_mask \<noteq> 0 then 1 else 0) OR (if snd joint_mask \<noteq> 0 then 2 else 0)
            in if side_mask = 0 then (True, c\<lparr>contact_streak := 0\<rparr>)
               else
                 let c1 = c\<lparr>contact_streak := contact_streak c + 1\<rparr> in
                 if contact_streak c1 < contact_persistence_cycles p then (True, c1)
                 else (False, c1\<lparr>contact_report_of := record_stop lib c1
                         ((contact_report_of c1)
                            \<lparr>cr_cause := OA_STOP_CAUSE_CONTACT, contact_detected := 1,
                             contact_side_mask := side_mask, contact_joint_mask := joint_mask,
                             contact_torque_nm := tau,
                             threshold_torque_nm := contact_threshold_nm p\<rparr>)\<rparr>))"

text \<open>The obstacles of the simulation hold an arm whose tool is inside them.\<close>

definition obstructed :: "model_lib \<Rightarrow> nat \<Rightarrow> sim_contact \<Rightarrow> arm_runtime \<Rightarrow> bool" where
  "obstructed lib side k a \<longleftrightarrow>
     sc_enabled k \<noteq> 0 \<and>
     (case forward lib side (measured_q a) of None \<Rightarrow> False
      | Some fk \<Rightarrow>
          let distance = magnitude (difference (tcp_xyz fk) (center_m k))
          in disfinite distance \<and> distance < radius_m k)"

definition apply_sim_contact :: "model_lib \<Rightarrow> controller \<Rightarrow> controller" where
  "apply_sim_contact lib c =
     (let resolve = (\<lambda>side k a. if obstructed lib side k a
                                then arm_set_blocked True (sc_reaction_gain_nm_per_rad k) a
                                else clear_contact a)
      in c\<lparr>c_arm := (resolve 0 (fst (sim_contacts c)) (fst (c_arm c)),
                     resolve 1 (snd (sim_contacts c)) (snd (c_arm c)))\<rparr>)"

definition complete_on_contact :: "controller \<Rightarrow> control_status \<times> controller" where
  "complete_on_contact c =
     (let completed_id = command_id c; c1 = materialize_stop True c
      in publishing OA_EVENT_STOPPED OA_CONTROL_OK completed_id OA_CONTROL_OK
           (c1\<lparr>executing := None, command_id := 0, settle_start_ns := 0, settle_feedback_seq := (0, 0),
               settle_feedback_intervals := 0, settling_published := False,
               lifecycle := OA_LIFECYCLE_ARMED_IDLE\<rparr>))"

section \<open>The goal\<close>

definition arm_at_goal :: "model_lib \<Rightarrow> motion_plan \<Rightarrow> nat \<Rightarrow> arm_runtime \<Rightarrow> bool" where
  "arm_at_goal lib p side a \<longleftrightarrow>
     (let q = measured_q a; dq = measured_dq a in
      list_all (\<lambda>j. \<not> (\<bar>q ! j - pick side (target_q p) ! j\<bar> > pick side (joint_position_tolerance p)
                       \<or> \<bar>dq ! j\<bar> > pick side (joint_velocity_tolerance p))) [0 ..< 7]
      \<and> (mp_kind p = OA_PLAN_PAIRED_TCP \<longrightarrow>
           (case forward lib side q of None \<Rightarrow> False
            | Some fk \<Rightarrow>
                let error = (\<lambda>axis. tcp_xyz fk ! axis - pick side (target_tcp p) ! axis);
                    squared = fold (\<lambda>axis sq. sq + error axis * error axis) [0 ..< 3] 0
                in \<not> dsqrt squared > pick side (tcp_tolerance p))))"

definition measured_at_goal :: "model_lib \<Rightarrow> controller \<Rightarrow> bool" where
  "measured_at_goal lib c \<longleftrightarrow>
     (case executing c of None \<Rightarrow> False
      | Some p \<Rightarrow>
          (has_bit (active_arm_mask p) 0 \<longrightarrow> arm_at_goal lib p 0 (fst (c_arm c)))
          \<and> (has_bit (active_arm_mask p) 1 \<longrightarrow> arm_at_goal lib p 1 (snd (c_arm c))))"

text \<open>The first notice of settling; the continuation runs if it could be published.\<close>

definition note_settling ::
  "(controller \<Rightarrow> control_status \<times> controller) \<Rightarrow> controller \<Rightarrow> control_status \<times> controller" where
  "note_settling rest c =
     (if settling_published c then rest c
      else
        let (published, c1) = publish_event OA_EVENT_SETTLING OA_CONTROL_OK (command_id c) c
        in if \<not> published then (OA_CONTROL_EBUSY, c1) else rest (c1\<lparr>settling_published := True\<rparr>))"

definition count_settled :: "controller \<Rightarrow> controller" where
  "count_settled c =
     (let current = map_both feedback_seq (c_arm c) in
      if settle_start_ns c = 0
      then c\<lparr>settle_start_ns := now_ns c, settle_feedback_seq := current, settle_feedback_intervals := 0\<rparr>
      else if fst current \<noteq> fst (settle_feedback_seq c) \<and> snd current \<noteq> snd (settle_feedback_seq c)
      then c\<lparr>settle_feedback_seq := current,
             settle_feedback_intervals := settle_feedback_intervals c + 1\<rparr>
      else c)"

definition settle :: "model_lib \<Rightarrow> controller \<Rightarrow> control_status \<times> controller" where
  "settle lib c =
     (if measured_at_goal lib c then
        note_settling (\<lambda>c1.
          let c2 = count_settled c1 in
          if settle_feedback_intervals c2 \<ge> 3
             \<and> now_ns c2 - settle_start_ns c2 \<ge> cycle_ns (c_options c2) * 3
          then
            let completed_id = command_id c2;
                c3 = c2\<lparr>contact_report_of := (contact_report_of c2)\<lparr>cr_cause := OA_STOP_CAUSE_PLAN_COMPLETE\<rparr>,
                        executing := None, command_id := 0, lifecycle := OA_LIFECYCLE_ARMED_IDLE\<rparr>
            in publishing OA_EVENT_COMPLETED OA_CONTROL_OK completed_id OA_CONTROL_OK c3
          else (OA_CONTROL_OK, c2)) c
      else
        note_settling (\<lambda>c1. (OA_CONTROL_OK,
          c1\<lparr>settle_start_ns := 0, settle_feedback_seq := (0, 0), settle_feedback_intervals := 0\<rparr>)) c)"

section \<open>The control cycle\<close>

definition active_lifecycle :: "lifecycle \<Rightarrow> bool" where
  "active_lifecycle l \<longleftrightarrow>
     l = OA_LIFECYCLE_ARMED_IDLE \<or> l = OA_LIFECYCLE_EXECUTING \<or> l = OA_LIFECYCLE_DISARMED"

definition inactive_status :: "lifecycle \<Rightarrow> control_status" where
  "inactive_status l = (if l = OA_LIFECYCLE_FAULT then OA_CONTROL_EFAULT else OA_CONTROL_ESTATE)"

text \<open>The sampled emergency stop.\<close>

definition advance_estop :: "u64 \<Rightarrow> controller \<Rightarrow> control_status \<times> controller" where
  "advance_estop t c =
     (let later = (if t \<ge> now_ns c then t else now_ns c) in
      if \<not> estop_latched c then
        set_interlock True (deadman_active c)
          (c\<lparr>estop_latched := True,
             contact_report_of := (contact_report_of c)\<lparr>cr_cause := OA_STOP_CAUSE_ESTOP,
                                                         stop_monotonic_ns := later\<rparr>,
             now_ns := later\<rparr>)
      else (OA_CONTROL_EESTOP, c\<lparr>now_ns := later\<rparr>))"

text \<open>
  What follows the plant in a cycle: a command that is due to end settles; before that the monitors
  of a started command may end it.
\<close>

definition check_goal :: "model_lib \<Rightarrow> controller \<Rightarrow> control_status \<times> controller" where
  "check_goal lib c =
     (case executing c of None \<Rightarrow> (OA_CONTROL_OK, c)
      | Some p \<Rightarrow>
          if lifecycle c = OA_LIFECYCLE_EXECUTING \<and> now_ns c \<ge> command_start_ns c + duration_ns p
          then settle lib c else (OA_CONTROL_OK, c))"

definition monitor :: "model_lib \<Rightarrow> controller \<Rightarrow> control_status \<times> controller" where
  "monitor lib c =
     (case executing c of None \<Rightarrow> (OA_CONTROL_OK, c)
      | Some p \<Rightarrow>
          if lifecycle c = OA_LIFECYCLE_EXECUTING \<and> command_started c then
            let (clear_of_contact, c1) = monitor_contact lib c in
            if \<not> clear_of_contact then complete_on_contact c1
            else
              let (clear_of_keepout, c2) = monitor_keepout lib p c1 in
              if \<not> clear_of_keepout then complete_on_contact c2 else check_goal lib c2
          else check_goal lib c)"

text \<open>
  The part of the cycle that steps the arms: the plant, the checks of what it fed back, the
  monitors and the goal.
\<close>

definition step_arms ::
  "model_lib \<Rightarrow> (joint_vector \<times> joint_vector) both \<Rightarrow> u64 \<Rightarrow> controller \<Rightarrow> control_status \<times> controller" where
  "step_arms lib refs previous_ns c =
     (let c1 = apply_sim_contact lib c;
          dt_s = dbl_of_word (now_ns c1 - previous_ns) * lit (1 / 10 ^ 9);
          (left_ok, l) = command_and_step (fst (fst refs)) (snd (fst refs)) (now_ns c1) dt_s (fst (c_arm c1));
          c2 = c1\<lparr>c_arm := (l, snd (c_arm c1))\<rparr>
      in if \<not> left_ok then latch_fault OA_CONTROL_ECAN False c2
      else
        let (right_ok, r) = command_and_step (fst (snd refs)) (snd (snd refs)) (now_ns c2) dt_s (snd (c_arm c2));
            c3 = c2\<lparr>c_arm := (l, r)\<rparr>
        in if \<not> right_ok then latch_fault OA_CONTROL_ECAN False c3
        else if feedback_integrity c3 \<noteq> OA_CONTROL_OK then latch_fault (feedback_integrity c3) False c3
        else if \<not> healthy c3 then latch_fault OA_CONTROL_EFAULT False c3
        else monitor lib c3)"

definition hold_reference :: "controller \<Rightarrow> (joint_vector \<times> joint_vector) both" where
  "hold_reference c = map_both (\<lambda>a. (measured_q a, zero_joints)) (c_arm c)"

text \<open>The part of the cycle of a command in execution before the arms are stepped.\<close>

definition advance_command ::
  "model_lib \<Rightarrow> motion_plan \<Rightarrow> u64 \<Rightarrow> controller \<Rightarrow> control_status \<times> controller" where
  "advance_command lib p previous_ns c =
     (if now_ns c > producer_deadline_ns c then latch_fault OA_CONTROL_ESTALE True c
      else if now_ns c > command_expiry_ns c then latch_fault OA_CONTROL_ETIMEOUT True c
      else if \<not> healthy c then latch_fault OA_CONTROL_EFAULT False c
      else
        let run = (\<lambda>c1. step_arms lib (reference_at p (command_start_ns c1) (now_ns c1)) previous_ns c1) in
        if \<not> command_started c \<and> now_ns c \<ge> command_start_ns c then
          if \<not> fresh c \<or> \<not> start_pose_matches p c then latch_fault OA_CONTROL_ESTALE False c
          else
            let (published, c1) = publish_event OA_EVENT_STARTED OA_CONTROL_OK (command_id c)
                                    (c\<lparr>command_started := True\<rparr>)
            in if \<not> published then (OA_CONTROL_EBUSY, c1) else run c1
        else run c)"

definition advance :: "model_lib \<Rightarrow> bool \<Rightarrow> u64 \<Rightarrow> controller \<Rightarrow> control_status \<times> controller" where
  "advance lib estop t c =
     (if estop then advance_estop t c
      else
        let c1 = c\<lparr>estop_latched := False\<rparr> in
        if t < now_ns c1 then (OA_CONTROL_EINVAL, c1)
        else if t = now_ns c1
        then (if active_lifecycle (lifecycle c1) then OA_CONTROL_OK else inactive_status (lifecycle c1), c1)
        else
          let previous_ns = now_ns c1; c2 = c1\<lparr>now_ns := t\<rparr>;
              powered = (lifecycle c2 = OA_LIFECYCLE_ARMED_IDLE \<or> lifecycle c2 = OA_LIFECYCLE_EXECUTING)
          in if \<not> active_lifecycle (lifecycle c2) then (inactive_status (lifecycle c2), c2)
          else if powered \<and> \<not> healthy c2 then latch_fault OA_CONTROL_EFAULT False c2
          else if powered \<and> feedback_integrity c2 \<noteq> OA_CONTROL_OK
          then latch_fault (feedback_integrity c2) False c2
          else if powered \<and> now_ns c2 - previous_ns > cycle_ns (c_options c2)
          then latch_fault OA_CONTROL_ETIMEOUT True c2
          else case executing c2 of
              Some p \<Rightarrow>
                if lifecycle c2 = OA_LIFECYCLE_EXECUTING then advance_command lib p previous_ns c2
                else step_arms lib (hold_reference c2) previous_ns c2
            | None \<Rightarrow> step_arms lib (hold_reference c2) previous_ns c2)"

end
