(* ===== verification/Control_Safety.thy ===== *)
theory Control_Safety
  imports Control_Cycle
begin

text \<open>
  Safety of the controller: its invariant is kept by every operation.
\<close>

section \<open>Fields the invariant does not look at\<close>

lemma powerless_frame [simp]:
  "powerless (c\<lparr>contact_report_of := r\<rparr>) = powerless c" "powerless (c\<lparr>contact_streak := s\<rparr>) = powerless c"
  "powerless (c\<lparr>last_clearance_m := x\<rparr>) = powerless c" "powerless (c\<lparr>estop_latched := b\<rparr>) = powerless c"
  "powerless (c\<lparr>next_command_id := i\<rparr>) = powerless c" "powerless (c\<lparr>command_start_ns := t\<rparr>) = powerless c"
  "powerless (c\<lparr>command_expiry_ns := t\<rparr>) = powerless c"
  "powerless (c\<lparr>producer_deadline_ns := t\<rparr>) = powerless c"
  "powerless (c\<lparr>settle_start_ns := t\<rparr>) = powerless c" "powerless (c\<lparr>settle_feedback_seq := q\<rparr>) = powerless c"
  "powerless (c\<lparr>settle_feedback_intervals := n\<rparr>) = powerless c"
  "powerless (c\<lparr>command_started := b\<rparr>) = powerless c" "powerless (c\<lparr>settling_published := b\<rparr>) = powerless c"
  by (simp_all add: powerless_def)

lemma control_inv_frame [simp]:
  "control_inv (c\<lparr>contact_report_of := r\<rparr>) = control_inv c"
  "control_inv (c\<lparr>contact_streak := s\<rparr>) = control_inv c"
  "control_inv (c\<lparr>last_clearance_m := x\<rparr>) = control_inv c"
  "control_inv (c\<lparr>estop_latched := b\<rparr>) = control_inv c"
  "control_inv (c\<lparr>now_ns := t\<rparr>) = control_inv c"
  "control_inv (c\<lparr>settle_start_ns := t\<rparr>) = control_inv c"
  "control_inv (c\<lparr>settle_feedback_seq := q\<rparr>) = control_inv c"
  "control_inv (c\<lparr>settle_feedback_intervals := n\<rparr>) = control_inv c"
  "control_inv (c\<lparr>command_started := b\<rparr>) = control_inv c"
  "control_inv (c\<lparr>settling_published := b\<rparr>) = control_inv c"
  by (simp_all add: control_inv_def)

lemma base_inv_frame [simp]:
  "base_inv (c\<lparr>contact_report_of := r\<rparr>) = base_inv c"
  "base_inv (c\<lparr>now_ns := t\<rparr>) = base_inv c" "base_inv (c\<lparr>estop_latched := b\<rparr>) = base_inv c"
  by (simp_all add: base_inv_def)

lemma materialize_stop_more [simp]:
  "instance_id (materialize_stop h c) = instance_id c"
  "verify_epoch (materialize_stop h c) = verify_epoch c"
  "estop_latched (materialize_stop h c) = estop_latched c"
  "contact_report_of (materialize_stop h c) = contact_report_of c"
  "deadman_active (materialize_stop h c) = deadman_active c"
  by (simp_all add: materialize_stop_def)

section \<open>Planning and starting a command\<close>

lemma latch_fault_control_inv: "control_inv c \<Longrightarrow> control_inv (snd (latch_fault cause av c))"
  by (rule latch_fault_inv [OF control_inv_base])

lemma plan_joint_inv: "control_inv c \<Longrightarrow> control_inv (snd (plan_joint lib req c))"
  using latch_fault_control_inv [of c OA_CONTROL_EFAULT False]
  by (simp add: plan_joint_def Let_def split_def)

lemma plan_preconditions_inv: "control_inv c \<Longrightarrow> control_inv (snd (plan_preconditions e c))"
  using latch_fault_control_inv [of c OA_CONTROL_EFAULT False]
  by (simp add: plan_preconditions_def)

lemma planning_inv: "control_inv c \<Longrightarrow> control_inv (snd (planning e body c))"
  using plan_preconditions_inv [of c e] by (simp add: planning_def split_def Let_def)

lemma plan_moves_inv:
  assumes "control_inv c"
  shows "control_inv (snd (plan_paired lib e p c))" "control_inv (snd (plan_centroid lib e q c))"
    "control_inv (snd (plan_mirrored lib e m c))" "control_inv (snd (plan_converge lib e v c))"
  using assms
  by (simp_all add: plan_paired_def plan_centroid_def plan_mirrored_def plan_converge_def planning_inv)

lemma execute_inv:
  assumes "control_inv c"
  shows "control_inv (snd (execute lib p req c))"
proof (cases "lifecycle c = OA_LIFECYCLE_ARMED_IDLE")
  case True
  have c: "all_both arm_wf (c_arm c)" "ring_wf 64 (events c)" "backend (c_options c) \<noteq> OA_BACKEND_PHYSICAL"
    using assms True by (auto simp: control_inv_def)
  have start: "control_inv (snd (publishing k OA_CONTROL_OK i OA_CONTROL_OK c2))"
    if "c_arm c2 = c_arm c" "events c2 = events c" "executing c2 \<noteq> None"
       "lifecycle c2 = OA_LIFECYCLE_EXECUTING" "c_options c2 = c_options c" for k i c2
    using that c by (intro publishing_inv) (auto simp: control_inv_def)
  then show ?thesis
    using assms latch_fault_control_inv [of c OA_CONTROL_EFAULT False]
    by (simp add: execute_def Let_def split_def reset_contact_report_def)
qed (use assms in \<open>simp add: execute_def\<close>)

section \<open>The control cycle\<close>

lemma apply_sim_contact_frame [simp]:
  "executing (apply_sim_contact lib c) = executing c" "lifecycle (apply_sim_contact lib c) = lifecycle c"
  "now_ns (apply_sim_contact lib c) = now_ns c" "c_options (apply_sim_contact lib c) = c_options c"
  "command_id (apply_sim_contact lib c) = command_id c" "events (apply_sim_contact lib c) = events c"
  "command_started (apply_sim_contact lib c) = command_started c"
  "command_start_ns (apply_sim_contact lib c) = command_start_ns c"
  "producer_deadline_ns (apply_sim_contact lib c) = producer_deadline_ns c"
  "command_expiry_ns (apply_sim_contact lib c) = command_expiry_ns c"
  by (simp_all add: apply_sim_contact_def)

lemma arms_inv:
  assumes "control_inv c" "all_both arm_wf x" "powerless c \<Longrightarrow> all_both unpowered x"
  shows "control_inv (c\<lparr>c_arm := x\<rparr>)"
  using assms by (auto simp: control_inv_def powerless_def)

lemma apply_sim_contact_inv: "control_inv c \<Longrightarrow> control_inv (apply_sim_contact lib c)"
  unfolding apply_sim_contact_def Let_def
  by (rule arms_inv) (auto simp: control_inv_def all_both_def powerless_def)

lemma complete_on_contact_inv:
  assumes "control_inv c" "lifecycle c = OA_LIFECYCLE_EXECUTING"
  shows "control_inv (snd (complete_on_contact c))"
  using assms unfolding complete_on_contact_def Let_def
  by (intro publishing_inv) (auto simp: control_inv_def)

lemma monitor_contact_frame:
  "control_inv (snd (monitor_contact lib c)) = control_inv c"
  "lifecycle (snd (monitor_contact lib c)) = lifecycle c"
  "executing (snd (monitor_contact lib c)) = executing c"
  "now_ns (snd (monitor_contact lib c)) = now_ns c"
  by (simp_all add: monitor_contact_def Let_def split: option.splits)

lemma monitor_keepout_frame:
  "control_inv (snd (monitor_keepout lib p c)) = control_inv c"
  "lifecycle (snd (monitor_keepout lib p c)) = lifecycle c"
  "executing (snd (monitor_keepout lib p c)) = executing c"
  "now_ns (snd (monitor_keepout lib p c)) = now_ns c"
  by (simp_all add: monitor_keepout_def Let_def split_def)

lemma note_settling_inv:
  assumes "control_inv c" and rest: "\<And>c1. control_inv c1 \<Longrightarrow> lifecycle c1 = lifecycle c \<Longrightarrow> control_inv (snd (rest c1))"
  shows "control_inv (snd (note_settling rest c))"
proof (rule publish_event_cases [of c OA_EVENT_SETTLING OA_CONTROL_OK "command_id c"])
  show "ring_wf 64 (events c)" using assms by (simp add: control_inv_def)
next
  fix ev assume p: "publish_event OA_EVENT_SETTLING OA_CONTROL_OK (command_id c) c = (True, c\<lparr>events := ring_push ev (events c)\<rparr>)"
  with publish_event_inv [of c OA_EVENT_SETTLING OA_CONTROL_OK "command_id c"] assms
  show ?thesis by (simp add: note_settling_def)
next
  fix c' assume p: "publish_event OA_EVENT_SETTLING OA_CONTROL_OK (command_id c) c = (False, c')"
  with publish_event_inv [of c OA_EVENT_SETTLING OA_CONTROL_OK "command_id c"] assms
  show ?thesis by (simp add: note_settling_def)
qed

lemma count_settled_frame [simp]:
  "control_inv (count_settled c) = control_inv c" "lifecycle (count_settled c) = lifecycle c"
  "executing (count_settled c) = executing c" "now_ns (count_settled c) = now_ns c"
  "command_id (count_settled c) = command_id c" "c_options (count_settled c) = c_options c"
  "contact_report_of (count_settled c) = contact_report_of c" "c_arm (count_settled c) = c_arm c"
  by (simp_all add: count_settled_def Let_def)

lemma settle_inv:
  assumes "control_inv c" "lifecycle c = OA_LIFECYCLE_EXECUTING"
  shows "control_inv (snd (settle lib c))"
proof -
  have goal: "control_inv (snd (publishing k st i st' (c2\<lparr>contact_report_of := r, executing := None,
      command_id := 0, lifecycle := OA_LIFECYCLE_ARMED_IDLE\<rparr>)))"
    if "control_inv c2" "lifecycle c2 = OA_LIFECYCLE_EXECUTING" for k st i st' c2 r
    using that by (intro publishing_inv) (auto simp: control_inv_def)
  show ?thesis
    using assms unfolding settle_def
    by (auto simp: Let_def intro!: note_settling_inv goal)
qed

lemma command_and_step_wf: "arm_wf a \<Longrightarrow> arm_wf (snd (command_and_step q dq now dt a))"
  and command_and_step_unpowered:
    "arm_wf a \<Longrightarrow> unpowered (snd (command_and_step q dq now dt a)) = unpowered a"
  using command_and_step_ok by blast+


lemma check_goal_inv: "control_inv c \<Longrightarrow> control_inv (snd (check_goal lib c))"
  by (simp add: check_goal_def settle_inv split: option.split)

lemma monitor_inv: "control_inv c \<Longrightarrow> control_inv (snd (monitor lib c))"
  by (simp add: monitor_def Let_def split_def check_goal_inv complete_on_contact_inv
      monitor_contact_frame monitor_keepout_frame split: option.split)

text \<open>
  A step of the arms ends with a fault or with the monitors, on a state that differs from the one
  before in its arms only.
\<close>

lemma step_arms_cases:
  assumes "all_both arm_wf (c_arm c)"
  obtains (fault) x cause where "step_arms lib refs prev c = latch_fault cause False (c\<lparr>c_arm := x\<rparr>)"
      "all_both arm_wf x" "powerless c \<Longrightarrow> all_both unpowered x"
      "cause \<in> {OA_CONTROL_ECAN, OA_CONTROL_EFAULT, OA_CONTROL_ESTALE}"
  | (stepped) x where "step_arms lib refs prev c = monitor lib (c\<lparr>c_arm := x\<rparr>)"
      "all_both arm_wf x" "powerless c \<Longrightarrow> all_both unpowered x"
      "fresh (c\<lparr>c_arm := x\<rparr>)" "healthy (c\<lparr>c_arm := x\<rparr>)"
proof -
  define y where "y = c_arm (apply_sim_contact lib c)"
  have c1: "apply_sim_contact lib c = c\<lparr>c_arm := y\<rparr>"
    by (simp add: y_def apply_sim_contact_def)
  have wf: "arm_wf (fst y)" "arm_wf (snd y)" and un: "powerless c \<Longrightarrow> unpowered (fst y) \<and> unpowered (snd y)"
    using assms by (auto simp: y_def apply_sim_contact_def all_both_def powerless_def)
  define dt where "dt = dbl_of_word (now_ns c - prev) * lit (1 / 10 ^ 9)"
  obtain okl l where l: "command_and_step (fst (fst refs)) (snd (fst refs)) (now_ns c) dt (fst y) = (okl, l)"
    by fastforce
  obtain okr r where r: "command_and_step (fst (snd refs)) (snd (snd refs)) (now_ns c) dt (snd y) = (okr, r)"
    by fastforce
  have lr: "arm_wf l" "unpowered l = unpowered (fst y)"
      "arm_wf r" "unpowered r = unpowered (snd y)"
    using command_and_step_ok [OF wf(1)] command_and_step_ok [OF wf(2)] l r by (metis snd_conv)+
  let ?c2 = "c\<lparr>c_arm := (l, snd y)\<rparr>" and ?c3 = "c\<lparr>c_arm := (l, r)\<rparr>"
  have eq: "step_arms lib refs prev c =
      (if \<not> okl then latch_fault OA_CONTROL_ECAN False ?c2
       else if \<not> okr then latch_fault OA_CONTROL_ECAN False ?c3
       else if feedback_integrity ?c3 \<noteq> OA_CONTROL_OK then latch_fault (feedback_integrity ?c3) False ?c3
       else if \<not> healthy ?c3 then latch_fault OA_CONTROL_EFAULT False ?c3
       else monitor lib ?c3)"
    unfolding step_arms_def Let_def c1 by (simp add: l r dt_def [simplified, symmetric])
  have fi: "feedback_integrity ?c3 \<in> {OA_CONTROL_OK, OA_CONTROL_ECAN, OA_CONTROL_ESTALE}"
    by (simp add: feedback_integrity_def Let_def)
  have ok: "all_both arm_wf (l, snd y)" "all_both arm_wf (l, r)"
    "powerless c \<Longrightarrow> all_both unpowered (l, snd y)" "powerless c \<Longrightarrow> all_both unpowered (l, r)"
    using lr wf un by (simp_all add: all_both_def)
  show thesis
  proof (cases "okl \<and> okr \<and> feedback_integrity ?c3 = OA_CONTROL_OK \<and> healthy ?c3")
    case True
    then show thesis by (intro stepped [of "(l, r)"]) (simp_all add: eq ok fresh_def)
  next
    case False
    define x where "x = (if okl then (l, r) else (l, snd y))"
    define cause where "cause = (if \<not> okl \<or> \<not> okr then OA_CONTROL_ECAN
      else if feedback_integrity ?c3 \<noteq> OA_CONTROL_OK then feedback_integrity ?c3 else OA_CONTROL_EFAULT)"
    show thesis
      by (rule fault [of cause x]) (use False fi ok in \<open>auto simp: eq x_def cause_def\<close>)
  qed
qed

lemma step_arms_inv:
  assumes c: "control_inv c"
  shows "control_inv (snd (step_arms lib refs prev c))"
proof (rule step_arms_cases [of c lib refs prev])
  show "all_both arm_wf (c_arm c)" using c by (simp add: control_inv_def)
qed (use arms_inv [OF c] in \<open>simp_all add: latch_fault_control_inv monitor_inv\<close>)

lemma advance_command_inv:
  assumes "control_inv c"
  shows "control_inv (snd (advance_command lib p prev c))"
proof (rule publish_event_cases [of "c\<lparr>command_started := True\<rparr>" OA_EVENT_STARTED OA_CONTROL_OK "command_id c"])
  have e: "control_inv (snd (publish_event OA_EVENT_STARTED OA_CONTROL_OK (command_id c) (c\<lparr>command_started := True\<rparr>)))"
    using assms by (intro publish_event_inv) simp
  note s = latch_fault_control_inv [OF assms] step_arms_inv assms
  show "ring_wf 64 (events (c\<lparr>command_started := True\<rparr>))" using assms by (simp add: control_inv_def)
  show ?thesis
    if "publish_event OA_EVENT_STARTED OA_CONTROL_OK (command_id c) (c\<lparr>command_started := True\<rparr>) = (True, c')"
    for c' using that e s by (simp add: advance_command_def Let_def)
  show ?thesis
    if "publish_event OA_EVENT_STARTED OA_CONTROL_OK (command_id c) (c\<lparr>command_started := True\<rparr>) = (False, c')"
    for c' using that e s by (simp add: advance_command_def Let_def)
qed

lemma advance_inv:
  assumes "control_inv c"
  shows "control_inv (snd (advance lib estop t c))"
proof -
  have "control_inv (snd (advance_estop t c))"
    using assms by (simp add: advance_estop_def set_interlock_inv)
  then show ?thesis
    using assms
    by (simp add: advance_def Let_def latch_fault_control_inv advance_command_inv step_arms_inv split: option.split)
qed

end
