(* ===== verification/Control_Calls.thy ===== *)
theory Control_Calls
  imports Control_Safety
begin

text \<open>
  The calls on a controller as a datatype, the controller a sequence of them leaves, and the
  abstract view of it: the graph of the lifecycle, the clock, and the counter of the challenges.
\<close>

section \<open>Calls\<close>

text \<open>
  The planners and the control cycle carry the emergency stop they sample; a plan to execute is any
  plan at all, for the plan handles of the interface belong to the caller.
\<close>

datatype control_call =
    Open verify_report
  | Challenge arm_challenge
  | Arm arm_challenge
  | Plan_joint joint_move
  | Plan_paired bool paired_tcp_move
  | Plan_centroid bool centroid_tcp_move
  | Plan_mirrored bool mirrored_tcp_move
  | Plan_converge bool converge_tcp_move
  | Execute motion_plan execute_request
  | Heartbeat u64 u64
  | Advance bool u64
  | Interlock bool bool
  | Scene_revision u64
  | Stop u32
  | Disarm u64
  | Reset reset_request
  | Sim_contact sim_contact
  | Sim_fault sim_fault
  | Sim_state sim_state
  | Poll_event

fun control_step :: "model_lib \<Rightarrow> control_call \<Rightarrow> controller \<Rightarrow> controller" where
  "control_step lib (Open out) c = snd (snd (open_and_verify out c))"
| "control_step lib (Challenge out) c = snd (snd (challenge out c))"
| "control_step lib (Arm ch) c = snd (arm ch c)"
| "control_step lib (Plan_joint req) c = snd (plan_joint lib req c)"
| "control_step lib (Plan_paired e req) c = snd (plan_paired lib e req c)"
| "control_step lib (Plan_centroid e req) c = snd (plan_centroid lib e req c)"
| "control_step lib (Plan_mirrored e req) c = snd (plan_mirrored lib e req c)"
| "control_step lib (Plan_converge e req) c = snd (plan_converge lib e req c)"
| "control_step lib (Execute p req) c = snd (execute lib p req c)"
| "control_step lib (Heartbeat cid deadline) c = snd (heartbeat cid deadline c)"
| "control_step lib (Advance e t) c = snd (advance lib e t c)"
| "control_step lib (Interlock e d) c = snd (set_interlock e d c)"
| "control_step lib (Scene_revision r) c = snd (set_collision_scene_revision r c)"
| "control_step lib (Stop k) c = snd (stop k c)"
| "control_step lib (Disarm deadline) c = snd (disarm deadline c)"
| "control_step lib (Reset req) c = snd (reset req c)"
| "control_step lib (Sim_contact k) c = snd (set_sim_contact k c)"
| "control_step lib (Sim_fault f) c = snd (set_sim_fault f c)"
| "control_step lib (Sim_state s) c = snd (set_sim_state s c)"
| "control_step lib Poll_event c = snd (poll_event c)"

definition control_run :: "model_lib \<Rightarrow> control_call list \<Rightarrow> controller \<Rightarrow> controller" where
  "control_run lib calls c = fold (control_step lib) calls c"

lemma poll_event_inv: "control_inv c \<Longrightarrow> control_inv (snd (poll_event c))"
  by (auto simp: poll_event_def) (auto simp: control_inv_def ring64.good_drop)

lemma control_step_inv: "control_inv c \<Longrightarrow> control_inv (control_step lib k c)"
  by (cases k) (simp_all add: open_and_verify_inv challenge_inv arm_inv plan_joint_inv plan_moves_inv
      execute_inv heartbeat_inv advance_inv set_interlock_inv scene_revision_inv stop_inv disarm_inv
      reset_inv sim_contact_inv sim_fault_inv sim_state_inv poll_event_inv)

lemma control_run_inv: "control_inv c \<Longrightarrow> control_inv (control_run lib ks c)"
  unfolding control_run_def by (induction ks arbitrary: c) (simp_all add: control_step_inv)

lemma initial_controller_inv:
  assumes "all_both (\<lambda>cfg. length (ac_motor cfg) = 7) (mc_arm man)"
  shows "control_inv (initial_controller man opt inst)"
  using assms
  by (simp add: initial_controller_def control_inv_def all_both_def arm_wf_new map_both_def powerless_def
      ring_wf_init)

section \<open>The graph of the lifecycle\<close>

inductive lifecycle_step :: "lifecycle \<Rightarrow> lifecycle \<Rightarrow> bool" where
  verify: "lifecycle_step OA_LIFECYCLE_CLOSED OA_LIFECYCLE_DISARMED"
| arming: "lifecycle_step OA_LIFECYCLE_DISARMED OA_LIFECYCLE_ARMED_IDLE"
| begin_command: "lifecycle_step OA_LIFECYCLE_ARMED_IDLE OA_LIFECYCLE_EXECUTING"
| end_command: "lifecycle_step OA_LIFECYCLE_EXECUTING OA_LIFECYCLE_ARMED_IDLE"
| disarm_idle: "lifecycle_step OA_LIFECYCLE_ARMED_IDLE OA_LIFECYCLE_DISARMED"
| disarm_command: "lifecycle_step OA_LIFECYCLE_EXECUTING OA_LIFECYCLE_DISARMED"
| reset_fault: "lifecycle_step OA_LIFECYCLE_FAULT OA_LIFECYCLE_CLOSED"
| reset_estop: "lifecycle_step OA_LIFECYCLE_ESTOP OA_LIFECYCLE_CLOSED"
| fault: "lifecycle_step l OA_LIFECYCLE_FAULT"
| estop: "lifecycle_step l OA_LIFECYCLE_ESTOP"
| stay: "lifecycle_step l l"

inductive_simps lifecycle_step_simps [simp]:
  "lifecycle_step OA_LIFECYCLE_CLOSED l" "lifecycle_step OA_LIFECYCLE_DISARMED l"
  "lifecycle_step OA_LIFECYCLE_ARMED_IDLE l" "lifecycle_step OA_LIFECYCLE_EXECUTING l"
  "lifecycle_step OA_LIFECYCLE_FAULT l" "lifecycle_step OA_LIFECYCLE_ESTOP l"
  "lifecycle_step l OA_LIFECYCLE_FAULT" "lifecycle_step l OA_LIFECYCLE_ESTOP"

lemma lifecycle_step_refl [simp]: "lifecycle_step l l" by (rule stay)

section \<open>What every call does to the abstract state\<close>

text \<open>The counter of the challenges and the one outstanding.\<close>

definition nonce_step :: "controller \<Rightarrow> controller \<Rightarrow> bool" where
  "nonce_step c c' \<longleftrightarrow>
     nonce_counter c' = nonce_counter c \<and> outstanding_nonce c' \<in> {outstanding_nonce c, 0}
     \<or> nonce_counter c' = nonce_counter c + 1 \<and> outstanding_nonce c' = nonce_counter c'"

definition fixed_fields :: "controller \<Rightarrow> manifest_config \<times> u64 \<times> controller_options" where
  "fixed_fields c = (c_manifest c, instance_id c, (c_options c)\<lparr>collision_scene_revision := 0\<rparr>)"

definition evolves :: "controller \<Rightarrow> controller \<Rightarrow> bool" where
  "evolves c c' \<longleftrightarrow> fixed_fields c' = fixed_fields c \<and> now_ns c \<le> now_ns c'
     \<and> lifecycle_step (lifecycle c) (lifecycle c') \<and> nonce_step c c'"

lemma evolves_refl [simp]: "evolves c c"
  by (simp add: evolves_def nonce_step_def)

text \<open>Publishing changes nothing of it but, on overflow, the lifecycle to a fault.\<close>

lemma publishing_quiet:
  fixes kind cause i st c
  defines "c' \<equiv> snd (publishing kind cause i st c)"
  shows "fixed_fields c' = fixed_fields c" "now_ns c' = now_ns c" "nonce_counter c' = nonce_counter c"
    "outstanding_nonce c' = outstanding_nonce c" "verify_epoch c' = verify_epoch c"
    "lifecycle c' = lifecycle c \<or> lifecycle c' = OA_LIFECYCLE_FAULT"
  by (simp_all add: c'_def publishing_def publish_event_def Let_def fixed_fields_def materialize_stop_def)

lemma publishing_evolves:
  assumes "fixed_fields c' = fixed_fields c" "now_ns c \<le> now_ns c'" "nonce_step c c'"
    "lifecycle_step (lifecycle c) (lifecycle c')"
  shows "evolves c (snd (publishing kind cause i st c'))"
  using assms publishing_quiet [of kind cause i st c']
  by (auto simp: evolves_def nonce_step_def)

lemma latch_fault_evolves:
  assumes "fixed_fields c' = fixed_fields c" "now_ns c \<le> now_ns c'"
    "nonce_counter c' = nonce_counter c" "outstanding_nonce c' = outstanding_nonce c"
  shows "evolves c (snd (latch_fault cause av c'))"
  unfolding latch_fault_def Let_def
  by (rule publishing_evolves) (use assms in \<open>simp_all add: nonce_step_def fixed_fields_def materialize_stop_def\<close>)

lemmas evolution = evolves_def nonce_step_def fixed_fields_def

lemma session_evolves:
  assumes "control_inv c"
  shows "evolves c (snd (snd (open_and_verify out c)))" "evolves c (snd (snd (challenge out' c)))"
    "evolves c (snd (arm ch c))" "evolves c (snd (heartbeat cid d c))" "evolves c (snd (set_interlock e dm c))"
    "evolves c (snd (set_collision_scene_revision r c))" "evolves c (snd (disarm d c))"
    "evolves c (snd (reset req c))"
proof -
  show "evolves c (snd (snd (open_and_verify out c)))"
    by (auto simp: open_and_verify_def Let_def split_def fixed_fields_def nonce_step_def intro!: publishing_evolves)
  show "evolves c (snd (snd (challenge out' c)))"
    by (auto simp: challenge_def Let_def split_def intro!: latch_fault_evolves) (simp_all add: evolution)
  show "evolves c (snd (arm ch c))"
    by (auto simp: arm_def fixed_fields_def nonce_step_def intro!: latch_fault_evolves publishing_evolves)
  show "evolves c (snd (heartbeat cid d c))"
    by (auto simp: heartbeat_def intro!: latch_fault_evolves) (simp_all add: evolution)
  show "evolves c (snd (set_interlock e dm c))"
    by (auto simp: set_interlock_def Let_def fixed_fields_def nonce_step_def materialize_stop_def intro!: publishing_evolves)
       (simp_all add: evolution)
  show "evolves c (snd (set_collision_scene_revision r c))"
    by (simp add: set_collision_scene_revision_def evolution)
  show "evolves c (snd (disarm d c))"
    by (auto simp: disarm_def fixed_fields_def nonce_step_def intro!: publishing_evolves)
  show "evolves c (snd (reset req c))"
    by (auto simp: reset_def evolution)
qed

lemma publish_event_quiet:
  fixes kind cause i c
  defines "c' \<equiv> snd (publish_event kind cause i c)"
  shows "fixed_fields c' = fixed_fields c" "now_ns c' = now_ns c" "nonce_counter c' = nonce_counter c"
    "outstanding_nonce c' = outstanding_nonce c"
    "lifecycle c' = lifecycle c \<and> fst (publish_event kind cause i c)
     \<or> lifecycle c' = OA_LIFECYCLE_FAULT \<and> \<not> fst (publish_event kind cause i c)"
  by (simp_all add: c'_def publish_event_def Let_def fixed_fields_def materialize_stop_def)

lemma stop_evolves: "evolves c (snd (stop k c))"
proof -
  define c1 where "c1 = c\<lparr>lifecycle := OA_LIFECYCLE_STOPPING\<rparr>"
  define pub where "pub = (if executing c1 \<noteq> None then publish_event OA_EVENT_ABORTED OA_CONTROL_OK (command_id c1) c1
    else (True, c1))"
  have c1: "fixed_fields c1 = fixed_fields c" "now_ns c1 = now_ns c" "nonce_counter c1 = nonce_counter c"
      "outstanding_nonce c1 = outstanding_nonce c" "command_id c1 = command_id c"
    by (simp_all add: c1_def fixed_fields_def)
  then have pub: "fixed_fields (snd pub) = fixed_fields c" "now_ns (snd pub) = now_ns c"
      "nonce_counter (snd pub) = nonce_counter c" "outstanding_nonce (snd pub) = outstanding_nonce c"
      "\<not> fst pub \<longrightarrow> lifecycle (snd pub) = OA_LIFECYCLE_FAULT"
    using publish_event_quiet [of OA_EVENT_ABORTED OA_CONTROL_OK "command_id c1" c1]
    by (auto simp: pub_def)
  have "evolves c (snd (publishing OA_EVENT_STOPPED OA_CONTROL_OK i OA_CONTROL_OK
      ((materialize_stop h ((snd pub)\<lparr>executing := None, command_id := 0\<rparr>))
         \<lparr>lifecycle := l, active_stop_kind := OA_STOP_DISABLE\<rparr>)))"
    if "lifecycle c = OA_LIFECYCLE_EXECUTING \<or> lifecycle c = OA_LIFECYCLE_ARMED_IDLE"
      "l = OA_LIFECYCLE_DISARMED \<or> l = OA_LIFECYCLE_ARMED_IDLE" for i h l
    by (rule publishing_evolves) (use that pub in \<open>auto simp: nonce_step_def fixed_fields_def\<close>)
  moreover have "evolves c (snd pub)" if "\<not> fst pub"
    using that pub by (simp add: evolves_def nonce_step_def)
  ultimately show ?thesis
    unfolding stop_def Let_def c1_def [symmetric] c1 pub_def [unfolded c1, symmetric]
    by (simp add: split_def del: if_not_P)
qed

text \<open>A change outside the abstract state, the clock apart.\<close>

definition unmoved :: "controller \<Rightarrow> controller \<Rightarrow> bool" where
  "unmoved c c' \<longleftrightarrow> fixed_fields c' = fixed_fields c \<and> now_ns c \<le> now_ns c'
     \<and> nonce_counter c' = nonce_counter c \<and> outstanding_nonce c' = outstanding_nonce c
     \<and> lifecycle c' = lifecycle c"

lemma unmoved_evolves: "unmoved c c' \<Longrightarrow> evolves c c'"
  by (simp add: unmoved_def evolves_def nonce_step_def)

lemma unmoved_fault: "unmoved c c' \<Longrightarrow> evolves c (snd (latch_fault cause av c'))"
  by (rule latch_fault_evolves) (simp_all add: unmoved_def)

lemma unmoved_refl [simp]: "unmoved c c" by (simp add: unmoved_def)

lemma unmoved_trans: "unmoved a b \<Longrightarrow> unmoved b c \<Longrightarrow> unmoved a c"
  unfolding unmoved_def by (metis order_trans)

lemma unmoved_published:
  assumes "unmoved c c'"
  shows "evolves c (snd (publish_event kind cause i c'))"
    and "fst (publish_event kind cause i c') \<Longrightarrow> unmoved c (snd (publish_event kind cause i c'))"
  using assms publish_event_quiet [of kind cause i c']
  by (auto simp: unmoved_def evolves_def nonce_step_def)

lemma planning_evolves: "evolves c (snd (planning e body c))"
proof -
  have "evolves c (snd (plan_preconditions e c))"
    by (auto simp: plan_preconditions_def intro: unmoved_fault) (simp_all add: evolution)
  then show ?thesis by (simp add: planning_def split_def Let_def)
qed

lemma command_evolves:
  "evolves c (snd (plan_joint lib jm c))" "evolves c (snd (plan_paired lib e pm c))"
  "evolves c (snd (plan_centroid lib e cm c))" "evolves c (snd (plan_mirrored lib e mm c))"
  "evolves c (snd (plan_converge lib e vm c))" "evolves c (snd (execute lib p req c))"
proof -
  show "evolves c (snd (plan_joint lib jm c))"
    by (simp add: plan_joint_def Let_def split_def unmoved_fault)
  show "evolves c (snd (plan_paired lib e pm c))" "evolves c (snd (plan_centroid lib e cm c))"
    "evolves c (snd (plan_mirrored lib e mm c))" "evolves c (snd (plan_converge lib e vm c))"
    by (simp_all add: plan_paired_def plan_centroid_def plan_mirrored_def plan_converge_def planning_evolves)
  show "evolves c (snd (execute lib p req c))"
    by (auto simp: execute_def Let_def split_def reset_contact_report_def fixed_fields_def nonce_step_def
        intro!: unmoved_fault publishing_evolves)
qed

lemma injection_evolves:
  "evolves c (snd (set_sim_contact k c))" "evolves c (snd (set_sim_fault f c))"
  "evolves c (snd (set_sim_state s c))" "evolves c (snd (poll_event c))"
  by (simp_all add: set_sim_contact_def set_sim_fault_def set_sim_state_def poll_event_def Let_def evolution)

section \<open>The control cycle in the abstract state\<close>

lemma monitors_unmoved:
  "unmoved c (snd (monitor_contact lib c))" "unmoved c (snd (monitor_keepout lib p c))"
  by (auto simp: monitor_contact_def monitor_keepout_def Let_def split_def unmoved_def fixed_fields_def
      split: option.split)

lemma complete_on_contact_evolves:
  assumes "unmoved c c'" "lifecycle c' = OA_LIFECYCLE_EXECUTING"
  shows "evolves c (snd (complete_on_contact c'))"
  unfolding complete_on_contact_def Let_def
  by (rule publishing_evolves) (use assms in \<open>auto simp: unmoved_def nonce_step_def fixed_fields_def\<close>)

lemma note_settling_evolves:
  assumes c: "unmoved c c'" and rest: "\<And>c1. unmoved c c1 \<Longrightarrow> evolves c (snd (rest c1))"
  shows "evolves c (snd (note_settling rest c'))"
proof -
  have "unmoved c (d\<lparr>settling_published := True\<rparr>)" if "unmoved c d" for d
    using that by (simp add: unmoved_def fixed_fields_def)
  then show ?thesis
    using assms unmoved_published [OF c, of OA_EVENT_SETTLING OA_CONTROL_OK "command_id c'"]
    by (simp add: note_settling_def split_def Let_def)
qed

lemma settle_evolves:
  assumes "unmoved c c'" "lifecycle c' = OA_LIFECYCLE_EXECUTING"
  shows "evolves c (snd (settle lib c'))"
proof -
  have l: "lifecycle c = OA_LIFECYCLE_EXECUTING" using assms by (simp add: unmoved_def)
  have count: "unmoved c (count_settled d)" if "unmoved c d" for d
    using that by (simp add: count_settled_def Let_def unmoved_def fixed_fields_def)
  have complete: "evolves c (snd (publishing k cs i st (d\<lparr>contact_report_of := r, executing := None,
      command_id := 0, lifecycle := OA_LIFECYCLE_ARMED_IDLE\<rparr>)))" if "unmoved c d" for d k cs i st r
    by (rule publishing_evolves) (use that l in \<open>simp_all add: unmoved_def nonce_step_def fixed_fields_def\<close>)
  have unsettled: "evolves c (d\<lparr>settle_start_ns := 0, settle_feedback_seq := (0, 0), settle_feedback_intervals := 0\<rparr>)"
    if "unmoved c d" for d
    using that by (simp add: unmoved_def evolution)
  show ?thesis
    unfolding settle_def Let_def
    by (auto intro!: note_settling_evolves [OF assms(1)] complete [OF count] unsettled unmoved_evolves [OF count])
qed

lemma monitor_evolves:
  assumes c: "unmoved c c'"
  shows "evolves c (snd (monitor lib c'))"
proof -
  have goal: "evolves c (snd (check_goal lib d))" if "unmoved c d" for d
    using that by (auto simp: check_goal_def settle_evolves unmoved_evolves split: option.split)
  have contact: "unmoved c (snd (monitor_contact lib c'))"
    using c monitors_unmoved(1) by (rule unmoved_trans)
  have keepout: "unmoved c (snd (monitor_keepout lib p (snd (monitor_contact lib c'))))" for p
    using contact monitors_unmoved(2) by (rule unmoved_trans)
  show ?thesis
    using c contact keepout
    by (auto simp: monitor_def Let_def split_def goal unmoved_evolves monitor_contact_frame monitor_keepout_frame
        complete_on_contact_evolves split: option.split)
qed

lemma step_arms_evolves:
  assumes "unmoved c c'" "all_both arm_wf (c_arm c')"
  shows "evolves c (snd (step_arms lib refs prev c'))"
proof -
  have moved: "unmoved c (c'\<lparr>c_arm := x\<rparr>)" for x using assms(1) by (simp add: unmoved_def fixed_fields_def)
  show ?thesis
    by (rule step_arms_cases [OF assms(2), of lib refs prev]) (simp_all add: moved unmoved_fault monitor_evolves)
qed

lemma advance_command_evolves:
  assumes c: "unmoved c c'" and i: "control_inv c'"
  shows "evolves c (snd (advance_command lib p prev c'))"
proof -
  have started: "unmoved c (c'\<lparr>command_started := True\<rparr>)" using c by (simp add: unmoved_def fixed_fields_def)
  have wf: "all_both arm_wf (c_arm c')" using i by (simp add: control_inv_def)
  have "all_both arm_wf (c_arm (snd (publish_event OA_EVENT_STARTED OA_CONTROL_OK (command_id c')
      (c'\<lparr>command_started := True\<rparr>))))"
    using publish_event_inv [of "c'\<lparr>command_started := True\<rparr>" OA_EVENT_STARTED OA_CONTROL_OK "command_id c'"] i
    by (simp add: control_inv_def)
  then show ?thesis
    using unmoved_published [OF started, of OA_EVENT_STARTED OA_CONTROL_OK "command_id c'"]
    by (simp add: advance_command_def Let_def split_def unmoved_fault [OF c] step_arms_evolves c wf)
qed

lemma advance_evolves:
  assumes i: "control_inv c"
  shows "evolves c (snd (advance lib e t c))"
proof -
  have moved: "unmoved c (c\<lparr>estop_latched := b, now_ns := s\<rparr>)" if "now_ns c \<le> s" for b s
    using that by (simp add: unmoved_def fixed_fields_def)
  have stop: "evolves c (snd (set_interlock True d (c\<lparr>estop_latched := b, contact_report_of := r, now_ns := s\<rparr>)))"
    if "now_ns c \<le> s" for d b r s
    unfolding set_interlock_def Let_def snd_conv if_True simp_thms
    by (rule publishing_evolves) (use that in \<open>simp_all add: nonce_step_def fixed_fields_def\<close>)
  define later where "later = (if t \<ge> now_ns c then t else now_ns c)"
  have l: "now_ns c \<le> later" by (simp add: later_def)
  have estop: "evolves c (snd (advance_estop t c))"
    unfolding advance_estop_def Let_def later_def [symmetric]
    using l stop [OF l] by (simp add: evolution)
  have wf: "all_both arm_wf (c_arm c)" using i by (simp add: control_inv_def)
  have same: "evolves c (c\<lparr>estop_latched := b\<rparr>)" for b by (simp add: evolution)
  show ?thesis
  proof (cases "e \<or> t \<le> now_ns c")
    case True
    then show ?thesis using estop same by (auto simp: advance_def Let_def)
  next
    case False
    let ?c = "c\<lparr>estop_latched := False, now_ns := t\<rparr>"
    have u: "unmoved c ?c" using False by (intro moved) (simp add: not_le less_imp_le)
    have "evolves c (snd (advance_command lib p (now_ns c) ?c))" for p
      using u i by (intro advance_command_evolves) simp_all
    moreover have "evolves c (snd (step_arms lib r (now_ns c) ?c))" for r
      using u wf by (intro step_arms_evolves) simp_all
    ultimately show ?thesis
      using False u same by (simp add: advance_def Let_def unmoved_fault unmoved_evolves split: option.split)
  qed
qed

lemma control_step_evolves: "control_inv c \<Longrightarrow> evolves c (control_step lib k c)"
  by (cases k) (simp_all add: session_evolves stop_evolves command_evolves injection_evolves advance_evolves)

end
