(* ===== verification/Control_Samples.thy ===== *)
theory Control_Samples
  imports Control_Calls
begin

text \<open>
  A small model library and controllers for the concrete instances of the theorems.
\<close>

definition sample_lib :: model_lib where
  "sample_lib =
     \<lparr>oa_fk = \<lambda>side q. Some \<lparr>joint_pre = replicate 7 (replicate 12 0),
               joint_axis_body = replicate 7 (replicate 3 0), hand_tcp = replicate 12 0\<rparr>,
      oa_geometric_jacobian = \<lambda>side q. None,
      oa_ik_position = \<lambda>side target opt. Some \<lparr>id_q = seed opt, achieved_position_m = target,
               position_error_m = 0, id_min_singular_value = 1, id_collision_checked = 0\<rparr>,
      oa_model_limits = \<lambda>side joint. None,
      oa_collision_evaluate = \<lambda>l r policy. (True, no_keepout_status\<lparr>clear := True\<rparr>),
      cbrt = \<lambda>x. Fin (2 ^ 20)\<rparr>"

definition sample_manifest :: manifest_config where
  "sample_manifest = \<lparr>struct_size = 0, abi_version = 1, manifest_revision = 1, model_revision = 1,
     mc_arm = (sample_arm, sample_arm)\<rparr>"

definition sample_options :: controller_options where
  "sample_options = \<lparr>struct_size = 0, abi_version = 1, backend = OA_BACKEND_VIRTUAL,
     collision_policy = OA_COLLISION_VIRTUAL_UNCHECKED, cycle_ns = 10, feedback_timeout_ns = 1000,
     max_cross_bus_skew_ns = 1000, collision_scene_revision = 1\<rparr>"

definition sample_controller :: controller where
  "sample_controller = initial_controller sample_manifest sample_options 1"

text \<open>The controller in another lifecycle, with both arms at rest in a fresh generation.\<close>

definition sample_arms :: "arm_runtime both" where
  "sample_arms = map_both (arm_force_state zero_joints zero_joints 0) (map_both new_arm (sample_arm, sample_arm))"

definition sample_idle :: controller where
  "sample_idle = sample_controller\<lparr>c_arm := sample_arms, lifecycle := OA_LIFECYCLE_ARMED_IDLE\<rparr>"

definition sample_plan :: motion_plan where
  "sample_plan = empty_plan\<lparr>controller_instance := 1, mp_manifest_revision := 1, mp_model_revision := 1,
     mp_collision_scene_revision := 1, mp_expiry_ns := 1000, duration_ns := 100, contact_monitored := True,
     contact_persistence_cycles := 3, seed_seq := map_both feedback_seq sample_arms,
     start_q := map_both measured_q sample_arms\<rparr>"

definition sample_executing :: controller where
  "sample_executing = sample_idle\<lparr>lifecycle := OA_LIFECYCLE_EXECUTING, executing := Some sample_plan\<rparr>"

text \<open>The buffers a caller passes for the answers.\<close>

definition sample_report :: verify_report where
  "sample_report = \<lparr>struct_size = 24, abi_version = 1, vr_verify_epoch = 0, verified_mask = 0, failure_mask = 0\<rparr>"

definition sample_answer :: arm_challenge where
  "sample_answer = \<lparr>struct_size = 32, abi_version = 1, ac_verify_epoch = 0, ac_nonce = 0, ac_expiry_ns = 0\<rparr>"

definition sample_fault :: controller where
  "sample_fault = sample_controller\<lparr>lifecycle := OA_LIFECYCLE_FAULT\<rparr>"

lemma sample_manifest_joints: "all_both (\<lambda>cfg. length (ac_motor cfg) = 7) (mc_arm sample_manifest)"
  by (simp add: sample_manifest_def sample_arm_def all_both_def)

lemma sample_controller_inv: "control_inv sample_controller"
  unfolding sample_controller_def by (rule initial_controller_inv [OF sample_manifest_joints])

lemma sample_arms_wf: "all_both arm_wf sample_arms" "all_both faultless sample_arms"
  by (simp_all add: sample_arms_def all_both_def map_both_def sample_arm_def arm_wf_new)

lemma sample_controllers_inv: "control_inv sample_idle" "control_inv sample_executing" "control_inv sample_fault"
  using sample_controller_inv sample_arms_wf
  by (simp_all add: control_inv_def sample_idle_def sample_executing_def sample_fault_def
      sample_controller_def initial_controller_def sample_options_def)

lemma sample_fields [simp]:
  "lifecycle sample_idle = OA_LIFECYCLE_ARMED_IDLE" "lifecycle sample_executing = OA_LIFECYCLE_EXECUTING"
  "lifecycle sample_fault = OA_LIFECYCLE_FAULT" "executing sample_executing = Some sample_plan"
  "\<not> estop_latched sample_executing" "now_ns sample_idle = 0" "c_options sample_idle = sample_options"
  "c_arm sample_idle = sample_arms" "contact_streak sample_executing = 0" "now_ns sample_controller = 0"
  "verify_epoch sample_idle = 0" "instance_id sample_idle = 1" "c_manifest sample_idle = sample_manifest"
  "events sample_idle = ring_init 64 empty_event" "now_ns sample_fault = 0" "deadman_active sample_fault"
  "events sample_fault = ring_init 64 empty_event" "c_options sample_fault = sample_options"
  "nonce_counter sample_fault = 0x4f50454e41524d" "lifecycle sample_controller = OA_LIFECYCLE_CLOSED"
  by (simp_all add: sample_idle_def sample_executing_def sample_fault_def sample_controller_def
      initial_controller_def)

end
