(* ===== verification/Control_Estop.thy ===== *)
theory Control_Estop
  imports Control_Samples
begin

text \<open>
  The emergency stop of the controller: what the cycle that samples it first does, and what the
  latch hides from it.
\<close>

section \<open>The first sample stops\<close>

lemma set_interlock_stops:
  assumes c: "control_inv c"
  shows "case set_interlock True d c of (st, c') \<Rightarrow>
    (st = OA_CONTROL_EESTOP \<and> lifecycle c' = OA_LIFECYCLE_ESTOP
     \<or> st = OA_CONTROL_EBUSY \<and> lifecycle c' = OA_LIFECYCLE_FAULT)
    \<and> executing c' = None \<and> powerless c'"
proof -
  define c3 where "c3 = (let c2 = c\<lparr>deadman_active := d, executing := None, command_id := 0\<rparr> in
     if lifecycle c2 = OA_LIFECYCLE_CLOSED \<or> lifecycle c2 = OA_LIFECYCLE_VERIFYING
     then c2\<lparr>c_arm := map_both (\<lambda>a. retire_pending_feedback (arm_set_enabled False a)) (c_arm c2)\<rparr>
     else materialize_stop False c2)"
  define n where "n = nonce_counter c3 + 1"
  define c4 where "c4 = c3\<lparr>lifecycle := OA_LIFECYCLE_ESTOP, nonce_counter := n, outstanding_nonce := n\<rparr>"
  have eq: "set_interlock True d c = publishing OA_EVENT_ESTOP OA_CONTROL_EESTOP (command_id c) OA_CONTROL_EESTOP c4"
    by (simp add: set_interlock_def Let_def c4_def n_def c3_def)
  have c4: "executing c4 = None" "powerless c4" "lifecycle c4 = OA_LIFECYCLE_ESTOP" "events c4 = events c"
    by (simp_all add: c4_def c3_def Let_def powerless_def all_both_def map_both_def retire_pending_feedback_def
        materialize_stop_def)
  show ?thesis
  proof (rule publish_event_cases [of c4 OA_EVENT_ESTOP OA_CONTROL_EESTOP "command_id c"])
    show "ring_wf 64 (events c4)" using c c4 by (simp add: control_inv_def)
  qed (use c4 in \<open>auto simp: eq publishing_def powerless_def\<close>)
qed

text \<open>
  C3: the first control cycle that samples the emergency stop ends motion. From any state of the
  controller, executing a command or not, the cycle returns the stop status in the stopped
  lifecycle (or, when the event array is full, the busy status in the fault lifecycle), leaves no
  command and takes the power from all fourteen motors.
\<close>
theorem first_estop_cycle_stops:
  assumes c: "control_inv c" and "\<not> estop_latched c" and "advance lib True t c = (st, c')"
  shows "(st = OA_CONTROL_EESTOP \<and> lifecycle c' = OA_LIFECYCLE_ESTOP
          \<or> st = OA_CONTROL_EBUSY \<and> lifecycle c' = OA_LIFECYCLE_FAULT)
    \<and> executing c' = None \<and> powerless c'"
proof -
  define later where "later = (if t \<ge> now_ns c then t else now_ns c)"
  define c0 where "c0 = c\<lparr>estop_latched := True, contact_report_of := (contact_report_of c)
      \<lparr>cr_cause := OA_STOP_CAUSE_ESTOP, stop_monotonic_ns := later\<rparr>, now_ns := later\<rparr>"
  have "advance lib True t c = set_interlock True (deadman_active c) c0"
    unfolding advance_def advance_estop_def Let_def later_def [symmetric] c0_def [symmetric]
    using assms(2) by (simp only: if_True simp_thms)
  moreover have "control_inv c0" using c by (simp add: c0_def)
  ultimately show ?thesis
    using set_interlock_stops [of c0 "deadman_active c"] assms(3) by (auto dest: sym)
qed

theorem first_estop_cycle_stops_witness:
  "executing sample_executing \<noteq> None \<and> executing (snd (advance sample_lib True 5 sample_executing)) = None
   \<and> powerless (snd (advance sample_lib True 5 sample_executing))"
  using first_estop_cycle_stops [OF sample_controllers_inv(2), of sample_lib 5 "fst (advance sample_lib True 5 sample_executing)"
      "snd (advance sample_lib True 5 sample_executing)"]
  by simp

section \<open>A latch set by a planner\<close>

text \<open>Cycles under the emergency stop once the latch is set.\<close>

lemma latched_cycle:
  "estop_latched c \<Longrightarrow> fst (advance lib True t c) = OA_CONTROL_EESTOP
     \<and> (\<exists>n. snd (advance lib True t c) = c\<lparr>now_ns := n\<rparr>)"
proof -
  define later where "later = (if t \<ge> now_ns c then t else now_ns c)"
  assume "estop_latched c"
  then have "advance lib True t c = (OA_CONTROL_EESTOP, c\<lparr>now_ns := later\<rparr>)"
    unfolding advance_def advance_estop_def Let_def later_def [symmetric] by simp
  then show ?thesis by auto
qed

lemma latched_cycles:
  "estop_latched c \<Longrightarrow> \<exists>n. fold (\<lambda>t c. snd (advance lib True t c)) ts c = c\<lparr>now_ns := n\<rparr>"
proof (induction ts arbitrary: c)
  case Nil
  have "c = c\<lparr>now_ns := now_ns c\<rparr>" by simp
  then show ?case by (metis fold_simps(1))
next
  case (Cons t ts)
  obtain n where n: "snd (advance lib True t c) = c\<lparr>now_ns := n\<rparr>" using latched_cycle [OF Cons.prems] by blast
  have "estop_latched (c\<lparr>now_ns := n\<rparr>)" using Cons.prems by simp
  from Cons.IH [OF this] obtain m where
    "fold (\<lambda>t c. snd (advance lib True t c)) ts (c\<lparr>now_ns := n\<rparr>) = c\<lparr>now_ns := n, now_ns := m\<rparr>" by blast
  then show ?case using n by auto
qed

text \<open>
  C27: a Cartesian planning request masks the emergency stop. A request made while the stop is
  asserted sets the controller's latch without stopping it; every control cycle after it, however
  many, returns the stop status but leaves the lifecycle, the command in execution and the motors
  with their power as they were. The stop that the header promises is never made.
\<close>
theorem planning_masks_estop:
  "let c' = fold (\<lambda>t c. snd (advance lib True t c)) ts (snd (plan_paired lib True req c))
   in lifecycle c' = lifecycle c \<and> executing c' = executing c \<and> c_arm c' = c_arm c
      \<and> fst (advance lib True t c') = OA_CONTROL_EESTOP"
proof -
  have "snd (plan_paired lib True req c) = c\<lparr>estop_latched := True\<rparr>"
    by (simp add: plan_paired_def planning_def plan_preconditions_def)
  moreover obtain n where "fold (\<lambda>t c. snd (advance lib True t c)) ts (c\<lparr>estop_latched := True\<rparr>)
      = c\<lparr>estop_latched := True, now_ns := n\<rparr>"
    using latched_cycles [of "c\<lparr>estop_latched := True\<rparr>" lib ts] by auto
  ultimately show ?thesis
    using latched_cycle [of "c\<lparr>estop_latched := True, now_ns := n\<rparr>" lib t] by (simp add: Let_def)
qed

end
