(* ===== verification/Control_Arming.thy ===== *)
theory Control_Arming
  imports Control_Estop
begin

text \<open>
  Arming: what a successful call requires, that a challenge arms once, and that a controller
  stopped by a fault or the emergency stop can be armed again.
\<close>

section \<open>A forced state passes every test\<close>

definition powered :: "arm_runtime \<Rightarrow> bool" where
  "powered a \<longleftrightarrow> list_all enabled (motors a)"

lemma force_state_fields [simp]:
  "generation_timestamp (arm_force_state q dq now a) = now"
  "powered (arm_force_state q dq now a) = powered a"
proof -
  show "generation_timestamp (arm_force_state q dq now a) = now"
    by (simp add: arm_force_state_def Let_def)
  show "powered (arm_force_state q dq now a) = powered a"
    by (simp add: powered_def list_all_length force_state_motors)
qed

lemma forced_tests:
  assumes "all_both arm_wf x" "all_both faultless x"
    and c: "c_arm c = (arm_force_state q dq (now_ns c) (fst x), arm_force_state q' dq' (now_ns c) (snd x))"
  shows "fresh c" "healthy c" "all_both unpowered x \<Longrightarrow> disabled c"
  using assms
  by (auto simp: fresh_def healthy_def disabled_def feedback_integrity_def Let_def all_both_def map_both_def
      force_state_fresh force_state_healthy)

lemma fresh_cong:
  assumes "c_arm c' = c_arm c" "c_options c' = c_options c" "now_ns c' = now_ns c"
  shows "fresh c' = fresh c" "healthy c' = healthy c" "disabled c' = disabled c"
  using assms by (simp_all add: fresh_def healthy_def disabled_def feedback_integrity_def Let_def)

section \<open>What arming requires\<close>

definition licence_current :: "arm_challenge \<Rightarrow> controller \<Rightarrow> bool" where
  "licence_current ch c \<longleftrightarrow> ac_verify_epoch ch = verify_epoch c \<and> ac_nonce ch = outstanding_nonce c
     \<and> outstanding_nonce c \<noteq> 0 \<and> ac_expiry_ns ch = outstanding_challenge_expiry c
     \<and> now_ns c \<le> outstanding_challenge_expiry c"

lemma publishing_ok:
  assumes "\<not> ring_full (events c)"
  shows "fst (publishing kind cause i st c) = st"
    "\<exists>ev. snd (publishing kind cause i st c) = c\<lparr>events := ring_push ev (events c)\<rparr>"
  using assms by (auto simp: publishing_def publish_event_def Let_def)

lemma publishing_full:
  assumes "ring_full (events c)"
  shows "fst (publishing kind cause i st c) = OA_CONTROL_EBUSY"
  using assms by (simp add: publishing_def publish_event_def Let_def)

lemma latch_fault_status:
  "fst (latch_fault cause av c) = cause \<or> fst (latch_fault cause av c) = OA_CONTROL_EBUSY"
  by (auto simp: latch_fault_def Let_def publishing_def split_def)

text \<open>
  C4: arming is licensed. The call succeeds exactly when the controller is disarmed, the caller
  presents the current challenge of this verification before it expires, the feedback of both arms
  is complete, fresh and within the skew, no motor reports a fault, every motor reports itself
  disabled, the dead man's switch is held, and the event can be recorded.
\<close>
theorem arming_licensed:
  "fst (arm ch c) = OA_CONTROL_OK \<longleftrightarrow>
     lifecycle c = OA_LIFECYCLE_DISARMED \<and> licence_current ch c \<and> fresh c \<and> healthy c \<and> disabled c
     \<and> deadman_active c \<and> \<not> ring_full (events c)"
proof -
  have pub: "fst (publishing OA_EVENT_ARMED OA_CONTROL_OK 0 OA_CONTROL_OK c') = OA_CONTROL_OK \<longleftrightarrow> \<not> ring_full (events c')"
    for c' using publishing_ok(1) publishing_full by fastforce
  have fail: "fst (latch_fault cause False c) \<noteq> OA_CONTROL_OK" if "cause \<noteq> OA_CONTROL_OK" for cause
    using latch_fault_status [of cause False c] that by auto
  have busy: "fst (latch_fault (if b then OA_CONTROL_EESTOP else OA_CONTROL_EFAULT) False c) \<noteq> OA_CONTROL_OK" for b
    by (rule fail) simp
  show ?thesis
    unfolding arm_def licence_current_def
    by (simp add: pub busy) (auto dest: leD)
qed

section \<open>A challenge arms once\<close>

lemma unat_Suc_word:
  assumes "unat (n :: u64) + 1 < 2 ^ 64"
  shows "unat (n + 1) = unat n + 1"
  using assms by (subst unat_add_lem [THEN iffD1]) simp_all

lemma nonce_step_cases:
  assumes "nonce_step c c'" "unat (nonce_counter c) + 1 < 2 ^ 64"
  shows "nonce_counter c \<le> nonce_counter c'" "unat (nonce_counter c') \<le> unat (nonce_counter c) + 1"
    "outstanding_nonce c' \<in> {outstanding_nonce c, 0}
     \<or> nonce_counter c < outstanding_nonce c' \<and> outstanding_nonce c' \<le> nonce_counter c'"
  using assms unat_Suc_word [of "nonce_counter c"]
  by (auto simp: nonce_step_def word_le_nat_alt word_less_nat_alt)

lemma nonce_run:
  assumes "control_inv c" "unat (nonce_counter c) + length ks < 2 ^ 64" "outstanding_nonce c \<le> nonce_counter c"
  shows "nonce_counter c \<le> nonce_counter (control_run lib ks c)
    \<and> unat (nonce_counter (control_run lib ks c)) \<le> unat (nonce_counter c) + length ks
    \<and> outstanding_nonce (control_run lib ks c) \<le> nonce_counter (control_run lib ks c)
    \<and> (outstanding_nonce (control_run lib ks c) \<in> {outstanding_nonce c, 0}
       \<or> nonce_counter c < outstanding_nonce (control_run lib ks c))"
  using assms
proof (induction ks arbitrary: c)
  case (Cons k ks)
  let ?c = "control_step lib k c"
  have "nonce_step c ?c" using control_step_evolves [OF Cons.prems(1)] by (simp add: evolves_def)
  note n = nonce_step_cases [OF this]
  have b: "unat (nonce_counter c) + 1 < 2 ^ 64" using Cons.prems(2) by simp
  have "outstanding_nonce ?c \<le> nonce_counter ?c"
    using n(1,3) [OF b] Cons.prems(3) by (auto simp: word_le_nat_alt)
  moreover have "unat (nonce_counter ?c) + length ks < 2 ^ 64" using n(2) [OF b] Cons.prems(2) by simp
  ultimately have IH: "nonce_counter ?c \<le> nonce_counter (control_run lib ks ?c)
    \<and> unat (nonce_counter (control_run lib ks ?c)) \<le> unat (nonce_counter ?c) + length ks
    \<and> outstanding_nonce (control_run lib ks ?c) \<le> nonce_counter (control_run lib ks ?c)
    \<and> (outstanding_nonce (control_run lib ks ?c) \<in> {outstanding_nonce ?c, 0}
       \<or> nonce_counter ?c < outstanding_nonce (control_run lib ks ?c))"
    using Cons.IH control_step_inv [OF Cons.prems(1)] by blast
  have run: "control_run lib (k # ks) c = control_run lib ks ?c" by (simp add: control_run_def)
  show ?case
    unfolding run using IH n [OF b] by (auto simp: word_le_nat_alt word_less_nat_alt)
qed (simp add: control_run_def)

lemma arm_ok_licence:
  assumes "arm ch c = (OA_CONTROL_OK, c')"
  shows "licence_current ch c" "nonce_counter c' = nonce_counter c" "outstanding_nonce c' = 0"
proof -
  have ok: "fst (arm ch c) = OA_CONTROL_OK" using assms by simp
  have fail: "fst (latch_fault cause False c) \<noteq> OA_CONTROL_OK" if "cause \<noteq> OA_CONTROL_OK" for cause
    using latch_fault_status [of cause False c] that by auto
  have "\<not> (ac_verify_epoch ch \<noteq> verify_epoch c \<or> ac_nonce ch \<noteq> outstanding_nonce c
         \<or> outstanding_nonce c = 0 \<or> ac_expiry_ns ch \<noteq> outstanding_challenge_expiry c
         \<or> now_ns c > outstanding_challenge_expiry c)"
    and arm: "arm ch c = publishing OA_EVENT_ARMED OA_CONTROL_OK 0 OA_CONTROL_OK
             (c\<lparr>c_arm := map_both (power_arm (now_ns c)) (c_arm c), outstanding_nonce := 0,
                lifecycle := OA_LIFECYCLE_ARMED_IDLE\<rparr>)"
    using ok fail by (auto simp: arm_def split: if_splits)
  then show "licence_current ch c" by (auto simp: licence_current_def not_less)
  show "nonce_counter c' = nonce_counter c" "outstanding_nonce c' = 0"
    using assms publishing_quiet [of OA_EVENT_ARMED OA_CONTROL_OK 0 OA_CONTROL_OK
        "c\<lparr>c_arm := map_both (power_arm (now_ns c)) (c_arm c), outstanding_nonce := 0,
           lifecycle := OA_LIFECYCLE_ARMED_IDLE\<rparr>"]
    unfolding arm by simp_all
qed

text \<open>
  C6: a challenge arms at most once. When a call has armed a controller, the same challenge never
  arms it again, whatever calls come between (up to 2 to the power 63 calls in the life of the
  controller, so that the 64-bit counter of the challenges does not wrap).
\<close>
theorem challenge_arms_once:
  assumes "all_both (\<lambda>cfg. length (ac_motor cfg) = 7) (mc_arm man)"
    and c: "c = control_run lib calls (initial_controller man opt inst)"
    and armed: "arm ch c = (OA_CONTROL_OK, c')"
    and few: "length calls + length later < 2 ^ 63"
  shows "fst (arm ch (control_run lib later c')) \<noteq> OA_CONTROL_OK"
proof
  assume again: "fst (arm ch (control_run lib later c')) = OA_CONTROL_OK"
  let ?i = "initial_controller man opt inst" and ?d = "control_run lib later c'"
  have i: "control_inv ?i" "nonce_counter ?i = 0x4f50454e41524d" "outstanding_nonce ?i = 0"
    using initial_controller_inv [OF assms(1)] by (simp_all add: initial_controller_def)
  have inv: "control_inv c" unfolding c using i(1) by (rule control_run_inv)
  have n1: "outstanding_nonce c \<le> nonce_counter c"
    "unat (nonce_counter c) \<le> 0x4f50454e41524d + length calls"
    using nonce_run [OF i(1), of calls lib] i(2,3) few by (auto simp: c)
  have inv': "control_inv c'" using arm_inv [OF inv, of ch] armed by simp
  note l = arm_ok_licence [OF armed]
  have bound: "unat (nonce_counter c') + length later < 2 ^ 64" using l(2) n1(2) few by simp
  from nonce_run [OF inv' bound, of lib] l(2,3) have
    d: "outstanding_nonce ?d = 0 \<or> nonce_counter c < outstanding_nonce ?d" by auto
  have "arm ch ?d = (OA_CONTROL_OK, snd (arm ch ?d))" using again by (metis prod.collapse)
  then have "licence_current ch ?d" by (rule arm_ok_licence(1))
  with l(1) have "outstanding_nonce ?d = outstanding_nonce c" "outstanding_nonce c \<noteq> 0"
    by (auto simp: licence_current_def)
  with d n1(1) show False by simp
qed

section \<open>A stopped controller can be armed again\<close>

definition recover :: "arm_challenge \<Rightarrow> verify_report \<Rightarrow> controller \<Rightarrow> control_status \<times> controller" where
  "recover out report c =
     (let (_, ch, c1) = challenge out c;
          (_, c2) = reset \<lparr>struct_size = 0, abi_version = 0, rr_verify_epoch = ac_verify_epoch ch,
                             rr_nonce = ac_nonce ch\<rparr> c1;
          (_, _, c3) = open_and_verify report c2;
          (_, ch', c4) = challenge out c3
      in arm ch' c4)"

lemma powered_set_enabled [simp]: "powered (arm_set_enabled True a)"
  by (simp add: powered_def arm_set_enabled_def motor_set_enabled_def list_all_iff)

lemma faultless_reset [simp]: "arm_wf a \<Longrightarrow> faultless (reset_arm a)"
  by (simp add: reset_arm_def retire_pending_feedback_def set_injection_def set_fault_mask_def Let_def
      arm_set_enabled_def motor_set_enabled_def faultless_def list_all_length motor_set_fault_def clear_queue_def)

text \<open>Opening leaves both arms at rest, without power and passing every test.\<close>

lemma open_from_closed:
  assumes inv: "control_inv c" and c: "lifecycle c = OA_LIFECYCLE_CLOSED"
    "backend (c_options c) \<noteq> OA_BACKEND_PHYSICAL" "count (events c) < 64" "all_both faultless (c_arm c)"
  obtains x n e out' where
    "open_and_verify out c = (OA_CONTROL_OK, out',
       c\<lparr>c_arm := x, verify_epoch := n, lifecycle := OA_LIFECYCLE_DISARMED, events := e\<rparr>)"
    "count e = count (events c) + 1" "length (slots e) = 64" "all_both faultless x"
    "\<And>c'. c_arm c' = x \<Longrightarrow> now_ns c' = now_ns c \<Longrightarrow> fresh c' \<and> healthy c' \<and> disabled c'"
proof -
  define y where "y = map_both (arm_set_enabled False) (c_arm c)"
  define q where "q = (\<lambda>a. if verify_epoch c = 0 then zero_joints else measured_q a)"
  define x where "x = (arm_force_state (q (fst (c_arm c))) zero_joints (now_ns c) (fst y),
                       arm_force_state (q (snd (c_arm c))) zero_joints (now_ns c) (snd y))"
  define c1 where "c1 = c\<lparr>c_arm := x, verify_epoch := verify_epoch c + 1, lifecycle := OA_LIFECYCLE_DISARMED\<rparr>"
  have len: "length (slots (events c)) = 64" using inv by (simp add: control_inv_def ring_wf_def)
  have full: "\<not> ring_full (events c1)" using c len by (simp add: ring_full_def c1_def)
  then obtain ev where ev: "publishing OA_EVENT_VERIFIED OA_CONTROL_OK 0 OA_CONTROL_OK c1
      = (OA_CONTROL_OK, c1\<lparr>events := ring_push ev (events c1)\<rparr>)"
    using publishing_ok [OF full, of OA_EVENT_VERIFIED OA_CONTROL_OK 0 OA_CONTROL_OK] by (metis prod.collapse)
  have y: "all_both arm_wf y" "all_both faultless y" "all_both unpowered y"
    using inv c by (simp_all add: y_def control_inv_def all_both_def map_both_def)
  show thesis
  proof
    show "open_and_verify out c = (OA_CONTROL_OK,
        out\<lparr>vr_verify_epoch := verify_epoch c + 1, verified_mask := 3, failure_mask := 0\<rparr>,
        c\<lparr>c_arm := x, verify_epoch := verify_epoch c + 1, lifecycle := OA_LIFECYCLE_DISARMED,
          events := ring_push ev (events c)\<rparr>)"
      using c ev by (simp add: open_and_verify_def Let_def c1_def x_def y_def q_def map_both_def)
    show "count (ring_push ev (events c)) = count (events c) + 1" "length (slots (ring_push ev (events c))) = 64"
      using len by (simp_all add: ring_push_def)
    show "all_both faultless x" using y by (simp add: x_def all_both_def)
    show "fresh c' \<and> healthy c' \<and> disabled c'" if "c_arm c' = x" "now_ns c' = now_ns c" for c'
      using forced_tests [OF y(1,2)] that y(3) by (simp add: x_def)
  qed
qed

lemma challenge_expiry:
  assumes "now_ns c \<le> UINT64_MAX - 1000000000"
  shows "\<not> now_ns c + 1000000000 < now_ns c"
proof -
  have "unat (now_ns c) + 1000000000 < 2 ^ 64" using assms by (simp add: word_le_nat_alt unat_sub)
  then show ?thesis by (simp add: word_less_nat_alt unat_word_ariths)
qed

lemma next_nonce:
  assumes "unat (nonce_counter c) + 1 < 2 ^ 64"
  shows "nonce_counter c + 1 \<noteq> 0"
  using unat_Suc_word [OF assms] by (metis add_is_0 one_neq_zero unat_0)

text \<open>The first half of a recovery: a challenge and the reset it licenses.\<close>

lemma challenge_reset:
  assumes inv: "control_inv c" and c: "lifecycle c = OA_LIFECYCLE_FAULT \<or> lifecycle c = OA_LIFECYCLE_ESTOP"
    "now_ns c \<le> UINT64_MAX - 1000000000" "unat (nonce_counter c) + 1 < 2 ^ 64"
  obtains ch c1 c2 where "challenge out c = (OA_CONTROL_OK, ch, c1)"
    "reset \<lparr>struct_size = 0, abi_version = 0, rr_verify_epoch = ac_verify_epoch ch, rr_nonce = ac_nonce ch\<rparr> c1
       = (OA_CONTROL_OK, c2)"
    "control_inv c2" "all_both faultless (c_arm c2)" "lifecycle c2 = OA_LIFECYCLE_CLOSED"
    "c_options c2 = c_options c" "events c2 = events c" "now_ns c2 = now_ns c"
    "nonce_counter c2 = nonce_counter c + 1" "deadman_active c2 = deadman_active c"
    "estop_latched c2 = estop_latched c"
proof -
  define n where "n = nonce_counter c + 1"
  define t where "t = now_ns c + 1000000000"
  define c1 where "c1 = c\<lparr>nonce_counter := n, outstanding_nonce := n, outstanding_challenge_expiry := t\<rparr>"
  define ch where "ch = out\<lparr>ac_verify_epoch := verify_epoch c, ac_nonce := n, ac_expiry_ns := t\<rparr>"
  have 1: "challenge out c = (OA_CONTROL_OK, ch, c1)"
    using c by (auto simp: challenge_def Let_def c1_def ch_def n_def t_def)
  define c2 where "c2 = c1\<lparr>c_arm := map_both reset_arm (c_arm c), verify_epoch := verify_epoch c + 1,
              outstanding_nonce := 0, lifecycle := OA_LIFECYCLE_CLOSED\<rparr>"
  have 2: "reset \<lparr>struct_size = 0, abi_version = 0, rr_verify_epoch = ac_verify_epoch ch, rr_nonce = ac_nonce ch\<rparr> c1
      = (OA_CONTROL_OK, c2)"
    using c next_nonce [of c] challenge_expiry [of c]
    by (auto simp: reset_def ch_def c2_def c1_def n_def t_def)
  have inv1: "control_inv c1" using challenge_inv [OF inv, of out] 1 by simp
  have "control_inv c2" using reset_inv [OF inv1] 2 by (metis snd_conv)
  moreover have "all_both faultless (c_arm c2)"
    using inv by (simp add: c2_def control_inv_def all_both_def map_both_def)
  ultimately show thesis
    using that [OF 1 2] by (simp add: c2_def c1_def n_def)
qed

text \<open>The second half: a challenge and the arming it licenses.\<close>

lemma challenge_arm:
  assumes c: "lifecycle c = OA_LIFECYCLE_DISARMED" "deadman_active c" "\<not> ring_full (events c)"
    "fresh c \<and> healthy c \<and> disabled c" "now_ns c \<le> UINT64_MAX - 1000000000"
    "unat (nonce_counter c) + 1 < 2 ^ 64"
  obtains ch c1 c2 where "challenge out c = (OA_CONTROL_OK, ch, c1)" "arm ch c1 = (OA_CONTROL_OK, c2)"
    "lifecycle c2 = OA_LIFECYCLE_ARMED_IDLE" "all_both powered (c_arm c2)" "estop_latched c2 = estop_latched c"
proof -
  define n where "n = nonce_counter c + 1"
  define t where "t = now_ns c + 1000000000"
  define c1 where "c1 = c\<lparr>nonce_counter := n, outstanding_nonce := n, outstanding_challenge_expiry := t\<rparr>"
  define ch where "ch = out\<lparr>ac_verify_epoch := verify_epoch c, ac_nonce := n, ac_expiry_ns := t\<rparr>"
  have 1: "challenge out c = (OA_CONTROL_OK, ch, c1)"
    using c by (simp add: challenge_def Let_def c1_def ch_def n_def t_def)
  have t1: "fresh c1" "healthy c1" "disabled c1" using fresh_cong [of c1 c] c by (simp_all add: c1_def)
  define c2 where "c2 = c1\<lparr>c_arm := map_both (power_arm (now_ns c1)) (c_arm c1), outstanding_nonce := 0,
                lifecycle := OA_LIFECYCLE_ARMED_IDLE\<rparr>"
  have full: "\<not> ring_full (events c2)" using c by (simp add: c2_def c1_def)
  have 2: "arm ch c1 = publishing OA_EVENT_ARMED OA_CONTROL_OK 0 OA_CONTROL_OK c2"
    using t1 c next_nonce [of c] challenge_expiry [of c]
    by (simp add: arm_def ch_def c2_def) (simp add: c1_def n_def t_def)
  obtain ev where "arm ch c1 = (OA_CONTROL_OK, c2\<lparr>events := ring_push ev (events c2)\<rparr>)"
    using publishing_ok [OF full, of OA_EVENT_ARMED OA_CONTROL_OK 0 OA_CONTROL_OK] 2 by (metis prod.collapse)
  moreover have "all_both powered (c_arm c2)"
    by (simp add: c2_def all_both_def map_both_def power_arm_def Let_def)
  ultimately show thesis using that [OF 1] by (simp add: c2_def c1_def)
qed

text \<open>
  C32: a stopped controller can be armed again. From the fault or the stopped lifecycle of the
  virtual backend, whatever the state of the arms, a challenge, a reset, an opening, a second
  challenge and the arming it licenses all succeed and end armed and idle with all fourteen motors
  powered: the dead man's switch must be held, the event array must have room for the two events,
  and the clock and the counter of the challenges must not be at the end of their range.
\<close>
theorem stopped_controller_recovers:
  assumes inv: "control_inv c" and "lifecycle c = OA_LIFECYCLE_FAULT \<or> lifecycle c = OA_LIFECYCLE_ESTOP"
    and virtual: "backend (c_options c) \<noteq> OA_BACKEND_PHYSICAL" and "deadman_active c"
    and room: "count (events c) \<le> 62" and "now_ns c \<le> UINT64_MAX - 1000000000"
    and nonce: "unat (nonce_counter c) + 2 < 2 ^ 64"
  shows "case recover out report c of (st, c') \<Rightarrow>
    st = OA_CONTROL_OK \<and> lifecycle c' = OA_LIFECYCLE_ARMED_IDLE \<and> all_both powered (c_arm c')
    \<and> estop_latched c' = estop_latched c"
proof -
  have n: "unat (nonce_counter c) + 1 < 2 ^ 64" using nonce by simp
  obtain ch c1 c2 where 12: "challenge out c = (OA_CONTROL_OK, ch, c1)"
    "reset \<lparr>struct_size = 0, abi_version = 0, rr_verify_epoch = ac_verify_epoch ch, rr_nonce = ac_nonce ch\<rparr> c1
       = (OA_CONTROL_OK, c2)"
    and c2: "control_inv c2" "all_both faultless (c_arm c2)" "lifecycle c2 = OA_LIFECYCLE_CLOSED"
    "c_options c2 = c_options c" "events c2 = events c" "now_ns c2 = now_ns c"
    "nonce_counter c2 = nonce_counter c + 1" "deadman_active c2 = deadman_active c"
    "estop_latched c2 = estop_latched c"
    using challenge_reset [OF inv assms(2,6) n, of out] by metis
  have "backend (c_options c2) \<noteq> OA_BACKEND_PHYSICAL" "count (events c2) < 64"
    using virtual room c2 by simp_all
  then obtain x m e out' where 3: "open_and_verify report c2 = (OA_CONTROL_OK, out',
       c2\<lparr>c_arm := x, verify_epoch := m, lifecycle := OA_LIFECYCLE_DISARMED, events := e\<rparr>)"
    and e: "count e = count (events c2) + 1" "length (slots e) = 64"
    and x: "\<And>c'. c_arm c' = x \<Longrightarrow> now_ns c' = now_ns c2 \<Longrightarrow> fresh c' \<and> healthy c' \<and> disabled c'"
    using open_from_closed [OF c2(1,3) _ _ c2(2), of report] by metis
  let ?c3 = "c2\<lparr>c_arm := x, verify_epoch := m, lifecycle := OA_LIFECYCLE_DISARMED, events := e\<rparr>"
  have "\<not> ring_full (events ?c3)" "fresh ?c3 \<and> healthy ?c3 \<and> disabled ?c3"
    "unat (nonce_counter ?c3) + 1 < 2 ^ 64"
    using e room c2 nonce unat_Suc_word [OF n] by (simp_all add: ring_full_def x)
  then obtain ch' c4 c5 where "challenge out ?c3 = (OA_CONTROL_OK, ch', c4)" "arm ch' c4 = (OA_CONTROL_OK, c5)"
    "lifecycle c5 = OA_LIFECYCLE_ARMED_IDLE" "all_both powered (c_arm c5)" "estop_latched c5 = estop_latched c"
    using challenge_arm [of ?c3 out] assms(4,6) c2 by auto
  then show ?thesis by (simp add: recover_def 12 3 Let_def)
qed

theorem stopped_controller_recovers_witness:
  "lifecycle sample_fault = OA_LIFECYCLE_FAULT
   \<and> lifecycle (snd (recover sample_answer sample_report sample_fault)) = OA_LIFECYCLE_ARMED_IDLE
   \<and> all_both powered (c_arm (snd (recover sample_answer sample_report sample_fault)))"
  using stopped_controller_recovers [OF sample_controllers_inv(3), of sample_answer sample_report]
  by (simp add: sample_options_def ring_init_def split_beta)

theorem challenge_arms_once_witness:
  "\<exists>ch c'. arm ch (control_run sample_lib [Open sample_report, Challenge sample_answer]
        (initial_controller sample_manifest sample_options 1)) = (OA_CONTROL_OK, c')
     \<and> fst (arm ch (control_run sample_lib [Disarm 0] c')) \<noteq> OA_CONTROL_OK"
proof -
  let ?i = "initial_controller sample_manifest sample_options 1"
  have i: "control_inv ?i" "all_both faultless (c_arm ?i)" "now_ns ?i = 0" "count (events ?i) = 0"
    "lifecycle ?i = OA_LIFECYCLE_CLOSED" "backend (c_options ?i) \<noteq> OA_BACKEND_PHYSICAL"
    "deadman_active ?i" "nonce_counter ?i = 0x4f50454e41524d"
    using initial_controller_inv [OF sample_manifest_joints]
    by (simp_all add: initial_controller_def sample_options_def ring_init_def all_both_def map_both_def)
  obtain x n e out' where o: "open_and_verify sample_report ?i = (OA_CONTROL_OK, out',
       ?i\<lparr>c_arm := x, verify_epoch := n, lifecycle := OA_LIFECYCLE_DISARMED, events := e\<rparr>)"
    and e: "count e = 1" "length (slots e) = 64"
    and x: "\<And>c'. c_arm c' = x \<Longrightarrow> now_ns c' = now_ns ?i \<Longrightarrow> fresh c' \<and> healthy c' \<and> disabled c'"
    using open_from_closed [OF i(1,5,6) _ i(2), of sample_report] i(4) by (metis add_0 zero_less_numeral)
  let ?c = "?i\<lparr>c_arm := x, verify_epoch := n, lifecycle := OA_LIFECYCLE_DISARMED, events := e\<rparr>"
  have pre: "lifecycle ?c = OA_LIFECYCLE_DISARMED" "deadman_active ?c" "\<not> ring_full (events ?c)"
    "fresh ?c \<and> healthy ?c \<and> disabled ?c" "now_ns ?c \<le> UINT64_MAX - 1000000000"
    "unat (nonce_counter ?c) + 1 < 2 ^ 64"
    using i e x [of ?c] by (simp_all add: ring_full_def)
  obtain ch c1 c2 where "challenge sample_answer ?c = (OA_CONTROL_OK, ch, c1)" and a: "arm ch c1 = (OA_CONTROL_OK, c2)"
    by (rule challenge_arm [OF pre, of sample_answer])
  then have run: "control_run sample_lib [Open sample_report, Challenge sample_answer] ?i = c1"
    by (simp add: control_run_def o)
  show ?thesis
    using challenge_arms_once [OF sample_manifest_joints run [symmetric] a, of "[Disarm 0]"] a
    by (auto simp: run)
qed

end
