(* ===== verification/Control_Motion.thy ===== *)
theory Control_Motion
  imports Control_Arming
begin

text \<open>
  Motion of the controller: the properties of a whole sequence of calls, the watchdogs of the
  cycle and what starting a command requires.
\<close>

section \<open>Sequences of calls\<close>

text \<open>
  C13: the invariant of the controller. Whatever calls are made on a new controller, a command is
  in execution exactly in the executing lifecycle, the transient lifecycles are never seen between
  calls, the event array and both feedback queues stay within their arrays, the motors are without
  power whenever the controller is closed, disarmed or stopped by the emergency stop, and on the
  physical backend, which this version never arms, they are always without power.
\<close>
theorem controller_invariant:
  assumes "all_both (\<lambda>cfg. length (ac_motor cfg) = 7) (mc_arm man)"
  shows "control_inv (control_run lib calls (initial_controller man opt inst))"
  by (rule control_run_inv [OF initial_controller_inv [OF assms]])

theorem controller_invariant_witness:
  "control_inv (control_run sample_lib [Interlock True True, Open sample_report, Advance False 5]
     (initial_controller sample_manifest sample_options 1))"
  by (rule controller_invariant [OF sample_manifest_joints])

text \<open>
  C14: the controller refines the graph of its lifecycle. Every call moves the lifecycle along an
  edge of the graph (or not at all), never moves the clock back, and never changes the manifest,
  the number of the instance or an option other than the revision of the collision scene.
\<close>
theorem lifecycle_refined:
  assumes "control_inv c"
  shows "lifecycle_step (lifecycle c) (lifecycle (control_step lib k c))
    \<and> now_ns c \<le> now_ns (control_step lib k c)
    \<and> fixed_fields (control_step lib k c) = fixed_fields c"
  using control_step_evolves [OF assms, of lib k] by (simp add: evolves_def)

theorem lifecycle_refined_witness:
  "lifecycle_step OA_LIFECYCLE_EXECUTING (lifecycle (control_step sample_lib (Advance True 5) sample_executing))
   \<and> now_ns sample_executing \<le> now_ns (control_step sample_lib (Advance True 5) sample_executing)"
  using lifecycle_refined [OF sample_controllers_inv(2), of sample_lib "Advance True 5"] by simp

section \<open>A fault is final\<close>

definition stopped :: "controller \<Rightarrow> bool" where
  "stopped c \<longleftrightarrow> lifecycle c = OA_LIFECYCLE_FAULT \<or> lifecycle c = OA_LIFECYCLE_ESTOP"

definition is_reset :: "control_call \<Rightarrow> bool" where
  "is_reset k \<longleftrightarrow> (case k of Reset _ \<Rightarrow> True | _ \<Rightarrow> False)"

lemma latch_fault_lifecycle: "lifecycle (snd (latch_fault cause av c)) = OA_LIFECYCLE_FAULT"
  using publishing_quiet(6) by (force simp: latch_fault_def Let_def)

lemma set_interlock_stopped: "stopped c \<Longrightarrow> stopped (snd (set_interlock e d c))"
  using publishing_quiet(6) by (force simp: set_interlock_def stopped_def Let_def)

lemma inactive_advance: "stopped c \<Longrightarrow> stopped (snd (advance lib e t c))"
  using set_interlock_stopped
  by (auto simp: advance_def advance_estop_def Let_def active_lifecycle_def stopped_def)

lemma stopped_step:
  assumes "stopped c" "\<not> is_reset k"
  shows "stopped (control_step lib k c)"
proof -
  have l: "lifecycle c \<noteq> OA_LIFECYCLE_CLOSED" "lifecycle c \<noteq> OA_LIFECYCLE_DISARMED"
    "lifecycle c \<noteq> OA_LIFECYCLE_ARMED_IDLE" "lifecycle c \<noteq> OA_LIFECYCLE_EXECUTING"
    using assms(1) by (auto simp: stopped_def)
  have plan: "stopped (snd (planning e body c))" for e body
    using assms l by (simp add: planning_def plan_preconditions_def stopped_def)
  have ch: "stopped (snd (snd (challenge out c)))" for out
    using assms by (auto simp: challenge_def stopped_def Let_def)
  show ?thesis
    using assms l ch plan set_interlock_stopped [OF assms(1)] inactive_advance [OF assms(1)]
    by (cases k) (simp_all add: open_and_verify_def arm_def plan_joint_def plan_paired_def plan_centroid_def
        plan_mirrored_def plan_converge_def execute_def heartbeat_def stop_def disarm_def is_reset_def
        stopped_def set_collision_scene_revision_def set_sim_contact_def set_sim_fault_def
        set_sim_state_def poll_event_def Let_def)
qed

text \<open>
  C17: a fault is final until a reset. In a controller stopped by a fault or by the emergency stop,
  no sequence of calls without a reset leaves these two lifecycles or puts a command in execution.
\<close>
theorem stopped_until_reset:
  assumes "control_inv c" "lifecycle c = OA_LIFECYCLE_FAULT \<or> lifecycle c = OA_LIFECYCLE_ESTOP"
    and "list_all (\<lambda>k. \<not> is_reset k) calls" and c': "c' = control_run lib calls c"
  shows "(lifecycle c' = OA_LIFECYCLE_FAULT \<or> lifecycle c' = OA_LIFECYCLE_ESTOP) \<and> executing c' = None"
proof -
  have "stopped (fold (control_step lib) calls c)" if "stopped c" "list_all (\<lambda>k. \<not> is_reset k) calls" for c
    using that by (induction calls arbitrary: c) (simp_all add: stopped_step)
  then have s: "stopped c'" using assms(2,3) by (simp add: c' control_run_def stopped_def)
  have "control_inv c'" unfolding c' by (rule control_run_inv [OF assms(1)])
  with s show ?thesis by (auto simp: stopped_def control_inv_def)
qed

theorem stopped_until_reset_witness:
  "executing (control_run sample_lib [Stop OA_STOP_DISABLE, Advance False 5, Interlock True True] sample_fault) = None"
  using stopped_until_reset [OF sample_controllers_inv(3), of "[Stop OA_STOP_DISABLE, Advance False 5, Interlock True True]",
      OF _ _ refl, of sample_lib]
  by (simp add: is_reset_def)

section \<open>The watchdogs\<close>

lemma latch_fault_result:
  assumes "latch_fault cause av c = (st, c')" "cause \<noteq> OA_CONTROL_OK"
  shows "lifecycle c' = OA_LIFECYCLE_FAULT" "st \<noteq> OA_CONTROL_OK"
  using assms latch_fault_lifecycle [of cause av c] latch_fault_status [of cause av c] by auto

text \<open>A cycle of an armed controller, without the emergency stop.\<close>

lemma advance_powered:
  fixes c t
  assumes l: "lifecycle c = OA_LIFECYCLE_ARMED_IDLE \<or> lifecycle c = OA_LIFECYCLE_EXECUTING" and t: "now_ns c < t"
  defines "d \<equiv> c\<lparr>estop_latched := False, now_ns := t\<rparr>"
  shows "advance lib False t c =
    (if \<not> healthy d then latch_fault OA_CONTROL_EFAULT False d
     else if feedback_integrity d \<noteq> OA_CONTROL_OK then latch_fault (feedback_integrity d) False d
     else if t - now_ns c > cycle_ns (c_options c) then latch_fault OA_CONTROL_ETIMEOUT True d
     else case executing c of
         Some p \<Rightarrow>
           if lifecycle c = OA_LIFECYCLE_EXECUTING then advance_command lib p (now_ns c) d
           else step_arms lib (hold_reference d) (now_ns c) d
       | None \<Rightarrow> step_arms lib (hold_reference d) (now_ns c) d)"
proof -
  have "active_lifecycle (lifecycle c)" "\<not> t < now_ns c" "t \<noteq> now_ns c"
    using l t by (auto simp: active_lifecycle_def)
  then show ?thesis using l by (auto simp: advance_def Let_def d_def cong: if_cong option.case_cong)
qed

lemma advance_command_late:
  "t > producer_deadline_ns c \<or> t > command_expiry_ns c \<Longrightarrow> now_ns c = t \<Longrightarrow>
     \<exists>cause. advance_command lib p prev c = latch_fault cause True c \<and> cause \<noteq> OA_CONTROL_OK"
  by (auto simp: advance_command_def)

definition watchdog :: "u64 \<Rightarrow> controller \<Rightarrow> bool" where
  "watchdog t c \<longleftrightarrow>
     \<not> healthy (c\<lparr>now_ns := t\<rparr>) \<or> \<not> fresh (c\<lparr>now_ns := t\<rparr>)
     \<or> t - now_ns c > cycle_ns (c_options c)
     \<or> lifecycle c = OA_LIFECYCLE_EXECUTING \<and> (t > producer_deadline_ns c \<or> t > command_expiry_ns c)"

text \<open>
  C8: the watchdogs fail closed. A cycle of an armed controller latches a fault and ends the
  command, reporting failure, whenever at its time a motor reports a fault, the feedback of an arm
  is incomplete, older than the timeout or out of skew, the cycle is longer than the period, or, in
  execution, the producer's deadline or the command's expiry has passed.
\<close>
theorem watchdog_latches:
  assumes inv: "control_inv c" and "lifecycle c = OA_LIFECYCLE_ARMED_IDLE \<or> lifecycle c = OA_LIFECYCLE_EXECUTING"
    and t: "now_ns c < t" and w: "watchdog t c" and adv: "advance lib False t c = (st, c')"
  shows "lifecycle c' = OA_LIFECYCLE_FAULT \<and> executing c' = None \<and> command_id c' = 0 \<and> st \<noteq> OA_CONTROL_OK"
proof -
  let ?d = "c\<lparr>estop_latched := False, now_ns := t\<rparr>"
  have same: "healthy ?d = healthy (c\<lparr>now_ns := t\<rparr>)" "fresh ?d = fresh (c\<lparr>now_ns := t\<rparr>)"
    using fresh_cong [of ?d "c\<lparr>now_ns := t\<rparr>"] by simp_all
  have ex: "\<exists>p. executing c = Some p" if "lifecycle c = OA_LIFECYCLE_EXECUTING"
    using inv that by (simp add: control_inv_def)
  have "\<not> healthy ?d \<or> feedback_integrity ?d \<noteq> OA_CONTROL_OK \<or> t - now_ns c > cycle_ns (c_options c)
      \<or> lifecycle c = OA_LIFECYCLE_EXECUTING \<and> (t > producer_deadline_ns c \<or> t > command_expiry_ns c)"
    using w same by (auto simp: watchdog_def fresh_def)
  then have "\<exists>cause av. advance lib False t c = latch_fault cause av ?d \<and> cause \<noteq> OA_CONTROL_OK"
    unfolding advance_powered [OF assms(2) t]
    using ex advance_command_late [of ?d t lib _ "now_ns c"]
    by (cases "lifecycle c = OA_LIFECYCLE_EXECUTING") (auto; blast)+
  then obtain cause av where f: "latch_fault cause av ?d = (st, c')" "cause \<noteq> OA_CONTROL_OK" using adv by auto
  have "control_inv c'" using latch_fault_control_inv [of ?d cause av] inv f(1) by simp
  with latch_fault_result [OF f] show ?thesis by (auto simp: control_inv_def)
qed

theorem watchdog_latches_witness:
  "cycle_ns (c_options sample_idle) = 10
   \<and> lifecycle (snd (advance sample_lib False 100 sample_idle)) = OA_LIFECYCLE_FAULT
   \<and> fst (advance sample_lib False 100 sample_idle) \<noteq> OA_CONTROL_OK"
proof -
  have "watchdog 100 sample_idle" by (simp add: watchdog_def sample_options_def)
  with watchdog_latches [OF sample_controllers_inv(1) _ _ _ prod.collapse [symmetric], of 100 sample_lib]
  show ?thesis by (simp add: sample_options_def)
qed

section \<open>Starting a command\<close>

text \<open>
  C7: starting a command is licensed. When a command starts, the controller was armed and idle with
  fresh and healthy feedback; the plan was made by this controller in this verification, for the
  manifest, model and collision scene in force, from the very feedback generation still current and
  the pose still measured; and the request fits: it starts no earlier than now, ends within the
  plan's own expiry, leaves room for the whole duration, and the producer's deadline lies ahead.
  Exactly this plan is then in execution under the returned number, and the arms are untouched.
\<close>
theorem execution_licensed:
  assumes "execute lib p req c = (Inr cid, c')"
  shows "lifecycle c = OA_LIFECYCLE_ARMED_IDLE \<and> fresh c \<and> healthy c
    \<and> controller_instance p = instance_id c \<and> mp_verify_epoch p = verify_epoch c
    \<and> mp_manifest_revision p = manifest_revision (c_manifest c)
    \<and> mp_model_revision p = model_revision (c_manifest c)
    \<and> mp_collision_scene_revision p = collision_scene_revision (c_options c)
    \<and> seed_seq p = map_both feedback_seq (c_arm c) \<and> start_pose_matches p c
    \<and> now_ns c \<le> command_start_ns c' \<and> command_start_ns c' < command_expiry_ns c'
    \<and> command_expiry_ns c' \<le> mp_expiry_ns p
    \<and> duration_ns p \<le> command_expiry_ns c' - command_start_ns c'
    \<and> now_ns c < producer_deadline_ns c'
    \<and> lifecycle c' = OA_LIFECYCLE_EXECUTING \<and> executing c' = Some p \<and> command_id c' = cid
    \<and> c_arm c' = c_arm c"
proof -
  define start where "start = (if er_start_ns req = 0 then now_ns c else er_start_ns req)"
  define c2 where "c2 = (reset_contact_report lib p (c\<lparr>executing := Some p\<rparr>))
    \<lparr>command_id := next_command_id c, next_command_id := next_command_id c + 1, command_start_ns := start,
      command_expiry_ns := er_expiry_ns req, producer_deadline_ns := er_producer_deadline_ns req,
      settle_start_ns := 0, settle_feedback_seq := (0, 0), settle_feedback_intervals := 0,
      active_stop_kind := er_stop_kind req, command_started := (start = now_ns c),
      settling_published := False, lifecycle := OA_LIFECYCLE_EXECUTING\<rparr>"
  define pub where "pub = publishing (if start = now_ns c then OA_EVENT_STARTED else OA_EVENT_QUEUED)
      OA_CONTROL_OK (next_command_id c) OA_CONTROL_OK c2"
  have guards: "lifecycle c = OA_LIFECYCLE_ARMED_IDLE" "fresh c" "healthy c"
    "controller_instance p = instance_id c" "mp_verify_epoch p = verify_epoch c"
    "mp_manifest_revision p = manifest_revision (c_manifest c)" "mp_model_revision p = model_revision (c_manifest c)"
    "mp_collision_scene_revision p = collision_scene_revision (c_options c)"
    "fst (seed_seq p) = feedback_seq (fst (c_arm c))" "snd (seed_seq p) = feedback_seq (snd (c_arm c))"
    "start_pose_matches p c" "\<not> start < now_ns c" "\<not> er_expiry_ns req \<le> start"
    "\<not> er_expiry_ns req > mp_expiry_ns p" "\<not> er_producer_deadline_ns req \<le> now_ns c"
    "\<not> duration_ns p > er_expiry_ns req - start"
    using assms unfolding execute_def start_def by (auto simp: Let_def split_beta split: if_splits)
  have ex: "execute lib p req c = (if fst pub = OA_CONTROL_OK then Inr (next_command_id c) else Inl (fst pub), snd pub)"
    using guards assms unfolding execute_def Let_def start_def [symmetric] pub_def c2_def
    by (auto simp: reset_contact_report_def split_beta split: if_splits)
  with assms have "fst pub = OA_CONTROL_OK" and c': "c' = snd pub" "cid = next_command_id c"
    by (auto split: if_splits)
  then have "\<not> ring_full (events c2)" using publishing_full by (force simp: pub_def)
  from publishing_ok(2) [OF this] obtain ev where "snd pub = c2\<lparr>events := ring_push ev (events c2)\<rparr>"
    unfolding pub_def by blast
  then show ?thesis
    using guards unfolding c' by (simp add: c2_def reset_contact_report_def map_both_def prod_eq_iff not_less not_le)
qed

lemma no_drift: "\<not> \<bar>x - x\<bar> > kStartDriftRad"
proof -
  have "\<bar>x - x\<bar> = DNaN \<or> \<bar>x - x\<bar> = Fin 0"
    by (cases x) (simp_all add: minus_dbl_def abs_dbl_def)
  moreover have "\<exists>z. kStartDriftRad = Fin z \<and> 0 \<le> z"
    unfolding kStartDriftRad_def using lit_unit [of "1 / 1000"] by auto
  ultimately show ?thesis by (metis Fin_less NaN_cmp(2) not_less)
qed

definition sample_request :: execute_request where
  "sample_request = \<lparr>struct_size = 0, abi_version = 1, er_start_ns = 0, er_expiry_ns = 500,
     er_producer_deadline_ns = 50, er_stop_kind = OA_STOP_DISABLE\<rparr>"

theorem execution_licensed_witness:
  "\<exists>cid c'. execute sample_lib sample_plan sample_request sample_idle = (Inr cid, c')
     \<and> executing c' = Some sample_plan \<and> command_expiry_ns c' \<le> 1000"
proof -
  let ?x = "map_both new_arm (sample_arm, sample_arm)"
  have x: "all_both arm_wf ?x" "all_both faultless ?x"
    by (simp_all add: all_both_def map_both_def sample_arm_def arm_wf_new)
  have "fresh sample_idle" "healthy sample_idle"
    using forced_tests [OF x, of sample_idle zero_joints zero_joints zero_joints zero_joints]
    by (simp_all add: sample_arms_def map_both_def)
  moreover have "start_pose_matches sample_plan sample_idle"
    by (simp add: start_pose_matches_def sample_plan_def no_drift pick_def map_both_def list.pred_True)
  ultimately obtain cid c' where e: "execute sample_lib sample_plan sample_request sample_idle = (Inr cid, c')"
    by (simp add: execute_def sample_request_def sample_plan_def empty_plan_def map_both_def
        reset_contact_report_def sample_manifest_def sample_options_def publishing_def publish_event_def
        Let_def ring_full_def ring_init_def split_beta) 
  show ?thesis using execution_licensed [OF e] e by (auto simp: sample_plan_def)
qed

end
