(* ===== verification/Control_Plan_Safety.thy ===== *)
theory Control_Plan_Safety
  imports Control_Motion
begin

text \<open>
  What the plans guarantee: every waypoint of a bimanual plan is within the limits and one bounded
  step from its predecessor, the reference of the cycle lies on the segment of its time, and the
  contact monitor stops after its run of cycles and not before.
\<close>

section \<open>The waypoints of a bimanual plan\<close>

definition ik_ok :: "motor_config list \<Rightarrow> tcp_move \<Rightarrow> joint_vector \<Rightarrow> ik_result \<Rightarrow> bool" where
  "ik_ok ms mv predecessor ik \<longleftrightarrow>
     waypoint_ok ms (tm_max_branch_step_rad mv) predecessor (ik_q ik)
     \<and> \<not> residual ik > tm_tcp_tol_m mv \<and> \<not> min_singular_value ik < tm_min_singular_value mv"

lemma ik_path_ok:
  "ik_path lib side ms mv from target ws predecessor = Inr xs \<Longrightarrow>
     length xs = length ws
     \<and> (\<forall>i<length ws. ik_ok ms mv ((predecessor # map ik_q xs) ! i) (xs ! i))"
proof (induction ws arbitrary: predecessor xs)
  case (Cons w ws)
  let ?tcp = "map (\<lambda>axis. from ! axis + dbl_of_nat w / dbl_of_nat 16 * (target ! axis - from ! axis)) [0 ..< 3]"
  from Cons.prems obtain ik rest where ik: "ik_ok ms mv predecessor ik" "xs = ik # rest"
    and rest: "ik_path lib side ms mv from target ws (ik_q ik) = Inr rest"
    by (auto simp: Let_def ik_ok_def split: option.splits if_splits sum.splits)
  from Cons.IH [OF rest] ik show ?case by (auto simp: nth_Cons split: nat.split)
qed simp

lemma arm_path_ok:
  assumes "arm_path lib side mv target c = Inr xs"
  shows "length xs = 16 \<and> (\<forall>i<16. ik_ok (ac_motor (pick side (mc_arm (c_manifest c)))) mv
    ((measured_q (pick side (c_arm c)) # map ik_q xs) ! i) (xs ! i))"
proof -
  obtain fk where fk: "forward lib side (measured_q (pick side (c_arm c))) = Some fk"
    and "list_all disfinite target" using assms by (auto simp: arm_path_def Let_def split: if_splits option.splits)
  then have "ik_path lib side (ac_motor (pick side (mc_arm (c_manifest c)))) mv (tcp_xyz fk)
      target [1 ..< 17] (measured_q (pick side (c_arm c))) = Inr xs"
    using assms by (simp add: arm_path_def Let_def del: One_nat_def)
  from ik_path_ok [OF this] show ?thesis by simp
qed

lemma waypoint_times_ok:
  "waypoint_times t segments = Some ts \<Longrightarrow>
     length ts = Suc (length segments) \<and> ts ! 0 = t
     \<and> (\<forall>i<length segments. ts ! i \<le> ts ! Suc i)"
proof (induction segments arbitrary: t ts)
  case (Cons segment segments)
  from Cons.prems obtain rest where r: "waypoint_times (t + segment) segments = Some rest" "ts = t # rest"
    and le: "t \<le> t + segment" using word_le_add_no_overflow(1) by (auto split: if_splits)
  show ?case using Cons.IH [OF r(1)] r(2) le by (auto simp: nth_Cons split: nat.split)
qed auto

lemma array33_nth: "i < length xs \<Longrightarrow> length xs \<le> 33 \<Longrightarrow> array33 x xs ! i = xs ! i"
  by (simp add: array33_def nth_append)

text \<open>
  C18: a bimanual plan is sound. Its seventeen waypoints start at the measured pose of each arm and
  end at the plan's target; for both arms every waypoint after the first is within the position
  limits and the register range of all seven joints and no joint moves further than the branch step
  from the waypoint before; the times of the waypoints start at zero, never decrease and end with
  the duration; and the plan carries a wider contact policy than the one asked for only when the
  proof of the retreat went through on exactly these waypoints.
\<close>
theorem paired_plan_sound:
  assumes "plan_paired_common lib req c = Inr p"
  shows "waypoint_count p = 17
    \<and> (\<forall>side<2. pick side (waypoint_q p) ! 0 = measured_q (pick side (c_arm c))
         \<and> pick side (waypoint_q p) ! 16 = pick side (target_q p)
         \<and> (\<forall>i<16. waypoint_ok (ac_motor (pick side (mc_arm (c_manifest c))))
                (tm_max_branch_step_rad (pr_move req))
                (pick side (waypoint_q p) ! i) (pick side (waypoint_q p) ! Suc i)))
    \<and> waypoint_time_ns p ! 0 = 0 \<and> waypoint_time_ns p ! 16 = duration_ns p
    \<and> (\<forall>i<16. waypoint_time_ns p ! i \<le> waypoint_time_ns p ! Suc i)
    \<and> (contact_geometry_policy p = pr_contact_geometry_policy req
       \<or> contact_geometry_policy p = OA_COLLISION_CONTACT_TERMINAL_CAPS
         \<and> (\<exists>clearance. retreat_proved lib
               (zip (take 16 (drop 1 (fst (waypoint_q p)))) (take 16 (drop 1 (snd (waypoint_q p))))) False clearance))"
proof -
  let ?mv = "pr_move req" and ?start = "map_both measured_q (c_arm c)"
  obtain l r policy ts where l: "arm_path lib 0 ?mv (fst (pr_target_tcp req)) c = Inr l"
    and r: "arm_path lib 1 ?mv (snd (pr_target_tcp req)) c = Inr r"
    and policy: "retreat_policy lib (pr_contact_geometry_policy req) ?start (zip (map ik_q l) (map ik_q r)) = Some policy"
    and ts: "waypoint_times 0 (map2 (\<lambda>a b. trajectory_duration lib a b (tm_velocity_scale ?mv)
                (tm_acceleration_scale ?mv) (tm_jerk_scale ?mv) 3 c)
              (?start # butlast (zip (map ik_q l) (map ik_q r))) (zip (map ik_q l) (map ik_q r))) = Some ts"
    and p: "p = paired_plan_of req (l, r) policy ts c"
    using assms by (auto simp: plan_paired_common_def Let_def split: if_splits sum.splits option.splits)
  note lr = arm_path_ok [OF l] arm_path_ok [OF r]
  have len: "length l = 16" "length r = 16" using lr by simp_all
  have wq: "waypoint_q p = (array33 zero_joints (fst ?start # map ik_q l), array33 zero_joints (snd ?start # map ik_q r))"
    by (simp add: p paired_plan_of_def Let_def)
  have arm: "array33 zero_joints (q # map ik_q xs) ! 0 = q"
    "array33 zero_joints (q # map ik_q xs) ! 16 = ik_q (last xs)"
    "\<forall>i<16. waypoint_ok ms (tm_max_branch_step_rad ?mv) (array33 zero_joints (q # map ik_q xs) ! i)
         (array33 zero_joints (q # map ik_q xs) ! Suc i)"
    "take 16 (drop 1 (array33 zero_joints (q # map ik_q xs))) = map ik_q xs"
    if "length xs = 16 \<and> (\<forall>i<16. ik_ok ms ?mv ((q # map ik_q xs) ! i) (xs ! i))" for q xs ms
  proof -
    have "xs \<noteq> []" using that by auto
    then show "array33 zero_joints (q # map ik_q xs) ! 16 = ik_q (last xs)"
      using that by (simp add: array33_nth last_conv_nth)
  qed (use that in \<open>simp_all add: array33_nth ik_ok_def\<close>, simp add: array33_def)
  have t: "length ts = 17 \<and> ts ! 0 = 0 \<and> (\<forall>i<16. ts ! i \<le> ts ! Suc i)"
    using waypoint_times_ok [OF ts] len by simp
  have times: "waypoint_time_ns p = array33 0 ts" "duration_ns p = ts ! 16" "waypoint_count p = 17"
    "contact_geometry_policy p = policy" "target_q p = (ik_q (last l), ik_q (last r))"
    by (simp_all add: p paired_plan_of_def Let_def map_both_def)
  have pol: "policy = pr_contact_geometry_policy req \<or> policy = OA_COLLISION_CONTACT_TERMINAL_CAPS
      \<and> (\<exists>clearance. retreat_proved lib (zip (map ik_q l) (map ik_q r)) False clearance)"
    using policy by (auto simp: retreat_policy_def Let_def split_beta split: if_splits)
  have left: "pick 0 x = fst x" and right: "pick (Suc 0) x = snd x" for x :: "'a both"
    by (simp_all add: pick_def)
  show ?thesis
    using t pol arm [OF lr(1)] arm [OF lr(2)]
    by (simp add: wq times array33_nth less_2_cases_iff all_conj_distrib left right map_both_def)
qed

subsection \<open>An instance\<close>

text \<open>Both arms planned to the pose they hold: no joint moves, and every segment takes as long as
  the cube root of the sample library says.\<close>

definition sample_move :: paired_plan_request where
  "sample_move = \<lparr>pr_kind = OA_PLAN_PAIRED_TCP,
     pr_move = \<lparr>struct_size = 0, abi_version = 1, tm_expiry_ns = 10 ^ 9, tm_required_feedback_seq = (0, 0),
       tm_velocity_scale = 1, tm_acceleration_scale = 1, tm_jerk_scale = 1, tm_tcp_tol_m = 1,
       tm_collision_scene_revision = 1, tm_max_branch_step_rad = 1, tm_min_singular_value = 0\<rparr>,
     pr_target_tcp = (replicate 3 0, replicate 3 0),
     pr_contact_geometry_policy = OA_COLLISION_CONTACT_NONE\<rparr>"

lemma sample_measured: "measured_q (new_arm sample_arm) = zero_joints"
  by (simp add: measured_q_def new_arm_def sample_arm_def new_motor_def mapped_q_def Let_def
      sample_motor_def times_dbl_def plus_dbl_def)

lemma sample_within: "waypoint_ok (ac_motor sample_arm) 1 zero_joints zero_joints"
  by (simp add: waypoint_ok_def within_joint_def sample_arm_def sample_motor_def Let_def list_all_iff
      minus_dbl_def divide_dbl_def)

lemma sample_path:
  "\<exists>xs. ik_path sample_lib side (ac_motor sample_arm) (pr_move sample_move) from target ws zero_joints = Inr xs
     \<and> map ik_q xs = map (\<lambda>w. zero_joints) ws"
proof (induction ws)
  case (Cons w ws)
  have "inverse_kinematics sample_lib side tcp zero_joints = Some \<lparr>ik_q = zero_joints, achieved = tcp,
      residual = 0, min_singular_value = 1, ik_collision_checked = False\<rparr>" for tcp
    by (simp add: inverse_kinematics_def sample_lib_def inverse_options_def)
  with Cons sample_within show ?case by (auto simp: Let_def sample_move_def)
qed simp

lemma sample_joint:
  assumes "0 \<le> x" "x \<le> 2 ^ 20"
  shows "joint_duration sample_lib 1 1 1 sample_motor (Fin 0) (Fin x) = Fin (2 ^ 20)"
proof -
  obtain y where "rnd (11 / 5) = Fin y" using rnd_between [of "11 / 5" 2] by auto
  then show ?thesis
    using assms by (simp add: joint_duration_def sample_motor_def sample_lib_def Let_def times_dbl_def
        divide_dbl_def dmax_def lit_def isqrt_def floorlog_def)
qed

lemma sample_segment:
  "trajectory_duration sample_lib (zero_joints, zero_joints) (zero_joints, zero_joints) 1 1 1 3 sample_controller
     = 2 ^ 20 * 10 ^ 9"
proof -
  obtain z where z: "lit (1 / 10 ^ 8) = Fin z" "0 \<le> z" "z \<le> 1" using lit_unit [of "1 / 10 ^ 8"] by auto
  have "dbl_of_word (10 :: u64) = Fin 10" by (simp add: dbl_of_word_def)
  moreover obtain b where b: "Fin 10 * Fin z = Fin b" "0 \<le> b" "b \<le> 2 ^ 4"
    using rnd_between [of "10 * z" 4] z by (auto simp: times_dbl_def)
  ultimately have base: "dbl_of_word (cycle_ns (c_options sample_controller)) * lit (1 / 10 ^ 8) = Fin b"
    using z by (simp add: sample_controller_def initial_controller_def sample_options_def)
  have zero: "\<bar>Fin 0 - Fin 0\<bar> = Fin 0" by (simp add: minus_dbl_def)
  have joints: "ac_motor (pick side (mc_arm (c_manifest sample_controller))) = replicate 7 sample_motor" for side
    by (simp add: sample_controller_def initial_controller_def sample_manifest_def sample_arm_def pick_def)
  have steps: "fold (\<lambda>j. joint_duration sample_lib 1 1 1 (replicate 7 sample_motor ! j)
      \<bar>zero_joints ! j - zero_joints ! j\<bar>) [0 ..< 7] (Fin x) = Fin (2 ^ 20)" if "0 \<le> x" "x \<le> 2 ^ 20" for x
    using that by (simp add: upt_rec [of _ 7] sample_joint [simplified] zero nth_Cons')
  have "duration_to_ns (Fin (2 ^ 20)) = 2 ^ 20 * 10 ^ 9"
    by (simp add: round_extended_def round_even_def compute_floorlog Let_def)
  moreover have "has_bit 3 0" "has_bit 3 1" by (simp_all add: has_bit_def)
  moreover have "pick side (zero_joints, zero_joints) = zero_joints" for side by (simp add: pick_def)
  ultimately show ?thesis
    unfolding trajectory_duration_def base joints
    using steps [of b] steps [of "2 ^ 20"] b by (simp only: fold_simps if_True if_False not_True_eq_False) simp
qed

theorem paired_plan_sound_witness:
  "\<exists>p. plan_paired_common sample_lib sample_move sample_controller = Inr p \<and> waypoint_count p = 17
     \<and> waypoint_time_ns p ! 0 = 0"
proof -
  let ?c = sample_controller and ?mv = "pr_move sample_move"
  have arms: "map_both measured_q (c_arm ?c) = (zero_joints, zero_joints)"
    "pick side (mc_arm (c_manifest ?c)) = sample_arm" "measured_q (pick side (c_arm ?c)) = zero_joints" for side
    by (simp_all add: sample_controller_def initial_controller_def sample_manifest_def map_both_def
        sample_measured pick_def)
  have "\<exists>xs. arm_path sample_lib side ?mv (replicate 3 0) ?c = Inr xs \<and> map ik_q xs = replicate 16 zero_joints" for side
  proof -
    obtain fk where fk: "forward sample_lib side zero_joints = Some fk"
      by (simp add: forward_def sample_lib_def)
    obtain xs where "ik_path sample_lib side (ac_motor sample_arm) ?mv (tcp_xyz fk) (replicate 3 0) [1 ..< 17] zero_joints
        = Inr xs" "map ik_q xs = map (\<lambda>w. zero_joints) [1 ..< 17]"
      using sample_path by blast
    moreover have "map (\<lambda>w. zero_joints) [1 ..< 17] = replicate 16 zero_joints" by (simp add: map_replicate_const)
    moreover have "list_all disfinite (replicate 3 0)" by (simp add: list_all_length)
    ultimately show ?thesis using fk unfolding arm_path_def Let_def arms by auto
  qed
  then obtain l r where l: "arm_path sample_lib 0 ?mv (replicate 3 0) ?c = Inr l" "map ik_q l = replicate 16 zero_joints"
    and r: "arm_path sample_lib 1 ?mv (replicate 3 0) ?c = Inr r" "map ik_q r = replicate 16 zero_joints" by meson
  have valid: "valid_paired_request sample_move ?c"
    by (simp add: valid_paired_request_def sample_move_def sample_controller_def initial_controller_def
        sample_options_def map_both_def new_arm_def valid_scale_def Let_def)
  have policy: "retreat_policy sample_lib (pr_contact_geometry_policy sample_move) q ws = Some OA_COLLISION_CONTACT_NONE" for q ws
    by (simp add: retreat_policy_def keepout_clear_def sample_lib_def sample_move_def split_beta Let_def)
  have "map2 (\<lambda>a b. trajectory_duration sample_lib a b (tm_velocity_scale ?mv)
        (tm_acceleration_scale ?mv) (tm_jerk_scale ?mv) 3 ?c)
      ((zero_joints, zero_joints) # butlast (zip (map ik_q l) (map ik_q r))) (zip (map ik_q l) (map ik_q r))
    = replicate 16 (2 ^ 20 * 10 ^ 9)"
    unfolding l r using sample_segment by (simp add: sample_move_def zip_replicate numeral_eq_Suc)
  moreover have "replicate 16 x = [x, x, x, x, x, x, x, x, x, x, x, x, x, x, x, x]" for x :: u64
    by (simp add: numeral_eq_Suc)
  then have "\<exists>ts. waypoint_times 0 (replicate 16 (2 ^ 20 * 10 ^ 9)) = Some ts" by simp
  ultimately obtain ts where ts: "waypoint_times 0 (map2 (\<lambda>a b. trajectory_duration sample_lib a b (tm_velocity_scale ?mv)
        (tm_acceleration_scale ?mv) (tm_jerk_scale ?mv) 3 ?c)
      ((zero_joints, zero_joints) # butlast (zip (map ik_q l) (map ik_q r))) (zip (map ik_q l) (map ik_q r))) = Some ts"
    by auto
  have tcp: "pr_target_tcp sample_move = (replicate 3 0, replicate 3 0)" by (simp add: sample_move_def)
  have "plan_paired_common sample_lib sample_move ?c
      = Inr (paired_plan_of sample_move (l, r) OA_COLLISION_CONTACT_NONE ts ?c)"
    unfolding plan_paired_common_def Let_def tcp fst_conv snd_conv l r arms policy using valid ts by simp
  from paired_plan_sound [OF this] this show ?thesis by blast
qed

section \<open>The segment of the reference\<close>

lemma find_segment_bounds:
  "segment < n \<Longrightarrow> (segment = 1 \<or> elapsed > ts ! (segment - 1)) \<Longrightarrow>
     segment \<le> find_segment elapsed n ts segment \<and> find_segment elapsed n ts segment < n
     \<and> (find_segment elapsed n ts segment = 1 \<or> elapsed > ts ! (find_segment elapsed n ts segment - 1))
     \<and> (elapsed \<le> ts ! find_segment elapsed n ts segment \<or> find_segment elapsed n ts segment = n - 1)"
proof (induction elapsed n ts segment rule: find_segment.induct)
  case (1 elapsed n ts segment)
  show ?case
  proof (cases "segment + 1 < n \<and> elapsed > ts ! segment")
    case True
    then show ?thesis using 1 by (subst (1 2 3 4 5 6) find_segment.simps) auto
  next
    case False
    then show ?thesis using 1 by (subst (1 2 3 4 5 6) find_segment.simps) auto
  qed
qed

text \<open>
  C38: the search for the current segment ends at the right one. For a plan of two to thirty-three
  waypoints the loop ends inside the arrays, at the segment whose end is not yet passed while its
  beginning is, or at the last one when every waypoint is passed.
\<close>
theorem segment_brackets_time:
  assumes "2 \<le> n" "n \<le> 33" "length ts = 33" and s: "s = find_segment elapsed n ts 1"
  shows "1 \<le> s \<and> s < length ts \<and> s < n \<and> (s = 1 \<or> ts ! (s - 1) < elapsed) \<and> (elapsed \<le> ts ! s \<or> s = n - 1)"
  using find_segment_bounds [of 1 n ts elapsed] assms by auto

theorem segment_brackets_time_witness:
  "find_segment 25 4 ([0, 10, 20, 30] @ replicate 29 0) 1 = 3 \<and> (3 :: nat) < 4"
proof -
  have eq: "find_segment 25 4 ([0, 10, 20, 30] @ replicate 29 0) 1 = 3"
    by (simp add: find_segment.simps)
  show ?thesis
    using segment_brackets_time [of 4 "[0, 10, 20, 30] @ replicate 29 0" 3 25] eq by simp
qed

section \<open>The contact monitor\<close>

text \<open>Some joint of the readings reaches its threshold.\<close>

definition over_threshold :: "motion_plan \<Rightarrow> arm_runtime both \<Rightarrow> bool" where
  "over_threshold p arms \<longleftrightarrow> torque_mask (fst (contact_threshold_nm p)) (measured_tau (fst arms)) \<noteq> 0
     \<or> torque_mask (snd (contact_threshold_nm p)) (measured_tau (snd arms)) \<noteq> 0"

text \<open>The monitor over a sequence of readings, one per cycle.\<close>

definition contact_cycles :: "model_lib \<Rightarrow> arm_runtime both list \<Rightarrow> controller \<Rightarrow> controller" where
  "contact_cycles lib readings c = fold (\<lambda>arms c. snd (monitor_contact lib (c\<lparr>c_arm := arms\<rparr>))) readings c"

definition run_length :: "motion_plan \<Rightarrow> arm_runtime both list \<Rightarrow> nat" where
  "run_length p readings = length (takeWhile (over_threshold p) (rev readings))"

lemma side_mask_zero:
  "((if a then 1 else 0) OR (if b then 2 else 0) :: u32) = 0 \<longleftrightarrow> \<not> a \<and> \<not> b"
  by simp

lemma monitor_contact_streak:
  assumes "executing c = Some p" "contact_monitored p"
  shows "executing (snd (monitor_contact lib (c\<lparr>c_arm := arms\<rparr>))) = Some p"
    "contact_streak (snd (monitor_contact lib (c\<lparr>c_arm := arms\<rparr>)))
       = (if over_threshold p arms then contact_streak c + 1 else 0)"
    "fst (monitor_contact lib (c\<lparr>c_arm := arms\<rparr>)) \<longleftrightarrow>
       \<not> (over_threshold p arms \<and> contact_persistence_cycles p \<le> contact_streak c + 1)"
  using assms
  by (auto simp: monitor_contact_def Let_def over_threshold_def map_both_def not_less)

lemma contact_cycles_streak:
  assumes "executing c = Some p" "contact_monitored p" "contact_streak c = 0"
  shows "executing (contact_cycles lib readings c) = Some p
    \<and> contact_streak (contact_cycles lib readings c) = of_nat (run_length p readings)"
proof (induction readings rule: rev_induct)
  case (snoc arms readings)
  then show ?case
    using monitor_contact_streak [of "contact_cycles lib readings c" p lib arms] assms(2)
    by (simp add: contact_cycles_def run_length_def)
qed (use assms in \<open>simp_all add: contact_cycles_def run_length_def\<close>)

text \<open>
  C30: the contact monitor is debounced. Over any sequence of cycles of a monitored command, the
  monitor ends the motion in the cycle in which some joint has been at its torque threshold for the
  plan's number of cycles in a row, and in no other: one cycle below every threshold starts the
  count again.
\<close>
theorem contact_stop_debounced:
  assumes "executing c = Some p" "contact_monitored p" "contact_streak c = 0"
    and "length readings < 2 ^ 32 - 1"
  shows "fst (monitor_contact lib ((contact_cycles lib readings c)\<lparr>c_arm := arms\<rparr>)) \<longleftrightarrow>
    \<not> (over_threshold p arms \<and> unat (contact_persistence_cycles p) \<le> run_length p (readings @ [arms]))"
proof -
  have len: "run_length p readings \<le> length readings"
    unfolding run_length_def by (metis length_rev length_takeWhile_le)
  then have "unat (of_nat (run_length p readings) + 1 :: u32) = run_length p readings + 1"
    using assms(4) by (simp add: unat_word_ariths unsigned_of_nat take_bit_eq_mod)
  then show ?thesis
    using contact_cycles_streak [OF assms(1-3), of lib readings]
      monitor_contact_streak(3) [of "contact_cycles lib readings c" p lib arms] assms(2)
    by (auto simp: word_le_nat_alt run_length_def)
qed

theorem contact_stop_debounced_witness:
  "contact_persistence_cycles sample_plan = 3
   \<and> fst (monitor_contact sample_lib ((contact_cycles sample_lib [sample_arms] sample_executing)\<lparr>c_arm := sample_arms\<rparr>))"
proof -
  have "unat (contact_persistence_cycles sample_plan) = 3" "contact_monitored sample_plan"
    by (simp_all add: sample_plan_def)
  moreover have "run_length sample_plan [sample_arms, sample_arms] \<le> 2"
    unfolding run_length_def by (rule order.trans [OF length_takeWhile_le]) simp
  ultimately show ?thesis
    using contact_stop_debounced [of sample_executing sample_plan "[sample_arms]" sample_lib sample_arms]
    by (simp add: sample_plan_def)
qed

end
