(* ===== verification/Control_Manifest.thy ===== *)
theory Control_Manifest
  imports Control_State Kinematics
begin

text \<open>
  The manifest of the control library: the validation in the constructor of \<open>Manifest\<close>
  (control/src/control_core.cpp), which decides what configuration a controller is ever built on,
  and the standard virtual configuration (control/src/standard_manifest.cpp).
\<close>

section \<open>Character arrays\<close>

abbreviation NUL :: char where "NUL \<equiv> CHR 0x00"

text \<open>\<open>std::memchr(text, 0, capacity) != nullptr\<close>, on an array given by its characters.\<close>

definition terminated :: "string \<Rightarrow> nat \<Rightarrow> bool" where
  "terminated text capacity \<longleftrightarrow> NUL \<in> set (take capacity text)"

text \<open>The string an array holds, as \<open>std::string\<close> and \<open>std::strcmp\<close> read it.\<close>

definition c_string :: "string \<Rightarrow> string" where
  "c_string text = takeWhile (\<lambda>ch. ch \<noteq> NUL) text"

text \<open>\<open>std::snprintf\<close> into a zeroed array.\<close>

definition char_array :: "nat \<Rightarrow> string \<Rightarrow> string" where
  "char_array capacity s = take (capacity - 1) s @ replicate (capacity - min (capacity - 1) (length s)) NUL"

definition digit :: "nat \<Rightarrow> char" where
  "digit n = ''0123456789'' ! n"

section \<open>The profile of a motor\<close>

definition codec_spans :: "u32 \<Rightarrow> (dbl \<times> dbl \<times> dbl) option" where
  "codec_spans t =
     (if t = OA_MOTOR_DM8009 then Some (lit (125 / 10), lit 45, lit 54)
      else if t = OA_MOTOR_DM4340 then Some (lit (125 / 10), lit 10, lit 28)
      else if t = OA_MOTOR_DM4310 then Some (lit (125 / 10), lit 30, lit 10)
      else None)"

definition expected_gear :: "u32 \<Rightarrow> dbl option" where
  "expected_gear t =
     (if t = OA_MOTOR_DM8009 then Some (lit 9)
      else if t = OA_MOTOR_DM4340 then Some (lit 40)
      else if t = OA_MOTOR_DM4310 then Some (lit 10)
      else None)"

definition expected_type :: "nat \<Rightarrow> u32" where
  "expected_type joint =
     (if joint < 2 then OA_MOTOR_DM8009 else if joint < 4 then OA_MOTOR_DM4340 else OA_MOTOR_DM4310)"

definition expected_name :: "nat \<Rightarrow> nat \<Rightarrow> string" where
  "expected_name side joint =
     ''openarm_'' @ (if side = 0 then ''left_joint'' else ''right_joint'') @ [digit (joint + 1)]"

definition tolerance12 :: dbl where
  "tolerance12 = lit (1 / 10 ^ 12)"

abbreviation SIZEOF_MOTOR_CONFIG :: u32 where "SIZEOF_MOTOR_CONFIG \<equiv> 232"
abbreviation SIZEOF_ARM_CONFIG :: u32 where "SIZEOF_ARM_CONFIG \<equiv> 1648"
abbreviation SIZEOF_MANIFEST_CONFIG :: u32 where "SIZEOF_MANIFEST_CONFIG \<equiv> 3320"

section \<open>Validation\<close>

definition valid_motor_record :: "nat \<Rightarrow> nat \<Rightarrow> motor_config \<Rightarrow> bool" where
  "valid_motor_record side joint m \<longleftrightarrow>
     \<not> (struct_size m < SIZEOF_MOTOR_CONFIG \<or> abi_version m \<noteq> OA_CONTROL_ABI_V1
        \<or> joint_index m \<noteq> of_nat joint \<or> motor_type m \<noteq> expected_type joint
        \<or> send_id m = 0 \<or> send_id m > 0x7ff \<or> receive_id m = 0 \<or> receive_id m > 0x7ff
        \<or> embedded_motor_id m > 0x0f \<or> control_mode m \<noteq> 1 \<or> bitrate m = 0 \<or> timeout_ticks m = 0
        \<or> hardware_version m = 0 \<or> software_version m = 0 \<or> firmware_subversion m = 0
        \<or> \<not> terminated (serial m) 32 \<or> c_string (serial m) = [] \<or> \<not> terminated (joint_name m) 48
        \<or> expected_name side joint \<noteq> c_string (joint_name m) \<or> \<not> disfinite (q_scale m)
        \<or> \<bar>\<bar>q_scale m\<bar> - 1\<bar> > tolerance12
        \<or> \<not> disfinite (q_offset_rad m) \<or> \<not> disfinite (lower_rad m) \<or> \<not> disfinite (upper_rad m)
        \<or> lower_rad m \<ge> upper_rad m
        \<or> \<not> disfinite (max_velocity_rad_s m) \<or> max_velocity_rad_s m \<le> 0
        \<or> \<not> disfinite (max_acceleration_rad_s2 m) \<or> max_acceleration_rad_s2 m \<le> 0
        \<or> \<not> disfinite (max_jerk_rad_s3 m) \<or> max_jerk_rad_s3 m \<le> 0
        \<or> (direction m \<noteq> - 1 \<and> direction m \<noteq> 1))"

definition matches_profile :: "motor_config \<Rightarrow> bool" where
  "matches_profile m \<longleftrightarrow>
     (case (codec_spans (motor_type m), expected_gear (motor_type m)) of
        (Some (p, v, t), Some gear) \<Rightarrow>
          \<not> (\<bar>pmax_rad m - p\<bar> > tolerance12 \<or> \<bar>vmax_rad_s m - v\<bar> > tolerance12
             \<or> \<bar>tmax_nm m - t\<bar> > tolerance12 \<or> \<bar>gear_ratio m - gear\<bar> > tolerance12)
      | _ \<Rightarrow> False)"

definition within_model :: "model_lib \<Rightarrow> nat \<Rightarrow> nat \<Rightarrow> motor_config \<Rightarrow> bool" where
  "within_model lib side joint m \<longleftrightarrow>
     (case model_limit lib side joint of None \<Rightarrow> False
      | Some (model_lower, model_upper) \<Rightarrow>
          \<not> (lower_rad m < model_lower - tolerance12 \<or> upper_rad m > model_upper + tolerance12
             \<or> q_offset_rad m < - pmax_rad m \<or> q_offset_rad m > pmax_rad m
             \<or> \<bar>(lower_rad m - q_offset_rad m) / q_scale m\<bar> > pmax_rad m + tolerance12
             \<or> \<bar>(upper_rad m - q_offset_rad m) / q_scale m\<bar> > pmax_rad m + tolerance12))"

text \<open>The sets the loops fill: identifiers are unique on an arm, serial numbers over both.\<close>

record seen =
  send_ids :: "u32 set"
  receive_ids :: "u32 set"
  serials :: "string set"

definition check_motor :: "model_lib \<Rightarrow> nat \<Rightarrow> nat \<Rightarrow> motor_config \<Rightarrow> seen \<Rightarrow> seen option" where
  "check_motor lib side joint m s =
     (if \<not> valid_motor_record side joint m \<or> \<not> matches_profile m \<or> \<not> within_model lib side joint m
         \<or> send_id m \<in> send_ids s \<or> receive_id m \<in> receive_ids s \<or> c_string (serial m) \<in> serials s
      then None
      else Some \<lparr>send_ids = insert (send_id m) (send_ids s),
                 receive_ids = insert (receive_id m) (receive_ids s),
                 serials = insert (c_string (serial m)) (serials s)\<rparr>)"

fun check_motors :: "model_lib \<Rightarrow> nat \<Rightarrow> nat \<Rightarrow> motor_config list \<Rightarrow> seen \<Rightarrow> seen option" where
  "check_motors lib side joint [] s = Some s"
| "check_motors lib side joint (m # ms) s =
     (case check_motor lib side joint m s of None \<Rightarrow> None
      | Some s' \<Rightarrow> check_motors lib side (joint + 1) ms s')"

definition check_arm :: "model_lib \<Rightarrow> nat \<Rightarrow> arm_config \<Rightarrow> string set \<Rightarrow> (string set) option" where
  "check_arm lib side a known =
     (if struct_size a < SIZEOF_ARM_CONFIG \<or> abi_version a \<noteq> OA_CONTROL_ABI_V1
         \<or> \<not> terminated (bus_name a) 16 \<or> c_string (bus_name a) = []
      then None
      else map_option serials
             (check_motors lib side 0 (ac_motor a) \<lparr>send_ids = {}, receive_ids = {}, serials = known\<rparr>))"

definition new_manifest :: "model_lib \<Rightarrow> manifest_config \<Rightarrow> control_status + manifest_config" where
  "new_manifest lib cfg =
     (if struct_size cfg < SIZEOF_MANIFEST_CONFIG \<or> abi_version cfg \<noteq> OA_CONTROL_ABI_V1
         \<or> manifest_revision cfg = 0 \<or> model_revision cfg = 0
      then Inl OA_CONTROL_EINVAL
      else case check_arm lib 0 (fst (mc_arm cfg)) {} of None \<Rightarrow> Inl OA_CONTROL_EINVAL
      | Some known \<Rightarrow>
      case check_arm lib 1 (snd (mc_arm cfg)) known of None \<Rightarrow> Inl OA_CONTROL_EINVAL
      | Some _ \<Rightarrow>
          if c_string (bus_name (fst (mc_arm cfg))) = c_string (bus_name (snd (mc_arm cfg)))
          then Inl OA_CONTROL_EINVAL else Inr cfg)"

section \<open>The standard configuration\<close>

definition left_lower :: "dbl list" where
  "left_lower = map lit [- 3490659 / 10 ^ 6, - 33161253267948965 / 10 ^ 16, - 1570796 / 10 ^ 6, 0,
     - 1570796 / 10 ^ 6, - 785398 / 10 ^ 6, - 1570796 / 10 ^ 6]"

definition left_upper :: "dbl list" where
  "left_upper = map lit [1396263 / 10 ^ 6, 17453267320510335 / 10 ^ 17, 1570796 / 10 ^ 6, 2443461 / 10 ^ 6,
     1570796 / 10 ^ 6, 785398 / 10 ^ 6, 1570796 / 10 ^ 6]"

definition right_lower :: "dbl list" where
  "right_lower = map lit [- 1396263 / 10 ^ 6, - 17453267320510335 / 10 ^ 17, - 1570796 / 10 ^ 6, 0,
     - 1570796 / 10 ^ 6, - 785398 / 10 ^ 6, - 1570796 / 10 ^ 6]"

definition right_upper :: "dbl list" where
  "right_upper = map lit [3490659 / 10 ^ 6, 33161253267948965 / 10 ^ 16, 1570796 / 10 ^ 6, 2443461 / 10 ^ 6,
     1570796 / 10 ^ 6, 785398 / 10 ^ 6, 1570796 / 10 ^ 6]"

definition standard_motor :: "nat \<Rightarrow> nat \<Rightarrow> motor_config" where
  "standard_motor side joint =
     (let t = (if joint < 2 then OA_MOTOR_DM8009 else if joint < 4 then OA_MOTOR_DM4340 else OA_MOTOR_DM4310);
          s = (if even (side + joint) then 1 else - 1) :: dbl
      in \<lparr>struct_size = SIZEOF_MOTOR_CONFIG, abi_version = OA_CONTROL_ABI_V1, motor_type = t,
          joint_index = of_nat joint, send_id = of_nat (joint + 1), receive_id = of_nat (joint + 0x11),
          embedded_motor_id = of_nat (joint + 1), control_mode = 1, bitrate = 1000000,
          timeout_ticks = 1000, hardware_version = 1, software_version = 1, firmware_subversion = 1,
          q_scale = s, q_offset_rad = lit (125 / 1000),
          lower_rad = (if side = 0 then left_lower ! joint else right_lower ! joint),
          upper_rad = (if side = 0 then left_upper ! joint else right_upper ! joint),
          max_velocity_rad_s = lit 1, max_acceleration_rad_s2 = lit 2, max_jerk_rad_s3 = lit 10,
          pmax_rad = lit (125 / 10),
          vmax_rad_s = lit (if t = OA_MOTOR_DM8009 then 45 else if t = OA_MOTOR_DM4340 then 10 else 30),
          tmax_nm = lit (if t = OA_MOTOR_DM8009 then 54 else if t = OA_MOTOR_DM4340 then 28 else 10),
          gear_ratio = lit (if t = OA_MOTOR_DM8009 then 9 else if t = OA_MOTOR_DM4340 then 40 else 10),
          direction = (if s > 0 then 1 else - 1),
          serial = char_array 32 (''VIRTUAL-'' @ [digit side] @ ''-'' @ [digit joint]),
          joint_name = char_array 48
            (''openarm_'' @ (if side = 0 then ''left'' else ''right'') @ ''_joint'' @ [digit (joint + 1)])\<rparr>)"

definition standard_arm :: "nat \<Rightarrow> arm_config" where
  "standard_arm side =
     \<lparr>struct_size = SIZEOF_ARM_CONFIG, abi_version = OA_CONTROL_ABI_V1,
      bus_name = char_array 16 (''virtual_arm_'' @ [digit side]),
      ac_motor = map (standard_motor side) [0 ..< 7]\<rparr>"

definition standard_config :: manifest_config where
  "standard_config =
     \<lparr>struct_size = SIZEOF_MANIFEST_CONFIG, abi_version = OA_CONTROL_ABI_V1, manifest_revision = 41,
      model_revision = 7, mc_arm = (standard_arm 0, standard_arm 1)\<rparr>"

definition oa_manifest_get_openarm_v10_virtual_config ::
  "manifest_config pointer \<Rightarrow> control_status \<times> manifest_config pointer" where
  "oa_manifest_get_openarm_v10_virtual_config out =
     (case out of None \<Rightarrow> (OA_CONTROL_EINVAL, out)
      | Some r \<Rightarrow>
          if abi_version r \<noteq> OA_CONTROL_ABI_V1 then (OA_CONTROL_EABI, out)
          else if struct_size r < SIZEOF_MANIFEST_CONFIG then (OA_CONTROL_EINVAL, out)
          else (OA_CONTROL_OK, Some standard_config))"

section \<open>What validation guarantees\<close>

lemma check_motors_ok:
  assumes "check_motors lib side j ms s = Some s'"
  shows "(\<forall>i<length ms. valid_motor_record side (j + i) (ms ! i) \<and> matches_profile (ms ! i)
            \<and> within_model lib side (j + i) (ms ! i))
    \<and> distinct (map send_id ms) \<and> set (map send_id ms) \<inter> send_ids s = {}
    \<and> distinct (map receive_id ms) \<and> set (map receive_id ms) \<inter> receive_ids s = {}
    \<and> distinct (map (\<lambda>m. c_string (serial m)) ms) \<and> set (map (\<lambda>m. c_string (serial m)) ms) \<inter> serials s = {}
    \<and> serials s' = serials s \<union> set (map (\<lambda>m. c_string (serial m)) ms)"
  using assms
proof (induction ms arbitrary: j s)
  case (Cons m ms)
  from Cons.prems obtain s1 where s1: "check_motor lib side j m s = Some s1"
    and rest: "check_motors lib side (j + 1) ms s1 = Some s'" by (auto split: option.splits)
  from s1 have m: "valid_motor_record side j m" "matches_profile m" "within_model lib side j m"
    "send_id m \<notin> send_ids s" "receive_id m \<notin> receive_ids s" "c_string (serial m) \<notin> serials s"
    and s1': "send_ids s1 = insert (send_id m) (send_ids s)" "receive_ids s1 = insert (receive_id m) (receive_ids s)"
      "serials s1 = insert (c_string (serial m)) (serials s)"
    by (auto simp: check_motor_def split: if_splits)
  from Cons.IH [OF rest] m s1' show ?case
    by (auto simp: nth_Cons split: nat.splits)
qed simp

text \<open>What holds of every motor of an arm of an accepted manifest, and of the arm.\<close>

definition safe_motor :: "model_lib \<Rightarrow> nat \<Rightarrow> nat \<Rightarrow> motor_config \<Rightarrow> bool" where
  "safe_motor lib side j m \<longleftrightarrow>
     motor_type m = expected_type j \<and> c_string (joint_name m) = expected_name side j
     \<and> bitrate m \<noteq> 0 \<and> timeout_ticks m \<noteq> 0
     \<and> disfinite (lower_rad m) \<and> disfinite (upper_rad m) \<and> lower_rad m < upper_rad m
     \<and> 0 < max_velocity_rad_s m \<and> 0 < max_acceleration_rad_s2 m \<and> 0 < max_jerk_rad_s3 m
     \<and> matches_profile m \<and> within_model lib side j m"

definition safe_arm :: "model_lib \<Rightarrow> nat \<Rightarrow> motor_config list \<Rightarrow> bool" where
  "safe_arm lib side ms \<longleftrightarrow> distinct (map send_id ms) \<and> distinct (map receive_id ms)
     \<and> (\<forall>j<length ms. safe_motor lib side j (ms ! j))"

lemma valid_motor_safe:
  assumes "valid_motor_record side j m" "matches_profile m" "within_model lib side j m"
  shows "safe_motor lib side j m"
  using assms by (auto simp: safe_motor_def valid_motor_record_def disfinite_iff not_le)

lemma check_motors_safe:
  assumes "check_motors lib side 0 ms s = Some s'"
  shows "safe_arm lib side ms"
  using check_motors_ok [OF assms] by (simp add: safe_arm_def valid_motor_safe)

lemma check_arm_safe:
  assumes "check_arm lib side a known = Some known'"
  shows "safe_arm lib side (ac_motor a)" "distinct (map (\<lambda>m. c_string (serial m)) (ac_motor a))"
    "set (map (\<lambda>m. c_string (serial m)) (ac_motor a)) \<inter> known = {}"
    "known' = known \<union> set (map (\<lambda>m. c_string (serial m)) (ac_motor a))"
proof -
  obtain s where s: "check_motors lib side 0 (ac_motor a) \<lparr>send_ids = {}, receive_ids = {}, serials = known\<rparr> = Some s"
    and known': "known' = serials s"
    using assms by (simp add: check_arm_def split: if_split_asm) blast
  show "safe_arm lib side (ac_motor a)" by (rule check_motors_safe [OF s])
  show "distinct (map (\<lambda>m. c_string (serial m)) (ac_motor a))"
    "set (map (\<lambda>m. c_string (serial m)) (ac_motor a)) \<inter> known = {}"
    "known' = known \<union> set (map (\<lambda>m. c_string (serial m)) (ac_motor a))"
    using check_motors_ok [OF s] known' by simp_all
qed

section \<open>The standard configuration is accepted\<close>

lemma lit_less:
  assumes "x \<le> a" "a < b" "b \<le> y" "representable a" "representable b"
  shows "lit x < lit y"
proof -
  have "lit x \<le> Fin a" "Fin b \<le> lit y" using assms by (simp_all add: lit_def rnd_le rnd_ge)
  then show ?thesis using assms(2) by (metis Fin_less dle_less_trans dless_le_trans)
qed

lemma lit_bounded:
  assumes "\<bar>x\<bar> \<le> 2 ^ k" "k \<le> 1023"
  obtains z where "lit x = Fin z" "\<bar>z\<bar> \<le> 2 ^ k"
proof -
  have "Fin (- (2 ^ k)) \<le> lit x" "lit x \<le> Fin (2 ^ k)"
    using assms representable_power [OF assms(2)] by (simp_all add: lit_def rnd_le rnd_ge abs_le_iff)
  then show thesis using that by (metis between_finite abs_le_iff minus_le_iff)
qed

lemma dle_not_dless: "b \<le> a \<Longrightarrow> \<not> a < (b :: dbl)"
  by (cases a; cases b) (auto simp: less_dbl_def less_eq_dbl_def)

lemma tolerance12_finite: "\<exists>z. tolerance12 = Fin z \<and> 0 \<le> z \<and> z \<le> 1"
  unfolding tolerance12_def by (rule lit_unit) simp_all

lemma not_over_tolerance: "\<not> tolerance12 < Fin 0"
proof -
  obtain t where "tolerance12 = Fin t" "0 \<le> t" using tolerance12_finite by blast
  then show ?thesis by (metis Fin_less not_less)
qed

lemma register_range:
  assumes "\<bar>x\<bar> \<le> 4" "s = 1 \<or> s = - 1"
  shows "\<not> \<bar>(lit x - lit (1 / 8)) / Fin s\<bar> > Fin (25 / 2) + tolerance12"
proof -
  obtain z where z: "lit x = Fin z" "\<bar>z\<bar> \<le> 4" using lit_bounded [of x 2] assms(1) by auto
  have e: "lit (1 / 8) = Fin (1 / 8)"
    using representable_dyadic [of 1 3] by (simp add: lit_def rnd_exact)
  have z8: "\<bar>z - 1 / 8\<bar> \<le> 8" using z(2) by linarith
  obtain d where d: "lit (z - 1 / 8) = Fin d" "\<bar>d\<bar> \<le> 8" using lit_bounded [of "z - 1 / 8" 3] z8 by auto
  obtain q where q: "lit (d / s) = Fin q" "\<bar>q\<bar> \<le> 8" 
  proof (rule lit_bounded [of "d / s" 3])
    show "\<bar>d / s\<bar> \<le> 2 ^ 3" using d(2) assms(2) by auto
  qed (simp_all add: that)
  obtain t where t: "tolerance12 = Fin t" "0 \<le> t" using tolerance12_finite by blast
  have "Fin 8 \<le> rnd (25 / 2 + t)" using t by (intro rnd_ge) simp_all
  moreover have "\<bar>(lit x - lit (1 / 8)) / Fin s\<bar> = Fin \<bar>q\<bar>"
    using z d q e assms(2) by (auto simp: minus_dbl_def divide_dbl_def lit_def)
  moreover have "Fin \<bar>q\<bar> \<le> Fin 8" using q(2) by simp
  ultimately show ?thesis using t by (metis dle_trans not_dless plus_Fin rnd_not_NaN dbl.distinct(5))
qed

lemma c_string_array:
  assumes "NUL \<notin> set s" "length s < capacity"
  shows "c_string (char_array capacity s) = s" "terminated (char_array capacity s) capacity"
proof -
  have n: "min (capacity - 1) (length s) = length s" "take (capacity - 1) s = s" "capacity - length s \<noteq> 0"
    using assms(2) by simp_all
  then obtain k where k: "capacity - length s = Suc k" by (metis not0_implies_Suc)
  have "takeWhile (\<lambda>ch. ch \<noteq> NUL) s = s" using assms(1) by (induction s) auto
  then show "c_string (char_array capacity s) = s"
    using assms(1) unfolding c_string_def char_array_def n by (simp add: takeWhile_append k)
  show "terminated (char_array capacity s) capacity"
    unfolding terminated_def char_array_def n by (simp add: k)
qed

lemma standard_limits:
  assumes "side < 2" "j < 7"
  shows "\<exists>x y. lower_rad (standard_motor side j) = lit x \<and> upper_rad (standard_motor side j) = lit y
    \<and> \<bar>x\<bar> \<le> 4 \<and> \<bar>y\<bar> \<le> 4 \<and> lit x < lit y"
proof -
  have half: "representable (- (1 / 2))" using representable_dyadic [of "- 1" 1] by simp
  have "representable (- 1)" by simp
  note less = lit_less [OF _ _ _ this representable_0] lit_less [OF _ _ _ representable_0 representable_1]
    lit_less [OF _ _ _ half representable_0]
  have "j \<in> {0, 1, 2, 3, 4, 5, 6}" "side = 0 \<or> side = 1" using assms by auto
  then show ?thesis
    by (elim insertE disjE emptyE)
      (simp_all add: standard_motor_def Let_def left_lower_def left_upper_def right_lower_def right_upper_def;
       intro exI conjI, rule refl, rule refl; simp add: less)+
qed

text \<open>A model library whose limits contain the standard ones.\<close>

definition wide_limits :: "model_lib \<Rightarrow> bool" where
  "wide_limits lib \<longleftrightarrow> (\<forall>side<2. \<forall>j<7. model_limit lib side j = Some (Fin (- 4), Fin 4))"

lemma standard_strings:
  assumes "side < 2" "j < 7"
  shows "c_string (serial (standard_motor side j)) = ''VIRTUAL-'' @ [digit side] @ ''-'' @ [digit j]"
    "terminated (serial (standard_motor side j)) 32"
    "c_string (joint_name (standard_motor side j)) = expected_name side j"
    "terminated (joint_name (standard_motor side j)) 48"
proof -
  have d: "digit n \<noteq> NUL" if "n < 8" for n
  proof -
    have "n \<in> {0, 1, 2, 3, 4, 5, 6, 7}" using that by auto
    then show ?thesis by (elim insertE emptyE) (simp_all add: digit_def)
  qed
  have s: "NUL \<notin> set (''VIRTUAL-'' @ [digit side] @ ''-'' @ [digit j])"
    "NUL \<notin> set (''openarm_'' @ (if side = 0 then ''left'' else ''right'') @ ''_joint'' @ [digit (j + 1)])"
    using d [of side] d [of j] d [of "j + 1"] assms by auto
  have name: "''openarm_'' @ (if side = 0 then ''left'' else ''right'') @ ''_joint'' @ [digit (j + 1)] = expected_name side j"
    by (simp add: expected_name_def)
  have serial: "serial (standard_motor side j) = char_array 32 (''VIRTUAL-'' @ [digit side] @ ''-'' @ [digit j])"
    and joint: "joint_name (standard_motor side j) = char_array 48 (expected_name side j)"
    unfolding name [symmetric] by (simp_all add: standard_motor_def Let_def)
  show "c_string (serial (standard_motor side j)) = ''VIRTUAL-'' @ [digit side] @ ''-'' @ [digit j]"
    "terminated (serial (standard_motor side j)) 32"
    unfolding serial by (rule c_string_array [OF s(1)], simp)+
  show "c_string (joint_name (standard_motor side j)) = expected_name side j"
    "terminated (joint_name (standard_motor side j)) 48"
    unfolding joint by (rule c_string_array [OF s(2) [unfolded name]], simp add: expected_name_def)+
qed

lemma standard_motor_checks:
  assumes side: "side < 2" and j: "j < 7"
  shows "valid_motor_record side j (standard_motor side j)" "matches_profile (standard_motor side j)"
    "wide_limits lib \<Longrightarrow> within_model lib side j (standard_motor side j)"
proof -
  let ?m = "standard_motor side j"
  obtain x y where lim: "lower_rad ?m = lit x" "upper_rad ?m = lit y" "\<bar>x\<bar> \<le> 4" "\<bar>y\<bar> \<le> 4" "lit x < lit y"
    using standard_limits [OF side j] by blast
  obtain a where a: "lit x = Fin a" "\<bar>a\<bar> \<le> 4" using lit_bounded [of x 2] lim(3) by auto
  obtain b where b: "lit y = Fin b" "\<bar>b\<bar> \<le> 4" using lit_bounded [of y 2] lim(4) by auto
  obtain t where t: "tolerance12 = Fin t" "0 \<le> t" using tolerance12_finite by blast
  have half: "lit (25 / 2) = Fin (25 / 2)" "lit (1 / 8) = Fin (1 / 8)"
    using representable_dyadic [of 25 1] representable_dyadic [of 1 3] by (simp_all add: lit_def rnd_exact)
  define s :: rat where "s = (if even (side + j) then 1 else - 1)"
  have s: "s = 1 \<or> s = - 1" by (simp add: s_def)
  have scale: "q_scale ?m = Fin s" "q_offset_rad ?m = lit (1 / 8)" "pmax_rad ?m = Fin (25 / 2)"
    using half by (simp_all add: standard_motor_def Let_def s_def)
  have jc: "j \<in> {0, 1, 2, 3, 4, 5, 6}" using j by auto
  have words: "of_nat (j + 1) \<noteq> (0 :: u32)" "\<not> of_nat (j + 1) > (0x7ff :: u32)" "of_nat (j + 17) \<noteq> (0 :: u32)"
    "\<not> of_nat (j + 17) > (0x7ff :: u32)" "\<not> of_nat (j + 1) > (0x0f :: u32)"
    using jc by auto
  have fields: "struct_size ?m = SIZEOF_MOTOR_CONFIG" "abi_version ?m = OA_CONTROL_ABI_V1" "joint_index ?m = of_nat j"
    "motor_type ?m = expected_type j" "send_id ?m = of_nat (j + 1)" "receive_id ?m = of_nat (j + 17)"
    "embedded_motor_id ?m = of_nat (j + 1)" "control_mode ?m = 1" "bitrate ?m = 1000000" "timeout_ticks ?m = 1000"
    "hardware_version ?m = 1" "software_version ?m = 1" "firmware_subversion ?m = 1"
    "max_velocity_rad_s ?m = lit 1" "max_acceleration_rad_s2 ?m = lit 2" "max_jerk_rad_s3 ?m = lit 10"
    "direction ?m = 1 \<or> direction ?m = - 1"
    by (simp_all add: standard_motor_def Let_def expected_type_def)
  have "\<bar>\<bar>q_scale ?m\<bar> - 1\<bar> = Fin 0" using s scale by (auto simp: minus_dbl_def)
  then have unit: "\<not> \<bar>\<bar>q_scale ?m\<bar> - 1\<bar> > tolerance12" using not_over_tolerance by simp
  have ser: "c_string (serial ?m) \<noteq> []" using standard_strings(1) [OF side j] by simp
  have order: "\<not> lower_rad ?m \<ge> upper_rad ?m" using lim a b by (simp add: not_le)
  show "valid_motor_record side j ?m"
    unfolding valid_motor_record_def fields scale lim(1,2) a b half
    using words fields(17) unit [unfolded scale] ser order [unfolded lim(1,2) a b] standard_strings(2-4) [OF side j]
    by (auto simp: lit_def)
  show "matches_profile ?m"
    using not_over_tolerance by (simp add: matches_profile_def fields scale expected_type_def codec_spans_def expected_gear_def
        minus_dbl_def standard_motor_def Let_def lit_def half [unfolded lit_def])
  have lo: "Fin (- 4) - tolerance12 \<le> Fin (- 4)" and hi: "Fin 4 \<le> Fin 4 + tolerance12"
    unfolding t(1) using t(2) by (simp_all add: minus_dbl_def plus_dbl_def rnd_le rnd_ge)
  have below: "Fin (- 4) - tolerance12 \<le> Fin a" and above: "Fin b \<le> Fin 4 + tolerance12"
    using dle_trans [OF lo, of "Fin a"] dle_trans [OF _ hi, of "Fin b"] a(2) b(2) by (simp_all add: abs_le_iff)
  then have "\<not> Fin a < Fin (- 4) - tolerance12" "\<not> Fin b > Fin 4 + tolerance12"
    by (simp_all add: dle_not_dless)
  then show "within_model lib side j ?m" if "wide_limits lib"
    using that side j register_range [OF lim(3) s] register_range [OF lim(4) s]
    by (simp add: within_model_def wide_limits_def lim(1,2) scale half a b)
qed

lemma standard_motor_ids:
  "send_id (standard_motor side j) = of_nat (j + 1)" "receive_id (standard_motor side j) = of_nat (j + 17)"
  by (simp_all add: standard_motor_def Let_def)

text \<open>The motors from one place on, when the sets hold only what the places before put there.\<close>

lemma check_standard_motors:
  assumes side: "side < 2" and lib: "wide_limits lib" and s: "\<forall>i \<in> {j ..< 7}. of_nat (i + 1) \<notin> send_ids s
      \<and> of_nat (i + 17) \<notin> receive_ids s \<and> ''VIRTUAL-'' @ [digit side] @ ''-'' @ [digit i] \<notin> serials s"
  shows "\<exists>s'. check_motors lib side j (map (standard_motor side) [j ..< 7]) s = Some s'
    \<and> serials s' = serials s \<union> (\<lambda>i. ''VIRTUAL-'' @ [digit side] @ ''-'' @ [digit i]) ` {j ..< 7}"
  using s
proof (induction "7 - j" arbitrary: j s)
  case (Suc k)
  then have j: "j < 7" by simp
  let ?m = "standard_motor side j"
  let ?s = "\<lparr>send_ids = insert (of_nat (j + 1)) (send_ids s), receive_ids = insert (of_nat (j + 17)) (receive_ids s),
    serials = insert (''VIRTUAL-'' @ [digit side] @ ''-'' @ [digit j]) (serials s)\<rparr>"
  have "check_motor lib side j ?m s = Some ?s"
    using Suc.prems j standard_motor_checks [OF side j] lib
    by (simp add: check_motor_def standard_motor_ids standard_strings(1) [OF side j] del: of_nat_add)
  moreover have inj: "of_nat (i + 1) \<noteq> (of_nat (j + 1) :: u32) \<and> of_nat (i + 17) \<noteq> (of_nat (j + 17) :: u32)
      \<and> digit i \<noteq> digit j" if "i \<in> {Suc j ..< 7}" for i
  proof -
    have ij: "i < 7" "j < 7" "i \<noteq> j" using that by auto
    have "digit i \<noteq> digit j" unfolding digit_def using ij by (subst nth_eq_iff_index_eq) simp_all
    then show ?thesis using ij by (simp add: word_of_nat_eq_iff take_bit_eq_mod del: of_nat_add of_nat_Suc)
  qed
  have free: "\<forall>i \<in> {Suc j ..< 7}. of_nat (i + 1) \<notin> send_ids ?s \<and> of_nat (i + 17) \<notin> receive_ids ?s
      \<and> ''VIRTUAL-'' @ [digit side] @ ''-'' @ [digit i] \<notin> serials ?s"
    using Suc.prems inj by (simp del: of_nat_add of_nat_Suc)
  have "k = 7 - Suc j" using Suc.hyps(2) by simp
  from Suc.hyps(1) [OF this free] obtain s' where "check_motors lib side (Suc j) (map (standard_motor side) [Suc j ..< 7]) ?s = Some s'"
    "serials s' = serials ?s \<union> (\<lambda>i. ''VIRTUAL-'' @ [digit side] @ ''-'' @ [digit i]) ` {Suc j ..< 7}"
    by blast
  moreover have "[j ..< 7] = j # [Suc j ..< 7]" "{j ..< 7} = insert j {Suc j ..< 7}"
    using j by (auto simp: upt_conv_Cons)
  ultimately show ?case by auto
qed simp

lemma standard_manifest_accepted:
  assumes "wide_limits lib"
  shows "new_manifest lib standard_config = Inr standard_config"
proof -
  have bus: "c_string (bus_name (standard_arm side)) = ''virtual_arm_'' @ [digit side]"
    "terminated (bus_name (standard_arm side)) 16" if "side < 2" for side
    using c_string_array [of "''virtual_arm_'' @ [digit side]" 16] that
    by (auto simp: standard_arm_def digit_def less_2_cases_iff)
  obtain s where s: "check_motors lib 0 0 (map (standard_motor 0) [0 ..< 7])
      \<lparr>send_ids = {}, receive_ids = {}, serials = {}\<rparr> = Some s"
    "serials s = (\<lambda>i. ''VIRTUAL-'' @ [digit 0] @ ''-'' @ [digit i]) ` {0 ..< 7}"
    using check_standard_motors [OF _ assms, of 0 0 "\<lparr>send_ids = {}, receive_ids = {}, serials = {}\<rparr>"] by auto
  have "\<forall>i \<in> {0 ..< 7}. ''VIRTUAL-'' @ [digit 1] @ ''-'' @ [digit i] \<notin> serials s"
    unfolding s(2) by (auto simp: digit_def)
  then obtain s' where s': "check_motors lib 1 0 (map (standard_motor 1) [0 ..< 7])
      \<lparr>send_ids = {}, receive_ids = {}, serials = serials s\<rparr> = Some s'"
    using check_standard_motors [OF _ assms, of 1 0 "\<lparr>send_ids = {}, receive_ids = {}, serials = serials s\<rparr>"] by auto
  have "check_arm lib 0 (standard_arm 0) {} = Some (serials s)"
    using s bus [of 0] by (simp add: check_arm_def) (simp add: standard_arm_def)
  moreover have "check_arm lib 1 (standard_arm 1) (serials s) = Some (serials s')"
    using s' bus [of 1] by (simp add: check_arm_def) (simp add: standard_arm_def)
  ultimately show ?thesis
    using bus by (simp add: new_manifest_def standard_config_def digit_def)
qed

definition wide_lib :: model_lib where
  "wide_lib = \<lparr>oa_fk = \<lambda>side q. None, oa_geometric_jacobian = \<lambda>side q. None,
     oa_ik_position = \<lambda>side target opt. None, oa_model_limits = \<lambda>side joint. Some (Fin (- 4), Fin 4),
     oa_collision_evaluate = \<lambda>l r policy. (False, undefined), cbrt = \<lambda>x. x\<rparr>"

section \<open>What an accepted manifest holds\<close>

text \<open>
  The numbers of a motor. The validation compares the spans and the gear with those of the type by
  \<open>!(|a - b| > tolerance)\<close>, which a NaN passes; for numbers it is the bound.
\<close>

definition close_to :: "dbl \<Rightarrow> dbl \<Rightarrow> bool" where
  "close_to a b \<longleftrightarrow> (a \<noteq> DNaN \<longrightarrow> \<bar>a - b\<bar> \<le> tolerance12)"

definition bounded_motor :: "model_lib \<Rightarrow> nat \<Rightarrow> nat \<Rightarrow> motor_config \<Rightarrow> bool" where
  "bounded_motor lib side j m \<longleftrightarrow>
     motor_type m = expected_type j \<and> c_string (joint_name m) = expected_name side j
     \<and> 0 < send_id m \<and> send_id m \<le> 0x7ff \<and> 0 < receive_id m \<and> receive_id m \<le> 0x7ff
     \<and> disfinite (lower_rad m) \<and> disfinite (upper_rad m) \<and> lower_rad m < upper_rad m
     \<and> disfinite (max_velocity_rad_s m) \<and> 0 < max_velocity_rad_s m
     \<and> disfinite (max_acceleration_rad_s2 m) \<and> 0 < max_acceleration_rad_s2 m
     \<and> disfinite (max_jerk_rad_s3 m) \<and> 0 < max_jerk_rad_s3 m
     \<and> disfinite (q_offset_rad m) \<and> disfinite (q_scale m) \<and> \<bar>\<bar>q_scale m\<bar> - 1\<bar> \<le> tolerance12
     \<and> (\<exists>p v t g. codec_spans (motor_type m) = Some (p, v, t) \<and> expected_gear (motor_type m) = Some g
          \<and> close_to (pmax_rad m) p \<and> close_to (vmax_rad_s m) v \<and> close_to (tmax_nm m) t \<and> close_to (gear_ratio m) g)
     \<and> (\<exists>lo up. model_limit lib side j = Some (lo, up) \<and> (disfinite lo \<longrightarrow> lo - tolerance12 \<le> lower_rad m)
          \<and> (disfinite up \<longrightarrow> upper_rad m \<le> up + tolerance12))
     \<and> (pmax_rad m \<noteq> DNaN \<longrightarrow> - pmax_rad m \<le> q_offset_rad m \<and> q_offset_rad m \<le> pmax_rad m
          \<and> \<bar>(lower_rad m - q_offset_rad m) / q_scale m\<bar> \<le> pmax_rad m + tolerance12
          \<and> \<bar>(upper_rad m - q_offset_rad m) / q_scale m\<bar> \<le> pmax_rad m + tolerance12)"

lemma not_over: "\<not> b < a \<Longrightarrow> a \<noteq> DNaN \<Longrightarrow> b \<noteq> DNaN \<Longrightarrow> a \<le> (b :: dbl)"
  using not_dless by blast

lemma tolerance12_number: "tolerance12 \<noteq> DNaN"
  using tolerance12_finite by auto

lemma dabs_number: "\<bar>a :: dbl\<bar> = DNaN \<longleftrightarrow> a = DNaN"
  by (cases a) (auto simp: abs_dbl_def)

lemma minus_number: "a \<noteq> DNaN \<Longrightarrow> disfinite b \<Longrightarrow> a - b \<noteq> (DNaN :: dbl)"
  by (cases a; cases b) (auto simp: minus_dbl_def)

lemma plus_number: "a \<noteq> DNaN \<Longrightarrow> disfinite b \<Longrightarrow> a + b \<noteq> (DNaN :: dbl)"
  by (cases a; cases b) (auto simp: plus_dbl_def)

lemma close_enough: "\<not> \<bar>a - b\<bar> > tolerance12 \<Longrightarrow> disfinite b \<Longrightarrow> close_to a b"
  by (auto simp: close_to_def dabs_number tolerance12_number intro!: not_over dest: minus_number)

text \<open>A scale near one is not zero, so that dividing a number by it gives a number.\<close>

lemma scale_divides:
  assumes "disfinite s" "\<not> \<bar>\<bar>s\<bar> - 1\<bar> > tolerance12" "a \<noteq> DNaN"
  shows "a / s \<noteq> DNaN"
proof -
  obtain x where s: "s = Fin x" using assms(1) by (auto simp: disfinite_iff)
  have "x \<noteq> 0"
  proof
    assume "x = 0"
    then have "\<bar>\<bar>s\<bar> - 1\<bar> = Fin 1" by (simp add: s minus_dbl_def)
    moreover have "tolerance12 \<le> Fin (1 / 2)" unfolding tolerance12_def lit_def
      using representable_dyadic [of 1 1] by (intro rnd_le) simp_all
    then have "tolerance12 < Fin 1" by (rule dle_less_trans) simp
    ultimately show False using assms(2) by simp
  qed
  with assms(3) show ?thesis by (cases a) (auto simp: s divide_dbl_def signed_inf_def)
qed

lemma codec_finite: "codec_spans t = Some (p, v, q) \<Longrightarrow> disfinite p \<and> disfinite v \<and> disfinite q"
  and gear_finite: "expected_gear t = Some g \<Longrightarrow> disfinite g"
proof -
  have "disfinite (lit x)" if "\<bar>x\<bar> \<le> 64" for x
    using lit_bounded [of x 6] that by (auto simp: disfinite_iff)
  then show "codec_spans t = Some (p, v, q) \<Longrightarrow> disfinite p \<and> disfinite v \<and> disfinite q"
    and "expected_gear t = Some g \<Longrightarrow> disfinite g"
    by (auto simp: codec_spans_def expected_gear_def split: if_splits)
qed

lemma valid_motor_bounded:
  assumes v: "valid_motor_record side j m" and pr: "matches_profile m" and mo: "within_model lib side j m"
  shows "bounded_motor lib side j m"
proof -
  have fin: "disfinite (lower_rad m)" "disfinite (upper_rad m)" "disfinite (q_offset_rad m)" "disfinite (q_scale m)"
    "disfinite (max_velocity_rad_s m)" "disfinite (max_acceleration_rad_s2 m)" "disfinite (max_jerk_rad_s3 m)"
    and unit: "\<not> \<bar>\<bar>q_scale m\<bar> - 1\<bar> > tolerance12"
    using v by (auto simp: valid_motor_record_def)
  have nan: "\<And>a. disfinite a \<Longrightarrow> a \<noteq> DNaN" by auto
  have tol: "disfinite tolerance12" using tolerance12_finite by (auto simp: disfinite_iff)
  have spans: "\<exists>p v t g. codec_spans (motor_type m) = Some (p, v, t) \<and> expected_gear (motor_type m) = Some g
      \<and> close_to (pmax_rad m) p \<and> close_to (vmax_rad_s m) v \<and> close_to (tmax_nm m) t \<and> close_to (gear_ratio m) g"
    using pr codec_finite gear_finite by (force simp: matches_profile_def intro!: close_enough split: option.splits)
  obtain lo up where lim: "model_limit lib side j = Some (lo, up)"
    "\<not> lower_rad m < lo - tolerance12" "\<not> upper_rad m > up + tolerance12"
    "\<not> q_offset_rad m < - pmax_rad m" "\<not> q_offset_rad m > pmax_rad m"
    "\<not> \<bar>(lower_rad m - q_offset_rad m) / q_scale m\<bar> > pmax_rad m + tolerance12"
    "\<not> \<bar>(upper_rad m - q_offset_rad m) / q_scale m\<bar> > pmax_rad m + tolerance12"
    using mo by (auto simp: within_model_def split: option.splits)
  have raw: "\<bar>(x - q_offset_rad m) / q_scale m\<bar> \<noteq> DNaN" if "disfinite x" for x
    using scale_divides [OF fin(4) unit minus_number [OF nan [OF that] fin(3)]] by (simp add: dabs_number)
  have model: "\<exists>lo up. model_limit lib side j = Some (lo, up) \<and> (disfinite lo \<longrightarrow> lo - tolerance12 \<le> lower_rad m)
      \<and> (disfinite up \<longrightarrow> upper_rad m \<le> up + tolerance12)"
    using lim(1-3) not_over [OF lim(2)] not_over [OF lim(3)] nan fin(1,2)
      minus_number [OF nan tol] plus_number [OF nan tol] by blast
  have regs: "- pmax_rad m \<le> q_offset_rad m \<and> q_offset_rad m \<le> pmax_rad m
      \<and> \<bar>(lower_rad m - q_offset_rad m) / q_scale m\<bar> \<le> pmax_rad m + tolerance12
      \<and> \<bar>(upper_rad m - q_offset_rad m) / q_scale m\<bar> \<le> pmax_rad m + tolerance12" if "pmax_rad m \<noteq> DNaN"
  proof -
    have "- pmax_rad m \<noteq> DNaN" using that by (cases "pmax_rad m") (auto simp: uminus_dbl_def)
    then show ?thesis
      using not_over [OF lim(4)] not_over [OF lim(5)] not_over [OF lim(6)] not_over [OF lim(7)]
        that nan fin(3) raw [OF fin(1)] raw [OF fin(2)] plus_number [OF that tol] by blast
  qed
  have "\<bar>\<bar>q_scale m\<bar> - 1\<bar> \<le> tolerance12"
    using unit fin(4) by (intro not_over) (auto simp: disfinite_iff minus_dbl_def tolerance12_number dabs_number)
  then show ?thesis
    using v spans model regs
    by (auto simp: bounded_motor_def valid_motor_record_def disfinite_iff not_le not_less word_neq_0_conv)
qed

definition bounded_arm :: "model_lib \<Rightarrow> nat \<Rightarrow> motor_config list \<Rightarrow> bool" where
  "bounded_arm lib side ms \<longleftrightarrow> distinct (map send_id ms) \<and> distinct (map receive_id ms)
     \<and> (\<forall>j<length ms. bounded_motor lib side j (ms ! j))"

lemma check_arm_bounded:
  assumes "check_arm lib side a known = Some known'"
  shows "bounded_arm lib side (ac_motor a)"
proof -
  obtain s where s: "check_motors lib side 0 (ac_motor a) \<lparr>send_ids = {}, receive_ids = {}, serials = known\<rparr> = Some s"
    using assms by (simp add: check_arm_def split: if_split_asm) blast
  from check_motors_ok [OF s] show ?thesis by (simp add: bounded_arm_def valid_motor_bounded)
qed

lemma accepted_arms:
  assumes "new_manifest lib cfg = Inr cfg'"
  obtains known known' where "check_arm lib 0 (fst (mc_arm cfg)) {} = Some known"
    "check_arm lib 1 (snd (mc_arm cfg)) known = Some known'" "cfg' = cfg"
    "c_string (bus_name (fst (mc_arm cfg))) \<noteq> c_string (bus_name (snd (mc_arm cfg)))"
proof -
  have "check_arm lib 0 (fst (mc_arm cfg)) {} \<noteq> None"
    using assms unfolding new_manifest_def by (cases "check_arm lib 0 (fst (mc_arm cfg)) {}") (simp_all split: if_split_asm)
  then obtain known where l: "check_arm lib 0 (fst (mc_arm cfg)) {} = Some known" by blast
  have "check_arm lib 1 (snd (mc_arm cfg)) known \<noteq> None"
    using assms l unfolding new_manifest_def by (cases "check_arm lib 1 (snd (mc_arm cfg)) known") (simp_all split: if_split_asm)
  then obtain known' where r: "check_arm lib 1 (snd (mc_arm cfg)) known = Some known'" by blast
  have "cfg' = cfg" "c_string (bus_name (fst (mc_arm cfg))) \<noteq> c_string (bus_name (snd (mc_arm cfg)))"
    using assms l r unfolding new_manifest_def by (simp_all split: if_split_asm)
  with l r show thesis by (rule that)
qed

lemma accepted_safe_arms:
  assumes "new_manifest lib cfg = Inr cfg'"
  shows "cfg' = cfg \<and> safe_arm lib 0 (ac_motor (fst (mc_arm cfg))) \<and> safe_arm lib 1 (ac_motor (snd (mc_arm cfg)))"
  using assms by (rule accepted_arms) (simp add: check_arm_safe(1))

text \<open>
  The gap: whatever the validation accepts it also accepts with the spans and the gear of every
  motor replaced by NaN.
\<close>

definition nan_spans :: "motor_config \<Rightarrow> motor_config" where
  "nan_spans m = m\<lparr>pmax_rad := DNaN, vmax_rad_s := DNaN, tmax_nm := DNaN, gear_ratio := DNaN\<rparr>"

definition nan_arm :: "arm_config \<Rightarrow> arm_config" where
  "nan_arm a = a\<lparr>ac_motor := map nan_spans (ac_motor a)\<rparr>"

lemma nan_motor:
  assumes "check_motor lib side j m s = Some s'"
  shows "check_motor lib side j (nan_spans m) s = Some s'"
proof -
  have nan: "\<bar>DNaN - b\<bar> = DNaN" "- DNaN = DNaN" "DNaN + b = DNaN" for b
    by (simp_all add: minus_dbl_def plus_dbl_def uminus_dbl_def abs_dbl_def)
  have "valid_motor_record side j (nan_spans m) = valid_motor_record side j m"
    by (simp add: valid_motor_record_def nan_spans_def)
  moreover have "matches_profile m \<Longrightarrow> matches_profile (nan_spans m)"
    by (auto simp: matches_profile_def nan_spans_def nan split: option.splits)
  moreover have "within_model lib side j m \<Longrightarrow> within_model lib side j (nan_spans m)"
    by (auto simp: within_model_def nan_spans_def nan split: option.splits)
  ultimately show ?thesis using assms by (auto simp: check_motor_def nan_spans_def split: if_splits)
qed

lemma nan_motors:
  "check_motors lib side j ms s = Some s' \<Longrightarrow> check_motors lib side j (map nan_spans ms) s = Some s'"
  by (induction ms arbitrary: j s) (auto dest: nan_motor split: option.splits)

lemma nan_arm_accepted: "check_arm lib side a known = Some known' \<Longrightarrow> check_arm lib side (nan_arm a) known = Some known'"
  by (auto simp: check_arm_def nan_arm_def dest: nan_motors split: if_splits)

lemma nan_spans_accepted:
  assumes "new_manifest lib cfg = Inr cfg'"
  shows "new_manifest lib (cfg\<lparr>mc_arm := (nan_arm (fst (mc_arm cfg)), nan_arm (snd (mc_arm cfg)))\<rparr>)
    = Inr (cfg\<lparr>mc_arm := (nan_arm (fst (mc_arm cfg)), nan_arm (snd (mc_arm cfg)))\<rparr>)"
proof -
  from assms obtain known known' where "check_arm lib 0 (fst (mc_arm cfg)) {} = Some known"
    "check_arm lib 1 (snd (mc_arm cfg)) known = Some known'"
    "c_string (bus_name (fst (mc_arm cfg))) \<noteq> c_string (bus_name (snd (mc_arm cfg)))" by (rule accepted_arms)
  with nan_arm_accepted show ?thesis
    using assms by (auto simp: new_manifest_def nan_arm_def split: if_splits)
qed

text \<open>
  C31: what an accepted manifest holds. Every motor of both arms has the type and the name of its
  place, identifiers of eleven bits that are not zero, finite position limits in order, finite positive
  limits of velocity, acceleration and jerk, a scale within a trillionth of plus or minus one, and
  position limits within those of the model. Its spans and gear, as far as they are numbers and not
  NaN, are those of its type within a trillionth, and then the offset and both limits, taken back to
  the register, are within the span. The identifiers on an arm are distinct, the serial numbers of all
  motors are distinct, and so are the buses. (That NaN passes is the lemma \<open>nan_spans_accepted\<close>.)
\<close>
theorem accepted_manifest_safe:
  assumes "new_manifest lib cfg = Inr cfg'"
  shows "cfg' = cfg
    \<and> bounded_arm lib 0 (ac_motor (fst (mc_arm cfg))) \<and> bounded_arm lib 1 (ac_motor (snd (mc_arm cfg)))
    \<and> distinct (map (\<lambda>m. c_string (serial m)) (ac_motor (fst (mc_arm cfg)) @ ac_motor (snd (mc_arm cfg))))
    \<and> c_string (bus_name (fst (mc_arm cfg))) \<noteq> c_string (bus_name (snd (mc_arm cfg)))"
proof -
  from assms obtain known known' where l: "check_arm lib 0 (fst (mc_arm cfg)) {} = Some known"
    and r: "check_arm lib 1 (snd (mc_arm cfg)) known = Some known'" and cfg: "cfg' = cfg"
      "c_string (bus_name (fst (mc_arm cfg))) \<noteq> c_string (bus_name (snd (mc_arm cfg)))" by (rule accepted_arms)
  have "distinct (map (\<lambda>m. c_string (serial m)) (ac_motor (fst (mc_arm cfg)) @ ac_motor (snd (mc_arm cfg))))"
    using check_arm_safe(2,4) [OF l] check_arm_safe(2,3) [OF r] by simp blast
  then show ?thesis using cfg check_arm_bounded [OF l] check_arm_bounded [OF r] by (simp only: simp_thms)
qed

theorem accepted_manifest_safe_witness:
  "bounded_arm wide_lib 0 (ac_motor (fst (mc_arm standard_config)))
   \<and> length (ac_motor (fst (mc_arm standard_config))) = 7
   \<and> c_string (bus_name (fst (mc_arm standard_config))) \<noteq> c_string (bus_name (snd (mc_arm standard_config)))"
proof -
  have "wide_limits wide_lib" by (simp add: wide_limits_def wide_lib_def model_limit_def)
  from accepted_manifest_safe [OF standard_manifest_accepted [OF this]]
  show ?thesis by (simp add: standard_config_def standard_arm_def)
qed

end
