(* ===== verification/Units.thy ===== *)
theory Units
  imports Binary64
begin

text \<open>
  The conversion of coordinates between length units (model/src/openarm_units.c), which the
  unit-aware requests of the control interface use once on their way in.
\<close>

abbreviation OA_LENGTH_UNIT_METRES :: u32 where "OA_LENGTH_UNIT_METRES \<equiv> 1"
abbreviation OA_LENGTH_UNIT_CENTIMETRES :: u32 where "OA_LENGTH_UNIT_CENTIMETRES \<equiv> 2"
abbreviation OA_LENGTH_UNIT_INCHES :: u32 where "OA_LENGTH_UNIT_INCHES \<equiv> 3"

datatype units_status = OA_UNITS_OK | OA_UNITS_EINVAL | OA_UNITS_ENONFINITE | OA_UNITS_EOVERFLOW

record vec3d =
  vx :: dbl
  vy :: dbl
  vz :: dbl

definition unit_scale :: "u32 \<Rightarrow> dbl option" where
  "unit_scale unit =
     (if unit = OA_LENGTH_UNIT_METRES then Some 1
      else if unit = OA_LENGTH_UNIT_CENTIMETRES then Some (lit (1 / 100))
      else if unit = OA_LENGTH_UNIT_INCHES then Some (lit (254 / 10000))
      else None)"

text \<open>\<open>DBL_MAX\<close>.\<close>

definition DBL_MAX :: dbl where
  "DBL_MAX = Fin ((2 ^ 53 - 1) * 2 ^ 971)"

definition oa_vec3d_convert ::
  "vec3d pointer \<Rightarrow> u32 \<Rightarrow> u32 \<Rightarrow> vec3d pointer \<Rightarrow> units_status \<times> vec3d pointer" where
  "oa_vec3d_convert inp input_unit output_unit out =
     (case (inp, out, unit_scale input_unit, unit_scale output_unit) of
        (Some v, Some _, Some input_scale, Some output_scale) \<Rightarrow>
          if \<not> disfinite (vx v) \<or> \<not> disfinite (vy v) \<or> \<not> disfinite (vz v)
          then (OA_UNITS_ENONFINITE, out)
          else
            let factor = input_scale / output_scale;
                absolute_factor = \<bar>factor\<bar>;
                threshold = DBL_MAX / absolute_factor;
                converted = \<lparr>vx = vx v * factor, vy = vy v * factor, vz = vz v * factor\<rparr>
            in if absolute_factor > 1
                  \<and> (\<bar>vx v\<bar> \<ge> threshold \<or> \<bar>vy v\<bar> \<ge> threshold \<or> \<bar>vz v\<bar> \<ge> threshold)
               then (OA_UNITS_EOVERFLOW, out)
               else if \<not> disfinite (vx converted) \<or> \<not> disfinite (vy converted) \<or> \<not> disfinite (vz converted)
               then (OA_UNITS_EOVERFLOW, out)
               else (OA_UNITS_OK, Some converted)
      | _ \<Rightarrow> (OA_UNITS_EINVAL, out))"

text \<open>A conversion that succeeds gives finite coordinates; one that fails leaves the output alone.\<close>

lemma convert_finite:
  assumes "oa_vec3d_convert inp iu ou out = (st, out')"
  shows "if st = OA_UNITS_OK then \<exists>w. out' = Some w \<and> disfinite (vx w) \<and> disfinite (vy w) \<and> disfinite (vz w)
         else out' = out"
  using assms by (auto simp: oa_vec3d_convert_def Let_def split: option.splits if_splits)

text \<open>Metres are metres.\<close>

lemma convert_metres:
  assumes "vx v = Fin x" "vy v = Fin y" "vz v = Fin z" "representable x" "representable y" "representable z"
  shows "oa_vec3d_convert (Some v) OA_LENGTH_UNIT_METRES OA_LENGTH_UNIT_METRES (Some w) = (OA_UNITS_OK, Some v)"
  using assms by (cases v) (simp add: oa_vec3d_convert_def unit_scale_def Let_def times_dbl_def divide_dbl_def rnd_exact)

end
