(* ===== verification/Control_Api.thy ===== *)
theory Control_Api
  imports Control_Cycle Control_Manifest Units Handle_Table
begin

text \<open>
  The C interface of the control library, control/src/c_api.cpp: the registries of manifests,
  controllers and plans, the process-wide emergency stop, and the exported calls. A handle is its
  opaque token, zero being the null pointer. The registry's and the slot's mutex make each call one
  step; a call that loses the race with the destruction of its handle between the two locks reports
  a state error in the code and is taken here after the destruction. The flags \<open>no_memory\<close> are
  the \<open>std::bad_alloc\<close> that \<open>contained\<close> turns into a status.
\<close>

section \<open>State\<close>

record api =
  manifests :: "u64 \<rightharpoonup> manifest_config"
  controllers :: "u64 \<rightharpoonup> controller"
  plans :: "u64 \<rightharpoonup> motion_plan"
  next_opaque_token :: u64
  next_controller_instance :: u64
  g_estop_latched :: u32
  g_estop_assertions :: u64

definition initial_api :: api where
  "initial_api = \<lparr>manifests = Map.empty, controllers = Map.empty, plans = Map.empty,
     next_opaque_token = 0x10000, next_controller_instance = 1, g_estop_latched = 0,
     g_estop_assertions = 0\<rparr>"

section \<open>Records and tokens\<close>

definition valid_record_prefix :: "u32 \<Rightarrow> 'a header_scheme pointer \<Rightarrow> bool" where
  "valid_record_prefix minimum r \<longleftrightarrow>
     (case r of None \<Rightarrow> False
      | Some x \<Rightarrow> abi_version x = OA_CONTROL_ABI_V1 \<and> struct_size x \<ge> minimum)"

text \<open>The status for a record that is not valid.\<close>

definition record_error :: "'a header_scheme pointer \<Rightarrow> control_status" where
  "record_error r =
     (case r of None \<Rightarrow> OA_CONTROL_EINVAL
      | Some x \<Rightarrow> if abi_version x \<noteq> OA_CONTROL_ABI_V1 then OA_CONTROL_EABI else OA_CONTROL_EINVAL)"

text \<open>
  \<open>copy_record_prefix\<close> copies the first \<open>struct_size\<close> bytes over the defaults. For a field of
  \<open>w\<close> bits at an offset it takes the bytes below the end of the copy, on a little-endian machine
  the low bits.
\<close>

definition prefix_word :: "u32 \<Rightarrow> nat \<Rightarrow> 'w::len word \<Rightarrow> 'w word \<Rightarrow> 'w word" where
  "prefix_word sz offset v dflt =
     (let low = mask (8 * (unat sz - offset)) in (v AND low) OR (dflt AND NOT low))"

text \<open>
  For a \<open>double\<close> the bytes of a part are not numbers: what a copy that ends inside the field
  makes of it is the parameter \<open>mix\<close>, of the number of bytes, the value and the default.
\<close>

definition prefix_double :: "(nat \<Rightarrow> dbl \<Rightarrow> dbl \<Rightarrow> dbl) \<Rightarrow> u32 \<Rightarrow> nat \<Rightarrow> dbl \<Rightarrow> dbl \<Rightarrow> dbl" where
  "prefix_double mix sz offset v dflt =
     (if unat sz \<le> offset then dflt
      else if unat sz \<ge> offset + 8 then v
      else mix (unat sz - offset) v dflt)"

definition allocate_opaque_token :: "api \<Rightarrow> u64 option \<times> api" where
  "allocate_opaque_token s =
     (let current = next_opaque_token s in
      if current > UINT64_MAX - 16 then (None, s)
      else (Some current, s\<lparr>next_opaque_token := current + 16\<rparr>))"

section \<open>The registries\<close>

text \<open>
  A new entry: a token, then the memory of the slot and of the table's node, then the insertion.
  A token taken is never given back.
\<close>

definition add_manifest :: "manifest_config \<Rightarrow> api \<Rightarrow> u64 option \<times> api" where
  "add_manifest e s =
     (case allocate_opaque_token s of (None, s1) \<Rightarrow> (None, s1)
      | (Some t, s1) \<Rightarrow> (Some t, s1\<lparr>manifests := (manifests s1)(t \<mapsto> e)\<rparr>))"

definition add_controller :: "controller \<Rightarrow> api \<Rightarrow> u64 option \<times> api" where
  "add_controller e s =
     (case allocate_opaque_token s of (None, s1) \<Rightarrow> (None, s1)
      | (Some t, s1) \<Rightarrow> (Some t, s1\<lparr>controllers := (controllers s1)(t \<mapsto> e)\<rparr>))"

definition add_plan :: "motion_plan \<Rightarrow> api \<Rightarrow> u64 option \<times> api" where
  "add_plan e s =
     (case allocate_opaque_token s of (None, s1) \<Rightarrow> (None, s1)
      | (Some t, s1) \<Rightarrow> (Some t, s1\<lparr>plans := (plans s1)(t \<mapsto> e)\<rparr>))"

definition set_controller :: "u64 \<Rightarrow> controller \<Rightarrow> api \<Rightarrow> api" where
  "set_controller t c s = s\<lparr>controllers := (controllers s)(t \<mapsto> c)\<rparr>"

definition with_controller ::
  "u64 \<Rightarrow> (controller \<Rightarrow> control_status \<times> 'o \<times> controller) \<Rightarrow> 'o \<Rightarrow> api \<Rightarrow> control_status \<times> 'o \<times> api" where
  "with_controller h f out s =
     (case controllers s h of None \<Rightarrow> (OA_CONTROL_EINVAL, out, s)
      | Some c \<Rightarrow> (case f c of (st, out', c') \<Rightarrow> (st, out', set_controller h c' s)))"

text \<open>A call without an output.\<close>

definition on_controller ::
  "u64 \<Rightarrow> (controller \<Rightarrow> control_status \<times> controller) \<Rightarrow> api \<Rightarrow> control_status \<times> api" where
  "on_controller h f s =
     (case with_controller h (\<lambda>c. case f c of (st, c') \<Rightarrow> (st, (), c')) () s of (st, _, s') \<Rightarrow> (st, s'))"

section \<open>Manifests\<close>

text \<open>The token is taken before the manifest is validated, so a refusal uses one up.\<close>

definition oa_manifest_create ::
  "model_lib \<Rightarrow> bool \<Rightarrow> manifest_config pointer \<Rightarrow> u64 pointer \<Rightarrow> api \<Rightarrow> control_status \<times> u64 pointer \<times> api" where
  "oa_manifest_create lib no_memory config out s =
     (if \<not> valid_record_prefix SIZEOF_MANIFEST_CONFIG config \<or> out = None
      then (record_error config, out, s)
      else case allocate_opaque_token s of (None, s1) \<Rightarrow> (OA_CONTROL_ENOMEM, out, s1)
      | (Some t, s1) \<Rightarrow>
          if no_memory then (OA_CONTROL_ENOMEM, out, s1)
          else case new_manifest lib (the config) of Inl e \<Rightarrow> (e, out, s1)
          | Inr m \<Rightarrow>
              if manifests s1 t \<noteq> None then (OA_CONTROL_EFAULT, out, s1)
              else (OA_CONTROL_OK, Some t, s1\<lparr>manifests := (manifests s1)(t \<mapsto> m)\<rparr>))"

text \<open>The record handed to the query of the configuration is overwritten whole.\<close>

definition oa_manifest_create_openarm_v10_virtual ::
  "model_lib \<Rightarrow> bool \<Rightarrow> u64 pointer \<Rightarrow> api \<Rightarrow> control_status \<times> u64 pointer \<times> api" where
  "oa_manifest_create_openarm_v10_virtual lib no_memory out s =
     (if out = None then (OA_CONTROL_EINVAL, out, s)
      else
        let (st, config) = oa_manifest_get_openarm_v10_virtual_config (Some
              \<lparr>struct_size = SIZEOF_MANIFEST_CONFIG, abi_version = OA_CONTROL_ABI_V1, manifest_revision = 0,
               model_revision = 0, mc_arm = (standard_arm 0, standard_arm 1)\<rparr>)
        in if st \<noteq> OA_CONTROL_OK then (st, out, s) else oa_manifest_create lib no_memory config out s)"

definition oa_manifest_load ::
  "string pointer \<Rightarrow> string pointer \<Rightarrow> u64 pointer \<Rightarrow> control_status" where
  "oa_manifest_load path sha256_path out =
     (if path = None \<or> sha256_path = None \<or> out = None then OA_CONTROL_EINVAL else OA_CONTROL_EUNSUPPORTED)"

definition oa_manifest_destroy :: "u64 \<Rightarrow> api \<Rightarrow> api" where
  "oa_manifest_destroy h s = s\<lparr>manifests := (manifests s)(h := None)\<rparr>"

section \<open>Controllers\<close>

abbreviation OFFSET_COLLISION_SCENE_REVISION :: nat where "OFFSET_COLLISION_SCENE_REVISION \<equiv> 40"
abbreviation SIZEOF_CONTROLLER_OPTIONS :: u32 where "SIZEOF_CONTROLLER_OPTIONS \<equiv> 48"

definition normalized_options :: "controller_options \<Rightarrow> controller_options" where
  "normalized_options opt =
     opt\<lparr>struct_size := SIZEOF_CONTROLLER_OPTIONS, abi_version := OA_CONTROL_ABI_V1,
         collision_scene_revision := prefix_word (struct_size opt) OFFSET_COLLISION_SCENE_REVISION
           (collision_scene_revision opt) 1\<rparr>"

text \<open>The number of the instance is taken before the options are validated.\<close>

definition oa_controller_create ::
  "bool \<Rightarrow> bool \<Rightarrow> u64 \<Rightarrow> controller_options pointer \<Rightarrow> u64 pointer \<Rightarrow> api
     \<Rightarrow> control_status \<times> u64 pointer \<times> api" where
  "oa_controller_create no_slot no_node manifest opts out s =
     (if \<not> valid_record_prefix (of_nat OFFSET_COLLISION_SCENE_REVISION) opts \<or> out = None
      then (record_error opts, out, s)
      else case manifests s manifest of None \<Rightarrow> (OA_CONTROL_EINVAL, out, s)
      | Some m \<Rightarrow>
          if no_slot then (OA_CONTROL_ENOMEM, out, s)
          else
            let instance_no = next_controller_instance s;
                s1 = s\<lparr>next_controller_instance := instance_no + 1\<rparr>
            in case new_controller m (normalized_options (the opts)) instance_no of
                 Inl e \<Rightarrow> (e, out, s1)
               | Inr c \<Rightarrow>
                   (case allocate_opaque_token s1 of (None, s2) \<Rightarrow> (OA_CONTROL_ENOMEM, out, s2)
                    | (Some t, s2) \<Rightarrow>
                        if no_node then (OA_CONTROL_ENOMEM, out, s2)
                        else if controllers s2 t \<noteq> None then (OA_CONTROL_EFAULT, out, s2)
                        else (OA_CONTROL_OK, Some t, set_controller t c s2)))"

text \<open>The disarming of a controller that is destroyed is not seen again.\<close>

definition oa_controller_destroy :: "u64 \<Rightarrow> api \<Rightarrow> api" where
  "oa_controller_destroy h s = s\<lparr>controllers := (controllers s)(h := None)\<rparr>"

section \<open>The emergency stop\<close>

definition oa_estop_assert :: "api \<Rightarrow> api" where
  "oa_estop_assert s = s\<lparr>g_estop_latched := 1, g_estop_assertions := g_estop_assertions s + 1\<rparr>"

definition oa_estop_asserted :: "api \<Rightarrow> u32" where
  "oa_estop_asserted s = g_estop_latched s"

definition oa_estop_clear :: "api \<Rightarrow> control_status \<times> api" where
  "oa_estop_clear s = (OA_CONTROL_OK, s\<lparr>g_estop_latched := 0\<rparr>)"

definition oa_estop_assert_count :: "api \<Rightarrow> u64" where
  "oa_estop_assert_count s = g_estop_assertions s"

section \<open>Calls with a record for the result\<close>

abbreviation SIZEOF_VERIFY_REPORT :: u32 where "SIZEOF_VERIFY_REPORT \<equiv> 24"
abbreviation SIZEOF_SNAPSHOT :: u32 where "SIZEOF_SNAPSHOT \<equiv> 840"
abbreviation SIZEOF_ARM_KINEMATICS :: u32 where "SIZEOF_ARM_KINEMATICS \<equiv> 560"
abbreviation SIZEOF_ARM_CHALLENGE :: u32 where "SIZEOF_ARM_CHALLENGE \<equiv> 32"
abbreviation SIZEOF_RESET_REQUEST :: u32 where "SIZEOF_RESET_REQUEST \<equiv> 24"

text \<open>The temporary of a call, zero but for its header.\<close>

definition empty_report :: verify_report where
  "empty_report = \<lparr>struct_size = SIZEOF_VERIFY_REPORT, abi_version = OA_CONTROL_ABI_V1,
     vr_verify_epoch = 0, verified_mask = 0, failure_mask = 0\<rparr>"

definition empty_challenge :: arm_challenge where
  "empty_challenge = \<lparr>struct_size = SIZEOF_ARM_CHALLENGE, abi_version = OA_CONTROL_ABI_V1,
     ac_verify_epoch = 0, ac_nonce = 0, ac_expiry_ns = 0\<rparr>"

definition empty_kinematics :: arm_kinematics where
  "empty_kinematics = \<lparr>struct_size = SIZEOF_ARM_KINEMATICS, abi_version = OA_CONTROL_ABI_V1,
     ak_feedback_seq = 0, ak_q = zero_joints, ak_joint_xyz_m = replicate 7 (replicate 3 0),
     ak_joint_axis_body = replicate 7 (replicate 3 0), ak_tcp_transform = replicate 16 0,
     ak_tcp_xyz_m = replicate 3 0\<rparr>"

definition oa_controller_open_and_verify ::
  "u64 \<Rightarrow> verify_report pointer \<Rightarrow> api \<Rightarrow> control_status \<times> verify_report pointer \<times> api" where
  "oa_controller_open_and_verify h out s =
     (if \<not> valid_record_prefix SIZEOF_VERIFY_REPORT out then (record_error out, out, s)
      else with_controller h (\<lambda>c. case open_and_verify empty_report c of (st, r, c') \<Rightarrow> (st, Some r, c')) out s)"

definition oa_controller_snapshot ::
  "u64 \<Rightarrow> control_snapshot pointer \<Rightarrow> api \<Rightarrow> control_status \<times> control_snapshot pointer \<times> api" where
  "oa_controller_snapshot h out s =
     (if \<not> valid_record_prefix SIZEOF_SNAPSHOT out then (record_error out, out, s)
      else with_controller h (\<lambda>c.
             case snapshot ((the out)\<lparr>struct_size := SIZEOF_SNAPSHOT, abi_version := OA_CONTROL_ABI_V1\<rparr>) c of
               (st, r) \<Rightarrow> (st, if st = OA_CONTROL_OK then Some r else out, c)) out s)"

definition oa_controller_get_kinematics ::
  "model_lib \<Rightarrow> u64 \<Rightarrow> u32 \<Rightarrow> u64 \<Rightarrow> arm_kinematics pointer \<Rightarrow> api
     \<Rightarrow> control_status \<times> arm_kinematics pointer \<times> api" where
  "oa_controller_get_kinematics lib h side required_seq out s =
     (if \<not> valid_record_prefix SIZEOF_ARM_KINEMATICS out then (record_error out, out, s)
      else with_controller h (\<lambda>c. case kinematics lib side required_seq empty_kinematics c of
               (st, r) \<Rightarrow> (st, if st = OA_CONTROL_OK then Some r else out, c)) out s)"

definition oa_controller_get_arm_challenge ::
  "u64 \<Rightarrow> arm_challenge pointer \<Rightarrow> api \<Rightarrow> control_status \<times> arm_challenge pointer \<times> api" where
  "oa_controller_get_arm_challenge h out s =
     (if \<not> valid_record_prefix SIZEOF_ARM_CHALLENGE out then (record_error out, out, s)
      else with_controller h (\<lambda>c. case challenge empty_challenge c of
               (st, r, c') \<Rightarrow> (st, if st = OA_CONTROL_OK then Some r else out, c')) out s)"

definition oa_controller_arm :: "u64 \<Rightarrow> arm_challenge pointer \<Rightarrow> api \<Rightarrow> control_status \<times> api" where
  "oa_controller_arm h ch s =
     (if \<not> valid_record_prefix SIZEOF_ARM_CHALLENGE ch then (record_error ch, s)
      else on_controller h (arm (the ch)) s)"

definition oa_controller_get_contact_report ::
  "u64 \<Rightarrow> contact_report pointer \<Rightarrow> api \<Rightarrow> control_status \<times> contact_report pointer \<times> api" where
  "oa_controller_get_contact_report h out s =
     (if \<not> valid_record_prefix SIZEOF_CONTACT_REPORT out then (record_error out, out, s)
      else with_controller h (\<lambda>c. case get_contact_report (the out) c of (st, r) \<Rightarrow> (st, Some r, c)) out s)"

section \<open>Plans\<close>

abbreviation SIZEOF_JOINT_MOVE :: u32 where "SIZEOF_JOINT_MOVE \<equiv> 80"
abbreviation SIZEOF_PAIRED_MOVE :: u32 where "SIZEOF_PAIRED_MOVE \<equiv> 136"
abbreviation SIZEOF_CENTROID_MOVE :: u32 where "SIZEOF_CENTROID_MOVE \<equiv> 112"
abbreviation SIZEOF_MIRRORED_MOVE :: u32 where "SIZEOF_MIRRORED_MOVE \<equiv> 120"
abbreviation SIZEOF_CONVERGE_MOVE :: u32 where "SIZEOF_CONVERGE_MOVE \<equiv> 200"
abbreviation OFFSET_MAX_BRANCH_STEP :: nat where "OFFSET_MAX_BRANCH_STEP \<equiv> 120"
abbreviation OFFSET_MIN_SINGULAR_VALUE :: nat where "OFFSET_MIN_SINGULAR_VALUE \<equiv> 128"

definition publish_plan :: "bool \<Rightarrow> motion_plan \<Rightarrow> u64 pointer \<Rightarrow> api \<Rightarrow> control_status \<times> u64 pointer \<times> api" where
  "publish_plan no_memory p out s =
     (case allocate_opaque_token s of (None, s1) \<Rightarrow> (OA_CONTROL_ENOMEM, out, s1)
      | (Some t, s1) \<Rightarrow>
          if no_memory then (OA_CONTROL_ENOMEM, out, s1)
          else if plans s1 t \<noteq> None then (OA_CONTROL_EFAULT, out, s1)
          else (OA_CONTROL_OK, Some t, s1\<lparr>plans := (plans s1)(t \<mapsto> p)\<rparr>))"

text \<open>The body the five planning calls share.\<close>

definition plan_call ::
  "bool \<Rightarrow> u64 \<Rightarrow> (controller \<Rightarrow> (control_status + motion_plan) \<times> controller) \<Rightarrow> u64 pointer \<Rightarrow> api
     \<Rightarrow> control_status \<times> u64 pointer \<times> api" where
  "plan_call no_memory h planner out s =
     (case controllers s h of None \<Rightarrow> (OA_CONTROL_EINVAL, out, s)
      | Some c \<Rightarrow>
          (case planner c of
             (Inl st, c') \<Rightarrow> (st, out, set_controller h c' s)
           | (Inr p, c') \<Rightarrow> publish_plan no_memory p out (set_controller h c' s)))"

definition estop_flag :: "api \<Rightarrow> bool" where
  [model_defs]: "estop_flag s \<longleftrightarrow> oa_estop_asserted s \<noteq> 0"

definition oa_controller_plan_joint ::
  "model_lib \<Rightarrow> bool \<Rightarrow> u64 \<Rightarrow> joint_move pointer \<Rightarrow> u64 pointer \<Rightarrow> api
     \<Rightarrow> control_status \<times> u64 pointer \<times> api" where
  "oa_controller_plan_joint lib no_memory h req out s =
     (if \<not> valid_record_prefix SIZEOF_JOINT_MOVE req \<or> out = None then (record_error req, out, s)
      else plan_call no_memory h (plan_joint lib (the req)) out s)"

definition normalized_paired :: "(nat \<Rightarrow> dbl \<Rightarrow> dbl \<Rightarrow> dbl) \<Rightarrow> paired_tcp_move \<Rightarrow> paired_tcp_move" where
  "normalized_paired mix req =
     req\<lparr>struct_size := SIZEOF_PAIRED_MOVE, abi_version := OA_CONTROL_ABI_V1,
         tm_max_branch_step_rad := prefix_double mix (struct_size req) OFFSET_MAX_BRANCH_STEP
           (tm_max_branch_step_rad req) (lit 2),
         tm_min_singular_value := prefix_double mix (struct_size req) OFFSET_MIN_SINGULAR_VALUE
           (tm_min_singular_value req) 0\<rparr>"

definition oa_controller_plan_paired_tcp ::
  "model_lib \<Rightarrow> (nat \<Rightarrow> dbl \<Rightarrow> dbl \<Rightarrow> dbl) \<Rightarrow> bool \<Rightarrow> u64 \<Rightarrow> paired_tcp_move pointer \<Rightarrow> u64 pointer \<Rightarrow> api
     \<Rightarrow> control_status \<times> u64 pointer \<times> api" where
  "oa_controller_plan_paired_tcp lib mix no_memory h req out s =
     (if \<not> valid_record_prefix (of_nat OFFSET_MAX_BRANCH_STEP) req \<or> out = None then (record_error req, out, s)
      else plan_call no_memory h (plan_paired lib (estop_flag s) (normalized_paired mix (the req))) out s)"

definition oa_controller_plan_centroid_tcp ::
  "model_lib \<Rightarrow> bool \<Rightarrow> u64 \<Rightarrow> centroid_tcp_move pointer \<Rightarrow> u64 pointer \<Rightarrow> api
     \<Rightarrow> control_status \<times> u64 pointer \<times> api" where
  "oa_controller_plan_centroid_tcp lib no_memory h req out s =
     (if \<not> valid_record_prefix SIZEOF_CENTROID_MOVE req \<or> out = None then (record_error req, out, s)
      else plan_call no_memory h (plan_centroid lib (estop_flag s) (the req)) out s)"

definition oa_controller_plan_mirrored_tcp ::
  "model_lib \<Rightarrow> bool \<Rightarrow> u64 \<Rightarrow> mirrored_tcp_move pointer \<Rightarrow> u64 pointer \<Rightarrow> api
     \<Rightarrow> control_status \<times> u64 pointer \<times> api" where
  "oa_controller_plan_mirrored_tcp lib no_memory h req out s =
     (if \<not> valid_record_prefix SIZEOF_MIRRORED_MOVE req \<or> mm_reserved0 (the req) \<noteq> 0 \<or> out = None
      then (record_error req, out, s)
      else plan_call no_memory h (plan_mirrored lib (estop_flag s) (the req)) out s)"

definition oa_controller_plan_converge_tcp ::
  "model_lib \<Rightarrow> bool \<Rightarrow> u64 \<Rightarrow> converge_tcp_move pointer \<Rightarrow> u64 pointer \<Rightarrow> api
     \<Rightarrow> control_status \<times> u64 pointer \<times> api" where
  "oa_controller_plan_converge_tcp lib no_memory h req out s =
     (if \<not> valid_record_prefix SIZEOF_CONVERGE_MOVE req \<or> cm_reserved0 (the req) \<noteq> 0 \<or> out = None
      then (record_error req, out, s)
      else plan_call no_memory h (plan_converge lib (estop_flag s) (the req)) out s)"

definition oa_motion_plan_destroy :: "u64 \<Rightarrow> api \<Rightarrow> api" where
  "oa_motion_plan_destroy h s = s\<lparr>plans := (plans s)(h := None)\<rparr>"

section \<open>Unit-aware planning\<close>

abbreviation SIZEOF_PAIRED_UNITS :: u32 where "SIZEOF_PAIRED_UNITS \<equiv> 144"
abbreviation SIZEOF_CENTROID_UNITS :: u32 where "SIZEOF_CENTROID_UNITS \<equiv> 120"
abbreviation SIZEOF_MIRRORED_UNITS :: u32 where "SIZEOF_MIRRORED_UNITS \<equiv> 128"
abbreviation SIZEOF_CONVERGE_UNITS :: u32 where "SIZEOF_CONVERGE_UNITS \<equiv> 208"

record unit_move = tcp_move +
  coordinate_unit :: u32
  reserved0 :: u32

record paired_tcp_move_with_units = unit_move +
  left_tcp :: vec3d
  right_tcp :: vec3d

record centroid_tcp_move_with_units = unit_move +
  target_centroid :: vec3d

record mirrored_tcp_move_with_units = unit_move +
  mu_lead_side :: u32
  mu_reserved1 :: u32
  lead_tcp :: vec3d

record converge_tcp_move_with_units = unit_move +
  cu_target :: vec3d
  cu_contact_torque_nm :: joint_vector
  cu_contact_torque_fraction :: dbl
  cu_contact_persistence_cycles :: u32
  cu_reserved1 :: u32
  cu_stop_distance_m :: dbl
  cu_minimum_progress_m :: dbl

text \<open>A point in metres, if it converts.\<close>

definition in_metres :: "vec3d \<Rightarrow> u32 \<Rightarrow> point option" where
  "in_metres v unit =
     (case oa_vec3d_convert (Some v) unit OA_LENGTH_UNIT_METRES (Some \<lparr>vx = 0, vy = 0, vz = 0\<rparr>) of
        (OA_UNITS_OK, Some w) \<Rightarrow> Some [vx w, vy w, vz w]
      | _ \<Rightarrow> None)"

definition shared_fields :: "u32 \<Rightarrow> 'a tcp_move_scheme \<Rightarrow> tcp_move" where
  "shared_fields sz req = (tcp_move.truncate req)\<lparr>struct_size := sz, abi_version := OA_CONTROL_ABI_V1\<rparr>"

definition oa_controller_plan_paired_tcp_with_units ::
  "model_lib \<Rightarrow> (nat \<Rightarrow> dbl \<Rightarrow> dbl \<Rightarrow> dbl) \<Rightarrow> bool \<Rightarrow> u64 \<Rightarrow> paired_tcp_move_with_units pointer
     \<Rightarrow> u64 pointer \<Rightarrow> api \<Rightarrow> control_status \<times> u64 pointer \<times> api" where
  "oa_controller_plan_paired_tcp_with_units lib mix no_memory h req out s =
     (if \<not> valid_record_prefix SIZEOF_PAIRED_UNITS req \<or> reserved0 (the req) \<noteq> 0 \<or> out = None
      then (record_error req, out, s)
      else
        let r = the req in
        case (in_metres (left_tcp r) (coordinate_unit r), in_metres (right_tcp r) (coordinate_unit r)) of
          (Some left_m, Some right_m) \<Rightarrow>
            oa_controller_plan_paired_tcp lib mix no_memory h
              (Some (tcp_move.extend (shared_fields SIZEOF_PAIRED_MOVE r)
                       (paired_tcp_move.fields left_m right_m))) out s
        | _ \<Rightarrow> (OA_CONTROL_EINVAL, out, s))"

definition oa_controller_plan_centroid_tcp_with_units ::
  "model_lib \<Rightarrow> bool \<Rightarrow> u64 \<Rightarrow> centroid_tcp_move_with_units pointer \<Rightarrow> u64 pointer \<Rightarrow> api
     \<Rightarrow> control_status \<times> u64 pointer \<times> api" where
  "oa_controller_plan_centroid_tcp_with_units lib no_memory h req out s =
     (if \<not> valid_record_prefix SIZEOF_CENTROID_UNITS req \<or> reserved0 (the req) \<noteq> 0 \<or> out = None
      then (record_error req, out, s)
      else
        let r = the req in
        case in_metres (target_centroid r) (coordinate_unit r) of None \<Rightarrow> (OA_CONTROL_EINVAL, out, s)
        | Some t \<Rightarrow>
            oa_controller_plan_centroid_tcp lib no_memory h
              (Some (tcp_move.extend (shared_fields SIZEOF_CENTROID_MOVE r) (centroid_tcp_move.fields t))) out s)"

definition oa_controller_plan_mirrored_tcp_with_units ::
  "model_lib \<Rightarrow> bool \<Rightarrow> u64 \<Rightarrow> mirrored_tcp_move_with_units pointer \<Rightarrow> u64 pointer \<Rightarrow> api
     \<Rightarrow> control_status \<times> u64 pointer \<times> api" where
  "oa_controller_plan_mirrored_tcp_with_units lib no_memory h req out s =
     (if \<not> valid_record_prefix SIZEOF_MIRRORED_UNITS req \<or> reserved0 (the req) \<noteq> 0
         \<or> mu_reserved1 (the req) \<noteq> 0 \<or> out = None
      then (record_error req, out, s)
      else
        let r = the req in
        case in_metres (lead_tcp r) (coordinate_unit r) of None \<Rightarrow> (OA_CONTROL_EINVAL, out, s)
        | Some t \<Rightarrow>
            oa_controller_plan_mirrored_tcp lib no_memory h
              (Some (tcp_move.extend (shared_fields SIZEOF_MIRRORED_MOVE r)
                       (mirrored_tcp_move.fields (mu_lead_side r) 0 t))) out s)"

definition oa_controller_plan_converge_tcp_with_units ::
  "model_lib \<Rightarrow> bool \<Rightarrow> u64 \<Rightarrow> converge_tcp_move_with_units pointer \<Rightarrow> u64 pointer \<Rightarrow> api
     \<Rightarrow> control_status \<times> u64 pointer \<times> api" where
  "oa_controller_plan_converge_tcp_with_units lib no_memory h req out s =
     (if \<not> valid_record_prefix SIZEOF_CONVERGE_UNITS req \<or> reserved0 (the req) \<noteq> 0
         \<or> cu_reserved1 (the req) \<noteq> 0 \<or> out = None
      then (record_error req, out, s)
      else
        let r = the req in
        case in_metres (cu_target r) (coordinate_unit r) of None \<Rightarrow> (OA_CONTROL_EINVAL, out, s)
        | Some t \<Rightarrow>
            oa_controller_plan_converge_tcp lib no_memory h
              (Some (tcp_move.extend (shared_fields SIZEOF_CONVERGE_MOVE r)
                       (converge_tcp_move.fields t (cu_contact_torque_nm r) (cu_contact_torque_fraction r)
                          (cu_contact_persistence_cycles r) 0 (cu_stop_distance_m r)
                          (cu_minimum_progress_m r)))) out s)"

section \<open>Reading and executing plans\<close>

abbreviation SIZEOF_PLAN_REPORT :: u32 where "SIZEOF_PLAN_REPORT \<equiv> 240"
abbreviation SIZEOF_EXECUTE_REQUEST :: u32 where "SIZEOF_EXECUTE_REQUEST \<equiv> 40"

record plan_report = header +
  pl_kind :: plan_kind
  pl_collision_checked :: u32
  pl_seed_feedback_seq :: "u64 both"
  pl_duration_ns :: u64
  pl_manifest_revision :: u64
  pl_model_revision :: u64
  pl_collision_scene_revision :: u64
  pl_target_q :: "joint_vector both"
  pl_achieved_tcp_m :: "point both"
  pl_tcp_residual_m :: "dbl both"

definition oa_motion_plan_get_report ::
  "u64 \<Rightarrow> plan_report pointer \<Rightarrow> api \<Rightarrow> control_status \<times> plan_report pointer" where
  "oa_motion_plan_get_report h out s =
     (if \<not> valid_record_prefix SIZEOF_PLAN_REPORT out then (record_error out, out)
      else case plans s h of None \<Rightarrow> (OA_CONTROL_EINVAL, out)
      | Some p \<Rightarrow>
          (OA_CONTROL_OK, Some
             \<lparr>struct_size = SIZEOF_PLAN_REPORT, abi_version = OA_CONTROL_ABI_V1, pl_kind = mp_kind p,
              pl_collision_checked = (if collision_checked p then 1 else 0),
              pl_seed_feedback_seq = seed_seq p, pl_duration_ns = motion_plan.duration_ns p,
              pl_manifest_revision = mp_manifest_revision p, pl_model_revision = mp_model_revision p,
              pl_collision_scene_revision = mp_collision_scene_revision p, pl_target_q = target_q p,
              pl_achieved_tcp_m = achieved_tcp p, pl_tcp_residual_m = tcp_residual p\<rparr>))"

definition oa_controller_execute ::
  "model_lib \<Rightarrow> u64 \<Rightarrow> u64 \<Rightarrow> execute_request pointer \<Rightarrow> u64 pointer \<Rightarrow> api
     \<Rightarrow> control_status \<times> u64 pointer \<times> api" where
  "oa_controller_execute lib h plan req out_command_id s =
     (if \<not> valid_record_prefix SIZEOF_EXECUTE_REQUEST req \<or> out_command_id = None
      then (record_error req, out_command_id, s)
      else case plans s plan of None \<Rightarrow> (OA_CONTROL_EINVAL, out_command_id, s)
      | Some p \<Rightarrow>
          with_controller h (\<lambda>c. case execute lib p (the req) c of
              (Inl st, c') \<Rightarrow> (st, out_command_id, c')
            | (Inr cid, c') \<Rightarrow> (OA_CONTROL_OK, Some cid, c')) out_command_id s)"

definition oa_controller_advance :: "model_lib \<Rightarrow> u64 \<Rightarrow> u64 \<Rightarrow> api \<Rightarrow> control_status \<times> api" where
  "oa_controller_advance lib h monotonic_ns s =
     on_controller h (advance lib (estop_flag s) monotonic_ns) s"

section \<open>The other calls\<close>

abbreviation SIZEOF_SIM_CONTACT :: u32 where "SIZEOF_SIM_CONTACT \<equiv> 56"
abbreviation SIZEOF_SIM_STATE :: u32 where "SIZEOF_SIM_STATE \<equiv> 128"
abbreviation SIZEOF_SIM_FAULT :: u32 where "SIZEOF_SIM_FAULT \<equiv> 40"
abbreviation OFFSET_FAULT_STATUS :: nat where "OFFSET_FAULT_STATUS \<equiv> 24"

definition oa_controller_sim_set_contact :: "u64 \<Rightarrow> sim_contact pointer \<Rightarrow> api \<Rightarrow> control_status \<times> api" where
  "oa_controller_sim_set_contact h k s =
     (if \<not> valid_record_prefix SIZEOF_SIM_CONTACT k then (record_error k, s)
      else on_controller h (set_sim_contact (the k)) s)"

definition normalized_fault :: "sim_fault \<Rightarrow> sim_fault" where
  "normalized_fault f =
     f\<lparr>struct_size := SIZEOF_SIM_FAULT, abi_version := OA_CONTROL_ABI_V1,
       sf_fault_status := prefix_word (struct_size f) OFFSET_FAULT_STATUS (sf_fault_status f) 8,
       sf_command_fail_mask := prefix_word (struct_size f) 28 (sf_command_fail_mask f) 0,
       sf_feedback_delay_ns := prefix_word (struct_size f) 32 (sf_feedback_delay_ns f) 0\<rparr>"

definition oa_controller_sim_set_fault :: "u64 \<Rightarrow> sim_fault pointer \<Rightarrow> api \<Rightarrow> control_status \<times> api" where
  "oa_controller_sim_set_fault h f s =
     (if \<not> valid_record_prefix (of_nat OFFSET_FAULT_STATUS) f then (record_error f, s)
      else on_controller h (set_sim_fault (normalized_fault (the f))) s)"

definition oa_controller_sim_set_state :: "u64 \<Rightarrow> sim_state pointer \<Rightarrow> api \<Rightarrow> control_status \<times> api" where
  "oa_controller_sim_set_state h st s =
     (if \<not> valid_record_prefix SIZEOF_SIM_STATE st then (record_error st, s)
      else on_controller h (set_sim_state (the st)) s)"

definition oa_controller_heartbeat :: "u64 \<Rightarrow> u64 \<Rightarrow> u64 \<Rightarrow> api \<Rightarrow> control_status \<times> api" where
  "oa_controller_heartbeat h cid deadline = on_controller h (heartbeat cid deadline)"

definition oa_controller_set_interlock :: "u64 \<Rightarrow> u32 \<Rightarrow> u32 \<Rightarrow> api \<Rightarrow> control_status \<times> api" where
  "oa_controller_set_interlock h estop_active deadman s =
     (if estop_active > 1 \<or> deadman > 1 then (OA_CONTROL_EINVAL, s)
      else on_controller h (set_interlock (estop_active \<noteq> 0) (deadman \<noteq> 0)) s)"

definition oa_controller_set_collision_scene_revision :: "u64 \<Rightarrow> u64 \<Rightarrow> api \<Rightarrow> control_status \<times> api" where
  "oa_controller_set_collision_scene_revision h revision =
     on_controller h (set_collision_scene_revision revision)"

definition oa_controller_stop :: "u64 \<Rightarrow> u32 \<Rightarrow> api \<Rightarrow> control_status \<times> api" where
  "oa_controller_stop h kind = on_controller h (stop kind)"

definition oa_controller_disarm :: "u64 \<Rightarrow> u64 \<Rightarrow> api \<Rightarrow> control_status \<times> api" where
  "oa_controller_disarm h deadline = on_controller h (disarm deadline)"

definition oa_controller_reset_fault :: "u64 \<Rightarrow> reset_request pointer \<Rightarrow> api \<Rightarrow> control_status \<times> api" where
  "oa_controller_reset_fault h req s =
     (if \<not> valid_record_prefix SIZEOF_RESET_REQUEST req then (record_error req, s)
      else on_controller h (reset (the req)) s)"

text \<open>
  One turn of the loop of \<open>oa_controller_poll_event\<close>, between two waits on the condition variable:
  \<open>None\<close> for the status means that the call waits. \<open>late\<close> is the test of the steady clock
  against the deadline, \<open>woken\<close> whether the call has waited before and so holds the slot of a
  controller that may have been destroyed meanwhile.
\<close>

definition oa_controller_poll_event ::
  "u64 \<Rightarrow> u64 \<Rightarrow> bool \<Rightarrow> bool \<Rightarrow> control_event pointer \<Rightarrow> api
     \<Rightarrow> control_status option \<times> control_event pointer \<times> api" where
  "oa_controller_poll_event h deadline_ns late woken out s =
     (if \<not> valid_record_prefix SIZEOF_EVENT out then (Some (record_error out), out, s)
      else case controllers s h of None \<Rightarrow>
          (Some (if woken then OA_CONTROL_ESTATE else OA_CONTROL_EINVAL), out, s)
      | Some c \<Rightarrow>
          (case poll_event c of
             (Inr ev, c') \<Rightarrow> (Some OA_CONTROL_OK, Some ev, set_controller h c' s)
           | (Inl st, c') \<Rightarrow>
               if deadline_ns = 0 \<or> late then (Some OA_CONTROL_ETIMEOUT, out, s) else (None, out, s)))"

end
