(* ===== verification/Control_Api_Safety.thy ===== *)
theory Control_Api_Safety
  imports Control_Api Control_Arming
begin

text \<open>
  The control interface as a whole: the three registries are tables of handles over one counter of
  tokens, every exported call keeps the invariant of every controller, a token never stands for two
  objects, and a destroyed handle is never valid again.
\<close>

section \<open>The registries are handle tables\<close>

text \<open>The tokens that were ever issued; they are multiples of sixteen from the first.\<close>

definition token_issued :: "api \<Rightarrow> u64 \<Rightarrow> bool" where
  "token_issued s t \<longleftrightarrow> 0x10000 \<le> t \<and> t < next_opaque_token s \<and> 16 dvd unat t"

definition live :: "api \<Rightarrow> u64 \<Rightarrow> nat" where
  "live s t = (if manifests s t = None then 0 else 1) + (if controllers s t = None then 0 else 1)
     + (if plans s t = None then 0 else 1)"

text \<open>Every live token was issued and stands for one object.\<close>

definition tokens_good :: "api \<Rightarrow> bool" where
  "tokens_good s \<longleftrightarrow> 0x10000 \<le> next_opaque_token s \<and> 16 dvd unat (next_opaque_token s)
     \<and> (\<forall>t. live s t \<le> 1) \<and> (\<forall>t. live s t = 1 \<longrightarrow> token_issued s t)"

lemma live_one_issued: "tokens_good s \<Longrightarrow> live s t \<noteq> 0 \<Longrightarrow> token_issued s t"
  unfolding tokens_good_def by (metis One_nat_def less_Suc_eq_le le_zero_eq less_one linorder_neqE_nat not_less)

text \<open>A change of the tables: a token of one object still stands for it, or for nothing.\<close>

lemma tokens_good_smaller:
  assumes "tokens_good s" "next_opaque_token s' = next_opaque_token s" "\<And>t. live s' t \<le> live s t"
  shows "tokens_good s'"
proof -
  have "live s' t \<le> 1" "live s' t = 1 \<longrightarrow> token_issued s' t" for t
    using assms live_one_issued [OF assms(1), of t] unfolding tokens_good_def token_issued_def
    by (metis order_trans, metis le_zero_eq one_neq_zero)
  then show ?thesis using assms by (simp add: tokens_good_def)
qed

text \<open>An entry under a token just issued.\<close>

lemma tokens_good_new:
  assumes "tokens_good s" "next_opaque_token s' = next_opaque_token s" "token_issued s t" "live s' t = 1"
    "\<And>u. u \<noteq> t \<Longrightarrow> live s' u = live s u"
  shows "tokens_good s'"
proof -
  have "live s' u \<le> 1 \<and> (live s' u = 1 \<longrightarrow> token_issued s' u)" for u
    using assms by (cases "u = t") (auto simp: tokens_good_def token_issued_def)
  then show ?thesis using assms by (simp add: tokens_good_def)
qed

lemma allocate_cases:
  assumes "tokens_good s"
  obtains (exhausted) "allocate_opaque_token s = (None, s)"
  | (token) s1 where "allocate_opaque_token s = (Some (next_opaque_token s), s1)"
      "s1 = s\<lparr>next_opaque_token := next_opaque_token s + 16\<rparr>" "tokens_good s1"
      "\<not> token_issued s (next_opaque_token s)" "live s1 (next_opaque_token s) = 0"
      "token_issued s1 = (token_issued s)(next_opaque_token s := True)"
proof (cases "next_opaque_token s > UINT64_MAX - 16")
  case True
  then show thesis using exhausted by (simp add: allocate_opaque_token_def Let_def)
next
  case False
  let ?n = "next_opaque_token s"
  let ?s1 = "s\<lparr>next_opaque_token := ?n + 16\<rparr>"
  have "unat ?n \<le> unat (UINT64_MAX - 16)" using False by (simp add: not_less word_le_nat_alt)
  moreover have "unat (UINT64_MAX - x) = 2 ^ 64 - 1 - unat x" for x :: u64
    by (subst unat_sub) (simp_all add: unsigned_minus_1_eq_mask mask_eq_exp_minus_1)
  ultimately have "\<not> UINT64_MAX - ?n < 16" by (simp add: word_less_nat_alt)
  then have n: "unat (?n + 16) = unat ?n + 16" using unat_add_no_overflow [of ?n 16] by simp
  have issued: "token_issued ?s1 t \<longleftrightarrow> token_issued s t \<or> t = ?n" for t
  proof -
    have "unat t < unat ?n + 16 \<and> 16 dvd unat t \<longleftrightarrow> (unat t < unat ?n \<or> unat t = unat ?n) \<and> 16 dvd unat t"
      using assms by (auto simp: tokens_good_def elim!: dvdE)
    then show ?thesis
      using assms by (auto simp: token_issued_def tokens_good_def word_less_nat_alt n word_unat_eq_iff word_le_nat_alt)
  qed
  have not: "\<not> token_issued s ?n" by (simp add: token_issued_def)
  then have "live s ?n = 0" using assms unfolding tokens_good_def by (metis less_one linorder_neqE_nat not_less)
  then show thesis
    using token [of ?s1] False not assms issued n
    by (auto simp: allocate_opaque_token_def Let_def tokens_good_def live_def fun_eq_iff word_le_nat_alt)
qed

text \<open>An entry put into a table under the token just taken.\<close>

lemma allocated:
  assumes good: "tokens_good s" and add: "(case allocate_opaque_token s of (None, s1) \<Rightarrow> (None, s1)
      | (Some u, s1) \<Rightarrow> (Some u, f u s1)) = (Some t, s')"
    and f: "\<And>u s1. next_opaque_token (f u s1) = next_opaque_token s1"
      "\<And>u s1. live s1 u = 0 \<Longrightarrow> live (f u s1) u = 1" "\<And>u v s1. v \<noteq> u \<Longrightarrow> live (f u s1) v = live s1 v"
  shows "\<not> token_issued s t \<and> tokens_good s' \<and> token_issued s' = (token_issued s)(t := True)
    \<and> (\<exists>n. s' = f t (s\<lparr>next_opaque_token := n\<rparr>))"
proof (rule allocate_cases [OF good])
  fix s1
  assume a: "allocate_opaque_token s = (Some (next_opaque_token s), s1)"
    "s1 = s\<lparr>next_opaque_token := next_opaque_token s + 16\<rparr>" "tokens_good s1"
    "\<not> token_issued s (next_opaque_token s)" "live s1 (next_opaque_token s) = 0"
    "token_issued s1 = (token_issued s)(next_opaque_token s := True)"
  have t: "t = next_opaque_token s" "s' = f t s1" using add unfolding a(1) by auto
  have "tokens_good (f t s1)"
    using a t by (intro tokens_good_new [OF a(3), of _ t]) (simp_all add: f)
  moreover have "token_issued (f t s1) = token_issued s1" by (simp add: token_issued_def f fun_eq_iff)
  ultimately show ?thesis using a t by auto
qed (use add in simp)

interpretation manifest_table: handle_table tokens_good manifests token_issued add_manifest
  "\<lambda>t m s. s\<lparr>manifests := (manifests s)(t \<mapsto> m)\<rparr>" oa_manifest_destroy
proof unfold_locales
  fix s s' :: api and t e
  show "tokens_good s \<Longrightarrow> manifests s t = Some e \<Longrightarrow> token_issued s t"
    by (rule live_one_issued) (simp_all add: live_def)
  show "tokens_good s \<Longrightarrow> \<not> token_issued s 0" by (simp add: token_issued_def)
  show "add_manifest e s = (None, s') \<Longrightarrow> s' = s"
    by (auto simp: add_manifest_def allocate_opaque_token_def Let_def split: if_splits)
  show "tokens_good s \<Longrightarrow> add_manifest e s = (Some t, s') \<Longrightarrow> \<not> token_issued s t \<and> tokens_good s'
      \<and> token_issued s' = (token_issued s)(t := True) \<and> manifests s' = (manifests s)(t \<mapsto> e)"
    using allocated [of s "\<lambda>u s1. s1\<lparr>manifests := (manifests s1)(u \<mapsto> e)\<rparr>" t s']
    by (auto simp: add_manifest_def live_def)
  show "tokens_good s \<Longrightarrow> manifests s t \<noteq> None \<Longrightarrow> tokens_good ((\<lambda>t m s. s\<lparr>manifests := (manifests s)(t \<mapsto> m)\<rparr>) t e s)
      \<and> token_issued ((\<lambda>t m s. s\<lparr>manifests := (manifests s)(t \<mapsto> m)\<rparr>) t e s) = token_issued s \<and> manifests ((\<lambda>t m s. s\<lparr>manifests := (manifests s)(t \<mapsto> m)\<rparr>) t e s) = (manifests s)(t \<mapsto> e)"
    using tokens_good_smaller [of s "(\<lambda>t m s. s\<lparr>manifests := (manifests s)(t \<mapsto> m)\<rparr>) t e s"]
    by (auto simp: live_def token_issued_def fun_eq_iff set_controller_def)
  show "tokens_good s \<Longrightarrow> tokens_good (oa_manifest_destroy t s)
      \<and> token_issued (oa_manifest_destroy t s) = token_issued s \<and> manifests (oa_manifest_destroy t s) = (manifests s)(t := None)"
    using tokens_good_smaller [of s "oa_manifest_destroy t s"]
    by (auto simp: live_def token_issued_def fun_eq_iff oa_manifest_destroy_def)
qed

interpretation controller_table: handle_table tokens_good controllers token_issued add_controller
  "set_controller" oa_controller_destroy
proof unfold_locales
  fix s s' :: api and t e
  show "tokens_good s \<Longrightarrow> controllers s t = Some e \<Longrightarrow> token_issued s t"
    by (rule live_one_issued) (simp_all add: live_def)
  show "tokens_good s \<Longrightarrow> \<not> token_issued s 0" by (simp add: token_issued_def)
  show "add_controller e s = (None, s') \<Longrightarrow> s' = s"
    by (auto simp: add_controller_def allocate_opaque_token_def Let_def split: if_splits)
  show "tokens_good s \<Longrightarrow> add_controller e s = (Some t, s') \<Longrightarrow> \<not> token_issued s t \<and> tokens_good s'
      \<and> token_issued s' = (token_issued s)(t := True) \<and> controllers s' = (controllers s)(t \<mapsto> e)"
    using allocated [of s "\<lambda>u s1. s1\<lparr>controllers := (controllers s1)(u \<mapsto> e)\<rparr>" t s']
    by (auto simp: add_controller_def live_def)
  show "tokens_good s \<Longrightarrow> controllers s t \<noteq> None \<Longrightarrow> tokens_good ((set_controller) t e s)
      \<and> token_issued ((set_controller) t e s) = token_issued s \<and> controllers ((set_controller) t e s) = (controllers s)(t \<mapsto> e)"
    using tokens_good_smaller [of s "(set_controller) t e s"]
    by (auto simp: live_def token_issued_def fun_eq_iff set_controller_def)
  show "tokens_good s \<Longrightarrow> tokens_good (oa_controller_destroy t s)
      \<and> token_issued (oa_controller_destroy t s) = token_issued s \<and> controllers (oa_controller_destroy t s) = (controllers s)(t := None)"
    using tokens_good_smaller [of s "oa_controller_destroy t s"]
    by (auto simp: live_def token_issued_def fun_eq_iff oa_controller_destroy_def)
qed

interpretation plan_table: handle_table tokens_good plans token_issued add_plan
  "\<lambda>t p s. s\<lparr>plans := (plans s)(t \<mapsto> p)\<rparr>" oa_motion_plan_destroy
proof unfold_locales
  fix s s' :: api and t e
  show "tokens_good s \<Longrightarrow> plans s t = Some e \<Longrightarrow> token_issued s t"
    by (rule live_one_issued) (simp_all add: live_def)
  show "tokens_good s \<Longrightarrow> \<not> token_issued s 0" by (simp add: token_issued_def)
  show "add_plan e s = (None, s') \<Longrightarrow> s' = s"
    by (auto simp: add_plan_def allocate_opaque_token_def Let_def split: if_splits)
  show "tokens_good s \<Longrightarrow> add_plan e s = (Some t, s') \<Longrightarrow> \<not> token_issued s t \<and> tokens_good s'
      \<and> token_issued s' = (token_issued s)(t := True) \<and> plans s' = (plans s)(t \<mapsto> e)"
    using allocated [of s "\<lambda>u s1. s1\<lparr>plans := (plans s1)(u \<mapsto> e)\<rparr>" t s']
    by (auto simp: add_plan_def live_def)
  show "tokens_good s \<Longrightarrow> plans s t \<noteq> None \<Longrightarrow> tokens_good ((\<lambda>t p s. s\<lparr>plans := (plans s)(t \<mapsto> p)\<rparr>) t e s)
      \<and> token_issued ((\<lambda>t p s. s\<lparr>plans := (plans s)(t \<mapsto> p)\<rparr>) t e s) = token_issued s \<and> plans ((\<lambda>t p s. s\<lparr>plans := (plans s)(t \<mapsto> p)\<rparr>) t e s) = (plans s)(t \<mapsto> e)"
    using tokens_good_smaller [of s "(\<lambda>t p s. s\<lparr>plans := (plans s)(t \<mapsto> p)\<rparr>) t e s"]
    by (auto simp: live_def token_issued_def fun_eq_iff set_controller_def)
  show "tokens_good s \<Longrightarrow> tokens_good (oa_motion_plan_destroy t s)
      \<and> token_issued (oa_motion_plan_destroy t s) = token_issued s \<and> plans (oa_motion_plan_destroy t s) = (plans s)(t := None)"
    using tokens_good_smaller [of s "oa_motion_plan_destroy t s"]
    by (auto simp: live_def token_issued_def fun_eq_iff oa_motion_plan_destroy_def)
qed

section \<open>Every call is a sequence of small changes\<close>

inductive api_change :: "api \<Rightarrow> api \<Rightarrow> bool" where
  counters: "api_change s (s\<lparr>next_controller_instance := n, g_estop_latched := e, g_estop_assertions := k\<rparr>)"
| token: "allocate_opaque_token s = (ot, s') \<Longrightarrow> api_change s s'"
| manifest: "add_manifest m s = (Some t, s') \<Longrightarrow> all_both (\<lambda>a. length (ac_motor a) = 7) (mc_arm m) \<Longrightarrow> api_change s s'"
| controller: "add_controller c s = (Some t, s') \<Longrightarrow> control_inv c \<Longrightarrow> api_change s s'"
| plan: "add_plan p s = (Some t, s') \<Longrightarrow> api_change s s'"
| update: "controllers s h = Some c \<Longrightarrow> (control_inv c \<Longrightarrow> control_inv c') \<Longrightarrow> api_change s (set_controller h c' s)"
| remove_manifest: "api_change s (oa_manifest_destroy h s)"
| remove_controller: "api_change s (oa_controller_destroy h s)"
| remove_plan: "api_change s (oa_motion_plan_destroy h s)"

definition api_good :: "api \<Rightarrow> bool" where
  "api_good s \<longleftrightarrow> tokens_good s \<and> (\<forall>c \<in> ran (controllers s). control_inv c)
     \<and> (\<forall>m \<in> ran (manifests s). all_both (\<lambda>a. length (ac_motor a) = 7) (mc_arm m))"

lemma tokens_good_allocate: "tokens_good s \<Longrightarrow> allocate_opaque_token s = (ot, s') \<Longrightarrow>
    tokens_good s' \<and> manifests s' = manifests s \<and> controllers s' = controllers s \<and> plans s' = plans s
    \<and> (\<forall>t. token_issued s t \<longrightarrow> token_issued s' t)"
  by (rule allocate_cases [of s]) auto

lemma added_tables:
  "add_manifest m s = (Some t, s') \<Longrightarrow> controllers s' = controllers s \<and> plans s' = plans s"
  "add_controller c s = (Some t, s') \<Longrightarrow> manifests s' = manifests s \<and> plans s' = plans s"
  "add_plan p s = (Some t, s') \<Longrightarrow> manifests s' = manifests s \<and> controllers s' = controllers s"
  by (auto simp: add_manifest_def add_controller_def add_plan_def allocate_opaque_token_def Let_def split: if_splits)

lemma ran_update: "x \<in> ran (m(k \<mapsto> v)) \<Longrightarrow> x = v \<or> x \<in> ran m"
  by (auto simp: ran_def split: if_splits)

lemma ran_delete: "x \<in> ran (m(k := None)) \<Longrightarrow> x \<in> ran m"
  by (auto simp: ran_def split: if_splits)

lemma change_good: "api_change s s' \<Longrightarrow> api_good s \<Longrightarrow> api_good s'"
proof (induction rule: api_change.induct)
  case (counters s k e n)
  then show ?case
    using tokens_good_smaller [of s "s\<lparr>next_controller_instance := n, g_estop_latched := e, g_estop_assertions := k\<rparr>"]
    by (simp add: api_good_def live_def)
next
  case (token s ot s')
  then show ?case using tokens_good_allocate [of s ot s'] by (simp add: api_good_def)
next
  case (manifest m s t s')
  then show ?case
    using manifest_table.add_some [of s m t s'] added_tables(1) [of m s t s']
    by (auto simp: api_good_def dest: ran_update)
next
  case (controller c s t s')
  then show ?case
    using controller_table.add_some [of s c t s'] added_tables(2) [of c s t s']
    by (auto simp: api_good_def dest: ran_update)
next
  case (plan p s t s')
  then show ?case
    using plan_table.add_some [of s p t s'] added_tables(3) [of p s t s']
    by (auto simp: api_good_def)
next
  case (update s h c c')
  then have "control_inv c" by (auto simp: api_good_def ran_def)
  with update show ?case
    using controller_table.change_live [of s h c']
    by (auto simp: api_good_def set_controller_def dest!: ran_update)
next
  case (remove_manifest s h)
  then show ?case
    using manifest_table.remove_any [of s h] by (auto simp: api_good_def oa_manifest_destroy_def dest: ran_delete)
next
  case (remove_controller s h)
  then show ?case
    using controller_table.remove_any [of s h] by (auto simp: api_good_def oa_controller_destroy_def dest: ran_delete)
next
  case (remove_plan s h)
  then show ?case
    using plan_table.remove_any [of s h] by (auto simp: api_good_def oa_motion_plan_destroy_def)
qed

text \<open>A token that was issued and stands for nothing.\<close>

definition dead_token :: "u64 \<Rightarrow> api \<Rightarrow> bool" where
  "dead_token t s \<longleftrightarrow> token_issued s t \<and> live s t = 0"

lemma live_zero: "live s t = 0 \<longleftrightarrow> manifests s t = None \<and> controllers s t = None \<and> plans s t = None"
  by (simp add: live_def)

lemma change_dead: "api_change s s' \<Longrightarrow> api_good s \<Longrightarrow> dead_token t s \<Longrightarrow> dead_token t s'"
proof (induction rule: api_change.induct)
  case (counters s k e n)
  then show ?case by (simp add: dead_token_def live_def token_issued_def)
next
  case (token s ot s')
  then show ?case using tokens_good_allocate [of s ot s'] by (simp add: dead_token_def live_def api_good_def)
next
  case (manifest m s u s')
  then show ?case
    using manifest_table.add_some [of s m u s'] added_tables(1) [of m s u s']
    by (auto simp: dead_token_def live_zero api_good_def)
next
  case (controller c s u s')
  then show ?case
    using controller_table.add_some [of s c u s'] added_tables(2) [of c s u s']
    by (auto simp: dead_token_def live_zero api_good_def)
next
  case (plan p s u s')
  then show ?case
    using plan_table.add_some [of s p u s'] added_tables(3) [of p s u s']
    by (auto simp: dead_token_def live_zero api_good_def)
next
  case (update s h c c')
  then show ?case by (auto simp: dead_token_def live_zero set_controller_def token_issued_def)
qed (auto simp: dead_token_def live_zero token_issued_def oa_manifest_destroy_def oa_controller_destroy_def
    oa_motion_plan_destroy_def)

definition api_changes :: "api \<Rightarrow> api \<Rightarrow> bool" where
  "api_changes = api_change\<^sup>*\<^sup>*"

lemma changes_refl [simp]: "api_changes s s"
  by (simp add: api_changes_def)

lemma changes_one: "api_change s s' \<Longrightarrow> api_changes s s'"
  by (simp add: api_changes_def)

lemma changes_more: "api_change s s' \<Longrightarrow> api_changes s' s'' \<Longrightarrow> api_changes s s''"
  unfolding api_changes_def by (rule converse_rtranclp_into_rtranclp)

lemma changes_then: "api_changes s s' \<Longrightarrow> api_change s' s'' \<Longrightarrow> api_changes s s''"
  unfolding api_changes_def by (rule rtranclp.rtrancl_into_rtrancl)

lemma changes_counters:
  "api_changes s (s\<lparr>next_controller_instance := n\<rparr>)" "api_changes s (s\<lparr>g_estop_latched := e\<rparr>)"
  "api_changes s (s\<lparr>g_estop_latched := e, g_estop_assertions := k\<rparr>)"
  using api_change.counters [of s "g_estop_assertions s" "g_estop_latched s" n]
    api_change.counters [of s "g_estop_assertions s" e "next_controller_instance s"]
    api_change.counters [of s k e "next_controller_instance s"]
  by (simp_all add: changes_one)

lemma changes_good: "api_changes s s' \<Longrightarrow> api_good s \<Longrightarrow> api_good s'"
  unfolding api_changes_def by (induction rule: rtranclp_induct) (simp_all add: change_good)

lemma changes_dead:
  assumes "api_changes s s'" "api_good s" "dead_token t s"
  shows "dead_token t s'"
  using assms unfolding api_changes_def
proof (induction rule: rtranclp_induct)
  case (step y z)
  have "api_good y" using changes_good step by (simp add: api_changes_def)
  with step show ?case using change_dead by blast
qed simp

section \<open>The calls\<close>

lemma with_controller_changes:
  assumes "\<And>c. control_inv c \<Longrightarrow> control_inv (snd (snd (f c)))"
  shows "api_changes s (snd (snd (with_controller h f out s)))"
  using assms by (auto simp: with_controller_def split_beta intro!: changes_one api_change.update split: option.split)

lemma on_controller_changes:
  assumes "\<And>c. control_inv c \<Longrightarrow> control_inv (snd (f c))"
  shows "api_changes s (snd (on_controller h f s))"
  using with_controller_changes [of "\<lambda>c. case f c of (st, c') \<Rightarrow> (st, (), c')" s h "()"] assms
  by (simp add: on_controller_def split_beta)

lemma publish_plan_changes: "api_changes s (snd (snd (publish_plan nm p out s)))"
proof (cases "allocate_opaque_token s")
  case (Pair ot s1)
  have "api_change s s1" by (rule api_change.token [OF Pair])
  moreover have "api_change s (s1\<lparr>plans := (plans s1)(t \<mapsto> p)\<rparr>)" if "ot = Some t" for t
    by (rule api_change.plan [of p _ t]) (simp add: add_plan_def Pair that)
  ultimately show ?thesis by (auto simp: publish_plan_def Pair changes_one split: option.split)
qed

lemma plan_call_changes:
  assumes "\<And>c. control_inv c \<Longrightarrow> control_inv (snd (planner c))"
  shows "api_changes s (snd (snd (plan_call nm h planner out s)))"
proof (cases "controllers s h")
  case (Some c)
  obtain r c' where p: "planner c = (r, c')" by fastforce
  have "api_change s (set_controller h c' s)" using assms [of c] p by (intro api_change.update [OF Some]) simp
  then show ?thesis
    using publish_plan_changes by (auto simp: plan_call_def Some p changes_one intro: changes_more split: sum.split)
qed (simp add: plan_call_def)

lemma manifest_create_changes:
  assumes "\<And>m. config = Some m \<Longrightarrow> all_both (\<lambda>a. length (ac_motor a) = 7) (mc_arm m)"
  shows "api_changes s (snd (snd (oa_manifest_create lib nm config out s)))"
proof (cases "valid_record_prefix SIZEOF_MANIFEST_CONFIG config \<and> out \<noteq> None")
  case True
  then obtain m where m: "config = Some m" by (auto simp: valid_record_prefix_def split: option.splits)
  obtain ot s1 where a: "allocate_opaque_token s = (ot, s1)" by fastforce
  have "api_change s s1" by (rule api_change.token [OF a])
  moreover have "m' = m" if "new_manifest lib m = Inr m'" for m'
    using that by (auto simp: new_manifest_def split: if_splits option.splits)
  moreover have "api_change s (s1\<lparr>manifests := (manifests s1)(t \<mapsto> m)\<rparr>)" if "ot = Some t" for t
    by (rule api_change.manifest [of m _ t]) (simp_all add: add_manifest_def a that assms m)
  ultimately show ?thesis
    using True m by (auto simp: oa_manifest_create_def a changes_one split: option.split sum.split)
qed (auto simp: oa_manifest_create_def)

lemma controller_create_changes:
  assumes "api_good s"
  shows "api_changes s (snd (snd (oa_controller_create ns nn m opts out s)))"
proof (cases "valid_record_prefix (of_nat OFFSET_COLLISION_SCENE_REVISION) opts \<and> out \<noteq> None
    \<and> manifests s m \<noteq> None \<and> \<not> ns")
  case True
  then obtain man where man: "manifests s m = Some man" by auto
  then have j: "all_both (\<lambda>a. length (ac_motor a) = 7) (mc_arm man)" using assms by (auto simp: api_good_def ran_def)
  let ?s1 = "s\<lparr>next_controller_instance := next_controller_instance s + 1\<rparr>"
  have s1: "api_changes s ?s1" by (rule changes_counters)
  obtain ot s2 where a: "allocate_opaque_token ?s1 = (ot, s2)" by fastforce
  have s2: "api_changes s s2" by (rule changes_then [OF s1 api_change.token [OF a]])
  have "control_inv c" if "new_controller man opt i = Inr c" for c opt i
    using that initial_controller_inv [OF j] by (auto simp: new_controller_def split: if_splits)
  then have "api_changes s (set_controller t c s2)" if "ot = Some t" "new_controller man opt i = Inr c" for c t opt i
    using that by (intro changes_then [OF s1] api_change.controller [of c _ t])
      (auto simp: add_controller_def a set_controller_def)
  then show ?thesis
    using True man s1 s2
    by (auto simp: oa_controller_create_def a Let_def split: sum.split option.split)
qed (auto simp: oa_controller_create_def split: option.split)

text \<open>The exported calls that change the state.\<close>

datatype api_call =
    Manifest_create bool "manifest_config pointer" "u64 pointer"
  | Manifest_create_standard bool "u64 pointer"
  | Manifest_destroy u64
  | Controller_create bool bool u64 "controller_options pointer" "u64 pointer"
  | Controller_destroy u64
  | Estop_assert
  | Estop_clear
  | Open_and_verify u64 "verify_report pointer"
  | Get_arm_challenge u64 "arm_challenge pointer"
  | Arm_controller u64 "arm_challenge pointer"
  | Plan_joint_move bool u64 "joint_move pointer" "u64 pointer"
  | Plan_paired_tcp bool u64 "paired_tcp_move pointer" "u64 pointer"
  | Plan_paired_units bool u64 "paired_tcp_move_with_units pointer" "u64 pointer"
  | Plan_centroid_tcp bool u64 "centroid_tcp_move pointer" "u64 pointer"
  | Plan_centroid_units bool u64 "centroid_tcp_move_with_units pointer" "u64 pointer"
  | Plan_mirrored_tcp bool u64 "mirrored_tcp_move pointer" "u64 pointer"
  | Plan_mirrored_units bool u64 "mirrored_tcp_move_with_units pointer" "u64 pointer"
  | Plan_converge_tcp bool u64 "converge_tcp_move pointer" "u64 pointer"
  | Plan_converge_units bool u64 "converge_tcp_move_with_units pointer" "u64 pointer"
  | Plan_destroy u64
  | Execute_plan u64 u64 "execute_request pointer" "u64 pointer"
  | Advance_controller u64 u64
  | Sim_set_contact u64 "sim_contact pointer"
  | Sim_set_fault u64 "sim_fault pointer"
  | Sim_set_state u64 "sim_state pointer"
  | Heartbeat_command u64 u64 u64
  | Set_interlock u64 u32 u32
  | Set_scene_revision u64 u64
  | Stop_controller u64 u32
  | Disarm_controller u64 u64
  | Reset_fault u64 "reset_request pointer"
  | Poll_controller u64 u64 bool bool "control_event pointer"

fun api_step :: "model_lib \<Rightarrow> (nat \<Rightarrow> dbl \<Rightarrow> dbl \<Rightarrow> dbl) \<Rightarrow> api_call \<Rightarrow> api \<Rightarrow> api" where
  "api_step lib mix (Manifest_create nm cfg out) s = snd (snd (oa_manifest_create lib nm cfg out s))"
| "api_step lib mix (Manifest_create_standard nm out) s =
     snd (snd (oa_manifest_create_openarm_v10_virtual lib nm out s))"
| "api_step lib mix (Manifest_destroy h) s = oa_manifest_destroy h s"
| "api_step lib mix (Controller_create ns nn m opts out) s = snd (snd (oa_controller_create ns nn m opts out s))"
| "api_step lib mix (Controller_destroy h) s = oa_controller_destroy h s"
| "api_step lib mix Estop_assert s = oa_estop_assert s"
| "api_step lib mix Estop_clear s = snd (oa_estop_clear s)"
| "api_step lib mix (Open_and_verify h out) s = snd (snd (oa_controller_open_and_verify h out s))"
| "api_step lib mix (Get_arm_challenge h out) s = snd (snd (oa_controller_get_arm_challenge h out s))"
| "api_step lib mix (Arm_controller h ch) s = snd (oa_controller_arm h ch s)"
| "api_step lib mix (Plan_joint_move nm h req out) s = snd (snd (oa_controller_plan_joint lib nm h req out s))"
| "api_step lib mix (Plan_paired_tcp nm h req out) s =
     snd (snd (oa_controller_plan_paired_tcp lib mix nm h req out s))"
| "api_step lib mix (Plan_paired_units nm h req out) s =
     snd (snd (oa_controller_plan_paired_tcp_with_units lib mix nm h req out s))"
| "api_step lib mix (Plan_centroid_tcp nm h req out) s =
     snd (snd (oa_controller_plan_centroid_tcp lib nm h req out s))"
| "api_step lib mix (Plan_centroid_units nm h req out) s =
     snd (snd (oa_controller_plan_centroid_tcp_with_units lib nm h req out s))"
| "api_step lib mix (Plan_mirrored_tcp nm h req out) s =
     snd (snd (oa_controller_plan_mirrored_tcp lib nm h req out s))"
| "api_step lib mix (Plan_mirrored_units nm h req out) s =
     snd (snd (oa_controller_plan_mirrored_tcp_with_units lib nm h req out s))"
| "api_step lib mix (Plan_converge_tcp nm h req out) s =
     snd (snd (oa_controller_plan_converge_tcp lib nm h req out s))"
| "api_step lib mix (Plan_converge_units nm h req out) s =
     snd (snd (oa_controller_plan_converge_tcp_with_units lib nm h req out s))"
| "api_step lib mix (Plan_destroy h) s = oa_motion_plan_destroy h s"
| "api_step lib mix (Execute_plan h p req out) s = snd (snd (oa_controller_execute lib h p req out s))"
| "api_step lib mix (Advance_controller h t) s = snd (oa_controller_advance lib h t s)"
| "api_step lib mix (Sim_set_contact h k) s = snd (oa_controller_sim_set_contact h k s)"
| "api_step lib mix (Sim_set_fault h f) s = snd (oa_controller_sim_set_fault h f s)"
| "api_step lib mix (Sim_set_state h st) s = snd (oa_controller_sim_set_state h st s)"
| "api_step lib mix (Heartbeat_command h cid t) s = snd (oa_controller_heartbeat h cid t s)"
| "api_step lib mix (Set_interlock h e d) s = snd (oa_controller_set_interlock h e d s)"
| "api_step lib mix (Set_scene_revision h r) s = snd (oa_controller_set_collision_scene_revision h r s)"
| "api_step lib mix (Stop_controller h k) s = snd (oa_controller_stop h k s)"
| "api_step lib mix (Disarm_controller h t) s = snd (oa_controller_disarm h t s)"
| "api_step lib mix (Reset_fault h req) s = snd (oa_controller_reset_fault h req s)"
| "api_step lib mix (Poll_controller h t late woken out) s =
     snd (snd (oa_controller_poll_event h t late woken out s))"

definition api_run :: "model_lib \<Rightarrow> (nat \<Rightarrow> dbl \<Rightarrow> dbl \<Rightarrow> dbl) \<Rightarrow> api_call list \<Rightarrow> api \<Rightarrow> api" where
  "api_run lib mix calls s = fold (api_step lib mix) calls s"

text \<open>The C array of an arm has seven motors.\<close>

definition call_shaped :: "api_call \<Rightarrow> bool" where
  "call_shaped k \<longleftrightarrow> (case k of Manifest_create _ (Some m) _ \<Rightarrow> all_both (\<lambda>a. length (ac_motor a) = 7) (mc_arm m)
     | _ \<Rightarrow> True)"

lemma planning_changes:
  "api_changes s (snd (snd (oa_controller_plan_paired_tcp lib mix nm h pr out s)))"
  "api_changes s (snd (snd (oa_controller_plan_centroid_tcp lib nm h cr out s)))"
  "api_changes s (snd (snd (oa_controller_plan_mirrored_tcp lib nm h mr out s)))"
  "api_changes s (snd (snd (oa_controller_plan_converge_tcp lib nm h vr out s)))"
  "api_changes s (snd (snd (oa_controller_plan_joint lib nm h jr out s)))"
  by (auto simp: oa_controller_plan_paired_tcp_def oa_controller_plan_centroid_tcp_def oa_controller_plan_joint_def
      oa_controller_plan_mirrored_tcp_def oa_controller_plan_converge_tcp_def
      intro!: plan_call_changes plan_moves_inv plan_joint_inv)

lemma unit_planning_changes:
  "api_changes s (snd (snd (oa_controller_plan_paired_tcp_with_units lib mix nm h pr out s)))"
  "api_changes s (snd (snd (oa_controller_plan_centroid_tcp_with_units lib nm h cr out s)))"
  "api_changes s (snd (snd (oa_controller_plan_mirrored_tcp_with_units lib nm h mr out s)))"
  "api_changes s (snd (snd (oa_controller_plan_converge_tcp_with_units lib nm h vr out s)))"
  by (simp_all add: oa_controller_plan_paired_tcp_with_units_def oa_controller_plan_centroid_tcp_with_units_def
      oa_controller_plan_mirrored_tcp_with_units_def oa_controller_plan_converge_tcp_with_units_def Let_def
      planning_changes split: option.split)

lemma standard_create_changes:
  "api_changes s (snd (snd (oa_manifest_create_openarm_v10_virtual lib nm out s)))"
proof -
  have "all_both (\<lambda>a. length (ac_motor a) = 7) (mc_arm standard_config)"
    by (simp add: standard_config_def standard_arm_def all_both_def)
  then show ?thesis
    by (auto simp: oa_manifest_create_openarm_v10_virtual_def oa_manifest_get_openarm_v10_virtual_config_def
        intro!: manifest_create_changes)
qed

lemma execute_changes: "api_changes s (snd (snd (oa_controller_execute lib h p req out s)))"
proof -
  have "control_inv (snd (snd (case execute lib pl rq c of (Inl st, c') \<Rightarrow> (st, out, c')
      | (Inr cid, c') \<Rightarrow> (OA_CONTROL_OK, Some cid, c'))))" if "control_inv c" for pl rq c
    using execute_inv [OF that, of lib pl rq] by (auto split: prod.split sum.split)
  then show ?thesis
    by (auto simp: oa_controller_execute_def intro!: with_controller_changes split: option.split)
qed

lemma poll_changes: "api_changes s (snd (snd (oa_controller_poll_event h t late woken out s)))"
proof -
  have "control_inv c \<Longrightarrow> poll_event c = (r, c') \<Longrightarrow> control_inv c'" for c r c'
    using poll_event_inv [of c] by simp
  then show ?thesis
    by (auto simp: oa_controller_poll_event_def intro!: changes_one api_change.update split: option.split sum.split prod.split)
qed

lemma removal_changes:
  "api_changes s (oa_manifest_destroy h s)" "api_changes s (oa_controller_destroy h s)"
  "api_changes s (oa_motion_plan_destroy h s)"
  by (rule changes_one, rule api_change.intros)+

lemma api_step_changes: "api_good s \<Longrightarrow> call_shaped k \<Longrightarrow> api_changes s (api_step lib mix k s)"
proof (cases k)
  fix nm cfg out
  assume "call_shaped k" "k = Manifest_create nm cfg out"
  then show ?thesis by (auto simp: call_shaped_def intro!: manifest_create_changes)
qed (auto simp: controller_create_changes standard_create_changes planning_changes unit_planning_changes
    execute_changes poll_changes changes_counters removal_changes oa_estop_assert_def oa_estop_clear_def
    oa_controller_open_and_verify_def oa_controller_get_arm_challenge_def oa_controller_arm_def
    oa_controller_advance_def oa_controller_sim_set_contact_def oa_controller_sim_set_fault_def
    oa_controller_sim_set_state_def oa_controller_heartbeat_def oa_controller_set_interlock_def
    oa_controller_set_collision_scene_revision_def oa_controller_stop_def oa_controller_disarm_def
    oa_controller_reset_fault_def split_beta
    intro!: with_controller_changes on_controller_changes open_and_verify_inv challenge_inv arm_inv advance_inv
      sim_contact_inv sim_fault_inv sim_state_inv heartbeat_inv set_interlock_inv scene_revision_inv stop_inv
      disarm_inv reset_inv)

lemma api_run_good:
  "api_good s \<Longrightarrow> list_all call_shaped ks \<Longrightarrow> api_good (api_run lib mix ks s)"
  unfolding api_run_def
proof (induction ks arbitrary: s)
  case (Cons k ks)
  then have "api_good (api_step lib mix k s)" using changes_good [OF api_step_changes] by simp
  with Cons show ?case by simp
qed simp

lemma initial_api_good: "api_good initial_api"
  by (simp add: api_good_def tokens_good_def initial_api_def live_def)

section \<open>Properties of the interface\<close>

text \<open>
  C22: the state behind the C interface stays sound. After any sequence of calls, with any
  arguments (null pointers, stale handles, records of other versions, failing allocations), every
  controller satisfies the invariant of controllers, every handle that stands for an object was
  issued, and no handle stands for two: a plan's handle is never taken for a controller or a
  manifest.
\<close>
theorem interface_sound:
  assumes "list_all call_shaped calls" and s: "s = api_run lib mix calls initial_api"
  shows "(\<forall>h c. controllers s h = Some c \<longrightarrow> control_inv c)
    \<and> (\<forall>h. live s h \<le> 1 \<and> (live s h = 1 \<longrightarrow> token_issued s h))"
proof -
  have "api_good s" unfolding s by (rule api_run_good [OF initial_api_good assms(1)])
  then show ?thesis by (auto simp: api_good_def tokens_good_def ran_def)
qed

theorem interface_sound_witness:
  "live (api_run sample_lib (\<lambda>_ _ _. Fin 0)
     [Manifest_create_standard False (Some 0), Controller_create False False 0x10000 None (Some 0), Estop_assert]
     initial_api) 0x10000 \<le> 1"
proof -
  let ?calls = "[Manifest_create_standard False (Some 0),
     Controller_create False False 0x10000 None (Some 0), Estop_assert]"
  have "list_all call_shaped ?calls" by (simp add: call_shaped_def)
  from interface_sound [OF this refl] show ?thesis by blast
qed

text \<open>
  A handle is never valid again. Once a handle of the control interface that was issued stands
  for nothing, no later call makes it stand for an object.
\<close>
theorem control_handle_never_revived:
  assumes "api_good s" "token_issued s h" "live s h = 0" "list_all call_shaped calls"
  shows "live (api_run lib mix calls s) h = 0"
proof -
  have "dead_token h (api_run lib mix calls s)" using assms
    unfolding api_run_def
  proof (induction calls arbitrary: s)
    case (Cons k calls)
    let ?s = "api_step lib mix k s"
    have "api_changes s ?s" using Cons.prems by (intro api_step_changes) simp_all
    then have "api_good ?s" "dead_token h ?s"
      using Cons.prems changes_good changes_dead [of s ?s h] by (auto simp: dead_token_def)
    then show ?case using Cons by (simp add: dead_token_def)
  qed (simp add: dead_token_def)
  then show ?thesis by (simp add: dead_token_def)
qed

theorem control_handle_never_revived_witness:
  "live (api_run sample_lib (\<lambda>_ _ _. Fin 0) [Manifest_create_standard False (Some 0), Manifest_destroy 0x10010]
     (initial_api\<lparr>next_opaque_token := 0x10010\<rparr>)) 0x10000 = 0"
proof (rule control_handle_never_revived)
  show "api_good (initial_api\<lparr>next_opaque_token := 0x10010\<rparr>)"
    by (simp add: api_good_def tokens_good_def initial_api_def live_def)
qed (simp_all add: token_issued_def live_def initial_api_def call_shaped_def)

end
