(* ===== verification/Number_Text.thy ===== *)
theory Number_Text
  imports Control_Manifest
begin

text \<open>
  The decimal text of numbers in the runtime's manifest files, runtime/src/manifest.cpp:
  \<open>append_number\<close> (\<open>std::to_chars\<close>, for a double the general format with seventeen digits)
  and \<open>parse_number\<close> (\<open>std::from_chars\<close>). Reading a printed number gives it back: for a double
  because seventeen digits are nearer to it than half a step of the format.
\<close>

section \<open>Printing\<close>

fun decimal :: "nat \<Rightarrow> string" where
  "decimal n = (if n < 10 then [digit n] else decimal (n div 10) @ [digit (n mod 10)])"

declare decimal.simps [simp del]

definition signed_decimal :: "int \<Rightarrow> string" where
  "signed_decimal i = (if i < 0 then CHR ''-'' # decimal (nat (- i)) else decimal (nat i))"

definition pow10 :: "int \<Rightarrow> rat" where
  "pow10 e = (if e < 0 then 1 / 10 ^ nat (- e) else 10 ^ nat e)"

text \<open>The exponent of the first significant digit, and the seventeen digits as a number.\<close>

definition dec_exponent :: "rat \<Rightarrow> int" where
  "dec_exponent x =
     (if x \<ge> 1 then int (floorlog 10 (nat \<lfloor>x\<rfloor>)) - 1
      else - int (floorlog 10 (nat \<lceil>1 / x\<rceil> - 1)))"

definition scientific :: "rat \<Rightarrow> nat \<times> int" where
  "scientific x =
     (let X = dec_exponent x; m = round_even (x / pow10 (X - 16))
      in if m = 10 ^ 17 then (10 ^ 16, X + 1) else (m, X))"

definition strip_zeros :: "string \<Rightarrow> string" where
  "strip_zeros s = rev (dropWhile (\<lambda>ch. ch = CHR ''0'') (rev s))"

definition exponent_text :: "int \<Rightarrow> string" where
  "exponent_text X =
     (let ds = decimal (nat \<bar>X\<bar>)
      in CHR ''e'' # (if X < 0 then CHR ''-'' else CHR ''+'') # (if length ds < 2 then CHR ''0'' # ds else ds))"

definition fraction_text :: "string \<Rightarrow> string" where
  "fraction_text fpart = (if fpart = [] then [] else CHR ''.'' # fpart)"

definition magnitude_text :: "rat \<Rightarrow> string" where
  "magnitude_text x =
     (case scientific x of (m, X) \<Rightarrow>
        let ds = decimal m in
        if - 4 \<le> X \<and> X < 17 then
          (if X < 0 then CHR ''0'' # fraction_text (replicate (nat (- X) - 1) CHR ''0'' @ strip_zeros ds)
           else take (nat X + 1) ds @ fraction_text (strip_zeros (drop (nat X + 1) ds)))
        else take 1 ds @ fraction_text (strip_zeros (drop 1 ds)) @ exponent_text X)"

text \<open>
  \<open>Binary64\<close> keeps one zero where the format has two: whether a zero is the negative one is
  the argument \<open>neg\<close>. Values that are not finite are not in an accepted manifest.
\<close>

fun double_text :: "bool \<Rightarrow> dbl \<Rightarrow> string" where
  "double_text neg (Fin x) =
     (if x = 0 then (if neg then ''-0'' else ''0'')
      else if x < 0 then CHR ''-'' # magnitude_text (- x) else magnitude_text x)"
| "double_text neg DPosInf = ''inf''"
| "double_text neg DNegInf = ''-inf''"
| "double_text neg DNaN = ''nan''"

section \<open>Reading\<close>

definition is_digit :: "char \<Rightarrow> bool" where
  "is_digit ch \<longleftrightarrow> (48 :: nat) \<le> of_char ch \<and> of_char ch \<le> (57 :: nat)"

definition digits_value :: "string \<Rightarrow> nat" where
  "digits_value s = foldl (\<lambda>v ch. 10 * v + (of_char ch - 48)) 0 s"

text \<open>An unsigned integer has digits only and fits its width.\<close>

definition parse_unsigned :: "string \<Rightarrow> 'w :: len word option" where
  "parse_unsigned t =
     (if t = [] \<or> \<not> list_all is_digit t \<or> digits_value t \<ge> 2 ^ LENGTH('w) then None
      else Some (of_nat (digits_value t)))"

definition parse_i32 :: "string \<Rightarrow> int option" where
  "parse_i32 t =
     (let neg = (take 1 t = ''-''); ds = (if neg then drop 1 t else t);
          v = (if neg then - int (digits_value ds) else int (digits_value ds))
      in if ds = [] \<or> \<not> list_all is_digit ds \<or> v < - (2 ^ 31) \<or> v \<ge> 2 ^ 31 then None else Some v)"

text \<open>What follows the mantissa: nothing, or an exponent with at least one digit.\<close>

definition exponent_value :: "string \<Rightarrow> int option" where
  "exponent_value t =
     (if t = [] then Some 0
      else let s = drop 1 t; signed = (take 1 s = ''-'' \<or> take 1 s = ''+''); ds = (if signed then drop 1 s else s)
        in if ds = [] \<or> \<not> list_all is_digit ds then None
           else Some (if take 1 s = ''-'' then - int (digits_value ds) else int (digits_value ds)))"

text \<open>
  The whole text is a decimal number; a text that names an infinity or not-a-number is refused
  after it is read. A value that overflows, or that is not zero and underflows to it, is out of range.
\<close>

definition mantissa_char :: "char \<Rightarrow> bool" where
  "mantissa_char ch \<longleftrightarrow> ch \<noteq> CHR ''e'' \<and> ch \<noteq> CHR ''E''"

definition parse_double :: "string \<Rightarrow> dbl option" where
  "parse_double t =
     (let neg = (take 1 t = ''-''); u = (if neg then drop 1 t else t);
          mantissa = takeWhile mantissa_char u;
          whole = takeWhile (\<lambda>ch. ch \<noteq> CHR ''.'') mantissa; fpart = drop (length whole + 1) mantissa
      in if \<not> list_all is_digit whole \<or> \<not> list_all is_digit fpart \<or> whole @ fpart = [] then None
         else case exponent_value (dropWhile mantissa_char u) of None \<Rightarrow> None
         | Some e \<Rightarrow>
             let v = of_nat (digits_value (whole @ fpart)) * pow10 (e - int (length fpart));
                 r = rnd (if neg then - v else v)
             in if \<not> disfinite r \<or> (r = Fin 0 \<and> v \<noteq> 0) then None else Some r)"

section \<open>Digits\<close>

lemma digit_char:
  assumes "n < 10"
  shows "is_digit (digit n)" "of_char (digit n) - 48 = n"
proof -
  have "n \<in> {0, 1, 2, 3, 4, 5, 6, 7, 8, 9}" using assms by auto
  then show "is_digit (digit n)" "of_char (digit n) - 48 = n"
    by (elim insertE emptyE; simp add: digit_def is_digit_def)+
qed

lemma digits_value_snoc [simp]: "digits_value (s @ [ch]) = 10 * digits_value s + (of_char ch - 48)"
  by (simp add: digits_value_def)

lemma digits_value_Nil [simp]: "digits_value [] = 0"
  by (simp add: digits_value_def)

lemma digits_value_append: "digits_value (s @ t) = digits_value s * 10 ^ length t + digits_value t"
proof (induction t rule: rev_induct)
  case (snoc ch t)
  have "digits_value (s @ t @ [ch]) = 10 * digits_value (s @ t) + (of_char ch - 48)"
    using digits_value_snoc [of "s @ t"] by simp
  with snoc show ?case by (simp add: algebra_simps)
qed simp

lemma digits_value_zeros: "digits_value (replicate k CHR ''0'') = 0"
  by (induction k) (simp_all flip: replicate_append_same)

lemma decimal_ok: "digits_value (decimal n) = n" "list_all is_digit (decimal n)" "decimal n \<noteq> []"
proof (induction n rule: decimal.induct)
  case (1 n)
  {
    case 1
    then show ?case using "1.IH"(1) digit_char [of n] digit_char [of "n mod 10"]
      by (subst decimal.simps) (simp add: digits_value_def)
  next
    case 2
    then show ?case using "1.IH"(2) digit_char [of n] digit_char [of "n mod 10"]
      by (subst decimal.simps) simp
  next
    case 3
    then show ?case by (subst decimal.simps) simp
  }
qed

lemma length_decimal: "n < 10 ^ Suc k \<Longrightarrow> length (decimal n) \<le> Suc k"
proof (induction k arbitrary: n)
  case (Suc k)
  have "n div 10 < 10 ^ Suc k" using Suc.prems by (simp add: less_mult_imp_div_less)
  from Suc.IH [OF this] show ?case by (subst decimal.simps) simp
qed (subst decimal.simps, simp)

lemma length_decimal_ge: "10 ^ k \<le> n \<Longrightarrow> Suc k \<le> length (decimal n)"
proof (induction k arbitrary: n)
  case 0
  then show ?case by (subst decimal.simps) simp
next
  case (Suc k)
  have "10 ^ k \<le> n div 10" using Suc.prems by (simp add: less_eq_div_iff_mult_less_eq)
  moreover have "\<not> n < 10"
  proof -
    have "(10 :: nat) \<le> 10 ^ Suc k" by simp
    then show ?thesis using Suc.prems by linarith
  qed
  ultimately show ?case using Suc.IH [of "n div 10"] by (subst decimal.simps) simp
qed

lemma strip_zeros:
  obtains j where "s = strip_zeros s @ replicate j CHR ''0''"
proof -
  let ?z = "takeWhile (\<lambda>ch. ch = CHR ''0'') (rev s)"
  have "\<forall>ch \<in> set ?z. ch = CHR ''0''" by (auto dest: set_takeWhileD)
  then have z: "?z = replicate (length ?z) CHR ''0''"
    by (simp only: list_eq_iff_nth_eq) (simp add: nth_mem del: length_takeWhile_le)
  have "s = rev (dropWhile (\<lambda>ch. ch = CHR ''0'') (rev s)) @ rev ?z"
    by (metis rev_append rev_rev_ident takeWhile_dropWhile_id)
  then have "s = strip_zeros s @ replicate (length ?z) CHR ''0''"
    unfolding strip_zeros_def using z by (metis rev_replicate)
  then show thesis by (rule that)
qed

lemma digits_strip: "list_all is_digit s \<Longrightarrow> list_all is_digit (strip_zeros s)"
  by (metis list_all_append strip_zeros)

lemma pow10_pos [simp]: "0 < pow10 e"
  by (simp add: pow10_def)

lemma pow10_add: "pow10 (a + b) = pow10 a * pow10 b"
proof -
  have *: "pow10 e = (10 :: rat) powi e" for e
    by (simp add: pow10_def power_int_def field_simps)
  show ?thesis unfolding * by (rule power_int_add) simp
qed

lemma pow10_nat: "pow10 (int n) = 10 ^ n"
  by (simp add: pow10_def)

text \<open>Zeros at the end of the fraction do not change the value.\<close>

lemma strip_value:
  "of_nat (digits_value (w @ strip_zeros f)) * pow10 (e - int (length (strip_zeros f)))
     = of_nat (digits_value (w @ f)) * pow10 (e - int (length f))"
proof -
  obtain j where j: "f = strip_zeros f @ replicate j CHR ''0''" by (rule strip_zeros)
  let ?g = "strip_zeros f"
  have len: "length f = length ?g + j" by (subst j) simp
  have val: "digits_value (w @ f) = digits_value (w @ ?g) * 10 ^ j"
    by (subst j) (simp add: digits_value_append digits_value_zeros algebra_simps power_add)
  have "pow10 (e - int (length ?g)) = pow10 (e - int (length f)) * 10 ^ j"
    unfolding len using pow10_add [of "e - int (length ?g + j)" "int j"] by (simp add: pow10_nat)
  then show ?thesis by (simp add: val)
qed

section \<open>Seventeen digits are enough\<close>

lemma round_even_nearest:
  assumes "\<bar>p - of_nat n\<bar> < 1 / 2" "0 \<le> p"
  shows "round_even p = n"
proof (cases "of_nat n \<le> p")
  case True
  then have "\<lfloor>p\<rfloor> = int n" using assms by (simp add: floor_eq_iff)
  then show ?thesis using True assms by (simp add: round_even_def)
next
  case False
  then have "0 < n" using assms(2) by (cases n) auto
  then have "\<lfloor>p\<rfloor> = int (n - 1)" using False assms by (simp add: floor_eq_iff of_nat_diff)
  then show ?thesis using False assms \<open>0 < n\<close> by (simp add: round_even_def of_nat_diff Let_def)
qed

lemma grid_shift_eq:
  assumes "0 \<le> p" "p < 2 ^ (s + 53)" "s = 0 \<or> 2 ^ (s + 52) \<le> p"
  shows "grid_shift p = s"
proof -
  let ?n = "nat \<lfloor>p\<rfloor>"
  have "\<lfloor>p\<rfloor> < 2 ^ (s + 53)" using assms(2) by (simp add: floor_less_iff)
  then have "?n < 2 ^ (s + 53)" using assms(1) by (simp add: nat_less_iff)
  then have le: "floorlog 2 ?n \<le> s + 53" by (intro floorlog_leI) simp_all
  show ?thesis
  proof (cases "s = 0")
    case True
    then show ?thesis using le by (simp add: grid_shift_def)
  next
    case False
    then have "2 ^ (s + 52) \<le> \<lfloor>p\<rfloor>" using assms(3) by (simp add: le_floor_iff)
    then have "2 ^ (s + 52) \<le> ?n" using assms(1) by (simp add: le_nat_iff)
    then have "2 ^ (s + 53 - 1) \<le> ?n" by (simp add: add.commute)
    then have "s + 53 \<le> floorlog 2 ?n" by (rule floorlog_geI) simp_all
    then show ?thesis using le by (simp add: grid_shift_def)
  qed
qed

lemma round_grid_near:
  assumes "0 \<le> p" "p < 2 ^ (s + 53)" "s = 0 \<or> 2 ^ (s + 52) \<le> p" "\<bar>p - of_nat M * 2 ^ s\<bar> * 2 < 2 ^ s"
  shows "round_grid p = of_nat M * 2 ^ s"
proof -
  have "p / 2 ^ s - of_nat M = (p - of_nat M * 2 ^ s) / 2 ^ s"
    by (simp add: diff_divide_distrib)
  then have "\<bar>p / 2 ^ s - of_nat M\<bar> = \<bar>p - of_nat M * 2 ^ s\<bar> / 2 ^ s"
    by (simp add: abs_divide)
  also have "\<dots> < 1 / 2" using assms(4) by (simp add: field_simps)
  finally have "round_even (p / 2 ^ s) = M" using assms(1) by (intro round_even_nearest) simp_all
  then show ?thesis unfolding round_grid_def grid_shift_eq [OF assms(1-3)] by simp
qed

lemma round_grid_close:
  assumes n: "n = m * 2 ^ k" "m < 2 ^ 53" and close: "\<bar>p - of_nat n\<bar> * (2 * 10 ^ 16) \<le> of_nat n"
  shows "round_grid p = of_nat n"
proof -
  define q :: rat where "q = of_nat n"
  have q: "0 \<le> q" by (simp add: q_def)
  note pq = close [folded q_def]
  have p0: "0 \<le> p" using pq q by (simp add: abs_if split: if_splits)
  show ?thesis
  proof (cases "n < 2 ^ 53")
    case True
    then have "n \<le> 2 ^ 53 - 1" by simp
    then have "q \<le> of_nat (2 ^ 53 - 1)" unfolding q_def by (simp only: of_nat_le_iff)
    then have q53: "q \<le> 2 ^ 53 - 1" by (simp add: of_nat_diff)
    have "round_grid p = of_nat n * 2 ^ 0"
    proof (rule round_grid_near [OF p0])
      show "p < 2 ^ (0 + 53)" using pq q53 q by (simp add: abs_if split: if_splits)
      show "\<bar>p - of_nat n * 2 ^ 0\<bar> * 2 < 2 ^ 0"
        using pq q53 q by (simp add: q_def [symmetric])
    qed simp
    then show ?thesis by simp
  next
    case False
    define s where "s = floorlog 2 n - 53"
    have "n \<noteq> 0" using False by auto
    then have m0: "m \<noteq> 0" using n(1) by auto
    have fl: "floorlog 2 n = floorlog 2 m + k" using m0 n(1) by simp
    have "54 \<le> floorlog 2 n" using False by (intro floorlog_geI) simp_all
    then have s: "1 \<le> s" "floorlog 2 n = s + 53" by (simp_all add: s_def)
    have "floorlog 2 m \<le> 53" using n(2) by (intro floorlog_leI) simp_all
    then have sk: "s \<le> k" using fl s(2) by linarith
    define M where "M = m * 2 ^ (k - s)"
    have nM: "n = M * 2 ^ s" using sk unfolding M_def n(1) by (simp add: mult.assoc flip: power_add)
    have "n < 2 ^ (s + 53)" using s(2) by (intro floorlog_leD) simp_all
    then have "M * 2 ^ s < 2 ^ 53 * 2 ^ s" unfolding nM by (simp add: power_add mult.commute)
    then have "M < 2 ^ 53" by simp
    then have M: "of_nat M \<le> (2 ^ 53 - 1 :: rat)"
      using of_nat_le_iff [of M "2 ^ 53 - 1", where 'a = rat] by (simp add: of_nat_diff)
    have "2 ^ (s + 53 - 1) \<le> n" by (rule floorlog_geD) (simp_all add: s(2))
    then have "2 ^ 52 * 2 ^ s \<le> M * 2 ^ s" unfolding nM by (simp add: power_add mult.commute)
    then have Mlow: "(2 ^ 52 :: nat) \<le> M" by simp
    have qM: "q = of_nat M * 2 ^ s" by (simp add: q_def nM)
    define u :: rat where "u = 2 ^ s"
    have u: "0 < u" by (simp add: u_def)
    have "(of_nat M :: rat) * u \<le> (2 ^ 53 - 1) * u" using M u by (intro mult_right_mono) simp_all
    then have qu: "q \<le> (2 ^ 53 - 1) * u" unfolding qM u_def .
    show ?thesis
    proof (cases "2 ^ (s + 52) \<le> p")
      case True
      have "round_grid p = of_nat M * 2 ^ s"
      proof (rule round_grid_near [OF p0])
        show "p < 2 ^ (s + 53)"
          using pq qu u by (simp add: power_add u_def [symmetric] abs_if split: if_splits)
        show "\<bar>p - of_nat M * 2 ^ s\<bar> * 2 < 2 ^ s"
          unfolding qM [symmetric] unfolding u_def [symmetric] using pq qu u by simp
        show "s = 0 \<or> 2 ^ (s + 52) \<le> p" using True by simp
      qed
      then show ?thesis using qM by (simp add: q_def)
    next
      case pl: False
      then have plt: "p < 2 ^ 52 * u" by (simp add: power_add u_def mult.commute)
      have "q < (2 ^ 52 + 1) * u"
        using pq plt u by (simp add: abs_if split: if_splits)
      then have "of_nat M < (2 ^ 52 + 1 :: rat)" unfolding qM u_def by simp
      then have "of_nat M < (of_nat (2 ^ 52 + 1) :: rat)" by simp
      then have "M < 2 ^ 52 + 1" unfolding of_nat_less_iff .
      then have "M = 2 ^ 52" using Mlow by simp
      then have q52: "q = 2 ^ 52 * u" using qM by (simp add: u_def)
      obtain r where r: "s = Suc r" using s(1) by (cases s) auto
      define w :: rat where "w = 2 ^ r"
      have w: "0 < w" "u = 2 * w" by (simp_all add: w_def u_def r)
      have "round_grid p = of_nat (2 ^ 53) * 2 ^ r"
      proof (rule round_grid_near [OF p0])
        show "p < 2 ^ (r + 53)" using plt w by (simp add: power_add w_def [symmetric])
        show "\<bar>p - of_nat (2 ^ 53) * 2 ^ r\<bar> * 2 < 2 ^ r"
          using pq w by (simp add: q52 w_def [symmetric])
        show "r = 0 \<or> 2 ^ (r + 52) \<le> p"
          using pq w by (simp add: power_add w_def [symmetric] q52 abs_if split: if_splits)
      qed
      then show ?thesis using q52 w by (simp add: q_def [symmetric] w_def [symmetric])
    qed
  qed
qed

lemma rnd_near:
  assumes "representable x" "0 < x" "\<bar>y - x\<bar> * (2 * 10 ^ 16) \<le> x"
  shows "rnd y = Fin x"
proof -
  obtain m k where mk: "m < 2 ^ 53" "x * 2 ^ 1074 = of_nat (m * 2 ^ k)" and lt: "x < 2 ^ 1024"
    using assms(1,2) unfolding representable_def by auto
  define c :: rat where "c = 2 ^ 1074"
  have c: "0 < c" by (simp add: c_def)
  note mk(2) [folded c_def]
  have "\<bar>y * c - x * c\<bar> * (2 * 10 ^ 16) = \<bar>y - x\<bar> * (2 * 10 ^ 16) * c"
    using c by (simp add: abs_mult flip: left_diff_distrib)
  also have "\<dots> \<le> x * c" using assms(3) c by (intro mult_right_mono) simp_all
  finally have "round_grid (y * c) = x * c"
    using round_grid_close [OF refl mk(1), of "y * c" k] mk(2) [folded c_def] by simp
  then have "round_grid (y * c) / c = x" using c by simp
  moreover have "0 \<le> y" using assms(2,3) by (simp add: abs_if split: if_splits)
  ultimately show ?thesis
    using lt unfolding c_def by (simp only: rnd_def round_pos_def Let_def not_less [symmetric] if_True if_False)
qed

section \<open>The seventeen digits of a value\<close>

lemma dec_exponent:
  assumes "0 < x"
  shows "pow10 (dec_exponent x) \<le> x" "x < pow10 (dec_exponent x + 1)"
proof -
  have "pow10 (dec_exponent x) \<le> x \<and> x < pow10 (dec_exponent x + 1)"
  proof (cases "1 \<le> x")
    case True
    define n where "n = nat \<lfloor>x\<rfloor>"
    have n: "0 < n" "of_nat n \<le> x" "x < of_nat n + 1"
      using True floor_correct [of x] by (simp_all add: n_def le_floor_iff)
    define L where "L = floorlog 10 n"
    have L: "0 < L" using n(1) floorlog_eq_zero_iff [of 10 n] by (simp add: L_def)
    have "10 ^ (L - 1) \<le> n" by (rule floorlog_geD) (use L in \<open>simp_all add: L_def\<close>)
    then have lo: "(10 :: rat) ^ (L - 1) \<le> of_nat n" using of_nat_le_iff [of "10 ^ (L - 1)" n, where 'a = rat] by simp
    have "n < 10 ^ L" by (rule floorlog_leD) (simp_all add: L_def)
    then have "n + 1 \<le> 10 ^ L" by simp
    then have hi: "of_nat n + 1 \<le> (10 :: rat) ^ L" using of_nat_le_iff [of "n + 1" "10 ^ L", where 'a = rat] by simp
    have X: "dec_exponent x = int (L - 1)" "dec_exponent x + 1 = int L"
      using True L by (simp_all add: dec_exponent_def n_def L_def)
    show ?thesis unfolding X(2) unfolding X(1) pow10_nat using lo hi n by linarith
  next
    case False
    then have x1: "x < 1" by simp
    define n where "n = nat \<lceil>1 / x\<rceil> - 1"
    have "1 < 1 / x" using x1 assms by simp
    then have "1 < \<lceil>1 / x\<rceil>" by (simp add: less_ceiling_iff)
    moreover have "\<exists>N>0. c = int (Suc N)" if "1 < c" for c
      using that by (intro exI [of _ "nat (c - 1)"]) simp
    ultimately obtain N where N: "\<lceil>1 / x\<rceil> = int (Suc N)" "0 < N" by blast
    then have n: "0 < n" "of_nat n = of_int \<lceil>1 / x\<rceil> - (1 :: rat)" by (simp_all add: n_def N)
    have nx: "of_nat n < 1 / x" "1 / x \<le> of_nat n + 1" unfolding n(2) by linarith+
    define L where "L = floorlog 10 n"
    have L: "0 < L" using n(1) floorlog_eq_zero_iff [of 10 n] by (simp add: L_def)
    have "10 ^ (L - 1) \<le> n" by (rule floorlog_geD) (use L in \<open>simp_all add: L_def\<close>)
    then have lo: "(10 :: rat) ^ (L - 1) \<le> of_nat n" using of_nat_le_iff [of "10 ^ (L - 1)" n, where 'a = rat] by simp
    have "n < 10 ^ L" by (rule floorlog_leD) (simp_all add: L_def)
    then have "n + 1 \<le> 10 ^ L" by simp
    then have hi: "of_nat n + 1 \<le> (10 :: rat) ^ L" using of_nat_le_iff [of "n + 1" "10 ^ L", where 'a = rat] by simp
    have X: "dec_exponent x = - int L" using x1 by (simp add: dec_exponent_def n_def L_def)
    have "1 / x \<le> 10 ^ L" using nx(2) hi by linarith
    then have "1 / 10 ^ L \<le> x" using assms by (simp add: field_simps)
    moreover have "(10 :: rat) ^ (L - 1) < 1 / x" using nx(1) lo by linarith
    then have "x < 1 / 10 ^ (L - 1)" using assms by (simp add: field_simps)
    moreover have "pow10 (- int L + 1) = 1 / 10 ^ (L - 1)"
      using L by (cases L) (simp_all add: pow10_def nat_diff_distrib')
    moreover have "pow10 (- int L) = 1 / 10 ^ L" using L by (simp add: pow10_def)
    ultimately show ?thesis unfolding X by simp
  qed
  then show "pow10 (dec_exponent x) \<le> x" "x < pow10 (dec_exponent x + 1)" by simp_all
qed

lemma round_even_half:
  assumes "0 \<le> z"
  shows "\<bar>of_nat (round_even z) - z\<bar> \<le> 1 / 2"
proof -
  define f where "f = nat \<lfloor>z\<rfloor>"
  have f: "of_nat f \<le> z" "z < of_nat f + 1"
    unfolding f_def using assms floor_correct [of z] by simp_all
  have "round_even z = (if z - of_nat f < 1 / 2 then f else if 1 / 2 < z - of_nat f then Suc f
      else if even f then f else Suc f)"
    unfolding round_even_def Let_def f_def by (rule refl)
  then show ?thesis using f by (auto simp: abs_if not_less)
qed

lemma scientific:
  assumes "0 < x" "scientific x = (m, X)"
  shows "10 ^ 16 \<le> m" "m < 10 ^ 17" "\<bar>of_nat m * pow10 (X - 16) - x\<bar> * (2 * 10 ^ 16) \<le> x"
    "pow10 (X - 1) \<le> x" "x < pow10 (X + 1)"
proof -
  define E where "E = dec_exponent x"
  define c where "c = pow10 (E - 16)"
  define n where "n = round_even (x / c)"
  have c: "0 < c" by (simp add: c_def)
  have step: "pow10 (e + 1) = 10 * pow10 e" for e by (simp add: pow10_add) (simp add: pow10_def)
  have e16: "pow10 E = 10 ^ 16 * c" using pow10_add [of "E - 16" 16] by (simp add: c_def pow10_def [of 16])
  have lo: "10 ^ 16 * c \<le> x" and hi: "x < 10 ^ 17 * c"
    using dec_exponent [OF assms(1)] step [of E] by (simp_all add: E_def [symmetric] e16)
  have "of_nat (10 ^ 16) \<le> x / c" "x / c \<le> of_nat (10 ^ 17)" using lo hi c by (simp_all add: field_simps)
  then have n: "10 ^ 16 \<le> n" "n \<le> 10 ^ 17"
    unfolding n_def using assms(1) c by (intro round_even_ge_nat round_even_le_nat; simp)+
  have "\<bar>of_nat n - x / c\<bar> \<le> 1 / 2" unfolding n_def by (rule round_even_half) (use assms(1) c in simp)
  then have "\<bar>of_nat n - x / c\<bar> * c \<le> c / 2" using c by (simp add: mult_right_mono)
  moreover have "\<bar>of_nat n - x / c\<bar> * c = \<bar>of_nat n * c - x\<bar>"
    using c by (simp add: abs_mult_pos left_diff_distrib)
  ultimately have close: "\<bar>of_nat n * c - x\<bar> * (2 * 10 ^ 16) \<le> x" using lo by simp
  have sc: "scientific x = (if n = 10 ^ 17 then (10 ^ 16, E + 1) else (n, E))"
    by (simp add: scientific_def Let_def n_def c_def E_def)
  have low: "pow10 (E - 1) \<le> pow10 E" using step [of "E - 1"] by simp
  have "10 ^ 16 \<le> m \<and> m < 10 ^ 17 \<and> of_nat m * pow10 (X - 16) = of_nat n * c
    \<and> pow10 (X - 1) \<le> x \<and> x < pow10 (X + 1)"
  proof (cases "n = 10 ^ 17")
    case True
    then have mX: "m = 10 ^ 16" "X = E + 1" using assms(2) sc by simp_all
    have "pow10 (X - 16) = 10 * c" using step [of "E - 16"] by (simp add: mX c_def algebra_simps)
    moreover have "pow10 (X + 1) = 10 * (10 ^ 17 * c)" using step [of E] step [of "E + 1"] by (simp add: mX e16)
    moreover have "x < 10 * (10 ^ 17 * c)" using hi assms(1) by linarith
    ultimately show ?thesis using True lo e16 by (simp add: mX)
  next
    case False
    then have mX: "m = n" "X = E" using assms(2) sc by simp_all
    show ?thesis using n False lo hi low step [of E] by (simp add: mX c_def [symmetric] e16)
  qed
  then show "10 ^ 16 \<le> m" "m < 10 ^ 17" "\<bar>of_nat m * pow10 (X - 16) - x\<bar> * (2 * 10 ^ 16) \<le> x"
    "pow10 (X - 1) \<le> x" "x < pow10 (X + 1)"
    using close by simp_all
qed

section \<open>Reading what was printed\<close>

lemma digit_not: "is_digit ch \<Longrightarrow> mantissa_char ch \<and> ch \<noteq> CHR ''.'' \<and> ch \<noteq> CHR ''-'' \<and> ch \<noteq> CHR ''+''"
  by (auto simp: is_digit_def mantissa_char_def)

lemma parse_unsigned_decimal [simp]: "parse_unsigned (decimal (unat (w :: 'w :: len word))) = Some w"
  using decimal_ok [of "unat w"] by (simp add: parse_unsigned_def not_le)

lemma parse_i32_decimal:
  assumes "- (2 ^ 31) \<le> i" "i < 2 ^ 31"
  shows "parse_i32 (signed_decimal i) = Some i"
proof (cases "i < 0")
  case True
  then show ?thesis using assms decimal_ok [of "nat (- i)"] by (simp add: parse_i32_def signed_decimal_def)
next
  case False
  obtain ch r where d: "decimal (nat i) = ch # r" using decimal_ok(3) by (cases "decimal (nat i)") auto
  then have "is_digit ch" using decimal_ok(2) [of "nat i"] by simp
  then have "ch \<noteq> CHR ''-''" using digit_not by blast
  then show ?thesis using False assms decimal_ok [of "nat i"] by (simp add: parse_i32_def signed_decimal_def d)
qed

lemma exponent_value_text: "exponent_value (exponent_text X) = Some X"
proof -
  have zero: "digits_value (CHR ''0'' # ds) = digits_value ds" for ds
    using digits_value_append [of "''0''" ds] by (simp add: digits_value_def)
  have dz: "is_digit CHR ''0''" by (simp add: is_digit_def)
  show ?thesis
    by (simp add: exponent_value_def exponent_text_def Let_def zero dz decimal_ok)
qed

lemma takeWhile_part: "list_all P s \<Longrightarrow> t = [] \<or> \<not> P (hd t) \<Longrightarrow> takeWhile P (s @ t) = s \<and> dropWhile P (s @ t) = t"
  by (induction s) (cases t; simp)+

lemma parse_printed:
  assumes "list_all is_digit w" "w \<noteq> []" "list_all is_digit f" "ex = [] \<or> hd ex = CHR ''e''" "exponent_value ex = Some e"
  shows "parse_double ((if neg then ''-'' else []) @ w @ fraction_text f @ ex) =
    (let v = of_nat (digits_value (w @ f)) * pow10 (e - int (length f)); r = rnd (if neg then - v else v)
     in if \<not> disfinite r \<or> (r = Fin 0 \<and> v \<noteq> 0) then None else Some r)"
proof -
  define t where "t = (if neg then ''-'' else []) @ w @ fraction_text f @ ex"
  let ?m = "w @ fraction_text f"
  obtain ch w' where w: "w = ch # w'" using assms(2) by (cases w) auto
  have "ch \<noteq> CHR ''-''" using assms(1) digit_not unfolding w by auto
  then have sign: "take 1 t = ''-'' \<longleftrightarrow> neg" "(if neg then drop 1 t else t) = ?m @ ex"
    by (simp_all add: w t_def)
  have digits: "list_all mantissa_char w" "list_all mantissa_char f" "list_all (\<lambda>ch. ch \<noteq> CHR ''.'') w"
    using assms(1,3) digit_not by (auto simp: list_all_iff)
  then have "list_all mantissa_char ?m" by (simp add: fraction_text_def mantissa_char_def)
  moreover have "ex = [] \<or> \<not> mantissa_char (hd ex)" using assms(4) by (auto simp: mantissa_char_def)
  ultimately have parts: "takeWhile mantissa_char (?m @ ex) = ?m" "dropWhile mantissa_char (?m @ ex) = ex"
    using takeWhile_part by blast+
  have "takeWhile (\<lambda>ch. ch \<noteq> CHR ''.'') ?m = w"
    using takeWhile_part [OF digits(3), of "fraction_text f"] by (simp add: fraction_text_def)
  moreover have "drop (length w + 1) ?m = f" by (simp add: fraction_text_def)
  ultimately have "parse_double t =
    (let v = of_nat (digits_value (w @ f)) * pow10 (e - int (length f)); r = rnd (if neg then - v else v)
     in if \<not> disfinite r \<or> (r = Fin 0 \<and> v \<noteq> 0) then None else Some r)"
    unfolding parse_double_def sign using assms by (simp only: Let_def sign parts) simp
  then show ?thesis unfolding t_def .
qed

lemma magnitude_form:
  assumes "0 < x"
  obtains w f ex e where "magnitude_text x = w @ fraction_text f @ ex" "list_all is_digit w" "w \<noteq> []"
    "list_all is_digit f" "ex = [] \<or> hd ex = CHR ''e''" "exponent_value ex = Some e"
    "\<bar>of_nat (digits_value (w @ f)) * pow10 (e - int (length f)) - x\<bar> * (2 * 10 ^ 16) \<le> x"
    "of_nat (digits_value (w @ f)) * pow10 (e - int (length f)) \<noteq> 0"
proof -
  obtain m X where mX: "scientific x = (m, X)" by fastforce
  note sc = scientific [OF assms mX]
  let ?ds = "decimal m" and ?v = "of_nat m * pow10 (X - 16)"
  have len: "length ?ds = 17" using length_decimal [of m 16] length_decimal_ge [OF sc(1)] sc(2) by simp
  have ds: "list_all is_digit ?ds" "digits_value ?ds = m" by (rule decimal_ok)+
  have "pow10 (X - 16) \<noteq> 0" by (rule less_imp_neq [OF pow10_pos, symmetric])
  then have v0: "?v \<noteq> 0" using sc(1) by simp
  have zeros: "list_all is_digit (replicate k CHR ''0'')" for k by (simp add: list_all_iff is_digit_def)
  have part: "list_all is_digit (take k ?ds)" "list_all is_digit (drop k ?ds)" for k
    using ds(1) by (auto simp: list_all_iff dest: in_set_takeD in_set_dropD)
  show thesis
  proof (cases "- 4 \<le> X \<and> X < 17")
    case True
    show thesis
    proof (cases "X < 0")
      case neg: True
      let ?f = "replicate (nat (- X) - 1) CHR ''0'' @ ?ds"
        and ?g = "replicate (nat (- X) - 1) CHR ''0'' @ strip_zeros ?ds"
      have val: "of_nat (digits_value (''0'' @ ?g)) * pow10 (0 - int (length ?g)) = ?v"
      proof -
        have l: "(0 - int (length ?g)) = (- int (nat (- X) - 1)) - int (length (strip_zeros ?ds))" by simp
        have "of_nat (digits_value (''0'' @ ?g)) * pow10 (0 - int (length ?g))
            = of_nat (digits_value ((''0'' @ replicate (nat (- X) - 1) CHR ''0'') @ ?ds))
              * pow10 (- int (nat (- X) - 1) - int (length ?ds))"
          unfolding l using strip_value [of "''0'' @ replicate (nat (- X) - 1) CHR ''0''" ?ds] by simp
        moreover have "digits_value ((''0'' @ replicate (nat (- X) - 1) CHR ''0'') @ ?ds) = m"
          using digits_value_zeros [of "Suc (nat (- X) - 1)"] by (subst digits_value_append) (simp add: ds(2))
        moreover have "- int (nat (- X) - 1) - int (length ?ds) = X - 16" using neg len by simp
        ultimately show ?thesis by simp
      qed
      show thesis
      proof (rule that [of "''0''" ?g "[]" 0])
        show "magnitude_text x = ''0'' @ fraction_text ?g @ []"
          using True neg by (simp add: magnitude_text_def mX Let_def)
        show "list_all is_digit ?g" using zeros digits_strip [OF ds(1)] by simp
      qed (use val sc(3) v0 in \<open>simp_all add: is_digit_def exponent_value_def\<close>)
    next
      case pos: False
      let ?k = "nat X + 1"
      have val: "of_nat (digits_value (take ?k ?ds @ strip_zeros (drop ?k ?ds)))
          * pow10 (0 - int (length (strip_zeros (drop ?k ?ds)))) = ?v"
        using True pos len by (subst strip_value) (simp add: ds(2))
      show thesis
      proof (rule that [of "take ?k ?ds" "strip_zeros (drop ?k ?ds)" "[]" 0])
        show "magnitude_text x = take ?k ?ds @ fraction_text (strip_zeros (drop ?k ?ds)) @ []"
          using True pos by (simp add: magnitude_text_def mX Let_def)
        show "take ?k ?ds \<noteq> []" using decimal_ok(3) [of m] by simp
      qed (use val sc(3) v0 part digits_strip in \<open>simp_all add: exponent_value_def\<close>)
    qed
  next
    case False
    have val: "of_nat (digits_value (take 1 ?ds @ strip_zeros (drop 1 ?ds)))
        * pow10 (X - int (length (strip_zeros (drop 1 ?ds)))) = ?v"
      using len by (subst strip_value) (simp add: ds(2))
    show thesis
    proof (rule that [of "take 1 ?ds" "strip_zeros (drop 1 ?ds)" "exponent_text X" X])
      show "magnitude_text x = take 1 ?ds @ fraction_text (strip_zeros (drop 1 ?ds)) @ exponent_text X"
        unfolding magnitude_text_def mX using False by (simp only: prod.case Let_def if_False)
      show "take 1 ?ds \<noteq> []" using decimal_ok(3) [of m] by simp
      show "exponent_text X = [] \<or> hd (exponent_text X) = CHR ''e''" by (simp add: exponent_text_def Let_def)
    qed (use val sc(3) v0 part digits_strip exponent_value_text in simp_all)
  qed
qed

lemma parse_magnitude:
  assumes "representable x" "0 < x"
  shows "parse_double ((if neg then ''-'' else []) @ magnitude_text x) = Some (Fin (if neg then - x else x))"
proof -
  obtain w f ex e where m: "magnitude_text x = w @ fraction_text f @ ex" "list_all is_digit w" "w \<noteq> []"
    "list_all is_digit f" "ex = [] \<or> hd ex = CHR ''e''" "exponent_value ex = Some e"
    "\<bar>of_nat (digits_value (w @ f)) * pow10 (e - int (length f)) - x\<bar> * (2 * 10 ^ 16) \<le> x"
    by (rule magnitude_form [OF assms(2)])
  have "rnd (of_nat (digits_value (w @ f)) * pow10 (e - int (length f))) = Fin x"
    by (rule rnd_near [OF assms m(7)])
  then show ?thesis
    unfolding m(1) parse_printed [OF m(2-6)] using assms(2) by (simp add: Let_def)
qed

text \<open>Every double that is printed is read back.\<close>

definition dbl_ok :: "dbl \<Rightarrow> bool" where
  "dbl_ok a \<longleftrightarrow> (case a of Fin x \<Rightarrow> representable x | _ \<Rightarrow> False)"

lemma parse_double_text:
  assumes "dbl_ok a"
  shows "parse_double (double_text neg a) = Some a"
proof -
  obtain x where a: "a = Fin x" "representable x" using assms by (cases a) (simp_all add: dbl_ok_def)
  consider "x = 0" | "0 < x" | "x < 0" by linarith
  then show ?thesis
  proof cases
    case 1
    have d0: "is_digit CHR ''0''" by (simp add: is_digit_def)
    show ?thesis
      using parse_printed [of "''0''" "[]" "[]" 0 neg] 1 a
      by (cases neg) (simp_all add: d0 exponent_value_def fraction_text_def digits_value_def Let_def)
  next
    case 2
    then show ?thesis using parse_magnitude [OF a(2), of False] a by simp
  next
    case 3
    then show ?thesis using parse_magnitude [of "- x" True] a by simp
  qed
qed

section \<open>The characters and the length of a number\<close>

definition number_char :: "char \<Rightarrow> bool" where
  "number_char ch \<longleftrightarrow> is_digit ch \<or> ch \<in> set ''+-.e''"

lemma number_char_not: "number_char ch \<Longrightarrow> ch \<noteq> CHR ''|'' \<and> ch \<noteq> CHR 0x0A \<and> ch \<noteq> NUL"
  by (auto simp: number_char_def is_digit_def)

lemma digits_number: "list_all is_digit s \<Longrightarrow> list_all number_char s"
  by (auto simp: list_all_iff number_char_def)

lemma decimal_chars [simp]: "list_all number_char (decimal n)"
  by (rule digits_number [OF decimal_ok(2)])

lemma signed_decimal_chars [simp]: "list_all number_char (signed_decimal i)"
  by (simp add: signed_decimal_def number_char_def [of "CHR ''-''"])

lemma fraction_chars: "list_all is_digit f \<Longrightarrow> list_all number_char (fraction_text f)"
  by (simp add: fraction_text_def digits_number number_char_def [of "CHR ''.''"])

lemma exponent_chars: "list_all number_char (exponent_text X)"
proof -
  have "number_char CHR ''e''" "number_char CHR ''-''" "number_char CHR ''+''" "number_char CHR ''0''"
    by (simp_all add: number_char_def is_digit_def)
  then show ?thesis by (simp add: exponent_text_def Let_def)
qed

lemma length_strip: "length (strip_zeros s) \<le> length s"
  by (metis length_append le_add1 strip_zeros)

lemma length_fraction: "length (fraction_text f) \<le> length f + 1"
  by (simp add: fraction_text_def)

lemma pow10_mono: "a \<le> b \<Longrightarrow> pow10 a \<le> pow10 b"
  using pow10_add [of a "int (nat (b - a))"] mult_left_mono [of 1 "10 ^ nat (b - a)" "pow10 a"]
    less_imp_le [OF pow10_pos [of a]]
  by (simp only: pow10_nat) simp

lemma exponent_range:
  assumes "representable x" "0 < x" "pow10 (X - 1) \<le> x" "x < pow10 (X + 1)"
  shows "nat \<bar>X\<bar> < 10 ^ Suc 2"
proof -
  obtain m k where mk: "x * 2 ^ 1074 = of_nat (m * 2 ^ k)" and lt: "x < 2 ^ 1024"
    using assms(1,2) unfolding representable_def by auto
  have "0 < x * 2 ^ 1074" using assms(2) by (intro mult_pos_pos) simp_all
  then have "0 < m * 2 ^ k" unfolding mk by (simp only: of_nat_0_less_iff)
  then have "of_nat 1 \<le> (of_nat (m * 2 ^ k) :: rat)" by (simp only: of_nat_le_iff)
  then have low: "1 / 2 ^ 1074 \<le> x" unfolding mk [symmetric] by (simp add: divide_le_eq)
  have "X - 1 < 309"
  proof (rule ccontr)
    assume "\<not> X - 1 < 309"
    then have "pow10 309 \<le> pow10 (X - 1)" by (intro pow10_mono) simp
    moreover have "(2 :: rat) ^ 1024 \<le> pow10 309" by (simp add: pow10_def)
    ultimately show False using assms(3) lt by linarith
  qed
  moreover have "- 324 < X + 1"
  proof (rule ccontr)
    assume "\<not> - 324 < X + 1"
    then have "pow10 (X + 1) \<le> pow10 (- 324)" by (intro pow10_mono) simp
    moreover have "pow10 (- 324) \<le> (1 :: rat) / 2 ^ 1074" by (simp add: pow10_def)
    ultimately show False using assms(4) low by linarith
  qed
  ultimately show ?thesis by simp
qed

lemma length_exponent: "nat \<bar>X\<bar> < 10 ^ Suc 2 \<Longrightarrow> length (exponent_text X) \<le> 5"
  using length_decimal [of "nat \<bar>X\<bar>" 2] by (simp add: exponent_text_def Let_def)

lemma magnitude_chars:
  assumes "0 < x"
  shows "list_all number_char (magnitude_text x)"
proof -
  obtain m X where mX: "scientific x = (m, X)" by fastforce
  have ds: "list_all is_digit (decimal m)" by (rule decimal_ok)
  have "list_all is_digit (take k (decimal m))" "list_all is_digit (drop k (decimal m))" for k
    using ds by (auto simp: list_all_iff dest: in_set_takeD in_set_dropD)
  moreover have "list_all is_digit (replicate k CHR ''0'')" "number_char CHR ''0''" for k
    by (simp_all add: list_all_iff is_digit_def number_char_def)
  ultimately show ?thesis
    using ds by (simp add: magnitude_text_def mX Let_def fraction_chars digits_strip digits_number exponent_chars)
qed

lemma length_magnitude:
  assumes "representable x" "0 < x"
  shows "length (magnitude_text x) \<le> 36"
proof -
  obtain m X where mX: "scientific x = (m, X)" by fastforce
  note sc = scientific [OF assms(2) mX]
  have len: "length (decimal m) = 17" using length_decimal [of m 16] length_decimal_ge [OF sc(1)] sc(2) by simp
  have ex: "length (exponent_text X) \<le> 5" by (rule length_exponent [OF exponent_range [OF assms sc(4,5)]])
  have strip: "length (fraction_text (strip_zeros s)) \<le> length s + 1" for s
    using length_fraction [of "strip_zeros s"] length_strip [of s] by linarith
  have small: "length (fraction_text (replicate k CHR ''0'' @ strip_zeros (decimal m))) \<le> k + 18" for k
    using length_fraction [of "replicate k CHR ''0'' @ strip_zeros (decimal m)"] length_strip [of "decimal m"] len by simp
  show ?thesis
    using len ex strip [of "drop (nat X + 1) (decimal m)"] strip [of "drop 1 (decimal m)"] small [of "nat (- X) - 1"]
    by (simp add: magnitude_text_def mX Let_def) (intro conjI impI; linarith)
qed

lemma double_text_ok:
  assumes "dbl_ok a"
  shows "list_all number_char (double_text neg a)" "length (double_text neg a) \<le> 37"
proof -
  obtain x where a: "a = Fin x" "representable x" using assms by (cases a) (simp_all add: dbl_ok_def)
  have chars: "number_char CHR ''-''" "number_char CHR ''0''" by (simp_all add: number_char_def is_digit_def)
  show "list_all number_char (double_text neg a)"
    unfolding a by (simp add: chars magnitude_chars)
  show "length (double_text neg a) \<le> 37"
    using length_magnitude [OF a(2)] length_magnitude [of "- x"] a(2) unfolding a by auto
qed

section \<open>Rounded values are doubles\<close>

lemma rnd_dbl_ok:
  assumes "disfinite (rnd x)"
  shows "dbl_ok (rnd x)"
proof -
  have pos: "representable r" if "round_pos y = Fin r" "0 \<le> y" for y r
  proof -
    define q where "q = y * 2 ^ 1074"
    have q: "0 \<le> q" using that(2) by (simp add: q_def)
    define n where "n = round_even (q / 2 ^ grid_shift q)"
    have "q / 2 ^ grid_shift q \<le> of_nat (2 ^ 53)"
      using below_grid [OF q] by (simp add: field_simps power_add)
    then have n: "n \<le> 2 ^ 53" unfolding n_def using q by (intro round_even_le_nat) simp_all
    have grid: "round_grid q = of_nat (n * 2 ^ grid_shift q)" by (simp add: round_grid_def n_def)
    define w B where "w = round_grid q / 2 ^ 1074" and "B = (2 :: rat) ^ 1024"
    have "round_pos y = (if w < B then Fin w else DPosInf)"
      unfolding round_pos_def q_def w_def B_def Let_def by (rule refl)
    then have "r = w" "w < B" using that(1) by (simp_all split: if_split_asm)
    then have r: "r = of_nat (n * 2 ^ grid_shift q) / 2 ^ 1074" "r < 2 ^ 1024"
      unfolding w_def B_def grid by simp_all
    have "\<exists>m k. m < (2 :: nat) ^ 53 \<and> n * 2 ^ grid_shift q = m * 2 ^ k"
    proof (cases "n = 2 ^ 53")
      case True
      then have "n * 2 ^ grid_shift q = 2 ^ 52 * 2 ^ Suc (grid_shift q)" by simp
      moreover have "(2 :: nat) ^ 52 < 2 ^ 53" by simp
      ultimately show ?thesis by blast
    next
      case False
      then have "n < 2 ^ 53" using n by simp
      then show ?thesis by blast
    qed
    then obtain m k where "m < (2 :: nat) ^ 53" "n * 2 ^ grid_shift q = m * 2 ^ k" by blast
    moreover have "0 \<le> r" unfolding r(1) by simp
    moreover have "\<bar>r\<bar> * 2 ^ 1074 = of_nat (n * 2 ^ grid_shift q)"
      unfolding r(1) abs_of_nonneg [OF \<open>0 \<le> r\<close> [unfolded r(1)]] by (rule nonzero_eq_divide_eq [THEN iffD1, OF _ refl]) simp
    ultimately show ?thesis using r(2) unfolding representable_def by (metis abs_of_nonneg)
  qed
  show ?thesis
  proof (cases "x < 0")
    case True
    then obtain r where r: "round_pos (- x) = Fin r"
      using assms by (cases "round_pos (- x)") (simp_all add: rnd_def)
    then show ?thesis using pos [OF r] True by (simp add: rnd_def dbl_ok_def)
  next
    case False
    then obtain r where r: "round_pos x = Fin r"
      using assms by (cases "round_pos x") (simp_all add: rnd_def)
    then show ?thesis using pos [OF r] False by (simp add: rnd_def dbl_ok_def)
  qed
qed

lemma lit_dbl_ok:
  assumes "\<bar>x\<bar> \<le> 2 ^ 10"
  shows "dbl_ok (lit x)"
proof -
  obtain z where "lit x = Fin z" by (rule lit_bounded [OF assms]) simp_all
  then show ?thesis unfolding lit_def by (intro rnd_dbl_ok) simp
qed

end
