(* ===== verification/Runtime_Core.thy ===== *)
theory Runtime_Core
  imports Control_Api_Safety Commission_Api Sha256
begin

text \<open>
  What the runtime's files share, runtime/src/runtime_internal.hpp and the first part of
  runtime/src/runtime.cpp: the statuses and the translation of the lower libraries' statuses, the
  record of the last error, and the registry of handles, one for each kind of object, told apart
  by a tag in the low bits. The model is of the process that loaded the library, where
  \<open>process_guard_ok\<close> holds; a child after a fork is refused by every operation.
\<close>

datatype runtime_status =
    OA_RUNTIME_OK | OA_RUNTIME_EINVAL | OA_RUNTIME_EABI | OA_RUNTIME_ESTATE | OA_RUNTIME_ESTALE
  | OA_RUNTIME_ETIMEOUT | OA_RUNTIME_EBUSY | OA_RUNTIME_EIO | OA_RUNTIME_ECORRUPT
  | OA_RUNTIME_EIDENTITY | OA_RUNTIME_EPERMISSION | OA_RUNTIME_EUNSUPPORTED | OA_RUNTIME_EFAULT
  | OA_RUNTIME_ENOMEM | OA_RUNTIME_ECOLLISION | OA_RUNTIME_EUNREACHABLE | OA_RUNTIME_EDURABILITY

datatype runtime_facility =
    OA_RUNTIME_FACILITY_RUNTIME | OA_RUNTIME_FACILITY_CAN | OA_RUNTIME_FACILITY_TRANSPORT
  | OA_RUNTIME_FACILITY_MODEL | OA_RUNTIME_FACILITY_COMMISSION | OA_RUNTIME_FACILITY_CONTROL
  | OA_RUNTIME_FACILITY_SYSTEM

abbreviation OA_RUNTIME_ABI_VERSION :: u32 where "OA_RUNTIME_ABI_VERSION \<equiv> 1"
abbreviation OA_RUNTIME_TEXT_CAPACITY :: nat where "OA_RUNTIME_TEXT_CAPACITY \<equiv> 64"
abbreviation OA_RUNTIME_DIGEST_CAPACITY :: nat where "OA_RUNTIME_DIGEST_CAPACITY \<equiv> 65"
abbreviation OA_RUNTIME_BACKEND_VIRTUAL :: u32 where "OA_RUNTIME_BACKEND_VIRTUAL \<equiv> 1"
abbreviation OA_RUNTIME_BACKEND_SOCKETCAN_QUERY :: u32 where "OA_RUNTIME_BACKEND_SOCKETCAN_QUERY \<equiv> 2"
abbreviation OA_RUNTIME_BACKEND_OFFLINE :: u32 where "OA_RUNTIME_BACKEND_OFFLINE \<equiv> 3"

section \<open>Statuses of the lower libraries\<close>

fun map_control :: "control_status \<Rightarrow> runtime_status" where
  "map_control OA_CONTROL_OK = OA_RUNTIME_OK"
| "map_control OA_CONTROL_EABI = OA_RUNTIME_EABI"
| "map_control OA_CONTROL_ESTATE = OA_RUNTIME_ESTATE"
| "map_control OA_CONTROL_ESTALE = OA_RUNTIME_ESTALE"
| "map_control OA_CONTROL_ETIMEOUT = OA_RUNTIME_ETIMEOUT"
| "map_control OA_CONTROL_EBUSY = OA_RUNTIME_EBUSY"
| "map_control OA_CONTROL_EIDENTITY = OA_RUNTIME_EIDENTITY"
| "map_control OA_CONTROL_EIO = OA_RUNTIME_EIO"
| "map_control OA_CONTROL_ECAN = OA_RUNTIME_EIO"
| "map_control OA_CONTROL_ENOMEM = OA_RUNTIME_ENOMEM"
| "map_control OA_CONTROL_EUNSUPPORTED = OA_RUNTIME_EUNSUPPORTED"
| "map_control OA_CONTROL_ECOLLISION = OA_RUNTIME_ECOLLISION"
| "map_control OA_CONTROL_EUNREACHABLE = OA_RUNTIME_EUNREACHABLE"
| "map_control OA_CONTROL_EFAULT = OA_RUNTIME_EFAULT"
| "map_control OA_CONTROL_EESTOP = OA_RUNTIME_EFAULT"
| "map_control OA_CONTROL_ELIMIT = OA_RUNTIME_EFAULT"
| "map_control OA_CONTROL_EINVAL = OA_RUNTIME_EINVAL"

fun map_commission :: "commission_status \<Rightarrow> runtime_status" where
  "map_commission OA_COMMISSION_OK = OA_RUNTIME_OK"
| "map_commission OA_COMMISSION_EABI = OA_RUNTIME_EABI"
| "map_commission OA_COMMISSION_ESTATE = OA_RUNTIME_ESTATE"
| "map_commission OA_COMMISSION_ESTALE = OA_RUNTIME_ESTALE"
| "map_commission OA_COMMISSION_EUNSUPPORTED = OA_RUNTIME_EUNSUPPORTED"
| "map_commission OA_COMMISSION_ENOMEM = OA_RUNTIME_ENOMEM"
| "map_commission OA_COMMISSION_EFAULT = OA_RUNTIME_EFAULT"
| "map_commission OA_COMMISSION_EINTERLOCK = OA_RUNTIME_EFAULT"
| "map_commission OA_COMMISSION_ELIMIT = OA_RUNTIME_EFAULT"
| "map_commission OA_COMMISSION_EUNSTABLE = OA_RUNTIME_EFAULT"
| "map_commission OA_COMMISSION_EREPEATABILITY = OA_RUNTIME_EFAULT"
| "map_commission OA_COMMISSION_EINVAL = OA_RUNTIME_EINVAL"

lemma map_control_ok [simp]: "map_control st = OA_RUNTIME_OK \<longleftrightarrow> st = OA_CONTROL_OK"
  by (cases st) simp_all

lemma map_commission_ok [simp]: "map_commission st = OA_RUNTIME_OK \<longleftrightarrow> st = OA_COMMISSION_OK"
  by (cases st) simp_all

text \<open>The lower status that \<open>lower_code\<close> holds as a number.\<close>

datatype lower_status = No_lower | Control_lower control_status | Commission_lower commission_status

record error_detail = header +
  ed_status :: runtime_status
  facility :: runtime_facility
  lower_code :: lower_status
  system_error :: u32

abbreviation SIZEOF_ERROR_DETAIL :: u32 where "SIZEOF_ERROR_DETAIL \<equiv> 24"

definition error_of :: "runtime_status \<Rightarrow> runtime_facility \<Rightarrow> lower_status \<Rightarrow> error_detail" where
  "error_of st fac lower =
     \<lparr>struct_size = SIZEOF_ERROR_DETAIL, abi_version = OA_RUNTIME_ABI_VERSION, ed_status = st, facility = fac,
      lower_code = lower, system_error = 0\<rparr>"

definition output_valid :: "u32 \<Rightarrow> 'a header_scheme pointer \<Rightarrow> bool" where
  "output_valid required r \<longleftrightarrow>
     (case r of None \<Rightarrow> False
      | Some x \<Rightarrow> struct_size x \<ge> required \<and> abi_version x = OA_RUNTIME_ABI_VERSION)"

section \<open>The registry\<close>

abbreviation kManifestTag :: u64 where "kManifestTag \<equiv> 2"
abbreviation kRuntimeTag :: u64 where "kRuntimeTag \<equiv> 3"
abbreviation kInventoryTag :: u64 where "kInventoryTag \<equiv> 4"
abbreviation kCalibrationTag :: u64 where "kCalibrationTag \<equiv> 5"
abbreviation kPlanTag :: u64 where "kPlanTag \<equiv> 6"
abbreviation kPersistenceTag :: u64 where "kPersistenceTag \<equiv> 7"

text \<open>\<open>UINTPTR_MAX >> 4U\<close>.\<close>

abbreviation MAX_INDEX :: u64 where "MAX_INDEX \<equiv> 0x0fffffffffffffff"

record 'v handle_registry =
  registered :: "u64 \<rightharpoonup> 'v"
  next_index :: u64

definition empty_registry :: "'v handle_registry" where
  "empty_registry = \<lparr>registered = Map.empty, next_index = 1\<rparr>"

text \<open>\<open>no_node\<close>: the map's node is not allocated; the index is used up all the same.\<close>

definition registry_insert ::
  "u64 \<Rightarrow> bool \<Rightarrow> 'v \<Rightarrow> 'v handle_registry \<Rightarrow> u64 option \<times> 'v handle_registry" where
  "registry_insert tag no_node v r =
     (if next_index r > MAX_INDEX then (None, r)
      else
        let bits = push_bit 4 (next_index r) OR tag; r1 = r\<lparr>next_index := next_index r + 1\<rparr>
        in if no_node then (None, r1)
           else (Some bits, if registered r bits = None
                            then r1\<lparr>registered := (registered r)(bits \<mapsto> v)\<rparr> else r1))"

definition registry_pin :: "u64 \<Rightarrow> u64 \<Rightarrow> 'v handle_registry \<Rightarrow> 'v option" where
  "registry_pin tag h r = (if h = 0 \<or> h AND 0xf \<noteq> tag then None else registered r h)"

definition registry_drop :: "u64 \<Rightarrow> u64 \<Rightarrow> 'v handle_registry \<Rightarrow> 'v handle_registry" where
  "registry_drop tag h r =
     (if h = 0 \<or> h AND 0xf \<noteq> tag then r else r\<lparr>registered := (registered r)(h := None)\<rparr>)"

text \<open>An object is changed in place, through the pointer that \<open>pin\<close> returned.\<close>

definition registry_update :: "u64 \<Rightarrow> 'v \<Rightarrow> 'v handle_registry \<Rightarrow> 'v handle_registry" where
  "registry_update h v r = r\<lparr>registered := (registered r)(h \<mapsto> v)\<rparr>"

section \<open>The registry is a handle table\<close>

definition handle_bits :: "u64 \<Rightarrow> u64 \<Rightarrow> u64" where
  "handle_bits tag i = push_bit 4 i OR tag"

definition handle_issued :: "u64 \<Rightarrow> 'v handle_registry \<Rightarrow> u64 \<Rightarrow> bool" where
  "handle_issued tag r t \<longleftrightarrow> (\<exists>i. 1 \<le> i \<and> i < next_index r \<and> t = handle_bits tag i)"

definition registry_good :: "u64 \<Rightarrow> 'v handle_registry \<Rightarrow> bool" where
  "registry_good tag r \<longleftrightarrow> 1 \<le> next_index r \<and> next_index r \<le> MAX_INDEX + 1
     \<and> (\<forall>t. registered r t \<noteq> None \<longrightarrow> handle_issued tag r t)"

definition proper_tag :: "u64 \<Rightarrow> bool" where
  "proper_tag tag \<longleftrightarrow> 0 < tag \<and> tag < 16"

lemma low_bits: "x AND 0xf = take_bit 4 (x :: u64)"
  by (simp add: take_bit_eq_mask mask_eq_exp_minus_1)

lemma take_bit_small: "unat x < 2 ^ n \<Longrightarrow> take_bit n x = (x :: 'a :: len word)"
  by (simp add: word_unat_eq_iff unsigned_take_bit_eq take_bit_nat_eq_self)

lemma tag_bits:
  assumes "proper_tag tag"
  shows "take_bit 4 tag = tag" "drop_bit 4 tag = 0"
proof -
  have "unat tag < 2 ^ 4" using assms unfolding proper_tag_def by (simp add: word_less_nat_alt)
  then show "take_bit 4 tag = tag" by (rule take_bit_small)
  then show "drop_bit 4 tag = 0" by (simp add: take_bit_eq_self_iff_drop_bit_eq_0)
qed

lemma handle_bits_tag:
  assumes "proper_tag tag"
  shows "handle_bits tag i AND 0xf = tag" "handle_bits tag i \<noteq> 0"
proof -
  show *: "handle_bits tag i AND 0xf = tag"
    unfolding low_bits handle_bits_def using tag_bits [OF assms] by (simp add: take_bit_push_bit)
  show "handle_bits tag i \<noteq> 0" using * assms by (auto simp: proper_tag_def)
qed

lemma handle_bits_index:
  assumes "proper_tag tag" "i \<le> MAX_INDEX"
  shows "drop_bit 4 (handle_bits tag i) = i"
proof -
  have "unat i < 2 ^ 60" using assms(2) by (simp add: word_le_nat_alt)
  moreover have "drop_bit 4 (push_bit 4 i) = take_bit 60 i"
    by (rule bit_word_eqI) (auto simp: bit_simps)
  ultimately show ?thesis
    unfolding handle_bits_def using tag_bits [OF assms(1)] by (simp add: drop_bit_or take_bit_small)
qed

lemma next_not_issued:
  assumes "proper_tag tag" "next_index r \<le> MAX_INDEX"
  shows "\<not> handle_issued tag r (handle_bits tag (next_index r))"
proof
  assume "handle_issued tag r (handle_bits tag (next_index r))"
  then obtain i where i: "i < next_index r" "handle_bits tag (next_index r) = handle_bits tag i"
    by (auto simp: handle_issued_def)
  have "i \<le> MAX_INDEX" by (rule order_trans [OF less_imp_le [OF i(1)] assms(2)])
  then show False using i handle_bits_index [OF assms(1)] assms(2) by (metis less_irrefl)
qed

lemma issued_step:
  assumes "1 \<le> next_index r" "next_index r \<le> MAX_INDEX"
  shows "handle_issued tag (r\<lparr>next_index := next_index r + 1, registered := f\<rparr>)
      = (handle_issued tag r)(handle_bits tag (next_index r) := True)"
proof -
  have "unat (next_index r) < 2 ^ 60" using assms(2) by (simp add: word_le_nat_alt)
  then have "unat (next_index r + 1) = unat (next_index r) + 1" by (subst unat_word_ariths) simp
  then have "i < next_index r + 1 \<longleftrightarrow> i < next_index r \<or> i = next_index r" for i
    by (auto simp: word_less_nat_alt less_Suc_eq word_unat_eq_iff)
  then show ?thesis using assms(1) by (auto simp: handle_issued_def fun_eq_iff)
qed

lemma registry_insert_some:
  assumes "proper_tag tag" "registry_good tag r" "registry_insert tag b v r = (Some t, r')"
  shows "\<not> handle_issued tag r t \<and> registry_good tag r' \<and> handle_issued tag r' = (handle_issued tag r)(t := True)
    \<and> registered r' = (registered r)(t \<mapsto> v)"
proof -
  have le: "next_index r \<le> MAX_INDEX" and t: "t = handle_bits tag (next_index r)"
    using assms(3) by (auto simp: registry_insert_def handle_bits_def Let_def not_less split: if_splits)
  have new: "\<not> handle_issued tag r t" unfolding t by (rule next_not_issued [OF assms(1) le])
  then have "registered r t = None" using assms(2) by (auto simp: registry_good_def)
  then have r': "r' = r\<lparr>next_index := next_index r + 1, registered := (registered r)(t \<mapsto> v)\<rparr>"
    using assms(3) t by (auto simp: registry_insert_def handle_bits_def Let_def split: if_splits)
  have "1 \<le> next_index r" using assms(2) by (simp add: registry_good_def)
  note step = issued_step [OF this le, of tag "(registered r)(t \<mapsto> v)", folded r' t]
  have "unat (next_index r) < 2 ^ 60" using le by (simp add: word_le_nat_alt)
  then have "1 \<le> next_index r + 1 \<and> next_index r + 1 \<le> MAX_INDEX + 1"
    by (simp add: word_le_nat_alt unat_word_ariths)
  then have "registry_good tag r'"
    using assms(2) step by (auto simp: registry_good_def r')
  then show ?thesis using new step by (simp add: r')
qed

lemma registry_insert_none_grows:
  assumes "registry_good tag r" "registry_insert tag b v r = (None, r')"
  shows "registry_good tag r' \<and> registered r' = registered r"
proof (cases "next_index r > MAX_INDEX")
  case True
  then show ?thesis using assms by (simp add: registry_insert_def)
next
  case False
  then have r': "r' = r\<lparr>next_index := next_index r + 1\<rparr>"
    using assms(2) by (auto simp: registry_insert_def Let_def split: if_splits)
  have "1 \<le> next_index r" "next_index r \<le> MAX_INDEX" using assms(1) False by (simp_all add: registry_good_def not_less)
  note step = issued_step [OF this, of tag "registered r"]
  have "unat (next_index r) < 2 ^ 60" using False by (simp add: word_less_nat_alt)
  then have "1 \<le> next_index r + 1 \<and> next_index r + 1 \<le> MAX_INDEX + 1"
    by (simp add: word_le_nat_alt unat_word_ariths)
  then show ?thesis using assms(1) step by (auto simp: registry_good_def r')
qed

lemma registry_handle_table:
  assumes "proper_tag tag"
  shows "handle_table (registry_good tag) registered (handle_issued tag) (registry_insert tag False) registry_update
    (registry_drop tag)"
proof (unfold_locales)
  fix r :: "'a handle_registry" and r' t and e e' :: 'a
  show "registry_good tag r \<Longrightarrow> registered r t = Some e \<Longrightarrow> handle_issued tag r t"
    by (auto simp: registry_good_def)
  show "registry_good tag r \<Longrightarrow> \<not> handle_issued tag r 0"
    using handle_bits_tag(2) [OF assms] by (auto simp: handle_issued_def)
  show "registry_insert tag False e r = (None, r') \<Longrightarrow> r' = r"
    by (auto simp: registry_insert_def Let_def split: if_splits)
  show "registry_good tag r \<Longrightarrow> registry_insert tag False e r = (Some t, r') \<Longrightarrow>
      \<not> handle_issued tag r t \<and> registry_good tag r' \<and> handle_issued tag r' = (handle_issued tag r)(t := True)
      \<and> registered r' = (registered r)(t \<mapsto> e)"
    by (rule registry_insert_some [OF assms])
  show "registry_good tag r \<Longrightarrow> registered r t \<noteq> None \<Longrightarrow>
      registry_good tag (registry_update t e r) \<and> handle_issued tag (registry_update t e r) = handle_issued tag r
      \<and> registered (registry_update t e r) = (registered r)(t \<mapsto> e)"
    by (auto simp: registry_good_def registry_update_def handle_issued_def)
  assume good: "registry_good tag r"
  have "registered r t = None" if "t = 0 \<or> t AND 0xf \<noteq> tag"
    using good that handle_bits_tag [OF assms] unfolding registry_good_def handle_issued_def by metis
  then show "registry_good tag (registry_drop tag t r) \<and> handle_issued tag (registry_drop tag t r) = handle_issued tag r
      \<and> registered (registry_drop tag t r) = (registered r)(t := None)"
    using good by (auto simp: registry_good_def registry_drop_def handle_issued_def fun_upd_idem)
qed

text \<open>\<open>pin\<close> finds what the table holds: the tests of the tag and of the null pointer never hide an entry.\<close>

lemma registry_pin_registered:
  assumes "proper_tag tag" "registry_good tag r"
  shows "registry_pin tag h r = registered r h"
proof -
  have "registered r h = None" if "h = 0 \<or> h AND 0xf \<noteq> tag"
    using assms(2) that handle_bits_tag [OF assms(1)] unfolding registry_good_def handle_issued_def by metis
  then show ?thesis by (auto simp: registry_pin_def)
qed

lemma empty_registry_good [simp]: "registry_good tag empty_registry"
  by (simp add: registry_good_def empty_registry_def)

interpretation plan_handles: handle_table "registry_good kPlanTag" registered "handle_issued kPlanTag"
  "registry_insert kPlanTag False" registry_update "registry_drop kPlanTag"
  by (rule registry_handle_table) (simp add: proper_tag_def)

end
