(* ===== verification/Runtime_Manifest.thy ===== *)
theory Runtime_Manifest
  imports Number_Text Runtime_Core "HOL-Library.Monad_Syntax"
begin

text \<open>
  The manifests of the runtime, runtime/src/manifest.cpp: the built-in virtual manifest, the
  canonical text and its digest, the reader of that text, the patch that a calibration makes, and
  the exported calls. The text carries what identifies a robot and its calibration; what it does
  not carry (record headers, bus names, padding) the reader sets to fixed values.
\<close>

record manifest_data =
  md_config :: manifest_config
  md_state :: u32
  intended_backend :: u32
  md_inventory_revision :: u64
  inventory_fingerprint :: string
  evidence_kinds :: "u32 list"
  evidence_revisions :: "u64 list"
  evidence_records :: "string list"
  content_digest :: string
  integrity_kind :: u32
  authenticated :: bool
  checkpoint_authorized :: bool
  authentication_version :: u32
  authentication_key_id :: string
  authentication_tag :: string
  loaded_from_file :: bool

abbreviation OA_RUNTIME_MANIFEST_DRAFT :: u32 where "OA_RUNTIME_MANIFEST_DRAFT \<equiv> 1"
abbreviation OA_RUNTIME_MANIFEST_LOCALLY_VALID :: u32 where "OA_RUNTIME_MANIFEST_LOCALLY_VALID \<equiv> 2"
abbreviation OA_RUNTIME_MANIFEST_ARMABLE :: u32 where "OA_RUNTIME_MANIFEST_ARMABLE \<equiv> 4"
abbreviation OA_RUNTIME_INTEGRITY_UNKEYED_SHA256 :: u32 where "OA_RUNTIME_INTEGRITY_UNKEYED_SHA256 \<equiv> 1"
abbreviation OA_RUNTIME_INTEGRITY_HMAC_SHA256 :: u32 where "OA_RUNTIME_INTEGRITY_HMAC_SHA256 \<equiv> 2"
abbreviation NEWLINE :: char where "NEWLINE \<equiv> CHR 0x0A"

section \<open>Text\<close>

definition safe_char :: "char \<Rightarrow> bool" where
  "safe_char ch \<longleftrightarrow>
     (let n = of_char ch :: nat in (97 \<le> n \<and> n \<le> 122) \<or> (65 \<le> n \<and> n \<le> 90) \<or> (48 \<le> n \<and> n \<le> 57)
        \<or> ch = CHR ''_'' \<or> ch = CHR ''-'' \<or> ch = CHR ''.'' \<or> ch = CHR '':'')"

definition safe_text :: "string \<Rightarrow> nat \<Rightarrow> bool \<Rightarrow> bool" where
  "safe_text text capacity allow_empty \<longleftrightarrow>
     (if (\<not> allow_empty \<and> text = []) \<or> length text \<ge> capacity then False else list_all safe_char text)"

definition lower_hex :: "char \<Rightarrow> bool" where
  "lower_hex ch \<longleftrightarrow>
     (let n = of_char ch :: nat in (48 \<le> n \<and> n \<le> 57) \<or> (97 \<le> n \<and> n \<le> 102))"

fun split_fields :: "string \<Rightarrow> string list" where
  "split_fields [] = [[]]"
| "split_fields (ch # s) =
     (if ch = CHR ''|'' then [] # split_fields s
      else (ch # hd (split_fields s)) # tl (split_fields s))"

definition motor_offset :: "nat \<Rightarrow> nat \<Rightarrow> nat" where
  "motor_offset side joint = side * 7 + joint"

definition sha256_text :: "string \<Rightarrow> string" where
  "sha256_text s = sha256_hex (map of_char s)"

section \<open>The built-in configuration\<close>

definition virtual_motor :: "nat \<Rightarrow> nat \<Rightarrow> motor_config" where
  "virtual_motor side joint =
     (let t = (if joint < 2 then OA_MOTOR_DM8009 else if joint < 4 then OA_MOTOR_DM4340 else OA_MOTOR_DM4310);
          s = (if even (side + joint) then 1 else - 1) :: dbl;
          (vmax, tmax, gear) = (if t = OA_MOTOR_DM8009 then (lit 45, lit 54, lit 9)
                                else if t = OA_MOTOR_DM4340 then (lit 10, lit 28, lit 40)
                                else (lit 30, lit 10, lit 10))
      in \<lparr>struct_size = SIZEOF_MOTOR_CONFIG, abi_version = OA_CONTROL_ABI_V1, motor_type = t,
          joint_index = of_nat joint, send_id = of_nat (joint + 1), receive_id = of_nat (joint + 0x11),
          embedded_motor_id = of_nat (joint + 1), control_mode = 1, bitrate = 1000000,
          timeout_ticks = 1000, hardware_version = 1, software_version = 1, firmware_subversion = 1,
          q_scale = s, q_offset_rad = lit (125 / 1000),
          lower_rad = (if side = 0 then left_lower ! joint else right_lower ! joint),
          upper_rad = (if side = 0 then left_upper ! joint else right_upper ! joint),
          max_velocity_rad_s = lit 1, max_acceleration_rad_s2 = lit 2, max_jerk_rad_s3 = lit 10,
          pmax_rad = lit (125 / 10), vmax_rad_s = vmax, tmax_nm = tmax, gear_ratio = gear,
          direction = (if s > 0 then 1 else - 1),
          serial = char_array 32 (''VIRTUAL-'' @ [digit side] @ ''-'' @ [digit joint]),
          joint_name = char_array 48
            (''openarm_'' @ (if side = 0 then ''left'' else ''right'') @ ''_joint'' @ [digit (joint + 1)])\<rparr>)"

definition virtual_arm :: "nat \<Rightarrow> arm_config" where
  "virtual_arm side =
     \<lparr>struct_size = SIZEOF_ARM_CONFIG, abi_version = OA_CONTROL_ABI_V1,
      bus_name = char_array 16 (''virtual'' @ [digit side]), ac_motor = map (virtual_motor side) [0 ..< 7]\<rparr>"

definition virtual_config :: manifest_config where
  "virtual_config =
     \<lparr>struct_size = SIZEOF_MANIFEST_CONFIG, abi_version = OA_CONTROL_ABI_V1, manifest_revision = 1,
      model_revision = 1, mc_arm = (virtual_arm 0, virtual_arm 1)\<rparr>"

section \<open>Validation\<close>

text \<open>
  The control library's own validation is called through its interface, so it uses up a token
  of that library; \<open>no_memory\<close> is the failure of an allocation in it.
\<close>

definition validate_manifest_data :: "model_lib \<Rightarrow> bool \<Rightarrow> manifest_data \<Rightarrow> api \<Rightarrow> bool \<times> api" where
  "validate_manifest_data lib no_memory m s =
     (if manifest_revision (md_config m) = 0 \<or> model_revision (md_config m) = 0
         \<or> md_state m < OA_RUNTIME_MANIFEST_DRAFT \<or> md_state m > OA_RUNTIME_MANIFEST_ARMABLE
         \<or> (intended_backend m \<noteq> OA_RUNTIME_BACKEND_VIRTUAL
            \<and> intended_backend m \<noteq> OA_RUNTIME_BACKEND_SOCKETCAN_QUERY
            \<and> intended_backend m \<noteq> OA_RUNTIME_BACKEND_OFFLINE)
      then (False, s)
      else case oa_manifest_create lib no_memory (Some (md_config m)) (Some 0) s of (st, validated, s1) \<Rightarrow>
        if st \<noteq> OA_CONTROL_OK then (False, s1)
        else
          let s2 = oa_manifest_destroy (the validated) s1 in
          if \<not> list_all (\<lambda>t. safe_text t OA_RUNTIME_TEXT_CAPACITY False) (evidence_records m) then (False, s2)
          else if inventory_fingerprint m \<noteq> []
                  \<and> (length (inventory_fingerprint m) \<noteq> 64 \<or> \<not> list_all lower_hex (inventory_fingerprint m))
          then (False, s2) else (True, s2))"

section \<open>The canonical text\<close>

text \<open>
  Every field is followed by a bar. \<open>minus i\<close> tells whether the double in place \<open>i\<close> of the line, when
  it is zero, is the negative zero.
\<close>

definition motor_numbers :: "(nat \<Rightarrow> bool) \<Rightarrow> nat \<Rightarrow> nat \<Rightarrow> motor_config \<Rightarrow> string list" where
  "motor_numbers neg side joint m =
     [decimal side, decimal joint, decimal (unat (motor_type m)), decimal (unat (send_id m)),
      decimal (unat (receive_id m)), decimal (unat (embedded_motor_id m)), decimal (unat (control_mode m)),
      decimal (unat (bitrate m)), decimal (unat (timeout_ticks m)), decimal (unat (hardware_version m)),
      decimal (unat (software_version m)), decimal (unat (firmware_subversion m)),
      double_text (neg 13) (q_scale m), double_text (neg 14) (q_offset_rad m),
      double_text (neg 15) (lower_rad m), double_text (neg 16) (upper_rad m),
      double_text (neg 17) (max_velocity_rad_s m), double_text (neg 18) (max_acceleration_rad_s2 m),
      double_text (neg 19) (max_jerk_rad_s3 m), double_text (neg 20) (pmax_rad m),
      double_text (neg 21) (vmax_rad_s m), double_text (neg 22) (tmax_nm m), double_text (neg 23) (gear_ratio m),
      signed_decimal (direction m)]"

definition bar :: "string \<Rightarrow> string" where
  "bar s = s @ ''|''"

definition motor_line :: "(nat \<Rightarrow> bool) \<Rightarrow> manifest_data \<Rightarrow> nat \<Rightarrow> nat \<Rightarrow> string" where
  "motor_line neg d side joint =
     (let m = ac_motor (pick side (mc_arm (md_config d))) ! joint; i = motor_offset side joint
      in ''motor|'' @ concat (map bar (motor_numbers neg side joint m))
         @ bar (c_string (serial m)) @ bar (c_string (joint_name m))
         @ bar (decimal (unat (evidence_kinds d ! i))) @ bar (decimal (unat (evidence_revisions d ! i)))
         @ evidence_records d ! i)"

definition summary_line :: "manifest_data \<Rightarrow> string" where
  "summary_line d =
     ''summary|'' @ bar (decimal (unat (md_state d))) @ bar (decimal (unat (intended_backend d)))
     @ bar (decimal (unat (manifest_revision (md_config d)))) @ bar (decimal (unat (model_revision (md_config d))))
     @ bar (decimal (unat (md_inventory_revision d)))
     @ (if inventory_fingerprint d = [] then ''-'' else inventory_fingerprint d)"

definition MANIFEST_MAGIC :: string where
  "MANIFEST_MAGIC = ''OPENARM_RUNTIME_MANIFEST|1''"

text \<open>The fourteen places in the order of the two loops.\<close>

definition motor_places :: "(nat \<times> nat) list" where
  "motor_places = [(0, 0), (0, 1), (0, 2), (0, 3), (0, 4), (0, 5), (0, 6), (1, 0), (1, 1), (1, 2), (1, 3), (1, 4), (1, 5), (1, 6)]"

type_synonym zero_signs = "nat \<Rightarrow> nat \<Rightarrow> nat \<Rightarrow> bool"

definition manifest_canonical :: "zero_signs \<Rightarrow> manifest_data \<Rightarrow> bool \<Rightarrow> string" where
  "manifest_canonical neg d include_digest =
     (let out = MANIFEST_MAGIC @ [NEWLINE] @ summary_line d @ [NEWLINE]
            @ concat (map (\<lambda>(side, joint). motor_line (neg side joint) d side joint @ [NEWLINE]) motor_places)
      in if \<not> include_digest then out
         else
           let out1 = out @ ''sha256|''
           in out1 @ (if content_digest d = [] then sha256_text out1 else content_digest d) @ [NEWLINE])"

definition make_virtual_manifest :: "zero_signs \<Rightarrow> manifest_data" where
  "make_virtual_manifest neg =
     (let m = \<lparr>md_config = virtual_config, md_state = OA_RUNTIME_MANIFEST_ARMABLE,
               intended_backend = OA_RUNTIME_BACKEND_VIRTUAL, md_inventory_revision = 1, inventory_fingerprint = [],
               evidence_kinds = replicate 14 3, evidence_revisions = replicate 14 1,
               evidence_records = replicate 14 ''builtin_virtual_exact'', content_digest = [],
               integrity_kind = OA_RUNTIME_INTEGRITY_UNKEYED_SHA256, authenticated = False,
               checkpoint_authorized = False, authentication_version = 0, authentication_key_id = [],
               authentication_tag = [], loaded_from_file = False\<rparr>;
          m1 = m\<lparr>inventory_fingerprint := sha256_text (manifest_canonical neg m False)\<rparr>
      in m1\<lparr>content_digest := sha256_text (manifest_canonical neg m1 False)\<rparr>)"

section \<open>The reader\<close>

text \<open>The lines of a text that ends with one; a line longer than 2048 characters is refused.\<close>

function text_lines :: "string \<Rightarrow> string list option" where
  "text_lines t =
     (if t = [] then Some []
      else
        let l = takeWhile (\<lambda>ch. ch \<noteq> NEWLINE) t; r = dropWhile (\<lambda>ch. ch \<noteq> NEWLINE) t
        in if r = [] \<or> length l > 2048 then None else map_option (Cons l) (text_lines (drop 1 r)))"
  by pat_completeness auto
termination
proof (relation "measure length")
  fix t l r :: string
  assume r: "r = dropWhile (\<lambda>ch. ch \<noteq> NEWLINE) t" "\<not> (r = [] \<or> length l > 2048)"
  then have "length r \<le> length t" by (simp add: length_dropWhile_le)
  then show "(drop 1 r, t) \<in> measure length" using r(2) by (cases r) auto
qed simp

declare text_lines.simps [simp del]

text \<open>\<open>std::string::find\<close>.\<close>

fun find_text :: "string \<Rightarrow> string \<Rightarrow> nat option" where
  "find_text pat [] = (if pat = [] then Some 0 else None)"
| "find_text pat (ch # s) =
     (if take (length pat) (ch # s) = pat then Some 0 else map_option Suc (find_text pat s))"

definition require :: "bool \<Rightarrow> unit option" where
  "require b = (if b then Some () else None)"

text \<open>The line of a motor: its record, and the kind, the revision and the record of its evidence.\<close>

definition parse_motor :: "nat \<Rightarrow> nat \<Rightarrow> string list \<Rightarrow> (motor_config \<times> u32 \<times> u64 \<times> string) option" where
  "parse_motor side joint f =
     do {
       require (length f = 30 \<and> f ! 0 = ''motor'');
       parsed_side \<leftarrow> parse_unsigned (f ! 1) :: u32 option;
       parsed_joint \<leftarrow> parse_unsigned (f ! 2) :: u32 option;
       require (parsed_side = of_nat side \<and> parsed_joint = of_nat joint);
       p_motor_type \<leftarrow> parse_unsigned (f ! 3);
       p_send_id \<leftarrow> parse_unsigned (f ! 4);
       p_receive_id \<leftarrow> parse_unsigned (f ! 5);
       p_embedded_motor_id \<leftarrow> parse_unsigned (f ! 6);
       p_control_mode \<leftarrow> parse_unsigned (f ! 7);
       p_bitrate \<leftarrow> parse_unsigned (f ! 8);
       p_timeout_ticks \<leftarrow> parse_unsigned (f ! 9);
       p_hardware_version \<leftarrow> parse_unsigned (f ! 10);
       p_software_version \<leftarrow> parse_unsigned (f ! 11);
       p_firmware_subversion \<leftarrow> parse_unsigned (f ! 12);
       p_q_scale \<leftarrow> parse_double (f ! 13);
       p_q_offset_rad \<leftarrow> parse_double (f ! 14);
       p_lower_rad \<leftarrow> parse_double (f ! 15);
       p_upper_rad \<leftarrow> parse_double (f ! 16);
       p_max_velocity_rad_s \<leftarrow> parse_double (f ! 17);
       p_max_acceleration_rad_s2 \<leftarrow> parse_double (f ! 18);
       p_max_jerk_rad_s3 \<leftarrow> parse_double (f ! 19);
       p_pmax_rad \<leftarrow> parse_double (f ! 20);
       p_vmax_rad_s \<leftarrow> parse_double (f ! 21);
       p_tmax_nm \<leftarrow> parse_double (f ! 22);
       p_gear_ratio \<leftarrow> parse_double (f ! 23);
       p_direction \<leftarrow> parse_i32 (f ! 24);
       require (safe_text (f ! 25) 32 False \<and> safe_text (f ! 26) 48 False);
       p_evidence_kind \<leftarrow> parse_unsigned (f ! 27);
       p_evidence_revision \<leftarrow> parse_unsigned (f ! 28);
       require (safe_text (f ! 29) OA_RUNTIME_TEXT_CAPACITY False);
       Some (\<lparr>struct_size = SIZEOF_MOTOR_CONFIG, abi_version = OA_CONTROL_ABI_V1, motor_type = p_motor_type,
              joint_index = of_nat joint, send_id = p_send_id, receive_id = p_receive_id,
              embedded_motor_id = p_embedded_motor_id, control_mode = p_control_mode, bitrate = p_bitrate,
              timeout_ticks = p_timeout_ticks, hardware_version = p_hardware_version,
              software_version = p_software_version, firmware_subversion = p_firmware_subversion,
              q_scale = p_q_scale, q_offset_rad = p_q_offset_rad, lower_rad = p_lower_rad,
              upper_rad = p_upper_rad, max_velocity_rad_s = p_max_velocity_rad_s,
              max_acceleration_rad_s2 = p_max_acceleration_rad_s2, max_jerk_rad_s3 = p_max_jerk_rad_s3,
              pmax_rad = p_pmax_rad, vmax_rad_s = p_vmax_rad_s, tmax_nm = p_tmax_nm,
              gear_ratio = p_gear_ratio, direction = p_direction, serial = char_array 32 (f ! 25),
              joint_name = char_array 48 (f ! 26)\<rparr>,
             p_evidence_kind, p_evidence_revision, f ! 29)
     }"

fun parse_motors :: "(nat \<times> nat) list \<Rightarrow> string list \<Rightarrow> (motor_config \<times> u32 \<times> u64 \<times> string) list option" where
  "parse_motors [] lines = Some []"
| "parse_motors ((side, joint) # places) lines =
     do {
       m \<leftarrow> parse_motor side joint (split_fields (lines ! (2 + motor_offset side joint)));
       ms \<leftarrow> parse_motors places lines;
       Some (m # ms)
     }"

text \<open>The name of the bus is made anew from the backend.\<close>

definition parsed_arm :: "u32 \<Rightarrow> nat \<Rightarrow> motor_config list \<Rightarrow> arm_config" where
  "parsed_arm intended side ms =
     \<lparr>struct_size = SIZEOF_ARM_CONFIG, abi_version = OA_CONTROL_ABI_V1,
      bus_name = char_array 16 ((if intended = OA_RUNTIME_BACKEND_VIRTUAL then ''virtual'' else ''can'') @ [digit side]),
      ac_motor = ms\<rparr>"

definition parse_summary :: "string list \<Rightarrow> (u32 \<times> u32 \<times> u64 \<times> u64 \<times> u64) option" where
  "parse_summary f =
     do {
       require (length f = 7 \<and> f ! 0 = ''summary'');
       p_state \<leftarrow> parse_unsigned (f ! 1);
       p_backend \<leftarrow> parse_unsigned (f ! 2);
       p_manifest_revision \<leftarrow> parse_unsigned (f ! 3);
       p_model_revision \<leftarrow> parse_unsigned (f ! 4);
       p_inventory_revision \<leftarrow> parse_unsigned (f ! 5);
       Some (p_state, p_backend, p_manifest_revision, p_model_revision, p_inventory_revision)
     }"

text \<open>The eighteenth line, when there is one.\<close>

definition parse_authentication :: "string list \<Rightarrow> manifest_data \<Rightarrow> manifest_data option" where
  "parse_authentication lines d =
     (if length lines \<noteq> 18 then Some d
      else
        let a = split_fields (lines ! 17)
        in if length a \<noteq> 3 \<or> (a ! 0 \<noteq> ''hmac-sha256'' \<and> a ! 0 \<noteq> ''hmac-sha256-v2'')
              \<or> \<not> safe_text (a ! 1) OA_RUNTIME_TEXT_CAPACITY False
              \<or> length (a ! 2) \<noteq> 64 \<or> \<not> list_all lower_hex (a ! 2)
           then None
           else Some (d\<lparr>integrity_kind := OA_RUNTIME_INTEGRITY_HMAC_SHA256,
                        authentication_version := (if a ! 0 = ''hmac-sha256-v2'' then 2 else 1),
                        authentication_key_id := a ! 1, authentication_tag := a ! 2\<rparr>))"

definition parse_content :: "string \<Rightarrow> manifest_data option" where
  "parse_content text =
     do {
       require (text \<noteq> [] \<and> length text \<le> 65536 \<and> last text = NEWLINE \<and> NUL \<notin> set text);
       lines \<leftarrow> text_lines text;
       require ((length lines = 17 \<or> length lines = 18) \<and> lines ! 0 = MANIFEST_MAGIC);
       digest_marker \<leftarrow> find_text ([NEWLINE] @ ''sha256|'') text;
       let digest_fields = split_fields (lines ! 16);
       require (length digest_fields = 2 \<and> digest_fields ! 0 = ''sha256'' \<and> length (digest_fields ! 1) = 64
         \<and> sha256_text (take (digest_marker + 1) text) = digest_fields ! 1);
       let summary = split_fields (lines ! 1);
       (p_state, p_backend, p_manifest_revision, p_model_revision, p_inventory_revision) \<leftarrow> parse_summary summary;
       parsed \<leftarrow> parse_motors motor_places lines;
       parse_authentication lines
         \<lparr>md_config = \<lparr>struct_size = SIZEOF_MANIFEST_CONFIG, abi_version = OA_CONTROL_ABI_V1,
            manifest_revision = p_manifest_revision, model_revision = p_model_revision,
            mc_arm = (parsed_arm p_backend 0 (map fst (take 7 parsed)), parsed_arm p_backend 1 (map fst (drop 7 parsed)))\<rparr>,
          md_state = p_state, intended_backend = p_backend, md_inventory_revision = p_inventory_revision,
          inventory_fingerprint = (if summary ! 6 = ''-'' then [] else summary ! 6),
          evidence_kinds = map (\<lambda>(m, k, r, t). k) parsed, evidence_revisions = map (\<lambda>(m, k, r, t). r) parsed,
          evidence_records = map (\<lambda>(m, k, r, t). t) parsed, content_digest = digest_fields ! 1,
          integrity_kind = OA_RUNTIME_INTEGRITY_UNKEYED_SHA256, authenticated = False,
          checkpoint_authorized = False, authentication_version = 0, authentication_key_id = [],
          authentication_tag = [], loaded_from_file = False\<rparr>
     }"

definition parse_manifest :: "model_lib \<Rightarrow> bool \<Rightarrow> string \<Rightarrow> api \<Rightarrow> (runtime_status + manifest_data) \<times> api" where
  "parse_manifest lib no_memory text s =
     (case parse_content text of None \<Rightarrow> (Inl OA_RUNTIME_ECORRUPT, s)
      | Some d \<Rightarrow>
          (case validate_manifest_data lib no_memory d s of (ok, s1) \<Rightarrow>
             (if ok then Inr d else Inl OA_RUNTIME_ECORRUPT, s1)))"

section \<open>The patch of a calibration\<close>

record manifest_preview = header +
  pv_valid :: u32
  changed_motor_mask :: u32
  identity_change_mask :: u32
  mapping_change_mask :: u32
  limit_change_mask :: u32
  would_be_armable :: u32
  base_revision :: u64
  result_revision :: u64
  validation_status :: runtime_status

abbreviation SIZEOF_MANIFEST_PREVIEW :: u32 where "SIZEOF_MANIFEST_PREVIEW \<equiv> 56"

text \<open>\<open>std::strncmp\<close> of two arrays is zero.\<close>

definition strncmp_equal :: "nat \<Rightarrow> string \<Rightarrow> string \<Rightarrow> bool" where
  "strncmp_equal n a b \<longleftrightarrow> c_string (take n a) = c_string (take n b)"

fun evidence_code :: "evidence_kind \<Rightarrow> u32" where
  "evidence_code OA_EVIDENCE_MANUAL_FIXTURE = 1"
| "evidence_code OA_EVIDENCE_HARDWARE_QUALIFIED = 2"
| "evidence_code OA_EVIDENCE_SIMULATION_ONLY = 3"

text \<open>The kinds of evidence are the three of the enumeration, so the code's test that it is one of them holds.\<close>

definition patched_motor :: "mapping_patch \<Rightarrow> motor_config \<Rightarrow> motor_config" where
  "patched_motor patch m =
     m\<lparr>q_scale := mp_a patch, q_offset_rad := mp_b_rad patch, direction := (if mp_a patch > 0 then 1 else - 1)\<rparr>"

definition patched_arm :: "mapping_patch \<Rightarrow> arm_config \<Rightarrow> arm_config" where
  "patched_arm patch a =
     a\<lparr>ac_motor := (ac_motor a)[unat (mp_joint patch) := patched_motor patch (ac_motor a ! unat (mp_joint patch))]\<rparr>"

definition patched_manifest :: "mapping_patch \<Rightarrow> manifest_data \<Rightarrow> manifest_data" where
  "patched_manifest patch base =
     (let side = unat (mp_side patch); index = motor_offset side (unat (mp_joint patch));
          arms = mc_arm (md_config base)
      in base\<lparr>integrity_kind := OA_RUNTIME_INTEGRITY_UNKEYED_SHA256, authenticated := False,
           checkpoint_authorized := False, authentication_version := 0, authentication_key_id := [],
           authentication_tag := [], loaded_from_file := False,
           md_config := (md_config base)\<lparr>manifest_revision := replacement_revision patch,
             mc_arm := put side (patched_arm patch (pick side arms)) arms\<rparr>,
           md_state := (if intended_backend base = OA_RUNTIME_BACKEND_VIRTUAL then OA_RUNTIME_MANIFEST_ARMABLE
                        else OA_RUNTIME_MANIFEST_LOCALLY_VALID),
           evidence_kinds := (evidence_kinds base)[index := evidence_code (mp_evidence_kind patch)],
           evidence_revisions := (evidence_revisions base)[index :=
             if mp_fixture_revision patch \<noteq> 0 then mp_fixture_revision patch else mp_qualification_revision patch],
           evidence_records := (evidence_records base)[index := c_string (mp_evidence_record patch)]\<rparr>)"

definition empty_preview :: manifest_preview where
  "empty_preview =
     \<lparr>struct_size = SIZEOF_MANIFEST_PREVIEW, abi_version = OA_RUNTIME_ABI_VERSION, pv_valid = 0, changed_motor_mask = 0,
      identity_change_mask = 0, mapping_change_mask = 0, limit_change_mask = 0, would_be_armable = 0,
      base_revision = 0, result_revision = 0, validation_status = OA_RUNTIME_OK\<rparr>"

definition apply_patch ::
  "model_lib \<Rightarrow> bool \<Rightarrow> zero_signs \<Rightarrow> manifest_data \<Rightarrow> mapping_patch \<Rightarrow> api
     \<Rightarrow> (manifest_data option \<times> manifest_preview) \<times> api" where
  "apply_patch lib no_memory neg base patch s =
     (let preview = empty_preview\<lparr>base_revision := manifest_revision (md_config base),
            result_revision := replacement_revision patch, validation_status := OA_RUNTIME_EINVAL\<rparr>;
          index = motor_offset (unat (mp_side patch)) (unat (mp_joint patch));
          src = ac_motor (pick (unat (mp_side patch)) (mc_arm (md_config base))) ! unat (mp_joint patch)
      in if struct_size patch < SIZEOF_MAPPING_PATCH \<or> abi_version patch \<noteq> OA_COMMISSION_ABI_V1
            \<or> mp_expected_revision patch \<noteq> manifest_revision (md_config base)
            \<or> replacement_revision patch \<le> mp_expected_revision patch \<or> mp_side patch \<ge> 2 \<or> mp_joint patch \<ge> 7
            \<or> (mp_a patch \<noteq> 1 \<and> mp_a patch \<noteq> - 1) \<or> \<not> disfinite (mp_b_rad patch)
         then ((None, preview), s)
         else if \<not> strncmp_equal 32 (serial src) (mp_motor_serial patch)
            \<or> (intended_backend base \<noteq> OA_RUNTIME_BACKEND_VIRTUAL \<and> mp_evidence_kind patch = OA_EVIDENCE_SIMULATION_ONLY)
            \<or> \<not> safe_text (c_string (mp_evidence_record patch)) OA_COMMISSION_TEXT_CAPACITY False
         then ((None, preview\<lparr>validation_status := OA_RUNTIME_EIDENTITY\<rparr>), s)
         else
           let result = patched_manifest patch base
           in case validate_manifest_data lib no_memory result s of (ok, s1) \<Rightarrow>
                if \<not> ok then ((None, preview\<lparr>validation_status := OA_RUNTIME_EINVAL\<rparr>), s1)
                else
                  let bit = push_bit index 1 in
                  ((Some (result\<lparr>content_digest := sha256_text (manifest_canonical neg result False)\<rparr>),
                    preview\<lparr>pv_valid := 1, changed_motor_mask := bit, mapping_change_mask := bit,
                      would_be_armable := (if md_state result = OA_RUNTIME_MANIFEST_ARMABLE then 1 else 0),
                      validation_status := OA_RUNTIME_OK\<rparr>), s1))"

section \<open>The exported calls\<close>

type_synonym manifest_registry = "manifest_data handle_registry"

record manifest_summary = header +
  sm_state :: u32
  sm_intended_backend :: u32
  sm_manifest_revision :: u64
  sm_model_revision :: u64
  sm_inventory_revision :: u64
  sm_integrity_kind :: u32
  sm_authenticated :: u32
  sm_checkpoint_authorized :: u32
  sm_inventory_fingerprint :: string
  sm_content_sha256 :: string
  sm_authentication_key_id :: string

record motor_manifest = header +
  mm_side :: u32
  mm_joint :: u32
  mm_motor :: motor_config
  mm_evidence_kind :: u32
  mm_evidence_revision :: u64
  mm_evidence_record :: string

abbreviation SIZEOF_MANIFEST_SUMMARY :: u32 where "SIZEOF_MANIFEST_SUMMARY \<equiv> 248"
abbreviation SIZEOF_MOTOR_MANIFEST :: u32 where "SIZEOF_MOTOR_MANIFEST \<equiv> 304"

text \<open>\<open>no_memory\<close>: an allocation of the manifest or of its texts fails; \<open>no_node\<close>: that of the registry.\<close>

definition oa_runtime_manifest_create_virtual ::
  "zero_signs \<Rightarrow> bool \<Rightarrow> bool \<Rightarrow> u64 pointer \<Rightarrow> manifest_registry \<Rightarrow> runtime_status \<times> u64 pointer \<times> manifest_registry" where
  "oa_runtime_manifest_create_virtual neg no_memory no_node out r =
     (if out = None then (OA_RUNTIME_EINVAL, out, r)
      else if no_memory then (OA_RUNTIME_ENOMEM, Some 0, r)
      else case registry_insert kManifestTag no_node (make_virtual_manifest neg) r of
        (None, r1) \<Rightarrow> (OA_RUNTIME_ENOMEM, Some 0, r1)
      | (Some h, r1) \<Rightarrow> (OA_RUNTIME_OK, Some h, r1))"

definition oa_runtime_manifest_get_summary ::
  "u64 \<Rightarrow> manifest_summary pointer \<Rightarrow> manifest_registry \<Rightarrow> runtime_status \<times> manifest_summary pointer" where
  "oa_runtime_manifest_get_summary h out r =
     (if \<not> output_valid SIZEOF_MANIFEST_SUMMARY out then (OA_RUNTIME_EABI, out)
      else case registry_pin kManifestTag h r of None \<Rightarrow> (OA_RUNTIME_EINVAL, out)
      | Some d \<Rightarrow> (OA_RUNTIME_OK, Some
          \<lparr>struct_size = SIZEOF_MANIFEST_SUMMARY, abi_version = OA_RUNTIME_ABI_VERSION, sm_state = md_state d,
           sm_intended_backend = intended_backend d, sm_manifest_revision = manifest_revision (md_config d),
           sm_model_revision = model_revision (md_config d), sm_inventory_revision = md_inventory_revision d,
           sm_integrity_kind = integrity_kind d, sm_authenticated = (if authenticated d then 1 else 0),
           sm_checkpoint_authorized = (if checkpoint_authorized d then 1 else 0),
           sm_inventory_fingerprint = char_array OA_RUNTIME_DIGEST_CAPACITY (inventory_fingerprint d),
           sm_content_sha256 = char_array OA_RUNTIME_DIGEST_CAPACITY (content_digest d),
           sm_authentication_key_id = char_array OA_RUNTIME_TEXT_CAPACITY (authentication_key_id d)\<rparr>))"

text \<open>The fields of the motor that the record repeats one by one are its configuration here.\<close>

definition oa_runtime_manifest_get_motor ::
  "u64 \<Rightarrow> u32 \<Rightarrow> u32 \<Rightarrow> motor_manifest pointer \<Rightarrow> manifest_registry \<Rightarrow> runtime_status \<times> motor_manifest pointer" where
  "oa_runtime_manifest_get_motor h side joint out r =
     (if \<not> output_valid SIZEOF_MOTOR_MANIFEST out then (OA_RUNTIME_EABI, out)
      else case registry_pin kManifestTag h r of None \<Rightarrow> (OA_RUNTIME_EINVAL, out)
      | Some d \<Rightarrow>
          if side \<ge> 2 \<or> joint \<ge> 7 then (OA_RUNTIME_EINVAL, out)
          else
            let i = motor_offset (unat side) (unat joint)
            in (OA_RUNTIME_OK, Some
              \<lparr>struct_size = SIZEOF_MOTOR_MANIFEST, abi_version = OA_RUNTIME_ABI_VERSION, mm_side = side,
               mm_joint = joint,
               mm_motor = ac_motor (pick (unat side) (mc_arm (md_config d))) ! unat joint,
               mm_evidence_kind = evidence_kinds d ! i, mm_evidence_revision = evidence_revisions d ! i,
               mm_evidence_record = char_array OA_RUNTIME_TEXT_CAPACITY (evidence_records d ! i)\<rparr>))"

definition oa_runtime_manifest_destroy :: "u64 \<Rightarrow> manifest_registry \<Rightarrow> manifest_registry" where
  "oa_runtime_manifest_destroy h r = registry_drop kManifestTag h r"

end
