(* ===== verification/Manifest_Text.thy ===== *)
theory Manifest_Text
  imports Runtime_Manifest
begin

text \<open>
  The text of a manifest is read back: every manifest that the library accepts, whose numbers are
  doubles and whose serial numbers are safe text, is the same after it is written and read, up to
  what the text does not carry.
\<close>

section \<open>Fields and lines\<close>

lemma split_no_bar: "CHR ''|'' \<notin> set f \<Longrightarrow> split_fields f = [f]"
  by (induction f) auto

lemma split_bar: "CHR ''|'' \<notin> set f \<Longrightarrow> split_fields (f @ CHR ''|'' # s) = f # split_fields s"
  by (induction f) auto

lemma split_bars:
  "list_all (\<lambda>f. CHR ''|'' \<notin> set f) fs \<Longrightarrow> CHR ''|'' \<notin> set r \<Longrightarrow>
     split_fields (concat (map bar fs) @ r) = fs @ [r]"
  by (induction fs) (simp_all add: split_no_bar split_bar bar_def)

lemma text_lines_cons:
  assumes "NEWLINE \<notin> set l" "length l \<le> 2048"
  shows "text_lines (l @ NEWLINE # s) = map_option (Cons l) (text_lines s)"
proof -
  have "takeWhile (\<lambda>ch. ch \<noteq> NEWLINE) (l @ NEWLINE # s) = l" "dropWhile (\<lambda>ch. ch \<noteq> NEWLINE) (l @ NEWLINE # s) = NEWLINE # s"
    using assms(1) by (auto simp: takeWhile_append dropWhile_append)
  then show ?thesis using assms(2) by (subst text_lines.simps) (simp add: Let_def)
qed

definition line :: "string \<Rightarrow> string" where
  "line l = l @ [NEWLINE]"

definition short_line :: "string \<Rightarrow> bool" where
  "short_line l \<longleftrightarrow> NEWLINE \<notin> set l \<and> NUL \<notin> set l \<and> length l \<le> 2048"

lemma line_append [simp]: "line l @ s = l @ NEWLINE # s" and length_line [simp]: "length (line l) = length l + 1"
  by (simp_all add: line_def)

lemma text_lines_concat:
  "list_all short_line ls \<Longrightarrow> text_lines (concat (map line ls)) = Some ls"
proof (induction ls)
  case Nil
  then show ?case by (simp add: text_lines.simps)
next
  case (Cons l ls)
  then show ?case using text_lines_cons [of l "concat (map line ls)"] by (simp add: short_line_def)
qed

lemma find_skip:
  assumes "NEWLINE \<notin> set l"
  shows "find_text (NEWLINE # p) (l @ s) = map_option (\<lambda>n. length l + n) (find_text (NEWLINE # p) s)"
  using assms
proof (induction l)
  case Nil
  then show ?case by (cases "find_text (NEWLINE # p) s") simp_all
next
  case (Cons ch l)
  then show ?case by (cases "find_text (NEWLINE # p) s") auto
qed

text \<open>The first line, after the first one, that begins with the pattern.\<close>

lemma find_line:
  assumes "NEWLINE \<notin> set l" "list_all short_line ls" "list_all (\<lambda>l. \<forall>x. take (length p) (l @ x) \<noteq> p) ls"
  shows "find_text (NEWLINE # p) (l @ NEWLINE # concat (map line ls) @ p @ s) = Some (length l + length (concat (map line ls)))"
  using assms
proof (induction ls arbitrary: l)
  case Nil
  then show ?case by (simp add: find_skip)
next
  case (Cons m ls)
  let ?rest = "m @ NEWLINE # concat (map line ls) @ p @ s"
  have "take (length p) ?rest \<noteq> p" using Cons.prems(3) by simp
  then have "find_text (NEWLINE # p) (NEWLINE # ?rest) = map_option Suc (find_text (NEWLINE # p) ?rest)"
    by simp
  also have "\<dots> = Some (length (concat (map line (m # ls))))"
    using Cons.IH [of m] Cons.prems by (simp add: short_line_def)
  finally show ?case using Cons.prems(1) by (simp add: find_skip)
qed

section \<open>What the text keeps of a manifest\<close>

definition stored_motor :: "nat \<Rightarrow> motor_config \<Rightarrow> motor_config" where
  "stored_motor joint m =
     m\<lparr>struct_size := SIZEOF_MOTOR_CONFIG, abi_version := OA_CONTROL_ABI_V1, joint_index := of_nat joint,
       serial := char_array 32 (c_string (serial m)), joint_name := char_array 48 (c_string (joint_name m))\<rparr>"

definition stored_arm :: "u32 \<Rightarrow> nat \<Rightarrow> arm_config \<Rightarrow> arm_config" where
  "stored_arm intended side a = parsed_arm intended side (map (\<lambda>j. stored_motor j (ac_motor a ! j)) [0 ..< 7])"

definition stored_form :: "manifest_data \<Rightarrow> manifest_data" where
  "stored_form d =
     d\<lparr>md_config := (md_config d)\<lparr>struct_size := SIZEOF_MANIFEST_CONFIG, abi_version := OA_CONTROL_ABI_V1,
         mc_arm := (stored_arm (intended_backend d) 0 (fst (mc_arm (md_config d))),
                    stored_arm (intended_backend d) 1 (snd (mc_arm (md_config d))))\<rparr>,
       integrity_kind := OA_RUNTIME_INTEGRITY_UNKEYED_SHA256, authenticated := False, checkpoint_authorized := False,
       authentication_version := 0, authentication_key_id := [], authentication_tag := [], loaded_from_file := False\<rparr>"

text \<open>
  What the C++ types ensure (arrays of their length, doubles, a 32-bit direction) and, beyond the
  validation, that the serial number is safe text.
\<close>

definition writable_motor :: "motor_config \<Rightarrow> bool" where
  "writable_motor m \<longleftrightarrow>
     list_all dbl_ok [q_scale m, q_offset_rad m, lower_rad m, upper_rad m, max_velocity_rad_s m,
       max_acceleration_rad_s2 m, max_jerk_rad_s3 m, pmax_rad m, vmax_rad_s m, tmax_nm m, gear_ratio m]
     \<and> - (2 ^ 31) \<le> direction m \<and> direction m < 2 ^ 31 \<and> safe_text (c_string (serial m)) 32 False"

definition writable :: "manifest_data \<Rightarrow> bool" where
  "writable d \<longleftrightarrow>
     length (evidence_kinds d) = 14 \<and> length (evidence_revisions d) = 14 \<and> length (evidence_records d) = 14
     \<and> all_both (\<lambda>a. length (ac_motor a) = 7 \<and> list_all writable_motor (ac_motor a)) (mc_arm (md_config d))"

section \<open>The line of a motor\<close>

lemma safe_char_not: "safe_char ch \<Longrightarrow> ch \<noteq> CHR ''|'' \<and> ch \<noteq> NEWLINE \<and> ch \<noteq> NUL"
  by (auto simp: safe_char_def Let_def)

lemma safe_text_chars: "safe_text t n False \<Longrightarrow> list_all safe_char t \<and> length t < n \<and> t \<noteq> []"
  by (auto simp: safe_text_def split: if_splits)

definition plain_char :: "char \<Rightarrow> bool" where
  "plain_char ch \<longleftrightarrow> ch \<noteq> NEWLINE \<and> ch \<noteq> NUL"

definition field_char :: "char \<Rightarrow> bool" where
  "field_char ch \<longleftrightarrow> plain_char ch \<and> ch \<noteq> CHR ''|''"

lemma number_field: "list_all number_char s \<Longrightarrow> list_all field_char s"
  using number_char_not by (auto simp: list_all_iff field_char_def plain_char_def)

lemma safe_field: "list_all safe_char s \<Longrightarrow> list_all field_char s"
  using safe_char_not by (auto simp: list_all_iff field_char_def plain_char_def)

lemma field_no_bar: "list_all field_char s \<Longrightarrow> CHR ''|'' \<notin> set s"
  by (auto simp: list_all_iff field_char_def)

lemma field_plain: "list_all field_char s \<Longrightarrow> list_all plain_char s"
  by (auto simp: list_all_iff field_char_def)

lemma length_decimal_word: "length (decimal (unat (w :: 'w :: len word))) \<le> 20" if "LENGTH('w) \<le> 64"
proof -
  have "unat w < 2 ^ LENGTH('w)" by (rule unsigned_less)
  also have "\<dots> \<le> 2 ^ 64" using that by (intro power_increasing) simp_all
  also have "(2 :: nat) ^ 64 < 10 ^ Suc 19" by simp
  finally show ?thesis using length_decimal [of "unat w" 19] by simp
qed

lemma length_signed:
  assumes "- (2 ^ 31) \<le> i" "i < 2 ^ 31"
  shows "length (signed_decimal i) \<le> 20"
proof -
  have "nat (- i) < 10 ^ Suc 17" "nat i < 10 ^ Suc 17" using assms by simp_all
  then have "length (decimal (nat (- i))) \<le> 18" "length (decimal (nat i)) \<le> 18"
    using length_decimal [of _ 17] by simp_all
  then show ?thesis by (simp add: signed_decimal_def)
qed

lemma motor_numbers_fields:
  assumes "writable_motor m" "side < 2" "joint < 7"
  shows "list_all (\<lambda>f. list_all field_char f \<and> length f \<le> 37) (motor_numbers neg side joint m)"
proof -
  have small: "length (decimal side) \<le> 37" "length (decimal joint) \<le> 37"
    using length_decimal [of side 0] length_decimal [of joint 0] assms(2,3) by simp_all
  have word: "length (decimal (unat (w :: u32))) \<le> 37" for w
    using length_decimal_word [of w] by simp
  have "length (signed_decimal (direction m)) \<le> 37"
    using length_signed [of "direction m"] assms(1) by (simp add: writable_motor_def)
  with assms(1) small word show ?thesis
    by (simp add: motor_numbers_def writable_motor_def number_field double_text_ok)
qed

lemma c_string_padded: "safe_text s n False \<Longrightarrow> c_string (char_array n s) = s"
  using safe_text_chars [of s n] safe_char_not by (intro c_string_array) (auto simp: list_all_iff)

lemma expected_name_safe:
  assumes "side < 2" "joint < 7"
  shows "safe_text (expected_name side joint) 48 False"
proof -
  have "joint \<in> {0, 1, 2, 3, 4, 5, 6}" using assms(2) by auto
  then have "safe_char (digit (joint + 1))"
    by (elim insertE emptyE) (simp_all add: digit_def safe_char_def)
  then show ?thesis by (simp add: safe_text_def expected_name_def) (simp add: safe_char_def)
qed

lemma bars_plain:
  "list_all (\<lambda>f. list_all field_char f \<and> length f \<le> n) fs \<Longrightarrow>
     list_all plain_char (concat (map bar fs)) \<and> length (concat (map bar fs)) \<le> Suc n * length fs"
proof (induction fs)
  case (Cons f fs)
  have "plain_char CHR ''|''" by (simp add: plain_char_def)
  with Cons show ?case by (simp add: bar_def field_plain)
qed simp

text \<open>What the reader gets from the fields of a line.\<close>

definition line_fields :: "(nat \<Rightarrow> bool) \<Rightarrow> manifest_data \<Rightarrow> nat \<Rightarrow> nat \<Rightarrow> string list" where
  "line_fields neg d side joint =
     (let m = ac_motor (pick side (mc_arm (md_config d))) ! joint; i = motor_offset side joint
      in ''motor'' # motor_numbers neg side joint m
         @ [c_string (serial m), c_string (joint_name m), decimal (unat (evidence_kinds d ! i)),
            decimal (unat (evidence_revisions d ! i)), evidence_records d ! i])"

text \<open>A manifest whose motors can be written and whose texts are in order.\<close>

definition motor_at :: "manifest_data \<Rightarrow> nat \<Rightarrow> nat \<Rightarrow> motor_config" where
  "motor_at d side joint = ac_motor (pick side (mc_arm (md_config d))) ! joint"

definition place_ok :: "manifest_data \<Rightarrow> nat \<Rightarrow> nat \<Rightarrow> bool" where
  "place_ok d side joint \<longleftrightarrow> side < 2 \<and> joint < 7 \<and> writable_motor (motor_at d side joint)
     \<and> c_string (joint_name (motor_at d side joint)) = expected_name side joint
     \<and> safe_text (evidence_records d ! motor_offset side joint) OA_RUNTIME_TEXT_CAPACITY False"

lemma motor_line_split:
  assumes "place_ok d side joint"
  shows "split_fields (motor_line neg d side joint) = line_fields neg d side joint"
    "short_line (motor_line neg d side joint)" "\<forall>x. take 7 (motor_line neg d side joint @ x) \<noteq> ''sha256|''"
proof -
  let ?m = "motor_at d side joint" and ?i = "motor_offset side joint"
  define fs where "fs = ''motor'' # motor_numbers neg side joint ?m
    @ [c_string (serial ?m), c_string (joint_name ?m), decimal (unat (evidence_kinds d ! ?i)),
       decimal (unat (evidence_revisions d ! ?i))]"
  define r where "r = evidence_records d ! ?i"
  have line: "motor_line neg d side joint = concat (map bar fs) @ r"
    by (simp add: motor_line_def fs_def r_def Let_def motor_at_def bar_def)
  have name: "safe_text (c_string (joint_name ?m)) 48 False"
    using assms expected_name_safe by (simp add: place_ok_def)
  have m: "writable_motor ?m" "side < 2" "joint < 7" "safe_text r 64 False"
    using assms by (simp_all add: place_ok_def r_def)
  have s: "safe_text (c_string (serial ?m)) 32 False" using m(1) by (simp add: writable_motor_def)
  have "length (decimal (unat (evidence_kinds d ! ?i))) \<le> 20" "length (decimal (unat (evidence_revisions d ! ?i))) \<le> 20"
    by (rule length_decimal_word, simp)+
  moreover have "list_all field_char ''motor''" by (simp add: field_char_def plain_char_def)
  moreover have "list_all (\<lambda>f. list_all field_char f \<and> length f \<le> 47) (motor_numbers neg side joint ?m)"
    using motor_numbers_fields [OF m(1-3)] by (rule list.pred_mono_strong) auto
  moreover have "list_all field_char (c_string (serial ?m))" "length (c_string (serial ?m)) \<le> 47"
    "list_all field_char (c_string (joint_name ?m))" "length (c_string (joint_name ?m)) \<le> 47"
    using safe_text_chars [OF s] safe_text_chars [OF name] safe_field by auto
  ultimately have fs: "list_all (\<lambda>f. list_all field_char f \<and> length f \<le> 47) fs"
    by (simp add: fs_def number_field)
  have rec: "list_all field_char r" "length r < 64" using safe_text_chars [OF m(4)] safe_field by auto
  show "split_fields (motor_line neg d side joint) = line_fields neg d side joint"
    unfolding line using fs rec field_no_bar
    by (subst split_bars) (auto simp: list_all_iff fs_def r_def line_fields_def Let_def motor_at_def)
  have "list_all plain_char (concat (map bar fs) @ r)" "length (concat (map bar fs)) \<le> 48 * length fs"
    using bars_plain [OF fs] field_plain [OF rec(1)] by simp_all
  moreover have "length fs = 29" by (simp add: fs_def motor_numbers_def)
  ultimately show "short_line (motor_line neg d side joint)"
    unfolding line short_line_def using rec(2) by (auto simp: list_all_iff plain_char_def)
  show "\<forall>x. take 7 (motor_line neg d side joint @ x) \<noteq> ''sha256|''" by (simp add: motor_line_def Let_def)
qed

lemma require_bind [simp]: "(require b \<bind> f) = (if b then f () else None)"
  by (simp add: require_def)

lemma parse_line_fields:
  assumes "place_ok d side joint"
  shows "parse_motor side joint (line_fields neg d side joint)
    = Some (stored_motor joint (motor_at d side joint), evidence_kinds d ! motor_offset side joint,
        evidence_revisions d ! motor_offset side joint, evidence_records d ! motor_offset side joint)"
proof -
  let ?m = "motor_at d side joint"
  have m: "writable_motor ?m" "side < 2" "joint < 7" and r: "safe_text (evidence_records d ! motor_offset side joint) 64 False"
    and n: "safe_text (c_string (joint_name ?m)) 48 False"
    using assms expected_name_safe by (simp_all add: place_ok_def)
  have dir: "parse_i32 (signed_decimal (direction ?m)) = Some (direction ?m)"
    using m(1) by (intro parse_i32_decimal) (simp_all add: writable_motor_def)
  have place: "parse_unsigned (decimal side) = Some (of_nat side :: u32)" "parse_unsigned (decimal joint) = Some (of_nat joint :: u32)"
    using parse_unsigned_decimal [of "of_nat side :: u32"] parse_unsigned_decimal [of "of_nat joint :: u32"] m(2,3)
    by (simp_all add: unat_of_nat)
  show ?thesis
    using m(1) r n dir place
    by (simp add: parse_motor_def line_fields_def Let_def motor_numbers_def motor_at_def [symmetric] writable_motor_def
        parse_double_text stored_motor_def nth_Cons')
qed

section \<open>The other lines\<close>

lemma sha256_text_form: "length (sha256_text s) = 64" "list_all lower_hex (sha256_text s)"
proof -
  show "length (sha256_text s) = 64" by (simp add: sha256_text_def sha256_hex_reference)
  have "list_all lower_hex ''0123456789abcdef''" by (simp add: lower_hex_def)
  moreover have "set (sha256_text s) \<subseteq> set ''0123456789abcdef''"
    unfolding sha256_text_def sha256_hex_reference by (rule set_hex_bytes)
  ultimately show "list_all lower_hex (sha256_text s)" unfolding list_all_iff by blast
qed

lemma hex_field: "list_all lower_hex s \<Longrightarrow> list_all field_char s"
  by (auto simp: list_all_iff lower_hex_def field_char_def plain_char_def Let_def)

definition fingerprint_ok :: "manifest_data \<Rightarrow> bool" where
  "fingerprint_ok d \<longleftrightarrow> inventory_fingerprint d = []
     \<or> length (inventory_fingerprint d) = 64 \<and> list_all lower_hex (inventory_fingerprint d)"

definition summary_fields :: "manifest_data \<Rightarrow> string list" where
  "summary_fields d =
     [''summary'', decimal (unat (md_state d)), decimal (unat (intended_backend d)),
      decimal (unat (manifest_revision (md_config d))), decimal (unat (model_revision (md_config d))),
      decimal (unat (md_inventory_revision d)),
      if inventory_fingerprint d = [] then ''-'' else inventory_fingerprint d]"

lemma summary_split:
  assumes "fingerprint_ok d"
  shows "split_fields (summary_line d) = summary_fields d" "short_line (summary_line d)"
    "\<forall>x. take 7 (summary_line d @ x) \<noteq> ''sha256|''"
    "parse_summary (summary_fields d) = Some (md_state d, intended_backend d, manifest_revision (md_config d),
       model_revision (md_config d), md_inventory_revision d)"
    "(if summary_fields d ! 6 = ''-'' then [] else summary_fields d ! 6) = inventory_fingerprint d"
proof -
  define fs where "fs = [''summary'', decimal (unat (md_state d)), decimal (unat (intended_backend d)),
      decimal (unat (manifest_revision (md_config d))), decimal (unat (model_revision (md_config d))),
      decimal (unat (md_inventory_revision d))]"
  define r where "r = (if inventory_fingerprint d = [] then ''-'' else inventory_fingerprint d)"
  have line: "summary_line d = concat (map bar fs) @ r"
    by (simp add: summary_line_def fs_def r_def bar_def)
  have "list_all field_char ''summary''" "list_all field_char ''-''" by (simp_all add: field_char_def plain_char_def)
  moreover have "length (decimal (unat (w :: u32))) \<le> 20" "length (decimal (unat (v :: u64))) \<le> 20" for v w
    by (rule length_decimal_word, simp)+
  ultimately have fs: "list_all (\<lambda>f. list_all field_char f \<and> length f \<le> 20) fs" and r: "list_all field_char r" "length r \<le> 64"
    using assms hex_field by (auto simp: fs_def r_def number_field fingerprint_ok_def)
  show "split_fields (summary_line d) = summary_fields d"
    unfolding line using fs r field_no_bar
    by (subst split_bars) (auto simp: list_all_iff fs_def r_def summary_fields_def)
  have "list_all plain_char (summary_line d)" "length (concat (map bar fs)) \<le> 21 * length fs"
    unfolding line using bars_plain [OF fs] field_plain [OF r(1)] by simp_all
  moreover have "length fs = 6" by (simp add: fs_def)
  ultimately show "short_line (summary_line d)"
    unfolding short_line_def using r(2) by (auto simp: list_all_iff plain_char_def line)
  show "\<forall>x. take 7 (summary_line d @ x) \<noteq> ''sha256|''" by (simp add: summary_line_def)
  show "parse_summary (summary_fields d) = Some (md_state d, intended_backend d, manifest_revision (md_config d),
       model_revision (md_config d), md_inventory_revision d)"
    by (simp add: parse_summary_def summary_fields_def)
  have "lower_hex (CHR ''-'') = False" by (simp add: lower_hex_def)
  then have "inventory_fingerprint d \<noteq> ''-''" using assms by (auto simp: fingerprint_ok_def)
  then show "(if summary_fields d ! 6 = ''-'' then [] else summary_fields d ! 6) = inventory_fingerprint d"
    by (simp add: summary_fields_def)
qed

section \<open>The whole text\<close>

definition manifest_lines :: "zero_signs \<Rightarrow> manifest_data \<Rightarrow> string list" where
  "manifest_lines neg d = MANIFEST_MAGIC # summary_line d
     # map (\<lambda>(side, joint). motor_line (neg side joint) d side joint) motor_places"

lemma canonical_lines: "manifest_canonical neg d False = concat (map line (manifest_lines neg d))"
  by (simp add: manifest_canonical_def manifest_lines_def motor_places_def line_def)

definition places_ok :: "manifest_data \<Rightarrow> bool" where
  "places_ok d \<longleftrightarrow> (\<forall>(side, joint) \<in> set motor_places. place_ok d side joint)"

lemma magic_short: "short_line MANIFEST_MAGIC"
  by (simp add: short_line_def MANIFEST_MAGIC_def)

lemma lines_short:
  assumes "places_ok d" "fingerprint_ok d"
  shows "list_all short_line (manifest_lines neg d)"
    "list_all (\<lambda>l. \<forall>x. take 7 (l @ x) \<noteq> ''sha256|'') (tl (manifest_lines neg d))"
  using assms(1) summary_split [OF assms(2)] motor_line_split magic_short
  by (auto simp: manifest_lines_def places_ok_def list_all_iff)

lemma parse_motors_lines:
  assumes "\<forall>(side, joint) \<in> set ps. place_ok d side joint
      \<and> lines ! (2 + motor_offset side joint) = motor_line (neg side joint) d side joint"
  shows "parse_motors ps lines = Some (map (\<lambda>(side, joint). (stored_motor joint (motor_at d side joint),
      evidence_kinds d ! motor_offset side joint, evidence_revisions d ! motor_offset side joint,
      evidence_records d ! motor_offset side joint)) ps)"
  using assms
proof (induction ps)
  case (Cons p ps)
  obtain side joint where p: "p = (side, joint)" by fastforce
  then show ?case using Cons motor_line_split(1) parse_line_fields by simp
qed simp

lemma lines_at:
  assumes "(side, joint) \<in> set motor_places"
  shows "(manifest_lines neg d @ ls) ! (2 + motor_offset side joint) = motor_line (neg side joint) d side joint"
  using assms by (auto simp: manifest_lines_def motor_places_def motor_offset_def)

lemma nth_14:
  assumes "length xs = 14"
  shows "[xs ! 0, xs ! 1, xs ! 2, xs ! 3, xs ! 4, xs ! 5, xs ! 6, xs ! 7, xs ! 8, xs ! 9, xs ! 10, xs ! 11, xs ! 12, xs ! 13] = xs"
proof -
  have "map ((!) xs) [0 ..< 14] = xs" using map_nth [of xs] assms by simp
  moreover have "[0 ..< 14] = [0, 1, 2, 3, 4, 5, 6, 7, 8, 9, 10, 11, 12, 13 :: nat]" by (simp add: upt_rec)
  ultimately show ?thesis by simp
qed

lemma length_lines: "list_all short_line ls \<Longrightarrow> length (concat (map line ls)) \<le> 2049 * length ls"
  by (induction ls) (simp_all add: short_line_def)

lemma lines_no_nul: "list_all short_line ls \<Longrightarrow> NUL \<notin> set (concat (map line ls))"
  by (induction ls) (simp_all add: short_line_def)

text \<open>
  The text is read when the digest in it is that of the lines before, and refused when it is not. A
  line after the digest is the signature.
\<close>

definition signature_lines :: "string list \<Rightarrow> bool" where
  "signature_lines ls \<longleftrightarrow> length ls \<le> 1 \<and> list_all short_line ls"

lemma last_lines: "ls \<noteq> [] \<Longrightarrow> last (concat (map line ls)) = NEWLINE \<and> concat (map line ls) \<noteq> []"
  by (induction ls rule: rev_induct) (auto simp: line_def)

lemma parse_content_signed:
  assumes "places_ok d" "fingerprint_ok d" "writable d" "length digest = 64" "list_all lower_hex digest" "signature_lines extra"
  shows "parse_content (manifest_canonical neg d False @ ''sha256|'' @ digest @ NEWLINE # concat (map line extra)) =
    (if digest = sha256_text (manifest_canonical neg d False)
     then parse_authentication (manifest_lines neg d @ (''sha256|'' @ digest) # extra) (stored_form (d\<lparr>content_digest := digest\<rparr>))
     else None)"
proof -
  define ls where "ls = manifest_lines neg d"
  define digest_line where "digest_line = ''sha256|'' @ digest"
  define body where "body = manifest_canonical neg d False @ ''sha256|'' @ digest @ NEWLINE # concat (map line extra)"
  note short = lines_short [OF assms(1,2), of neg, folded ls_def]
  have hex: "length digest = 64" "list_all field_char digest" using assms(4,5) hex_field by auto
  have dl: "short_line digest_line"
    using hex by (auto simp: digest_line_def short_line_def list_all_iff field_char_def plain_char_def)
  have "body = concat (map line ls) @ ''sha256|'' @ digest @ NEWLINE # concat (map line extra)"
    unfolding body_def ls_def canonical_lines by (rule refl)
  then have body: "body = concat (map line (ls @ digest_line # extra))" and body2: "body = concat (map line ls) @ ''sha256|'' @ digest @ NEWLINE # concat (map line extra)"
    by (simp_all add: digest_line_def line_def)
  have all_short: "list_all short_line (ls @ digest_line # extra)" using short(1) dl assms(6) by (simp add: signature_lines_def)
  have len: "length ls = 16" by (simp add: ls_def manifest_lines_def motor_places_def)
  have guard: "body \<noteq> [] \<and> length body \<le> 65536 \<and> last body = NEWLINE \<and> NUL \<notin> set body"
  proof -
    have "length body \<le> 2049 * 18"
      using length_lines [OF all_short] len assms(6) unfolding body signature_lines_def by simp
    moreover have "NUL \<notin> set body" using lines_no_nul [OF all_short] unfolding body .
    moreover have "body \<noteq> [] \<and> last body = NEWLINE" unfolding body using last_lines by blast
    ultimately show ?thesis by simp
  qed
  have lines: "text_lines body = Some (ls @ digest_line # extra)"
    unfolding body by (rule text_lines_concat [OF all_short])
  obtain ls' where ls': "ls = MANIFEST_MAGIC # ls'" by (simp add: ls_def manifest_lines_def)
  have seven_chars: "length ''sha256|'' = 7" by simp
  have "list_all (\<lambda>l. \<forall>x. take (length ''sha256|'') (l @ x) \<noteq> ''sha256|'') ls'"
    unfolding seven_chars using short(2) unfolding ls' by (simp only: list.sel)
  then have "find_text (NEWLINE # ''sha256|'') (MANIFEST_MAGIC @ NEWLINE # concat (map line ls') @ ''sha256|'' @ digest @ NEWLINE # concat (map line extra))
      = Some (length MANIFEST_MAGIC + length (concat (map line ls')))"
    using short(1) magic_short unfolding ls' by (intro find_line) (simp_all only: short_line_def list.pred_inject simp_thms)
  then have marker: "find_text ([NEWLINE] @ ''sha256|'') body = Some (length (concat (map line ls)) - 1)"
    unfolding body2 ls' by simp
  have "take (length (concat (map line ls)) - 1 + 1) body = manifest_canonical neg d False"
    unfolding body2 canonical_lines ls_def [symmetric] by (simp add: ls')
  then have digest: "sha256_text (take (length (concat (map line ls)) - 1 + 1) body) = sha256_text (manifest_canonical neg d False)"
    by simp
  have "split_fields digest_line = [''sha256'', digest]"
    using split_bar [of "''sha256''" digest] split_no_bar [OF field_no_bar [OF hex(2)]]
    by (simp add: digest_line_def)
  then have dsplit: "split_fields ((ls @ digest_line # extra) ! 16) = [''sha256'', digest]"
    using len by (simp add: nth_append)
  have ssplit: "split_fields ((ls @ digest_line # extra) ! 1) = summary_fields d"
    using summary_split(1) [OF assms(2)] by (simp add: ls_def manifest_lines_def)
  have motors: "parse_motors motor_places (ls @ digest_line # extra) = Some (map (\<lambda>(side, joint). (stored_motor joint (motor_at d side joint),
      evidence_kinds d ! motor_offset side joint, evidence_revisions d ! motor_offset side joint,
      evidence_records d ! motor_offset side joint)) motor_places)"
    using assms(1) lines_at by (intro parse_motors_lines [where neg = neg]) (auto simp: ls_def places_ok_def)
  have seven: "[0 ..< 7] = [0, 1, 2, 3, 4, 5, 6 :: nat]" by (simp add: upt_rec)
  have w: "length (evidence_kinds d) = 14" "length (evidence_revisions d) = 14" "length (evidence_records d) = 14"
    using assms(3) by (simp_all add: writable_def)
  have first: "(ls @ digest_line # extra) ! 0 = MANIFEST_MAGIC" "length (ls @ digest_line # extra) = 17 \<or> length (ls @ digest_line # extra) = 18"
    using len assms(6) by (auto simp: ls' signature_lines_def le_Suc_eq)
  define parsed where "parsed = map (\<lambda>(side, joint). (stored_motor joint (motor_at d side joint),
      evidence_kinds d ! motor_offset side joint, evidence_revisions d ! motor_offset side joint,
      evidence_records d ! motor_offset side joint)) motor_places"
  have parsed: "map fst (take 7 parsed) = map (\<lambda>j. stored_motor j (motor_at d 0 j)) [0 ..< 7]"
    "map fst (drop 7 parsed) = map (\<lambda>j. stored_motor j (motor_at d 1 j)) [0 ..< 7]"
    "map (\<lambda>(m, k, r, t). k) parsed = evidence_kinds d" "map (\<lambda>(m, k, r, t). r) parsed = evidence_revisions d"
    "map (\<lambda>(m, k, r, t). t) parsed = evidence_records d"
    using nth_14 [OF w(1)] nth_14 [OF w(2)] nth_14 [OF w(3)]
    by (simp_all add: parsed_def motor_places_def motor_offset_def seven)
  have arms: "parsed_arm (intended_backend d) 0 (map (\<lambda>j. stored_motor j (motor_at d 0 j)) [0 ..< 7])
      = stored_arm (intended_backend d) 0 (fst (mc_arm (md_config d)))"
    "parsed_arm (intended_backend d) 1 (map (\<lambda>j. stored_motor j (motor_at d 1 j)) [0 ..< 7])
      = stored_arm (intended_backend d) 1 (snd (mc_arm (md_config d)))"
    by (simp_all add: stored_arm_def motor_at_def pick_def)
  have form: "stored_form (d\<lparr>content_digest := x\<rparr>) =
     \<lparr>md_config = \<lparr>struct_size = SIZEOF_MANIFEST_CONFIG, abi_version = OA_CONTROL_ABI_V1,
        manifest_revision = manifest_revision (md_config d), model_revision = model_revision (md_config d),
        mc_arm = (stored_arm (intended_backend d) 0 (fst (mc_arm (md_config d))),
                  stored_arm (intended_backend d) 1 (snd (mc_arm (md_config d))))\<rparr>,
      md_state = md_state d, intended_backend = intended_backend d, md_inventory_revision = md_inventory_revision d,
      inventory_fingerprint = inventory_fingerprint d, evidence_kinds = evidence_kinds d,
      evidence_revisions = evidence_revisions d, evidence_records = evidence_records d, content_digest = x,
      integrity_kind = OA_RUNTIME_INTEGRITY_UNKEYED_SHA256, authenticated = False,
      checkpoint_authorized = False, authentication_version = 0, authentication_key_id = [],
      authentication_tag = [], loaded_from_file = False\<rparr>" for x
    by (simp add: stored_form_def)
  have result: "parse_content body = (if digest = sha256_text (manifest_canonical neg d False) then parse_authentication (ls @ digest_line # extra)
     (stored_form (d\<lparr>content_digest := digest\<rparr>)) else None)"
    using guard first digest hex(1) summary_split(4,5) [OF assms(2)]
    by (simp add: parse_content_def lines marker [simplified] motors [folded parsed_def] dsplit ssplit [unfolded One_nat_def]
        parsed arms arms(2) [unfolded One_nat_def] form)
  show ?thesis unfolding body_def [symmetric] ls_def [symmetric] digest_line_def [symmetric] by (rule result)
qed

lemma parse_content_digest:
  assumes "places_ok d" "fingerprint_ok d" "writable d" "length digest = 64" "list_all lower_hex digest"
  shows "parse_content (manifest_canonical neg d False @ ''sha256|'' @ digest @ [NEWLINE]) =
    (if digest = sha256_text (manifest_canonical neg d False) then Some (stored_form (d\<lparr>content_digest := digest\<rparr>)) else None)"
proof -
  have "length (manifest_lines neg d @ [''sha256|'' @ digest]) \<noteq> 18" by (simp add: manifest_lines_def motor_places_def)
  then show ?thesis using parse_content_signed [OF assms, of "[]" neg]
    by (simp add: signature_lines_def parse_authentication_def)
qed

lemma parse_content_canonical:
  assumes "places_ok d" "fingerprint_ok d" "writable d" "content_digest d = sha256_text (manifest_canonical neg d False)"
  shows "parse_content (manifest_canonical neg d True) = Some (stored_form d)"
proof -
  have nonempty: "content_digest d \<noteq> []" using sha256_text_form(1) assms(4) by (metis list.size(3) zero_neq_numeral)
  have same: "d\<lparr>content_digest := sha256_text (manifest_canonical neg d False)\<rparr> = d"
    unfolding assms(4) [symmetric] by simp
  have "manifest_canonical neg d True = manifest_canonical neg d False @ ''sha256|'' @ content_digest d @ [NEWLINE]"
    using nonempty by (simp add: manifest_canonical_def Let_def)
  moreover have "parse_content (manifest_canonical neg d False @ ''sha256|'' @ content_digest d @ [NEWLINE]) = Some (stored_form d)"
    using parse_content_digest [OF assms(1-3), of "content_digest d" neg] sha256_text_form same assms(4) by simp
  ultimately show ?thesis by (simp only:)
qed

text \<open>
  A manifest without a digest is written with the digest of the text and the words \<open>sha256|\<close>
  after it, which the reader leaves out: unless the two digests agree the text is not read back.
\<close>

lemma digestless_text_refused:
  assumes "places_ok d" "fingerprint_ok d" "writable d" "content_digest d = []"
    "sha256_text (manifest_canonical neg d False @ ''sha256|'') \<noteq> sha256_text (manifest_canonical neg d False)"
  shows "parse_content (manifest_canonical neg d True) = None"
proof -
  let ?x = "sha256_text (manifest_canonical neg d False @ ''sha256|'')"
  have "manifest_canonical neg d True = manifest_canonical neg d False @ ''sha256|'' @ ?x @ [NEWLINE]"
    using assms(4) by (simp add: manifest_canonical_def Let_def)
  moreover have "parse_content (manifest_canonical neg d False @ ''sha256|'' @ ?x @ [NEWLINE]) = None"
    unfolding parse_content_digest [OF assms(1-3) sha256_text_form] using assms(5) by (simp only: if_False)
  ultimately show ?thesis by (simp only:)
qed

section \<open>The stored form is accepted where the manifest is\<close>

lemma new_manifest_cases:
  assumes "new_manifest lib cfg = Inr cfg'"
  obtains known known' where "cfg' = cfg" "check_arm lib 0 (fst (mc_arm cfg)) {} = Some known"
    "check_arm lib 1 (snd (mc_arm cfg)) known = Some known'" "manifest_revision cfg \<noteq> 0" "model_revision cfg \<noteq> 0"
  using assms unfolding new_manifest_def by (auto split: if_splits option.splits)

lemma stored_motor_fields [simp]:
  "struct_size (stored_motor j m) = SIZEOF_MOTOR_CONFIG" "abi_version (stored_motor j m) = OA_CONTROL_ABI_V1"
  "joint_index (stored_motor j m) = of_nat j" "send_id (stored_motor j m) = send_id m"
  "receive_id (stored_motor j m) = receive_id m" "motor_type (stored_motor j m) = motor_type m"
  "q_scale (stored_motor j m) = q_scale m" "q_offset_rad (stored_motor j m) = q_offset_rad m"
  "lower_rad (stored_motor j m) = lower_rad m" "upper_rad (stored_motor j m) = upper_rad m"
  "pmax_rad (stored_motor j m) = pmax_rad m" "vmax_rad_s (stored_motor j m) = vmax_rad_s m"
  "tmax_nm (stored_motor j m) = tmax_nm m" "gear_ratio (stored_motor j m) = gear_ratio m"
  by (simp_all add: stored_motor_def)

lemma check_stored_motor:
  assumes "check_motor lib side j m s = Some s'" "writable_motor m" "side < 2" "j < 7"
  shows "check_motor lib side j (stored_motor j m) s = Some s'"
proof -
  have v: "valid_motor_record side j m" using assms(1) by (auto simp: check_motor_def split: if_splits)
  then have name: "c_string (joint_name m) = expected_name side j" by (simp add: valid_motor_record_def)
  have safe: "safe_text (c_string (serial m)) 32 False" "safe_text (expected_name side j) 48 False"
    using assms expected_name_safe by (simp_all add: writable_motor_def)
  have arr: "terminated (char_array n t) n" if "safe_text t n False" for n t
    using safe_text_chars [OF that] safe_char_not by (intro c_string_array) (auto simp: list_all_iff)
  have texts: "c_string (serial (stored_motor j m)) = c_string (serial m)"
    "c_string (joint_name (stored_motor j m)) = expected_name side j"
    "terminated (serial (stored_motor j m)) 32" "terminated (joint_name (stored_motor j m)) 48"
    using c_string_padded [OF safe(1)] c_string_padded [OF safe(2)] arr [OF safe(1)] arr [OF safe(2)] name
    by (simp_all add: stored_motor_def)
  have v': "valid_motor_record side j (stored_motor j m)"
    using v texts safe_text_chars [OF safe(1)] unfolding valid_motor_record_def
    by (simp add: stored_motor_def)
  have p: "matches_profile (stored_motor j m) = matches_profile m"
    "within_model lib side j (stored_motor j m) = within_model lib side j m"
    unfolding matches_profile_def within_model_def stored_motor_fields by (rule refl)+
  show ?thesis using assms(1) v v' unfolding check_motor_def p texts stored_motor_fields by (simp split: if_splits)
qed

lemma check_stored_motors:
  assumes "check_motors lib side j ms s = Some s'" "list_all writable_motor ms" "side < 2" "j + length ms \<le> 7"
  shows "check_motors lib side j (map (\<lambda>i. stored_motor (j + i) (ms ! i)) [0 ..< length ms]) s = Some s'"
  using assms
proof (induction ms arbitrary: j s)
  case (Cons m ms)
  from Cons.prems(1) obtain s1 where s1: "check_motor lib side j m s = Some s1"
    "check_motors lib side (j + 1) ms s1 = Some s'" by (auto split: option.splits)
  have list: "map (\<lambda>i. stored_motor (j + i) ((m # ms) ! i)) [0 ..< length (m # ms)]
      = stored_motor j m # map (\<lambda>i. stored_motor (j + 1 + i) (ms ! i)) [0 ..< length ms]"
    by (simp add: map_upt_Suc del: upt_Suc)
  show ?case
    unfolding list using Cons.IH [OF s1(2)] Cons.prems check_stored_motor [OF s1(1)] by simp
qed simp

definition bus_text :: "u32 \<Rightarrow> nat \<Rightarrow> string" where
  "bus_text intended side = (if intended = OA_RUNTIME_BACKEND_VIRTUAL then ''virtual'' else ''can'') @ [digit side]"

lemma bus_text:
  assumes "side < 2"
  shows "c_string (char_array 16 (bus_text intended side)) = bus_text intended side"
    "terminated (char_array 16 (bus_text intended side)) 16"
  using c_string_array [of "bus_text intended side" 16] assms
  by (auto simp: bus_text_def digit_def less_2_cases_iff)

lemma check_stored_arm:
  assumes "check_arm lib side a known = Some known'" "list_all writable_motor (ac_motor a)" "length (ac_motor a) = 7" "side < 2"
  shows "check_arm lib side (stored_arm intended side a) known = Some known'"
proof -
  obtain s where s: "check_motors lib side 0 (ac_motor a) \<lparr>send_ids = {}, receive_ids = {}, serials = known\<rparr> = Some s"
    "known' = serials s"
    using assms(1) by (auto simp: check_arm_def split: if_split_asm)
  have "check_motors lib side 0 (map (\<lambda>i. stored_motor i (ac_motor a ! i)) [0 ..< 7])
      \<lparr>send_ids = {}, receive_ids = {}, serials = known\<rparr> = Some s"
    using check_stored_motors [OF s(1) assms(2,4)] assms(3) by simp
  then show ?thesis
    using s(2) bus_text [OF assms(4), of intended]
    by (simp add: check_arm_def stored_arm_def parsed_arm_def bus_text_def)
qed

lemma stored_accepted:
  assumes "new_manifest lib (md_config d) = Inr cfg" "writable d"
  shows "new_manifest lib (md_config (stored_form d)) = Inr (md_config (stored_form d))"
proof -
  obtain known known' where k: "check_arm lib 0 (fst (mc_arm (md_config d))) {} = Some known"
    "check_arm lib 1 (snd (mc_arm (md_config d))) known = Some known'"
    "manifest_revision (md_config d) \<noteq> 0" "model_revision (md_config d) \<noteq> 0"
    using assms(1) by (rule new_manifest_cases)
  have w: "list_all writable_motor (ac_motor (fst (mc_arm (md_config d))))" "length (ac_motor (fst (mc_arm (md_config d)))) = 7"
    "list_all writable_motor (ac_motor (snd (mc_arm (md_config d))))" "length (ac_motor (snd (mc_arm (md_config d)))) = 7"
    using assms(2) by (simp_all add: writable_def all_both_def)
  have bus: "c_string (bus_name (stored_arm b 0 x)) \<noteq> c_string (bus_name (stored_arm b 1 y))" for b x y
    using bus_text [of 0 b] bus_text [of 1 b]
    by (simp add: stored_arm_def parsed_arm_def bus_text_def [symmetric]) (simp add: bus_text_def digit_def)
  show ?thesis
    using check_stored_arm [OF k(1) w(1,2)] check_stored_arm [OF k(2) w(3,4)] k(3,4) bus
    by (simp add: new_manifest_def stored_form_def)
qed

lemma validate_accepts:
  assumes "validate_manifest_data lib nm d s = (True, s')"
  obtains cfg t s1 where "new_manifest lib (md_config d) = Inr cfg" "nm = False"
    "allocate_opaque_token s = (Some t, s1)" "manifests s1 t = None"
    "s' = s1\<lparr>manifests := (manifests s1)(t := None)\<rparr>"
    "list_all (\<lambda>t. safe_text t OA_RUNTIME_TEXT_CAPACITY False) (evidence_records d)" "fingerprint_ok d"
    "\<not> md_state d < OA_RUNTIME_MANIFEST_DRAFT" "\<not> md_state d > OA_RUNTIME_MANIFEST_ARMABLE"
    "intended_backend d \<in> {1, 2, 3}"
proof -
  have r: "intended_backend d = 1 \<or> intended_backend d = 2 \<or> intended_backend d = 3"
    "\<not> md_state d < OA_RUNTIME_MANIFEST_DRAFT" "\<not> md_state d > OA_RUNTIME_MANIFEST_ARMABLE"
    using assms by (auto simp: validate_manifest_data_def split: if_splits)
  obtain st v s2 where c: "oa_manifest_create lib nm (Some (md_config d)) (Some 0) s = (st, v, s2)" by (metis prod_cases3)
  have st: "st = OA_CONTROL_OK" "s' = oa_manifest_destroy (the v) s2"
    "list_all (\<lambda>t. safe_text t OA_RUNTIME_TEXT_CAPACITY False) (evidence_records d)" "fingerprint_ok d"
    using assms c by (auto simp: validate_manifest_data_def fingerprint_ok_def Let_def split: if_splits)
  have create: "oa_manifest_create lib nm (Some (md_config d)) (Some 0) s = (OA_CONTROL_OK, v, s2)" using c st(1) by simp
  have bad: "e \<noteq> OA_CONTROL_OK" if "new_manifest lib (md_config d) = Inl e" for e
    using that by (auto simp: new_manifest_def split: if_splits option.splits)
  obtain cfg t s1 where q: "new_manifest lib (md_config d) = Inr cfg" "nm = False"
    "allocate_opaque_token s = (Some t, s1)" "manifests s1 t = None" "v = Some t"
    "s2 = s1\<lparr>manifests := (manifests s1)(t \<mapsto> cfg)\<rparr>"
    using create bad unfolding oa_manifest_create_def
    by (auto simp: valid_record_prefix_def record_error_def split: if_splits option.splits prod.splits sum.splits)
  then have "s' = s1\<lparr>manifests := (manifests s1)(t := None)\<rparr>" by (simp add: st(2) oa_manifest_destroy_def)
  with q st(3,4) r show thesis by (intro that [of cfg t s1]) simp_all
qed

text \<open>The validation of the stored form takes the same course.\<close>

lemma validate_stored:
  assumes "validate_manifest_data lib nm d s = (True, s')" "writable d"
  shows "validate_manifest_data lib nm (stored_form d) s = (True, s')"
proof -
  obtain cfg t s1 where c: "new_manifest lib (md_config d) = Inr cfg" "nm = False"
    "allocate_opaque_token s = (Some t, s1)" "manifests s1 t = None"
    "s' = s1\<lparr>manifests := (manifests s1)(t := None)\<rparr>"
    "list_all (\<lambda>t. safe_text t OA_RUNTIME_TEXT_CAPACITY False) (evidence_records d)" "fingerprint_ok d"
    "\<not> md_state d < OA_RUNTIME_MANIFEST_DRAFT" "\<not> md_state d > OA_RUNTIME_MANIFEST_ARMABLE"
    "intended_backend d \<in> {1, 2, 3}"
    using assms(1) by (rule validate_accepts)
  have rev: "manifest_revision (md_config d) \<noteq> 0" "model_revision (md_config d) \<noteq> 0"
    using new_manifest_cases [OF c(1)] by metis+
  have cfg: "struct_size (md_config (stored_form d)) = SIZEOF_MANIFEST_CONFIG"
    "abi_version (md_config (stored_form d)) = OA_CONTROL_ABI_V1"
    by (simp_all add: stored_form_def)
  have "oa_manifest_create lib nm (Some (md_config (stored_form d))) (Some 0) s
      = (OA_CONTROL_OK, Some t, s1\<lparr>manifests := (manifests s1)(t \<mapsto> md_config (stored_form d))\<rparr>)"
    using c(2-4) cfg stored_accepted [OF c(1) assms(2)]
    by (simp add: oa_manifest_create_def valid_record_prefix_def)
  moreover have "manifest_revision (md_config (stored_form d)) \<noteq> 0" "model_revision (md_config (stored_form d)) \<noteq> 0"
    "md_state (stored_form d) = md_state d" "intended_backend (stored_form d) = intended_backend d"
    "evidence_records (stored_form d) = evidence_records d" "inventory_fingerprint (stored_form d) = inventory_fingerprint d"
    using rev by (simp_all add: stored_form_def)
  ultimately show ?thesis
    using c(5-10) by (auto simp: validate_manifest_data_def oa_manifest_destroy_def fingerprint_ok_def Let_def)
qed

lemma validated_places:
  assumes "new_manifest lib (md_config d) = Inr cfg" "writable d"
    "list_all (\<lambda>t. safe_text t OA_RUNTIME_TEXT_CAPACITY False) (evidence_records d)"
  shows "places_ok d"
proof -
  obtain known known' where k: "check_arm lib 0 (fst (mc_arm (md_config d))) {} = Some known"
    "check_arm lib 1 (snd (mc_arm (md_config d))) known = Some known'"
    using assms(1) by (rule new_manifest_cases)
  have w: "list_all writable_motor (ac_motor (fst (mc_arm (md_config d))))" "length (ac_motor (fst (mc_arm (md_config d)))) = 7"
    "list_all writable_motor (ac_motor (snd (mc_arm (md_config d))))" "length (ac_motor (snd (mc_arm (md_config d)))) = 7"
    "length (evidence_records d) = 14"
    using assms(2) by (simp_all add: writable_def all_both_def)
  have "place_ok d side joint" if "side < 2" "joint < 7" for side joint
  proof -
    have "motor_offset side joint < 14" using that by (simp add: motor_offset_def)
    then have r: "safe_text (evidence_records d ! motor_offset side joint) 64 False"
      using assms(3) w(5) by (simp add: list_all_length)
    have "side = 0 \<or> side = 1" using that(1) by auto
    then consider "side = 0" | "side = 1" by blast
    then show ?thesis
    proof cases
      case 1
      then show ?thesis using check_arm_safe(1) [OF k(1)] w(1,2) that r
        by (simp add: place_ok_def motor_at_def pick_def safe_arm_def safe_motor_def list_all_length)
    next
      case 2
      then show ?thesis using check_arm_safe(1) [OF k(2)] w(3,4) that r
        by (simp add: place_ok_def motor_at_def pick_def safe_arm_def safe_motor_def list_all_length)
    qed
  qed
  moreover have "\<forall>(side, joint) \<in> set motor_places. side < 2 \<and> joint < 7" by (simp add: motor_places_def)
  ultimately show ?thesis by (auto simp: places_ok_def)
qed

text \<open>
  C23: A manifest that the library accepts survives its file: whatever the calibration and
  the evidence in it, if its numbers are doubles, its serial numbers safe text and its digest its
  own, then reading its canonical text succeeds and gives the manifest in its stored form, with
  every limit, scale, offset and direction as it was. The seventeen printed digits give every
  double back exactly.
\<close>
theorem manifest_text_roundtrip:
  assumes "validate_manifest_data lib nm d s = (True, s')" "writable d"
    "content_digest d = sha256_text (manifest_canonical neg d False)"
  shows "parse_manifest lib nm (manifest_canonical neg d True) s = (Inr (stored_form d), s')"
proof -
  obtain cfg where c: "new_manifest lib (md_config d) = Inr cfg"
    "list_all (\<lambda>t. safe_text t OA_RUNTIME_TEXT_CAPACITY False) (evidence_records d)" "fingerprint_ok d"
    using assms(1) by (rule validate_accepts)
  have "parse_content (manifest_canonical neg d True) = Some (stored_form d)"
    using validated_places [OF c(1) assms(2) c(2)] c(3) assms(2,3) by (rule parse_content_canonical)
  then show ?thesis using validate_stored [OF assms(1,2)] by (simp add: parse_manifest_def)
qed

section \<open>The built-in manifest\<close>

lemma virtual_motor_standard: "virtual_motor side joint = standard_motor side joint"
  by (simp add: virtual_motor_def standard_motor_def Let_def)

definition no_minus :: zero_signs where
  "no_minus = (\<lambda>side joint i. False)"

lemma virtual_config_accepted:
  assumes "wide_limits lib"
  shows "new_manifest lib virtual_config = Inr virtual_config"
proof -
  have bus: "c_string (bus_name (virtual_arm side)) = ''virtual'' @ [digit side]"
    "terminated (bus_name (virtual_arm side)) 16" if "side < 2" for side
    using c_string_array [of "''virtual'' @ [digit side]" 16] that
    by (auto simp: virtual_arm_def digit_def less_2_cases_iff)
  have arm: "virtual_arm side = (standard_arm side)\<lparr>bus_name := bus_name (virtual_arm side)\<rparr>" for side
    by (simp add: virtual_arm_def standard_arm_def virtual_motor_standard [abs_def])
  obtain known known' where k: "check_arm lib 0 (standard_arm 0) {} = Some known"
    "check_arm lib 1 (standard_arm 1) known = Some known'"
    using new_manifest_cases [OF standard_manifest_accepted [OF assms]] by (auto simp: standard_config_def)
  have same: "check_arm lib side (virtual_arm side) x = Some y"
    if "check_arm lib side (standard_arm side) x = Some y" "side < 2" for side x y
    using that bus [OF that(2)] by (subst arm) (auto simp: check_arm_def standard_arm_def split: if_splits)
  show ?thesis
    using same [OF k(1)] same [OF k(2)] bus [of 0] bus [of 1]
    by (simp add: new_manifest_def virtual_config_def digit_def)
qed

lemma virtual_writable: "writable (make_virtual_manifest neg)"
proof -
  have m: "writable_motor (virtual_motor side j)" if ij: "side < 2" "j < 7" for side j
  proof -
    obtain x y where lim: "lower_rad (standard_motor side j) = lit x" "upper_rad (standard_motor side j) = lit y"
      "\<bar>x\<bar> \<le> 4" "\<bar>y\<bar> \<le> 4"
      using standard_limits [OF ij] by blast
    then have l: "dbl_ok (lower_rad (standard_motor side j))" "dbl_ok (upper_rad (standard_motor side j))"
      by (simp_all add: lit_dbl_ok)
    have f: "dbl_ok (lit x)" if "x \<in> {1 / 8, 1, 2, 10, 25 / 2, 45, 30, 54, 28, 9, 40}" for x
      using that by (intro lit_dbl_ok) auto
    have "dbl_ok (Fin 1)" "dbl_ok (Fin (- 1))" by (simp_all add: dbl_ok_def)
    with f have fields: "list_all dbl_ok [q_scale (standard_motor side j), q_offset_rad (standard_motor side j),
       max_velocity_rad_s (standard_motor side j), max_acceleration_rad_s2 (standard_motor side j),
       max_jerk_rad_s3 (standard_motor side j), pmax_rad (standard_motor side j), vmax_rad_s (standard_motor side j),
       tmax_nm (standard_motor side j), gear_ratio (standard_motor side j)]"
      by (simp add: standard_motor_def Let_def)
    have "safe_char (digit n)" if "n < 8" for n
    proof -
      have "n \<in> {0, 1, 2, 3, 4, 5, 6, 7}" using that by auto
      then show ?thesis by (elim insertE emptyE) (simp_all add: digit_def safe_char_def)
    qed
    then have "safe_char (digit side)" "safe_char (digit j)" using ij by simp_all
    then have s: "safe_text (c_string (serial (standard_motor side j))) 32 False"
      unfolding standard_strings(1) [OF ij] safe_text_def by (simp add: safe_char_def)
    have "direction (standard_motor side j) = 1 \<or> direction (standard_motor side j) = - 1"
      by (simp add: standard_motor_def Let_def)
    then show ?thesis using fields l s unfolding virtual_motor_standard writable_motor_def by auto
  qed
  have "list_all writable_motor (ac_motor (virtual_arm side)) \<and> length (ac_motor (virtual_arm side)) = 7" if "side < 2" for side
    using m [OF that] by (simp add: virtual_arm_def list_all_iff)
  then show ?thesis
    by (simp add: writable_def make_virtual_manifest_def Let_def virtual_config_def all_both_def)
qed

lemma first_validation:
  assumes "new_manifest lib (md_config d) = Inr cfg" "md_state d \<in> {1, 2, 3, 4}" "intended_backend d \<in> {1, 2, 3}"
    "list_all (\<lambda>t. safe_text t OA_RUNTIME_TEXT_CAPACITY False) (evidence_records d)" "fingerprint_ok d"
    "struct_size (md_config d) = SIZEOF_MANIFEST_CONFIG" "abi_version (md_config d) = OA_CONTROL_ABI_V1"
  shows "\<exists>s'. validate_manifest_data lib False d initial_api = (True, s')"
proof -
  have rev: "manifest_revision (md_config d) \<noteq> 0" "model_revision (md_config d) \<noteq> 0"
    using new_manifest_cases [OF assms(1)] by metis+
  have "oa_manifest_create lib False (Some (md_config d)) (Some 0) initial_api
      = (OA_CONTROL_OK, Some 0x10000, initial_api\<lparr>next_opaque_token := 0x10010, manifests := Map.empty(0x10000 \<mapsto> cfg)\<rparr>)"
    using assms(1,6,7) by (simp add: oa_manifest_create_def valid_record_prefix_def allocate_opaque_token_def initial_api_def)
  then show ?thesis
    using rev assms(2-5) by (auto simp: validate_manifest_data_def fingerprint_ok_def Let_def)
qed

lemma builtin_record: "list_all (\<lambda>t. safe_text t OA_RUNTIME_TEXT_CAPACITY False) (replicate 14 ''builtin_virtual_exact'')"
proof -
  have "safe_text ''builtin_virtual_exact'' OA_RUNTIME_TEXT_CAPACITY False"
    by (simp add: safe_text_def) (simp add: safe_char_def)
  then show ?thesis by (simp add: list_all_length)
qed

lemma virtual_validated:
  assumes "wide_limits lib"
  shows "\<exists>s'. validate_manifest_data lib False (make_virtual_manifest neg) initial_api = (True, s')"
proof (rule first_validation)
  show "new_manifest lib (md_config (make_virtual_manifest neg)) = Inr virtual_config"
    using virtual_config_accepted [OF assms] by (simp add: make_virtual_manifest_def Let_def)
qed (simp_all add: make_virtual_manifest_def Let_def fingerprint_ok_def sha256_text_form virtual_config_def
  builtin_record)

lemma virtual_digest:
  "content_digest (make_virtual_manifest neg) = sha256_text (manifest_canonical neg (make_virtual_manifest neg) False)"
  by (simp add: make_virtual_manifest_def Let_def manifest_canonical_def summary_line_def motor_line_def)

theorem manifest_text_roundtrip_witness:
  "fst (parse_manifest wide_lib False (manifest_canonical no_minus (make_virtual_manifest no_minus) True) initial_api)
     = Inr (stored_form (make_virtual_manifest no_minus))"
proof -
  have "wide_limits wide_lib" by (simp add: wide_limits_def wide_lib_def model_limit_def)
  then obtain s' where "validate_manifest_data wide_lib False (make_virtual_manifest no_minus) initial_api = (True, s')"
    using virtual_validated by blast
  from manifest_text_roundtrip [OF this virtual_writable virtual_digest] show ?thesis by simp
qed

end
