(* ===== verification/Manifest_Patch.thy ===== *)
theory Manifest_Patch
  imports Manifest_Text
begin

text \<open>
  What a calibration may change: the patch touches the scale, the offset and the direction of one
  motor and its evidence, and what comes out is validated, unauthenticated and readable from its
  file. At the end, what the text says of a manifest without a digest.
\<close>

section \<open>The patch\<close>

lemma motor_at_patched:
  assumes "unat (mp_side patch) < 2" "unat (mp_joint patch) < 7" "writable base" "side < 2" "joint < 7"
  shows "motor_at (patched_manifest patch base) side joint =
    (if side = unat (mp_side patch) \<and> joint = unat (mp_joint patch)
     then patched_motor patch (motor_at base side joint) else motor_at base side joint)"
proof -
  have "length (ac_motor (fst (mc_arm (md_config base)))) = 7" "length (ac_motor (snd (mc_arm (md_config base)))) = 7"
    using assms(3) by (simp_all add: writable_def all_both_def)
  then show ?thesis
    using assms(1,2,4,5)
    by (auto simp: motor_at_def patched_manifest_def patched_arm_def pick_def put_def Let_def nth_list_update)
qed

lemma apply_patch_cases:
  assumes "apply_patch lib nm neg base patch s = ((Some m, pv), s')"
  shows "mp_expected_revision patch = manifest_revision (md_config base)"
    "mp_expected_revision patch < replacement_revision patch" "mp_side patch < 2" "mp_joint patch < 7"
    "mp_a patch = 1 \<or> mp_a patch = - 1" "disfinite (mp_b_rad patch)"
    "strncmp_equal 32 (serial (motor_at base (unat (mp_side patch)) (unat (mp_joint patch)))) (mp_motor_serial patch)"
    "intended_backend base = OA_RUNTIME_BACKEND_VIRTUAL \<or> mp_evidence_kind patch \<noteq> OA_EVIDENCE_SIMULATION_ONLY"
    "validate_manifest_data lib nm (patched_manifest patch base) s = (True, s')"
    "m = (patched_manifest patch base)\<lparr>content_digest := sha256_text (manifest_canonical neg (patched_manifest patch base) False)\<rparr>"
    "would_be_armable pv = (if md_state (patched_manifest patch base) = OA_RUNTIME_MANIFEST_ARMABLE then 1 else 0)"
    "changed_motor_mask pv = push_bit (motor_offset (unat (mp_side patch)) (unat (mp_joint patch))) 1"
  using assms
  by (auto simp: apply_patch_def Let_def motor_at_def not_le split: if_splits prod.splits)

lemma canonical_digest_free: "manifest_canonical neg (d\<lparr>content_digest := x\<rparr>) False = manifest_canonical neg d False"
  by (simp add: manifest_canonical_def summary_line_def motor_line_def)

lemma validate_digest_free:
  "validate_manifest_data lib nm (d\<lparr>content_digest := x\<rparr>) s = validate_manifest_data lib nm d s"
  by (simp add: validate_manifest_data_def Let_def split: prod.split)

lemma patched_writable:
  assumes "writable base" "dbl_ok (mp_b_rad patch)" "mp_a patch = 1 \<or> mp_a patch = - 1"
    "unat (mp_side patch) < 2" "unat (mp_joint patch) < 7"
  shows "writable (patched_manifest patch base)"
proof -
  have a: "dbl_ok (mp_a patch)" using assms(3) by (auto simp: dbl_ok_def)
  have "writable_motor (patched_motor patch m)" if "writable_motor m" for m
    using that a assms(2) by (simp add: writable_motor_def patched_motor_def)
  moreover have "list_all writable_motor (ac_motor (fst (mc_arm (md_config base))))"
    "list_all writable_motor (ac_motor (snd (mc_arm (md_config base))))"
    "length (ac_motor (fst (mc_arm (md_config base)))) = 7" "length (ac_motor (snd (mc_arm (md_config base)))) = 7"
    using assms(1) by (simp_all add: writable_def all_both_def)
  ultimately have "length (ac_motor (patched_arm patch (pick i (mc_arm (md_config base))))) = 7
      \<and> list_all writable_motor (ac_motor (patched_arm patch (pick i (mc_arm (md_config base)))))" for i
    using assms(5) by (simp add: patched_arm_def pick_def list_all_length nth_list_update)
  then show ?thesis
    using assms(1) by (auto simp: writable_def patched_manifest_def all_both_def put_def Let_def)
qed

text \<open>
  What is left of a manifest when everything a calibration of one motor may change is wiped: its
  scale, offset and direction, its evidence, the revision, the state, and the fields of integrity and
  authentication.
\<close>

definition uncalibrated :: "nat \<Rightarrow> nat \<Rightarrow> manifest_data \<Rightarrow> manifest_data" where
  "uncalibrated side joint d =
     (let index = motor_offset side joint; arms = mc_arm (md_config d);
          motors = ac_motor (pick side arms);
          wiped = motors[joint := (motors ! joint)\<lparr>q_scale := 0, q_offset_rad := 0, direction := 0\<rparr>]
      in d\<lparr>md_config := (md_config d)\<lparr>manifest_revision := 0, mc_arm := put side ((pick side arms)\<lparr>ac_motor := wiped\<rparr>) arms\<rparr>,
           md_state := 0, evidence_kinds := (evidence_kinds d)[index := 0],
           evidence_revisions := (evidence_revisions d)[index := 0], evidence_records := (evidence_records d)[index := []],
           content_digest := [], integrity_kind := 0, authenticated := False, checkpoint_authorized := False,
           authentication_version := 0, authentication_key_id := [], authentication_tag := [], loaded_from_file := False\<rparr>)"

lemma put_pick [simp]: "pick i (put i x p) = x" "put i y (put i x p) = put i y p"
  by (simp_all add: pick_def put_def)

lemma uncalibrated_patched:
  assumes "unat (mp_joint patch) < length (ac_motor (pick (unat (mp_side patch)) (mc_arm (md_config base))))"
  shows "uncalibrated (unat (mp_side patch)) (unat (mp_joint patch)) ((patched_manifest patch base)\<lparr>content_digest := x\<rparr>)
    = uncalibrated (unat (mp_side patch)) (unat (mp_joint patch)) base"
  using assms by (simp add: uncalibrated_def patched_manifest_def patched_arm_def patched_motor_def Let_def)

text \<open>
  C24: a calibration changes what it measured and nothing else. When a patch is accepted, of the motor
  that it names the scale, the offset and the direction are the patch's, plus or minus one with the
  direction its sign, and its evidence is the patch's; the serial number is the one in the patch. The
  revision is raised to the patch's. The state is armable on the virtual backend and locally valid on
  the others, the digest is that of the result, and no authentication is kept. Apart from these fields
  the manifest is the one it was, \<open>uncalibrated\<close>. The result passes validation, and evidence from
  simulation is taken on the virtual backend alone.
\<close>
theorem calibration_patch_sound:
  assumes "apply_patch lib nm neg base patch s = ((Some m, pv), s')" "writable base"
    and "side = unat (mp_side patch)" "joint = unat (mp_joint patch)" "index = motor_offset side joint"
  shows "uncalibrated side joint m = uncalibrated side joint base
    \<and> side < 2 \<and> joint < 7
    \<and> motor_at m side joint = (motor_at base side joint)\<lparr>q_scale := mp_a patch, q_offset_rad := mp_b_rad patch,
        direction := (if mp_a patch = 1 then 1 else - 1)\<rparr>
    \<and> (mp_a patch = 1 \<or> mp_a patch = - 1) \<and> disfinite (mp_b_rad patch)
    \<and> strncmp_equal 32 (serial (motor_at base side joint)) (mp_motor_serial patch)
    \<and> evidence_kinds m = (evidence_kinds base)[index := evidence_code (mp_evidence_kind patch)]
    \<and> evidence_revisions m = (evidence_revisions base)[index :=
        if mp_fixture_revision patch \<noteq> 0 then mp_fixture_revision patch else mp_qualification_revision patch]
    \<and> evidence_records m = (evidence_records base)[index := c_string (mp_evidence_record patch)]
    \<and> mp_expected_revision patch = manifest_revision (md_config base)
    \<and> manifest_revision (md_config m) = replacement_revision patch
    \<and> manifest_revision (md_config base) < manifest_revision (md_config m)
    \<and> validate_manifest_data lib nm m s = (True, s')
    \<and> content_digest m = sha256_text (manifest_canonical neg m False)
    \<and> integrity_kind m = OA_RUNTIME_INTEGRITY_UNKEYED_SHA256 \<and> \<not> authenticated m \<and> \<not> checkpoint_authorized m
    \<and> authentication_version m = 0 \<and> authentication_key_id m = [] \<and> authentication_tag m = [] \<and> \<not> loaded_from_file m
    \<and> md_state m = (if intended_backend base = OA_RUNTIME_BACKEND_VIRTUAL then OA_RUNTIME_MANIFEST_ARMABLE
                     else OA_RUNTIME_MANIFEST_LOCALLY_VALID)
    \<and> (intended_backend base = OA_RUNTIME_BACKEND_VIRTUAL \<or> mp_evidence_kind patch \<noteq> OA_EVIDENCE_SIMULATION_ONLY)
    \<and> changed_motor_mask pv = push_bit index 1"
proof -
  note c = apply_patch_cases [OF assms(1)]
  have place: "unat (mp_side patch) < 2" "unat (mp_joint patch) < 7"
    using c(3,4) by (simp_all add: word_less_nat_alt)
  have sign: "(0 < mp_a patch) = (mp_a patch = 1)" using c(5) by auto
  have len: "unat (mp_joint patch) < length (ac_motor (pick (unat (mp_side patch)) (mc_arm (md_config base))))"
    using assms(2) place by (auto simp: writable_def all_both_def pick_def)
  have "motor_at m side joint = motor_at (patched_manifest patch base) side joint"
    by (simp add: c(10) motor_at_def)
  also have "\<dots> = (motor_at base side joint)\<lparr>q_scale := mp_a patch, q_offset_rad := mp_b_rad patch,
        direction := (if mp_a patch = 1 then 1 else - 1)\<rparr>"
    unfolding assms(3,4) motor_at_patched [OF place assms(2) place] patched_motor_def sign by simp
  finally have motor: "motor_at m side joint = \<dots>" .
  have valid: "validate_manifest_data lib nm m s = (True, s')"
    "content_digest m = sha256_text (manifest_canonical neg m False)"
    unfolding c(10) validate_digest_free canonical_digest_free using c(9) by simp_all
  have same: "uncalibrated side joint m = uncalibrated side joint base"
    unfolding c(10) assms(3,4) by (rule uncalibrated_patched [OF len])
  show ?thesis
    using motor valid same place c(1,2,5-8,12)
    by (simp add: assms(3-5)) (simp add: c(10) patched_manifest_def Let_def)
qed

definition sample_patch :: mapping_patch where
  "sample_patch =
     \<lparr>struct_size = SIZEOF_MAPPING_PATCH, abi_version = OA_COMMISSION_ABI_V1, mp_expected_revision = 1,
      replacement_revision = 2, mp_side = 0, mp_joint = 0, mp_evidence_kind = OA_EVIDENCE_MANUAL_FIXTURE,
      mp_recipe_kind = 0, mp_qualification_revision = 0, mp_fixture_revision = 5, mp_a = 1, mp_b_rad = Fin (1 / 8),
      mp_motor_serial = ''VIRTUAL-0-0'', mp_evidence_record = ''fixture_7''\<rparr>"

lemma sample_patch_accepted:
  "\<exists>m pv s'. apply_patch wide_lib False neg (make_virtual_manifest neg) sample_patch initial_api = ((Some m, pv), s')"
proof -
  let ?base = "make_virtual_manifest neg" and ?result = "patched_manifest sample_patch (make_virtual_manifest neg)"
  have half: "lit (1 / 8) = Fin (1 / 8)"
    using representable_dyadic [of 1 3] by (simp add: lit_def rnd_exact)
  have "patched_motor sample_patch (virtual_motor 0 0) = virtual_motor 0 0"
    by (simp add: patched_motor_def sample_patch_def virtual_motor_def Let_def half)
  then have "patched_arm sample_patch (virtual_arm 0) = virtual_arm 0"
    by (simp add: patched_arm_def virtual_arm_def sample_patch_def upt_rec)
  then have cfg: "md_config ?result = virtual_config\<lparr>manifest_revision := 2\<rparr>"
    by (simp add: patched_manifest_def make_virtual_manifest_def virtual_config_def Let_def pick_def put_def)
      (simp add: sample_patch_def)
  have wide: "wide_limits wide_lib" by (simp add: wide_limits_def wide_lib_def model_limit_def)
  have rest: "md_state ?result = 4" "intended_backend ?result = 1" "fingerprint_ok ?result"
    "evidence_records ?result = (replicate 14 ''builtin_virtual_exact'')[0 := ''fixture_7'']"
    by (simp_all add: patched_manifest_def make_virtual_manifest_def Let_def fingerprint_ok_def sha256_text_form
        sample_patch_def motor_offset_def c_string_def)
  have safe: "safe_text ''fixture_7'' OA_RUNTIME_TEXT_CAPACITY False" by (simp add: safe_text_def) (simp add: safe_char_def)
  have "\<exists>s'. validate_manifest_data wide_lib False ?result initial_api = (True, s')"
  proof (rule first_validation)
    show "new_manifest wide_lib (md_config ?result) = Inr (md_config ?result)"
      using virtual_config_accepted [OF wide] unfolding cfg by (auto simp: new_manifest_def split: if_splits option.splits)
    show "list_all (\<lambda>t. safe_text t OA_RUNTIME_TEXT_CAPACITY False) (evidence_records ?result)"
      unfolding rest(4) by (rule list_all_update, rule builtin_record, rule safe)
    show "md_state ?result \<in> {1, 2, 3, 4}" "intended_backend ?result \<in> {1, 2, 3}" unfolding rest by simp_all
    show "fingerprint_ok ?result" by (rule rest(3))
    show "struct_size (md_config ?result) = SIZEOF_MANIFEST_CONFIG" "abi_version (md_config ?result) = OA_CONTROL_ABI_V1"
      unfolding cfg by (simp_all add: virtual_config_def)
  qed
  then obtain s' where v: "validate_manifest_data wide_lib False ?result initial_api = (True, s')" by blast
  have patch: "struct_size sample_patch = SIZEOF_MAPPING_PATCH" "abi_version sample_patch = OA_COMMISSION_ABI_V1"
    "mp_expected_revision sample_patch = 1" "replacement_revision sample_patch = 2" "mp_side sample_patch = 0"
    "mp_joint sample_patch = 0" "mp_a sample_patch = 1" "mp_b_rad sample_patch = Fin (1 / 8)"
    "mp_motor_serial sample_patch = ''VIRTUAL-0-0''" "c_string (mp_evidence_record sample_patch) = ''fixture_7''"
    by (simp_all add: sample_patch_def c_string_def)
  have base: "manifest_revision (md_config ?base) = 1" "intended_backend ?base = 1"
    "ac_motor (pick 0 (mc_arm (md_config ?base))) ! 0 = virtual_motor 0 0"
    by (simp_all add: make_virtual_manifest_def Let_def virtual_config_def virtual_arm_def pick_def)
  have "strncmp_equal 32 (serial (virtual_motor 0 0)) ''VIRTUAL-0-0''"
    by (simp add: virtual_motor_def Let_def strncmp_equal_def char_array_def c_string_def digit_def)
  moreover have "\<not> (2 :: u64) \<le> 1" by (simp add: word_le_nat_alt)
  ultimately show ?thesis
    using safe unfolding apply_patch_def Let_def patch base by (simp add: base v)
qed

theorem calibration_patch_sound_witness:
  "\<exists>m pv s'. apply_patch wide_lib False no_minus (make_virtual_manifest no_minus) sample_patch initial_api = ((Some m, pv), s')
     \<and> manifest_revision (md_config (make_virtual_manifest no_minus)) < manifest_revision (md_config m)"
proof -
  obtain m pv s' where p: "apply_patch wide_lib False no_minus (make_virtual_manifest no_minus) sample_patch initial_api = ((Some m, pv), s')"
    using sample_patch_accepted by blast
  from calibration_patch_sound [OF p virtual_writable refl refl refl] p show ?thesis by blast
qed

end
