(* ===== verification/Runtime_State.thy ===== *)
theory Runtime_State
  imports Runtime_Manifest
begin

text \<open>
  The state of the runtime facade, runtime/src/runtime_internal.hpp and runtime/src/runtime.cpp: the
  objects behind the handles, the clock evidence and the event queue of a runtime, the cycle of its
  worker thread, and the end of an object's life. A runtime is shared: its handle, every plan and
  every calibration made on it hold a reference, counted as \<open>std::shared_ptr\<close> does, and the last
  one to go destroys its controller.
\<close>

abbreviation OA_RUNTIME_CLOCK_MONOTONIC :: u32 where "OA_RUNTIME_CLOCK_MONOTONIC \<equiv> 0x4f41524d"
abbreviation OA_RUNTIME_FRAME_OPENARM_BODY_LINK0 :: u32 where "OA_RUNTIME_FRAME_OPENARM_BODY_LINK0 \<equiv> 1"
abbreviation OA_RUNTIME_UNITS_SI_V1 :: u32 where "OA_RUNTIME_UNITS_SI_V1 \<equiv> 1"
abbreviation OA_RUNTIME_ORIENTATION_FREE :: u32 where "OA_RUNTIME_ORIENTATION_FREE \<equiv> 1"
abbreviation OA_RUNTIME_COLLISION_REJECT_ALL :: u32 where "OA_RUNTIME_COLLISION_REJECT_ALL \<equiv> 1"
abbreviation OA_RUNTIME_COLLISION_VIRTUAL_UNCHECKED :: u32 where "OA_RUNTIME_COLLISION_VIRTUAL_UNCHECKED \<equiv> 2"

record runtime_options = header +
  ro_backend :: u32
  allow_unchecked_virtual_motion :: u32
  ro_cycle_ns :: u64
  ro_feedback_timeout_ns :: u64
  maximum_cross_bus_skew_ns :: u64
  ro_collision_scene_revision :: u64

record clock_evidence =
  ce_feedback_seq :: u64
  controller_monotonic_ns :: u64
  runtime_monotonic_ns :: u64

record event_evidence =
  ee_source :: control_event
  ee_runtime_monotonic_ns :: u64

text \<open>\<open>owner\<close>: 0 nobody, 1 motion, 2 calibration. A null pointer of a lower library is the handle 0.\<close>

record runtime_data =
  rt_options :: runtime_options
  rt_manifest :: manifest_data
  control_manifest :: u64
  rt_controller :: u64
  timeline_ns :: u64
  controller_timeline_ns :: u64
  feedback_clock :: "clock_evidence both"
  rt_events :: "event_evidence ring"
  closing :: bool
  rt_estop_active :: bool
  rt_deadman_active :: bool
  owner :: u32
  plan_pending :: bool
  plan_expiry_ns :: u64
  plan_authority_id :: u64
  next_plan_authority_id :: u64
  last_error :: error_detail
  rt_inventory_revision :: u64
  calibration_revision :: u64
  coordinate_identity_digest :: string
  references :: nat

record plan_data =
  pd_runtime :: u64
  pd_plan :: u64
  facade_expiry_ns :: u64
  authority_id :: u64
  holds_authority :: bool

record calibration_data =
  cd_runtime :: u64
  cd_base :: manifest_data
  cd_manual :: u64
  cd_recipe :: u64
  cd_side :: u32
  cd_joint :: u32
  required_posture_mask :: u32
  cd_evidence_revision :: u64
  cd_fixture_revision :: u64
  last_sample_feedback_seq :: u64
  last_sample_time_ns :: u64
  finished :: bool

record facade =
  control :: api
  commission :: registry
  manifest_handles :: manifest_registry
  runtime_handles :: "unit handle_registry"
  runtime_objects :: "u64 \<rightharpoonup> runtime_data"
  plan_handles :: "plan_data handle_registry"
  calibration_handles :: "calibration_data handle_registry"

definition initial_facade :: facade where
  "initial_facade =
     \<lparr>control = initial_api, commission = new_registry, manifest_handles = empty_registry,
      runtime_handles = empty_registry, runtime_objects = Map.empty, plan_handles = empty_registry,
      calibration_handles = empty_registry\<rparr>"

section \<open>Access to an object\<close>

definition set_runtime :: "u64 \<Rightarrow> runtime_data \<Rightarrow> facade \<Rightarrow> facade" where
  "set_runtime h r w = w\<lparr>runtime_objects := (runtime_objects w)(h \<mapsto> r)\<rparr>"

definition change_runtime :: "u64 \<Rightarrow> (runtime_data \<Rightarrow> runtime_data) \<Rightarrow> facade \<Rightarrow> facade" where
  "change_runtime h f w = w\<lparr>runtime_objects := (runtime_objects w)(h := map_option f (runtime_objects w h))\<rparr>"

definition set_error :: "u64 \<Rightarrow> runtime_status \<Rightarrow> runtime_facility \<Rightarrow> lower_status \<Rightarrow> facade \<Rightarrow> facade" where
  "set_error h st fac lower = change_runtime h (\<lambda>r. r\<lparr>last_error := error_of st fac lower\<rparr>)"

definition record_error ::
  "u64 \<Rightarrow> runtime_status \<Rightarrow> runtime_facility \<Rightarrow> lower_status \<Rightarrow> facade \<Rightarrow> runtime_status \<times> facade" where
  "record_error h st fac lower w = (st, if st \<noteq> OA_RUNTIME_OK then set_error h st fac lower w else w)"

definition require_runtime :: "u64 \<Rightarrow> facade \<Rightarrow> runtime_status + runtime_data" where
  "require_runtime h w =
     (case registry_pin kRuntimeTag h (runtime_handles w) of None \<Rightarrow> Inl OA_RUNTIME_EINVAL
      | Some _ \<Rightarrow>
          (case runtime_objects w h of None \<Rightarrow> Inl OA_RUNTIME_EINVAL
           | Some r \<Rightarrow> if closing r then Inl OA_RUNTIME_ESTATE else Inr r))"

section \<open>The end of an object\<close>

text \<open>\<open>~RuntimeData\<close>.\<close>

definition discard_runtime :: "runtime_data \<Rightarrow> api \<Rightarrow> api" where
  "discard_runtime r s =
     (let s1 = (if rt_controller r \<noteq> 0 then oa_controller_destroy (rt_controller r) s else s)
      in if control_manifest r \<noteq> 0 then oa_manifest_destroy (control_manifest r) s1 else s1)"

text \<open>A reference comes, when a plan or a calibration is registered.\<close>

definition take_reference :: "u64 \<Rightarrow> facade \<Rightarrow> facade" where
  "take_reference h = change_runtime h (\<lambda>r. r\<lparr>references := references r + 1\<rparr>)"

text \<open>A reference goes; the last one ends the object.\<close>

definition drop_reference :: "u64 \<Rightarrow> facade \<Rightarrow> facade" where
  "drop_reference h w =
     (case runtime_objects w h of None \<Rightarrow> w
      | Some r \<Rightarrow>
          if references r \<le> 1
          then w\<lparr>control := discard_runtime r (control w), runtime_objects := (runtime_objects w)(h := None)\<rparr>
          else set_runtime h (r\<lparr>references := references r - 1\<rparr>) w)"

definition release_authority :: "u64 \<Rightarrow> runtime_data \<Rightarrow> runtime_data" where
  "release_authority i r =
     (if plan_pending r \<and> plan_authority_id r = i then r\<lparr>plan_pending := False, plan_expiry_ns := 0\<rparr> else r)"

text \<open>\<open>~PlanData\<close>, without the reference.\<close>

definition discard_plan :: "plan_data \<Rightarrow> facade \<Rightarrow> facade" where
  "discard_plan p w =
     (let w1 = (if pd_plan p \<noteq> 0 then w\<lparr>control := oa_motion_plan_destroy (pd_plan p) (control w)\<rparr> else w)
      in if holds_authority p then change_runtime (pd_runtime p) (release_authority (authority_id p)) w1 else w1)"

text \<open>\<open>~CalibrationData\<close>, without the reference.\<close>

definition discard_calibration :: "calibration_data \<Rightarrow> facade \<Rightarrow> facade" where
  "discard_calibration c w =
     (let w1 = (if cd_manual c \<noteq> 0 then w\<lparr>commission := oa_commission_manual_destroy (cd_manual c) (commission w)\<rparr> else w);
          w2 = (if cd_recipe c \<noteq> 0 then w1\<lparr>commission := oa_commission_recipe_destroy (cd_recipe c) (commission w1)\<rparr> else w1)
      in change_runtime (cd_runtime c) (\<lambda>r. if owner r = 2 then r\<lparr>owner := 0\<rparr> else r) w2)"

section \<open>Time\<close>

text \<open>An instant of the controller's timeline on the runtime's clock, when both stand at their readings.\<close>

definition translate_instant :: "u64 \<Rightarrow> u64 \<Rightarrow> u64 \<Rightarrow> u64" where
  "translate_instant t controller_now facade_now =
     (let lag = (if t \<le> controller_now then controller_now - t else 0)
      in if lag \<le> facade_now then facade_now - lag else 1)"

definition translate_future_deadline :: "u64 \<Rightarrow> u64 \<Rightarrow> u64 \<Rightarrow> u64 option" where
  "translate_future_deadline facade_deadline facade_now controller_now =
     (if facade_deadline \<le> facade_now then None
      else
        let remaining = facade_deadline - facade_now
        in if remaining > UINT64_MAX - controller_now then None else Some (controller_now + remaining))"

definition capture_clock :: "u64 \<Rightarrow> u64 \<Rightarrow> arm_snapshot \<Rightarrow> clock_evidence \<Rightarrow> clock_evidence" where
  "capture_clock controller_now facade_now a e =
     (if as_feedback_seq a = 0 \<or> as_feedback_seq a = ce_feedback_seq e then e
      else
        let translated = translate_instant (as_t_ns a) controller_now facade_now;
            increasing = (if translated \<le> runtime_monotonic_ns e
                          then (if runtime_monotonic_ns e = UINT64_MAX then UINT64_MAX else runtime_monotonic_ns e + 1)
                          else translated)
        in \<lparr>ce_feedback_seq = as_feedback_seq a, controller_monotonic_ns = as_t_ns a, runtime_monotonic_ns = increasing\<rparr>)"

definition capture_feedback_clock :: "control_snapshot \<Rightarrow> u64 \<Rightarrow> u64 \<Rightarrow> runtime_data \<Rightarrow> runtime_data" where
  "capture_feedback_clock sn controller_now facade_now r =
     r\<lparr>feedback_clock :=
         (capture_clock controller_now facade_now (fst (sn_arm sn)) (fst (feedback_clock r)),
          capture_clock controller_now facade_now (snd (sn_arm sn)) (snd (feedback_clock r)))\<rparr>"

text \<open>The exchange of the timeline with a later reading, under any interference, leaves the maximum.\<close>

definition advance_timeline :: "u64 \<Rightarrow> runtime_data \<Rightarrow> runtime_data" where
  "advance_timeline host_now r = r\<lparr>timeline_ns := umax (timeline_ns r) host_now\<rparr>"

section \<open>Events\<close>

text \<open>A record of the control library before a call, zero but for its header.\<close>

definition event_out :: control_event where
  "event_out = empty_event\<lparr>struct_size := SIZEOF_EVENT, abi_version := OA_CONTROL_ABI_V1\<rparr>"

definition queue_event :: "event_evidence \<Rightarrow> event_evidence ring \<Rightarrow> event_evidence ring" where
  "queue_event e q = ring_push e (if ring_full q then ring_drop q else q)"

text \<open>
  The loop polls until the controller has no event. Its queue holds at most 64, so \<open>n = 65\<close>
  turns see the end of it.
\<close>

fun drain_controller_events :: "nat \<Rightarrow> u64 \<Rightarrow> runtime_data \<Rightarrow> api \<Rightarrow> runtime_data \<times> api" where
  "drain_controller_events 0 facade_now r s = (r, s)"
| "drain_controller_events (Suc n) facade_now r s =
     (case oa_controller_poll_event (rt_controller r) 0 False False (Some event_out) s of
        (Some OA_CONTROL_OK, Some ev, s1) \<Rightarrow>
          let instant = translate_instant (ev_t_ns ev) (controller_timeline_ns r) facade_now
          in drain_controller_events n facade_now
               (r\<lparr>rt_events := queue_event \<lparr>ee_source = ev, ee_runtime_monotonic_ns = instant\<rparr> (rt_events r)\<rparr>) s1
      | (_, _, s1) \<Rightarrow> (r, s1))"

abbreviation DRAIN_TURNS :: nat where "DRAIN_TURNS \<equiv> 65"

definition empty_arm_snapshot :: arm_snapshot where
  "empty_arm_snapshot =
     \<lparr>struct_size = 0, abi_version = 0, as_feedback_seq = 0, as_t_ns = 0, expected_mask = 0, fresh_mask = 0,
      as_fault_mask = 0, as_q = replicate 7 0, as_dq = replicate 7 0, as_tau = replicate 7 0,
      as_raw_q = replicate 7 0, as_raw_dq = replicate 7 0, as_raw_tau = replicate 7 0,
      as_status = replicate 7 0, as_mos_c = replicate 7 0, as_coil_c = replicate 7 0\<rparr>"

definition snapshot_out :: control_snapshot where
  "snapshot_out =
     \<lparr>struct_size = SIZEOF_SNAPSHOT, abi_version = OA_CONTROL_ABI_V1,
      sn_arm = (empty_arm_snapshot, empty_arm_snapshot), sn_manifest_revision = 0, sn_model_revision = 0,
      sn_max_cross_bus_skew_ns = 0, sn_lifecycle = OA_LIFECYCLE_CLOSED\<rparr>"

text \<open>The snapshot of a controller, when there is one.\<close>

definition read_snapshot :: "u64 \<Rightarrow> api \<Rightarrow> control_status \<times> control_snapshot \<times> api" where
  "read_snapshot h s =
     (case oa_controller_snapshot h (Some snapshot_out) s of (st, sn, s1) \<Rightarrow> (st, the sn, s1))"

section \<open>The worker\<close>

definition quiet_status :: "control_status \<Rightarrow> bool" where
  "quiet_status st \<longleftrightarrow> st = OA_CONTROL_OK \<or> st = OA_CONTROL_ESTATE \<or> st = OA_CONTROL_ESTALE
     \<or> st = OA_CONTROL_EFAULT \<or> st = OA_CONTROL_EESTOP"

definition worker_cycle :: "model_lib \<Rightarrow> u64 \<Rightarrow> runtime_data \<Rightarrow> api \<Rightarrow> runtime_data \<times> api" where
  "worker_cycle lib host_now r s =
     (let cycle = ro_cycle_ns (rt_options r); current = controller_timeline_ns r;
          next_ns = (if current > UINT64_MAX - cycle then UINT64_MAX else current + cycle)
      in case oa_controller_advance lib (rt_controller r) next_ns s of (st, s1) \<Rightarrow>
         case read_snapshot (rt_controller r) s1 of (sst, sn, s2) \<Rightarrow>
           let r1 = r\<lparr>controller_timeline_ns := next_ns\<rparr>;
               r2 = (if sst = OA_CONTROL_OK then capture_feedback_clock sn next_ns host_now r1 else r1)
           in case drain_controller_events DRAIN_TURNS host_now r2 s2 of (r3, s3) \<Rightarrow>
                let r4 = advance_timeline host_now r3
                in (if quiet_status st then r4
                    else r4\<lparr>last_error := error_of (map_control st) OA_RUNTIME_FACILITY_CONTROL (Control_lower st)\<rparr>, s3))"

text \<open>
  One turn of the thread's loop, after its wait. While a plan is pending the thread only watches
  the plan's expiry; the controller does not advance.
\<close>

definition worker_turn :: "model_lib \<Rightarrow> u64 \<Rightarrow> u64 \<Rightarrow> facade \<Rightarrow> facade" where
  "worker_turn lib host_now h w =
     (case runtime_objects w h of None \<Rightarrow> w
      | Some r \<Rightarrow>
          if closing r \<or> rt_controller r = 0 then w
          else if plan_pending r
          then (if plan_expiry_ns r \<noteq> 0 \<and> host_now \<ge> plan_expiry_ns r
                then set_runtime h (r\<lparr>plan_pending := False, plan_expiry_ns := 0\<rparr>) w else w)
          else case worker_cycle lib host_now r (control w) of (r1, s1) \<Rightarrow> set_runtime h r1 (w\<lparr>control := s1\<rparr>))"

end
