(* ===== verification/Runtime_Facade.thy ===== *)
theory Runtime_Facade
  imports Runtime_State
begin

text \<open>
  The exported calls of the runtime facade, runtime/src/runtime.cpp. A call is one step: its clock
  readings and the failures of its allocations are arguments, an output parameter is passed in and
  returned. The texts that identify the kinematic model are a parameter.
\<close>

record model_texts =
  oa_model_id :: "nat \<Rightarrow> string"
  oa_model_provenance :: "nat \<Rightarrow> string"
  oa_model_data_sha256 :: "nat \<Rightarrow> string"
  oa_model_flattened_urdf_sha256 :: "nat \<Rightarrow> string"
  oa_model_source_sha256 :: "nat \<Rightarrow> string"
  oa_model_tip_frame :: "nat \<Rightarrow> string"

section \<open>What a runtime is\<close>

definition capability :: "nat \<Rightarrow> u64" where
  "capability n = push_bit n 1"

definition capabilities_for :: "u32 \<Rightarrow> u64" where
  "capabilities_for b =
     (let common = capability 10 OR capability 11 in
      if b = OA_RUNTIME_BACKEND_VIRTUAL
      then common OR capability 8 OR capability 3 OR capability 4 OR capability 5 OR capability 6 OR capability 7
      else if b = OA_RUNTIME_BACKEND_SOCKETCAN_QUERY then common OR capability 8
      else common)"

definition collision_policy_for :: "runtime_options \<Rightarrow> u32" where
  "collision_policy_for o' =
     (if ro_backend o' = OA_RUNTIME_BACKEND_VIRTUAL \<and> allow_unchecked_virtual_motion o' \<noteq> 0
      then OA_RUNTIME_COLLISION_VIRTUAL_UNCHECKED else OA_RUNTIME_COLLISION_REJECT_ALL)"

definition text_line :: "string \<Rightarrow> string" where
  "text_line s = s @ [NEWLINE]"

definition model_lines :: "model_texts \<Rightarrow> nat \<Rightarrow> string" where
  "model_lines mt side =
     text_line (oa_model_id mt side) @ text_line (oa_model_data_sha256 mt side)
     @ text_line (oa_model_flattened_urdf_sha256 mt side) @ text_line (oa_model_source_sha256 mt side)
     @ text_line (oa_model_tip_frame mt side)"

definition coordinate_identity_for :: "model_texts \<Rightarrow> manifest_data \<Rightarrow> u32 \<Rightarrow> u64 \<Rightarrow> string" where
  "coordinate_identity_for mt d policy scene =
     sha256_text (text_line ''openarm-runtime-coordinate-v1'' @ text_line (decimal (unat (model_revision (md_config d))))
       @ model_lines mt 0 @ model_lines mt 1
       @ text_line (decimal (unat OA_RUNTIME_FRAME_OPENARM_BODY_LINK0)) @ text_line (decimal (unat OA_RUNTIME_UNITS_SI_V1))
       @ text_line (decimal (unat OA_RUNTIME_ORIENTATION_FREE)) @ text_line (decimal (unat policy))
       @ text_line (decimal (unat scene)))"

abbreviation SIZEOF_RUNTIME_OPTIONS :: u32 where "SIZEOF_RUNTIME_OPTIONS \<equiv> 48"

definition runtime_options_status :: "runtime_options pointer \<Rightarrow> runtime_status" where
  "runtime_options_status p =
     (case p of None \<Rightarrow> OA_RUNTIME_EABI
      | Some o' \<Rightarrow>
          if struct_size o' < SIZEOF_RUNTIME_OPTIONS \<or> abi_version o' \<noteq> OA_RUNTIME_ABI_VERSION then OA_RUNTIME_EABI
          else if ro_backend o' \<ge> OA_RUNTIME_BACKEND_VIRTUAL \<and> ro_backend o' \<le> OA_RUNTIME_BACKEND_OFFLINE
               \<and> allow_unchecked_virtual_motion o' \<le> 1
               \<and> ro_cycle_ns o' \<ge> 1000000 \<and> ro_cycle_ns o' \<le> 1000000000
               \<and> ro_feedback_timeout_ns o' \<ge> ro_cycle_ns o' \<and> maximum_cross_bus_skew_ns o' > 0
          then OA_RUNTIME_OK else OA_RUNTIME_EINVAL)"

section \<open>Creation and destruction\<close>

definition no_evidence :: clock_evidence where
  "no_evidence = \<lparr>ce_feedback_seq = 0, controller_monotonic_ns = 0, runtime_monotonic_ns = 0\<rparr>"

definition new_runtime :: "model_texts \<Rightarrow> u64 \<Rightarrow> runtime_options \<Rightarrow> manifest_data \<Rightarrow> runtime_data" where
  "new_runtime mt now o' d =
     \<lparr>rt_options = o', rt_manifest = d, control_manifest = 0, rt_controller = 0, timeline_ns = now,
      controller_timeline_ns = now, feedback_clock = (no_evidence, no_evidence),
      rt_events = ring_init 64 \<lparr>ee_source = empty_event, ee_runtime_monotonic_ns = 0\<rparr>, closing = False,
      rt_estop_active = False, rt_deadman_active = False, owner = 0, plan_pending = False, plan_expiry_ns = 0,
      plan_authority_id = 0, next_plan_authority_id = 1,
      last_error = error_of OA_RUNTIME_OK OA_RUNTIME_FACILITY_RUNTIME No_lower, rt_inventory_revision = 0,
      calibration_revision = 0,
      coordinate_identity_digest = coordinate_identity_for mt d (collision_policy_for o') (ro_collision_scene_revision o'),
      references = 1\<rparr>"

definition controller_options_of :: "runtime_options \<Rightarrow> controller_options" where
  "controller_options_of o' =
     \<lparr>struct_size = SIZEOF_CONTROLLER_OPTIONS, abi_version = OA_CONTROL_ABI_V1, backend = OA_BACKEND_VIRTUAL,
      collision_policy = (if allow_unchecked_virtual_motion o' \<noteq> 0 then OA_COLLISION_VIRTUAL_UNCHECKED
                          else OA_COLLISION_REJECT_ALL),
      cycle_ns = ro_cycle_ns o', feedback_timeout_ns = ro_feedback_timeout_ns o',
      max_cross_bus_skew_ns = maximum_cross_bus_skew_ns o', collision_scene_revision = ro_collision_scene_revision o'\<rparr>"

text \<open>The failures of a creation.\<close>

record create_faults =
  no_value :: bool
  no_manifest_memory :: bool
  no_slot :: bool
  no_controller_node :: bool
  no_thread :: bool
  no_registry_node :: bool

text \<open>
  The controller of a virtual runtime: its manifest, the controller, its verification, the first
  cycle and the first observation. The object under construction is returned with the status; a
  failure destroys it.
\<close>

definition start_controller ::
  "model_lib \<Rightarrow> create_faults \<Rightarrow> u64 \<Rightarrow> runtime_data \<Rightarrow> api \<Rightarrow> control_status \<times> runtime_data \<times> api" where
  "start_controller lib fl facade_now r s =
     (case oa_manifest_create lib (no_manifest_memory fl) (Some (md_config (rt_manifest r))) (Some 0) s of (st, m, s1) \<Rightarrow>
      if st \<noteq> OA_CONTROL_OK then (st, r, s1)
      else
        let r1 = r\<lparr>control_manifest := the m\<rparr> in
        case oa_controller_create (no_slot fl) (no_controller_node fl) (the m)
               (Some (controller_options_of (rt_options r))) (Some 0) s1 of (st, c, s2) \<Rightarrow>
        if st \<noteq> OA_CONTROL_OK then (st, r1, s2)
        else
          let r2 = r1\<lparr>rt_controller := the c\<rparr> in
          case oa_controller_open_and_verify (the c) (Some empty_report) s2 of (st, _, s3) \<Rightarrow>
          if st \<noteq> OA_CONTROL_OK then (st, r2, s3)
          else case oa_controller_advance lib (the c) (controller_timeline_ns r2) s3 of (st, s4) \<Rightarrow>
          if st \<noteq> OA_CONTROL_OK then (st, r2, s4)
          else case read_snapshot (the c) s4 of (st, sn, s5) \<Rightarrow>
          if st \<noteq> OA_CONTROL_OK then (st, r2, s5)
          else
            case drain_controller_events DRAIN_TURNS facade_now
                   (capture_feedback_clock sn (controller_timeline_ns r2) facade_now r2) s5 of (r3, s6) \<Rightarrow>
            (OA_CONTROL_OK, r3, s6))"

definition oa_runtime_create ::
  "model_lib \<Rightarrow> model_texts \<Rightarrow> create_faults \<Rightarrow> u64 \<Rightarrow> u64 \<Rightarrow> runtime_options pointer \<Rightarrow> u64 \<Rightarrow> u64 pointer \<Rightarrow> facade
     \<Rightarrow> runtime_status \<times> u64 pointer \<times> facade" where
  "oa_runtime_create lib mt fl now facade_now opts manifest out w =
     (if out = None then (OA_RUNTIME_EINVAL, out, w)
      else if runtime_options_status opts \<noteq> OA_RUNTIME_OK then (runtime_options_status opts, Some 0, w)
      else case registry_pin kManifestTag manifest (manifest_handles w) of None \<Rightarrow> (OA_RUNTIME_EINVAL, Some 0, w)
      | Some d \<Rightarrow>
          let o' = the opts; virtual = (ro_backend o' = OA_RUNTIME_BACKEND_VIRTUAL) in
          if virtual \<and> (intended_backend d \<noteq> OA_RUNTIME_BACKEND_VIRTUAL \<or> md_state d \<noteq> OA_RUNTIME_MANIFEST_ARMABLE)
          then (OA_RUNTIME_EIDENTITY, Some 0, w)
          else if virtual \<and> loaded_from_file d \<and> \<not> checkpoint_authorized d then (OA_RUNTIME_EPERMISSION, Some 0, w)
          else if no_value fl then (OA_RUNTIME_ENOMEM, Some 0, w)
          else
            case (if virtual then start_controller lib fl facade_now (new_runtime mt now o' d) (control w)
                  else (OA_CONTROL_OK, new_runtime mt now o' d, control w)) of (st, r, s) \<Rightarrow>
            if st \<noteq> OA_CONTROL_OK then (map_control st, Some 0, w\<lparr>control := discard_runtime r s\<rparr>)
            else if virtual \<and> no_thread fl then (OA_RUNTIME_ENOMEM, Some 0, w\<lparr>control := discard_runtime r s\<rparr>)
            else case registry_insert kRuntimeTag (no_registry_node fl) () (runtime_handles w) of
              (None, reg) \<Rightarrow>
                (OA_RUNTIME_ENOMEM, Some 0, w\<lparr>control := discard_runtime r s, runtime_handles := reg\<rparr>)
            | (Some h, reg) \<Rightarrow>
                (OA_RUNTIME_OK, Some h, set_runtime h r (w\<lparr>control := s, runtime_handles := reg\<rparr>)))"

definition oa_runtime_destroy :: "u64 \<Rightarrow> facade \<Rightarrow> facade" where
  "oa_runtime_destroy h w =
     (case registry_pin kRuntimeTag h (runtime_handles w) of None \<Rightarrow> w
      | Some _ \<Rightarrow>
          drop_reference h
            ((change_runtime h (\<lambda>r. r\<lparr>closing := True\<rparr>) w)\<lparr>runtime_handles := registry_drop kRuntimeTag h (runtime_handles w)\<rparr>))"

section \<open>Reading a runtime\<close>

record capability_report = header +
  cp_backend :: u32
  cp_clock_id :: u32
  cp_units_id :: u32
  cp_frame_id :: u32
  cp_orientation_policy :: u32
  cp_collision_policy :: u32
  cp_collision_checked :: u32
  cp_model_revision :: u64
  cp_capabilities :: u64
  cp_coordinate_identity :: string

record model_identity = header +
  id_side :: u32
  id_frame_id :: u32
  id_units_id :: u32
  id_orientation_policy :: u32
  id_collision_policy :: u32
  id_model_revision :: u64
  id_tcp_revision :: u64
  id_collision_scene_revision :: u64
  id_model_id :: string
  id_provenance :: string
  id_model_data_sha256 :: string
  id_flattened_urdf_sha256 :: string
  id_source_sha256 :: string
  id_tcp_frame :: string
  id_coordinate_identity :: string

abbreviation SIZEOF_CAPABILITY_REPORT :: u32 where "SIZEOF_CAPABILITY_REPORT \<equiv> 128"
abbreviation SIZEOF_MODEL_IDENTITY :: u32 where "SIZEOF_MODEL_IDENTITY \<equiv> 640"
abbreviation OA_RUNTIME_PROVENANCE_CAPACITY :: nat where "OA_RUNTIME_PROVENANCE_CAPACITY \<equiv> 192"

definition oa_runtime_get_capabilities ::
  "u64 \<Rightarrow> capability_report pointer \<Rightarrow> facade \<Rightarrow> runtime_status \<times> capability_report pointer" where
  "oa_runtime_get_capabilities h out w =
     (if \<not> output_valid SIZEOF_CAPABILITY_REPORT out then (OA_RUNTIME_EABI, out)
      else case require_runtime h w of Inl st \<Rightarrow> (st, out)
      | Inr r \<Rightarrow> (OA_RUNTIME_OK, Some
          \<lparr>struct_size = SIZEOF_CAPABILITY_REPORT, abi_version = OA_RUNTIME_ABI_VERSION, cp_backend = ro_backend (rt_options r),
           cp_clock_id = OA_RUNTIME_CLOCK_MONOTONIC, cp_units_id = OA_RUNTIME_UNITS_SI_V1,
           cp_frame_id = OA_RUNTIME_FRAME_OPENARM_BODY_LINK0, cp_orientation_policy = OA_RUNTIME_ORIENTATION_FREE,
           cp_collision_policy = collision_policy_for (rt_options r), cp_collision_checked = 0,
           cp_model_revision = model_revision (md_config (rt_manifest r)),
           cp_capabilities = capabilities_for (ro_backend (rt_options r)),
           cp_coordinate_identity = char_array OA_RUNTIME_DIGEST_CAPACITY (coordinate_identity_digest r)\<rparr>))"

text \<open>The models of the library are there, so the code's test for a null model does not fail.\<close>

definition fill_model_identity :: "model_texts \<Rightarrow> runtime_data \<Rightarrow> u32 \<Rightarrow> runtime_status + model_identity" where
  "fill_model_identity mt r side =
     (if side \<ge> 2 then Inl OA_RUNTIME_EINVAL
      else
        let i = unat side; revision = model_revision (md_config (rt_manifest r));
            digest = char_array OA_RUNTIME_DIGEST_CAPACITY in
        Inr \<lparr>struct_size = SIZEOF_MODEL_IDENTITY, abi_version = OA_RUNTIME_ABI_VERSION, id_side = side,
             id_frame_id = OA_RUNTIME_FRAME_OPENARM_BODY_LINK0, id_units_id = OA_RUNTIME_UNITS_SI_V1,
             id_orientation_policy = OA_RUNTIME_ORIENTATION_FREE, id_collision_policy = collision_policy_for (rt_options r),
             id_model_revision = revision, id_tcp_revision = revision,
             id_collision_scene_revision = ro_collision_scene_revision (rt_options r),
             id_model_id = char_array OA_RUNTIME_TEXT_CAPACITY (oa_model_id mt i),
             id_provenance = char_array OA_RUNTIME_PROVENANCE_CAPACITY (oa_model_provenance mt i),
             id_model_data_sha256 = digest (oa_model_data_sha256 mt i),
             id_flattened_urdf_sha256 = digest (oa_model_flattened_urdf_sha256 mt i),
             id_source_sha256 = digest (oa_model_source_sha256 mt i),
             id_tcp_frame = char_array OA_RUNTIME_TEXT_CAPACITY (oa_model_tip_frame mt i),
             id_coordinate_identity = digest (coordinate_identity_digest r)\<rparr>)"

definition oa_runtime_get_model_identity ::
  "model_texts \<Rightarrow> u64 \<Rightarrow> u32 \<Rightarrow> model_identity pointer \<Rightarrow> facade \<Rightarrow> runtime_status \<times> model_identity pointer \<times> facade" where
  "oa_runtime_get_model_identity mt h side out w =
     (if \<not> output_valid SIZEOF_MODEL_IDENTITY out then (OA_RUNTIME_EABI, out, w)
      else case require_runtime h w of Inl st \<Rightarrow> (st, out, w)
      | Inr r \<Rightarrow>
          if side \<ge> 2 then (case record_error h OA_RUNTIME_EINVAL OA_RUNTIME_FACILITY_RUNTIME No_lower w of (st, w1) \<Rightarrow> (st, out, w1))
          else (case fill_model_identity mt r side of
                  Inl e \<Rightarrow> (case record_error h e OA_RUNTIME_FACILITY_MODEL No_lower w of (st, w1) \<Rightarrow> (st, out, w1))
                | Inr i \<Rightarrow> (OA_RUNTIME_OK, Some i, w)))"

text \<open>A failure of a call on a runtime, with the output as it stands.\<close>

definition fail :: "u64 \<Rightarrow> runtime_status \<Rightarrow> runtime_facility \<Rightarrow> lower_status \<Rightarrow> 'o \<Rightarrow> facade \<Rightarrow> runtime_status \<times> 'o \<times> facade" where
  "fail h st fac lower out w = (case record_error h st fac lower w of (st1, w1) \<Rightarrow> (st1, out, w1))"

definition oa_runtime_now_monotonic_ns ::
  "u64 \<Rightarrow> u64 \<Rightarrow> u32 \<Rightarrow> u64 pointer \<Rightarrow> facade \<Rightarrow> runtime_status \<times> u64 pointer \<times> facade" where
  "oa_runtime_now_monotonic_ns host_now h clock_id out w =
     (case require_runtime h w of Inl st \<Rightarrow> (st, out, w)
      | Inr r \<Rightarrow>
          if out = None \<or> clock_id \<noteq> OA_RUNTIME_CLOCK_MONOTONIC
          then fail h OA_RUNTIME_EINVAL OA_RUNTIME_FACILITY_RUNTIME No_lower out w
          else
            let r1 = advance_timeline host_now r
            in (OA_RUNTIME_OK, Some (umax (timeline_ns r) host_now), set_runtime h r1 w))"

definition oa_runtime_get_last_error ::
  "u64 \<Rightarrow> error_detail pointer \<Rightarrow> facade \<Rightarrow> runtime_status \<times> error_detail pointer" where
  "oa_runtime_get_last_error h out w =
     (if \<not> output_valid SIZEOF_ERROR_DETAIL out then (OA_RUNTIME_EABI, out)
      else case require_runtime h w of Inl st \<Rightarrow> (st, out)
      | Inr r \<Rightarrow> (OA_RUNTIME_OK, Some (last_error r)))"

section \<open>Snapshots\<close>

record runtime_arm_snapshot = header +
  ra_feedback_seq :: u64
  measurement_runtime_monotonic_ns :: u64
  ra_expected_mask :: u32
  ra_fresh_mask :: u32
  ra_fault_mask :: u32
  q_model_rad :: "dbl list"
  dq_model_rad_s :: "dbl list"
  tau_model_nm :: "dbl list"
  ra_q_output_rad :: "dbl list"
  ra_dq_output_rad_s :: "dbl list"
  tau_output_nm :: "dbl list"
  ra_status :: "u8 list"
  ra_mos_temperature_c :: "u8 list"
  ra_coil_temperature_c :: "u8 list"

record runtime_snapshot = header +
  rs_clock_id :: u32
  rs_units_id :: u32
  rs_frame_id :: u32
  rs_lifecycle :: lifecycle
  rs_manifest_revision :: u64
  rs_model_revision :: u64
  rs_maximum_cross_bus_skew_ns :: u64
  rs_coordinate_identity :: string
  rs_arm :: "runtime_arm_snapshot both"

abbreviation SIZEOF_RUNTIME_ARM_SNAPSHOT :: u32 where "SIZEOF_RUNTIME_ARM_SNAPSHOT \<equiv> 400"
abbreviation SIZEOF_RUNTIME_SNAPSHOT :: u32 where "SIZEOF_RUNTIME_SNAPSHOT \<equiv> 920"

definition fill_arm_snapshot :: "arm_snapshot \<Rightarrow> runtime_arm_snapshot" where
  "fill_arm_snapshot a =
     \<lparr>struct_size = SIZEOF_RUNTIME_ARM_SNAPSHOT, abi_version = OA_RUNTIME_ABI_VERSION,
      ra_feedback_seq = as_feedback_seq a, measurement_runtime_monotonic_ns = 0, ra_expected_mask = expected_mask a,
      ra_fresh_mask = fresh_mask a, ra_fault_mask = as_fault_mask a, q_model_rad = as_q a, dq_model_rad_s = as_dq a,
      tau_model_nm = as_tau a, ra_q_output_rad = as_raw_q a, ra_dq_output_rad_s = as_raw_dq a,
      tau_output_nm = as_raw_tau a, ra_status = as_status a, ra_mos_temperature_c = as_mos_c a,
      ra_coil_temperature_c = as_coil_c a\<rparr>"

definition fill_snapshot :: "control_snapshot \<Rightarrow> runtime_snapshot" where
  "fill_snapshot sn =
     \<lparr>struct_size = SIZEOF_RUNTIME_SNAPSHOT, abi_version = OA_RUNTIME_ABI_VERSION,
      rs_clock_id = OA_RUNTIME_CLOCK_MONOTONIC, rs_units_id = OA_RUNTIME_UNITS_SI_V1,
      rs_frame_id = OA_RUNTIME_FRAME_OPENARM_BODY_LINK0, rs_lifecycle = sn_lifecycle sn,
      rs_manifest_revision = sn_manifest_revision sn, rs_model_revision = sn_model_revision sn,
      rs_maximum_cross_bus_skew_ns = sn_max_cross_bus_skew_ns sn, rs_coordinate_identity = replicate 65 NUL,
      rs_arm = map_both fill_arm_snapshot (sn_arm sn)\<rparr>"

text \<open>The time of a measurement, and its freshness on the runtime's clock.\<close>

definition date_arm :: "u64 \<Rightarrow> u64 \<Rightarrow> clock_evidence \<Rightarrow> runtime_arm_snapshot \<Rightarrow> runtime_arm_snapshot" where
  "date_arm facade_now timeout e a =
     (if ce_feedback_seq e \<noteq> ra_feedback_seq a \<or> runtime_monotonic_ns e = 0 \<or> runtime_monotonic_ns e > facade_now
      then a\<lparr>measurement_runtime_monotonic_ns := 0, ra_fresh_mask := 0\<rparr>
      else if facade_now - runtime_monotonic_ns e > timeout
      then a\<lparr>measurement_runtime_monotonic_ns := runtime_monotonic_ns e, ra_fresh_mask := 0\<rparr>
      else a\<lparr>measurement_runtime_monotonic_ns := runtime_monotonic_ns e\<rparr>)"

definition capture_runtime_snapshot ::
  "u64 \<Rightarrow> u64 \<Rightarrow> runtime_data \<Rightarrow> facade \<Rightarrow> (runtime_status + control_snapshot \<times> runtime_snapshot) \<times> facade" where
  "capture_runtime_snapshot facade_now h r w =
     (case read_snapshot (rt_controller r) (control w) of (st, sn, s1) \<Rightarrow>
        let w1 = w\<lparr>control := s1\<rparr> in
        if map_control st \<noteq> OA_RUNTIME_OK
        then (case record_error h (map_control st) OA_RUNTIME_FACILITY_CONTROL (Control_lower st) w1 of (e, w2) \<Rightarrow> (Inl e, w2))
        else
          let target = fill_snapshot sn; timeout = ro_feedback_timeout_ns (rt_options r)
          in (Inr (sn, target\<lparr>rs_arm :=
                (date_arm facade_now timeout (fst (feedback_clock r)) (fst (rs_arm target)),
                 date_arm facade_now timeout (snd (feedback_clock r)) (snd (rs_arm target)))\<rparr>), w1))"

definition oa_runtime_snapshot_get ::
  "u64 \<Rightarrow> u64 \<Rightarrow> runtime_snapshot pointer \<Rightarrow> facade \<Rightarrow> runtime_status \<times> runtime_snapshot pointer \<times> facade" where
  "oa_runtime_snapshot_get facade_now h out w =
     (if \<not> output_valid SIZEOF_RUNTIME_SNAPSHOT out then (OA_RUNTIME_EABI, out, w)
      else case require_runtime h w of Inl st \<Rightarrow> (st, out, w)
      | Inr r \<Rightarrow>
          if rt_controller r = 0 then fail h OA_RUNTIME_EUNSUPPORTED OA_RUNTIME_FACILITY_RUNTIME No_lower out w
          else (case capture_runtime_snapshot facade_now h r w of
                  (Inl st, w1) \<Rightarrow> (st, out, w1)
                | (Inr (_, target), w1) \<Rightarrow>
                    (OA_RUNTIME_OK, Some (target\<lparr>rs_coordinate_identity :=
                       char_array OA_RUNTIME_DIGEST_CAPACITY (coordinate_identity_digest r)\<rparr>), w1)))"

record runtime_kinematics = header +
  rk_frame_id :: u32
  rk_units_id :: u32
  rk_orientation_policy :: u32
  rk_side :: u32
  rk_feedback_seq :: u64
  rk_model_revision :: u64
  rk_tcp_revision :: u64
  rk_collision_policy :: u32
  rk_model_id :: string
  rk_tcp_frame :: string
  rk_model_data_sha256 :: string
  rk_flattened_urdf_sha256 :: string
  rk_coordinate_identity :: string
  rk_q_model_rad :: joint_vector
  rk_joint_xyz_m :: "dbl list list"
  rk_joint_axis_body :: "dbl list list"
  tcp_transform_row_major :: "dbl list"
  rk_tcp_xyz_m :: point

abbreviation SIZEOF_RUNTIME_KINEMATICS :: u32 where "SIZEOF_RUNTIME_KINEMATICS \<equiv> 920"

definition kinematics_report :: "u32 \<Rightarrow> arm_kinematics \<Rightarrow> model_identity \<Rightarrow> runtime_kinematics" where
  "kinematics_report side k i =
     \<lparr>struct_size = SIZEOF_RUNTIME_KINEMATICS, abi_version = OA_RUNTIME_ABI_VERSION,
      rk_frame_id = OA_RUNTIME_FRAME_OPENARM_BODY_LINK0, rk_units_id = OA_RUNTIME_UNITS_SI_V1,
      rk_orientation_policy = OA_RUNTIME_ORIENTATION_FREE, rk_side = side, rk_feedback_seq = ak_feedback_seq k,
      rk_model_revision = id_model_revision i, rk_tcp_revision = id_tcp_revision i,
      rk_collision_policy = id_collision_policy i, rk_model_id = id_model_id i, rk_tcp_frame = id_tcp_frame i,
      rk_model_data_sha256 = id_model_data_sha256 i, rk_flattened_urdf_sha256 = id_flattened_urdf_sha256 i,
      rk_coordinate_identity = id_coordinate_identity i, rk_q_model_rad = ak_q k,
      rk_joint_xyz_m = ak_joint_xyz_m k, rk_joint_axis_body = ak_joint_axis_body k,
      tcp_transform_row_major = ak_tcp_transform k, rk_tcp_xyz_m = ak_tcp_xyz_m k\<rparr>"

definition oa_runtime_get_kinematics ::
  "model_lib \<Rightarrow> model_texts \<Rightarrow> u64 \<Rightarrow> u32 \<Rightarrow> u64 \<Rightarrow> runtime_kinematics pointer \<Rightarrow> facade
     \<Rightarrow> runtime_status \<times> runtime_kinematics pointer \<times> facade" where
  "oa_runtime_get_kinematics lib mt h side required_seq out w =
     (if \<not> output_valid SIZEOF_RUNTIME_KINEMATICS out then (OA_RUNTIME_EABI, out, w)
      else case require_runtime h w of Inl st \<Rightarrow> (st, out, w)
      | Inr r \<Rightarrow>
          if side \<ge> 2 then fail h OA_RUNTIME_EINVAL OA_RUNTIME_FACILITY_RUNTIME No_lower out w
          else if rt_controller r = 0 then fail h OA_RUNTIME_EUNSUPPORTED OA_RUNTIME_FACILITY_RUNTIME No_lower out w
          else case oa_controller_get_kinematics lib (rt_controller r) side required_seq (Some empty_kinematics) (control w) of
            (st, k, s1) \<Rightarrow>
              let w1 = w\<lparr>control := s1\<rparr> in
              if map_control st \<noteq> OA_RUNTIME_OK
              then fail h (map_control st) OA_RUNTIME_FACILITY_CONTROL (Control_lower st) out w1
              else (case fill_model_identity mt r side of
                      Inl _ \<Rightarrow> (OA_RUNTIME_OK, out, w1)
                    | Inr i \<Rightarrow> (OA_RUNTIME_OK, Some (kinematics_report side (the k) i), w1)))"

end
