(* ===== verification/Runtime_Motion.thy ===== *)
theory Runtime_Motion
  imports Runtime_Facade
begin

text \<open>
  The motion calls of the runtime facade, runtime/src/runtime.cpp: interlock, arming, the planning
  calls and their plan authority, execution, heartbeat, stop, disarm, the events, the contact
  monitor, and the process-wide emergency stop. Motion needs the owner 1, which arming takes and
  disarming gives back. At most one plan of a runtime is pending: a planning call takes the
  authority, and its execution, its expiry or its end returns it.
\<close>

section \<open>Requests\<close>

record runtime_joint_move = header +
  rj_clock_id :: u32
  rj_units_id :: u32
  rj_expiry_ns :: u64
  rj_required_feedback_seq :: u64
  rj_side :: u32
  rj_joint :: u32
  target_model_rad :: dbl
  rj_velocity_scale :: dbl
  rj_acceleration_scale :: dbl
  rj_jerk_scale :: dbl
  position_tolerance_rad :: dbl
  velocity_tolerance_rad_s :: dbl
  rj_required_model_revision :: u64
  rj_required_tcp_revision :: u64
  rj_collision_scene_revision :: u64
  rj_required_collision_policy :: u32
  rj_required_coordinate_identity :: string

record runtime_paired_move = header +
  rp_clock_id :: u32
  rp_units_id :: u32
  rp_frame_id :: u32
  rp_orientation_policy :: u32
  rp_expiry_ns :: u64
  rp_required_feedback_seq :: "u64 both"
  rp_left_tcp_m :: point
  rp_right_tcp_m :: point
  rp_velocity_scale :: dbl
  rp_acceleration_scale :: dbl
  rp_jerk_scale :: dbl
  tcp_tolerance_m :: dbl
  rp_collision_scene_revision :: u64
  rp_required_model_revision :: u64
  rp_required_tcp_revision :: "u64 both"
  rp_required_collision_policy :: u32
  rp_required_coordinate_identity :: string
  maximum_branch_step_rad :: dbl
  minimum_singular_value :: dbl

record runtime_converge_move = header +
  rc_base :: runtime_paired_move
  rc_target_m :: point
  rc_contact_torque_nm :: joint_vector
  rc_contact_torque_fraction :: dbl
  rc_contact_persistence_cycles :: u32
  rc_reserved0 :: u32
  rc_stop_distance_m :: dbl
  rc_minimum_progress_m :: dbl

record runtime_execute_request = header +
  rx_clock_id :: u32
  rx_start_ns :: u64
  rx_expiry_ns :: u64
  rx_producer_deadline_ns :: u64
  rx_stop_kind :: u32

abbreviation OA_RUNTIME_MOTION_ABI_VERSION :: u32 where "OA_RUNTIME_MOTION_ABI_VERSION \<equiv> 1"
abbreviation SIZEOF_RUNTIME_JOINT_MOVE :: u32 where "SIZEOF_RUNTIME_JOINT_MOVE \<equiv> 184"
abbreviation SIZEOF_RUNTIME_PAIRED_MOVE :: u32 where "SIZEOF_RUNTIME_PAIRED_MOVE \<equiv> 248"
abbreviation SIZEOF_RUNTIME_CONVERGE_MOVE :: u32 where "SIZEOF_RUNTIME_CONVERGE_MOVE \<equiv> 368"
abbreviation SIZEOF_RUNTIME_EXECUTE_REQUEST :: u32 where "SIZEOF_RUNTIME_EXECUTE_REQUEST \<equiv> 48"

section \<open>Interlock and arming\<close>

text \<open>A call that hands a status of the control library on.\<close>

definition pass_control :: "u64 \<Rightarrow> control_status \<Rightarrow> facade \<Rightarrow> runtime_status \<times> facade" where
  "pass_control h st = record_error h (map_control st) OA_RUNTIME_FACILITY_CONTROL (Control_lower st)"

abbreviation refuse :: "u64 \<Rightarrow> runtime_status \<Rightarrow> facade \<Rightarrow> runtime_status \<times> facade" where
  "refuse h st \<equiv> record_error h st OA_RUNTIME_FACILITY_RUNTIME No_lower"

definition oa_runtime_set_interlock :: "u64 \<Rightarrow> u32 \<Rightarrow> u32 \<Rightarrow> facade \<Rightarrow> runtime_status \<times> facade" where
  "oa_runtime_set_interlock h estop_active deadman w =
     (case require_runtime h w of Inl st \<Rightarrow> (st, w)
      | Inr r \<Rightarrow>
          if estop_active > 1 \<or> deadman > 1 then refuse h OA_RUNTIME_EINVAL w
          else if rt_controller r = 0 then refuse h OA_RUNTIME_EUNSUPPORTED w
          else
            let w1 = set_runtime h (r\<lparr>rt_estop_active := estop_active \<noteq> 0, rt_deadman_active := deadman \<noteq> 0\<rparr>) w
            in (case oa_controller_set_interlock (rt_controller r) estop_active deadman (control w1) of (st, s) \<Rightarrow>
                  pass_control h st (w1\<lparr>control := s\<rparr>)))"

definition oa_runtime_arm_virtual :: "u64 \<Rightarrow> facade \<Rightarrow> runtime_status \<times> facade" where
  "oa_runtime_arm_virtual h w =
     (case require_runtime h w of Inl st \<Rightarrow> (st, w)
      | Inr r \<Rightarrow>
          if rt_controller r = 0 \<or> ro_backend (rt_options r) \<noteq> OA_RUNTIME_BACKEND_VIRTUAL
          then refuse h OA_RUNTIME_EUNSUPPORTED w
          else if owner r \<noteq> 0 then refuse h OA_RUNTIME_EBUSY w
          else if rt_estop_active r \<or> \<not> rt_deadman_active r then refuse h OA_RUNTIME_EFAULT w
          else case oa_controller_get_arm_challenge (rt_controller r) (Some empty_challenge) (control w) of (st, ch, s) \<Rightarrow>
            (case (if st = OA_CONTROL_OK then oa_controller_arm (rt_controller r) ch s else (st, s)) of (st1, s1) \<Rightarrow>
               if st1 = OA_CONTROL_OK then (OA_RUNTIME_OK, set_runtime h (r\<lparr>owner := 1\<rparr>) (w\<lparr>control := s1\<rparr>))
               else pass_control h st1 (w\<lparr>control := s1\<rparr>)))"

section \<open>The plan authority\<close>

definition acquire_authority :: "u64 \<Rightarrow> runtime_data \<Rightarrow> (u64 \<times> runtime_data) option" where
  "acquire_authority expiry r =
     (if owner r \<noteq> 1 \<or> plan_pending r then None
      else
        let i = next_plan_authority_id r
        in Some (i, r\<lparr>plan_pending := True, plan_expiry_ns := expiry, plan_authority_id := i,
                     next_plan_authority_id := (if i + 1 = 0 then 1 else i + 1)\<rparr>))"

text \<open>The failures of the allocations of a planning call: the plan's object, the lower plan, its handle.\<close>

record plan_faults =
  no_plan_object :: bool
  no_lower_plan :: bool
  no_plan_node :: bool

definition new_plan :: "u64 \<Rightarrow> u64 \<Rightarrow> u64 \<Rightarrow> u64 \<Rightarrow> plan_data" where
  "new_plan h plan expiry i =
     \<lparr>pd_runtime = h, pd_plan = plan, facade_expiry_ns = expiry, authority_id = i, holds_authority = True\<rparr>"

text \<open>A refusal after the authority is taken: the plan's object ends with the call.\<close>

definition abandon ::
  "u64 \<Rightarrow> plan_data \<Rightarrow> runtime_status \<Rightarrow> runtime_facility \<Rightarrow> lower_status \<Rightarrow> facade
     \<Rightarrow> runtime_status \<times> u64 pointer \<times> facade" where
  "abandon h p st fac lower w = (case fail h st fac lower (Some 0) w of (st1, out, w1) \<Rightarrow> (st1, out, discard_plan p w1))"

text \<open>
  What the three planning calls do once their request is accepted: \<open>planner\<close> is the call of the
  control library for a deadline on its timeline, \<open>current\<close> the test of the required feedback.
\<close>

definition plan_under_authority ::
  "plan_faults \<Rightarrow> u64 \<Rightarrow> u64 \<Rightarrow> runtime_data \<Rightarrow> u64 \<Rightarrow> (control_snapshot \<Rightarrow> bool)
     \<Rightarrow> (u64 \<Rightarrow> u64 pointer \<Rightarrow> api \<Rightarrow> control_status \<times> u64 pointer \<times> api) \<Rightarrow> facade
     \<Rightarrow> runtime_status \<times> u64 pointer \<times> facade" where
  "plan_under_authority fl facade_now h r expiry current planner w =
     (if rt_controller r = 0 then fail h OA_RUNTIME_EUNSUPPORTED OA_RUNTIME_FACILITY_RUNTIME No_lower (Some 0) w
      else if no_plan_object fl then fail h OA_RUNTIME_ENOMEM OA_RUNTIME_FACILITY_RUNTIME No_lower (Some 0) w
      else case acquire_authority expiry r of
        None \<Rightarrow> fail h OA_RUNTIME_EBUSY OA_RUNTIME_FACILITY_RUNTIME No_lower (Some 0) w
      | Some (i, r1) \<Rightarrow>
          let w1 = set_runtime h r1 w; unplanned = new_plan h 0 0 i in
          case translate_future_deadline expiry facade_now (controller_timeline_ns r) of
            None \<Rightarrow> abandon h unplanned OA_RUNTIME_ETIMEOUT OA_RUNTIME_FACILITY_RUNTIME No_lower w1
          | Some deadline \<Rightarrow>
              let unplanned1 = unplanned\<lparr>facade_expiry_ns := expiry\<rparr> in
              case read_snapshot (rt_controller r) (control w1) of (st, sn, s1) \<Rightarrow>
              if st = OA_CONTROL_OK \<and> \<not> current sn
              then abandon h unplanned1 OA_RUNTIME_ESTALE OA_RUNTIME_FACILITY_RUNTIME No_lower (w1\<lparr>control := s1\<rparr>)
              else case (if st = OA_CONTROL_OK then planner deadline (Some 0) s1 else (st, Some 0, s1)) of (st2, pl, s2) \<Rightarrow>
                let w2 = w1\<lparr>control := s2\<rparr> in
                if st2 \<noteq> OA_CONTROL_OK
                then abandon h unplanned1 (map_control st2) OA_RUNTIME_FACILITY_CONTROL (Control_lower st2) w2
                else
                  let p = new_plan h (the pl) expiry i in
                  (case registry_insert kPlanTag (no_plan_node fl) p (plan_handles w2) of
                     (None, reg) \<Rightarrow>
                       abandon h p OA_RUNTIME_ENOMEM OA_RUNTIME_FACILITY_RUNTIME No_lower (w2\<lparr>plan_handles := reg\<rparr>)
                   | (Some ph, reg) \<Rightarrow>
                       (OA_RUNTIME_OK, Some ph,
                        take_reference h (w2\<lparr>plan_handles := reg\<rparr>))))"

section \<open>The planning calls\<close>

definition control_joint_move :: "runtime_joint_move \<Rightarrow> u64 \<Rightarrow> joint_move" where
  "control_joint_move q deadline =
     \<lparr>struct_size = SIZEOF_JOINT_MOVE, abi_version = OA_CONTROL_ABI_V1, jm_expiry_ns = deadline,
      jm_required_feedback_seq = rj_required_feedback_seq q, jm_side = rj_side q, jm_joint = rj_joint q,
      target_rad = target_model_rad q, jm_velocity_scale = rj_velocity_scale q,
      jm_acceleration_scale = rj_acceleration_scale q, jm_jerk_scale = rj_jerk_scale q,
      position_tol_rad = position_tolerance_rad q, velocity_tol_rad_s = velocity_tolerance_rad_s q\<rparr>"

definition same_identity :: "string \<Rightarrow> runtime_data \<Rightarrow> bool" where
  "same_identity s r = strncmp_equal OA_RUNTIME_DIGEST_CAPACITY s (coordinate_identity_digest r)"

definition oa_runtime_plan_joint ::
  "model_lib \<Rightarrow> plan_faults \<Rightarrow> u64 \<Rightarrow> u64 \<Rightarrow> runtime_joint_move pointer \<Rightarrow> u64 pointer \<Rightarrow> facade
     \<Rightarrow> runtime_status \<times> u64 pointer \<times> facade" where
  "oa_runtime_plan_joint lib fl facade_now h request out w =
     (case request of None \<Rightarrow> (OA_RUNTIME_EABI, out, w)
      | Some q \<Rightarrow>
        if struct_size q < SIZEOF_RUNTIME_JOINT_MOVE \<or> abi_version q \<noteq> OA_RUNTIME_ABI_VERSION then (OA_RUNTIME_EABI, out, w)
        else case require_runtime h w of Inl st \<Rightarrow> (st, out, w)
        | Inr r \<Rightarrow>
          let revision = model_revision (md_config (rt_manifest r)) in
          if out = None then fail h OA_RUNTIME_EINVAL OA_RUNTIME_FACILITY_RUNTIME No_lower out w
          else if rj_clock_id q \<noteq> OA_RUNTIME_CLOCK_MONOTONIC \<or> rj_units_id q \<noteq> OA_RUNTIME_UNITS_SI_V1
            \<or> rj_side q \<ge> 2 \<or> rj_joint q \<ge> 7 \<or> rj_required_collision_policy q \<noteq> collision_policy_for (rt_options r)
          then fail h OA_RUNTIME_EINVAL OA_RUNTIME_FACILITY_RUNTIME No_lower (Some 0) w
          else if rj_required_model_revision q \<noteq> revision \<or> rj_required_tcp_revision q \<noteq> revision
            \<or> rj_collision_scene_revision q \<noteq> ro_collision_scene_revision (rt_options r)
            \<or> \<not> same_identity (rj_required_coordinate_identity q) r
          then fail h OA_RUNTIME_EIDENTITY OA_RUNTIME_FACILITY_MODEL No_lower (Some 0) w
          else plan_under_authority fl facade_now h r (rj_expiry_ns q)
            (\<lambda>sn. rj_required_feedback_seq q = as_feedback_seq (pick (unat (rj_side q)) (sn_arm sn)))
            (\<lambda>deadline. oa_controller_plan_joint lib (no_lower_plan fl) (rt_controller r)
               (Some (control_joint_move q deadline))) w)"

definition control_paired_move :: "runtime_paired_move \<Rightarrow> u64 \<Rightarrow> paired_tcp_move" where
  "control_paired_move q deadline =
     \<lparr>struct_size = SIZEOF_PAIRED_MOVE, abi_version = OA_CONTROL_ABI_V1, tm_expiry_ns = deadline,
      tm_required_feedback_seq = rp_required_feedback_seq q, tm_velocity_scale = rp_velocity_scale q,
      tm_acceleration_scale = rp_acceleration_scale q, tm_jerk_scale = rp_jerk_scale q,
      tm_tcp_tol_m = tcp_tolerance_m q, tm_collision_scene_revision = rp_collision_scene_revision q,
      tm_max_branch_step_rad = maximum_branch_step_rad q, tm_min_singular_value = minimum_singular_value q,
      left_tcp_m = rp_left_tcp_m q, right_tcp_m = rp_right_tcp_m q\<rparr>"

text \<open>The tests that the paired and the converging move share.\<close>

definition paired_request_status :: "runtime_paired_move \<Rightarrow> runtime_data \<Rightarrow> runtime_status" where
  "paired_request_status q r =
     (let revision = model_revision (md_config (rt_manifest r)) in
      if rp_clock_id q \<noteq> OA_RUNTIME_CLOCK_MONOTONIC \<or> rp_units_id q \<noteq> OA_RUNTIME_UNITS_SI_V1
        \<or> rp_frame_id q \<noteq> OA_RUNTIME_FRAME_OPENARM_BODY_LINK0 \<or> rp_orientation_policy q \<noteq> OA_RUNTIME_ORIENTATION_FREE
        \<or> rp_required_collision_policy q \<noteq> collision_policy_for (rt_options r)
      then OA_RUNTIME_EINVAL
      else if rp_required_model_revision q \<noteq> revision \<or> fst (rp_required_tcp_revision q) \<noteq> revision
        \<or> snd (rp_required_tcp_revision q) \<noteq> revision
      then OA_RUNTIME_EIDENTITY
      else if \<not> same_identity (rp_required_coordinate_identity q) r then OA_RUNTIME_EIDENTITY
      else OA_RUNTIME_OK)"

definition request_facility :: "runtime_status \<Rightarrow> runtime_facility" where
  "request_facility st = (if st = OA_RUNTIME_EIDENTITY then OA_RUNTIME_FACILITY_MODEL else OA_RUNTIME_FACILITY_RUNTIME)"

definition paired_current :: "runtime_paired_move \<Rightarrow> control_snapshot \<Rightarrow> bool" where
  "paired_current q sn \<longleftrightarrow>
     rp_required_feedback_seq q = (as_feedback_seq (fst (sn_arm sn)), as_feedback_seq (snd (sn_arm sn)))"

definition oa_runtime_plan_paired_tcp_body ::
  "model_lib \<Rightarrow> (nat \<Rightarrow> dbl \<Rightarrow> dbl \<Rightarrow> dbl) \<Rightarrow> plan_faults \<Rightarrow> u64 \<Rightarrow> u64 \<Rightarrow> runtime_paired_move pointer \<Rightarrow> u64 pointer
     \<Rightarrow> facade \<Rightarrow> runtime_status \<times> u64 pointer \<times> facade" where
  "oa_runtime_plan_paired_tcp_body lib mix fl facade_now h request out w =
     (case request of None \<Rightarrow> (OA_RUNTIME_EABI, out, w)
      | Some q \<Rightarrow>
        if struct_size q < SIZEOF_RUNTIME_PAIRED_MOVE \<or> abi_version q \<noteq> OA_RUNTIME_ABI_VERSION then (OA_RUNTIME_EABI, out, w)
        else case require_runtime h w of Inl st \<Rightarrow> (st, out, w)
        | Inr r \<Rightarrow>
          let st = paired_request_status q r in
          if out = None then fail h OA_RUNTIME_EINVAL OA_RUNTIME_FACILITY_RUNTIME No_lower out w
          else if st \<noteq> OA_RUNTIME_OK then fail h st (request_facility st) No_lower (Some 0) w
          else plan_under_authority fl facade_now h r (rp_expiry_ns q) (paired_current q)
            (\<lambda>deadline. oa_controller_plan_paired_tcp lib mix (no_lower_plan fl) (rt_controller r)
               (Some (control_paired_move q deadline))) w)"

definition control_converge_move :: "runtime_converge_move \<Rightarrow> u64 \<Rightarrow> converge_tcp_move" where
  "control_converge_move q deadline =
     (let base = rc_base q in
     \<lparr>struct_size = SIZEOF_CONVERGE_MOVE, abi_version = OA_CONTROL_ABI_V1, tm_expiry_ns = deadline,
      tm_required_feedback_seq = rp_required_feedback_seq base, tm_velocity_scale = rp_velocity_scale base,
      tm_acceleration_scale = rp_acceleration_scale base, tm_jerk_scale = rp_jerk_scale base,
      tm_tcp_tol_m = tcp_tolerance_m base, tm_collision_scene_revision = rp_collision_scene_revision base,
      tm_max_branch_step_rad = maximum_branch_step_rad base, tm_min_singular_value = minimum_singular_value base,
      target_m = rc_target_m q, cm_contact_torque_nm = rc_contact_torque_nm q,
      contact_torque_fraction = rc_contact_torque_fraction q,
      cm_contact_persistence_cycles = rc_contact_persistence_cycles q, cm_reserved0 = 0,
      stop_distance_m = rc_stop_distance_m q, minimum_progress_m = rc_minimum_progress_m q\<rparr>)"

definition oa_runtime_plan_converge_tcp_body ::
  "model_lib \<Rightarrow> plan_faults \<Rightarrow> u64 \<Rightarrow> u64 \<Rightarrow> runtime_converge_move pointer \<Rightarrow> u64 pointer
     \<Rightarrow> facade \<Rightarrow> runtime_status \<times> u64 pointer \<times> facade" where
  "oa_runtime_plan_converge_tcp_body lib fl facade_now h request out w =
     (case request of None \<Rightarrow> (OA_RUNTIME_EABI, out, w)
      | Some q \<Rightarrow>
        let base = rc_base q in
        if struct_size q < SIZEOF_RUNTIME_CONVERGE_MOVE \<or> abi_version q \<noteq> OA_RUNTIME_MOTION_ABI_VERSION
          \<or> rc_reserved0 q \<noteq> 0 then (OA_RUNTIME_EABI, out, w)
        else if struct_size base < SIZEOF_RUNTIME_PAIRED_MOVE \<or> abi_version base \<noteq> OA_RUNTIME_ABI_VERSION
        then (OA_RUNTIME_EABI, out, w)
        else case require_runtime h w of Inl st \<Rightarrow> (st, out, w)
        | Inr r \<Rightarrow>
          let st = paired_request_status base r in
          if out = None then fail h OA_RUNTIME_EINVAL OA_RUNTIME_FACILITY_RUNTIME No_lower out w
          else if st \<noteq> OA_RUNTIME_OK then fail h st (request_facility st) No_lower (Some 0) w
          else plan_under_authority fl facade_now h r (rp_expiry_ns base) (paired_current base)
            (\<lambda>deadline. oa_controller_plan_converge_tcp lib (no_lower_plan fl) (rt_controller r)
               (Some (control_converge_move q deadline))) w)"

section \<open>The report and the end of a plan\<close>

record runtime_plan_report = header +
  rl_kind :: plan_kind
  rl_collision_checked :: u32
  rl_motion_authorized :: u32
  rl_frame_id :: u32
  rl_units_id :: u32
  rl_seed_feedback_seq :: "u64 both"
  rl_duration_ns :: u64
  rl_manifest_revision :: u64
  rl_model_revision :: u64
  rl_tcp_revision :: "u64 both"
  rl_collision_scene_revision :: u64
  rl_collision_policy :: u32
  rl_coordinate_identity :: string
  target_q_model_rad :: "joint_vector both"
  rl_achieved_tcp_m :: "point both"
  rl_tcp_residual_m :: "dbl both"

abbreviation SIZEOF_RUNTIME_PLAN_REPORT :: u32 where "SIZEOF_RUNTIME_PLAN_REPORT \<equiv> 344"

definition plan_report_out :: plan_report where
  "plan_report_out =
     \<lparr>struct_size = SIZEOF_PLAN_REPORT, abi_version = OA_CONTROL_ABI_V1, pl_kind = OA_PLAN_JOINT, pl_collision_checked = 0,
      pl_seed_feedback_seq = (0, 0), pl_duration_ns = 0, pl_manifest_revision = 0, pl_model_revision = 0,
      pl_collision_scene_revision = 0, pl_target_q = (zero_joints, zero_joints),
      pl_achieved_tcp_m = (replicate 3 0, replicate 3 0), pl_tcp_residual_m = (0, 0)\<rparr>"

definition runtime_report :: "runtime_data \<Rightarrow> plan_report \<Rightarrow> runtime_plan_report" where
  "runtime_report r p =
     (let revision = model_revision (md_config (rt_manifest r)) in
     \<lparr>struct_size = SIZEOF_RUNTIME_PLAN_REPORT, abi_version = OA_RUNTIME_ABI_VERSION, rl_kind = pl_kind p,
      rl_collision_checked = pl_collision_checked p, rl_motion_authorized = 0,
      rl_frame_id = OA_RUNTIME_FRAME_OPENARM_BODY_LINK0, rl_units_id = OA_RUNTIME_UNITS_SI_V1,
      rl_seed_feedback_seq = pl_seed_feedback_seq p, rl_duration_ns = pl_duration_ns p,
      rl_manifest_revision = pl_manifest_revision p, rl_model_revision = pl_model_revision p,
      rl_tcp_revision = (revision, revision), rl_collision_scene_revision = pl_collision_scene_revision p,
      rl_collision_policy = collision_policy_for (rt_options r),
      rl_coordinate_identity = char_array OA_RUNTIME_DIGEST_CAPACITY (coordinate_identity_digest r),
      target_q_model_rad = pl_target_q p, rl_achieved_tcp_m = pl_achieved_tcp_m p,
      rl_tcp_residual_m = pl_tcp_residual_m p\<rparr>)"

text \<open>A plan holds a reference to its runtime, so the object of its runtime is always there.\<close>

definition oa_runtime_plan_get_report ::
  "u64 \<Rightarrow> runtime_plan_report pointer \<Rightarrow> facade \<Rightarrow> runtime_status \<times> runtime_plan_report pointer \<times> facade" where
  "oa_runtime_plan_get_report plan out w =
     (if \<not> output_valid SIZEOF_RUNTIME_PLAN_REPORT out then (OA_RUNTIME_EABI, out, w)
      else case registry_pin kPlanTag plan (plan_handles w) of None \<Rightarrow> (OA_RUNTIME_EINVAL, out, w)
      | Some p \<Rightarrow>
          (case oa_motion_plan_get_report (pd_plan p) (Some plan_report_out) (control w) of (st, source) \<Rightarrow>
             if st \<noteq> OA_CONTROL_OK
             then fail (pd_runtime p) (map_control st) OA_RUNTIME_FACILITY_CONTROL (Control_lower st) out w
             else (OA_RUNTIME_OK, Some (runtime_report (the (runtime_objects w (pd_runtime p))) (the source)), w)))"

definition oa_runtime_plan_destroy :: "u64 \<Rightarrow> facade \<Rightarrow> facade" where
  "oa_runtime_plan_destroy plan w =
     (case registry_pin kPlanTag plan (plan_handles w) of None \<Rightarrow> w
      | Some p \<Rightarrow>
          drop_reference (pd_runtime p)
            (discard_plan p (w\<lparr>plan_handles := registry_drop kPlanTag plan (plan_handles w)\<rparr>)))"

end
