(* ===== verification/Runtime_Execution.thy ===== *)
theory Runtime_Execution
  imports Runtime_Motion
begin

text \<open>
  The second part of the motion calls of the runtime facade, runtime/src/runtime.cpp: executing the
  plan that holds the authority, heartbeat, stop, disarm, the event queue, the contact monitor and
  the process-wide emergency stop; and the adapters of openarm_runtime_motion.h and
  openarm_runtime_units.h, which derive a paired move from the measured positions or from another
  unit of length.
\<close>

section \<open>Execution\<close>

definition release_pending :: "u64 \<Rightarrow> plan_data \<Rightarrow> u64 \<Rightarrow> facade \<Rightarrow> facade" where
  "release_pending plan p h w =
     change_runtime h (release_authority (authority_id p))
       (w\<lparr>plan_handles := registry_update plan (p\<lparr>holds_authority := False\<rparr>) (plan_handles w)\<rparr>)"

text \<open>The request on the controller's timeline.\<close>

definition control_execute_request :: "runtime_execute_request \<Rightarrow> u64 \<Rightarrow> u64 \<Rightarrow> execute_request option" where
  "control_execute_request q facade_now controller_now =
     (let translate = (\<lambda>t. translate_future_deadline t facade_now controller_now) in
      case (if rx_start_ns q = 0 then Some 0 else translate (rx_start_ns q)) of None \<Rightarrow> None
      | Some start \<Rightarrow>
          (case translate (rx_expiry_ns q) of None \<Rightarrow> None
           | Some expiry \<Rightarrow>
               (case translate (rx_producer_deadline_ns q) of None \<Rightarrow> None
                | Some producer \<Rightarrow>
                    Some \<lparr>struct_size = SIZEOF_EXECUTE_REQUEST, abi_version = OA_CONTROL_ABI_V1, er_start_ns = start,
                          er_expiry_ns = expiry, er_producer_deadline_ns = producer, er_stop_kind = rx_stop_kind q\<rparr>)))"

definition oa_runtime_execute ::
  "model_lib \<Rightarrow> u64 \<Rightarrow> u64 \<Rightarrow> u64 \<Rightarrow> runtime_execute_request pointer \<Rightarrow> u64 pointer \<Rightarrow> facade
     \<Rightarrow> runtime_status \<times> u64 pointer \<times> facade" where
  "oa_runtime_execute lib facade_now h plan request out w =
     (case request of None \<Rightarrow> (OA_RUNTIME_EABI, out, w)
      | Some q \<Rightarrow>
        if struct_size q < SIZEOF_RUNTIME_EXECUTE_REQUEST \<or> abi_version q \<noteq> OA_RUNTIME_ABI_VERSION
        then (OA_RUNTIME_EABI, out, w)
        else case require_runtime h w of Inl st \<Rightarrow> (st, out, w)
        | Inr r \<Rightarrow>
          let invalid = fail h OA_RUNTIME_EINVAL OA_RUNTIME_FACILITY_RUNTIME No_lower in
          if out = None then invalid out w
          else if rx_clock_id q \<noteq> OA_RUNTIME_CLOCK_MONOTONIC then invalid (Some 0) w
          else case registry_pin kPlanTag plan (plan_handles w) of None \<Rightarrow> invalid (Some 0) w
          | Some p \<Rightarrow>
            if pd_runtime p \<noteq> h then invalid (Some 0) w
            else if rt_controller r = 0
            then fail h OA_RUNTIME_EUNSUPPORTED OA_RUNTIME_FACILITY_RUNTIME No_lower (Some 0) w
            else if \<not> holds_authority p \<or> \<not> plan_pending r \<or> plan_authority_id r \<noteq> authority_id p
            then fail h OA_RUNTIME_ESTALE OA_RUNTIME_FACILITY_RUNTIME No_lower (Some 0) w
            else if facade_expiry_ns p \<le> facade_now
            then fail h OA_RUNTIME_ETIMEOUT OA_RUNTIME_FACILITY_RUNTIME No_lower (Some 0) (release_pending plan p h w)
            else
              let effective_start = (if rx_start_ns q = 0 then facade_now else rx_start_ns q) in
              if effective_start < facade_now \<or> rx_expiry_ns q \<le> effective_start
                \<or> rx_expiry_ns q > facade_expiry_ns p \<or> rx_producer_deadline_ns q \<le> facade_now
              then invalid (Some 0) w
              else case control_execute_request q facade_now (controller_timeline_ns r) of None \<Rightarrow> invalid (Some 0) w
              | Some x \<Rightarrow>
                (case oa_controller_execute lib (rt_controller r) (pd_plan p) (Some x) (Some 0) (control w) of (st, cid, s) \<Rightarrow>
                   if st = OA_CONTROL_OK
                   then (OA_RUNTIME_OK, cid, release_pending plan p h (w\<lparr>control := s\<rparr>))
                   else fail h (map_control st) OA_RUNTIME_FACILITY_CONTROL (Control_lower st) cid (w\<lparr>control := s\<rparr>)))"

section \<open>Heartbeat, stop and disarm\<close>

definition oa_runtime_heartbeat ::
  "u64 \<Rightarrow> u64 \<Rightarrow> u64 \<Rightarrow> u32 \<Rightarrow> u64 \<Rightarrow> facade \<Rightarrow> runtime_status \<times> facade" where
  "oa_runtime_heartbeat facade_now h cid clock_id producer_deadline w =
     (case require_runtime h w of Inl st \<Rightarrow> (st, w)
      | Inr r \<Rightarrow>
          if clock_id \<noteq> OA_RUNTIME_CLOCK_MONOTONIC then refuse h OA_RUNTIME_EINVAL w
          else if rt_controller r = 0 then refuse h OA_RUNTIME_EUNSUPPORTED w
          else case translate_future_deadline producer_deadline facade_now (controller_timeline_ns r) of
            None \<Rightarrow> refuse h OA_RUNTIME_EINVAL w
          | Some deadline \<Rightarrow>
              (case oa_controller_heartbeat (rt_controller r) cid deadline (control w) of (st, s) \<Rightarrow>
                 pass_control h st (w\<lparr>control := s\<rparr>)))"

definition oa_runtime_stop :: "u64 \<Rightarrow> u32 \<Rightarrow> facade \<Rightarrow> runtime_status \<times> facade" where
  "oa_runtime_stop h kind w =
     (case require_runtime h w of Inl st \<Rightarrow> (st, w)
      | Inr r \<Rightarrow>
          if rt_controller r = 0 then refuse h OA_RUNTIME_EUNSUPPORTED w
          else (case oa_controller_stop (rt_controller r) kind (control w) of (st, s) \<Rightarrow>
                  pass_control h st (w\<lparr>control := s\<rparr>)))"

definition oa_runtime_disarm :: "u64 \<Rightarrow> u64 \<Rightarrow> u32 \<Rightarrow> u64 \<Rightarrow> facade \<Rightarrow> runtime_status \<times> facade" where
  "oa_runtime_disarm facade_now h clock_id deadline_ns w =
     (case require_runtime h w of Inl st \<Rightarrow> (st, w)
      | Inr r \<Rightarrow>
          if clock_id \<noteq> OA_RUNTIME_CLOCK_MONOTONIC then refuse h OA_RUNTIME_EINVAL w
          else if rt_controller r = 0 then refuse h OA_RUNTIME_EUNSUPPORTED w
          else case translate_future_deadline deadline_ns facade_now (controller_timeline_ns r) of
            None \<Rightarrow> refuse h OA_RUNTIME_EINVAL w
          | Some deadline \<Rightarrow>
              (case oa_controller_disarm (rt_controller r) deadline (control w) of (st, s) \<Rightarrow>
                 let w1 = w\<lparr>control := s\<rparr>;
                     w2 = (if st = OA_CONTROL_OK
                           then change_runtime h (\<lambda>r. if owner r = 1 then r\<lparr>owner := 0\<rparr> else r) w1 else w1)
                 in pass_control h st w2))"

section \<open>Events\<close>

record runtime_event = header +
  re_kind :: control_event_kind
  source_facility :: runtime_facility
  re_status :: runtime_status
  source_status :: control_status
  re_clock_id :: u32
  event_runtime_monotonic_ns :: u64
  re_measurement_runtime_monotonic_ns :: u64
  re_manifest_revision :: u64
  re_inventory_revision :: u64
  re_calibration_revision :: u64
  re_model_revision :: u64
  scene_revision :: u64
  re_feedback_seq :: "u64 both"
  source_feedback_seq :: u64
  feedback_seq_valid_mask :: u32
  measurement_timestamp_valid :: u32
  re_command_id :: u64
  re_lifecycle :: lifecycle
  re_collision_checked :: u32
  re_motion_authorized :: u32
  re_capabilities :: u64

abbreviation SIZEOF_RUNTIME_EVENT :: u32 where "SIZEOF_RUNTIME_EVENT \<equiv> 152"

definition runtime_event_of :: "runtime_data \<Rightarrow> event_evidence \<Rightarrow> runtime_event" where
  "runtime_event_of r e =
     (let source = ee_source e in
     \<lparr>struct_size = SIZEOF_RUNTIME_EVENT, abi_version = OA_RUNTIME_ABI_VERSION, re_kind = ev_kind source,
      source_facility = OA_RUNTIME_FACILITY_CONTROL, re_status = map_control (ev_cause source),
      source_status = ev_cause source, re_clock_id = OA_RUNTIME_CLOCK_MONOTONIC,
      event_runtime_monotonic_ns = ee_runtime_monotonic_ns e, re_measurement_runtime_monotonic_ns = 0,
      re_manifest_revision = manifest_revision (md_config (rt_manifest r)),
      re_inventory_revision = rt_inventory_revision r, re_calibration_revision = calibration_revision r,
      re_model_revision = model_revision (md_config (rt_manifest r)),
      scene_revision = ro_collision_scene_revision (rt_options r), re_feedback_seq = (0, 0),
      source_feedback_seq = ev_feedback_seq source, feedback_seq_valid_mask = 0, measurement_timestamp_valid = 0,
      re_command_id = ev_command_id source, re_lifecycle = ev_lifecycle source, re_collision_checked = 0,
      re_motion_authorized = 0, re_capabilities = capabilities_for (ro_backend (rt_options r))\<rparr>)"

text \<open>
  One look at the queue; \<open>None\<close> for the status means that the call waits, and looks again when it
  is woken. \<open>late\<close>: the wait's time is over.
\<close>

definition oa_runtime_poll_event ::
  "u64 \<Rightarrow> u64 \<Rightarrow> bool \<Rightarrow> runtime_event pointer \<Rightarrow> facade \<Rightarrow> runtime_status option \<times> runtime_event pointer \<times> facade" where
  "oa_runtime_poll_event h wait_timeout_ns late out w =
     (if \<not> output_valid SIZEOF_RUNTIME_EVENT out then (Some OA_RUNTIME_EABI, out, w)
      else case require_runtime h w of Inl st \<Rightarrow> (Some st, out, w)
      | Inr r \<Rightarrow>
          if rt_controller r = 0
          then (case refuse h OA_RUNTIME_EUNSUPPORTED w of (st, w1) \<Rightarrow> (Some st, out, w1))
          else if wait_timeout_ns > 0x7fffffffffffffff
          then (case refuse h OA_RUNTIME_EINVAL w of (st, w1) \<Rightarrow> (Some st, out, w1))
          else if ring_empty (rt_events r) \<and> wait_timeout_ns \<noteq> 0 \<and> \<not> late then (None, out, w)
          else if ring_empty (rt_events r)
          then (case pass_control h OA_CONTROL_ETIMEOUT w of (st, w1) \<Rightarrow> (Some st, out, w1))
          else (Some OA_RUNTIME_OK, Some (runtime_event_of r (ring_front (rt_events r))),
                set_runtime h (r\<lparr>rt_events := ring_drop (rt_events r)\<rparr>) w))"

section \<open>The contact monitor\<close>

text \<open>The records of a contact and of a contact's report have the fields of the control library's.\<close>

abbreviation SIZEOF_RUNTIME_CONTACT_REPORT :: u32 where "SIZEOF_RUNTIME_CONTACT_REPORT \<equiv> 464"
abbreviation SIZEOF_RUNTIME_SIM_CONTACT :: u32 where "SIZEOF_RUNTIME_SIM_CONTACT \<equiv> 56"

definition oa_runtime_get_contact_report ::
  "u64 \<Rightarrow> contact_report pointer \<Rightarrow> facade \<Rightarrow> runtime_status \<times> contact_report pointer \<times> facade" where
  "oa_runtime_get_contact_report h out w =
     (case out of None \<Rightarrow> (OA_RUNTIME_EABI, out, w)
      | Some x \<Rightarrow>
        if struct_size x < SIZEOF_RUNTIME_CONTACT_REPORT \<or> abi_version x \<noteq> OA_RUNTIME_MOTION_ABI_VERSION
        then (OA_RUNTIME_EABI, out, w)
        else case require_runtime h w of Inl st \<Rightarrow> (st, out, w)
        | Inr r \<Rightarrow>
          if rt_controller r = 0 then fail h OA_RUNTIME_EUNSUPPORTED OA_RUNTIME_FACILITY_RUNTIME No_lower out w
          else case oa_controller_get_contact_report (rt_controller r)
              (Some (empty_contact_report\<lparr>struct_size := SIZEOF_CONTACT_REPORT, abi_version := OA_CONTROL_ABI_V1\<rparr>))
              (control w) of (st, source, s) \<Rightarrow>
            if st \<noteq> OA_CONTROL_OK
            then fail h (map_control st) OA_RUNTIME_FACILITY_CONTROL (Control_lower st) out (w\<lparr>control := s\<rparr>)
            else (OA_RUNTIME_OK, Some ((the source)\<lparr>struct_size := SIZEOF_RUNTIME_CONTACT_REPORT,
                    abi_version := OA_RUNTIME_MOTION_ABI_VERSION\<rparr>), w\<lparr>control := s\<rparr>))"

definition oa_runtime_sim_set_contact :: "u64 \<Rightarrow> sim_contact pointer \<Rightarrow> facade \<Rightarrow> runtime_status \<times> facade" where
  "oa_runtime_sim_set_contact h contact w =
     (case contact of None \<Rightarrow> (OA_RUNTIME_EABI, w)
      | Some k \<Rightarrow>
        if struct_size k < SIZEOF_RUNTIME_SIM_CONTACT \<or> abi_version k \<noteq> OA_RUNTIME_MOTION_ABI_VERSION
        then (OA_RUNTIME_EABI, w)
        else case require_runtime h w of Inl st \<Rightarrow> (st, w)
        | Inr r \<Rightarrow>
          if rt_controller r = 0 \<or> ro_backend (rt_options r) \<noteq> OA_RUNTIME_BACKEND_VIRTUAL
          then refuse h OA_RUNTIME_EUNSUPPORTED w
          else case oa_controller_sim_set_contact (rt_controller r)
              (Some (k\<lparr>struct_size := SIZEOF_SIM_CONTACT, abi_version := OA_CONTROL_ABI_V1\<rparr>)) (control w) of (st, s) \<Rightarrow>
            pass_control h st (w\<lparr>control := s\<rparr>))"

section \<open>The emergency stop\<close>

definition oa_runtime_estop_assert :: "facade \<Rightarrow> facade" where
  "oa_runtime_estop_assert w = w\<lparr>control := oa_estop_assert (control w)\<rparr>"

definition oa_runtime_estop_asserted :: "facade \<Rightarrow> u32" where
  "oa_runtime_estop_asserted w = oa_estop_asserted (control w)"

definition oa_runtime_estop_clear :: "facade \<Rightarrow> runtime_status \<times> facade" where
  "oa_runtime_estop_clear w =
     (case oa_estop_clear (control w) of (st, s) \<Rightarrow>
        (if st = OA_CONTROL_OK then OA_RUNTIME_OK else OA_RUNTIME_ESTATE, w\<lparr>control := s\<rparr>))"

definition oa_runtime_estop_assert_count :: "facade \<Rightarrow> u64" where
  "oa_runtime_estop_assert_count w = oa_estop_assert_count (control w)"

section \<open>The adapters of the motion header\<close>

record runtime_centroid_move = header +
  rd_base :: runtime_paired_move
  rd_target_centroid_m :: point

record runtime_mirrored_move = header +
  ri_base :: runtime_paired_move
  ri_lead_side :: u32
  ri_reserved0 :: u32
  ri_lead_tcp_m :: point

abbreviation SIZEOF_RUNTIME_CENTROID_MOVE :: u32 where "SIZEOF_RUNTIME_CENTROID_MOVE \<equiv> 280"
abbreviation SIZEOF_RUNTIME_MIRRORED_MOVE :: u32 where "SIZEOF_RUNTIME_MIRRORED_MOVE \<equiv> 288"

definition kinematics_out :: runtime_kinematics where
  "kinematics_out =
     \<lparr>struct_size = SIZEOF_RUNTIME_KINEMATICS, abi_version = OA_RUNTIME_ABI_VERSION, rk_frame_id = 0, rk_units_id = 0,
      rk_orientation_policy = 0, rk_side = 0, rk_feedback_seq = 0, rk_model_revision = 0, rk_tcp_revision = 0,
      rk_collision_policy = 0, rk_model_id = [], rk_tcp_frame = [], rk_model_data_sha256 = [],
      rk_flattened_urdf_sha256 = [], rk_coordinate_identity = [], rk_q_model_rad = zero_joints, rk_joint_xyz_m = [],
      rk_joint_axis_body = [], tcp_transform_row_major = [], rk_tcp_xyz_m = replicate 3 0\<rparr>"

definition measured_tcp ::
  "model_lib \<Rightarrow> model_texts \<Rightarrow> u64 \<Rightarrow> runtime_paired_move \<Rightarrow> facade \<Rightarrow> (runtime_status + point both) \<times> facade" where
  "measured_tcp lib mt h base w =
     (case oa_runtime_get_kinematics lib mt h 0 (fst (rp_required_feedback_seq base)) (Some kinematics_out) w of
        (st, k0, w1) \<Rightarrow>
          if st \<noteq> OA_RUNTIME_OK then (Inl st, w1)
          else (case oa_runtime_get_kinematics lib mt h 1 (snd (rp_required_feedback_seq base)) (Some kinematics_out) w1 of
                  (st1, k1, w2) \<Rightarrow>
                    if st1 \<noteq> OA_RUNTIME_OK then (Inl st1, w2)
                    else (Inr (rk_tcp_xyz_m (the k0), rk_tcp_xyz_m (the k1)), w2)))"

definition centroid_targets :: "point both \<Rightarrow> point \<Rightarrow> point both" where
  "centroid_targets tcps target =
     (let delta = (\<lambda>axis. target ! axis - lit (1 / 2) * (fst tcps ! axis + snd tcps ! axis))
      in (map (\<lambda>axis. fst tcps ! axis + delta axis) [0 ..< 3], map (\<lambda>axis. snd tcps ! axis + delta axis) [0 ..< 3]))"

definition oa_runtime_plan_centroid_tcp_body ::
  "model_lib \<Rightarrow> model_texts \<Rightarrow> (nat \<Rightarrow> dbl \<Rightarrow> dbl \<Rightarrow> dbl) \<Rightarrow> plan_faults \<Rightarrow> u64 \<Rightarrow> u64 \<Rightarrow> runtime_centroid_move pointer
     \<Rightarrow> u64 pointer \<Rightarrow> facade \<Rightarrow> runtime_status \<times> u64 pointer \<times> facade" where
  "oa_runtime_plan_centroid_tcp_body lib mt mix fl facade_now h request out w =
     (case request of None \<Rightarrow> (OA_RUNTIME_EINVAL, out, w)
      | Some q \<Rightarrow>
        if h = 0 \<or> out = None \<or> abi_version q \<noteq> OA_RUNTIME_MOTION_ABI_VERSION
          \<or> struct_size q < SIZEOF_RUNTIME_CENTROID_MOVE then (OA_RUNTIME_EINVAL, out, w)
        else case measured_tcp lib mt h (rd_base q) w of
          (Inl st, w1) \<Rightarrow> (st, out, w1)
        | (Inr tcps, w1) \<Rightarrow>
            let targets = centroid_targets tcps (rd_target_centroid_m q)
            in oa_runtime_plan_paired_tcp_body lib mix fl facade_now h
                 (Some ((rd_base q)\<lparr>rp_left_tcp_m := fst targets, rp_right_tcp_m := snd targets\<rparr>)) out w1)"

definition mirrored_point :: "point \<Rightarrow> point" where
  "mirrored_point p = [p ! 0, - (p ! 1), p ! 2]"

definition oa_runtime_plan_mirrored_tcp_body ::
  "model_lib \<Rightarrow> (nat \<Rightarrow> dbl \<Rightarrow> dbl \<Rightarrow> dbl) \<Rightarrow> plan_faults \<Rightarrow> u64 \<Rightarrow> u64 \<Rightarrow> runtime_mirrored_move pointer
     \<Rightarrow> u64 pointer \<Rightarrow> facade \<Rightarrow> runtime_status \<times> u64 pointer \<times> facade" where
  "oa_runtime_plan_mirrored_tcp_body lib mix fl facade_now h request out w =
     (case request of None \<Rightarrow> (OA_RUNTIME_EINVAL, out, w)
      | Some q \<Rightarrow>
        if h = 0 \<or> out = None \<or> abi_version q \<noteq> OA_RUNTIME_MOTION_ABI_VERSION
          \<or> struct_size q < SIZEOF_RUNTIME_MIRRORED_MOVE \<or> ri_reserved0 q \<noteq> 0 \<or> ri_lead_side q \<ge> 2
        then (OA_RUNTIME_EINVAL, out, w)
        else
          let lead = ri_lead_tcp_m q; follow = mirrored_point lead
          in oa_runtime_plan_paired_tcp_body lib mix fl facade_now h
               (Some (if ri_lead_side q = 0
                      then (ri_base q)\<lparr>rp_left_tcp_m := lead, rp_right_tcp_m := follow\<rparr>
                      else (ri_base q)\<lparr>rp_right_tcp_m := lead, rp_left_tcp_m := follow\<rparr>)) out w)"

section \<open>The adapters of the units header\<close>

text \<open>The fields of the paired move, with its coordinates in \<open>coordinate_unit\<close>; it has no \<open>units_id\<close>.\<close>

record runtime_paired_units = header +
  ru_coordinate_unit :: u32
  ru_reserved0 :: u32
  ru_clock_id :: u32
  ru_frame_id :: u32
  ru_orientation_policy :: u32
  ru_reserved1 :: u32
  ru_expiry_ns :: u64
  ru_required_feedback_seq :: "u64 both"
  ru_left_tcp :: vec3d
  ru_right_tcp :: vec3d
  ru_velocity_scale :: dbl
  ru_acceleration_scale :: dbl
  ru_jerk_scale :: dbl
  ru_tcp_tolerance_m :: dbl
  ru_collision_scene_revision :: u64
  ru_required_model_revision :: u64
  ru_required_tcp_revision :: "u64 both"
  ru_required_collision_policy :: u32
  ru_required_coordinate_identity :: string
  ru_maximum_branch_step_rad :: dbl
  ru_minimum_singular_value :: dbl

record runtime_centroid_units = header +
  rcu_base :: runtime_paired_units
  rcu_target_centroid :: vec3d

record runtime_mirrored_units = header +
  rmu_base :: runtime_paired_units
  rmu_lead_side :: u32
  rmu_reserved0 :: u32
  rmu_lead_tcp :: vec3d

record runtime_converge_units = header +
  rvu_base :: runtime_paired_units
  rvu_target :: vec3d
  rvu_contact_torque_nm :: joint_vector
  rvu_contact_torque_fraction :: dbl
  rvu_contact_persistence_cycles :: u32
  rvu_reserved0 :: u32
  rvu_stop_distance_m :: dbl
  rvu_minimum_progress_m :: dbl

abbreviation SIZEOF_RUNTIME_PAIRED_UNITS :: u32 where "SIZEOF_RUNTIME_PAIRED_UNITS \<equiv> 256"
abbreviation SIZEOF_RUNTIME_CENTROID_UNITS :: u32 where "SIZEOF_RUNTIME_CENTROID_UNITS \<equiv> 288"
abbreviation SIZEOF_RUNTIME_MIRRORED_UNITS :: u32 where "SIZEOF_RUNTIME_MIRRORED_UNITS \<equiv> 296"
abbreviation SIZEOF_RUNTIME_CONVERGE_UNITS :: u32 where "SIZEOF_RUNTIME_CONVERGE_UNITS \<equiv> 376"

definition convert_paired :: "runtime_paired_units \<Rightarrow> runtime_status + runtime_paired_move" where
  "convert_paired u =
     (if struct_size u < SIZEOF_RUNTIME_PAIRED_UNITS \<or> abi_version u \<noteq> OA_RUNTIME_ABI_VERSION then Inl OA_RUNTIME_EABI
      else if ru_reserved0 u \<noteq> 0 \<or> ru_reserved1 u \<noteq> 0 then Inl OA_RUNTIME_EINVAL
      else case in_metres (ru_left_tcp u) (ru_coordinate_unit u) of None \<Rightarrow> Inl OA_RUNTIME_EINVAL
      | Some left_m \<Rightarrow>
        (case in_metres (ru_right_tcp u) (ru_coordinate_unit u) of None \<Rightarrow> Inl OA_RUNTIME_EINVAL
         | Some right_m \<Rightarrow> Inr
            \<lparr>struct_size = SIZEOF_RUNTIME_PAIRED_MOVE, abi_version = OA_RUNTIME_ABI_VERSION, rp_clock_id = ru_clock_id u,
             rp_units_id = OA_RUNTIME_UNITS_SI_V1, rp_frame_id = ru_frame_id u,
             rp_orientation_policy = ru_orientation_policy u, rp_expiry_ns = ru_expiry_ns u,
             rp_required_feedback_seq = ru_required_feedback_seq u, rp_left_tcp_m = left_m, rp_right_tcp_m = right_m,
             rp_velocity_scale = ru_velocity_scale u, rp_acceleration_scale = ru_acceleration_scale u,
             rp_jerk_scale = ru_jerk_scale u, tcp_tolerance_m = ru_tcp_tolerance_m u,
             rp_collision_scene_revision = ru_collision_scene_revision u,
             rp_required_model_revision = ru_required_model_revision u,
             rp_required_tcp_revision = ru_required_tcp_revision u,
             rp_required_collision_policy = ru_required_collision_policy u,
             rp_required_coordinate_identity = ru_required_coordinate_identity u,
             maximum_branch_step_rad = ru_maximum_branch_step_rad u,
             minimum_singular_value = ru_minimum_singular_value u\<rparr>))"

text \<open>The base of a request and a further point, both in metres.\<close>

definition convert_with_point :: "runtime_paired_units \<Rightarrow> vec3d \<Rightarrow> runtime_status + runtime_paired_move \<times> point" where
  "convert_with_point u v =
     (case convert_paired u of Inl st \<Rightarrow> Inl st
      | Inr base \<Rightarrow>
          (case in_metres v (ru_coordinate_unit u) of None \<Rightarrow> Inl OA_RUNTIME_EINVAL | Some p \<Rightarrow> Inr (base, p)))"

definition oa_runtime_plan_paired_tcp_body_with_units ::
  "model_lib \<Rightarrow> (nat \<Rightarrow> dbl \<Rightarrow> dbl \<Rightarrow> dbl) \<Rightarrow> plan_faults \<Rightarrow> u64 \<Rightarrow> u64 \<Rightarrow> runtime_paired_units pointer
     \<Rightarrow> u64 pointer \<Rightarrow> facade \<Rightarrow> runtime_status \<times> u64 pointer \<times> facade" where
  "oa_runtime_plan_paired_tcp_body_with_units lib mix fl facade_now h request out w =
     (case request of None \<Rightarrow> (OA_RUNTIME_EABI, out, w)
      | Some u \<Rightarrow>
          (case convert_paired u of Inl st \<Rightarrow> (st, out, w)
           | Inr q \<Rightarrow> oa_runtime_plan_paired_tcp_body lib mix fl facade_now h (Some q) out w))"

definition oa_runtime_plan_centroid_tcp_body_with_units ::
  "model_lib \<Rightarrow> model_texts \<Rightarrow> (nat \<Rightarrow> dbl \<Rightarrow> dbl \<Rightarrow> dbl) \<Rightarrow> plan_faults \<Rightarrow> u64 \<Rightarrow> u64 \<Rightarrow> runtime_centroid_units pointer
     \<Rightarrow> u64 pointer \<Rightarrow> facade \<Rightarrow> runtime_status \<times> u64 pointer \<times> facade" where
  "oa_runtime_plan_centroid_tcp_body_with_units lib mt mix fl facade_now h request out w =
     (case request of None \<Rightarrow> (OA_RUNTIME_EABI, out, w)
      | Some u \<Rightarrow>
          if struct_size u < SIZEOF_RUNTIME_CENTROID_UNITS \<or> abi_version u \<noteq> OA_RUNTIME_MOTION_ABI_VERSION
          then (OA_RUNTIME_EABI, out, w)
          else case convert_with_point (rcu_base u) (rcu_target_centroid u) of Inl st \<Rightarrow> (st, out, w)
          | Inr (base, p) \<Rightarrow> oa_runtime_plan_centroid_tcp_body lib mt mix fl facade_now h
              (Some \<lparr>struct_size = SIZEOF_RUNTIME_CENTROID_MOVE, abi_version = OA_RUNTIME_MOTION_ABI_VERSION,
                     rd_base = base, rd_target_centroid_m = p\<rparr>) out w)"

definition oa_runtime_plan_mirrored_tcp_body_with_units ::
  "model_lib \<Rightarrow> (nat \<Rightarrow> dbl \<Rightarrow> dbl \<Rightarrow> dbl) \<Rightarrow> plan_faults \<Rightarrow> u64 \<Rightarrow> u64 \<Rightarrow> runtime_mirrored_units pointer
     \<Rightarrow> u64 pointer \<Rightarrow> facade \<Rightarrow> runtime_status \<times> u64 pointer \<times> facade" where
  "oa_runtime_plan_mirrored_tcp_body_with_units lib mix fl facade_now h request out w =
     (case request of None \<Rightarrow> (OA_RUNTIME_EABI, out, w)
      | Some u \<Rightarrow>
          if struct_size u < SIZEOF_RUNTIME_MIRRORED_UNITS \<or> abi_version u \<noteq> OA_RUNTIME_MOTION_ABI_VERSION
            \<or> rmu_reserved0 u \<noteq> 0
          then (OA_RUNTIME_EABI, out, w)
          else case convert_with_point (rmu_base u) (rmu_lead_tcp u) of Inl st \<Rightarrow> (st, out, w)
          | Inr (base, p) \<Rightarrow> oa_runtime_plan_mirrored_tcp_body lib mix fl facade_now h
              (Some \<lparr>struct_size = SIZEOF_RUNTIME_MIRRORED_MOVE, abi_version = OA_RUNTIME_MOTION_ABI_VERSION,
                     ri_base = base, ri_lead_side = rmu_lead_side u, ri_reserved0 = 0, ri_lead_tcp_m = p\<rparr>) out w)"

definition oa_runtime_plan_converge_tcp_body_with_units ::
  "model_lib \<Rightarrow> plan_faults \<Rightarrow> u64 \<Rightarrow> u64 \<Rightarrow> runtime_converge_units pointer
     \<Rightarrow> u64 pointer \<Rightarrow> facade \<Rightarrow> runtime_status \<times> u64 pointer \<times> facade" where
  "oa_runtime_plan_converge_tcp_body_with_units lib fl facade_now h request out w =
     (case request of None \<Rightarrow> (OA_RUNTIME_EABI, out, w)
      | Some u \<Rightarrow>
          if struct_size u < SIZEOF_RUNTIME_CONVERGE_UNITS \<or> abi_version u \<noteq> OA_RUNTIME_MOTION_ABI_VERSION
            \<or> rvu_reserved0 u \<noteq> 0
          then (OA_RUNTIME_EABI, out, w)
          else case convert_with_point (rvu_base u) (rvu_target u) of Inl st \<Rightarrow> (st, out, w)
          | Inr (base, p) \<Rightarrow> oa_runtime_plan_converge_tcp_body lib fl facade_now h
              (Some \<lparr>struct_size = SIZEOF_RUNTIME_CONVERGE_MOVE, abi_version = OA_RUNTIME_MOTION_ABI_VERSION,
                     rc_base = base, rc_target_m = p, rc_contact_torque_nm = rvu_contact_torque_nm u,
                     rc_contact_torque_fraction = rvu_contact_torque_fraction u,
                     rc_contact_persistence_cycles = rvu_contact_persistence_cycles u, rc_reserved0 = 0,
                     rc_stop_distance_m = rvu_stop_distance_m u,
                     rc_minimum_progress_m = rvu_minimum_progress_m u\<rparr>) out w)"

end
