(* ===== verification/Runtime_Calibration.thy ===== *)
theory Runtime_Calibration
  imports Runtime_Execution
begin

text \<open>
  The calibration sessions of the runtime, runtime/src/calibration.cpp: a session of the
  commissioning library fed with the measurements of the runtime's controller, and the manifest
  that its patch makes. A session owns its runtime (owner 2) from its begin to its end.
\<close>

section \<open>Begin\<close>

record session_faults =
  no_session :: bool
  no_lower_session :: bool
  no_session_node :: bool

definition new_calibration :: "u64 \<Rightarrow> manifest_data \<Rightarrow> u32 \<Rightarrow> u32 \<Rightarrow> calibration_data" where
  "new_calibration h base side joint =
     \<lparr>cd_runtime = h, cd_base = base, cd_manual = 0, cd_recipe = 0, cd_side = side, cd_joint = joint,
      required_posture_mask = 0, cd_evidence_revision = 0, cd_fixture_revision = 0, last_sample_feedback_seq = 0,
      last_sample_time_ns = 0, finished = False\<rparr>"

text \<open>
  What the two begins do once the request is accepted. The session's object is made first, and its
  destructor runs on every return that does not register it: so also on the return that finds the
  runtime owned.
\<close>

definition begin_session ::
  "session_faults \<Rightarrow> u64 \<Rightarrow> runtime_data \<Rightarrow> calibration_data \<Rightarrow> (u64 \<Rightarrow> calibration_data \<Rightarrow> calibration_data)
     \<Rightarrow> (u64 pointer \<Rightarrow> registry \<Rightarrow> commission_status \<times> u64 pointer \<times> registry) \<Rightarrow> facade
     \<Rightarrow> runtime_status \<times> u64 pointer \<times> facade" where
  "begin_session fl h r c store create w =
     (if no_session fl then fail h OA_RUNTIME_ENOMEM OA_RUNTIME_FACILITY_RUNTIME No_lower (Some 0) w
      else if closing r \<or> owner r \<noteq> 0
      then (case fail h (if closing r then OA_RUNTIME_ESTATE else OA_RUNTIME_EBUSY) OA_RUNTIME_FACILITY_RUNTIME No_lower
                   (Some 0) w of (st, out, w1) \<Rightarrow> (st, out, discard_calibration c w1))
      else
        let w1 = set_runtime h (r\<lparr>owner := 2\<rparr>) w in
        case create (Some 0) (commission w1) of (st, lower, reg) \<Rightarrow>
          let w2 = w1\<lparr>commission := reg\<rparr> in
          if st \<noteq> OA_COMMISSION_OK
          then (case fail h (map_commission st) OA_RUNTIME_FACILITY_COMMISSION (Commission_lower st) (Some 0)
                       (change_runtime h (\<lambda>r. r\<lparr>owner := 0\<rparr>) w2) of (st1, out, w3) \<Rightarrow> (st1, out, discard_calibration c w3))
          else
            let c1 = store (the lower) c in
            (case registry_insert kCalibrationTag (no_session_node fl) c1 (calibration_handles w2) of
               (None, reg1) \<Rightarrow>
                 (case fail h OA_RUNTIME_ENOMEM OA_RUNTIME_FACILITY_RUNTIME No_lower (Some 0)
                         (w2\<lparr>calibration_handles := reg1\<rparr>) of (st1, out, w3) \<Rightarrow> (st1, out, discard_calibration c1 w3))
             | (Some ch, reg1) \<Rightarrow>
                 (OA_RUNTIME_OK, Some ch,
                  take_reference h (w2\<lparr>calibration_handles := reg1\<rparr>))))"

definition matches_motor :: "runtime_data \<Rightarrow> u32 \<Rightarrow> u32 \<Rightarrow> u64 \<Rightarrow> string \<Rightarrow> bool" where
  "matches_motor r side joint expected motor_serial \<longleftrightarrow>
     expected = manifest_revision (md_config (rt_manifest r))
     \<and> strncmp_equal 32 motor_serial
         (serial (ac_motor (pick (unat side) (mc_arm (md_config (rt_manifest r)))) ! unat joint))"

definition calibratable :: "runtime_data \<Rightarrow> bool" where
  "calibratable r \<longleftrightarrow> ro_backend (rt_options r) = OA_RUNTIME_BACKEND_VIRTUAL \<and> rt_controller r \<noteq> 0"

definition pin_runtime :: "u64 \<Rightarrow> facade \<Rightarrow> runtime_data option" where
  "pin_runtime h w =
     (case registry_pin kRuntimeTag h (runtime_handles w) of None \<Rightarrow> None | Some _ \<Rightarrow> runtime_objects w h)"

definition oa_runtime_calibration_manual_begin ::
  "session_faults \<Rightarrow> u64 \<Rightarrow> manual_options pointer \<Rightarrow> u64 pointer \<Rightarrow> facade
     \<Rightarrow> runtime_status \<times> u64 pointer \<times> facade" where
  "oa_runtime_calibration_manual_begin fl h request out w =
     (case request of None \<Rightarrow> (OA_RUNTIME_EABI, out, w)
      | Some q \<Rightarrow>
        if struct_size q < SIZEOF_MANUAL_OPTIONS \<or> abi_version q \<noteq> OA_COMMISSION_ABI_V1 then (OA_RUNTIME_EABI, out, w)
        else case pin_runtime h w of None \<Rightarrow> (OA_RUNTIME_EINVAL, out, w)
        | Some r \<Rightarrow>
          if out = None then fail h OA_RUNTIME_EINVAL OA_RUNTIME_FACILITY_RUNTIME No_lower out w
          else if mo_side q \<ge> 2 \<or> mo_joint q \<ge> 7 \<or> \<not> valid_text (Some (mo_motor_serial q)) False
          then fail h OA_RUNTIME_EINVAL OA_RUNTIME_FACILITY_RUNTIME No_lower (Some 0) w
          else if \<not> calibratable r
          then fail h OA_RUNTIME_EUNSUPPORTED OA_RUNTIME_FACILITY_RUNTIME No_lower (Some 0) w
          else if \<not> matches_motor r (mo_side q) (mo_joint q) (mo_expected_revision q) (mo_motor_serial q)
          then fail h OA_RUNTIME_EIDENTITY OA_RUNTIME_FACILITY_RUNTIME No_lower (Some 0) w
          else begin_session fl h r (new_calibration h (rt_manifest r) (mo_side q) (mo_joint q))
            (\<lambda>s c. c\<lparr>cd_manual := s\<rparr>)
            (\<lambda>o' reg. oa_commission_manual_create (Some q) o' (no_lower_session fl) reg) w)"

definition oa_runtime_calibration_recipe_begin ::
  "session_faults \<Rightarrow> u64 \<Rightarrow> recipe pointer \<Rightarrow> u64 pointer \<Rightarrow> facade \<Rightarrow> runtime_status \<times> u64 pointer \<times> facade" where
  "oa_runtime_calibration_recipe_begin fl h request out w =
     (case request of None \<Rightarrow> (OA_RUNTIME_EABI, out, w)
      | Some q \<Rightarrow>
        if struct_size q < SIZEOF_RECIPE \<or> abi_version q \<noteq> OA_COMMISSION_ABI_V1 then (OA_RUNTIME_EABI, out, w)
        else case pin_runtime h w of None \<Rightarrow> (OA_RUNTIME_EINVAL, out, w)
        | Some r \<Rightarrow>
          if out = None then fail h OA_RUNTIME_EINVAL OA_RUNTIME_FACILITY_RUNTIME No_lower out w
          else if rc_side q \<ge> 2 \<or> rc_joint q \<ge> 7
          then fail h OA_RUNTIME_EINVAL OA_RUNTIME_FACILITY_RUNTIME No_lower (Some 0) w
          else if \<not> calibratable r
          then fail h OA_RUNTIME_EUNSUPPORTED OA_RUNTIME_FACILITY_RUNTIME No_lower (Some 0) w
          else if \<not> matches_motor r (rc_side q) (rc_joint q) (rc_expected_revision q) (rc_motor_serial q)
          then fail h OA_RUNTIME_EIDENTITY OA_RUNTIME_FACILITY_RUNTIME No_lower (Some 0) w
          else begin_session fl h r
            ((new_calibration h (rt_manifest r) (rc_side q) (rc_joint q))
              \<lparr>required_posture_mask := recipe.required_posture_mask q,
               cd_evidence_revision := (if simulation_only q \<noteq> 0 then simulation_evidence_revision q
                                        else qualification_revision q),
               cd_fixture_revision := rc_fixture_revision q\<rparr>)
            (\<lambda>s c. c\<lparr>cd_recipe := s\<rparr>)
            (\<lambda>o' reg. oa_commission_recipe_create (Some q) o' (no_lower_session fl) reg) w)"

section \<open>A sample\<close>

text \<open>A failure on the runtime of a session.\<close>

definition refuse_session :: "calibration_data \<Rightarrow> runtime_status \<Rightarrow> facade \<Rightarrow> runtime_status \<times> facade" where
  "refuse_session c st = refuse (cd_runtime c) st"

definition pass_commission :: "calibration_data \<Rightarrow> commission_status \<Rightarrow> facade \<Rightarrow> runtime_status \<times> facade" where
  "pass_commission c st =
     record_error (cd_runtime c) (map_commission st) OA_RUNTIME_FACILITY_COMMISSION (Commission_lower st)"

definition encoder_of :: "calibration_data \<Rightarrow> control_snapshot \<Rightarrow> runtime_snapshot \<Rightarrow> encoder_sample" where
  "encoder_of c sn rs =
     (let side = unat (cd_side c); joint = unat (cd_joint c); a = pick side (sn_arm sn); ra = pick side (rs_arm rs)
      in \<lparr>struct_size = SIZEOF_ENCODER_SAMPLE, abi_version = OA_COMMISSION_ABI_V1, feedback_seq = as_feedback_seq a,
          sample_time_ns = measurement_runtime_monotonic_ns ra, q_output_rad = as_raw_q a ! joint,
          dq_output_rad_s = as_raw_dq a ! joint, torque_output_nm = as_raw_tau a ! joint,
          mos_temperature_c = dbl_of_word (as_mos_c a ! joint), coil_temperature_c = dbl_of_word (as_coil_c a ! joint),
          drive_enabled = (if as_status a ! joint = 1 then 1 else 0),
          drive_fault = (if bit (as_fault_mask a) joint then 1 else 0)\<rparr>)"

text \<open>The snapshot that goes out carries the freshness and the time on the runtime's clock.\<close>

definition dated_snapshot :: "calibration_data \<Rightarrow> control_snapshot \<Rightarrow> runtime_snapshot \<Rightarrow> control_snapshot" where
  "dated_snapshot c sn rs =
     (let side = unat (cd_side c); ra = pick side (rs_arm rs)
      in sn\<lparr>sn_arm := put side ((pick side (sn_arm sn))\<lparr>fresh_mask := ra_fresh_mask ra,
            as_t_ns := measurement_runtime_monotonic_ns ra\<rparr>) (sn_arm sn)\<rparr>)"

text \<open>\<open>capture_now\<close> and \<open>now\<close> are the two readings of the clock.\<close>

definition snapshot_sample ::
  "u64 \<Rightarrow> u64 \<Rightarrow> u64 \<Rightarrow> calibration_data \<Rightarrow> facade \<Rightarrow> (runtime_status + encoder_sample \<times> control_snapshot) \<times> facade" where
  "snapshot_sample capture_now now ch c w =
     (case runtime_objects w (cd_runtime c) of None \<Rightarrow> (Inl OA_RUNTIME_ESTATE, w)
      | Some r \<Rightarrow>
        if rt_controller r = 0 then (Inl OA_RUNTIME_ESTATE, w)
        else if finished c \<or> closing r \<or> owner r \<noteq> 2
        then (case refuse_session c OA_RUNTIME_ESTATE w of (st, w1) \<Rightarrow> (Inl st, w1))
        else case capture_runtime_snapshot capture_now (cd_runtime c) r w of
          (Inl st, w1) \<Rightarrow> (Inl st, w1)
        | (Inr (sn, rs), w1) \<Rightarrow>
            let x = encoder_of c sn rs; w2 = change_runtime (cd_runtime c) (advance_timeline now) w1 in
            if feedback_seq x = 0 \<or> sample_time_ns x = 0 \<or> sample_time_ns x > now
              \<or> feedback_seq x \<le> last_sample_feedback_seq c \<or> sample_time_ns x \<le> last_sample_time_ns c
            then (case refuse_session c OA_RUNTIME_ESTALE w2 of (st, w3) \<Rightarrow> (Inl st, w3))
            else (Inr (x, dated_snapshot c sn rs), w2\<lparr>calibration_handles := registry_update ch
                    (c\<lparr>last_sample_feedback_seq := feedback_seq x, last_sample_time_ns := sample_time_ns x\<rparr>)
                    (calibration_handles w2)\<rparr>))"

section \<open>The manifest of a calibration\<close>

definition release_owner :: "runtime_data \<Rightarrow> runtime_data" where
  "release_owner r = (if owner r = 2 then r\<lparr>owner := 0\<rparr> else r)"

definition finish_session :: "u64 \<Rightarrow> calibration_data \<Rightarrow> facade \<Rightarrow> facade" where
  "finish_session ch c w =
     w\<lparr>calibration_handles := registry_update ch (c\<lparr>finished := True\<rparr>) (calibration_handles w)\<rparr>"

record publish_faults =
  no_patched_value :: bool
  no_patched_manifest :: bool
  no_manifest_node :: bool

definition publish_manifest ::
  "model_lib \<Rightarrow> publish_faults \<Rightarrow> zero_signs \<Rightarrow> u64 \<Rightarrow> calibration_data \<Rightarrow> mapping_patch \<Rightarrow> u64 pointer
     \<Rightarrow> manifest_preview pointer \<Rightarrow> facade \<Rightarrow> runtime_status \<times> (u64 pointer \<times> manifest_preview pointer) \<times> facade" where
  "publish_manifest lib fl neg ch c patch out preview w =
     (if out = None \<or> \<not> output_valid SIZEOF_MANIFEST_PREVIEW preview then (OA_RUNTIME_EABI, (out, preview), w)
      else if no_patched_value fl then (OA_RUNTIME_ENOMEM, (Some 0, preview), w)
      else case apply_patch lib (no_patched_manifest fl) neg (cd_base c) patch (control w) of
        ((None, pv), s) \<Rightarrow> (validation_status pv, (Some 0, Some pv), w\<lparr>control := s\<rparr>)
      | ((Some d, pv), s) \<Rightarrow>
          let w1 = w\<lparr>control := s\<rparr> in
          (case registry_insert kManifestTag (no_manifest_node fl) d (manifest_handles w1) of
             (None, reg) \<Rightarrow> (OA_RUNTIME_ENOMEM, (Some 0, preview), w1\<lparr>manifest_handles := reg\<rparr>)
           | (Some mh, reg) \<Rightarrow>
               (OA_RUNTIME_OK, (Some mh, Some pv),
                finish_session ch c
                  (change_runtime (cd_runtime c)
                    (\<lambda>r. release_owner (r\<lparr>calibration_revision := replacement_revision patch\<rparr>))
                    (w1\<lparr>manifest_handles := reg\<rparr>)))))"

definition patch_out :: mapping_patch where
  "patch_out =
     \<lparr>struct_size = SIZEOF_MAPPING_PATCH, abi_version = OA_COMMISSION_ABI_V1, mp_expected_revision = 0,
      replacement_revision = 0, mp_side = 0, mp_joint = 0, mp_evidence_kind = OA_EVIDENCE_MANUAL_FIXTURE, mp_recipe_kind = 0,
      mp_qualification_revision = 0, mp_fixture_revision = 0, mp_a = 0, mp_b_rad = 0,
      mp_motor_serial = [], mp_evidence_record = []\<rparr>"

section \<open>The calls on a session\<close>

definition pin_session :: "(calibration_data \<Rightarrow> u64) \<Rightarrow> u64 \<Rightarrow> facade \<Rightarrow> calibration_data option" where
  "pin_session lower ch w =
     (case registry_pin kCalibrationTag ch (calibration_handles w) of None \<Rightarrow> None
      | Some c \<Rightarrow> if lower c = 0 then None else Some c)"

definition oa_runtime_calibration_manual_sample ::
  "u64 \<Rightarrow> u64 \<Rightarrow> u64 \<Rightarrow> u32 \<Rightarrow> manual_report pointer \<Rightarrow> facade \<Rightarrow> runtime_status \<times> manual_report pointer \<times> facade" where
  "oa_runtime_calibration_manual_sample capture_now now ch reference_index out w =
     (case pin_session cd_manual ch w of None \<Rightarrow> (OA_RUNTIME_EINVAL, out, w)
      | Some c \<Rightarrow>
          (case snapshot_sample capture_now now ch c w of
             (Inl st, w1) \<Rightarrow> (st, out, w1)
           | (Inr (x, _), w1) \<Rightarrow>
               (case oa_commission_manual_sample (cd_manual c) reference_index now (Some x) out (commission w1) of
                  (st, out1, reg) \<Rightarrow>
                    (case pass_commission c st (w1\<lparr>commission := reg\<rparr>) of (st1, w2) \<Rightarrow> (st1, out1, w2)))))"

definition oa_runtime_calibration_manual_begin_review ::
  "u64 \<Rightarrow> manual_report pointer \<Rightarrow> facade \<Rightarrow> runtime_status \<times> manual_report pointer \<times> facade" where
  "oa_runtime_calibration_manual_begin_review ch out w =
     (case pin_session cd_manual ch w of None \<Rightarrow> (OA_RUNTIME_EINVAL, out, w)
      | Some c \<Rightarrow>
          if finished c then (case refuse_session c OA_RUNTIME_ESTATE w of (st, w1) \<Rightarrow> (st, out, w1))
          else (case oa_commission_manual_begin_review (cd_manual c) out (commission w) of (st, out1, reg) \<Rightarrow>
                  (case pass_commission c st (w\<lparr>commission := reg\<rparr>) of (st1, w1) \<Rightarrow> (st1, out1, w1))))"

text \<open>The commit of either kind, \<open>commit\<close> being the call of the commissioning library.\<close>

definition commit_session ::
  "model_lib \<Rightarrow> publish_faults \<Rightarrow> zero_signs \<Rightarrow> u64 \<Rightarrow> calibration_data
     \<Rightarrow> (mapping_patch pointer \<Rightarrow> registry \<Rightarrow> commission_status \<times> mapping_patch pointer \<times> registry)
     \<Rightarrow> u64 pointer \<Rightarrow> manifest_preview pointer \<Rightarrow> facade
     \<Rightarrow> runtime_status \<times> (u64 pointer \<times> manifest_preview pointer) \<times> facade" where
  "commit_session lib fl neg ch c commit out preview w =
     (case commit (Some patch_out) (commission w) of (st, patch, reg) \<Rightarrow>
        let w1 = w\<lparr>commission := reg\<rparr> in
        if st \<noteq> OA_COMMISSION_OK then (case pass_commission c st w1 of (st1, w2) \<Rightarrow> (st1, (out, preview), w2))
        else publish_manifest lib fl neg ch c (the patch) out preview w1)"

definition oa_runtime_calibration_manual_commit ::
  "model_lib \<Rightarrow> publish_faults \<Rightarrow> zero_signs \<Rightarrow> u64 \<Rightarrow> u64 \<Rightarrow> string pointer \<Rightarrow> u64 pointer \<Rightarrow> manifest_preview pointer
     \<Rightarrow> facade \<Rightarrow> runtime_status \<times> (u64 pointer \<times> manifest_preview pointer) \<times> facade" where
  "oa_runtime_calibration_manual_commit lib fl neg ch revision evidence out preview w =
     (case pin_session cd_manual ch w of None \<Rightarrow> (OA_RUNTIME_EINVAL, (out, preview), w)
      | Some c \<Rightarrow>
          if finished c then (case refuse_session c OA_RUNTIME_ESTATE w of (st, w1) \<Rightarrow> (st, (out, preview), w1))
          else if \<not> valid_text evidence False
          then (case refuse_session c OA_RUNTIME_EINVAL w of (st, w1) \<Rightarrow> (st, (out, preview), w1))
          else commit_session lib fl neg ch c (oa_commission_manual_commit (cd_manual c) revision evidence) out preview w)"

definition oa_runtime_calibration_recipe_commit ::
  "model_lib \<Rightarrow> publish_faults \<Rightarrow> zero_signs \<Rightarrow> u64 \<Rightarrow> u64 \<Rightarrow> u64 pointer \<Rightarrow> manifest_preview pointer
     \<Rightarrow> facade \<Rightarrow> runtime_status \<times> (u64 pointer \<times> manifest_preview pointer) \<times> facade" where
  "oa_runtime_calibration_recipe_commit lib fl neg ch revision out preview w =
     (case pin_session cd_recipe ch w of None \<Rightarrow> (OA_RUNTIME_EINVAL, (out, preview), w)
      | Some c \<Rightarrow>
          if finished c then (case refuse_session c OA_RUNTIME_ESTATE w of (st, w1) \<Rightarrow> (st, (out, preview), w1))
          else commit_session lib fl neg ch c (oa_commission_recipe_commit (cd_recipe c) revision) out preview w)"

definition bound_input ::
  "u64 \<Rightarrow> calibration_data \<Rightarrow> runtime_data \<Rightarrow> recipe_input \<Rightarrow> encoder_sample \<Rightarrow> control_snapshot \<Rightarrow> recipe_input" where
  "bound_input now c r q x sn =
     (let a = pick (unat (cd_side c)) (sn_arm sn); required = required_posture_mask c in
      \<lparr>struct_size = SIZEOF_RECIPE_INPUT, abi_version = OA_COMMISSION_ABI_V1, now_ns = now, encoder = x,
       estop_clear = (if rt_estop_active r then 0 else 1), deadman_held = (if rt_deadman_active r then 1 else 0),
       operator_ready = operator_ready q, review_decision = review_decision q,
       posture_mask = (if fresh_mask a AND required = required then required else 0),
       evidence_revision = cd_evidence_revision c, in_fixture_revision = cd_fixture_revision c,
       posture_output_rad = as_raw_q a\<rparr>)"

definition oa_runtime_calibration_recipe_step ::
  "u64 \<Rightarrow> u64 \<Rightarrow> u64 \<Rightarrow> recipe_input pointer \<Rightarrow> next_action pointer \<Rightarrow> recipe_report pointer \<Rightarrow> facade
     \<Rightarrow> runtime_status \<times> (next_action pointer \<times> recipe_report pointer) \<times> facade" where
  "oa_runtime_calibration_recipe_step capture_now now ch input action report w =
     (case pin_session cd_recipe ch w of None \<Rightarrow> (OA_RUNTIME_EINVAL, (action, report), w)
      | Some c \<Rightarrow>
        (case input of None \<Rightarrow> (OA_RUNTIME_EABI, (action, report), w)
         | Some q \<Rightarrow>
          if struct_size q < SIZEOF_RECIPE_INPUT \<or> abi_version q \<noteq> OA_COMMISSION_ABI_V1
          then (OA_RUNTIME_EABI, (action, report), w)
          else if finished c then (case refuse_session c OA_RUNTIME_ESTATE w of (st, w1) \<Rightarrow> (st, (action, report), w1))
          else case snapshot_sample capture_now now ch c w of
            (Inl st, w1) \<Rightarrow> (st, (action, report), w1)
          | (Inr (x, sn), w1) \<Rightarrow>
              (case oa_commission_recipe_step (cd_recipe c)
                      (Some (bound_input now c (the (runtime_objects w1 (cd_runtime c))) q x sn)) action report (commission w1) of
                 (st, outs, reg) \<Rightarrow>
                   (case pass_commission c st (w1\<lparr>commission := reg\<rparr>) of (st1, w2) \<Rightarrow> (st1, outs, w2)))))"

definition oa_runtime_calibration_abort :: "u64 \<Rightarrow> facade \<Rightarrow> runtime_status \<times> facade" where
  "oa_runtime_calibration_abort ch w =
     (case registry_pin kCalibrationTag ch (calibration_handles w) of None \<Rightarrow> (OA_RUNTIME_EINVAL, w)
      | Some c \<Rightarrow>
          if finished c then refuse_session c OA_RUNTIME_ESTATE w
          else case (if cd_manual c \<noteq> 0 then oa_commission_manual_abort (cd_manual c) (commission w)
                     else oa_commission_recipe_abort (cd_recipe c) (commission w)) of (st, reg) \<Rightarrow>
            let w1 = w\<lparr>commission := reg\<rparr>;
                w2 = (if st = OA_COMMISSION_OK
                      then finish_session ch c (change_runtime (cd_runtime c) release_owner w1) else w1)
            in pass_commission c st w2)"

definition oa_runtime_calibration_destroy :: "u64 \<Rightarrow> facade \<Rightarrow> facade" where
  "oa_runtime_calibration_destroy ch w =
     (case registry_pin kCalibrationTag ch (calibration_handles w) of None \<Rightarrow> w
      | Some c \<Rightarrow>
          drop_reference (cd_runtime c)
            (discard_calibration c (w\<lparr>calibration_handles := registry_drop kCalibrationTag ch (calibration_handles w)\<rparr>)))"

end
