(* ===== verification/Runtime_Steps.thy ===== *)
theory Runtime_Steps
  imports Runtime_Calibration
begin

text \<open>
  Every call of the runtime facade as a step of one relation, and the calls that are quiet: they
  register and end no object, and give no plan an authority.
\<close>

section \<open>The calls as steps\<close>

inductive facade_step :: "facade \<Rightarrow> facade \<Rightarrow> bool" where
  step_manifests: "facade_step w (w\<lparr>manifest_handles := reg\<rparr>)"
| step_create: "facade_step w (snd (snd (oa_runtime_create lib mt fl now facade_now opts manifest out w)))"
| step_destroy: "facade_step w (oa_runtime_destroy h w)"
| step_worker: "facade_step w (worker_turn lib host_now h w)"
| step_identity: "facade_step w (snd (snd (oa_runtime_get_model_identity mt h side ident w)))"
| step_now: "facade_step w (snd (snd (oa_runtime_now_monotonic_ns host_now h clock_id out w)))"
| step_snapshot: "facade_step w (snd (snd (oa_runtime_snapshot_get facade_now h snap w)))"
| step_kinematics: "facade_step w (snd (snd (oa_runtime_get_kinematics lib mt h side required_seq kin w)))"
| step_interlock: "facade_step w (snd (oa_runtime_set_interlock h estop_active deadman w))"
| step_arm: "facade_step w (snd (oa_runtime_arm_virtual h w))"
| step_plan_joint: "facade_step w (snd (snd (oa_runtime_plan_joint lib pf facade_now h jm out w)))"
| step_plan_paired: "facade_step w (snd (snd (oa_runtime_plan_paired_tcp_body lib mix pf facade_now h pm out w)))"
| step_plan_converge: "facade_step w (snd (snd (oa_runtime_plan_converge_tcp_body lib pf facade_now h cm out w)))"
| step_plan_report: "facade_step w (snd (snd (oa_runtime_plan_get_report plan rep w)))"
| step_plan_destroy: "facade_step w (oa_runtime_plan_destroy plan w)"
| step_execute: "facade_step w (snd (snd (oa_runtime_execute lib facade_now h plan ex out w)))"
| step_heartbeat: "facade_step w (snd (oa_runtime_heartbeat facade_now h cid clock_id deadline w))"
| step_stop: "facade_step w (snd (oa_runtime_stop h kind w))"
| step_disarm: "facade_step w (snd (oa_runtime_disarm facade_now h clock_id deadline w))"
| step_poll: "facade_step w (snd (snd (oa_runtime_poll_event h timeout late ev w)))"
| step_contact_report: "facade_step w (snd (snd (oa_runtime_get_contact_report h cr w)))"
| step_sim_contact: "facade_step w (snd (oa_runtime_sim_set_contact h contact w))"
| step_estop_assert: "facade_step w (oa_runtime_estop_assert w)"
| step_estop_clear: "facade_step w (snd (oa_runtime_estop_clear w))"
| step_manual_begin: "facade_step w (snd (snd (oa_runtime_calibration_manual_begin sf h mo out w)))"
| step_recipe_begin: "facade_step w (snd (snd (oa_runtime_calibration_recipe_begin sf h rp out w)))"
| step_manual_sample: "facade_step w (snd (snd (oa_runtime_calibration_manual_sample capture_now now ch i mr w)))"
| step_manual_review: "facade_step w (snd (snd (oa_runtime_calibration_manual_begin_review ch mr w)))"
| step_manual_commit: "facade_step w (snd (snd (oa_runtime_calibration_manual_commit lib bf neg ch revision evidence out pv w)))"
| step_recipe_step: "facade_step w (snd (snd (oa_runtime_calibration_recipe_step capture_now now ch ri na rr w)))"
| step_recipe_commit: "facade_step w (snd (snd (oa_runtime_calibration_recipe_commit lib bf neg ch revision out pv w)))"
| step_abort: "facade_step w (snd (oa_runtime_calibration_abort ch w))"
| step_calibration_destroy: "facade_step w (oa_runtime_calibration_destroy ch w)"

inductive facade_run :: "facade \<Rightarrow> facade \<Rightarrow> bool" where
  run_start: "facade_run w w"
| run_step: "facade_run w w1 \<Longrightarrow> facade_step w1 w2 \<Longrightarrow> facade_run w w2"

section \<open>Calls that keep every reference\<close>

text \<open>
  Two states that differ in nothing the lifetimes depend on. A plan may lose its authority; a runtime
  stays on its manifest, options and controller, and its evidence of a measurement only moves on.
\<close>

definition later_evidence :: "clock_evidence \<Rightarrow> clock_evidence \<Rightarrow> bool" where
  "later_evidence e e' \<longleftrightarrow>
     e' = e \<or> runtime_monotonic_ns e < runtime_monotonic_ns e' \<or> runtime_monotonic_ns e' = UINT64_MAX"

definition same_object :: "runtime_data \<Rightarrow> runtime_data \<Rightarrow> bool" where
  "same_object r r' \<longleftrightarrow> rt_options r' = rt_options r \<and> rt_manifest r' = rt_manifest r \<and> rt_controller r' = rt_controller r
     \<and> coordinate_identity_digest r' = coordinate_identity_digest r
     \<and> later_evidence (fst (feedback_clock r)) (fst (feedback_clock r'))
     \<and> later_evidence (snd (feedback_clock r)) (snd (feedback_clock r'))"

definition same_life :: "runtime_data \<Rightarrow> runtime_data \<Rightarrow> bool" where
  "same_life r r' \<longleftrightarrow> references r' = references r \<and> closing r' = closing r \<and> same_object r r'"

definition same_plan :: "plan_data \<Rightarrow> plan_data \<Rightarrow> bool" where
  "same_plan p p' \<longleftrightarrow> pd_runtime p' = pd_runtime p \<and> (holds_authority p' \<longrightarrow> holds_authority p)"

definition same_session :: "calibration_data \<Rightarrow> calibration_data \<Rightarrow> bool" where
  "same_session c c' \<longleftrightarrow> cd_runtime c' = cd_runtime c"

definition same_registry :: "u64 \<Rightarrow> ('v \<Rightarrow> 'v \<Rightarrow> bool) \<Rightarrow> 'v handle_registry \<Rightarrow> 'v handle_registry \<Rightarrow> bool" where
  "same_registry tag eq r r' \<longleftrightarrow> (\<forall>t. rel_option eq (registered r t) (registered r' t))
     \<and> (registry_good tag r \<longrightarrow> registry_good tag r' \<and> (\<forall>t. handle_issued tag r t \<longrightarrow> handle_issued tag r' t))"

definition quiet :: "facade \<Rightarrow> facade \<Rightarrow> bool" where
  "quiet w w' \<longleftrightarrow> same_registry kRuntimeTag (=) (runtime_handles w) (runtime_handles w')
     \<and> (\<forall>h. rel_option same_life (runtime_objects w h) (runtime_objects w' h))
     \<and> same_registry kPlanTag same_plan (plan_handles w) (plan_handles w')
     \<and> same_registry kCalibrationTag same_session (calibration_handles w) (calibration_handles w')"

named_theorems quiet_rules

lemma later_refl [simp]: "later_evidence e e"
  by (simp add: later_evidence_def)

lemma max64: "(x :: u64) \<le> UINT64_MAX"
  by (rule word_order.extremum)

lemma later_trans: "later_evidence a b \<Longrightarrow> later_evidence b c \<Longrightarrow> later_evidence a c"
  unfolding later_evidence_def using max64 [of "runtime_monotonic_ns c"] by auto

lemma same_object_refl [simp]: "same_object r r"
  by (simp add: same_object_def)

lemma same_object_trans: "same_object a b \<Longrightarrow> same_object b c \<Longrightarrow> same_object a c"
  unfolding same_object_def using later_trans by auto

lemmas life_defs = same_life_def same_object_def

lemma same_life_refl [simp]: "same_life r r"
  by (simp add: same_life_def)

lemma same_plan_refl [simp]: "same_plan p p"
  by (simp add: same_plan_def)

lemma same_session_refl [simp]: "same_session c c"
  by (simp add: same_session_def)

lemma same_life_trans: "same_life a b \<Longrightarrow> same_life b c \<Longrightarrow> same_life a c"
  unfolding same_life_def using same_object_trans by auto

lemma same_plan_trans: "same_plan a b \<Longrightarrow> same_plan b c \<Longrightarrow> same_plan a c"
  by (auto simp: same_plan_def)

lemma same_session_trans: "same_session a b \<Longrightarrow> same_session b c \<Longrightarrow> same_session a c"
  by (simp add: same_session_def)

lemma rel_option_step:
  assumes "rel_option P a b" "rel_option P b c" "\<And>x y z. P x y \<Longrightarrow> P y z \<Longrightarrow> P x z"
  shows "rel_option P a c"
  using assms(1,2) by (cases a; cases b; cases c; simp) (erule (1) assms(3))

lemma same_registry_refl: "(\<And>v. eq v v) \<Longrightarrow> same_registry tag eq r r"
  by (simp add: same_registry_def option.rel_refl)

lemma same_registry_trans:
  assumes "same_registry tag eq a b" "same_registry tag eq b c" "\<And>x y z. eq x y \<Longrightarrow> eq y z \<Longrightarrow> eq x z"
  shows "same_registry tag eq a c"
proof -
  have "rel_option eq (registered a t) (registered c t)" for t
    using assms(1,2) by - (rule rel_option_step [of eq "registered a t" "registered b t", OF _ _ assms(3)],
      simp_all add: same_registry_def)
  then show ?thesis using assms(1,2) by (simp add: same_registry_def)
qed

lemma quiet_refl [quiet_rules]: "quiet w w"
  by (simp add: quiet_def same_registry_refl option.rel_refl)

lemma quiet_trans: "quiet a b \<Longrightarrow> quiet b c \<Longrightarrow> quiet a c"
proof -
  assume q: "quiet a b" "quiet b c"
  have "rel_option same_life (runtime_objects a h) (runtime_objects c h)" for h
    using q by - (rule rel_option_step [of same_life "runtime_objects a h" "runtime_objects b h", OF _ _ same_life_trans],
      simp_all add: quiet_def)
  moreover have "same_registry kPlanTag same_plan (plan_handles a) (plan_handles c)"
    using q by - (rule same_registry_trans [of kPlanTag same_plan "plan_handles a" "plan_handles b", OF _ _ same_plan_trans],
      simp_all add: quiet_def)
  moreover have "same_registry kCalibrationTag same_session (calibration_handles a) (calibration_handles c)"
    using q by - (rule same_registry_trans [of kCalibrationTag same_session "calibration_handles a" "calibration_handles b", OF _ _ same_session_trans],
      simp_all add: quiet_def)
  moreover have "same_registry kRuntimeTag (=) (runtime_handles a) (runtime_handles c)"
    using q by - (rule same_registry_trans [of kRuntimeTag "(=)" "runtime_handles a" "runtime_handles b"],
      simp_all add: quiet_def)
  ultimately show "quiet a c" by (simp add: quiet_def)
qed

lemma quiet_control [quiet_rules]: "quiet w w' \<Longrightarrow> quiet w (w'\<lparr>control := s\<rparr>)"
  by (simp add: quiet_def)

lemma quiet_commission [quiet_rules]: "quiet w w' \<Longrightarrow> quiet w (w'\<lparr>commission := s\<rparr>)"
  by (simp add: quiet_def)

lemma quiet_manifests [quiet_rules]: "quiet w w' \<Longrightarrow> quiet w (w'\<lparr>manifest_handles := s\<rparr>)"
  by (simp add: quiet_def)

lemma quiet_change:
  assumes "quiet w w'" "\<And>r. same_life r (f r)"
  shows "quiet w (change_runtime h f w')"
proof -
  have "quiet w' (change_runtime h f w')"
    using assms(2) by (auto simp: quiet_def change_runtime_def same_registry_refl option.rel_refl option.rel_map)
  then show ?thesis by (rule quiet_trans [OF assms(1)])
qed

lemma quiet_set:
  assumes "quiet w w'" "runtime_objects w' h = Some r" "same_life r r'"
  shows "quiet w (set_runtime h r' w')"
proof -
  have "quiet w' (set_runtime h r' w')"
    using assms(2,3) by (auto simp: quiet_def set_runtime_def same_registry_refl option.rel_refl)
  then show ?thesis by (rule quiet_trans [OF assms(1)])
qed

lemma same_registry_update:
  assumes "registered r t = Some v" "eq v v'" "\<And>x. eq x x"
  shows "same_registry tag eq r (registry_update t v' r)"
  using assms by (auto simp: same_registry_def registry_update_def registry_good_def handle_issued_def option.rel_refl)

lemma quiet_plan_update:
  assumes "quiet w w'" "registered (plan_handles w') t = Some p" "same_plan p p'"
  shows "quiet w (w'\<lparr>plan_handles := registry_update t p' (plan_handles w')\<rparr>)"
proof -
  have "quiet w' (w'\<lparr>plan_handles := registry_update t p' (plan_handles w')\<rparr>)"
    using assms(2,3)
    by (auto simp: quiet_def same_registry_refl option.rel_refl intro: same_registry_update)
  then show ?thesis by (rule quiet_trans [OF assms(1)])
qed

lemma quiet_session_update:
  assumes "quiet w w'" "registered (calibration_handles w') t = Some c" "same_session c c'"
  shows "quiet w (w'\<lparr>calibration_handles := registry_update t c' (calibration_handles w')\<rparr>)"
proof -
  have "quiet w' (w'\<lparr>calibration_handles := registry_update t c' (calibration_handles w')\<rparr>)"
    using assms(2,3)
    by (auto simp: quiet_def same_registry_refl option.rel_refl intro: same_registry_update)
  then show ?thesis by (rule quiet_trans [OF assms(1)])
qed

text \<open>The end of a plan's and of a session's object, and the record of an error.\<close>

abbreviation noted :: "u64 \<Rightarrow> runtime_status \<Rightarrow> runtime_facility \<Rightarrow> lower_status \<Rightarrow> facade \<Rightarrow> facade" where
  "noted h st fac lower w \<equiv> snd (record_error h st fac lower w)"

lemma record_error_pair: "record_error h st fac lower w = (st, noted h st fac lower w)"
  by (simp add: record_error_def)

lemma fail_triple: "fail h st fac lower out w = (st, out, noted h st fac lower w)"
  by (simp add: fail_def record_error_def)

lemma quiet_noted [quiet_rules]: "quiet w w' \<Longrightarrow> quiet w (noted h st fac lower w')"
  by (auto simp: record_error_def set_error_def life_defs intro: quiet_change)

lemma same_life_release [simp]: "same_life r (release_authority i r)"
  by (simp add: release_authority_def life_defs)

lemma quiet_if: "(b \<Longrightarrow> quiet w x) \<Longrightarrow> (\<not> b \<Longrightarrow> quiet w y) \<Longrightarrow> quiet w (if b then x else y)"
  by simp

lemma quiet_discard_plan [quiet_rules]: "quiet w w' \<Longrightarrow> quiet w (discard_plan p w')"
  unfolding discard_plan_def Let_def by (intro quiet_if quiet_change quiet_control same_life_release)

lemma quiet_discard_calibration [quiet_rules]: "quiet w w' \<Longrightarrow> quiet w (discard_calibration c w')"
  unfolding discard_calibration_def Let_def
  by (intro quiet_change quiet_if quiet_commission) (simp_all add: life_defs)

lemma require_runtime_some:
  "require_runtime h w = Inr r \<Longrightarrow> runtime_objects w h = Some r \<and> registry_pin kRuntimeTag h (runtime_handles w) = Some () \<and> \<not> closing r"
  by (cases "registry_pin kRuntimeTag h (runtime_handles w)"; cases "runtime_objects w h")
    (simp_all add: require_runtime_def split: if_splits)

lemma pin_runtime_some:
  "pin_runtime h w = Some r \<Longrightarrow> runtime_objects w h = Some r \<and> registry_pin kRuntimeTag h (runtime_handles w) = Some ()"
  by (cases "registry_pin kRuntimeTag h (runtime_handles w)") (simp_all add: pin_runtime_def)

lemma registry_pin_some: "registry_pin tag h r = Some v \<Longrightarrow> registered r h = Some v"
  by (auto simp: registry_pin_def split: if_splits)


section \<open>The quiet calls\<close>

lemma same_life_advance [simp]: "same_life r (advance_timeline t r)"
  by (simp add: life_defs advance_timeline_def)

lemma capture_later: "later_evidence e (capture_clock c t a e)"
proof -
  have "x < x + 1" if "x \<noteq> UINT64_MAX" for x :: u64
  proof -
    have "1 + x \<noteq> 0" using that by (metis add.right_neutral add_minus_cancel)
    then have "unat (1 + x) = Suc (unat x)" by (rule unatSuc)
    then show ?thesis by (simp add: word_less_nat_alt add.commute [of x])
  qed
  then show ?thesis unfolding capture_clock_def later_evidence_def Let_def by auto
qed

lemma same_life_capture [simp]: "same_life r (capture_feedback_clock sn a b r)"
  by (simp add: life_defs capture_feedback_clock_def capture_later)

lemma drain_life: "drain_controller_events n t r s = (r', s') \<Longrightarrow> same_life r r'"
proof (induction n arbitrary: r s)
  case (Suc n)
  have queued: "same_life r (r\<lparr>rt_events := q\<rparr>)" for q by (simp add: life_defs)
  obtain st ev s1 where poll: "oa_controller_poll_event (rt_controller r) 0 False False (Some event_out) s = (st, ev, s1)"
    using prod_cases3 by blast
  show ?case
    using Suc.prems poll same_life_trans [OF queued Suc.IH]
    by (cases st; cases ev; cases "the st") (auto simp: Let_def)
qed simp

lemma worker_cycle_life: "worker_cycle lib t r s = (r', s') \<Longrightarrow> same_life r r'"
proof -
  assume cycle: "worker_cycle lib t r s = (r', s')"
  let ?next = "if controller_timeline_ns r > UINT64_MAX - ro_cycle_ns (rt_options r) then UINT64_MAX
    else controller_timeline_ns r + ro_cycle_ns (rt_options r)"
  obtain st s1 where advance: "oa_controller_advance lib (rt_controller r) ?next s = (st, s1)" by fastforce
  obtain sst sn s2 where read: "read_snapshot (rt_controller r) s1 = (sst, sn, s2)" using prod_cases3 by blast
  let ?r1 = "r\<lparr>controller_timeline_ns := ?next\<rparr>"
  let ?r2 = "if sst = OA_CONTROL_OK then capture_feedback_clock sn ?next t ?r1 else ?r1"
  obtain r3 s3 where drain: "drain_controller_events DRAIN_TURNS t ?r2 s2 = (r3, s3)" by fastforce
  have "same_life r ?r1" by (simp add: life_defs)
  then have "same_life r ?r2" by (simp add: same_life_trans [OF _ same_life_capture])
  from same_life_trans [OF this drain_life [OF drain]] have r3: "same_life r r3" .
  have moved: "same_life r (advance_timeline t r3)" by (rule same_life_trans [OF r3]) simp
  have "same_life (advance_timeline t r3) ((advance_timeline t r3)\<lparr>last_error := e\<rparr>)" for e
    by (simp add: life_defs)
  note noted = same_life_trans [OF moved this]
  have "r' = advance_timeline t r3 \<or> (\<exists>e. r' = (advance_timeline t r3)\<lparr>last_error := e\<rparr>)"
    using cycle advance read drain by (auto simp: worker_cycle_def Let_def split: if_splits)
  then show ?thesis using moved noted by blast
qed

lemma quiet_worker: "quiet w (worker_turn lib t h w)"
proof (cases "runtime_objects w h")
  case None
  then show ?thesis by (simp add: worker_turn_def quiet_refl)
next
  case (Some r)
  obtain r1 s1 where c: "worker_cycle lib t r (control w) = (r1, s1)" by fastforce
  have "quiet w (set_runtime h r1 (w\<lparr>control := s1\<rparr>))"
    by (rule quiet_set [OF quiet_control [OF quiet_refl] _ worker_cycle_life [OF c]]) (simp add: Some)
  moreover have "quiet w (set_runtime h (r\<lparr>plan_pending := False, plan_expiry_ns := 0\<rparr>) w)"
    by (rule quiet_set [OF quiet_refl Some]) (simp add: life_defs)
  ultimately show ?thesis using Some c by (simp add: worker_turn_def quiet_refl)
qed


text \<open>How a call's body falls into its branches, for calls with an output and without one.\<close>

lemma branch_if: "(b \<Longrightarrow> P x) \<Longrightarrow> (\<not> b \<Longrightarrow> P y) \<Longrightarrow> P (if b then x else y)"
  by simp

lemma branch_pair: "(\<And>a b. x = (a, b) \<Longrightarrow> P (f a b)) \<Longrightarrow> P (case x of (a, b) \<Rightarrow> f a b)"
  by (cases x) simp

lemma branch_option:
  "(x = None \<Longrightarrow> P a) \<Longrightarrow> (\<And>v. x = Some v \<Longrightarrow> P (f v)) \<Longrightarrow> P (case x of None \<Rightarrow> a | Some v \<Rightarrow> f v)"
  by (cases x) simp_all

lemma branch_sum:
  "(\<And>l. x = Inl l \<Longrightarrow> P (g l)) \<Longrightarrow> (\<And>v. x = Inr v \<Longrightarrow> P (f v)) \<Longrightarrow> P (case x of Inl l \<Rightarrow> g l | Inr v \<Rightarrow> f v)"
  by (cases x) simp_all

definition quiet_out :: "facade \<Rightarrow> 's \<times> 'o \<times> facade \<Rightarrow> bool" where
  "quiet_out w x \<longleftrightarrow> quiet w (snd (snd x))"

definition quiet_end :: "facade \<Rightarrow> 's \<times> facade \<Rightarrow> bool" where
  "quiet_end w x \<longleftrightarrow> quiet w (snd x)"

lemmas out_branches = branch_if [where P = "quiet_out w" for w] branch_pair [where P = "quiet_out w" for w]
  branch_option [where P = "quiet_out w" for w] branch_sum [where P = "quiet_out w" for w]

lemmas end_branches = branch_if [where P = "quiet_end w" for w] branch_pair [where P = "quiet_end w" for w]
  branch_option [where P = "quiet_end w" for w] branch_sum [where P = "quiet_end w" for w]

lemma quiet_outI [quiet_rules]: "quiet w w' \<Longrightarrow> quiet_out w (st, out, w')"
  by (simp add: quiet_out_def)

lemma quiet_endI [quiet_rules]: "quiet w w' \<Longrightarrow> quiet_end w (st, w')"
  by (simp add: quiet_end_def)

lemma quiet_fail [quiet_rules]: "quiet w w' \<Longrightarrow> quiet_out w (fail h st fac lower out w')"
  by (simp add: fail_triple quiet_outI quiet_noted)

lemma quiet_record [quiet_rules]: "quiet w w' \<Longrightarrow> quiet_end w (record_error h st fac lower w')"
  using quiet_noted by (simp add: quiet_end_def)

lemma quiet_pass_control [quiet_rules]: "quiet w w' \<Longrightarrow> quiet_end w (pass_control h st w')"
  unfolding pass_control_def by (rule quiet_record)

lemma quiet_pass_commission [quiet_rules]: "quiet w w' \<Longrightarrow> quiet_end w (pass_commission c st w')"
  unfolding pass_commission_def by (rule quiet_record)

lemma quiet_refuse_session [quiet_rules]: "quiet w w' \<Longrightarrow> quiet_end w (refuse_session c st w')"
  unfolding refuse_session_def by (rule quiet_record)

lemma quiet_through: "quiet_end w x \<Longrightarrow> x = (st, w') \<Longrightarrow> quiet w w'"
  by (simp add: quiet_end_def)

lemma quiet_through_out: "quiet_out w x \<Longrightarrow> x = (st, out, w') \<Longrightarrow> quiet w w'"
  by (simp add: quiet_out_def)

lemma quiet_set_required:
  assumes "require_runtime h w = Inr r" "quiet w w'" "runtime_objects w' h = runtime_objects w h" "same_life r r'"
  shows "quiet w (set_runtime h r' w')"
  using quiet_set [OF assms(2) _ assms(4)] assms(3) require_runtime_some [OF assms(1)] by simp

lemma quiet_identity: "quiet_out w (oa_runtime_get_model_identity mt h side out w)"
  unfolding oa_runtime_get_model_identity_def
  by (intro out_branches quiet_rules; (erule quiet_through [rotated], intro quiet_rules))

lemma quiet_now: "quiet_out w (oa_runtime_now_monotonic_ns t h clock_id out w)"
  unfolding oa_runtime_now_monotonic_ns_def Let_def
  by (intro out_branches quiet_rules; (erule quiet_set_required, intro quiet_rules, simp, simp only: same_life_advance))

lemma quiet_capture: "quiet w0 w \<Longrightarrow> quiet_end w0 (capture_runtime_snapshot t h r w)"
  unfolding capture_runtime_snapshot_def Let_def
  by (intro end_branches quiet_rules; (erule quiet_through [rotated], intro quiet_rules)?)

lemma quiet_snapshot: "quiet_out w (oa_runtime_snapshot_get t h out w)"
  unfolding oa_runtime_snapshot_get_def
  by (intro out_branches quiet_rules; (erule quiet_through [rotated], intro quiet_capture quiet_rules)?)

lemma quiet_kinematics: "quiet_out w (oa_runtime_get_kinematics lib mt h side seq out w)"
  unfolding oa_runtime_get_kinematics_def Let_def
  by (intro out_branches quiet_rules)

lemma quiet_interlock: "quiet_end w (oa_runtime_set_interlock h estop_active deadman w)"
  unfolding oa_runtime_set_interlock_def Let_def
  by (intro end_branches quiet_rules; (erule quiet_set_required, intro quiet_rules, simp, simp add: life_defs))

lemma quiet_arm: "quiet_end w (oa_runtime_arm_virtual h w)"
  unfolding oa_runtime_arm_virtual_def Let_def
  by (intro end_branches quiet_rules; (erule quiet_set_required, intro quiet_rules, simp, simp add: life_defs)?)

lemma quiet_report: "quiet_out w (oa_runtime_plan_get_report plan out w)"
  unfolding oa_runtime_plan_get_report_def
  by (intro out_branches quiet_rules)

lemma quiet_release_pending:
  assumes "registry_pin kPlanTag t (plan_handles w0) = Some p" "plan_handles w' = plan_handles w0" "quiet w w'"
  shows "quiet w (release_pending t p h w')"
proof -
  have "registered (plan_handles w') t = Some p" using registry_pin_some [OF assms(1)] assms(2) by simp
  then show ?thesis unfolding release_pending_def
    by (intro quiet_change quiet_plan_update [OF assms(3)] same_life_release) (simp_all add: same_plan_def)
qed

lemma quiet_execute: "quiet_out w (oa_runtime_execute lib t h plan request out w)"
  unfolding oa_runtime_execute_def Let_def
  by (intro out_branches quiet_rules;
      (erule quiet_release_pending, simp, intro quiet_rules)?)

lemma quiet_heartbeat: "quiet_end w (oa_runtime_heartbeat t h cid clock_id deadline w)"
  unfolding oa_runtime_heartbeat_def by (intro end_branches quiet_rules)

lemma quiet_stop: "quiet_end w (oa_runtime_stop h kind w)"
  unfolding oa_runtime_stop_def by (intro end_branches quiet_rules)

lemma quiet_disarm: "quiet_end w (oa_runtime_disarm t h clock_id deadline w)"
  unfolding oa_runtime_disarm_def Let_def
  by (intro end_branches quiet_rules quiet_if quiet_change; simp add: life_defs)

lemma quiet_poll: "quiet_out w (oa_runtime_poll_event h timeout late out w)"
  unfolding oa_runtime_poll_event_def
  by (intro out_branches quiet_rules;
      ((erule quiet_through [rotated], intro quiet_rules) | (erule quiet_set_required, intro quiet_rules, simp, simp add: life_defs)))

lemma quiet_contact_report: "quiet_out w (oa_runtime_get_contact_report h out w)"
  unfolding oa_runtime_get_contact_report_def by (intro out_branches quiet_rules)

lemma quiet_sim_contact: "quiet_end w (oa_runtime_sim_set_contact h contact w)"
  unfolding oa_runtime_sim_set_contact_def by (intro end_branches quiet_rules)

lemma quiet_estop: "quiet w (oa_runtime_estop_assert w)" "quiet_end w (oa_runtime_estop_clear w)"
  unfolding oa_runtime_estop_assert_def oa_runtime_estop_clear_def by (intro end_branches quiet_rules)+

section \<open>The quiet calls of a calibration\<close>

lemma pin_session_some: "pin_session f ch w = Some c \<Longrightarrow> registered (calibration_handles w) ch = Some c"
  by (auto simp: pin_session_def split: option.splits if_splits dest: registry_pin_some)

lemma calibration_handles_noted [simp]: "calibration_handles (noted h st fac lower w) = calibration_handles w"
  by (simp add: record_error_def set_error_def change_runtime_def)

lemma calibration_handles_change [simp]: "calibration_handles (change_runtime h f w) = calibration_handles w"
  by (simp add: change_runtime_def)

lemma capture_sessions: "capture_runtime_snapshot t h r w = (x, w1) \<Longrightarrow> calibration_handles w1 = calibration_handles w"
  by (auto simp: capture_runtime_snapshot_def record_error_def set_error_def Let_def split: prod.splits if_splits)

lemma quiet_captured: "capture_runtime_snapshot t h r w = (x, w1) \<Longrightarrow> quiet w0 w \<Longrightarrow> quiet w0 w1"
  using quiet_through [OF quiet_capture] by blast

lemma quiet_advance [quiet_rules]: "quiet w w' \<Longrightarrow> quiet w (change_runtime h (advance_timeline t) w')"
  by (rule quiet_change) simp_all

lemma quiet_sample:
  assumes "registered (calibration_handles w) ch = Some c"
  shows "quiet_end w (snapshot_sample t1 t2 ch c w)"
proof -
  have update: "quiet w (w2\<lparr>calibration_handles := registry_update ch c' (calibration_handles w2)\<rparr>)"
    if "calibration_handles w2 = calibration_handles w" "quiet w w2" "cd_runtime c' = cd_runtime c" for w2 c'
    by (rule quiet_session_update [OF that(2)]) (simp_all add: that assms same_session_def)
  show ?thesis unfolding snapshot_sample_def Let_def
    by (intro end_branches quiet_rules;
        ((erule quiet_through [rotated], intro quiet_rules)
         | (rule update, simp add: capture_sessions, intro quiet_rules)
         | succeed);
        (erule quiet_captured, rule quiet_refl)?; simp?)
qed

lemma quiet_finish:
  assumes "registered (calibration_handles w) ch = Some c" "calibration_handles w' = calibration_handles w" "quiet w w'"
  shows "quiet w (finish_session ch c w')"
  unfolding finish_session_def
  by (rule quiet_session_update [OF assms(3)]) (simp_all add: assms same_session_def)

lemma same_life_release_owner [simp]: "same_life r (release_owner r)"
  by (simp add: release_owner_def life_defs)

lemma quiet_publish:
  assumes "registered (calibration_handles w) ch = Some c" "calibration_handles w' = calibration_handles w" "quiet w w'"
  shows "quiet_out w (publish_manifest lib fl neg ch c patch out pv w')"
  unfolding publish_manifest_def Let_def
  by (intro out_branches quiet_rules quiet_finish [OF assms(1)] quiet_change assms(3);
      simp add: assms(2) release_owner_def life_defs)

lemma quiet_commit:
  assumes "registered (calibration_handles w) ch = Some c"
  shows "quiet_out w (commit_session lib fl neg ch c commit out pv w)"
  unfolding commit_session_def Let_def
  by (intro out_branches quiet_rules quiet_publish [OF assms];
      ((erule quiet_through [rotated], intro quiet_rules) | simp)?)

lemma quiet_manual_commit: "quiet_out w (oa_runtime_calibration_manual_commit lib fl neg ch revision evidence out pv w)"
  unfolding oa_runtime_calibration_manual_commit_def
  by (intro out_branches quiet_rules quiet_commit pin_session_some; assumption?;
      (erule quiet_through [rotated], intro quiet_rules))

lemma quiet_recipe_commit: "quiet_out w (oa_runtime_calibration_recipe_commit lib fl neg ch revision out pv w)"
  unfolding oa_runtime_calibration_recipe_commit_def
  by (intro out_branches quiet_rules quiet_commit pin_session_some; assumption?;
      (erule quiet_through [rotated], intro quiet_rules))

lemma quiet_manual_sample: "quiet_out w (oa_runtime_calibration_manual_sample t1 t2 ch i out w)"
proof -
  have sampled: "quiet w w1" if "pin_session cd_manual ch w = Some c" "snapshot_sample t1 t2 ch c w = (x, w1)" for c x w1
    by (rule quiet_through [OF quiet_sample [OF pin_session_some [OF that(1)]] that(2)])
  show ?thesis unfolding oa_runtime_calibration_manual_sample_def
    by (intro out_branches quiet_rules; (erule quiet_through [rotated], intro quiet_rules)?; (erule sampled, assumption))
qed

lemma quiet_review: "quiet_out w (oa_runtime_calibration_manual_begin_review ch out w)"
  unfolding oa_runtime_calibration_manual_begin_review_def
  by (intro out_branches quiet_rules; (erule quiet_through [rotated], intro quiet_rules))

lemma quiet_recipe_step: "quiet_out w (oa_runtime_calibration_recipe_step t1 t2 ch input action report w)"
proof -
  have sampled: "quiet w w1" if "pin_session cd_recipe ch w = Some c" "snapshot_sample t1 t2 ch c w = (x, w1)" for c x w1
    by (rule quiet_through [OF quiet_sample [OF pin_session_some [OF that(1)]] that(2)])
  show ?thesis unfolding oa_runtime_calibration_recipe_step_def
    by (intro out_branches quiet_rules; (erule quiet_through [rotated], intro quiet_rules)?; (erule sampled, assumption)?)
qed

lemma quiet_abort: "quiet_end w (oa_runtime_calibration_abort ch w)"
  unfolding oa_runtime_calibration_abort_def Let_def
  by (intro end_branches quiet_rules quiet_if quiet_finish quiet_change; (erule registry_pin_some | simp)?)

end
