(* ===== verification/Runtime_Lifetime.thy ===== *)
theory Runtime_Lifetime
  imports Runtime_Steps
begin

text \<open>
  The lifetimes of the runtime facade. An object lives exactly as long as its handle, a plan or a
  calibration refers to it, as \<open>std::shared_ptr\<close> promises; so no call on a plan or a calibration
  meets a runtime that is gone.
\<close>

section \<open>Who refers to a runtime\<close>

definition plans_of :: "u64 \<Rightarrow> facade \<Rightarrow> u64 set" where
  "plans_of h w = {t. \<exists>p. registered (plan_handles w) t = Some p \<and> pd_runtime p = h}"

definition sessions_of :: "u64 \<Rightarrow> facade \<Rightarrow> u64 set" where
  "sessions_of h w = {t. \<exists>c. registered (calibration_handles w) t = Some c \<and> cd_runtime c = h}"

definition holders :: "u64 \<Rightarrow> facade \<Rightarrow> nat" where
  "holders h w =
     (if registered (runtime_handles w) h = None then 0 else 1) + card (plans_of h w) + card (sessions_of h w)"

text \<open>\<open>due h\<close> references of \<open>h\<close> are held by a call that is under way.\<close>

definition object_due :: "nat \<Rightarrow> u64 \<Rightarrow> facade \<Rightarrow> bool" where
  "object_due n h w \<longleftrightarrow>
     (case runtime_objects w h of
        None \<Rightarrow> n = 0 \<and> registered (runtime_handles w) h = None \<and> plans_of h w = {} \<and> sessions_of h w = {}
      | Some r \<Rightarrow> references r = holders h w + n \<and> 0 < references r
          \<and> (closing r \<longleftrightarrow> registered (runtime_handles w) h = None) \<and> handle_issued kRuntimeTag (runtime_handles w) h)"

definition registries_good :: "facade \<Rightarrow> bool" where
  "registries_good w \<longleftrightarrow> registry_good kRuntimeTag (runtime_handles w) \<and> registry_good kPlanTag (plan_handles w)
     \<and> registry_good kCalibrationTag (calibration_handles w)
     \<and> finite (dom (registered (plan_handles w))) \<and> finite (dom (registered (calibration_handles w)))"

definition facade_due :: "(u64 \<Rightarrow> nat) \<Rightarrow> facade \<Rightarrow> bool" where
  "facade_due due w \<longleftrightarrow> registries_good w \<and> (\<forall>h. object_due (due h) h w)"

abbreviation facade_ok :: "facade \<Rightarrow> bool" where
  "facade_ok \<equiv> facade_due (\<lambda>_. 0)"

lemma facade_initial: "facade_ok initial_facade"
  by (auto simp: facade_due_def registries_good_def object_due_def initial_facade_def empty_registry_def plans_of_def
      sessions_of_def registry_good_def)

lemma proper_tags [simp]: "proper_tag kRuntimeTag" "proper_tag kPlanTag" "proper_tag kCalibrationTag" "proper_tag kManifestTag"
  by (simp_all add: proper_tag_def)

section \<open>Quiet calls keep it\<close>

lemma rel_option_some: "rel_option P a b \<Longrightarrow> (\<exists>x. a = Some x) \<longleftrightarrow> (\<exists>y. b = Some y)"
  by (cases a; cases b) auto

lemma quiet_holders:
  assumes "quiet w w'"
  shows "plans_of h w' = plans_of h w" "sessions_of h w' = sessions_of h w"
    "registered (runtime_handles w') h = None \<longleftrightarrow> registered (runtime_handles w) h = None" "holders h w' = holders h w"
proof -
  have p: "rel_option same_plan (registered (plan_handles w) t) (registered (plan_handles w') t)" for t
    using assms by (simp add: quiet_def same_registry_def)
  have c: "rel_option same_session (registered (calibration_handles w) t) (registered (calibration_handles w') t)" for t
    using assms by (simp add: quiet_def same_registry_def)
  have r: "rel_option (=) (registered (runtime_handles w) h) (registered (runtime_handles w') h)"
    using assms by (simp add: quiet_def same_registry_def)
  have "t \<in> plans_of h w' \<longleftrightarrow> t \<in> plans_of h w" for t
    using p [of t] by (auto simp: plans_of_def same_plan_def option_rel_Some1 option_rel_Some2)
  then show *: "plans_of h w' = plans_of h w" by blast
  have "t \<in> sessions_of h w' \<longleftrightarrow> t \<in> sessions_of h w" for t
    using c [of t] by (auto simp: sessions_of_def same_session_def option_rel_Some1 option_rel_Some2)
  then show **: "sessions_of h w' = sessions_of h w" by blast
  show ***: "registered (runtime_handles w') h = None \<longleftrightarrow> registered (runtime_handles w) h = None"
    using r by (simp add: option.rel_eq)
  show "holders h w' = holders h w" by (simp add: holders_def * ** ***)
qed

lemma quiet_due:
  assumes q: "quiet w w'" and ok: "facade_due due w"
  shows "facade_due due w'"
proof -
  have good: "registry_good kRuntimeTag (runtime_handles w)" "registry_good kPlanTag (plan_handles w)"
    "registry_good kCalibrationTag (calibration_handles w)"
    using ok by (simp_all add: facade_due_def registries_good_def)
  have "dom (registered (plan_handles w')) = dom (registered (plan_handles w))"
    using q rel_option_some unfolding quiet_def same_registry_def dom_def by (metis (no_types) not_None_eq)
  moreover have "dom (registered (calibration_handles w')) = dom (registered (calibration_handles w))"
    using q rel_option_some unfolding quiet_def same_registry_def dom_def by (metis (no_types) not_None_eq)
  ultimately have "registries_good w'"
    using q ok good by (simp add: facade_due_def registries_good_def quiet_def same_registry_def)
  moreover have "object_due (due h) h w'" for h
  proof -
    have rel: "rel_option same_life (runtime_objects w h) (runtime_objects w' h)" using q by (simp add: quiet_def)
    have issued: "handle_issued kRuntimeTag (runtime_handles w) h \<Longrightarrow> handle_issued kRuntimeTag (runtime_handles w') h"
      using q good(1) by (simp add: quiet_def same_registry_def)
    have "object_due (due h) h w" using ok by (simp add: facade_due_def)
    then show ?thesis
      using rel issued unfolding object_due_def quiet_holders [OF q]
      by (cases "runtime_objects w h"; cases "runtime_objects w' h") (auto simp: same_life_def)
  qed
  ultimately show ?thesis by (simp add: facade_due_def)
qed

section \<open>A reference goes\<close>

lemma drop_reference_ok:
  assumes ok: "facade_due (\<lambda>x. if x = h then 1 else 0) w"
  shows "facade_ok (drop_reference h w)"
proof -
  have at: "object_due (if x = h then 1 else 0) x w" for x using ok by (simp add: facade_due_def)
  obtain r where r: "runtime_objects w h = Some r" and refs: "references r = holders h w + 1"
    using at [of h] by (auto simp: object_due_def split: option.splits)
  have same: "plans_of x (drop_reference h w) = plans_of x w" "sessions_of x (drop_reference h w) = sessions_of x w"
    "runtime_handles (drop_reference h w) = runtime_handles w" "holders x (drop_reference h w) = holders x w"
    "registries_good (drop_reference h w) = registries_good w" for x
    by (auto simp: drop_reference_def r plans_of_def sessions_of_def holders_def registries_good_def set_runtime_def)
  have finite: "finite (plans_of h w)" "finite (sessions_of h w)"
    using ok unfolding facade_due_def registries_good_def plans_of_def sessions_of_def
    by (auto elim!: finite_subset [rotated])
  have "object_due 0 x (drop_reference h w)" for x
  proof (cases "x = h")
    case False
    then show ?thesis using at [of x] unfolding object_due_def same
      by (auto simp: drop_reference_def r set_runtime_def split: option.splits)
  next
    case True
    show ?thesis
    proof (cases "references r \<le> 1")
      case True
      then have "holders h w = 0" using refs by simp
      then have "registered (runtime_handles w) h = None" "plans_of h w = {}" "sessions_of h w = {}"
        using finite by (auto simp: holders_def split: if_splits)
      then show ?thesis using \<open>x = h\<close> True unfolding object_due_def same
        by (simp add: drop_reference_def r)
    next
      case False
      then show ?thesis using \<open>x = h\<close> at [of h] refs unfolding object_due_def same
        by (auto simp: drop_reference_def r set_runtime_def)
    qed
  qed
  then show ?thesis using ok unfolding facade_due_def same by simp
qed

section \<open>Plans and sessions come and go\<close>

lemma insert_grows:
  assumes "proper_tag tag" "registry_good tag r" "registry_insert tag b v r = (x, r')"
  shows "registry_good tag r' \<and> (\<forall>t. handle_issued tag r t \<longrightarrow> handle_issued tag r' t)"
proof (cases x)
  case (Some t)
  then show ?thesis using registry_insert_some [OF assms(1,2)] assms(3) by auto
next
  case None
  have issued: "handle_issued tag r' t" if "handle_issued tag r t" for t
  proof (cases "next_index r > MAX_INDEX")
    case True
    then show ?thesis using that assms(3) None by (simp add: registry_insert_def)
  next
    case False
    then have r': "r' = r\<lparr>next_index := next_index r + 1\<rparr>"
      using assms(3) None by (auto simp: registry_insert_def Let_def split: if_splits)
    have "1 \<le> next_index r" "next_index r \<le> MAX_INDEX" using assms(2) False by (simp_all add: registry_good_def not_less)
    note step = issued_step [OF this, of tag "registered r"]
    show ?thesis using that step by (simp add: r')
  qed
  show ?thesis using issued registry_insert_none_grows [OF assms(2)] assms(3) None by blast
qed

lemma insert_none_same:
  assumes "proper_tag tag" "registry_insert tag b v r = (None, r')" "\<And>v. eq v v"
  shows "same_registry tag eq r r'"
proof -
  have "registered r' = registered r"
    using assms(2) by (auto simp: registry_insert_def Let_def split: if_splits)
  then show ?thesis
    using insert_grows [OF assms(1) _ assms(2)] assms(3) by (auto simp: same_registry_def option.rel_refl)
qed

lemma quiet_insert_none:
  "quiet w w' \<Longrightarrow> registry_insert kPlanTag b p (plan_handles w') = (None, reg) \<Longrightarrow> quiet w (w'\<lparr>plan_handles := reg\<rparr>)"
  "quiet w w' \<Longrightarrow> registry_insert kCalibrationTag b c (calibration_handles w') = (None, reg1) \<Longrightarrow>
     quiet w (w'\<lparr>calibration_handles := reg1\<rparr>)"
  "quiet w w' \<Longrightarrow> registry_insert kRuntimeTag b u (runtime_handles w') = (None, reg2) \<Longrightarrow> quiet w (w'\<lparr>runtime_handles := reg2\<rparr>)"
  by (rule quiet_trans, assumption, simp add: quiet_def same_registry_refl option.rel_refl insert_none_same [where eq = same_plan],
      rule quiet_trans, assumption, simp add: quiet_def same_registry_refl option.rel_refl insert_none_same [where eq = same_session],
      rule quiet_trans, assumption, simp add: quiet_def same_registry_refl option.rel_refl insert_none_same [where eq = "(=)"])

text \<open>A registered plan or session counts as one more reference.\<close>

lemma insert_card:
  assumes "finite (dom f)" "f t = None"
  shows "card {x. \<exists>v. (f(t \<mapsto> u)) x = Some v \<and> P v} = card {x. \<exists>v. f x = Some v \<and> P v} + (if P u then 1 else 0)"
proof -
  have fin: "finite {x. \<exists>v. f x = Some v \<and> P v}" by (rule finite_subset [OF _ assms(1)]) auto
  have "{x. \<exists>v. (f(t \<mapsto> u)) x = Some v \<and> P v} = (if P u then insert t {x. \<exists>v. f x = Some v \<and> P v} else {x. \<exists>v. f x = Some v \<and> P v})"
    using assms(2) by auto
  then show ?thesis using fin assms(2) by simp
qed

lemma remove_card:
  assumes "finite (dom f)" "f t = Some u"
  shows "card {x. \<exists>v. f x = Some v \<and> P v} = card {x. \<exists>v. (f(t := None)) x = Some v \<and> P v} + (if P u then 1 else 0)"
  using insert_card [of "f(t := None)" t u P] assms by (simp add: fun_upd_idem)

text \<open>The facade when one registry changes: what is due moves with the number of holders.\<close>

lemma due_shift:
  assumes ok: "facade_due due w" and reg: "registries_good w'"
    and objects: "runtime_objects w' = runtime_objects w" "runtime_handles w' = runtime_handles w"
    and count: "\<And>x. holders x w' + due' x = holders x w + due x"
    and none: "\<And>x. runtime_objects w x = None \<Longrightarrow> due' x = 0 \<and> plans_of x w' \<subseteq> plans_of x w \<and> sessions_of x w' \<subseteq> sessions_of x w"
  shows "facade_due due' w'"
proof -
  have "object_due (due' x) x w'" for x
  proof -
    have "object_due (due x) x w" using ok by (simp add: facade_due_def)
    then show ?thesis using count [of x] none [of x] unfolding object_due_def objects
      by (auto split: option.splits)
  qed
  then show ?thesis using reg by (simp add: facade_due_def)
qed

lemma plans_card: "card (plans_of h w) = card {t. \<exists>p. registered (plan_handles w) t = Some p \<and> pd_runtime p = h}"
  by (simp add: plans_of_def)

lemma sessions_card: "card (sessions_of h w) = card {t. \<exists>c. registered (calibration_handles w) t = Some c \<and> cd_runtime c = h}"
  by (simp add: sessions_of_def)

lemma plan_removed:
  assumes ok: "facade_ok w" and p: "registered (plan_handles w) t = Some p"
  shows "facade_due (\<lambda>x. if x = pd_runtime p then 1 else 0) (w\<lparr>plan_handles := registry_drop kPlanTag t (plan_handles w)\<rparr>)"
proof (rule due_shift [OF ok])
  have good: "registry_good kPlanTag (plan_handles w)" and fin: "finite (dom (registered (plan_handles w)))"
    using ok by (simp_all add: facade_due_def registries_good_def)
  have regs: "registered (registry_drop kPlanTag t (plan_handles w)) = (registered (plan_handles w))(t := None)"
    and good1: "registry_good kPlanTag (registry_drop kPlanTag t (plan_handles w))"
    using plan_handles.remove_any [OF good] by blast+
  show "registries_good (w\<lparr>plan_handles := registry_drop kPlanTag t (plan_handles w)\<rparr>)"
    using ok good1 fin by (simp add: facade_due_def registries_good_def regs)
  show "holders x (w\<lparr>plan_handles := registry_drop kPlanTag t (plan_handles w)\<rparr>) + (if x = pd_runtime p then 1 else 0)
      = holders x w + 0" for x
    using remove_card [OF fin p, of "\<lambda>p. pd_runtime p = x"]
    by (auto simp: holders_def plans_card sessions_of_def regs)
  have "\<exists>r. runtime_objects w (pd_runtime p) = Some r"
    using ok p unfolding facade_due_def object_due_def by (auto simp: plans_of_def split: option.splits)
  then show "(if x = pd_runtime p then 1 else 0) = (0 :: nat)
      \<and> plans_of x (w\<lparr>plan_handles := registry_drop kPlanTag t (plan_handles w)\<rparr>) \<subseteq> plans_of x w
      \<and> sessions_of x (w\<lparr>plan_handles := registry_drop kPlanTag t (plan_handles w)\<rparr>) \<subseteq> sessions_of x w"
    if "runtime_objects w x = None" for x
    using that by (auto simp: plans_of_def sessions_of_def regs split: if_splits)
qed simp_all

lemma session_table: "handle_table (registry_good kCalibrationTag) registered (handle_issued kCalibrationTag)
  (registry_insert kCalibrationTag False) registry_update (registry_drop kCalibrationTag)"
  by (rule registry_handle_table) simp

lemma session_removed:
  assumes ok: "facade_ok w" and c: "registered (calibration_handles w) t = Some c"
  shows "facade_due (\<lambda>x. if x = cd_runtime c then 1 else 0)
    (w\<lparr>calibration_handles := registry_drop kCalibrationTag t (calibration_handles w)\<rparr>)"
proof (rule due_shift [OF ok])
  have good: "registry_good kCalibrationTag (calibration_handles w)"
    and fin: "finite (dom (registered (calibration_handles w)))"
    using ok by (simp_all add: facade_due_def registries_good_def)
  have regs: "registered (registry_drop kCalibrationTag t (calibration_handles w)) = (registered (calibration_handles w))(t := None)"
    and good1: "registry_good kCalibrationTag (registry_drop kCalibrationTag t (calibration_handles w))"
    using handle_table.remove_any [OF session_table good] by blast+
  show "registries_good (w\<lparr>calibration_handles := registry_drop kCalibrationTag t (calibration_handles w)\<rparr>)"
    using ok good1 fin by (simp add: facade_due_def registries_good_def regs)
  show "holders x (w\<lparr>calibration_handles := registry_drop kCalibrationTag t (calibration_handles w)\<rparr>)
      + (if x = cd_runtime c then 1 else 0) = holders x w + 0" for x
    using remove_card [OF fin c, of "\<lambda>c. cd_runtime c = x"]
    by (auto simp: holders_def sessions_card plans_of_def regs)
  have "\<exists>r. runtime_objects w (cd_runtime c) = Some r"
    using ok c unfolding facade_due_def object_due_def by (auto simp: sessions_of_def split: option.splits)
  then show "(if x = cd_runtime c then 1 else 0) = (0 :: nat)
      \<and> plans_of x (w\<lparr>calibration_handles := registry_drop kCalibrationTag t (calibration_handles w)\<rparr>) \<subseteq> plans_of x w
      \<and> sessions_of x (w\<lparr>calibration_handles := registry_drop kCalibrationTag t (calibration_handles w)\<rparr>) \<subseteq> sessions_of x w"
    if "runtime_objects w x = None" for x
    using that by (auto simp: plans_of_def sessions_of_def regs split: if_splits)
qed simp_all

text \<open>A reference that comes is counted by the object, which a new holder has found.\<close>

lemma reference_taken:
  assumes ok: "facade_ok w" and reg: "registries_good w'"
    and objects: "runtime_objects w' = runtime_objects w" "runtime_handles w' = runtime_handles w"
    and at: "runtime_objects w h \<noteq> None"
    and count: "\<And>x. holders x w' = holders x w + (if x = h then 1 else 0)"
    and others: "\<And>x. x \<noteq> h \<Longrightarrow> plans_of x w' = plans_of x w \<and> sessions_of x w' = sessions_of x w"
  shows "facade_ok (take_reference h w')"
proof -
  have same: "plans_of x (take_reference h w') = plans_of x w'" "sessions_of x (take_reference h w') = sessions_of x w'"
    "runtime_handles (take_reference h w') = runtime_handles w" "holders x (take_reference h w') = holders x w'"
    "registries_good (take_reference h w')" for x
    using reg objects
    by (simp_all add: take_reference_def change_runtime_def plans_of_def sessions_of_def holders_def registries_good_def)
  have "object_due 0 x (take_reference h w')" for x
  proof -
    have "object_due 0 x w" using ok by (simp add: facade_due_def)
    then show ?thesis using count [of x] others [of x] at unfolding object_due_def same
      by (auto simp: take_reference_def change_runtime_def objects split: option.splits)
  qed
  then show ?thesis using same by (simp add: facade_due_def)
qed

lemma plan_added:
  assumes ok: "facade_ok w" and ins: "registry_insert kPlanTag b p (plan_handles w) = (Some t, reg)"
    and at: "runtime_objects w (pd_runtime p) \<noteq> None"
  shows "facade_ok (take_reference (pd_runtime p) (w\<lparr>plan_handles := reg\<rparr>))"
proof (rule reference_taken [OF ok _ _ _ at])
  have good: "registry_good kPlanTag (plan_handles w)" and fin: "finite (dom (registered (plan_handles w)))"
    using ok by (simp_all add: facade_due_def registries_good_def)
  note new = registry_insert_some [OF proper_tags(2) good ins]
  have none: "registered (plan_handles w) t = None"
    using new good by (auto simp: registry_good_def)
  have regs: "registered reg = (registered (plan_handles w))(t \<mapsto> p)" using new by simp
  show "registries_good (w\<lparr>plan_handles := reg\<rparr>)"
    using ok new fin by (simp add: facade_due_def registries_good_def)
  show "holders x (w\<lparr>plan_handles := reg\<rparr>) = holders x w + (if x = pd_runtime p then 1 else 0)" for x
    using insert_card [OF fin none, of p "\<lambda>p. pd_runtime p = x"]
    by (auto simp: holders_def plans_card sessions_of_def regs)
  show "plans_of x (w\<lparr>plan_handles := reg\<rparr>) = plans_of x w \<and> sessions_of x (w\<lparr>plan_handles := reg\<rparr>) = sessions_of x w"
    if "x \<noteq> pd_runtime p" for x
    using that none by (auto simp: plans_of_def sessions_of_def regs split: if_splits)
qed simp_all

lemma session_added:
  assumes ok: "facade_ok w" and ins: "registry_insert kCalibrationTag b c (calibration_handles w) = (Some t, reg)"
    and at: "runtime_objects w (cd_runtime c) \<noteq> None"
  shows "facade_ok (take_reference (cd_runtime c) (w\<lparr>calibration_handles := reg\<rparr>))"
proof (rule reference_taken [OF ok _ _ _ at])
  have good: "registry_good kCalibrationTag (calibration_handles w)"
    and fin: "finite (dom (registered (calibration_handles w)))"
    using ok by (simp_all add: facade_due_def registries_good_def)
  note new = registry_insert_some [OF proper_tags(3) good ins]
  have none: "registered (calibration_handles w) t = None"
    using new good by (auto simp: registry_good_def)
  have regs: "registered reg = (registered (calibration_handles w))(t \<mapsto> c)" using new by simp
  show "registries_good (w\<lparr>calibration_handles := reg\<rparr>)"
    using ok new fin by (simp add: facade_due_def registries_good_def)
  show "holders x (w\<lparr>calibration_handles := reg\<rparr>) = holders x w + (if x = cd_runtime c then 1 else 0)" for x
    using insert_card [OF fin none, of c "\<lambda>c. cd_runtime c = x"]
    by (auto simp: holders_def sessions_card plans_of_def regs)
  show "plans_of x (w\<lparr>calibration_handles := reg\<rparr>) = plans_of x w \<and> sessions_of x (w\<lparr>calibration_handles := reg\<rparr>) = sessions_of x w"
    if "x \<noteq> cd_runtime c" for x
    using that none by (auto simp: plans_of_def sessions_of_def regs split: if_splits)
qed simp_all

section \<open>Every call keeps it\<close>

definition ok_out :: "'s \<times> 'o \<times> facade \<Rightarrow> bool" where
  "ok_out x \<longleftrightarrow> facade_ok (snd (snd x))"

lemmas ok_branches = branch_if [where P = ok_out] branch_pair [where P = ok_out]
  branch_option [where P = ok_out] branch_sum [where P = ok_out]

lemma quiet_ok: "facade_ok w \<Longrightarrow> quiet_out w x \<Longrightarrow> ok_out x"
  unfolding quiet_out_def ok_out_def by (rule quiet_due)

lemma quiet_abandon [quiet_rules]: "quiet w w' \<Longrightarrow> quiet_out w (abandon h p st fac lower w')"
proof -
  assume q: "quiet w w'"
  have "quiet_out w (st1, out, discard_plan p w1)" if "fail h st fac lower (Some 0) w' = (st1, out, w1)" for st1 out w1
    by (rule quiet_outI [OF quiet_discard_plan [OF quiet_through_out [OF quiet_fail [OF q] that]]])
  then show ?thesis unfolding abandon_def by (cases "fail h st fac lower (Some 0 :: u64 pointer) w'") auto
qed

lemma acquire_life: "acquire_authority expiry r = Some (i, r1) \<Longrightarrow> same_life r r1"
  by (auto simp: acquire_authority_def life_defs Let_def split: if_splits)

lemma read_control: "runtime_objects (w\<lparr>control := s\<rparr>) = runtime_objects w"
  by simp

lemma plan_under_authority_ok:
  assumes ok: "facade_ok w" and r: "runtime_objects w h = Some r"
  shows "ok_out (plan_under_authority fl now h r expiry current planner w)"
proof -
  have refused: "ok_out (fail h st fac lower out w)" for st fac lower and out :: "u64 pointer"
    by (rule quiet_ok [OF ok quiet_fail [OF quiet_refl]])
  have dropped: "ok_out (abandon h p st fac lower w')" if "quiet w w'" for p st fac lower w'
    by (rule quiet_ok [OF ok quiet_abandon [OF that]])
  have set: "quiet w (set_runtime h r1 w)" if "acquire_authority expiry r = Some (i, r1)" for i r1
    by (rule quiet_set [OF quiet_refl r acquire_life [OF that]])
  have added: "ok_out (st, out, take_reference h (w'\<lparr>plan_handles := reg\<rparr>))"
    if "registry_insert kPlanTag b p (plan_handles w') = (Some t, reg)" "quiet w w'" "pd_runtime p = h"
      "runtime_objects w' h \<noteq> None" for b p w' t reg st and out :: "u64 pointer"
    using plan_added [OF quiet_due [OF that(2) ok] that(1)] that(3,4) by (simp add: ok_out_def)
  show ?thesis unfolding plan_under_authority_def Let_def
    by (intro ok_branches refused dropped; hypsubst?;
        (erule quiet_insert_none(1) [rotated] | erule added | succeed);
        (intro quiet_control)?; (erule set | simp add: new_plan_def set_runtime_def))
qed

lemma required_ok:
  "facade_ok w \<Longrightarrow> require_runtime h w = Inr r \<Longrightarrow> ok_out (plan_under_authority fl now h r expiry current planner w)"
  using plan_under_authority_ok require_runtime_some by blast

lemma plan_joint_ok: "facade_ok w \<Longrightarrow> ok_out (oa_runtime_plan_joint lib fl now h request out w)"
  unfolding oa_runtime_plan_joint_def Let_def
  by (intro ok_branches required_ok; assumption?; rule quiet_ok, assumption; intro quiet_rules)

lemma plan_paired_ok: "facade_ok w \<Longrightarrow> ok_out (oa_runtime_plan_paired_tcp_body lib mix fl now h request out w)"
  unfolding oa_runtime_plan_paired_tcp_body_def Let_def
  by (intro ok_branches required_ok; assumption?; rule quiet_ok, assumption; intro quiet_rules)

lemma plan_converge_ok: "facade_ok w \<Longrightarrow> ok_out (oa_runtime_plan_converge_tcp_body lib fl now h request out w)"
  unfolding oa_runtime_plan_converge_tcp_body_def Let_def
  by (intro ok_branches required_ok; assumption?; rule quiet_ok, assumption; intro quiet_rules)

lemma begin_session_ok:
  assumes ok: "facade_ok w" and r: "runtime_objects w h = Some r" and c: "cd_runtime c = h"
    and store: "\<And>s. cd_runtime (store s c) = h"
  shows "ok_out (begin_session fl h r c store create w)"
proof -
  have dropped: "ok_out (st1, out, discard_calibration c' w1)"
    if "fail h st fac lower (Some 0) w' = (st1, out, w1)" "quiet w w'" for c' st fac lower st1 out w1 w'
    using quiet_ok [OF ok quiet_outI [OF quiet_discard_calibration [OF quiet_through_out [OF quiet_fail [OF that(2)] that(1)]]]] .
  have refused: "ok_out (fail h st fac lower out w)" for st fac lower and out :: "u64 pointer"
    by (rule quiet_ok [OF ok quiet_fail [OF quiet_refl]])
  have set: "quiet w (set_runtime h (r\<lparr>owner := n\<rparr>) w)" for n
    by (rule quiet_set [OF quiet_refl r]) (simp add: life_defs)
  have off: "quiet w (change_runtime h (\<lambda>r. r\<lparr>owner := 0\<rparr>) w')" if "quiet w w'" for w'
    by (rule quiet_change [OF that]) (simp add: life_defs)
  have added: "ok_out (st, out, take_reference h (w'\<lparr>calibration_handles := reg\<rparr>))"
    if "registry_insert kCalibrationTag b c' (calibration_handles w') = (Some t, reg)" "quiet w w'" "cd_runtime c' = h"
      "runtime_objects w' h \<noteq> None" for b c' w' t reg st and out :: "u64 pointer"
    using session_added [OF quiet_due [OF that(2) ok] that(1)] that(3,4) by (simp add: ok_out_def)
  show ?thesis unfolding begin_session_def Let_def
    by (intro ok_branches refused; hypsubst?;
        (erule dropped | erule added | succeed);
        (intro off)?; (erule quiet_insert_none(2) [rotated])?; (intro quiet_rules set)?; (simp add: store set_runtime_def)?)
qed

lemma manual_begin_ok: "facade_ok w \<Longrightarrow> ok_out (oa_runtime_calibration_manual_begin fl h request out w)"
  unfolding oa_runtime_calibration_manual_begin_def
  by (intro ok_branches begin_session_ok; (simp add: pin_runtime_some new_calibration_def)?;
      rule quiet_ok, assumption; intro quiet_rules)

lemma recipe_begin_ok: "facade_ok w \<Longrightarrow> ok_out (oa_runtime_calibration_recipe_begin fl h request out w)"
  unfolding oa_runtime_calibration_recipe_begin_def
  by (intro ok_branches begin_session_ok; (simp add: pin_runtime_some new_calibration_def)?;
      rule quiet_ok, assumption; intro quiet_rules)

lemma plan_destroy_ok: "facade_ok w \<Longrightarrow> facade_ok (oa_runtime_plan_destroy plan w)"
proof -
  assume ok: "facade_ok w"
  show ?thesis
  proof (cases "registry_pin kPlanTag plan (plan_handles w)")
    case (Some p)
    note removed = plan_removed [OF ok registry_pin_some [OF Some]]
    then show ?thesis
      using drop_reference_ok [OF quiet_due [OF quiet_discard_plan [OF quiet_refl] removed]] Some
      by (simp add: oa_runtime_plan_destroy_def)
  qed (simp add: oa_runtime_plan_destroy_def ok)
qed

lemma calibration_destroy_ok: "facade_ok w \<Longrightarrow> facade_ok (oa_runtime_calibration_destroy ch w)"
proof -
  assume ok: "facade_ok w"
  show ?thesis
  proof (cases "registry_pin kCalibrationTag ch (calibration_handles w)")
    case (Some c)
    note removed = session_removed [OF ok registry_pin_some [OF Some]]
    then show ?thesis
      using drop_reference_ok [OF quiet_due [OF quiet_discard_calibration [OF quiet_refl] removed]] Some
      by (simp add: oa_runtime_calibration_destroy_def)
  qed (simp add: oa_runtime_calibration_destroy_def ok)
qed

lemma start_life: "start_controller lib fl t r s = (st, r', s') \<Longrightarrow> references r' = references r \<and> closing r' = closing r"
  unfolding start_controller_def Let_def
  by (auto split: prod.splits if_splits dest!: drain_life simp: same_life_def capture_feedback_clock_def simp del: drain_controller_events.simps)

lemma runtime_created:
  assumes ok: "facade_ok w" and ins: "registry_insert kRuntimeTag b () (runtime_handles w) = (Some h, reg)"
    and r: "references r = 1" "\<not> closing r"
  shows "facade_ok (set_runtime h r (w\<lparr>control := s, runtime_handles := reg\<rparr>))"
proof -
  let ?w = "set_runtime h r (w\<lparr>control := s, runtime_handles := reg\<rparr>)"
  have good: "registry_good kRuntimeTag (runtime_handles w)" using ok by (simp add: facade_due_def registries_good_def)
  note new = registry_insert_some [OF proper_tags(1) good ins]
  have at: "object_due 0 x w" for x using ok by (simp add: facade_due_def)
  have none: "registered (runtime_handles w) h = None" "runtime_objects w h = None"
    using new good at [of h] by (auto simp: registry_good_def object_due_def split: option.splits)
  have empty: "plans_of h w = {}" "sessions_of h w = {}"
    using at [of h] none(2) by (simp_all add: object_due_def)
  have same: "plans_of x ?w = plans_of x w" "sessions_of x ?w = sessions_of x w" "runtime_handles ?w = reg" for x
    by (simp_all add: plans_of_def sessions_of_def set_runtime_def)
  have reg: "registered reg = (registered (runtime_handles w))(h \<mapsto> ())" using new by simp
  have issued: "handle_issued kRuntimeTag reg x \<longleftrightarrow> x = h \<or> handle_issued kRuntimeTag (runtime_handles w) x" for x
    using new by auto
  have "object_due 0 x ?w" for x
    using at [of x] none empty r unfolding object_due_def holders_def same reg issued
    by (cases "x = h") (auto simp: set_runtime_def split: option.splits)
  moreover have "registries_good ?w"
    using ok new by (simp add: facade_due_def registries_good_def set_runtime_def)
  ultimately show ?thesis by (simp add: facade_due_def)
qed

lemma create_ok: "facade_ok w \<Longrightarrow> ok_out (oa_runtime_create lib mt fl now t opts m out w)"
proof -
  assume ok: "facade_ok w"
  have quiet: "ok_out (st, o', w')" if "quiet w w'" for st and o' :: "u64 pointer" and w'
    by (rule quiet_ok [OF ok quiet_outI [OF that]])
  have life: "references r = 1 \<and> \<not> closing r"
    if "(if v then start_controller lib fl t (new_runtime mt now q d) s0 else (OA_CONTROL_OK, new_runtime mt now q d, s0)) = (st, r, s)"
    for v q d s0 st r s
    using that by (auto simp: new_runtime_def split: if_splits dest!: start_life)
  have grown: "ok_out (st, o', w\<lparr>control := s, runtime_handles := reg\<rparr>)"
    if "registry_insert kRuntimeTag n () (runtime_handles w) = (None, reg)" for st and o' :: "u64 pointer" and s n reg
    using quiet_insert_none(3) [OF quiet_control [OF quiet_refl, of w s]] that by (intro quiet) simp
  have made: "ok_out (st, o', set_runtime h r (w\<lparr>control := s, runtime_handles := reg\<rparr>))"
    if "registry_insert kRuntimeTag n () (runtime_handles w) = (Some h, reg)" "references r = 1 \<and> \<not> closing r"
    for st and o' :: "u64 pointer" and s n reg h r
    using runtime_created [OF ok that(1)] that(2) by (simp add: ok_out_def)
  show ?thesis unfolding oa_runtime_create_def Let_def
    by (intro ok_branches; hypsubst?; (erule grown | (erule made, erule life) | (rule quiet, intro quiet_control quiet_refl)))
qed

lemma destroy_ok: "facade_ok w \<Longrightarrow> facade_ok (oa_runtime_destroy h w)"
proof -
  assume ok: "facade_ok w"
  show ?thesis
  proof (cases "registry_pin kRuntimeTag h (runtime_handles w)")
    case (Some u)
    let ?w = "(change_runtime h (\<lambda>r. r\<lparr>closing := True\<rparr>) w)
      \<lparr>runtime_handles := registry_drop kRuntimeTag h (runtime_handles w)\<rparr>"
    have at: "object_due 0 x w" for x using ok by (simp add: facade_due_def)
    have reg: "registered (runtime_handles w) h = Some ()" using registry_pin_some [OF Some] by simp
    then obtain r where r: "runtime_objects w h = Some r"
      using at [of h] by (auto simp: object_due_def split: option.splits)
    have good: "registry_good kRuntimeTag (runtime_handles w)" using ok by (simp add: facade_due_def registries_good_def)
    have drop: "registered (registry_drop kRuntimeTag h (runtime_handles w)) = (registered (runtime_handles w))(h := None)"
      "registry_good kRuntimeTag (registry_drop kRuntimeTag h (runtime_handles w))"
      "handle_issued kRuntimeTag (registry_drop kRuntimeTag h (runtime_handles w)) = handle_issued kRuntimeTag (runtime_handles w)"
      using handle_table.remove_any [OF registry_handle_table [OF proper_tags(1)] good, of h] by simp_all
    have same: "plans_of x ?w = plans_of x w" "sessions_of x ?w = sessions_of x w" for x
      by (simp_all add: plans_of_def sessions_of_def change_runtime_def)
    have "object_due (if x = h then 1 else 0) x ?w" for x
      using at [of x] r reg unfolding object_due_def holders_def same
      by (auto simp: drop change_runtime_def split: option.splits if_splits)
    moreover have "registries_good ?w"
      using ok drop by (simp add: facade_due_def registries_good_def change_runtime_def)
    ultimately have "facade_due (\<lambda>x. if x = h then 1 else 0) ?w" by (simp add: facade_due_def)
    from drop_reference_ok [OF this] show ?thesis using Some by (simp add: oa_runtime_destroy_def)
  qed (simp add: oa_runtime_destroy_def ok)
qed

lemma quiet_step_ok: "facade_ok w \<Longrightarrow> quiet_end w x \<Longrightarrow> facade_ok (snd x)"
  unfolding quiet_end_def by (rule quiet_due)

lemma quiet_out_ok: "facade_ok w \<Longrightarrow> quiet_out w x \<Longrightarrow> facade_ok (snd (snd x))"
  unfolding quiet_out_def by (rule quiet_due)

lemma facade_step_ok: "facade_step w w' \<Longrightarrow> facade_ok w \<Longrightarrow> facade_ok w'"
proof (induction rule: facade_step.induct)
  case (step_manifests w reg)
  then show ?case by (intro quiet_due [OF quiet_manifests [OF quiet_refl]])
next
  case step_worker
  then show ?case by (intro quiet_due [OF quiet_worker])
next
  case step_estop_assert
  then show ?case by (intro quiet_due [OF quiet_estop(1)])
qed (erule destroy_ok plan_destroy_ok calibration_destroy_ok | (simp only: ok_out_def [symmetric],
    erule create_ok plan_joint_ok plan_paired_ok plan_converge_ok manual_begin_ok recipe_begin_ok)
  | (erule quiet_out_ok, rule quiet_identity quiet_now quiet_snapshot quiet_kinematics quiet_report quiet_execute quiet_poll
      quiet_contact_report quiet_manual_sample quiet_review quiet_manual_commit quiet_recipe_step quiet_recipe_commit)
  | (erule quiet_step_ok, rule quiet_interlock quiet_arm quiet_heartbeat quiet_stop quiet_disarm quiet_sim_contact
      quiet_estop(2) quiet_abort))+

lemma facade_run_ok: "facade_run w w' \<Longrightarrow> facade_ok w \<Longrightarrow> facade_ok w'"
  by (induction rule: facade_run.induct) (auto intro: facade_step_ok)

end
