(* ===== verification/Runtime_Evolution.thy ===== *)
theory Runtime_Evolution
  imports Runtime_Lifetime
begin

text \<open>
  What a run of calls does to a plan and to a runtime: a plan whose authority is spent never gets
  it back, and a runtime keeps its manifest, its options and its controller, while the evidence of
  its measurements only moves on.
\<close>

section \<open>A plan never regains its authority\<close>

definition fades :: "facade \<Rightarrow> facade \<Rightarrow> bool" where
  "fades w w' \<longleftrightarrow> (registry_good kPlanTag (plan_handles w) \<longrightarrow>
     registry_good kPlanTag (plan_handles w')
     \<and> (\<forall>t. handle_issued kPlanTag (plan_handles w) t \<longrightarrow> handle_issued kPlanTag (plan_handles w') t
          \<and> (\<forall>p'. registered (plan_handles w') t = Some p' \<longrightarrow>
               (\<exists>p. registered (plan_handles w) t = Some p \<and> same_plan p p'))))"

lemma fades_same: "plan_handles w' = plan_handles w \<Longrightarrow> fades w w'"
  by (auto simp: fades_def)

lemma fades_trans: "fades a b \<Longrightarrow> fades b c \<Longrightarrow> fades a c"
  unfolding fades_def by (meson same_plan_trans)

lemma fades_quiet: "quiet w w' \<Longrightarrow> fades w w'"
proof -
  assume "quiet w w'"
  then have same: "same_registry kPlanTag same_plan (plan_handles w) (plan_handles w')" by (simp add: quiet_def)
  have "\<exists>p. registered (plan_handles w) t = Some p \<and> same_plan p p'" if "registered (plan_handles w') t = Some p'" for t p'
    using same that unfolding same_registry_def by (metis option_rel_Some2)
  then show ?thesis using same by (simp add: fades_def same_registry_def)
qed

lemma fades_insert:
  assumes "registry_insert kPlanTag b p (plan_handles w) = (Some t, reg)"
  shows "fades w (w\<lparr>plan_handles := reg\<rparr>)"
  using registry_insert_some [OF proper_tags(2) _ assms] by (auto simp: fades_def)

lemma fades_drop: "fades w (w\<lparr>plan_handles := registry_drop kPlanTag t (plan_handles w)\<rparr>)"
  by (auto simp: fades_def plan_handles.remove_any split: if_splits)

lemma plans_kept [simp]:
  "plan_handles (change_runtime h f w) = plan_handles w" "plan_handles (set_runtime h r w) = plan_handles w"
  "plan_handles (take_reference h w) = plan_handles w" "plan_handles (drop_reference h w) = plan_handles w"
  "plan_handles (discard_plan p w) = plan_handles w" "plan_handles (discard_calibration c w) = plan_handles w"
  "plan_handles (noted h st fac lower w) = plan_handles w"
  by (simp_all add: change_runtime_def set_runtime_def take_reference_def drop_reference_def discard_plan_def
      discard_calibration_def record_error_def set_error_def Let_def split: option.split)

definition fade_out :: "facade \<Rightarrow> 's \<times> 'o \<times> facade \<Rightarrow> bool" where
  "fade_out w x \<longleftrightarrow> fades w (snd (snd x))"

lemmas fade_branches = branch_if [where P = "fade_out w" for w] branch_pair [where P = "fade_out w" for w]
  branch_option [where P = "fade_out w" for w] branch_sum [where P = "fade_out w" for w]

lemma fade_quiet: "quiet_out w x \<Longrightarrow> fade_out w x"
  unfolding fade_out_def quiet_out_def by (rule fades_quiet)

lemma fade_same: "plan_handles w' = plan_handles w \<Longrightarrow> fade_out w (st, out, w')"
  unfolding fade_out_def by (simp add: fades_same)

lemma fade_fail: "fade_out w (fail h st fac lower out w)"
  by (rule fade_quiet [OF quiet_fail [OF quiet_refl]])

lemma plan_under_authority_fades:
  assumes "runtime_objects w h = Some r"
  shows "fade_out w (plan_under_authority fl now h r expiry current planner w)"
proof -
  have dropped: "fade_out w (abandon h p st fac lower w')" if "quiet w w'" for p st fac lower w'
    by (rule fade_quiet [OF quiet_abandon [OF that]])
  have set: "quiet w (set_runtime h r1 w)" if "acquire_authority expiry r = Some (i, r1)" for i r1
    by (rule quiet_set [OF quiet_refl assms acquire_life [OF that]])
  have added: "fade_out w (st, out, take_reference h (w'\<lparr>plan_handles := reg\<rparr>))"
    if "registry_insert kPlanTag b p (plan_handles w') = (Some t, reg)" "quiet w w'"
    for b p w' t reg st and out :: "u64 pointer"
    using fades_trans [OF fades_trans [OF fades_quiet [OF that(2)] fades_insert [OF that(1)]] fades_same]
    by (simp add: fade_out_def)
  show ?thesis unfolding plan_under_authority_def Let_def
    by (intro fade_branches fade_fail dropped; hypsubst?;
        (erule quiet_insert_none(1) [rotated] | erule added | succeed);
        (intro quiet_control)?; erule set)
qed

lemma fade_required:
  "require_runtime h w = Inr r \<Longrightarrow> fade_out w (plan_under_authority fl now h r expiry current planner w)"
  using plan_under_authority_fades require_runtime_some by blast

lemma plan_calls_fade:
  "fade_out w (oa_runtime_plan_joint lib fl now h jm out w)"
  "fade_out w (oa_runtime_plan_paired_tcp_body lib mix fl now h pm out w)"
  "fade_out w (oa_runtime_plan_converge_tcp_body lib fl now h cm out w)"
  unfolding oa_runtime_plan_joint_def oa_runtime_plan_paired_tcp_body_def oa_runtime_plan_converge_tcp_body_def Let_def
  by (intro fade_branches fade_required; assumption?; (rule fade_fail | rule fade_same, rule refl))+

lemma fail_plans: "fail h st fac lower out w = (a, b, w') \<Longrightarrow> plan_handles w' = plan_handles w"
  by (auto simp: fail_triple)

lemma begin_session_fades: "fade_out w (begin_session fl h r c store create w)"
  unfolding begin_session_def Let_def
  by (intro fade_branches fade_fail; hypsubst?; rule fade_same; (drule fail_plans)?; simp)

lemma begin_calls_fade:
  "fade_out w (oa_runtime_calibration_manual_begin sf h mo out w)"
  "fade_out w (oa_runtime_calibration_recipe_begin sf h rp out w)"
  unfolding oa_runtime_calibration_manual_begin_def oa_runtime_calibration_recipe_begin_def
  by (intro fade_branches fade_fail begin_session_fades; rule fade_same, rule refl)+

lemma create_fades: "fade_out w (oa_runtime_create lib mt fl now t opts m out w)"
  unfolding oa_runtime_create_def Let_def
  by (intro fade_branches; hypsubst?; rule fade_same; simp)

lemma destroy_fades:
  "fades w (oa_runtime_destroy h w)" "fades w (oa_runtime_plan_destroy plan w)" "fades w (oa_runtime_calibration_destroy ch w)"
proof -
  show "fades w (oa_runtime_destroy h w)" "fades w (oa_runtime_calibration_destroy ch w)"
    by (rule fades_same, simp add: oa_runtime_destroy_def oa_runtime_calibration_destroy_def split: option.split)+
  show "fades w (oa_runtime_plan_destroy plan w)"
    by (cases "registry_pin kPlanTag plan (plan_handles w)")
      (simp_all add: oa_runtime_plan_destroy_def fades_same fades_trans [OF fades_drop fades_same])
qed

lemma fades_out: "quiet_out w x \<Longrightarrow> fades w (snd (snd x))"
  unfolding quiet_out_def by (rule fades_quiet)

lemma fades_end: "quiet_end w x \<Longrightarrow> fades w (snd x)"
  unfolding quiet_end_def by (rule fades_quiet)

lemma facade_step_fades: "facade_step w w' \<Longrightarrow> fades w w'"
proof (induction rule: facade_step.induct)
  case (step_manifests w reg)
  then show ?case by (intro fades_same) simp
next
  case step_worker
  then show ?case by (intro fades_quiet quiet_worker)
next
  case step_estop_assert
  then show ?case by (intro fades_quiet quiet_estop)
qed (rule destroy_fades | (simp only: fade_out_def [symmetric], rule create_fades plan_calls_fade begin_calls_fade)
  | (rule fades_out, rule quiet_identity quiet_now quiet_snapshot quiet_kinematics quiet_report quiet_execute quiet_poll
      quiet_contact_report quiet_manual_sample quiet_review quiet_manual_commit quiet_recipe_step quiet_recipe_commit)
  | (rule fades_end, rule quiet_interlock quiet_arm quiet_heartbeat quiet_stop quiet_disarm quiet_sim_contact
      quiet_estop(2) quiet_abort))+

lemma facade_run_fades: "facade_run w w' \<Longrightarrow> fades w w'"
  by (induction rule: facade_run.induct) (auto intro: fades_same fades_trans facade_step_fades)

section \<open>A runtime stays what it is\<close>

definition ages :: "facade \<Rightarrow> facade \<Rightarrow> bool" where
  "ages w w' \<longleftrightarrow> (registry_good kRuntimeTag (runtime_handles w) \<longrightarrow>
     registry_good kRuntimeTag (runtime_handles w')
     \<and> (\<forall>h. handle_issued kRuntimeTag (runtime_handles w) h \<longrightarrow> handle_issued kRuntimeTag (runtime_handles w') h
          \<and> (\<forall>r'. runtime_objects w' h = Some r' \<longrightarrow> (\<exists>r. runtime_objects w h = Some r \<and> same_object r r'))))"

lemma ages_trans: "ages a b \<Longrightarrow> ages b c \<Longrightarrow> ages a c"
  unfolding ages_def by (meson same_object_trans)

lemma ages_objects:
  assumes "\<And>h r'. runtime_objects w' h = Some r' \<Longrightarrow> \<exists>r. runtime_objects w h = Some r \<and> same_object r r'"
    "runtime_handles w' = runtime_handles w"
  shows "ages w w'"
  using assms by (auto simp: ages_def)

lemma ages_same: "runtime_objects w' = runtime_objects w \<Longrightarrow> runtime_handles w' = runtime_handles w \<Longrightarrow> ages w w'"
  by (rule ages_objects) auto

lemma ages_quiet: "quiet w w' \<Longrightarrow> ages w w'"
proof -
  assume q: "quiet w w'"
  have "\<exists>r. runtime_objects w h = Some r \<and> same_object r r'" if "runtime_objects w' h = Some r'" for h r'
    using q that unfolding quiet_def same_life_def by (metis (no_types, lifting) option_rel_Some2)
  then show ?thesis using q by (simp add: ages_def quiet_def same_registry_def)
qed

lemma ages_take: "ages w (take_reference h w)"
  by (rule ages_objects) (auto simp: take_reference_def change_runtime_def same_object_def split: if_splits)

lemma ages_drop: "ages w (drop_reference h w)"
  by (rule ages_objects) (auto simp: drop_reference_def set_runtime_def same_object_def split: option.splits if_splits)

definition age_out :: "facade \<Rightarrow> 's \<times> 'o \<times> facade \<Rightarrow> bool" where
  "age_out w x \<longleftrightarrow> ages w (snd (snd x))"

lemmas age_branches = branch_if [where P = "age_out w" for w] branch_pair [where P = "age_out w" for w]
  branch_option [where P = "age_out w" for w] branch_sum [where P = "age_out w" for w]

lemma age_quiet: "quiet_out w x \<Longrightarrow> age_out w x"
  unfolding age_out_def quiet_out_def by (rule ages_quiet)

lemma age_same: "quiet w w' \<Longrightarrow> age_out w (st, out, w')"
  unfolding age_out_def by (simp add: ages_quiet)

lemma age_fail: "age_out w (fail h st fac lower out w)"
  by (rule age_quiet [OF quiet_fail [OF quiet_refl]])

lemma ages_registered:
  "quiet w w' \<Longrightarrow> ages w (take_reference h (w'\<lparr>plan_handles := reg\<rparr>))"
  "quiet w w' \<Longrightarrow> ages w (take_reference h (w'\<lparr>calibration_handles := reg1\<rparr>))"
  by (rule ages_trans [OF ages_quiet], assumption, rule ages_trans [OF ages_same ages_take], simp_all)+

lemma plan_under_authority_ages:
  assumes "runtime_objects w h = Some r"
  shows "age_out w (plan_under_authority fl now h r expiry current planner w)"
proof -
  have dropped: "age_out w (abandon h p st fac lower w')" if "quiet w w'" for p st fac lower w'
    by (rule age_quiet [OF quiet_abandon [OF that]])
  have set: "quiet w (set_runtime h r1 w)" if "acquire_authority expiry r = Some (i, r1)" for i r1
    by (rule quiet_set [OF quiet_refl assms acquire_life [OF that]])
  have added: "age_out w (st, out, take_reference h (w'\<lparr>plan_handles := reg\<rparr>))"
    if "quiet w w'" for w' reg st and out :: "u64 pointer"
    using ages_registered(1) [OF that] by (simp add: age_out_def)
  show ?thesis unfolding plan_under_authority_def Let_def
    by (intro age_branches age_fail dropped added; hypsubst?; (erule quiet_insert_none(1) [rotated])?;
        (intro quiet_control)?; erule set)
qed

lemma plan_calls_age:
  "age_out w (oa_runtime_plan_joint lib fl now h jm out w)"
  "age_out w (oa_runtime_plan_paired_tcp_body lib mix fl now h pm out w)"
  "age_out w (oa_runtime_plan_converge_tcp_body lib fl now h cm out w)"
proof -
  have *: "age_out w (plan_under_authority fl now h r expiry current planner w)" if "require_runtime h w = Inr r"
    for r expiry current planner
    using plan_under_authority_ages require_runtime_some [OF that] by blast
  show "age_out w (oa_runtime_plan_joint lib fl now h jm out w)"
    "age_out w (oa_runtime_plan_paired_tcp_body lib mix fl now h pm out w)"
    "age_out w (oa_runtime_plan_converge_tcp_body lib fl now h cm out w)"
    unfolding oa_runtime_plan_joint_def oa_runtime_plan_paired_tcp_body_def oa_runtime_plan_converge_tcp_body_def Let_def
    by (intro age_branches *; assumption?; (rule age_fail | rule age_same, rule quiet_refl))+
qed

lemma begin_session_ages:
  assumes r: "runtime_objects w h = Some r"
  shows "age_out w (begin_session fl h r c store create w)"
proof -
  have dropped: "age_out w (st1, out, discard_calibration c' w1)"
    if "fail h st fac lower (Some 0) w' = (st1, out, w1)" "quiet w w'" for c' st fac lower st1 out w1 w'
    by (rule age_same [OF quiet_discard_calibration [OF quiet_through_out [OF quiet_fail [OF that(2)] that(1)]]])
  have set: "quiet w (set_runtime h (r\<lparr>owner := n\<rparr>) w)" for n
    by (rule quiet_set [OF quiet_refl r]) (simp add: life_defs)
  have off: "quiet w (change_runtime h (\<lambda>r. r\<lparr>owner := 0\<rparr>) w')" if "quiet w w'" for w'
    by (rule quiet_change [OF that]) (simp add: life_defs)
  have added: "age_out w (st, out, take_reference h (w'\<lparr>calibration_handles := reg\<rparr>))"
    if "quiet w w'" for w' reg st and out :: "u64 pointer"
    using ages_registered(2) [OF that] by (simp add: age_out_def)
  show ?thesis unfolding begin_session_def Let_def
    by (intro age_branches age_fail added; hypsubst?; (erule dropped)?;
        (intro off)?; (erule quiet_insert_none(2) [rotated])?; (intro quiet_rules set)?)
qed

lemma begin_calls_age:
  "age_out w (oa_runtime_calibration_manual_begin sf h mo out w)"
  "age_out w (oa_runtime_calibration_recipe_begin sf h rp out w)"
  unfolding oa_runtime_calibration_manual_begin_def oa_runtime_calibration_recipe_begin_def
  by (intro age_branches age_fail begin_session_ages; (simp add: pin_runtime_some)?; rule age_same, rule quiet_refl)+

lemma create_ages: "age_out w (oa_runtime_create lib mt fl now t opts m out w)"
proof -
  have quiet: "age_out w (st, o', w')" if "quiet w w'" for st and o' :: "u64 pointer" and w'
    by (rule age_same [OF that])
  have grown: "age_out w (st, o', w\<lparr>control := s, runtime_handles := reg\<rparr>)"
    if "registry_insert kRuntimeTag n () (runtime_handles w) = (None, reg)" for st and o' :: "u64 pointer" and s n reg
    using quiet_insert_none(3) [OF quiet_control [OF quiet_refl, of w s]] that by (intro quiet) simp
  have made: "age_out w (st, o', set_runtime h r (w\<lparr>control := s, runtime_handles := reg\<rparr>))"
    if "registry_insert kRuntimeTag n () (runtime_handles w) = (Some h, reg)" for st and o' :: "u64 pointer" and s n reg h r
    using registry_insert_some [OF proper_tags(1) _ that] by (auto simp: age_out_def ages_def set_runtime_def)
  show ?thesis unfolding oa_runtime_create_def Let_def
    by (intro age_branches; hypsubst?; (erule grown | erule made | (rule quiet, intro quiet_control quiet_refl)))
qed

lemma destroy_ages:
  "ages w (oa_runtime_destroy h w)" "ages w (oa_runtime_plan_destroy plan w)" "ages w (oa_runtime_calibration_destroy ch w)"
proof -
  have handles: "ages w (w\<lparr>runtime_handles := registry_drop kRuntimeTag h (runtime_handles w)\<rparr>)"
    by (auto simp: ages_def handle_table.remove_any [OF registry_handle_table [OF proper_tags(1)]])
  have "ages w ((change_runtime h (\<lambda>r. r\<lparr>closing := True\<rparr>) w)\<lparr>runtime_handles := registry_drop kRuntimeTag h (runtime_handles w)\<rparr>)"
    by (rule ages_trans [OF handles ages_objects]) (auto simp: change_runtime_def same_object_def split: if_splits)
  from ages_trans [OF this ages_drop] show "ages w (oa_runtime_destroy h w)"
    using ages_same [of w w] by (cases "registry_pin kRuntimeTag h (runtime_handles w)") (simp_all add: oa_runtime_destroy_def)
  have "ages w (w\<lparr>plan_handles := reg\<rparr>)" "ages w (w\<lparr>calibration_handles := reg1\<rparr>)" for reg reg1
    by (rule ages_same; simp)+
  note dropped = ages_trans [OF this(1) ages_trans [OF ages_quiet [OF quiet_discard_plan [OF quiet_refl]] ages_drop]]
    ages_trans [OF this(2) ages_trans [OF ages_quiet [OF quiet_discard_calibration [OF quiet_refl]] ages_drop]]
  show "ages w (oa_runtime_plan_destroy plan w)" "ages w (oa_runtime_calibration_destroy ch w)"
    using dropped ages_same [of w w]
    by (simp_all add: oa_runtime_plan_destroy_def oa_runtime_calibration_destroy_def split: option.split)
qed

lemma ages_out: "quiet_out w x \<Longrightarrow> ages w (snd (snd x))"
  unfolding quiet_out_def by (rule ages_quiet)

lemma ages_end: "quiet_end w x \<Longrightarrow> ages w (snd x)"
  unfolding quiet_end_def by (rule ages_quiet)

lemma facade_step_ages: "facade_step w w' \<Longrightarrow> ages w w'"
proof (induction rule: facade_step.induct)
  case (step_manifests w reg)
  then show ?case by (intro ages_same) simp_all
next
  case step_worker
  then show ?case by (intro ages_quiet quiet_worker)
next
  case step_estop_assert
  then show ?case by (intro ages_quiet quiet_estop)
qed (rule destroy_ages | (simp only: age_out_def [symmetric], rule create_ages plan_calls_age begin_calls_age)
  | (rule ages_out, rule quiet_identity quiet_now quiet_snapshot quiet_kinematics quiet_report quiet_execute quiet_poll
      quiet_contact_report quiet_manual_sample quiet_review quiet_manual_commit quiet_recipe_step quiet_recipe_commit)
  | (rule ages_end, rule quiet_interlock quiet_arm quiet_heartbeat quiet_stop quiet_disarm quiet_sim_contact
      quiet_estop(2) quiet_abort))+

lemma facade_run_ages: "facade_run w w' \<Longrightarrow> ages w w'"
  by (induction rule: facade_run.induct) (auto intro: ages_same ages_trans facade_step_ages)

end
