(* ===== verification/Runtime_Properties.thy ===== *)
theory Runtime_Properties
  imports Runtime_Evolution Control_Motion
begin

text \<open>
  What the runtime facade promises of its plans, its clock and its events, and three of its
  behaviours that callers have to know.
\<close>

section \<open>Deadlines\<close>

lemma translate_deadline:
  assumes "translate_future_deadline d f c = Some x"
  shows "f < d \<and> c < x \<and> unat x = unat c + (unat d - unat f)"
proof -
  have lt: "f < d" and fits: "\<not> d - f > UINT64_MAX - c" and x: "x = c + (d - f)"
    using assms by (auto simp: translate_future_deadline_def Let_def split: if_splits)
  have diff: "unat (d - f) = unat d - unat f" using lt by (simp add: unat_sub)
  have "unat (UINT64_MAX - c) = unat UINT64_MAX - unat c" by (simp add: unat_sub)
  then have "unat (d - f) \<le> unat UINT64_MAX - unat c" using fits by (simp add: not_less word_le_nat_alt)
  moreover have "unat c \<le> unat UINT64_MAX" using max64 [of c] by (simp add: word_le_nat_alt)
  ultimately have "unat c + unat (d - f) < 2 ^ LENGTH(64)"
    using unsigned_less [of UINT64_MAX, where 'a = nat] by linarith
  then have "unat x = unat c + unat (d - f)" unfolding x by (simp add: unat_word_ariths)
  then show ?thesis using lt diff by (simp add: word_less_nat_alt)
qed

section \<open>Execution\<close>

lemma execute_accepted:
  assumes "oa_runtime_execute lib t h plan request out w = (OA_RUNTIME_OK, cid, w1)"
  shows "\<exists>q r p x s. request = Some q \<and> require_runtime h w = Inr r \<and> registry_pin kPlanTag plan (plan_handles w) = Some p
    \<and> pd_runtime p = h \<and> rt_controller r \<noteq> 0 \<and> holds_authority p \<and> plan_pending r \<and> plan_authority_id r = authority_id p
    \<and> t < facade_expiry_ns p \<and> t < rx_expiry_ns q \<and> rx_expiry_ns q \<le> facade_expiry_ns p
    \<and> t < rx_producer_deadline_ns q
    \<and> control_execute_request q t (controller_timeline_ns r) = Some x
    \<and> oa_controller_execute lib (rt_controller r) (pd_plan p) (Some x) (Some 0) (control w) = (OA_CONTROL_OK, cid, s)
    \<and> w1 = release_pending plan p h (w\<lparr>control := s\<rparr>)"
proof -
  have no_fail: "fail h' st fac lower o' w' = (OA_RUNTIME_OK, cid, w1) \<Longrightarrow> st = OA_RUNTIME_OK"
    for h' st fac lower o' w' by (simp add: fail_triple)
  obtain q where q: "request = Some q" using assms by (cases request) (auto simp: oa_runtime_execute_def)
  obtain r where r: "require_runtime h w = Inr r"
  proof (cases "require_runtime h w")
    case (Inl st)
    then have "st \<noteq> OA_RUNTIME_OK"
      by (auto simp: require_runtime_def split: option.splits if_splits)
    then show ?thesis using assms q Inl by (auto simp: oa_runtime_execute_def split: if_splits)
  qed
  note call = assms [unfolded oa_runtime_execute_def Let_def q r option.case sum.case]
  obtain p where p: "registry_pin kPlanTag plan (plan_handles w) = Some p"
    using call by (auto split: if_splits option.splits dest!: no_fail)
  note call1 = call [unfolded p option.case]
  have guards: "pd_runtime p = h" "rt_controller r \<noteq> 0" "holds_authority p" "plan_pending r" "plan_authority_id r = authority_id p"
    "t < facade_expiry_ns p" "\<not> (if rx_start_ns q = 0 then t else rx_start_ns q) < t"
    "\<not> rx_expiry_ns q \<le> (if rx_start_ns q = 0 then t else rx_start_ns q)" "rx_expiry_ns q \<le> facade_expiry_ns p"
    "t < rx_producer_deadline_ns q"
    using call1 by (auto simp: not_le not_less split: if_splits dest!: no_fail)
  then have "t < rx_expiry_ns q" by (metis linorder_not_le order_le_less_trans)
  obtain x where x: "control_execute_request q t (controller_timeline_ns r) = Some x"
    using call1 guards by (auto split: if_splits option.splits dest!: no_fail)
  obtain st cid' s where e: "oa_controller_execute lib (rt_controller r) (pd_plan p) (Some x) (Some 0) (control w) = (st, cid', s)"
    using prod_cases3 by blast
  have "st = OA_CONTROL_OK" "cid' = cid" "w1 = release_pending plan p h (w\<lparr>control := s\<rparr>)"
    using call1 guards x e by (auto split: if_splits dest: no_fail)
  then show ?thesis using q r p guards x e \<open>t < rx_expiry_ns q\<close> by blast
qed

lemma execute_refused:
  assumes "registered (plan_handles w) plan = None \<or> (\<exists>p. registered (plan_handles w) plan = Some p \<and> \<not> holds_authority p)"
  shows "fst (oa_runtime_execute lib t h plan request out w) \<noteq> OA_RUNTIME_OK"
proof
  assume "fst (oa_runtime_execute lib t h plan request out w) = OA_RUNTIME_OK"
  then obtain cid w1 where "oa_runtime_execute lib t h plan request out w = (OA_RUNTIME_OK, cid, w1)"
    by (metis prod.collapse)
  from execute_accepted [OF this] show False using assms registry_pin_some by fastforce
qed

section \<open>A small facade for the concrete instances\<close>

definition sample_runtime_options :: runtime_options where
  "sample_runtime_options =
     \<lparr>struct_size = SIZEOF_RUNTIME_OPTIONS, abi_version = OA_RUNTIME_ABI_VERSION, ro_backend = OA_RUNTIME_BACKEND_VIRTUAL,
      allow_unchecked_virtual_motion = 1, ro_cycle_ns = 1000000, ro_feedback_timeout_ns = 10000000,
      maximum_cross_bus_skew_ns = 1000, ro_collision_scene_revision = 1\<rparr>"

abbreviation sample_manifest_data :: manifest_data where
  "sample_manifest_data \<equiv> make_virtual_manifest (\<lambda>_ _ _. False)"

text \<open>A runtime with an armed controller and a pending plan, and the plan.\<close>

definition sample_runtime :: runtime_data where
  "sample_runtime =
     \<lparr>rt_options = sample_runtime_options, rt_manifest = sample_manifest_data, control_manifest = 0, rt_controller = 0x10,
      timeline_ns = 0, controller_timeline_ns = 0, feedback_clock = (no_evidence, no_evidence),
      rt_events = ring_init 64 \<lparr>ee_source = empty_event, ee_runtime_monotonic_ns = 0\<rparr>, closing = False,
      rt_estop_active = False, rt_deadman_active = True, owner = 1, plan_pending = True, plan_expiry_ns = 1000,
      plan_authority_id = 1, next_plan_authority_id = 2,
      last_error = error_of OA_RUNTIME_OK OA_RUNTIME_FACILITY_RUNTIME No_lower, rt_inventory_revision = 0,
      calibration_revision = 0, coordinate_identity_digest = [], references = 2\<rparr>"

definition sample_plan_data :: plan_data where
  "sample_plan_data = new_plan 0x13 0x20 1000 1"

definition sample_facade :: facade where
  "sample_facade = initial_facade
     \<lparr>control := initial_api\<lparr>controllers := [0x10 \<mapsto> sample_idle], plans := [0x20 \<mapsto> sample_plan]\<rparr>,
      runtime_handles := \<lparr>registered = [0x13 \<mapsto> ()], next_index = 2\<rparr>,
      runtime_objects := [0x13 \<mapsto> sample_runtime],
      plan_handles := \<lparr>registered = [0x16 \<mapsto> sample_plan_data], next_index = 2\<rparr>\<rparr>"

definition sample_execute_request :: runtime_execute_request where
  "sample_execute_request =
     \<lparr>struct_size = SIZEOF_RUNTIME_EXECUTE_REQUEST, abi_version = OA_RUNTIME_ABI_VERSION,
      rx_clock_id = OA_RUNTIME_CLOCK_MONOTONIC, rx_start_ns = 0, rx_expiry_ns = 500, rx_producer_deadline_ns = 50,
      rx_stop_kind = OA_STOP_DISABLE\<rparr>"

abbreviation sample_control_request :: execute_request where
  "sample_control_request \<equiv>
     \<lparr>struct_size = SIZEOF_EXECUTE_REQUEST, abi_version = OA_CONTROL_ABI_V1, er_start_ns = 0, er_expiry_ns = 500,
      er_producer_deadline_ns = 50, er_stop_kind = OA_STOP_DISABLE\<rparr>"

lemma sample_control_executes:
  "\<exists>cid c'. execute sample_lib sample_plan sample_control_request sample_idle = (Inr cid, c')"
proof -
  let ?x = "map_both new_arm (sample_arm, sample_arm)"
  have x: "all_both arm_wf ?x" "all_both faultless ?x"
    by (simp_all add: all_both_def map_both_def sample_arm_def arm_wf_new)
  have "fresh sample_idle" "healthy sample_idle"
    using forced_tests [OF x, of sample_idle zero_joints zero_joints zero_joints zero_joints]
    by (simp_all add: sample_arms_def map_both_def)
  moreover have "start_pose_matches sample_plan sample_idle"
    by (simp add: start_pose_matches_def sample_plan_def no_drift pick_def map_both_def list.pred_True)
  ultimately show ?thesis
    by (simp add: execute_def sample_plan_def empty_plan_def map_both_def
        reset_contact_report_def sample_manifest_def Control_Samples.sample_options_def publishing_def publish_event_def
        Let_def ring_full_def ring_init_def split_beta)
qed

lemma sample_pin:
  "registry_pin kRuntimeTag 0x13 (runtime_handles sample_facade) = Some ()"
  "registry_pin kPlanTag 0x16 (plan_handles sample_facade) = Some sample_plan_data"
  "runtime_objects sample_facade 0x13 = Some sample_runtime" "require_runtime 0x13 sample_facade = Inr sample_runtime"
  by (simp_all add: registry_pin_def sample_facade_def require_runtime_def sample_runtime_def)

lemma sample_executes:
  "\<exists>cid w1. oa_runtime_execute sample_lib 0 0x13 0x16 (Some sample_execute_request) (Some 0) sample_facade
     = (OA_RUNTIME_OK, cid, w1)"
proof -
  have x: "control_execute_request sample_execute_request 0 0 = Some sample_control_request"
    by (simp add: control_execute_request_def sample_execute_request_def translate_future_deadline_def)
  obtain cid c' where "execute sample_lib sample_plan sample_control_request sample_idle = (Inr cid, c')"
    using sample_control_executes by blast
  then have "oa_controller_execute sample_lib 0x10 0x20 (Some sample_control_request) (Some 0) (control sample_facade)
      = (OA_CONTROL_OK, Some cid, set_controller 0x10 c' (control sample_facade))"
    by (simp add: oa_controller_execute_def valid_record_prefix_def with_controller_def sample_facade_def)
  then show ?thesis using x
    by (simp add: oa_runtime_execute_def sample_pin Let_def sample_runtime_def sample_plan_data_def new_plan_def)
      (simp add: sample_execute_request_def)
qed

section \<open>Plans\<close>

lemma request_translated:
  assumes "control_execute_request q t c = Some x"
  shows "er_stop_kind x = rx_stop_kind q \<and> unat (er_expiry_ns x) + unat t = unat c + unat (rx_expiry_ns q)
    \<and> unat (er_producer_deadline_ns x) + unat t = unat c + unat (rx_producer_deadline_ns q)
    \<and> (if rx_start_ns q = 0 then er_start_ns x = 0
       else unat (er_start_ns x) + unat t = unat c + unat (rx_start_ns q))"
proof -
  have step: "unat y + unat t = unat c + unat d" if "translate_future_deadline d t c = Some y" for d y
    using translate_deadline [OF that] by (simp add: word_less_nat_alt)
  show ?thesis using assms step
    by (auto simp: control_execute_request_def Let_def split: option.splits if_splits)
qed

lemma released_state:
  assumes "runtime_objects w h = Some r" "plan_authority_id r = authority_id p"
  shows "\<exists>r1. runtime_objects (release_pending plan p h (w\<lparr>control := s\<rparr>)) h = Some r1 \<and> \<not> plan_pending r1"
    "registered (plan_handles (release_pending plan p h (w\<lparr>control := s\<rparr>))) plan = Some (p\<lparr>holds_authority := False\<rparr>)"
  using assms by (simp_all add: release_pending_def change_runtime_def release_authority_def registry_update_def)

text \<open>
  C10: A plan that the runtime executes is registered for this runtime, holds the authority of its
  pending plan and has not expired; the request lies within the plan's life; the controller is
  asked for the same plan with every deadline as far ahead on its own timeline as it was on the
  caller's clock; and the plan's authority is spent, so that the next plan can be made.
\<close>

theorem runtime_execution_licensed:
  assumes "oa_runtime_execute lib t h plan request out w = (OA_RUNTIME_OK, cid, w1)"
  shows "\<exists>q r r1 p x. request = Some q \<and> runtime_objects w h = Some r \<and> registered (plan_handles w) plan = Some p
    \<and> pd_runtime p = h \<and> holds_authority p \<and> plan_pending r \<and> plan_authority_id r = authority_id p
    \<and> t < rx_expiry_ns q \<and> rx_expiry_ns q \<le> facade_expiry_ns p \<and> t < rx_producer_deadline_ns q
    \<and> er_stop_kind x = rx_stop_kind q
    \<and> unat (er_expiry_ns x) + unat t = unat (controller_timeline_ns r) + unat (rx_expiry_ns q)
    \<and> unat (er_producer_deadline_ns x) + unat t = unat (controller_timeline_ns r) + unat (rx_producer_deadline_ns q)
    \<and> oa_controller_execute lib (rt_controller r) (pd_plan p) (Some x) (Some 0) (control w)
        = (OA_CONTROL_OK, cid, control w1)
    \<and> runtime_objects w1 h = Some r1 \<and> \<not> plan_pending r1
    \<and> registered (plan_handles w1) plan = Some (p\<lparr>holds_authority := False\<rparr>)"
proof -
  obtain q r p x s where e: "request = Some q" "require_runtime h w = Inr r"
    "registry_pin kPlanTag plan (plan_handles w) = Some p" "pd_runtime p = h" "holds_authority p" "plan_pending r"
    "plan_authority_id r = authority_id p" "t < rx_expiry_ns q" "rx_expiry_ns q \<le> facade_expiry_ns p"
    "t < rx_producer_deadline_ns q" "control_execute_request q t (controller_timeline_ns r) = Some x"
    "oa_controller_execute lib (rt_controller r) (pd_plan p) (Some x) (Some 0) (control w) = (OA_CONTROL_OK, cid, s)"
    "w1 = release_pending plan p h (w\<lparr>control := s\<rparr>)"
    using execute_accepted [OF assms] by blast
  have r: "runtime_objects w h = Some r" using require_runtime_some [OF e(2)] by blast
  have s: "control w1 = s" by (simp add: e(13) release_pending_def change_runtime_def)
  note state = released_state [OF r e(7), where plan = plan and s = s, folded e(13)]
  obtain r1 where r1: "runtime_objects w1 h = Some r1" "\<not> plan_pending r1" using state(1) by blast
  show ?thesis
    using e(1,4-10,12) registry_pin_some [OF e(3)] r r1 state(2) request_translated [OF e(11)] s by blast
qed

theorem runtime_execution_licensed_witness:
  "\<exists>cid w1 r1 p. oa_runtime_execute sample_lib 0 0x13 0x16 (Some sample_execute_request) (Some 0) sample_facade
      = (OA_RUNTIME_OK, cid, w1)
    \<and> runtime_objects w1 0x13 = Some r1 \<and> \<not> plan_pending r1
    \<and> registered (plan_handles w1) 0x16 = Some (p\<lparr>holds_authority := False\<rparr>)"
  using sample_executes runtime_execution_licensed by blast

text \<open>
  C9: A plan executes at most once. After it was executed, no execution of it succeeds, on any
  runtime, with any request, after whatever calls have been made on the facade meanwhile.
\<close>

theorem plan_executes_once:
  assumes "registry_good kPlanTag (plan_handles w)"
    and "oa_runtime_execute lib t h plan request out w = (OA_RUNTIME_OK, cid, w1)"
    and "facade_run w1 w2"
  shows "fst (oa_runtime_execute lib' t' h' plan request' out' w2) \<noteq> OA_RUNTIME_OK"
proof (rule execute_refused)
  obtain p r s where p: "registry_pin kPlanTag plan (plan_handles w) = Some p"
    and w1: "w1 = release_pending plan p h (w\<lparr>control := s\<rparr>)"
    using execute_accepted [OF assms(2)] by blast
  have spent: "registered (plan_handles w1) plan = Some (p\<lparr>holds_authority := False\<rparr>)"
    by (simp add: w1 release_pending_def registry_update_def)
  have "quiet w w1"
    using quiet_through_out [OF quiet_execute assms(2)] .
  then have good: "registry_good kPlanTag (plan_handles w1)"
    using assms(1) by (simp add: quiet_def same_registry_def)
  then have "handle_issued kPlanTag (plan_handles w1) plan" using spent by (simp add: registry_good_def)
  then have "\<exists>p1. registered (plan_handles w1) plan = Some p1 \<and> same_plan p1 p'"
    if "registered (plan_handles w2) plan = Some p'" for p'
    using facade_run_fades [OF assms(3)] good that by (simp add: fades_def)
  then show "registered (plan_handles w2) plan = None
      \<or> (\<exists>p. registered (plan_handles w2) plan = Some p \<and> \<not> holds_authority p)"
    using spent by (cases "registered (plan_handles w2) plan") (auto simp: same_plan_def)
qed

theorem plan_executes_once_witness:
  "\<exists>cid w1. oa_runtime_execute sample_lib 0 0x13 0x16 (Some sample_execute_request) (Some 0) sample_facade
      = (OA_RUNTIME_OK, cid, w1)
    \<and> fst (oa_runtime_execute sample_lib 1 0x13 0x16 (Some sample_execute_request) (Some 0)
        (oa_runtime_estop_assert w1)) \<noteq> OA_RUNTIME_OK"
proof -
  have good: "registry_good kPlanTag (plan_handles sample_facade)"
    by (auto simp: registry_good_def sample_facade_def handle_issued_def handle_bits_def intro!: exI [of _ 1])
  obtain cid w1 where e: "oa_runtime_execute sample_lib 0 0x13 0x16 (Some sample_execute_request) (Some 0) sample_facade
      = (OA_RUNTIME_OK, cid, w1)"
    using sample_executes by blast
  have "facade_run w1 (oa_runtime_estop_assert w1)" by (rule run_step [OF run_start step_estop_assert])
  from plan_executes_once [OF good e this] e show ?thesis by blast
qed

section \<open>Lifetimes\<close>

text \<open>
  C19: After any calls on the facade, the object of a runtime is there exactly when its handle, a
  plan or a calibration session refers to it, and it counts these references exactly. So a call
  through a plan or a session finds its runtime, and nothing is leaked.
\<close>

theorem runtime_lifetime:
  assumes "facade_run initial_facade w"
  shows "(runtime_objects w h = None \<longleftrightarrow> holders h w = 0)
    \<and> (\<forall>r. runtime_objects w h = Some r \<longrightarrow> references r = holders h w \<and> 0 < references r)"
proof -
  have "object_due 0 h w" using facade_run_ok [OF assms facade_initial] by (simp add: facade_due_def)
  then show ?thesis by (cases "runtime_objects w h") (auto simp: object_due_def holders_def)
qed

definition sample_offline_options :: runtime_options where
  "sample_offline_options = sample_runtime_options\<lparr>ro_backend := OA_RUNTIME_BACKEND_OFFLINE\<rparr>"

definition sample_texts :: model_texts where
  "sample_texts =
     \<lparr>oa_model_id = \<lambda>_. ''m'', oa_model_provenance = \<lambda>_. ''p'', oa_model_data_sha256 = \<lambda>_. ''d'',
      oa_model_flattened_urdf_sha256 = \<lambda>_. ''u'', oa_model_source_sha256 = \<lambda>_. ''s'', oa_model_tip_frame = \<lambda>_. ''t''\<rparr>"

definition sample_faultless :: create_faults where
  "sample_faultless = \<lparr>no_value = False, no_manifest_memory = False, no_slot = False, no_controller_node = False,
     no_thread = False, no_registry_node = False\<rparr>"

abbreviation sample_made :: facade where
  "sample_made \<equiv> initial_facade\<lparr>manifest_handles := \<lparr>registered = [0x12 \<mapsto> sample_manifest_data], next_index = 2\<rparr>\<rparr>"

definition sample_offline :: facade where
  "sample_offline =
     snd (snd (oa_runtime_create sample_lib sample_texts sample_faultless 5 5 (Some sample_offline_options) 0x12 (Some 0) sample_made))"

lemma sample_offline_run: "facade_run initial_facade sample_offline"
  unfolding sample_offline_def by (rule run_step [OF run_step [OF run_start step_manifests] step_create])

lemma sample_offline_object:
  "runtime_objects sample_offline 0x13 = Some (new_runtime sample_texts 5 sample_offline_options sample_manifest_data)"
  by (simp add: sample_offline_def oa_runtime_create_def runtime_options_status_def sample_offline_options_def
      sample_runtime_options_def registry_pin_def sample_faultless_def registry_insert_def initial_facade_def
      empty_registry_def set_runtime_def Let_def)

theorem runtime_lifetime_witness:
  "facade_run initial_facade sample_offline \<and> runtime_objects sample_offline 0x13 \<noteq> None \<and> holders 0x13 sample_offline = 1"
  using runtime_lifetime [OF sample_offline_run, of "0x13"] sample_offline_run sample_offline_object
  by (simp add: new_runtime_def)

text \<open>
  C33: For as long as a runtime lives it keeps its manifest, its options, its controller and the
  identity of its coordinates; and the time it gives to the measurements of an arm never goes
  back: evidence of another generation carries a later time, unless the clock is at its end.
\<close>

theorem runtime_identity_fixed:
  assumes "registry_good kRuntimeTag (runtime_handles w)" "handle_issued kRuntimeTag (runtime_handles w) h"
    and "facade_run w w'" and "runtime_objects w' h = Some r'"
  shows "\<exists>r. runtime_objects w h = Some r \<and> rt_manifest r' = rt_manifest r \<and> rt_options r' = rt_options r
    \<and> rt_controller r' = rt_controller r \<and> coordinate_identity_digest r' = coordinate_identity_digest r
    \<and> (\<forall>side \<in> {0, 1}. let e = pick side (feedback_clock r); e' = pick side (feedback_clock r') in
         e' = e \<or> runtime_monotonic_ns e < runtime_monotonic_ns e' \<or> runtime_monotonic_ns e' = UINT64_MAX)"
proof -
  obtain r where r: "runtime_objects w h = Some r" "same_object r r'"
    using facade_run_ages [OF assms(3)] assms(1,2,4) by (auto simp: ages_def)
  then show ?thesis by (auto simp: same_object_def later_evidence_def Let_def pick_def)
qed

lemma sample_offline_good:
  "registry_good kRuntimeTag (runtime_handles sample_offline)" "handle_issued kRuntimeTag (runtime_handles sample_offline) 0x13"
proof -
  have "object_due 0 0x13 sample_offline" "registries_good sample_offline"
    using facade_run_ok [OF sample_offline_run facade_initial] by (simp_all add: facade_due_def)
  then show "registry_good kRuntimeTag (runtime_handles sample_offline)"
    "handle_issued kRuntimeTag (runtime_handles sample_offline) 0x13"
    using sample_offline_object by (simp_all add: registries_good_def object_due_def)
qed

theorem runtime_identity_fixed_witness:
  "\<exists>r'. runtime_objects (worker_turn sample_lib 9 0x13 sample_offline) 0x13 = Some r' \<and> rt_manifest r' = sample_manifest_data"
proof -
  let ?w = "worker_turn sample_lib 9 0x13 sample_offline"
  have same: "?w = sample_offline" by (simp add: worker_turn_def sample_offline_object new_runtime_def)
  have "facade_run sample_offline ?w" by (rule run_step [OF run_start step_worker])
  from runtime_identity_fixed [OF sample_offline_good this] sample_offline_object same
  show ?thesis by (auto simp: new_runtime_def)
qed

section \<open>Events\<close>

definition newest :: "nat \<Rightarrow> 'a list \<Rightarrow> 'a list" where
  "newest n xs = drop (length xs - n) xs"

lemma newest_short: "length xs \<le> n \<Longrightarrow> newest n xs = xs"
  by (simp add: newest_def)

lemma newest_append: "newest n (newest n xs @ ys) = newest n (xs @ ys)"
proof (cases "length xs \<le> n")
  case False
  then have "xs = take (length xs - n) xs @ newest n xs" "length (newest n xs) = n" by (simp_all add: newest_def)
  then show ?thesis using False by (simp add: newest_def add.commute)
qed (simp add: newest_short)

lemma queue_event_ring:
  assumes "ring_wf 64 q"
  shows "ring_wf 64 (queue_event e q) \<and> ring_list (queue_event e q) = newest 64 (ring_list q @ [e])"
proof -
  have n: "length (ring_list q) \<le> 64" using ring64.bounded [OF assms] .
  have "ring_list (queue_event e q) = (if length (ring_list q) = 64 then tl (ring_list q) else ring_list q) @ [e]"
    unfolding queue_event_def using ring64.overwrite_contents [OF assms] ring64.full_iff [OF assms] by simp
  moreover have "tl (ring_list q) @ [e] = newest 64 (ring_list q @ [e])" if "length (ring_list q) = 64"
    using that by (cases "ring_list q") (simp_all add: newest_def)
  moreover have "ring_list q @ [e] = newest 64 (ring_list q @ [e])" if "length (ring_list q) \<noteq> 64"
    using that n by (intro newest_short [symmetric]) simp
  ultimately show ?thesis unfolding queue_event_def using ring64.overwrite_good [OF assms] by (auto simp: queue_event_def)
qed

definition dated_event :: "u64 \<Rightarrow> u64 \<Rightarrow> control_event \<Rightarrow> event_evidence" where
  "dated_event controller_now t ev =
     \<lparr>ee_source = ev, ee_runtime_monotonic_ns = translate_instant (ev_t_ns ev) controller_now t\<rparr>"

lemma poll_controller:
  assumes "controllers s h = Some c"
  shows "oa_controller_poll_event h 0 False False (Some event_out) s =
    (if ring_empty (events c) then (Some OA_CONTROL_ETIMEOUT, Some event_out, s)
     else (Some OA_CONTROL_OK, Some (ring_front (events c)), set_controller h (c\<lparr>events := ring_drop (events c)\<rparr>) s))"
  using assms by (simp add: oa_controller_poll_event_def valid_record_prefix_def event_out_def poll_event_def)

lemma drain_all:
  assumes "controllers s (rt_controller r) = Some c" "ring_wf 64 (events c)" "ring_wf 64 (rt_events r)"
    "length (ring_list (events c)) < n"
  shows "\<exists>q c'. drain_controller_events n t r s = (r\<lparr>rt_events := q\<rparr>, snd (drain_controller_events n t r s))
    \<and> ring_list q = newest 64 (ring_list (rt_events r) @ map (dated_event (controller_timeline_ns r) t) (ring_list (events c)))
    \<and> ring_wf 64 q \<and> controllers (snd (drain_controller_events n t r s)) (rt_controller r) = Some c' \<and> ring_empty (events c')"
  using assms
proof (induction n arbitrary: r s c)
  case (Suc n)
  show ?case
  proof (cases "ring_empty (events c)")
    case True
    then have "ring_list (events c) = []" by (simp add: ring_empty_def flip: length_0_conv)
    moreover have "newest 64 (ring_list (rt_events r)) = ring_list (rt_events r)"
      by (rule newest_short) (use ring64.bounded [OF Suc.prems(3)] in simp)
    ultimately show ?thesis using True Suc.prems by (simp add: poll_controller exI [of _ "rt_events r"])
  next
    case False
    let ?ev = "ring_front (events c)"
    let ?e = "dated_event (controller_timeline_ns r) t ?ev"
    let ?r = "r\<lparr>rt_events := queue_event ?e (rt_events r)\<rparr>"
    let ?s = "set_controller (rt_controller r) (c\<lparr>events := ring_drop (events c)\<rparr>) s"
    have step: "drain_controller_events (Suc n) t r s = drain_controller_events n t ?r ?s"
      using False Suc.prems(1) by (simp add: poll_controller dated_event_def Let_def)
    have nonempty: "ring_list (events c) \<noteq> []" using False by (simp add: ring_empty_def flip: length_0_conv)
    then have split: "ring_list (events c) = ?ev # tl (ring_list (events c))"
      using ring64.front_hd [OF Suc.prems(2)] by simp
    note queued = queue_event_ring [OF Suc.prems(3), of ?e]
    have "controllers ?s (rt_controller ?r) = Some (c\<lparr>events := ring_drop (events c)\<rparr>)"
      by (simp add: set_controller_def)
    moreover have "ring_wf 64 (events (c\<lparr>events := ring_drop (events c)\<rparr>))"
      using ring64.good_drop [OF Suc.prems(2)] by simp
    moreover have "length (ring_list (events (c\<lparr>events := ring_drop (events c)\<rparr>))) < n"
      using Suc.prems(4) nonempty by (simp add: ring_drop_def ring_list_def)
    ultimately obtain q c' where ih:
      "drain_controller_events n t ?r ?s = (?r\<lparr>rt_events := q\<rparr>, snd (drain_controller_events n t ?r ?s))"
      "ring_list q = newest 64 (ring_list (rt_events ?r)
         @ map (dated_event (controller_timeline_ns r) t) (ring_list (ring_drop (events c))))"
      "ring_wf 64 q" "controllers (snd (drain_controller_events n t ?r ?s)) (rt_controller r) = Some c'" "ring_empty (events c')"
      using Suc.IH [of ?s ?r "c\<lparr>events := ring_drop (events c)\<rparr>"] queued by auto
    have "ring_list q = newest 64 (ring_list (rt_events r)
        @ map (dated_event (controller_timeline_ns r) t) (ring_list (events c)))"
      using ih(2) queued newest_append [of 64 "ring_list (rt_events r) @ [?e]"] ring64.contents_drop [OF Suc.prems(2)]
      by (subst split) simp
    then show ?thesis unfolding step using ih by auto
  qed
qed simp

text \<open>
  C34: The worker's drain of the controller's events ends, with the controller's queue empty. The
  runtime's queue holds, in their order and dated on the runtime's clock, the 64 newest of the
  events it held before and those the controller had.
\<close>

theorem drain_keeps_newest:
  assumes "controllers s (rt_controller r) = Some c" "ring_wf 64 (events c)" "ring_wf 64 (rt_events r)"
  shows "\<exists>r' s' c'. drain_controller_events DRAIN_TURNS t r s = (r', s')
    \<and> controllers s' (rt_controller r) = Some c' \<and> ring_list (events c') = []
    \<and> ring_list (rt_events r') = newest 64 (ring_list (rt_events r)
        @ map (\<lambda>ev. \<lparr>ee_source = ev,
            ee_runtime_monotonic_ns = translate_instant (ev_t_ns ev) (controller_timeline_ns r) t\<rparr>) (ring_list (events c)))"
proof -
  have "length (ring_list (events c)) < DRAIN_TURNS" using ring64.bounded [OF assms(2)] by simp
  from drain_all [OF assms this, of t] obtain q c' where
    "drain_controller_events DRAIN_TURNS t r s = (r\<lparr>rt_events := q\<rparr>, snd (drain_controller_events DRAIN_TURNS t r s))"
    "ring_list q = newest 64 (ring_list (rt_events r) @ map (dated_event (controller_timeline_ns r) t) (ring_list (events c)))"
    "controllers (snd (drain_controller_events DRAIN_TURNS t r s)) (rt_controller r) = Some c'" "ring_empty (events c')"
    by blast
  moreover from this(4) have "ring_list (events c') = []" by (simp add: ring_empty_def flip: length_0_conv)
  ultimately show ?thesis by (intro exI [of _ "r\<lparr>rt_events := q\<rparr>"] exI conjI) (auto simp: dated_event_def [abs_def])
qed

theorem drain_keeps_newest_witness:
  "\<exists>r' s' ev. drain_controller_events DRAIN_TURNS 7 sample_runtime
      (initial_api\<lparr>controllers := [0x10 \<mapsto> sample_idle\<lparr>events := ring_push empty_event (ring_init 64 empty_event)\<rparr>]\<rparr>) = (r', s')
    \<and> ring_list (rt_events r') = [ev] \<and> ee_source ev = empty_event"
proof -
  let ?c = "sample_idle\<lparr>events := ring_push empty_event (ring_init 64 empty_event)\<rparr>"
  have c: "controllers (initial_api\<lparr>controllers := [0x10 \<mapsto> ?c]\<rparr>) (rt_controller sample_runtime) = Some ?c"
    by (simp add: sample_runtime_def)
  have empty: "ring_wf 64 (ring_init 64 empty_event)" "\<not> ring_full (ring_init 64 empty_event)"
    by (rule ring_wf_init, simp) (simp add: ring_full_def ring_init_def)
  have wf: "ring_wf 64 (events ?c)" "ring_list (events ?c) = [empty_event]"
    using ring_wf_push [OF empty] ring_list_push [OF empty] by simp_all
  have "ring_wf 64 (rt_events sample_runtime)" "ring_list (rt_events sample_runtime) = []"
    by (simp_all add: sample_runtime_def ring_wf_init)
  from drain_keeps_newest [OF c wf(1) this(1), of 7] this(2) wf(2) show ?thesis
    by (auto simp: newest_short)
qed

end
