(* ===== verification/Runtime_Behaviours.thy ===== *)
theory Runtime_Behaviours
  imports Runtime_Properties
begin

text \<open>
  Three behaviours of the runtime facade that its callers have to know, proved of the code as it
  is: a calibration that is refused because another one runs takes the runtime from it; a commit
  with a bad output parameter uses the session up; and while a plan is pending the worker does not
  run the controller, so that an emergency stop is not seen.
\<close>

section \<open>A refused calibration evicts the running one\<close>

lemma noted_object [simp]:
  "runtime_objects (noted h st fac lower w) h = map_option (\<lambda>r. if st = OA_RUNTIME_OK then r else r\<lparr>last_error := error_of st fac lower\<rparr>)
     (runtime_objects w h)"
  by (cases "runtime_objects w h") (simp_all add: record_error_def set_error_def change_runtime_def)

lemma map_commission_not_busy: "map_commission st \<noteq> OA_RUNTIME_EBUSY"
  by (cases st) simp_all

lemma fail_status: "fail h st fac lower out w = (st', out', w') \<longleftrightarrow> st' = st \<and> out' = out \<and> w' = noted h st fac lower w"
  by (auto simp: fail_triple)

lemma begin_session_busy:
  assumes r: "runtime_objects w h = Some r" and c: "cd_runtime c = h" "cd_manual c = 0" "cd_recipe c = 0"
    and busy: "begin_session fl h r c store create w = (OA_RUNTIME_EBUSY, out, w')" and own: "owner r = 2"
  shows "\<exists>r'. runtime_objects w' h = Some r' \<and> owner r' = 0"
proof -
  have "closing r \<or> owner r \<noteq> 0" using own by simp
  then have "w' = discard_calibration c (noted h OA_RUNTIME_EBUSY OA_RUNTIME_FACILITY_RUNTIME No_lower w)"
    using busy by (auto simp: begin_session_def fail_triple split: if_splits)
  then show ?thesis using r c own by (simp add: discard_calibration_def change_runtime_def Let_def)
qed

lemma sample_without_owner:
  assumes "runtime_objects w h = Some r" "owner r \<noteq> 2"
    and "\<And>c. registered (calibration_handles w) ch = Some c \<Longrightarrow> cd_runtime c = h"
  shows "fst (oa_runtime_calibration_manual_sample t1 t2 ch i out w) \<noteq> OA_RUNTIME_OK"
proof (cases "pin_session cd_manual ch w")
  case (Some c)
  have "cd_runtime c = h" using assms(3) pin_session_some [OF Some] .
  then have "fst (snapshot_sample t1 t2 ch c w) = Inl OA_RUNTIME_ESTATE"
    using assms(1,2) by (simp add: snapshot_sample_def refuse_session_def record_error_def)
  then show ?thesis using Some
    by (cases "snapshot_sample t1 t2 ch c w") (auto simp: oa_runtime_calibration_manual_sample_def)
qed (simp add: oa_runtime_calibration_manual_sample_def)

text \<open>
  C36: A calibration that is refused as busy, because a session of the runtime is active, takes the
  runtime's ownership away from that session: the owner is nobody afterwards, and every sample of
  a session of this runtime fails until a new one begins.
\<close>

theorem busy_begin_evicts:
  assumes "runtime_objects w h = Some r" "owner r = 2"
    and "oa_runtime_calibration_manual_begin fl h request out w = (OA_RUNTIME_EBUSY, out', w')"
    and "registered (calibration_handles w') ch = Some c" "cd_runtime c = h"
  shows "(\<exists>r'. runtime_objects w' h = Some r' \<and> owner r' = 0)
    \<and> fst (oa_runtime_calibration_manual_sample t1 t2 ch i report w') \<noteq> OA_RUNTIME_OK"
proof -
  obtain q where q: "request = Some q" using assms(3) by (cases request) (auto simp: oa_runtime_calibration_manual_begin_def)
  have pin: "pin_runtime h w = Some r"
    using assms(1,3) q by (auto simp: oa_runtime_calibration_manual_begin_def pin_runtime_def split: if_splits option.splits)
  have "\<exists>store create. begin_session fl h r (new_calibration h (rt_manifest r) (mo_side q) (mo_joint q)) store create w
      = (OA_RUNTIME_EBUSY, out', w')"
    using assms(3) q pin
    by (auto simp: oa_runtime_calibration_manual_begin_def fail_triple split: if_splits)
  then obtain store create where begun:
    "begin_session fl h r (new_calibration h (rt_manifest r) (mo_side q) (mo_joint q)) store create w
      = (OA_RUNTIME_EBUSY, out', w')" by blast
  obtain r' where r': "runtime_objects w' h = Some r'" "owner r' = 0"
    using begin_session_busy [OF assms(1) _ _ _ begun assms(2)] by (auto simp: new_calibration_def)
  have "owner r' \<noteq> 2" using r'(2) by simp
  then show ?thesis using sample_without_owner [OF r'(1)] r' assms(4,5) by force
qed

definition sample_manual_options :: manual_options where
  "sample_manual_options =
     \<lparr>struct_size = SIZEOF_MANUAL_OPTIONS, abi_version = OA_COMMISSION_ABI_V1, mo_side = 0, mo_joint = 0,
      mo_expected_revision = 1, reference_count = 1, mo_known_sign = 1, minimum_samples = 1,
      mo_maximum_sample_age_ns = 1000, stability_dwell_ns = 10, reference_model_rad = [0, 0],
      maximum_position_spread_rad = 1, maximum_abs_velocity_rad_s = 1, minimum_reference_separation_rad = 1,
      maximum_scale_error = 0, mo_motor_serial = char_array 64 ''VIRTUAL-0-0''\<rparr>"

definition sample_session :: calibration_data where
  "sample_session = (new_calibration 0x13 sample_manifest_data 0 0)\<lparr>cd_manual := 1\<rparr>"

text \<open>The runtime while a calibration session owns it.\<close>

definition sample_calibrating :: facade where
  "sample_calibrating = sample_facade
     \<lparr>runtime_objects := [0x13 \<mapsto> sample_runtime\<lparr>owner := 2, plan_pending := False\<rparr>],
      calibration_handles := \<lparr>registered = [0x15 \<mapsto> sample_session], next_index = 2\<rparr>\<rparr>"

definition sample_session_faultless :: session_faults where
  "sample_session_faultless = \<lparr>no_session = False, no_lower_session = False, no_session_node = False\<rparr>"

lemma sample_motor_matches: "matches_motor (sample_runtime\<lparr>owner := 2, plan_pending := False\<rparr>) 0 0 1 (char_array 64 ''VIRTUAL-0-0'')"
proof -
  have base: "manifest_revision (md_config sample_manifest_data) = 1"
    "ac_motor (pick 0 (mc_arm (md_config sample_manifest_data))) ! 0 = virtual_motor 0 0"
    by (simp_all add: make_virtual_manifest_def Let_def virtual_config_def virtual_arm_def pick_def)
  have "strncmp_equal 32 (char_array 64 ''VIRTUAL-0-0'') (serial (virtual_motor 0 0))"
    by (simp add: virtual_motor_def Let_def strncmp_equal_def char_array_def c_string_def digit_def)
  then show ?thesis using base by (simp add: matches_motor_def sample_runtime_def)
qed

lemma sample_busy:
  "\<exists>w'. oa_runtime_calibration_manual_begin sample_session_faultless 0x13 (Some sample_manual_options) (Some 0) sample_calibrating
     = (OA_RUNTIME_EBUSY, Some 0, w') \<and> calibration_handles w' = calibration_handles sample_calibrating"
proof -
  have pin: "pin_runtime 0x13 sample_calibrating = Some (sample_runtime\<lparr>owner := 2, plan_pending := False\<rparr>)"
    by (simp add: pin_runtime_def registry_pin_def sample_calibrating_def sample_facade_def)
  have named: "valid_text (Some (char_array 64 ''VIRTUAL-0-0'')) False" by (simp add: valid_text_def char_array_def)
  show ?thesis
    using sample_motor_matches named
    by (simp add: oa_runtime_calibration_manual_begin_def pin sample_manual_options_def calibratable_def sample_runtime_def
        sample_runtime_options_def begin_session_def sample_session_faultless_def fail_triple discard_calibration_def
        new_calibration_def)
qed

theorem busy_begin_evicts_witness:
  "\<exists>w' r'. oa_runtime_calibration_manual_begin sample_session_faultless 0x13 (Some sample_manual_options) (Some 0) sample_calibrating
      = (OA_RUNTIME_EBUSY, Some 0, w')
    \<and> runtime_objects w' 0x13 = Some r' \<and> owner r' = 0
    \<and> fst (oa_runtime_calibration_manual_sample 0 0 0x15 0 None w') \<noteq> OA_RUNTIME_OK"
proof -
  have r: "runtime_objects sample_calibrating 0x13 = Some (sample_runtime\<lparr>owner := 2, plan_pending := False\<rparr>)"
    by (simp add: sample_calibrating_def)
  obtain w' where w': "oa_runtime_calibration_manual_begin sample_session_faultless 0x13 (Some sample_manual_options) (Some 0) sample_calibrating
      = (OA_RUNTIME_EBUSY, Some 0, w')" "calibration_handles w' = calibration_handles sample_calibrating"
    using sample_busy by blast
  have "registered (calibration_handles w') 0x15 = Some sample_session" by (simp add: w'(2) sample_calibrating_def)
  from busy_begin_evicts [OF r _ w'(1) this] w'(1) show ?thesis
    by (simp add: sample_session_def new_calibration_def)
qed

section \<open>A pending plan hides the emergency stop\<close>

lemma worker_waits:
  assumes "runtime_objects w h = Some r" "plan_pending r" "t < plan_expiry_ns r"
  shows "worker_turn lib t h w = w"
  using assms by (simp add: worker_turn_def not_le [symmetric])

text \<open>
  C28: While a plan of the runtime is pending and has not expired, no turn of its worker runs the
  controller: an emergency stop that is asserted meanwhile leaves the controller as it is, armed
  and with its motors powered, however many cycles go by.
\<close>

theorem pending_plan_masks_estop:
  assumes "runtime_objects w h = Some r" "plan_pending r" "\<forall>t \<in> set ts. t < plan_expiry_ns r"
  shows "controllers (control (fold (\<lambda>t. worker_turn lib t h) ts (oa_runtime_estop_assert w))) = controllers (control w)"
proof -
  let ?w = "oa_runtime_estop_assert w"
  have r: "runtime_objects ?w h = Some r" using assms(1) by (simp add: oa_runtime_estop_assert_def)
  have "fold (\<lambda>t. worker_turn lib t h) ts ?w = ?w" using assms(3)
    by (induction ts) (simp_all add: worker_waits [OF r assms(2)])
  then show ?thesis by (simp add: oa_runtime_estop_assert_def oa_estop_assert_def Let_def)
qed

theorem pending_plan_masks_estop_witness:
  "controllers (control (fold (\<lambda>t. worker_turn sample_lib t 0x13) [1, 2, 3] (oa_runtime_estop_assert sample_facade))) 0x10
     = Some sample_idle"
proof -
  have "runtime_objects sample_facade 0x13 = Some sample_runtime" "plan_pending sample_runtime"
    "\<forall>t \<in> set [1, 2, 3]. t < plan_expiry_ns sample_runtime"
    by (simp_all add: sample_facade_def sample_runtime_def word_less_nat_alt)
  note plan = pending_plan_masks_estop [OF this, of sample_lib]
  show ?thesis unfolding plan by (simp add: sample_facade_def)
qed

end
