(* ===== verification/Persistence_Files.thy ===== *)
theory Persistence_Files
  imports Runtime_Calibration "HOL-Library.AList"
begin

text \<open>
  The file system under the runtime's persistence, runtime/src/persistence.cpp: one directory as the
  calls of the operating system change it, the tests of names and paths, reading a file, and the
  writing of a new one. A directory is a list of entries in the order \<open>readdir\<close> gives them. The outcome
  of every call is taken from a tape of faults; a call after the end of the tape does not fail. The
  lock of the directory is held for a whole transaction, so nobody else changes it meanwhile.
  A C string is the characters before its terminator.
\<close>

section \<open>The directory\<close>

text \<open>A regular file has an inode, its bytes, and whether they are on the disk (\<open>fsync\<close>).\<close>

datatype node = File nat string bool | Symlink | Directory | Special

type_synonym directory = "(string \<times> node) list"

datatype fault = Fine | Failing | Interrupted | Partial nat

text \<open>
  \<open>entries_synced\<close>: the entries are on the disk. \<open>trace\<close> is the sequence of directories the calls go
  through, one for every change, as a crash could find them. \<open>library\<close> is the control library, which
  validates manifests, and the sequences the process's counters for names of temporary files.
\<close>

record disk =
  entries :: directory
  entries_synced :: bool
  next_inode :: nat
  faults :: "fault list"
  trace :: "directory list"
  library :: api
  save_sequence :: u64
  install_sequence :: u64
  recovery_sequence :: u64

definition set_entries :: "directory \<Rightarrow> disk \<Rightarrow> disk" where
  "set_entries d s = s\<lparr>entries := d, entries_synced := False, trace := trace s @ [d]\<rparr>"

definition next_fault :: "disk \<Rightarrow> fault \<times> disk" where
  "next_fault s = (case faults s of [] \<Rightarrow> (Fine, s) | f # fs \<Rightarrow> (f, s\<lparr>faults := fs\<rparr>))"

text \<open>A call that moves no bytes succeeds or fails.\<close>

definition attempt :: "disk \<Rightarrow> bool \<times> disk" where
  "attempt s = (case next_fault s of (f, s1) \<Rightarrow> (f = Fine, s1))"

definition sys_openat :: "string \<Rightarrow> disk \<Rightarrow> node option \<times> disk" where
  "sys_openat name s =
     (case attempt s of (ok, s1) \<Rightarrow>
        (if \<not> ok then None
         else case map_of (entries s1) name of Some Symlink \<Rightarrow> None | e \<Rightarrow> e, s1))"

definition sys_fsync_file :: "string \<Rightarrow> disk \<Rightarrow> bool \<times> disk" where
  "sys_fsync_file name s =
     (case attempt s of (ok, s1) \<Rightarrow>
        if \<not> ok then (False, s1)
        else (True, case map_of (entries s1) name of
                Some (File i content synced) \<Rightarrow> s1\<lparr>entries := AList.update name (File i content True) (entries s1)\<rparr>
              | _ \<Rightarrow> s1))"

definition sys_fsync_directory :: "disk \<Rightarrow> bool \<times> disk" where
  "sys_fsync_directory s =
     (case attempt s of (ok, s1) \<Rightarrow> (ok, if ok then s1\<lparr>entries_synced := True\<rparr> else s1))"

text \<open>\<open>unlinkat\<close>; the second result tells whether the entry was missing (\<open>ENOENT\<close>).\<close>

definition sys_unlinkat :: "string \<Rightarrow> disk \<Rightarrow> (bool \<times> bool) \<times> disk" where
  "sys_unlinkat name s =
     (case attempt s of (ok, s1) \<Rightarrow>
        if \<not> ok then ((False, False), s1)
        else case map_of (entries s1) name of None \<Rightarrow> ((False, True), s1)
        | Some Directory \<Rightarrow> ((False, False), s1)
        | Some _ \<Rightarrow> ((True, False), set_entries (AList.delete name (entries s1)) s1))"

text \<open>\<open>renameat\<close> replaces the target; two names of one file stay as they are, with success.\<close>

fun same_inode :: "node \<Rightarrow> node option \<Rightarrow> bool" where
  "same_inode (File i _ _) (Some (File j _ _)) \<longleftrightarrow> i = j"
| "same_inode _ _ \<longleftrightarrow> False"

definition sys_renameat :: "string \<Rightarrow> string \<Rightarrow> disk \<Rightarrow> bool \<times> disk" where
  "sys_renameat src target s =
     (case attempt s of (ok, s1) \<Rightarrow>
        if \<not> ok then (False, s1)
        else case map_of (entries s1) src of None \<Rightarrow> (False, s1)
        | Some n \<Rightarrow>
            if map_of (entries s1) target = Some Directory then (False, s1)
            else if same_inode n (map_of (entries s1) target) then (True, s1)
            else (True, set_entries (AList.update target n (AList.delete src (entries s1))) s1))"

definition sys_linkat :: "string \<Rightarrow> string \<Rightarrow> disk \<Rightarrow> bool \<times> disk" where
  "sys_linkat src target s =
     (case attempt s of (ok, s1) \<Rightarrow>
        if \<not> ok \<or> map_of (entries s1) target \<noteq> None then (False, s1)
        else case map_of (entries s1) src of
          Some (File i content synced) \<Rightarrow> (True, set_entries (AList.update target (File i content synced) (entries s1)) s1)
        | _ \<Rightarrow> (False, s1))"

text \<open>\<open>fstatat\<close> without following a link: the node, or whether it is missing.\<close>

definition sys_fstatat :: "string \<Rightarrow> disk \<Rightarrow> (node option \<times> bool) \<times> disk" where
  "sys_fstatat name s =
     (case attempt s of (ok, s1) \<Rightarrow>
        (if \<not> ok then (None, False) else (map_of (entries s1) name, map_of (entries s1) name = None), s1))"

fun regular :: "node \<Rightarrow> bool" where
  "regular (File _ _ _) = True"
| "regular _ = False"

section \<open>Names and paths\<close>

definition safe_key_id :: "string pointer \<Rightarrow> bool" where
  "safe_key_id value =
     (case value of None \<Rightarrow> False
      | Some t \<Rightarrow> t \<noteq> [] \<and> length t < OA_RUNTIME_TEXT_CAPACITY \<and> list_all safe_char t)"

definition file_char :: "char \<Rightarrow> bool" where
  "file_char ch \<longleftrightarrow> safe_char ch \<and> ch \<noteq> CHR '':''"

definition internal_transaction_name :: "string \<Rightarrow> bool" where
  "internal_transaction_name t \<longleftrightarrow> take 17 t = ''.openarm-runtime-'' \<or> take 15 t = ''.openarm-prior-''"

definition safe_file_name :: "string pointer \<Rightarrow> bool" where
  "safe_file_name value =
     (case value of None \<Rightarrow> False
      | Some t \<Rightarrow> t \<noteq> [] \<and> length t \<le> 180 \<and> CHR ''/'' \<notin> set t \<and> \<not> internal_transaction_name t
          \<and> t \<noteq> ''.'' \<and> t \<noteq> ''..'' \<and> list_all file_char t)"

definition previous_suffix :: string where
  "previous_suffix = ''.previous''"

definition is_previous :: "string \<Rightarrow> bool" where
  "is_previous t \<longleftrightarrow> length previous_suffix \<le> length t \<and> drop (length t - length previous_suffix) t = previous_suffix"

definition safe_v2_file_name :: "string pointer \<Rightarrow> bool" where
  "safe_v2_file_name value \<longleftrightarrow> safe_file_name value \<and> \<not> is_previous (the value)"

text \<open>
  What the operating system answers to paths: the answer of \<open>lstat\<close>, the directory that \<open>open\<close> gives
  for an absolute path, and \<open>openat\<close> from one directory to the next. A directory is its number.
\<close>

record path_answers =
  path_directory :: "string \<Rightarrow> bool"
  path_regular_or_absent :: "string \<Rightarrow> bool"
  path_open :: "string \<Rightarrow> nat option"
  path_root :: "nat option"
  path_openat :: "nat \<Rightarrow> string \<Rightarrow> nat option"

abbreviation PATH_MAX :: nat where "PATH_MAX \<equiv> 4096"

definition contains_text :: "string \<Rightarrow> string \<Rightarrow> bool" where
  "contains_text pat t \<longleftrightarrow> find_text pat t \<noteq> None"

definition ends_with :: "string \<Rightarrow> string \<Rightarrow> bool" where
  "ends_with t pat \<longleftrightarrow> length pat \<le> length t \<and> drop (length t - length pat) t = pat"

text \<open>The prefixes of a path that end before a slash, and the path.\<close>

definition path_prefixes :: "string \<Rightarrow> string list" where
  "path_prefixes d = map (\<lambda>i. take i d) (filter (\<lambda>i. i = length d \<or> d ! i = CHR ''/'') [1 ..< length d + 1])"

definition absolute_directory_path :: "path_answers \<Rightarrow> string \<Rightarrow> bool" where
  "absolute_directory_path fs d \<longleftrightarrow>
     \<not> (d = [] \<or> length d \<ge> PATH_MAX \<or> hd d \<noteq> CHR ''/'' \<or> (length d > 1 \<and> last d = CHR ''/'')
        \<or> contains_text ''//'' d \<or> contains_text ''/./'' d \<or> contains_text ''/../'' d
        \<or> ends_with d ''/.'' \<or> ends_with d ''/..'')
     \<and> list_all (path_directory fs) (path_prefixes d)"

text \<open>The components of a path after its first slash.\<close>

fun path_components :: "string \<Rightarrow> string list" where
  "path_components [] = [[]]"
| "path_components (ch # s) =
     (if ch = CHR ''/'' then [] # path_components s
      else (ch # hd (path_components s)) # tl (path_components s))"

fun walk_directories :: "path_answers \<Rightarrow> string list \<Rightarrow> nat \<Rightarrow> nat option" where
  "walk_directories fs [] current = Some current"
| "walk_directories fs (c # cs) current =
     (if c = [] \<or> c = ''.'' \<or> c = ''..'' then None
      else case path_openat fs current c of None \<Rightarrow> None | Some n \<Rightarrow> walk_directories fs cs n)"

definition open_absolute_directory :: "path_answers \<Rightarrow> string pointer \<Rightarrow> nat option" where
  "open_absolute_directory fs path =
     (case path of None \<Rightarrow> None
      | Some p \<Rightarrow>
          if p = [] \<or> length p \<ge> PATH_MAX \<or> hd p \<noteq> CHR ''/'' \<or> (length p > 1 \<and> last p = CHR ''/'') then None
          else case path_root fs of None \<Rightarrow> None
          | Some top_dir \<Rightarrow> if length p = 1 then Some top_dir else walk_directories fs (path_components (drop 1 p)) top_dir)"

text \<open>The directory and the name of a regular file, or of an absent one.\<close>

definition absolute_regular_path :: "path_answers \<Rightarrow> string pointer \<Rightarrow> (string \<times> string) option" where
  "absolute_regular_path fs path =
     (case path of None \<Rightarrow> None
      | Some v \<Rightarrow>
          if v = [] \<or> length v \<ge> PATH_MAX \<or> hd v \<noteq> CHR ''/'' \<or> last v = CHR ''/''
            \<or> contains_text ''//'' v \<or> contains_text ''/./'' v \<or> contains_text ''/../'' v
          then None
          else
            let name = rev (takeWhile (\<lambda>ch. ch \<noteq> CHR ''/'') (rev v));
                d = (let p = take (length v - length name - 1) v in if p = [] then ''/'' else p)
            in if \<not> safe_file_name (Some name) \<or> \<not> absolute_directory_path fs d \<or> \<not> path_regular_or_absent fs v
               then None else Some (d, name))"

section \<open>Reading and writing\<close>

text \<open>
  The loops around \<open>read\<close> and \<open>write\<close> for \<open>n\<close> bytes: a call moves all of the rest or a part of it,
  moving none ends the loop. \<open>retry\<close>: an interrupted call is made again.
\<close>

fun transfer :: "bool \<Rightarrow> nat \<Rightarrow> fault list \<Rightarrow> (bool \<times> nat) \<times> fault list" where
  "transfer retry 0 fs = ((True, 0), fs)"
| "transfer retry (Suc n) [] = ((True, 0), [])"
| "transfer retry (Suc n) (Fine # fs) = ((True, 0), fs)"
| "transfer retry (Suc n) (Failing # fs) = ((False, Suc n), fs)"
| "transfer retry (Suc n) (Interrupted # fs) = (if retry then transfer retry (Suc n) fs else ((False, Suc n), fs))"
| "transfer retry (Suc n) (Partial k # fs) = (if k = 0 then ((False, Suc n), fs) else transfer retry (Suc n - k) fs)"

text \<open>The size of the file was read before, so the second \<open>read\<close> finds the end; only a failure shows another byte.\<close>

definition read_file_at :: "string \<Rightarrow> disk \<Rightarrow> (runtime_status + string) \<times> disk" where
  "read_file_at name s =
     (case sys_openat name s of (n, s1) \<Rightarrow>
      case n of None \<Rightarrow> (Inl OA_RUNTIME_EIO, s1)
      | Some (File i content synced) \<Rightarrow>
         (case attempt s1 of (stat_ok, s2) \<Rightarrow>
          if \<not> stat_ok \<or> content = [] \<or> length content > 65536 then (Inl OA_RUNTIME_ECORRUPT, s2)
          else case attempt s2 of (memory, s3) \<Rightarrow>
          if \<not> memory then (Inl OA_RUNTIME_ENOMEM, s3)
          else case transfer True (length content) (faults s3) of ((ok, rest), fs) \<Rightarrow>
          let s4 = s3\<lparr>faults := fs\<rparr> in
          if \<not> ok then (Inl OA_RUNTIME_EIO, s4)
          else case attempt s4 of (at_end, s5) \<Rightarrow>
          if \<not> at_end then (Inl OA_RUNTIME_ECORRUPT, s5)
          else case attempt s5 of (shut, s6) \<Rightarrow>
          (if shut then Inr content else Inl OA_RUNTIME_EIO, s6))
      | Some _ \<Rightarrow> (case attempt s1 of (_, s2) \<Rightarrow> (Inl OA_RUNTIME_ECORRUPT, s2)))"

text \<open>\<open>openat\<close> with \<open>O_CREAT\<close> and \<open>O_EXCL\<close>.\<close>

definition create_exclusive :: "string \<Rightarrow> disk \<Rightarrow> bool \<times> disk" where
  "create_exclusive name s =
     (case attempt s of (ok, s1) \<Rightarrow>
        if \<not> ok \<or> map_of (entries s1) name \<noteq> None then (False, s1)
        else (True, set_entries (AList.update name (File (next_inode s1) [] False) (entries s1))
                      (s1\<lparr>next_inode := next_inode s1 + 1\<rparr>)))"

definition write_content :: "bool \<Rightarrow> string \<Rightarrow> string \<Rightarrow> disk \<Rightarrow> bool \<times> disk" where
  "write_content retry name content s =
     (case transfer retry (length content) (faults s) of ((ok, rest), fs) \<Rightarrow>
      case map_of (entries s) name of
        Some (File i _ _) \<Rightarrow>
          (ok, set_entries (AList.update name (File i (take (length content - rest) content) False) (entries s))
                 (s\<lparr>faults := fs\<rparr>))
      | _ \<Rightarrow> (ok, s\<lparr>faults := fs\<rparr>))"

text \<open>A new file, written, synced and closed; when one of these fails it is unlinked again.\<close>

definition write_new_file :: "bool \<Rightarrow> string \<Rightarrow> string \<Rightarrow> disk \<Rightarrow> bool \<times> disk" where
  "write_new_file retry name content s =
     (case create_exclusive name s of (created, s1) \<Rightarrow>
      if \<not> created then (False, s1)
      else case write_content retry name content s1 of (written, s2) \<Rightarrow>
      case (if written then sys_fsync_file name s2 else (False, s2)) of (synced, s3) \<Rightarrow>
      case attempt s3 of (shut, s4) \<Rightarrow>
      if synced \<and> shut then (True, s4)
      else (False, snd (sys_unlinkat name s4)))"

text \<open>\<open>DirectoryTransaction\<close>: a description of its own, locked; an interrupted wait goes on.\<close>

fun lock_wait :: "fault list \<Rightarrow> bool \<times> fault list" where
  "lock_wait [] = (True, [])"
| "lock_wait (Interrupted # fs) = lock_wait fs"
| "lock_wait (f # fs) = (f = Fine, fs)"

definition directory_transaction :: "disk \<Rightarrow> bool \<times> disk" where
  "directory_transaction s =
     (case attempt s of (opened, s1) \<Rightarrow>
        if \<not> opened then (False, s1)
        else case lock_wait (faults s1) of (locked, fs) \<Rightarrow> (locked, s1\<lparr>faults := fs\<rparr>))"

text \<open>The loop of \<open>readdir\<close> over the names that were there; the second attempt is the end of the list.\<close>

fun remove_artifacts :: "string list \<Rightarrow> bool \<Rightarrow> disk \<Rightarrow> (bool \<times> bool) \<times> disk" where
  "remove_artifacts [] removed s = (case attempt s of (ok, s1) \<Rightarrow> ((ok, removed), s1))"
| "remove_artifacts (n # ns) removed s =
     (case attempt s of (ok, s1) \<Rightarrow>
        if \<not> ok then ((False, removed), s1)
        else if \<not> internal_transaction_name n then remove_artifacts ns removed s1
        else case sys_unlinkat n s1 of ((gone, missing), s2) \<Rightarrow>
          if \<not> gone \<and> \<not> missing then ((False, removed), s2) else remove_artifacts ns True s2)"

text \<open>\<open>dup\<close> and \<open>fdopendir\<close>.\<close>

definition open_scan :: "disk \<Rightarrow> bool \<times> disk" where
  "open_scan s = (case attempt s of (ok, s1) \<Rightarrow> if ok then attempt s1 else (False, s1))"

definition cleanup_internal_artifacts :: "disk \<Rightarrow> runtime_status \<times> disk" where
  "cleanup_internal_artifacts s =
     (case open_scan s of (opened, s1) \<Rightarrow>
      if \<not> opened then (OA_RUNTIME_EIO, s1)
      else case remove_artifacts (map fst (entries s1)) False s1 of ((ok, removed), s2) \<Rightarrow>
      case attempt s2 of (shut, s3) \<Rightarrow>
      if \<not> ok \<or> \<not> shut then (OA_RUNTIME_EIO, s3)
      else if removed
      then (case sys_fsync_directory s3 of (synced, s4) \<Rightarrow> (if synced then OA_RUNTIME_OK else OA_RUNTIME_EIO, s4))
      else (OA_RUNTIME_OK, s3))"

definition target_is_regular_or_absent :: "string \<Rightarrow> disk \<Rightarrow> (bool \<times> bool) \<times> disk" where
  "target_is_regular_or_absent name s =
     (case sys_fstatat name s of ((n, missing), s1) \<Rightarrow>
        (case n of Some x \<Rightarrow> (regular x, True) | None \<Rightarrow> (missing, False), s1))"

text \<open>A file that is there is synced again, and its directory.\<close>

definition sync_existing :: "string \<Rightarrow> disk \<Rightarrow> runtime_status \<times> disk" where
  "sync_existing name s =
     (case sys_openat name s of (n, s1) \<Rightarrow>
      case n of None \<Rightarrow> (OA_RUNTIME_EIO, s1)
      | Some x \<Rightarrow>
         (case attempt s1 of (stat_ok, s2) \<Rightarrow>
          case (if stat_ok \<and> regular x then sys_fsync_file name s2 else (False, s2)) of (synced, s3) \<Rightarrow>
          case attempt s3 of (shut, s4) \<Rightarrow>
          if \<not> synced \<or> \<not> shut then (OA_RUNTIME_EIO, s4)
          else case sys_fsync_directory s4 of (ok, s5) \<Rightarrow> (if ok then OA_RUNTIME_OK else OA_RUNTIME_EIO, s5)))"

end
