(* ===== verification/Persistence_Store.thy ===== *)
theory Persistence_Store
  imports Persistence_Files
begin

text \<open>
  The store of signed manifests, runtime/src/persistence.cpp: an authority over one directory, the two
  forms of signature, the checkpoints that guard against replay, and the installation of a new
  revision of a file with the old one kept beside it. The control library validates what is read, so
  reading changes its state too.
\<close>

section \<open>An authority\<close>

record persistence_authority =
  directory_fd :: nat
  authentication_key :: "u8 list"
  pa_key_id :: string
  protocol_version :: u32
  poisoned :: bool
  trusted_revision :: u64
  trusted_digest :: string
  bound_file_name :: string
  accepted_revision_floor :: u64
  accepted_revision_digest :: string
  accepted_artifacts :: "(string \<times> u64 \<times> string) list"

definition constant_time_equal :: "string \<Rightarrow> string \<Rightarrow> bool" where
  "constant_time_equal left right =
     (if length left \<noteq> length right then False
      else foldl (\<lambda>d (a, b). d OR (of_char a XOR of_char b)) (0 :: u8) (zip left right) = 0)"

text \<open>\<open>std::string::rfind\<close>.\<close>

fun rfind_text :: "string \<Rightarrow> string \<Rightarrow> nat option" where
  "rfind_text pat [] = (if pat = [] then Some 0 else None)"
| "rfind_text pat (ch # s) =
     (case rfind_text pat s of Some n \<Rightarrow> Some (Suc n)
      | None \<Rightarrow> if take (length pat) (ch # s) = pat then Some 0 else None)"

definition sign_text :: "persistence_authority \<Rightarrow> string \<Rightarrow> string" where
  "sign_text a t = hmac_sha256_hex (authentication_key a) (map of_char t)"

definition parse_on_disk :: "model_lib \<Rightarrow> string \<Rightarrow> disk \<Rightarrow> (runtime_status + manifest_data) \<times> disk" where
  "parse_on_disk lib t s =
     (case attempt s of (memory, s1) \<Rightarrow>
      case parse_manifest lib (\<not> memory) t (library s1) of (r, l) \<Rightarrow> (r, s1\<lparr>library := l\<rparr>))"

text \<open>A manifest that was read and whose signature holds.\<close>

definition from_file :: "manifest_data \<Rightarrow> manifest_data" where
  "from_file m = m\<lparr>authenticated := True, checkpoint_authorized := False, loaded_from_file := True\<rparr>"

definition signed_with :: "u32 \<Rightarrow> persistence_authority \<Rightarrow> manifest_data \<Rightarrow> bool" where
  "signed_with version a m \<longleftrightarrow>
     integrity_kind m = OA_RUNTIME_INTEGRITY_HMAC_SHA256 \<and> authentication_version m = version
     \<and> authentication_key_id m = pa_key_id a"

definition authenticate_text ::
  "model_lib \<Rightarrow> persistence_authority \<Rightarrow> string \<Rightarrow> disk \<Rightarrow> (runtime_status + manifest_data) \<times> disk" where
  "authenticate_text lib a t s =
     (case parse_on_disk lib t s of (r, s1) \<Rightarrow>
        (case r of Inl st \<Rightarrow> Inl st
         | Inr m \<Rightarrow>
             if \<not> signed_with 1 a m then Inl OA_RUNTIME_EPERMISSION
             else case rfind_text ''hmac-sha256|'' t of None \<Rightarrow> Inl OA_RUNTIME_ECORRUPT
             | Some n \<Rightarrow>
                 if n = 0 then Inl OA_RUNTIME_ECORRUPT
                 else if \<not> constant_time_equal (sign_text a (take n t)) (authentication_tag m)
                 then Inl OA_RUNTIME_EPERMISSION else Inr (from_file m), s1))"

definition slot_authentication_input :: "persistence_authority \<Rightarrow> string \<Rightarrow> string \<Rightarrow> string" where
  "slot_authentication_input a slot_name payload =
     ''OPENARM-RUNTIME-SLOT-V2'' @ [NUL] @ pa_key_id a @ [NUL] @ slot_name @ [NUL] @ payload"

definition authenticate_text_v2 ::
  "model_lib \<Rightarrow> persistence_authority \<Rightarrow> string \<Rightarrow> string \<Rightarrow> disk \<Rightarrow> (runtime_status + manifest_data) \<times> disk" where
  "authenticate_text_v2 lib a slot_name t s =
     (case parse_on_disk lib t s of (r, s1) \<Rightarrow>
        (case r of Inl st \<Rightarrow> Inl st
         | Inr m \<Rightarrow>
             if \<not> signed_with 2 a m then Inl OA_RUNTIME_EPERMISSION
             else case rfind_text ''hmac-sha256-v2|'' t of None \<Rightarrow> Inl OA_RUNTIME_ECORRUPT
             | Some n \<Rightarrow>
                 if n = 0 then Inl OA_RUNTIME_ECORRUPT
                 else if \<not> constant_time_equal (sign_text a (slot_authentication_input a slot_name (take n t)))
                          (authentication_tag m)
                 then Inl OA_RUNTIME_EPERMISSION else Inr (from_file m), s1))"

definition load_authenticated_at ::
  "model_lib \<Rightarrow> persistence_authority \<Rightarrow> string \<Rightarrow> disk \<Rightarrow> (runtime_status + manifest_data) \<times> disk" where
  "load_authenticated_at lib a name s =
     (case read_file_at name s of (Inl st, s1) \<Rightarrow> (Inl st, s1) | (Inr t, s1) \<Rightarrow> authenticate_text lib a t s1)"

definition load_authenticated_at_v2 ::
  "model_lib \<Rightarrow> persistence_authority \<Rightarrow> string \<Rightarrow> string \<Rightarrow> disk \<Rightarrow> (runtime_status + manifest_data) \<times> disk" where
  "load_authenticated_at_v2 lib a entry_name slot_name s =
     (case read_file_at entry_name s of (Inl st, s1) \<Rightarrow> (Inl st, s1)
      | (Inr t, s1) \<Rightarrow> authenticate_text_v2 lib a slot_name t s1)"

section \<open>Checkpoints\<close>

record checkpoint = header +
  ck_revision :: u64
  ck_content_sha256 :: string

abbreviation SIZEOF_CHECKPOINT :: u32 where "SIZEOF_CHECKPOINT \<equiv> 88"

definition lowercase_digest :: "string \<Rightarrow> bool" where
  "lowercase_digest d \<longleftrightarrow> length (c_string (take OA_RUNTIME_DIGEST_CAPACITY d)) = 64 \<and> list_all lower_hex (take 64 d)"

definition checkpoint_status :: "checkpoint pointer \<Rightarrow> runtime_status" where
  "checkpoint_status p =
     (case p of None \<Rightarrow> OA_RUNTIME_EABI
      | Some c \<Rightarrow>
          if struct_size c < SIZEOF_CHECKPOINT \<or> abi_version c \<noteq> OA_RUNTIME_ABI_VERSION then OA_RUNTIME_EABI
          else if ck_revision c = 0
          then (if list_all (\<lambda>ch. ch = NUL) (take OA_RUNTIME_DIGEST_CAPACITY (ck_content_sha256 c)) then OA_RUNTIME_OK
                else OA_RUNTIME_EINVAL)
          else if lowercase_digest (ck_content_sha256 c) then OA_RUNTIME_OK else OA_RUNTIME_EINVAL)"

definition empty_checkpoint :: checkpoint where
  "empty_checkpoint =
     \<lparr>struct_size = SIZEOF_CHECKPOINT, abi_version = OA_RUNTIME_ABI_VERSION, ck_revision = 0,
      ck_content_sha256 = replicate OA_RUNTIME_DIGEST_CAPACITY NUL\<rparr>"

text \<open>The input is copied before the output is cleared, for the two may be one object.\<close>

definition snapshot_checkpoint :: "checkpoint pointer \<Rightarrow> checkpoint pointer \<Rightarrow> runtime_status \<times> checkpoint pointer" where
  "snapshot_checkpoint input output = (checkpoint_status input, map_option (\<lambda>_. empty_checkpoint) output)"

definition fill_checkpoint :: "manifest_data \<Rightarrow> checkpoint" where
  "fill_checkpoint m =
     empty_checkpoint\<lparr>ck_revision := manifest_revision (md_config m),
       ck_content_sha256 := char_array OA_RUNTIME_DIGEST_CAPACITY (content_digest m)\<rparr>"

definition exact_checkpoint :: "manifest_data \<Rightarrow> checkpoint \<Rightarrow> bool" where
  "exact_checkpoint m c \<longleftrightarrow>
     manifest_revision (md_config m) = ck_revision c \<and> content_digest m = c_string (ck_content_sha256 c)"

definition satisfies_floor :: "manifest_data \<Rightarrow> checkpoint \<Rightarrow> runtime_status" where
  "satisfies_floor m c =
     (if manifest_revision (md_config m) < ck_revision c then OA_RUNTIME_ESTALE
      else if manifest_revision (md_config m) = ck_revision c \<and> content_digest m \<noteq> c_string (ck_content_sha256 c)
      then OA_RUNTIME_ESTALE else OA_RUNTIME_OK)"

definition below_trusted :: "persistence_authority \<Rightarrow> checkpoint \<Rightarrow> bool" where
  "below_trusted a c \<longleftrightarrow> ck_revision c < trusted_revision a
     \<or> (ck_revision c = trusted_revision a \<and> c_string (ck_content_sha256 c) \<noteq> trusted_digest a)"

definition bind_name :: "string \<Rightarrow> persistence_authority \<Rightarrow> persistence_authority option" where
  "bind_name name a =
     (if bound_file_name a = [] then Some (a\<lparr>bound_file_name := name\<rparr>)
      else if bound_file_name a \<noteq> name then None else Some a)"

definition bind_v2_call ::
  "persistence_authority \<Rightarrow> string \<Rightarrow> checkpoint \<Rightarrow> runtime_status \<times> persistence_authority" where
  "bind_v2_call a name c =
     (if protocol_version a \<noteq> 2 then (OA_RUNTIME_EUNSUPPORTED, a)
      else if poisoned a then (OA_RUNTIME_EDURABILITY, a)
      else case bind_name name a of None \<Rightarrow> (OA_RUNTIME_EIDENTITY, a)
      | Some a1 \<Rightarrow> (if below_trusted a1 c then OA_RUNTIME_ESTALE else OA_RUNTIME_OK, a1))"

text \<open>The checkpoint that a completed call leaves trusted.\<close>

definition trust :: "checkpoint \<Rightarrow> persistence_authority \<Rightarrow> persistence_authority" where
  "trust c a = a\<lparr>trusted_revision := ck_revision c, trusted_digest := c_string (ck_content_sha256 c)\<rparr>"

section \<open>The first protocol's floor\<close>

fun scan_floor ::
  "model_lib \<Rightarrow> persistence_authority \<Rightarrow> string list \<Rightarrow> u64 \<times> string \<Rightarrow> disk \<Rightarrow> (runtime_status + u64 \<times> string) \<times> disk" where
  "scan_floor lib a [] best s = (case attempt s of (ok, s1) \<Rightarrow> (if ok then Inr best else Inl OA_RUNTIME_EIO, s1))"
| "scan_floor lib a (n # ns) best s =
     (case attempt s of (ok, s1) \<Rightarrow>
        if \<not> ok then (Inl OA_RUNTIME_EIO, s1)
        else if \<not> safe_file_name (Some n) then scan_floor lib a ns best s1
        else case load_authenticated_at lib a n s1 of (Inl _, s2) \<Rightarrow> scan_floor lib a ns best s2
        | (Inr m, s2) \<Rightarrow>
            let revision = manifest_revision (md_config m); digest = content_digest m in
            if revision > fst best then scan_floor lib a ns (revision, digest) s2
            else if revision = fst best \<and> snd best \<noteq> [] \<and> digest \<noteq> snd best then (Inl OA_RUNTIME_ESTALE, s2)
            else if revision = fst best \<and> snd best = [] then scan_floor lib a ns (revision, digest) s2
            else scan_floor lib a ns best s2)"

definition refresh_revision_floor ::
  "model_lib \<Rightarrow> persistence_authority \<Rightarrow> disk \<Rightarrow> (runtime_status \<times> persistence_authority) \<times> disk" where
  "refresh_revision_floor lib a s =
     (case open_scan s of (opened, s1) \<Rightarrow>
      if \<not> opened then ((OA_RUNTIME_EIO, a), s1)
      else case scan_floor lib a (map fst (entries s1)) (accepted_revision_floor a, accepted_revision_digest a) s1 of (r, s2) \<Rightarrow>
      case attempt s2 of (shut, s3) \<Rightarrow>
      (case r of Inl st \<Rightarrow> ((st, a), s3)
       | Inr best \<Rightarrow>
           if \<not> shut then ((OA_RUNTIME_EIO, a), s3)
           else ((OA_RUNTIME_OK, a\<lparr>accepted_revision_floor := fst best, accepted_revision_digest := snd best\<rparr>), s3)))"

definition accept_revision ::
  "persistence_authority \<Rightarrow> manifest_data \<Rightarrow> string \<Rightarrow> bool \<Rightarrow> runtime_status \<times> persistence_authority" where
  "accept_revision a m name advancing =
     (let revision = manifest_revision (md_config m); digest = content_digest m;
          found = map_of (accepted_artifacts a) name in
      if revision < accepted_revision_floor a then (OA_RUNTIME_ESTALE, a)
      else if revision = accepted_revision_floor a \<and> accepted_revision_digest a \<noteq> []
        \<and> digest \<noteq> accepted_revision_digest a then (OA_RUNTIME_ESTALE, a)
      else if (case found of None \<Rightarrow> False
               | Some (r, d) \<Rightarrow> revision < r \<or> (revision = r \<and> digest \<noteq> d)) then (OA_RUNTIME_ESTALE, a)
      else if \<not> advancing then (OA_RUNTIME_OK, a)
      else
        let a1 = (if revision > accepted_revision_floor a \<or> accepted_revision_digest a = []
                  then a\<lparr>accepted_revision_floor := revision, accepted_revision_digest := digest\<rparr> else a)
        in (OA_RUNTIME_OK, a1\<lparr>accepted_artifacts := AList.update name (revision, digest) (accepted_artifacts a1)\<rparr>))"

section \<open>Installing a revision\<close>

definition signed_copy :: "zero_signs \<Rightarrow> persistence_authority \<Rightarrow> manifest_data \<Rightarrow> manifest_data" where
  "signed_copy neg a m =
     m\<lparr>content_digest := sha256_text (manifest_canonical neg m False),
       integrity_kind := OA_RUNTIME_INTEGRITY_HMAC_SHA256, authenticated := True,
       authentication_key_id := pa_key_id a\<rparr>"

definition build_signed_v2 ::
  "zero_signs \<Rightarrow> persistence_authority \<Rightarrow> manifest_data \<Rightarrow> string \<Rightarrow> manifest_data \<times> string" where
  "build_signed_v2 neg a m slot_name =
     (let copy = (signed_copy neg a m)\<lparr>checkpoint_authorized := True, authentication_version := 2\<rparr>;
          payload = manifest_canonical neg copy True;
          tag = sign_text a (slot_authentication_input a slot_name payload)
      in (copy\<lparr>authentication_tag := tag\<rparr>, payload @ ''hmac-sha256-v2|'' @ pa_key_id a @ ''|'' @ tag @ [NEWLINE]))"

definition build_signed_v1 :: "zero_signs \<Rightarrow> persistence_authority \<Rightarrow> manifest_data \<Rightarrow> manifest_data \<times> string" where
  "build_signed_v1 neg a m =
     (let copy = signed_copy neg a m; content = manifest_canonical neg copy True; tag = sign_text a content
      in (copy\<lparr>authentication_tag := tag\<rparr>, content @ ''hmac-sha256|'' @ pa_key_id a @ ''|'' @ tag @ [NEWLINE]))"

definition same_revision :: "manifest_data \<Rightarrow> manifest_data \<Rightarrow> bool" where
  "same_revision m d \<longleftrightarrow>
     content_digest m = content_digest d \<and> manifest_revision (md_config m) = manifest_revision (md_config d)"

definition unlink_quietly :: "string \<Rightarrow> disk \<Rightarrow> disk" where
  "unlink_quietly name s = snd (sys_unlinkat name s)"

text \<open>The old revision, read and authenticated once more, is written to a file of its own beside it.\<close>

definition retain_previous ::
  "model_lib \<Rightarrow> persistence_authority \<Rightarrow> string \<Rightarrow> string \<Rightarrow> string \<Rightarrow> manifest_data \<Rightarrow> disk \<Rightarrow> runtime_status \<times> disk" where
  "retain_previous lib a file backup previous expected s =
     (case read_file_at file s of (Inl st, s1) \<Rightarrow> (st, s1)
      | (Inr t, s1) \<Rightarrow>
      (case authenticate_text_v2 lib a file t s1 of (Inl st, s2) \<Rightarrow> (st, s2)
       | (Inr m, s2) \<Rightarrow>
         if \<not> same_revision m expected then (OA_RUNTIME_ESTALE, s2)
         else case write_new_file True backup t s2 of (written, s3) \<Rightarrow>
         if \<not> written then (OA_RUNTIME_EIO, s3)
         else case sys_renameat backup previous s3 of (renamed, s4) \<Rightarrow>
         if \<not> renamed then (OA_RUNTIME_EIO, unlink_quietly backup s4)
         else case sys_unlinkat backup s4 of ((gone, missing), s5) \<Rightarrow>
         if \<not> gone \<and> \<not> missing then (OA_RUNTIME_EIO, unlink_quietly backup s5)
         else case sys_fsync_directory s5 of (synced, s6) \<Rightarrow>
         if \<not> synced then (OA_RUNTIME_EIO, unlink_quietly backup s6) else (OA_RUNTIME_OK, s6)))"

definition roll_back :: "bool \<Rightarrow> string \<Rightarrow> string \<Rightarrow> disk \<Rightarrow> bool \<times> disk" where
  "roll_back target_exists previous file s =
     (case (if target_exists then sys_renameat previous file s
            else case sys_unlinkat file s of ((gone, _), s1) \<Rightarrow> (gone, s1)) of (rolled, s1) \<Rightarrow>
      if \<not> rolled then (False, s1) else sys_fsync_directory s1)"

text \<open>What follows the rename: the new file is read back, and the directory synced.\<close>

definition confirm_install ::
  "model_lib \<Rightarrow> persistence_authority \<Rightarrow> string \<Rightarrow> string \<Rightarrow> manifest_data \<Rightarrow> bool \<Rightarrow> disk
     \<Rightarrow> (runtime_status \<times> persistence_authority) \<times> disk" where
  "confirm_install lib a file previous copy target_exists s =
     (case load_authenticated_at_v2 lib a file file s of (verification, s1) \<Rightarrow>
      if (case verification of Inl _ \<Rightarrow> True | Inr m \<Rightarrow> \<not> same_revision m copy)
      then (case roll_back target_exists previous file s1 of (rolled, s2) \<Rightarrow>
              if rolled then ((case verification of Inl st \<Rightarrow> st | Inr _ \<Rightarrow> OA_RUNTIME_EIO, a), s2)
              else ((OA_RUNTIME_EDURABILITY, a\<lparr>poisoned := True\<rparr>), s2))
      else case sys_fsync_directory s1 of (synced, s2) \<Rightarrow>
        if synced then ((OA_RUNTIME_OK, a), s2)
        else case roll_back target_exists previous file s2 of (rolled, s3) \<Rightarrow>
          if rolled then ((OA_RUNTIME_EIO, a), s3) else ((OA_RUNTIME_EDURABILITY, a\<lparr>poisoned := True\<rparr>), s3))"

definition unique_suffix :: "nat \<Rightarrow> u64 \<Rightarrow> string" where
  "unique_suffix pid sequence = decimal pid @ ''-'' @ decimal (unat sequence)"

definition install_signed_v2 ::
  "model_lib \<Rightarrow> nat \<Rightarrow> persistence_authority \<Rightarrow> string \<Rightarrow> manifest_data \<Rightarrow> string \<Rightarrow> manifest_data option \<Rightarrow> disk
     \<Rightarrow> (runtime_status \<times> persistence_authority) \<times> disk" where
  "install_signed_v2 lib pid a file copy contents expected_current s =
     (let suffix = unique_suffix pid (install_sequence s); temporary = ''.openarm-runtime-'' @ suffix; backup = ''.openarm-prior-'' @ suffix;
          previous = file @ previous_suffix; target_exists = (expected_current \<noteq> None) in
      case write_new_file True temporary contents (s\<lparr>install_sequence := install_sequence s + 1\<rparr>) of (written, s1) \<Rightarrow>
      if \<not> written then ((OA_RUNTIME_EIO, a), s1)
      else case (case expected_current of None \<Rightarrow> (OA_RUNTIME_OK, s1)
                 | Some m \<Rightarrow> retain_previous lib a file backup previous m s1) of (st, s2) \<Rightarrow>
      if st \<noteq> OA_RUNTIME_OK then ((st, a), unlink_quietly temporary s2)
      else case sys_renameat temporary file s2 of (renamed, s3) \<Rightarrow>
      if \<not> renamed then ((OA_RUNTIME_EIO, a), unlink_quietly temporary s3)
      else confirm_install lib a file previous copy target_exists s3)"

text \<open>The first protocol keeps the old revision by a hard link.\<close>

definition link_previous :: "string \<Rightarrow> string \<Rightarrow> string \<Rightarrow> disk \<Rightarrow> bool \<times> disk" where
  "link_previous file backup previous s =
     (case sys_linkat file backup s of (linked, s1) \<Rightarrow>
      if \<not> linked then (False, s1)
      else case sys_renameat backup previous s1 of (renamed, s2) \<Rightarrow>
      if \<not> renamed then (False, s2) else sys_fsync_directory s2)"

definition confirm_install_v1 ::
  "model_lib \<Rightarrow> persistence_authority \<Rightarrow> string \<Rightarrow> string \<Rightarrow> manifest_data \<Rightarrow> bool \<Rightarrow> disk
     \<Rightarrow> (runtime_status \<times> persistence_authority) \<times> disk" where
  "confirm_install_v1 lib a file previous copy target_exists s =
     (let accepted = snd (accept_revision a copy file True) in
      case load_authenticated_at lib a file s of (verification, s1) \<Rightarrow>
      if (case verification of Inl _ \<Rightarrow> True | Inr m \<Rightarrow> \<not> same_revision m copy)
      then (case roll_back target_exists previous file s1 of (rolled, s2) \<Rightarrow>
              if rolled then ((case verification of Inl st \<Rightarrow> st | Inr _ \<Rightarrow> OA_RUNTIME_EIO, a), s2)
              else ((OA_RUNTIME_EDURABILITY, accepted), s2))
      else case sys_fsync_directory s1 of (synced, s2) \<Rightarrow>
        if synced then ((OA_RUNTIME_OK, accepted), s2)
        else case roll_back target_exists previous file s2 of (rolled, s3) \<Rightarrow>
          if rolled then ((OA_RUNTIME_EIO, a), s3) else ((OA_RUNTIME_EDURABILITY, accepted), s3))"

definition install_signed_v1 ::
  "model_lib \<Rightarrow> nat \<Rightarrow> persistence_authority \<Rightarrow> string \<Rightarrow> manifest_data \<Rightarrow> string \<Rightarrow> bool \<Rightarrow> disk
     \<Rightarrow> (runtime_status \<times> persistence_authority) \<times> disk" where
  "install_signed_v1 lib pid a file copy contents target_exists s =
     (let suffix = unique_suffix pid (save_sequence s); temporary = ''.openarm-runtime-'' @ suffix; backup = ''.openarm-prior-'' @ suffix;
          previous = file @ previous_suffix in
      case write_new_file False temporary contents (s\<lparr>save_sequence := save_sequence s + 1\<rparr>) of (written, s1) \<Rightarrow>
      if \<not> written then ((OA_RUNTIME_EIO, a), s1)
      else case (if target_exists then link_previous file backup previous s1 else (True, s1)) of (kept, s2) \<Rightarrow>
      if \<not> kept then ((OA_RUNTIME_EIO, a), unlink_quietly temporary (unlink_quietly backup s2))
      else case sys_renameat temporary file s2 of (renamed, s3) \<Rightarrow>
      if \<not> renamed then ((OA_RUNTIME_EIO, a), unlink_quietly temporary s3)
      else confirm_install_v1 lib a file previous copy target_exists s3)"

end
