(* ===== verification/Persistence_Api.thy ===== *)
theory Persistence_Api
  imports Persistence_Store
begin

text \<open>
  The exported calls of the runtime's persistence, runtime/src/persistence.cpp. Each call that works on
  a directory is one transaction on it, under the directory's lock, by an authority; the second
  protocol checks the caller's checkpoint before and returns the new one after.
\<close>

section \<open>The transactions\<close>

text \<open>What a transaction does after its lock is taken.\<close>

definition under_lock :: "(disk \<Rightarrow> (runtime_status + 'r) \<times> disk) \<Rightarrow> disk \<Rightarrow> (runtime_status + 'r) \<times> disk" where
  "under_lock body s =
     (case directory_transaction s of (locked, s1) \<Rightarrow>
      if \<not> locked then (Inl OA_RUNTIME_EIO, s1)
      else case cleanup_internal_artifacts s1 of (st, s2) \<Rightarrow>
        if st \<noteq> OA_RUNTIME_OK then (Inl st, s2) else body s2)"

definition load_checked ::
  "model_lib \<Rightarrow> persistence_authority \<Rightarrow> string \<Rightarrow> checkpoint \<Rightarrow> disk \<Rightarrow> (runtime_status + manifest_data) \<times> disk" where
  "load_checked lib a name c s =
     (case load_authenticated_at_v2 lib a name name s of (r, s1) \<Rightarrow>
        (case r of Inl st \<Rightarrow> Inl st
         | Inr m \<Rightarrow>
             if satisfies_floor m c \<noteq> OA_RUNTIME_OK then Inl (satisfies_floor m c)
             else Inr (m\<lparr>checkpoint_authorized := True\<rparr>), s1))"

definition load_transaction_v2 ::
  "model_lib \<Rightarrow> string \<Rightarrow> checkpoint \<Rightarrow> persistence_authority \<Rightarrow> disk
     \<Rightarrow> ((runtime_status + manifest_data) \<times> persistence_authority) \<times> disk" where
  "load_transaction_v2 lib name c a s =
     (case bind_v2_call a name c of (st, a1) \<Rightarrow>
      if st \<noteq> OA_RUNTIME_OK then ((Inl st, a1), s)
      else case under_lock (load_checked lib a1 name c) s of (r, s1) \<Rightarrow> ((r, a1), s1))"

text \<open>The current revision that a save finds, which must be the one the caller expects.\<close>

definition expected_current ::
  "model_lib \<Rightarrow> persistence_authority \<Rightarrow> string \<Rightarrow> checkpoint \<Rightarrow> disk \<Rightarrow> (runtime_status + manifest_data option) \<times> disk" where
  "expected_current lib a name c s =
     (case target_is_regular_or_absent name s of ((proper, target_exists), s1) \<Rightarrow>
      if \<not> proper then (Inl OA_RUNTIME_EPERMISSION, s1)
      else if \<not> target_exists
      then (if ck_revision c \<noteq> 0 then Inl OA_RUNTIME_ESTALE else Inr None, s1)
      else case load_authenticated_at_v2 lib a name name s1 of (r, s2) \<Rightarrow>
        (case r of Inl st \<Rightarrow> Inl st
         | Inr m \<Rightarrow> if exact_checkpoint m c then Inr (Some m) else Inl OA_RUNTIME_ESTALE, s2))"

definition store_revision ::
  "model_lib \<Rightarrow> zero_signs \<Rightarrow> nat \<Rightarrow> persistence_authority \<Rightarrow> manifest_data \<Rightarrow> string \<Rightarrow> checkpoint \<Rightarrow> manifest_data option
     \<Rightarrow> disk \<Rightarrow> ((runtime_status + checkpoint) \<times> persistence_authority) \<times> disk" where
  "store_revision lib neg pid a m name c current s =
     (case build_signed_v2 neg a m name of (copy, contents) \<Rightarrow>
      case (if current \<noteq> None \<and> exact_checkpoint copy c
            then (case sync_existing name s of (st, s1) \<Rightarrow> ((st, a), s1))
            else if manifest_revision (md_config copy) \<le> ck_revision c then ((OA_RUNTIME_ESTALE, a), s)
            else install_signed_v2 lib pid a name copy contents current s) of ((st, a1), s1) \<Rightarrow>
      ((if st \<noteq> OA_RUNTIME_OK then Inl st else Inr (fill_checkpoint copy), a1), s1))"

definition save_transaction_v2 ::
  "model_lib \<Rightarrow> zero_signs \<Rightarrow> nat \<Rightarrow> manifest_data \<Rightarrow> string \<Rightarrow> checkpoint \<Rightarrow> persistence_authority \<Rightarrow> disk
     \<Rightarrow> ((runtime_status + checkpoint) \<times> persistence_authority) \<times> disk" where
  "save_transaction_v2 lib neg pid m name c a s =
     (case bind_v2_call a name c of (st, a1) \<Rightarrow>
      if st \<noteq> OA_RUNTIME_OK then ((Inl st, a1), s)
      else case under_lock (expected_current lib a1 name c) s of
        (Inl st, s1) \<Rightarrow> ((Inl st, a1), s1)
      | (Inr current, s1) \<Rightarrow>
          (case store_revision lib neg pid a1 m name c current s1 of ((r, a2), s2) \<Rightarrow>
             ((r, case r of Inl _ \<Rightarrow> a2 | Inr committed \<Rightarrow> trust committed a2), s2)))"

section \<open>Recovery\<close>

datatype choice = Refuse runtime_status | Keep manifest_data | Promote manifest_data

definition accepted :: "runtime_status + manifest_data \<Rightarrow> checkpoint \<Rightarrow> manifest_data option" where
  "accepted r c =
     (case r of Inl _ \<Rightarrow> None | Inr m \<Rightarrow> if satisfies_floor m c = OA_RUNTIME_OK then Some m else None)"

definition nothing_accepted :: "runtime_status + manifest_data \<Rightarrow> runtime_status + manifest_data \<Rightarrow> runtime_status" where
  "nothing_accepted current previous =
     (case current of Inr _ \<Rightarrow> OA_RUNTIME_ESTALE
      | Inl st \<Rightarrow> (case previous of Inr _ \<Rightarrow> OA_RUNTIME_ESTALE
                | Inl st' \<Rightarrow> if st \<noteq> OA_RUNTIME_EIO then st else st'))"

text \<open>Of two copies of one revision the second is promoted when they are one file under two names.\<close>

definition choose_revision ::
  "string \<Rightarrow> string \<Rightarrow> checkpoint \<Rightarrow> runtime_status + manifest_data \<Rightarrow> runtime_status + manifest_data \<Rightarrow> disk \<Rightarrow> choice \<times> disk" where
  "choose_revision file previous c current prior s =
     (case (accepted current c, accepted prior c) of
        (None, None) \<Rightarrow> (Refuse (nothing_accepted current prior), s)
      | (Some m, None) \<Rightarrow> (Keep m, s)
      | (None, Some p) \<Rightarrow> (Promote p, s)
      | (Some m, Some p) \<Rightarrow>
          if manifest_revision (md_config p) > manifest_revision (md_config m) then (Promote p, s)
          else if manifest_revision (md_config p) = manifest_revision (md_config m) \<and> content_digest p \<noteq> content_digest m
          then (Refuse OA_RUNTIME_ESTALE, s)
          else if \<not> same_revision m p then (Keep m, s)
          else case sys_fstatat file s of ((n, _), s1) \<Rightarrow>
            (case n of None \<Rightarrow> (Refuse OA_RUNTIME_EIO, s1)
             | Some x \<Rightarrow>
                (case sys_fstatat previous s1 of ((n', _), s2) \<Rightarrow>
                   (case n' of None \<Rightarrow> Refuse OA_RUNTIME_EIO
                    | Some _ \<Rightarrow> if same_inode x n' then Promote p else Keep m, s2))))"

text \<open>The previous revision becomes the current one, through a synced file of its own.\<close>

definition promote_previous ::
  "model_lib \<Rightarrow> nat \<Rightarrow> persistence_authority \<Rightarrow> string \<Rightarrow> string \<Rightarrow> manifest_data \<Rightarrow> disk
     \<Rightarrow> ((runtime_status + manifest_data) \<times> persistence_authority) \<times> disk" where
  "promote_previous lib pid a file previous selected s =
     (case target_is_regular_or_absent file s of ((proper, _), s1) \<Rightarrow>
      if \<not> proper then ((Inl OA_RUNTIME_EPERMISSION, a), s1)
      else
      let temporary = ''.openarm-runtime-recovery-'' @ unique_suffix pid (recovery_sequence s1);
          s2 = s1\<lparr>recovery_sequence := recovery_sequence s1 + 1\<rparr> in
      case read_file_at previous s2 of (Inl st, s3) \<Rightarrow> ((Inl st, a), s3)
      | (Inr t, s3) \<Rightarrow>
      (case authenticate_text_v2 lib a file t s3 of (Inl st, s4) \<Rightarrow> ((Inl st, a), s4)
       | (Inr m, s4) \<Rightarrow>
         if \<not> same_revision m selected then ((Inl OA_RUNTIME_ESTALE, a), s4)
         else case write_new_file True temporary t s4 of (written, s5) \<Rightarrow>
         if \<not> written then ((Inl OA_RUNTIME_EIO, a), s5)
         else case sys_renameat temporary file s5 of (renamed, s6) \<Rightarrow>
         if \<not> renamed then ((Inl OA_RUNTIME_EIO, a), unlink_quietly temporary s6)
         else case load_authenticated_at_v2 lib a file file s6 of (verification, s7) \<Rightarrow>
         (case verification of Inl _ \<Rightarrow> ((Inl OA_RUNTIME_EDURABILITY, a\<lparr>poisoned := True\<rparr>), s7)
          | Inr verified \<Rightarrow>
              if \<not> same_revision verified selected then ((Inl OA_RUNTIME_EDURABILITY, a\<lparr>poisoned := True\<rparr>), s7)
              else case sys_fsync_directory s7 of (synced, s8) \<Rightarrow>
                if synced then ((Inr verified, a), s8)
                else ((Inl OA_RUNTIME_EDURABILITY, a\<lparr>poisoned := True\<rparr>), s8))))"

definition recover_body ::
  "model_lib \<Rightarrow> nat \<Rightarrow> persistence_authority \<Rightarrow> string \<Rightarrow> checkpoint \<Rightarrow> disk
     \<Rightarrow> ((runtime_status + manifest_data) \<times> persistence_authority) \<times> disk" where
  "recover_body lib pid a file c s =
     (let previous = file @ previous_suffix in
      case load_authenticated_at_v2 lib a file file s of (current, s1) \<Rightarrow>
      case load_authenticated_at_v2 lib a previous file s1 of (prior, s2) \<Rightarrow>
      case choose_revision file previous c current prior s2 of (ch, s3) \<Rightarrow>
      (case ch of Refuse st \<Rightarrow> ((Inl st, a), s3)
       | Promote m \<Rightarrow> promote_previous lib pid a file previous m s3
       | Keep m \<Rightarrow>
          (case sync_existing file s3 of (st, s4) \<Rightarrow>
             ((if st = OA_RUNTIME_OK then Inr m else if poisoned a then Inl OA_RUNTIME_EDURABILITY else Inl st, a), s4))))"

definition bind_recovery :: "persistence_authority \<Rightarrow> string \<Rightarrow> checkpoint \<Rightarrow> runtime_status \<times> persistence_authority" where
  "bind_recovery a name c =
     (if protocol_version a \<noteq> 2 then (OA_RUNTIME_EUNSUPPORTED, a)
      else case bind_name name a of None \<Rightarrow> (OA_RUNTIME_EIDENTITY, a)
      | Some a1 \<Rightarrow>
          (if below_trusted a1 c then (if poisoned a1 then OA_RUNTIME_EDURABILITY else OA_RUNTIME_ESTALE)
           else if poisoned a1 \<and> (ck_revision c \<noteq> trusted_revision a1 \<or> c_string (ck_content_sha256 c) \<noteq> trusted_digest a1)
           then OA_RUNTIME_EDURABILITY else OA_RUNTIME_OK, a1))"

definition recover_transaction_v2 ::
  "model_lib \<Rightarrow> nat \<Rightarrow> string \<Rightarrow> checkpoint \<Rightarrow> persistence_authority \<Rightarrow> disk
     \<Rightarrow> ((runtime_status + manifest_data) \<times> persistence_authority) \<times> disk" where
  "recover_transaction_v2 lib pid name c a s =
     (case bind_recovery a name c of (st, a1) \<Rightarrow>
      if st \<noteq> OA_RUNTIME_OK then ((Inl st, a1), s)
      else case under_lock (\<lambda>s. (Inr (), s)) s of
        (Inl st, s1) \<Rightarrow> ((Inl st, a1), s1)
      | (Inr _, s1) \<Rightarrow>
          (case recover_body lib pid a1 name c s1 of ((r, a2), s2) \<Rightarrow>
             ((case r of Inl st \<Rightarrow> Inl st | Inr m \<Rightarrow> Inr (m\<lparr>checkpoint_authorized := True\<rparr>), a2), s2)))"

section \<open>The first protocol\<close>

definition load_transaction ::
  "model_lib \<Rightarrow> string \<Rightarrow> persistence_authority \<Rightarrow> disk
     \<Rightarrow> ((runtime_status + manifest_data) \<times> persistence_authority) \<times> disk" where
  "load_transaction lib name a s =
     (if protocol_version a \<noteq> 1 then ((Inl OA_RUNTIME_EUNSUPPORTED, a), s)
      else case directory_transaction s of (locked, s1) \<Rightarrow>
      if \<not> locked then ((Inl OA_RUNTIME_EIO, a), s1)
      else case refresh_revision_floor lib a s1 of ((st, a1), s2) \<Rightarrow>
      if st \<noteq> OA_RUNTIME_OK then ((Inl st, a1), s2)
      else case load_authenticated_at lib a1 name s2 of (r, s3) \<Rightarrow>
      (case r of Inl st \<Rightarrow> ((Inl st, a1), s3)
       | Inr m \<Rightarrow>
           if is_previous name then ((Inl OA_RUNTIME_ESTALE, a1), s3)
           else case accept_revision a1 m name True of (st, a2) \<Rightarrow>
             ((if st \<noteq> OA_RUNTIME_OK then Inl st else Inr m, a2), s3)))"

definition replaces :: "manifest_data \<Rightarrow> manifest_data \<Rightarrow> runtime_status option" where
  "replaces copy previous =
     (let r = manifest_revision (md_config copy); p = manifest_revision (md_config previous) in
      if p > r \<or> (p = r \<and> content_digest previous \<noteq> content_digest copy) then Some OA_RUNTIME_ESTALE
      else if p = r then Some OA_RUNTIME_OK else None)"

definition save_transaction ::
  "model_lib \<Rightarrow> zero_signs \<Rightarrow> nat \<Rightarrow> manifest_data \<Rightarrow> string \<Rightarrow> persistence_authority \<Rightarrow> disk
     \<Rightarrow> (runtime_status \<times> persistence_authority) \<times> disk" where
  "save_transaction lib neg pid m name a s =
     (if protocol_version a \<noteq> 1 then ((OA_RUNTIME_EUNSUPPORTED, a), s)
      else case directory_transaction s of (locked, s1) \<Rightarrow>
      if \<not> locked then ((OA_RUNTIME_EIO, a), s1)
      else case refresh_revision_floor lib a s1 of ((st, a1), s2) \<Rightarrow>
      if st \<noteq> OA_RUNTIME_OK then ((st, a1), s2)
      else case target_is_regular_or_absent name s2 of ((proper, target_exists), s3) \<Rightarrow>
      if \<not> proper then ((OA_RUNTIME_EPERMISSION, a1), s3)
      else case build_signed_v1 neg a1 m of (copy, contents) \<Rightarrow>
      case accept_revision a1 copy name False of (floor_status, _) \<Rightarrow>
      if floor_status \<noteq> OA_RUNTIME_OK then ((floor_status, a1), s3)
      else if \<not> target_exists then install_signed_v1 lib pid a1 name copy contents False s3
      else case load_authenticated_at lib a1 name s3 of (r, s4) \<Rightarrow>
        (case r of Inl st \<Rightarrow> ((st, a1), s4)
         | Inr previous \<Rightarrow>
            (case replaces copy previous of
               Some st \<Rightarrow> ((st, if st = OA_RUNTIME_OK then snd (accept_revision a1 copy name True) else a1), s4)
             | None \<Rightarrow> install_signed_v1 lib pid a1 name copy contents True s4)))"

end
