(* ===== verification/Persistence_Calls.thy ===== *)
theory Persistence_Calls
  imports Persistence_Api
begin

text \<open>
  The exported calls of runtime/src/persistence.cpp over the handles of the runtime: the facade, the
  authorities, and the directories of the machine by their numbers.
\<close>

record platform =
  world :: facade
  authorities :: "persistence_authority handle_registry"
  directories :: "nat \<Rightarrow> disk"
  counters :: "u64 \<times> u64 \<times> u64"

text \<open>A transaction sees its directory, the control library and the process's counters.\<close>

definition on_directory :: "nat \<Rightarrow> (disk \<Rightarrow> 'r \<times> disk) \<Rightarrow> platform \<Rightarrow> 'r \<times> platform" where
  "on_directory d body p =
     (case counters p of (i, j, k) \<Rightarrow>
      case body ((directories p d)\<lparr>library := control (world p), save_sequence := i, install_sequence := j,
                   recovery_sequence := k\<rparr>) of (r, s) \<Rightarrow>
      (r, p\<lparr>directories := (directories p)(d := s), world := (world p)\<lparr>control := library s\<rparr>,
           counters := (save_sequence s, install_sequence s, recovery_sequence s)\<rparr>))"

definition change_authority :: "u64 \<Rightarrow> (persistence_authority \<Rightarrow> persistence_authority) \<Rightarrow> platform \<Rightarrow> platform" where
  "change_authority h f p =
     (case registered (authorities p) h of None \<Rightarrow> p
      | Some a \<Rightarrow> p\<lparr>authorities := registry_update h (f a) (authorities p)\<rparr>)"

definition transact ::
  "u64 \<Rightarrow> persistence_authority \<Rightarrow> (persistence_authority \<Rightarrow> disk \<Rightarrow> ('r \<times> persistence_authority) \<times> disk)
     \<Rightarrow> platform \<Rightarrow> 'r \<times> platform" where
  "transact h a body p =
     (case on_directory (directory_fd a) (body a) p of ((r, a1), p1) \<Rightarrow>
        (r, p1\<lparr>authorities := registry_update h a1 (authorities p1)\<rparr>))"

definition register_manifest :: "bool \<Rightarrow> manifest_data \<Rightarrow> platform \<Rightarrow> u64 option \<times> platform" where
  "register_manifest no_node m p =
     (case registry_insert kManifestTag no_node m (manifest_handles (world p)) of (h, reg) \<Rightarrow>
        (h, p\<lparr>world := (world p)\<lparr>manifest_handles := reg\<rparr>\<rparr>))"

section \<open>Plain files\<close>

definition read_and_parse :: "model_lib \<Rightarrow> string \<Rightarrow> disk \<Rightarrow> (runtime_status + manifest_data) \<times> disk" where
  "read_and_parse lib name s =
     (case read_file_at name s of (Inl st, s1) \<Rightarrow> (Inl st, s1) | (Inr t, s1) \<Rightarrow> parse_on_disk lib t s1)"

text \<open>\<open>read_file\<close> and the reader, for the file at a path.\<close>

definition read_file ::
  "model_lib \<Rightarrow> path_answers \<Rightarrow> string pointer \<Rightarrow> platform \<Rightarrow> (runtime_status + manifest_data) \<times> platform" where
  "read_file lib fs path p =
     (case absolute_regular_path fs path of None \<Rightarrow> (Inl OA_RUNTIME_EPERMISSION, p)
      | Some (d, name) \<Rightarrow>
          (case path_open fs d of None \<Rightarrow> (Inl OA_RUNTIME_EIO, p)
           | Some n \<Rightarrow> on_directory n (read_and_parse lib name) p))"

definition oa_runtime_manifest_load ::
  "model_lib \<Rightarrow> path_answers \<Rightarrow> bool \<Rightarrow> string pointer \<Rightarrow> u64 pointer \<Rightarrow> platform \<Rightarrow> runtime_status \<times> u64 pointer \<times> platform" where
  "oa_runtime_manifest_load lib fs no_node path out p =
     (if out = None then (OA_RUNTIME_EINVAL, out, p)
      else case read_file lib fs path p of (Inl st, p1) \<Rightarrow> (st, Some 0, p1)
      | (Inr m, p1) \<Rightarrow>
          (case register_manifest no_node (m\<lparr>authenticated := False, loaded_from_file := True\<rparr>) p1 of
             (None, p2) \<Rightarrow> (OA_RUNTIME_ENOMEM, Some 0, p2) | (Some h, p2) \<Rightarrow> (OA_RUNTIME_OK, Some h, p2)))"

definition oa_runtime_manifest_preview_file ::
  "model_lib \<Rightarrow> path_answers \<Rightarrow> string pointer \<Rightarrow> manifest_preview pointer \<Rightarrow> platform
     \<Rightarrow> runtime_status \<times> manifest_preview pointer \<times> platform" where
  "oa_runtime_manifest_preview_file lib fs path out p =
     (if \<not> output_valid SIZEOF_MANIFEST_PREVIEW out then (OA_RUNTIME_EABI, out, p)
      else case read_file lib fs path p of (Inl st, p1) \<Rightarrow> (st, out, p1)
      | (Inr m, p1) \<Rightarrow>
          (OA_RUNTIME_OK, Some (empty_preview\<lparr>pv_valid := 1,
             would_be_armable := (if md_state m = OA_RUNTIME_MANIFEST_ARMABLE then 1 else 0),
             base_revision := manifest_revision (md_config m), result_revision := manifest_revision (md_config m),
             validation_status := OA_RUNTIME_OK\<rparr>), p1))"

section \<open>Authorities\<close>

definition new_authority :: "nat \<Rightarrow> u8 list \<Rightarrow> string \<Rightarrow> persistence_authority" where
  "new_authority d key key_id =
     \<lparr>directory_fd = d, authentication_key = key, pa_key_id = key_id, protocol_version = 1, poisoned = False,
      trusted_revision = 0, trusted_digest = [], bound_file_name = [], accepted_revision_floor = 0,
      accepted_revision_digest = [], accepted_artifacts = []\<rparr>"

text \<open>The tests of key and directory that both forms of opening share; \<open>no_object\<close>: an allocation fails.\<close>

definition open_authority ::
  "path_answers \<Rightarrow> bool \<Rightarrow> bool \<Rightarrow> string pointer \<Rightarrow> u8 list pointer \<Rightarrow> string pointer
     \<Rightarrow> (persistence_authority \<Rightarrow> persistence_authority) \<Rightarrow> platform \<Rightarrow> runtime_status \<times> u64 pointer \<times> platform" where
  "open_authority fs no_object no_node directory key key_id prepare p =
     (if key = None \<or> \<not> safe_key_id key_id then (OA_RUNTIME_EINVAL, Some 0, p)
      else if list_all (\<lambda>b. b = 0) (the key) then (OA_RUNTIME_EPERMISSION, Some 0, p)
      else if no_object then (OA_RUNTIME_ENOMEM, Some 0, p)
      else case open_absolute_directory fs directory of None \<Rightarrow> (OA_RUNTIME_EPERMISSION, Some 0, p)
      | Some d \<Rightarrow>
          (case registry_insert kPersistenceTag no_node (prepare (new_authority d (the key) (the key_id))) (authorities p) of
             (None, reg) \<Rightarrow> (OA_RUNTIME_ENOMEM, Some 0, p\<lparr>authorities := reg\<rparr>)
           | (Some h, reg) \<Rightarrow> (OA_RUNTIME_OK, Some h, p\<lparr>authorities := reg\<rparr>)))"

definition oa_runtime_persistence_authority_create ::
  "path_answers \<Rightarrow> bool \<Rightarrow> bool \<Rightarrow> string pointer \<Rightarrow> u8 list pointer \<Rightarrow> string pointer \<Rightarrow> u64 pointer \<Rightarrow> platform
     \<Rightarrow> runtime_status \<times> u64 pointer \<times> platform" where
  "oa_runtime_persistence_authority_create fs no_object no_node directory key key_id out p =
     (if out = None then (OA_RUNTIME_EINVAL, out, p)
      else open_authority fs no_object no_node directory key key_id (\<lambda>a. a) p)"

definition oa_runtime_persistence_authority_open_v2 ::
  "path_answers \<Rightarrow> bool \<Rightarrow> bool \<Rightarrow> string pointer \<Rightarrow> u8 list pointer \<Rightarrow> string pointer \<Rightarrow> checkpoint pointer \<Rightarrow> u64 pointer
     \<Rightarrow> platform \<Rightarrow> runtime_status \<times> u64 pointer \<times> platform" where
  "oa_runtime_persistence_authority_open_v2 fs no_object no_node directory key key_id trusted out p =
     (if out = None then (OA_RUNTIME_EINVAL, out, p)
      else if checkpoint_status trusted \<noteq> OA_RUNTIME_OK then (checkpoint_status trusted, Some 0, p)
      else open_authority fs no_object no_node directory key key_id
        (\<lambda>a. trust (the trusted) (a\<lparr>protocol_version := 2\<rparr>)) p)"

definition oa_runtime_persistence_authority_destroy :: "u64 \<Rightarrow> platform \<Rightarrow> platform" where
  "oa_runtime_persistence_authority_destroy h p =
     p\<lparr>authorities := registry_drop kPersistenceTag h (authorities p)\<rparr>"

section \<open>The first protocol\<close>

definition oa_runtime_manifest_load_authenticated ::
  "model_lib \<Rightarrow> bool \<Rightarrow> u64 \<Rightarrow> string pointer \<Rightarrow> u64 pointer \<Rightarrow> platform \<Rightarrow> runtime_status \<times> u64 pointer \<times> platform" where
  "oa_runtime_manifest_load_authenticated lib no_node h file_name out p =
     (if out = None then (OA_RUNTIME_EINVAL, out, p)
      else case registry_pin kPersistenceTag h (authorities p) of None \<Rightarrow> (OA_RUNTIME_EINVAL, Some 0, p)
      | Some a \<Rightarrow>
          if \<not> safe_file_name file_name then (OA_RUNTIME_EINVAL, Some 0, p)
          else case transact h a (load_transaction lib (the file_name)) p of (Inl st, p1) \<Rightarrow> (st, Some 0, p1)
          | (Inr m, p1) \<Rightarrow>
              (case register_manifest no_node m p1 of (None, p2) \<Rightarrow> (OA_RUNTIME_ENOMEM, Some 0, p2)
               | (Some mh, p2) \<Rightarrow> (OA_RUNTIME_OK, Some mh, p2)))"

definition oa_runtime_manifest_save ::
  "model_lib \<Rightarrow> zero_signs \<Rightarrow> nat \<Rightarrow> u64 \<Rightarrow> u64 \<Rightarrow> string pointer \<Rightarrow> platform \<Rightarrow> runtime_status \<times> platform" where
  "oa_runtime_manifest_save lib neg pid manifest h file_name p =
     (case (registry_pin kManifestTag manifest (manifest_handles (world p)), registry_pin kPersistenceTag h (authorities p)) of
        (Some m, Some a) \<Rightarrow>
          if \<not> safe_file_name file_name then (OA_RUNTIME_EINVAL, p)
          else transact h a (save_transaction lib neg pid m (the file_name)) p
      | _ \<Rightarrow> (OA_RUNTIME_EINVAL, p))"

section \<open>The second protocol\<close>

text \<open>What load and recovery share: the outputs, the checkpoint, the name, and the handle at the end.\<close>

definition checked_manifest ::
  "(string \<Rightarrow> checkpoint \<Rightarrow> persistence_authority \<Rightarrow> disk \<Rightarrow> ((runtime_status + manifest_data) \<times> persistence_authority) \<times> disk)
     \<Rightarrow> (persistence_authority \<Rightarrow> persistence_authority) \<Rightarrow> bool \<Rightarrow> u64 \<Rightarrow> string pointer \<Rightarrow> checkpoint pointer \<Rightarrow> u64 pointer
     \<Rightarrow> checkpoint pointer \<Rightarrow> platform \<Rightarrow> runtime_status \<times> (u64 pointer \<times> checkpoint pointer) \<times> platform" where
  "checked_manifest body finish no_node h file_name trusted out observed p =
     (if out = None then (OA_RUNTIME_EINVAL, (out, observed), p)
      else if \<not> output_valid SIZEOF_CHECKPOINT observed then (OA_RUNTIME_EABI, (Some 0, observed), p)
      else case snapshot_checkpoint trusted observed of (st, observed1) \<Rightarrow>
      let none = (Some 0, observed1) in
      if st \<noteq> OA_RUNTIME_OK then (st, none, p)
      else if ck_revision (the trusted) = 0 then (OA_RUNTIME_EPERMISSION, none, p)
      else case registry_pin kPersistenceTag h (authorities p) of None \<Rightarrow> (OA_RUNTIME_EINVAL, none, p)
      | Some a \<Rightarrow>
          if \<not> safe_v2_file_name file_name then (OA_RUNTIME_EINVAL, none, p)
          else case transact h a (body (the file_name) (the trusted)) p of (Inl st, p1) \<Rightarrow> (st, none, p1)
          | (Inr m, p1) \<Rightarrow>
              (case register_manifest no_node m p1 of (None, p2) \<Rightarrow> (OA_RUNTIME_ENOMEM, none, p2)
               | (Some mh, p2) \<Rightarrow>
                   (OA_RUNTIME_OK, (Some mh, Some (fill_checkpoint m)),
                    change_authority h (\<lambda>a. finish (trust (fill_checkpoint m) a)) p2)))"

definition oa_runtime_manifest_load_authenticated_v2 ::
  "model_lib \<Rightarrow> bool \<Rightarrow> u64 \<Rightarrow> string pointer \<Rightarrow> checkpoint pointer \<Rightarrow> u64 pointer \<Rightarrow> checkpoint pointer \<Rightarrow> platform
     \<Rightarrow> runtime_status \<times> (u64 pointer \<times> checkpoint pointer) \<times> platform" where
  "oa_runtime_manifest_load_authenticated_v2 lib = checked_manifest (load_transaction_v2 lib) (\<lambda>a. a)"

definition oa_runtime_manifest_recover_v2 ::
  "model_lib \<Rightarrow> nat \<Rightarrow> bool \<Rightarrow> u64 \<Rightarrow> string pointer \<Rightarrow> checkpoint pointer \<Rightarrow> u64 pointer \<Rightarrow> checkpoint pointer \<Rightarrow> platform
     \<Rightarrow> runtime_status \<times> (u64 pointer \<times> checkpoint pointer) \<times> platform" where
  "oa_runtime_manifest_recover_v2 lib pid = checked_manifest (recover_transaction_v2 lib pid) (\<lambda>a. a\<lparr>poisoned := False\<rparr>)"

definition oa_runtime_manifest_save_v2 ::
  "model_lib \<Rightarrow> zero_signs \<Rightarrow> nat \<Rightarrow> u64 \<Rightarrow> u64 \<Rightarrow> string pointer \<Rightarrow> checkpoint pointer \<Rightarrow> checkpoint pointer \<Rightarrow> platform
     \<Rightarrow> runtime_status \<times> checkpoint pointer \<times> platform" where
  "oa_runtime_manifest_save_v2 lib neg pid manifest h file_name expected committed p =
     (if \<not> output_valid SIZEOF_CHECKPOINT committed then (OA_RUNTIME_EABI, committed, p)
      else case snapshot_checkpoint expected committed of (st, committed1) \<Rightarrow>
      if st \<noteq> OA_RUNTIME_OK then (st, committed1, p)
      else case (registry_pin kManifestTag manifest (manifest_handles (world p)), registry_pin kPersistenceTag h (authorities p)) of
        (Some m, Some a) \<Rightarrow>
          if \<not> safe_v2_file_name file_name then (OA_RUNTIME_EINVAL, committed1, p)
          else (case transact h a (save_transaction_v2 lib neg pid m (the file_name) (the expected)) p of
                  (Inl st, p1) \<Rightarrow> (st, committed1, p1)
                | (Inr c, p1) \<Rightarrow> (OA_RUNTIME_OK, Some c, p1))
      | _ \<Rightarrow> (OA_RUNTIME_EINVAL, committed1, p))"

end
