(* ===== verification/Persistence_Frame.thy ===== *)
theory Persistence_Frame
  imports Persistence_Calls
begin

text \<open>
  What the calls on a directory leave alone. A call \<open>keeps\<close> a name when neither its result nor any
  directory that it goes through has another entry there; the rules of \<open>keep_branches\<close> take a body
  apart along its cases, those of \<open>keep_calls\<close> close it at the calls of the operating system.
\<close>

named_theorems keep_branches
named_theorems keep_calls

definition inodes_below :: "disk \<Rightarrow> bool" where
  "inodes_below s \<longleftrightarrow> (\<forall>n i t b. map_of (entries s) n = Some (File i t b) \<longrightarrow> i < next_inode s)"

definition keeps :: "string \<Rightarrow> disk \<Rightarrow> disk \<Rightarrow> bool" where
  "keeps name s s' \<longleftrightarrow>
     map_of (entries s') name = map_of (entries s) name
     \<and> (\<exists>ds. trace s' = trace s @ ds \<and> (\<forall>d \<in> set ds. map_of d name = map_of (entries s) name))
     \<and> next_inode s \<le> next_inode s' \<and> (inodes_below s \<longrightarrow> inodes_below s')"

definition keeps_out :: "string \<Rightarrow> disk \<Rightarrow> 'r \<times> disk \<Rightarrow> bool" where
  "keeps_out name s out \<longleftrightarrow> keeps name s (snd out)"

lemma keeps_refl [simp, intro]: "keeps name s s"
  by (simp add: keeps_def)

lemma keeps_trans: "keeps name s s1 \<Longrightarrow> keeps name s1 s2 \<Longrightarrow> keeps name s s2"
  unfolding keeps_def by fastforce

lemma keeps_same:
  assumes "keeps name s s1" "entries s2 = entries s1" "trace s2 = trace s1" "next_inode s2 = next_inode s1"
  shows "keeps name s s2"
  using assms by (simp add: keeps_def inodes_below_def)

lemma keeps_set:
  assumes "keeps name s s1" "map_of d name = map_of (entries s1) name" "next_inode s1 \<le> next_inode s2"
    and "trace s2 = trace s1" "\<And>n i t b. map_of d n = Some (File i t b) \<Longrightarrow> inodes_below s1 \<Longrightarrow> i < next_inode s2"
  shows "keeps name s (set_entries d s2)"
proof (rule keeps_trans [OF assms(1)])
  show "keeps name s1 (set_entries d s2)"
    using assms(2-5) by (auto simp: keeps_def set_entries_def inodes_below_def)
qed

lemma keeps_out_end [keep_branches]: "keeps name s s1 \<Longrightarrow> keeps_out name s (r, s1)"
  by (simp add: keeps_out_def)

lemma keeps_out_if [keep_branches]:
  "(b \<Longrightarrow> keeps_out name s x) \<Longrightarrow> (\<not> b \<Longrightarrow> keeps_out name s y) \<Longrightarrow> keeps_out name s (if b then x else y)"
  by simp

lemma keeps_out_pair:
  "keeps_out name s p \<Longrightarrow> (\<And>r s1. p = (r, s1) \<Longrightarrow> keeps name s s1 \<Longrightarrow> keeps_out name s (f r s1))
    \<Longrightarrow> keeps_out name s (case p of (r, s1) \<Rightarrow> f r s1)"
  by (cases p) (simp add: keeps_out_def)

lemma keeps_out_pair2 [keep_branches]:
  "keeps_out name s p \<Longrightarrow> (\<And>r q s1. p = ((r, q), s1) \<Longrightarrow> keeps name s s1 \<Longrightarrow> keeps_out name s (f r q s1))
    \<Longrightarrow> keeps_out name s (case p of ((r, q), s1) \<Rightarrow> f r q s1)"
  by (cases p) (auto simp add: keeps_out_def split: prod.splits)

lemma keeps_out_option [keep_branches]:
  "(x = None \<Longrightarrow> keeps_out name s a) \<Longrightarrow> (\<And>y. x = Some y \<Longrightarrow> keeps_out name s (f y))
    \<Longrightarrow> keeps_out name s (case x of None \<Rightarrow> a | Some y \<Rightarrow> f y)"
  by (cases x) simp_all

lemma keeps_out_sum [keep_branches]:
  "(\<And>y. x = Inl y \<Longrightarrow> keeps_out name s (f y)) \<Longrightarrow> (\<And>y. x = Inr y \<Longrightarrow> keeps_out name s (g y))
    \<Longrightarrow> keeps_out name s (case x of Inl y \<Rightarrow> f y | Inr y \<Rightarrow> g y)"
  by (cases x) simp_all

lemma keeps_out_result [keep_branches]:
  "keeps_out name s p \<Longrightarrow> (\<And>y s1. p = (Inl y, s1) \<Longrightarrow> keeps name s s1 \<Longrightarrow> keeps_out name s (f y s1))
    \<Longrightarrow> (\<And>y s1. p = (Inr y, s1) \<Longrightarrow> keeps name s s1 \<Longrightarrow> keeps_out name s (g y s1))
    \<Longrightarrow> keeps_out name s (case p of (Inl y, s1) \<Rightarrow> f y s1 | (Inr y, s1) \<Rightarrow> g y s1)"
  by (cases p; cases "fst p") (auto simp add: keeps_out_def)

lemma keeps_out_node [keep_branches]:
  "(\<And>i t b. n = File i t b \<Longrightarrow> keeps_out name s (f i t b)) \<Longrightarrow> keeps_out name s x \<Longrightarrow> keeps_out name s y \<Longrightarrow> keeps_out name s z
    \<Longrightarrow> keeps_out name s (case n of File i t b \<Rightarrow> f i t b | Symlink \<Rightarrow> x | Directory \<Rightarrow> y | Special \<Rightarrow> z)"
  by (cases n) simp_all

lemma keeps_out_faults [keep_branches]:
  fixes p :: "'a \<times> fault list"
  shows "(\<And>x fs. keeps_out name s (f x fs)) \<Longrightarrow> keeps_out name s (case p of (x, fs) \<Rightarrow> f x fs)"
  by (cases p) simp

lemma keeps_out_moved [keep_branches]:
  fixes p :: "'a \<times> nat"
  shows "(\<And>x n. keeps_out name s (f x n)) \<Longrightarrow> keeps_out name s (case p of (x, n) \<Rightarrow> f x n)"
  by (cases p) simp

lemmas keep_body = keeps_out_pair keep_branches

lemma keeps_faults [keep_calls]: "keeps name s s1 \<Longrightarrow> keeps name s (s1\<lparr>faults := fs\<rparr>)"
  by (erule keeps_same) simp_all

lemma keeps_sequences [keep_calls]:
  "keeps name s s1 \<Longrightarrow> keeps name s (s1\<lparr>install_sequence := j\<rparr>)"
  "keeps name s s1 \<Longrightarrow> keeps name s (s1\<lparr>save_sequence := j\<rparr>)"
  "keeps name s s1 \<Longrightarrow> keeps name s (s1\<lparr>recovery_sequence := j\<rparr>)"
  by (erule keeps_same; simp)+

lemma keeps_attempt [keep_calls]:
  assumes "keeps name s s1"
  shows "keeps_out name s (attempt s1)"
  unfolding keeps_out_def
  by (rule keeps_same [OF assms]) (simp_all add: attempt_def next_fault_def split: list.splits prod.splits)

lemma keeps_sys_openat [keep_calls]: "keeps name s s1 \<Longrightarrow> keeps_out name s (sys_openat n s1)"
  unfolding sys_openat_def by (intro keep_body keep_calls)

lemma keeps_sys_fstatat [keep_calls]: "keeps name s s1 \<Longrightarrow> keeps_out name s (sys_fstatat n s1)"
  unfolding sys_fstatat_def by (intro keep_body keep_calls)

lemma keeps_sys_fsync_directory [keep_calls]: "keeps name s s1 \<Longrightarrow> keeps_out name s (sys_fsync_directory s1)"
  unfolding sys_fsync_directory_def by (intro keep_body keep_calls) (auto intro: keeps_same split: if_splits)

lemma keeps_sync_entry:
  assumes "keeps name s s1" "n \<noteq> name" "map_of (entries s1) n = Some (File i t b)"
  shows "keeps name s (s1\<lparr>entries := AList.update n (File i t True) (entries s1)\<rparr>)"
proof (rule keeps_trans [OF assms(1)])
  show "keeps name s1 (s1\<lparr>entries := AList.update n (File i t True) (entries s1)\<rparr>)"
    using assms(2,3) by (auto simp: keeps_def inodes_below_def update_conv' split: if_splits)
qed

lemma keeps_sys_fsync_file [keep_calls]:
  assumes "keeps name s s1" "n \<noteq> name"
  shows "keeps_out name s (sys_fsync_file n s1)"
  unfolding sys_fsync_file_def
  using assms by (intro keep_body keep_calls) (auto split: option.splits node.splits intro: keeps_sync_entry)

lemma keeps_sys_unlinkat [keep_calls]:
  assumes "keeps name s s1" "n \<noteq> name"
  shows "keeps_out name s (sys_unlinkat n s1)"
proof -
  have gone: "keeps name s (set_entries (AList.delete n (entries s2)) s2)" if "keeps name s s2" for s2
    using assms(2) that by (rule_tac keeps_set) (auto simp: delete_conv' inodes_below_def split: if_splits)
  show ?thesis unfolding sys_unlinkat_def
    using assms(1) by (intro keep_body keep_calls) (auto split: node.splits simp: keeps_out_def gone)
qed

lemma keeps_sys_renameat [keep_calls]:
  assumes "keeps name s s1" "n \<noteq> name" "m \<noteq> name"
  shows "keeps_out name s (sys_renameat n m s1)"
proof -
  have moved: "keeps name s (set_entries (AList.update m x (AList.delete n (entries s2))) s2)"
    if "keeps name s s2" "map_of (entries s2) n = Some x" for s2 x
    using assms(2,3) that by (rule_tac keeps_set) (auto simp: delete_conv' update_conv' inodes_below_def split: if_splits)
  show ?thesis unfolding sys_renameat_def
    using assms(1) by (intro keep_body keep_calls) (auto intro: moved)
qed

lemma keeps_sys_linkat [keep_calls]:
  assumes "keeps name s s1" "m \<noteq> name"
  shows "keeps_out name s (sys_linkat n m s1)"
proof -
  have linked: "keeps name s (set_entries (AList.update m (File i t b) (entries s2)) s2)"
    if "keeps name s s2" "map_of (entries s2) n = Some (File i t b)" for s2 i t b
    using assms(2) that by (rule_tac keeps_set) (auto simp: update_conv' inodes_below_def split: if_splits)
  show ?thesis unfolding sys_linkat_def
    using assms(1) by (intro keep_body keep_calls) (auto intro: linked)
qed

lemma keeps_create [keep_calls]:
  assumes "keeps name s s1" "n \<noteq> name"
  shows "keeps_out name s (create_exclusive n s1)"
proof -
  have created: "keeps name s (set_entries (AList.update n (File (next_inode s2) [] False) (entries s2))
      (s2\<lparr>next_inode := Suc (next_inode s2)\<rparr>))" if "keeps name s s2" for s2
    using assms(2) that
    by (rule_tac keeps_set) (auto simp: update_conv' inodes_below_def less_Suc_eq split: if_splits)
  show ?thesis unfolding create_exclusive_def
    using assms(1) by (intro keep_body keep_calls) (auto intro: created)
qed

lemma keeps_write [keep_calls]:
  assumes "keeps name s s1" "n \<noteq> name"
  shows "keeps_out name s (write_content retry n t s1)"
proof -
  have written: "keeps name s (set_entries (AList.update n (File i u False) (entries s1)) (s1\<lparr>faults := fs\<rparr>))"
    if "map_of (entries s1) n = Some (File i v b)" for i u v b fs
    using assms that by (rule_tac keeps_set [OF assms(1)]) (auto simp: update_conv' inodes_below_def split: if_splits)
  show ?thesis unfolding write_content_def
    using assms(1) by (auto simp: keeps_out_def split: prod.splits option.splits node.splits intro: written keep_calls)
qed

lemma keeps_unlink_quietly [keep_calls]:
  "keeps name s s1 \<Longrightarrow> n \<noteq> name \<Longrightarrow> keeps name s (unlink_quietly n s1)"
  unfolding unlink_quietly_def using keeps_sys_unlinkat unfolding keeps_out_def by blast

lemma keeps_write_new_file [keep_calls]:
  assumes "keeps name s s1" "n \<noteq> name"
  shows "keeps_out name s (write_new_file retry n t s1)"
  unfolding write_new_file_def unlink_quietly_def [symmetric] using assms by (intro keep_body keep_calls)

lemma keeps_read_file_at [keep_calls]: "keeps name s s1 \<Longrightarrow> keeps_out name s (read_file_at n s1)"
  unfolding read_file_at_def Let_def by (intro keep_body keep_calls)

lemma keeps_parse [keep_calls]:
  assumes "keeps name s s1"
  shows "keeps_out name s (parse_on_disk lib t s1)"
proof -
  have "keeps_out name s (attempt s1)" using assms by (rule keep_calls)
  then show ?thesis unfolding parse_on_disk_def
    by (auto simp: keeps_out_def split: prod.splits intro: keeps_same)
qed

lemma keeps_authenticate [keep_calls]:
  "keeps name s s1 \<Longrightarrow> keeps_out name s (authenticate_text lib a t s1)"
  "keeps name s s1 \<Longrightarrow> keeps_out name s (authenticate_text_v2 lib a slot t s1)"
  unfolding authenticate_text_def authenticate_text_v2_def by (intro keep_body keep_calls; assumption)+

lemma keeps_load [keep_calls]:
  "keeps name s s1 \<Longrightarrow> keeps_out name s (load_authenticated_at lib a n s1)"
  "keeps name s s1 \<Longrightarrow> keeps_out name s (load_authenticated_at_v2 lib a n slot s1)"
  unfolding load_authenticated_at_def load_authenticated_at_v2_def by (intro keep_body keep_calls; assumption)+

lemma keeps_transaction [keep_calls]: "keeps name s s1 \<Longrightarrow> keeps_out name s (directory_transaction s1)"
  unfolding directory_transaction_def by (intro keep_body keep_calls)

lemma keeps_remove:
  assumes "\<not> internal_transaction_name name"
  shows "keeps name s s1 \<Longrightarrow> keeps_out name s (remove_artifacts ns removed s1)"
proof (induction ns arbitrary: removed s1)
  case Nil
  then show ?case by simp (intro keep_body keep_calls)
next
  case (Cons n ns)
  have "n \<noteq> name" if "internal_transaction_name n" using that assms by blast
  then show ?case using Cons unfolding remove_artifacts.simps by (intro keep_body keep_calls Cons.IH) auto
qed

lemma keeps_cleanup [keep_calls]:
  assumes "keeps name s s1" "\<not> internal_transaction_name name"
  shows "keeps_out name s (cleanup_internal_artifacts s1)"
  unfolding cleanup_internal_artifacts_def open_scan_def
  using assms by (intro keep_body keep_calls keeps_remove)

lemma keeps_target_test [keep_calls]: "keeps name s s1 \<Longrightarrow> keeps_out name s (target_is_regular_or_absent n s1)"
  unfolding target_is_regular_or_absent_def by (intro keep_body keep_calls)

lemma keeps_expected_current [keep_calls]: "keeps name s s1 \<Longrightarrow> keeps_out name s (expected_current lib a n c s1)"
  unfolding expected_current_def by (intro keep_body keep_calls)

lemma keeps_under_lock:
  assumes "\<not> internal_transaction_name name" "\<And>s1. keeps name s s1 \<Longrightarrow> keeps_out name s (body s1)"
  shows "keeps_out name s (under_lock body s)"
  unfolding under_lock_def using assms by (intro keep_body keep_calls keeps_refl) auto

lemma keeps_retain [keep_calls]:
  assumes "keeps name s s1" "backup \<noteq> name" "previous \<noteq> name"
  shows "keeps_out name s (retain_previous lib a file backup previous m s1)"
  unfolding retain_previous_def using assms by (intro keep_body keep_calls)

end
