(* ===== verification/Persistence_Install.thy ===== *)
theory Persistence_Install
  imports Persistence_Frame
begin

text \<open>
  The installation of a revision, followed to its end on every path: at each moment the file is the
  old one or the new one in full and on the disk, a failure restores the old one, and where even that
  cannot be confirmed the authority is poisoned.
\<close>

section \<open>What the calls do\<close>

lemma attempt_frame:
  assumes "attempt s = (ok, s1)"
  shows "entries s1 = entries s \<and> trace s1 = trace s \<and> next_inode s1 = next_inode s"
  using assms by (auto simp: attempt_def next_fault_def split: list.splits prod.splits)

lemma attempt_cases:
  obtains ok s1 where "attempt s = (ok, s1)" "entries s1 = entries s" "trace s1 = trace s" "next_inode s1 = next_inode s"
  using attempt_frame by (metis surj_pair)

lemma transfer_all: "transfer retry n fs = ((True, rest), fs') \<Longrightarrow> rest = 0"
  by (induction retry n fs rule: transfer.induct) (auto split: if_splits)

lemma written_file:
  assumes "write_new_file retry n t s = (True, s')"
  shows "map_of (entries s') n = Some (File (next_inode s) t True)" "next_inode s' = Suc (next_inode s)"
  using assms
  by (auto simp: write_new_file_def create_exclusive_def write_content_def sys_fsync_file_def set_entries_def
      update_conv' dest!: attempt_frame transfer_all split: prod.splits if_splits)

lemma read_content:
  assumes "read_file_at n s = (Inr t, s')"
  shows "\<exists>i b. map_of (entries s) n = Some (File i t b)"
  using assms
  by (auto simp: read_file_at_def sys_openat_def Let_def dest!: attempt_frame
      split: prod.splits option.splits node.splits if_splits)

lemma renamed_file:
  assumes "sys_renameat src target s = (True, s')" "map_of (entries s) src = Some (File i t b)"
    and "\<And>u c. map_of (entries s) target \<noteq> Some (File i u c)"
  shows "map_of (entries s') target = Some (File i t b)" "trace s' = trace s @ [entries s']"
    "src \<noteq> target \<Longrightarrow> map_of (entries s') src = None" "next_inode s' = next_inode s"
proof -
  have other: "\<not> same_inode (File i t b) (map_of (entries s) target)"
    using assms(3) by (cases "(File i t b, map_of (entries s) target)" rule: same_inode.cases) auto
  show "map_of (entries s') target = Some (File i t b)" "trace s' = trace s @ [entries s']"
    "src \<noteq> target \<Longrightarrow> map_of (entries s') src = None" "next_inode s' = next_inode s"
    using assms(1,2) other
    by (auto simp: sys_renameat_def set_entries_def update_conv' delete_conv' dest!: attempt_frame
        split: prod.splits option.splits if_splits)
qed

lemma not_renamed:
  assumes "sys_renameat src target s = (False, s')"
  shows "entries s' = entries s" "trace s' = trace s"
  using assms by (auto simp: sys_renameat_def dest!: attempt_frame split: prod.splits option.splits if_splits)

lemma directory_synced:
  assumes "sys_fsync_directory s = (ok, s')"
  shows "entries s' = entries s" "trace s' = trace s" "ok \<Longrightarrow> entries_synced s'"
  using assms by (auto simp: sys_fsync_directory_def dest!: attempt_frame split: prod.splits if_splits)

lemma unlinked_file:
  assumes "sys_unlinkat n s = ((gone, missing), s')"
  shows "gone \<Longrightarrow> map_of (entries s') n = None" "gone \<Longrightarrow> trace s' = trace s @ [entries s']"
    "\<not> gone \<Longrightarrow> entries s' = entries s \<and> trace s' = trace s"
  using assms
  by (auto simp: sys_unlinkat_def set_entries_def delete_conv' dest!: attempt_frame
      split: prod.splits option.splits node.splits if_splits)

text \<open>A failing call of another kind never reports lost durability.\<close>

lemma read_status: "read_file_at n s = (Inl st, s') \<Longrightarrow> st \<noteq> OA_RUNTIME_EDURABILITY \<and> st \<noteq> OA_RUNTIME_OK"
  by (auto simp: read_file_at_def Let_def split: prod.splits option.splits node.splits if_splits)

lemma authenticate_status:
  "authenticate_text_v2 lib a slot t s = (Inl st, s') \<Longrightarrow> st \<noteq> OA_RUNTIME_EDURABILITY \<and> st \<noteq> OA_RUNTIME_OK"
  by (auto simp: authenticate_text_v2_def parse_on_disk_def parse_manifest_def
      split: prod.splits sum.splits option.splits if_splits)

lemma load_status:
  "load_authenticated_at_v2 lib a n slot s = (Inl st, s') \<Longrightarrow> st \<noteq> OA_RUNTIME_EDURABILITY \<and> st \<noteq> OA_RUNTIME_OK"
  by (auto simp: load_authenticated_at_v2_def dest: read_status authenticate_status split: prod.splits sum.splits)

lemma keeps_pair: "keeps_out name s p \<Longrightarrow> p = (r, s') \<Longrightarrow> keeps name s s'"
  by (simp add: keeps_out_def)

lemma keepsD:
  assumes "keeps name s s'"
  shows "map_of (entries s') name = map_of (entries s) name" "next_inode s \<le> next_inode s'"
    "inodes_below s \<Longrightarrow> inodes_below s'"
  using assms by (auto simp: keeps_def)

section \<open>The moments of a file\<close>

definition old_entry :: "node option \<Rightarrow> node option \<Rightarrow> bool" where
  "old_entry old n \<longleftrightarrow> n = old \<or> (\<exists>i t j b. old = Some (File j t b) \<and> n = Some (File i t True))"

definition new_entry :: "string \<Rightarrow> node option \<Rightarrow> bool" where
  "new_entry contents n \<longleftrightarrow> (\<exists>i. n = Some (File i contents True))"

definition passes :: "string \<Rightarrow> node option \<Rightarrow> string \<Rightarrow> disk \<Rightarrow> disk \<Rightarrow> bool" where
  "passes name old contents s s' \<longleftrightarrow>
     (\<exists>ds. trace s' = trace s @ ds \<and> (\<forall>d \<in> set ds. old_entry old (map_of d name) \<or> new_entry contents (map_of d name)))"

lemma passes_trans: "passes name old c s s1 \<Longrightarrow> passes name old c s1 s2 \<Longrightarrow> passes name old c s s2"
  unfolding passes_def by fastforce

lemma passes_keeps:
  assumes "keeps name s s'" "old_entry old (map_of (entries s) name) \<or> new_entry contents (map_of (entries s) name)"
  shows "passes name old contents s s'"
  using assms by (auto simp: keeps_def passes_def)

lemma passes_same: "trace s' = trace s \<Longrightarrow> passes name old c s s'"
  by (simp add: passes_def)

lemma passes_step:
  assumes "trace s' = trace s @ [entries s']"
    and "old_entry old (map_of (entries s') name) \<or> new_entry c (map_of (entries s') name)"
  shows "passes name old c s s'"
  using assms by (simp add: passes_def)

text \<open>The rollback restores the old file, or says that it could not.\<close>

lemma roll_back_ends:
  assumes "roll_back target_exists previous file s = (rolled, s')" "new_entry c (map_of (entries s) file)"
    and "target_exists \<Longrightarrow> \<exists>i t j b. map_of (entries s) previous = Some (File i t True) \<and> old = Some (File j t b)
      \<and> (\<forall>u d. map_of (entries s) file \<noteq> Some (File i u d))"
    and "\<not> target_exists \<Longrightarrow> old = None"
  shows "passes file old c s s'" "rolled \<Longrightarrow> old_entry old (map_of (entries s') file)"
proof -
  define first where "first = (if target_exists then sys_renameat previous file s
      else case sys_unlinkat file s of ((gone, _), s1) \<Rightarrow> (gone, s1))"
  obtain ok s1 where f: "first = (ok, s1)" by fastforce
  have step: "passes file old c s s1 \<and> (ok \<longrightarrow> old_entry old (map_of (entries s1) file))"
  proof (cases target_exists)
    case True
    obtain i t j b where p: "map_of (entries s) previous = Some (File i t True)" "old = Some (File j t b)"
      "\<And>u d. map_of (entries s) file \<noteq> Some (File i u d)"
      using assms(3) [OF True] by blast
    show ?thesis
    proof (cases ok)
      case ok: True
      have r: "sys_renameat previous file s = (True, s1)" using f True ok by (simp add: first_def)
      have "old_entry old (map_of (entries s1) file)"
        using renamed_file(1) [OF r p(1,3)] p(2) by (auto simp: old_entry_def)
      then show ?thesis using renamed_file(2) [OF r p(1,3)] passes_step by blast
    next
      case False
      then have "sys_renameat previous file s = (False, s1)" using f True by (simp add: first_def)
      then show ?thesis using False by (simp add: passes_same not_renamed)
    qed
  next
    case False
    then obtain m where u: "sys_unlinkat file s = ((ok, m), s1)" using f by (auto simp: first_def split: prod.splits)
    show ?thesis
      using unlinked_file [OF u] assms(4) [OF False] by (cases ok) (auto simp: old_entry_def intro: passes_step passes_same)
  qed
  have "(if \<not> ok then (False, s1) else sys_fsync_directory s1) = (rolled, s')"
    using assms(1) f by (simp add: roll_back_def first_def)
  then show "passes file old c s s'" "rolled \<Longrightarrow> old_entry old (map_of (entries s') file)"
    using step by (auto dest: directory_synced split: if_splits intro: passes_trans [OF conjunct1 [OF step]] passes_same)
qed

lemma confirm_ends:
  assumes "confirm_install lib a file previous copy target_exists s = ((st, a'), s')" "new_entry c (map_of (entries s) file)"
    and "target_exists \<Longrightarrow> \<exists>i t j b. map_of (entries s) previous = Some (File i t True) \<and> old = Some (File j t b)
      \<and> (\<forall>u d. map_of (entries s) file \<noteq> Some (File i u d))"
    and "\<not> target_exists \<Longrightarrow> old = None"
  shows "passes file old c s s'"
    and "st = OA_RUNTIME_OK \<Longrightarrow> new_entry c (map_of (entries s') file) \<and> entries_synced s' \<and> a' = a"
    and "st \<noteq> OA_RUNTIME_OK \<Longrightarrow> st \<noteq> OA_RUNTIME_EDURABILITY \<Longrightarrow> old_entry old (map_of (entries s') file)"
    and "st = OA_RUNTIME_EDURABILITY \<Longrightarrow> a' = a\<lparr>poisoned := True\<rparr>"
proof -
  obtain v s1 where v: "load_authenticated_at_v2 lib a file file s = (v, s1)" by fastforce
  have kf: "keeps file s s1" using keeps_load(2) [OF keeps_refl] v by (rule keeps_pair)
  have kp: "keeps previous s s1" using keeps_load(2) [OF keeps_refl] v by (rule keeps_pair)
  have now: "new_entry c (map_of (entries s1) file)" using keepsD(1) [OF kf] assms(2) by simp
  have p1: "passes file old c s s1" using passes_keeps [OF kf] assms(2) by blast
  have exists1: "target_exists \<Longrightarrow> \<exists>i t j b. map_of (entries s1) previous = Some (File i t True) \<and> old = Some (File j t b)
      \<and> (\<forall>u d. map_of (entries s1) file \<noteq> Some (File i u d))"
    using assms(3) keepsD(1) [OF kf] keepsD(1) [OF kp] by simp
  obtain synced s2 where d: "sys_fsync_directory s1 = (synced, s2)" by fastforce
  note same2 = directory_synced [OF d]
  have now2: "new_entry c (map_of (entries s2) file)" using now same2(1) by simp
  have p2: "passes file old c s s2" using p1 passes_same [OF same2(2)] by (rule passes_trans)
  have exists2: "target_exists \<Longrightarrow> \<exists>i t j b. map_of (entries s2) previous = Some (File i t True) \<and> old = Some (File j t b)
      \<and> (\<forall>u d. map_of (entries s2) file \<noteq> Some (File i u d))"
    using exists1 same2(1) by simp
  define bad where "bad = (case v of Inl _ \<Rightarrow> True | Inr m \<Rightarrow> \<not> same_revision m copy)"
  have vst: "\<And>e. v = Inl e \<Longrightarrow> e \<noteq> OA_RUNTIME_EDURABILITY \<and> e \<noteq> OA_RUNTIME_OK" using load_status v by blast
  obtain r1 t1 where r1: "roll_back target_exists previous file s1 = (r1, t1)" by fastforce
  obtain r2 t2 where r2: "roll_back target_exists previous file s2 = (r2, t2)" by fastforce
  note e1 = roll_back_ends [OF r1 now exists1 assms(4)] and e2 = roll_back_ends [OF r2 now2 exists2 assms(4)]
  have def: "((st, a'), s') =
    (if bad then if r1 then ((case v of Inl st \<Rightarrow> st | Inr _ \<Rightarrow> OA_RUNTIME_EIO, a), t1)
                 else ((OA_RUNTIME_EDURABILITY, a\<lparr>poisoned := True\<rparr>), t1)
     else if synced then ((OA_RUNTIME_OK, a), s2)
     else if r2 then ((OA_RUNTIME_EIO, a), t2) else ((OA_RUNTIME_EDURABILITY, a\<lparr>poisoned := True\<rparr>), t2))"
    using assms(1) unfolding confirm_install_def v d prod.case r1 r2 bad_def [symmetric] by (rule sym)
  show "passes file old c s s'"
    using def p1 p2 e1(1) e2(1) by (auto intro: passes_trans split: if_splits)
  show "st = OA_RUNTIME_OK \<Longrightarrow> new_entry c (map_of (entries s') file) \<and> entries_synced s' \<and> a' = a"
    using def now2 same2(3) vst by (auto split: if_splits sum.splits)
  show "st \<noteq> OA_RUNTIME_OK \<Longrightarrow> st \<noteq> OA_RUNTIME_EDURABILITY \<Longrightarrow> old_entry old (map_of (entries s') file)"
    using def e1(2) e2(2) by (auto split: if_splits)
  show "st = OA_RUNTIME_EDURABILITY \<Longrightarrow> a' = a\<lparr>poisoned := True\<rparr>"
    using def vst by (auto split: if_splits sum.splits)
qed

end
