(* ===== verification/Persistence_Atomic.thy ===== *)
theory Persistence_Atomic
  imports Persistence_Install
begin

text \<open>
  A save under the second protocol from its lock to its end.
\<close>

section \<open>Names\<close>

lemma temporary_internal: "internal_transaction_name (''.openarm-runtime-'' @ t)" "internal_transaction_name (''.openarm-prior-'' @ t)"
  by (simp_all add: internal_transaction_name_def)

lemma last_suffix: "last (unique_suffix pid n) \<noteq> CHR ''s''"
proof -
  have "is_digit (last (decimal (unat n)))"
    using decimal_ok(2,3) [of "unat n"] by (simp add: list_all_iff)
  then show ?thesis using decimal_ok(3) by (auto simp: unique_suffix_def is_digit_def)
qed

lemma suffix_ne: "unique_suffix pid n \<noteq> []"
  by (simp add: unique_suffix_def)

lemma previous_not_internal:
  "f @ previous_suffix \<noteq> ''.openarm-runtime-'' @ unique_suffix pid n"
  "f @ previous_suffix \<noteq> ''.openarm-prior-'' @ unique_suffix pid n"
proof -
  have "last (f @ previous_suffix) = CHR ''s''" by (simp add: previous_suffix_def)
  moreover have "last (''.openarm-runtime-'' @ unique_suffix pid n) \<noteq> CHR ''s''"
    "last (''.openarm-prior-'' @ unique_suffix pid n) \<noteq> CHR ''s''"
    using last_suffix suffix_ne by (simp_all add: last_append)
  ultimately show "f @ previous_suffix \<noteq> ''.openarm-runtime-'' @ unique_suffix pid n"
    "f @ previous_suffix \<noteq> ''.openarm-prior-'' @ unique_suffix pid n" by metis+
qed

lemma previous_ne: "f @ previous_suffix \<noteq> f" "f \<noteq> f @ previous_suffix"
  by (simp_all add: previous_suffix_def)

section \<open>The revision that is kept\<close>

lemma retained:
  assumes "retain_previous lib a file backup previous m s = (OA_RUNTIME_OK, s')" "inodes_below s"
    and "backup \<noteq> previous" "backup \<noteq> file" "previous \<noteq> file"
  shows "\<exists>i t j b. map_of (entries s') previous = Some (File i t True) \<and> map_of (entries s) file = Some (File j t b)
    \<and> next_inode s \<le> i"
proof -
  obtain t s1 where read: "read_file_at file s = (Inr t, s1)"
    using assms(1) by (auto simp: retain_previous_def split: prod.splits sum.splits) (use read_status in blast)
  obtain r s2 where auth: "authenticate_text_v2 lib a file t s1 = (r, s2)" by fastforce
  obtain w s3 where wr: "write_new_file True backup t s2 = (w, s3)" by fastforce
  obtain re s4 where ren: "sys_renameat backup previous s3 = (re, s4)" by fastforce
  obtain g mi s5 where unl: "sys_unlinkat backup s4 = ((g, mi), s5)" by (metis prod.collapse)
  obtain sy s6 where sync: "sys_fsync_directory s5 = (sy, s6)" by fastforce
  have "r \<noteq> Inl OA_RUNTIME_OK" using authenticate_status auth by blast
  then have steps: w re sy "s' = s6"
    using assms(1) unfolding retain_previous_def read prod.case sum.case auth wr ren unl sync
    by (auto split: sum.splits if_splits)
  obtain j b where old: "map_of (entries s) file = Some (File j t b)" using read_content [OF read] by blast
  have k1: "keeps n s s1" for n using keeps_read_file_at [OF keeps_refl] read by (rule keeps_pair)
  have k2: "keeps n s1 s2" for n using keeps_authenticate(2) [OF keeps_refl] auth by (rule keeps_pair)
  have below: "inodes_below s2" and mono: "next_inode s \<le> next_inode s2"
    using keepsD(3) [OF k2] keepsD(3) [OF k1] assms(2) keepsD(2) [OF k2] keepsD(2) [OF k1] by (blast, linarith)
  note new = written_file [OF wr [unfolded eq_True [THEN iffD2, OF steps(1)]]]
  have kp: "keeps previous s2 s3" using keeps_write_new_file [OF keeps_refl assms(3)] wr by (rule keeps_pair)
  have other: "map_of (entries s3) previous \<noteq> Some (File (next_inode s2) u c)" for u c
    using below keepsD(1) [OF kp] by (auto simp: inodes_below_def)
  note mv = renamed_file [OF ren [unfolded eq_True [THEN iffD2, OF steps(2)]] new(1) other]
  have ku: "keeps previous s4 s5" using keeps_sys_unlinkat [OF keeps_refl assms(3)] unl by (rule keeps_pair)
  have "map_of (entries s') previous = Some (File (next_inode s2) t True)"
    using mv(1) keepsD(1) [OF ku] directory_synced(1) [OF sync] steps(4) by simp
  then show ?thesis using old mono by blast
qed

lemma retain_status:
  assumes "retain_previous lib a file backup previous m s = (st, s')"
  shows "st \<noteq> OA_RUNTIME_EDURABILITY"
  using assms
  by (auto simp: retain_previous_def dest: read_status authenticate_status split: prod.splits sum.splits if_splits)

section \<open>The installation\<close>

lemma keeps_install_sequence: "keeps n s (s\<lparr>install_sequence := j\<rparr>)"
  by (rule keeps_sequences(1)) simp

text \<open>What a call that ends with status \<open>st\<close> and authority \<open>a'\<close> has made of a file.\<close>

definition file_outcome :: "string \<Rightarrow> node option \<Rightarrow> string \<Rightarrow> runtime_status \<Rightarrow> persistence_authority \<Rightarrow> disk \<Rightarrow> disk \<Rightarrow> bool" where
  "file_outcome name old contents st a' s s' \<longleftrightarrow>
     passes name old contents s s'
     \<and> (st = OA_RUNTIME_OK \<longrightarrow> new_entry contents (map_of (entries s') name) \<and> entries_synced s')
     \<and> (st \<noteq> OA_RUNTIME_OK \<longrightarrow> st \<noteq> OA_RUNTIME_EDURABILITY \<longrightarrow> old_entry old (map_of (entries s') name))
     \<and> (st = OA_RUNTIME_EDURABILITY \<longrightarrow> poisoned a')"

lemma outcome_kept:
  assumes "keeps name s s'" "st \<noteq> OA_RUNTIME_OK" "st \<noteq> OA_RUNTIME_EDURABILITY"
  shows "file_outcome name (map_of (entries s) name) contents st a' s s'"
  using assms passes_keeps [OF assms(1)] by (simp add: file_outcome_def old_entry_def keepsD(1))

lemma outcome_after:
  assumes "keeps name s s1" "file_outcome name (map_of (entries s) name) contents st a' s1 s'"
  shows "file_outcome name (map_of (entries s) name) contents st a' s s'"
  using assms passes_trans [OF passes_keeps [OF assms(1)]] by (simp add: file_outcome_def old_entry_def)

lemma keeps_not_renamed: "sys_renameat src target s = (False, s') \<Longrightarrow> keeps name s s'"
  by (rule keeps_same [OF keeps_refl])
    (auto simp: sys_renameat_def dest!: attempt_frame split: prod.splits option.splits if_splits)

lemma install_ends:
  assumes run: "install_signed_v2 lib pid a file copy contents current s = ((st, a'), s')"
    and name: "\<not> internal_transaction_name file" and below: "inodes_below s"
    and absent: "current = None \<Longrightarrow> map_of (entries s) file = None"
  shows "file_outcome file (map_of (entries s) file) contents st a' s s'"
proof -
  define temporary where "temporary = ''.openarm-runtime-'' @ unique_suffix pid (install_sequence s)"
  define backup where "backup = ''.openarm-prior-'' @ unique_suffix pid (install_sequence s)"
  define previous where "previous = file @ previous_suffix"
  note names = temporary_def backup_def previous_def
  have ne: "temporary \<noteq> file" "backup \<noteq> file" "previous \<noteq> file" "backup \<noteq> previous" "temporary \<noteq> previous"
    "backup \<noteq> temporary" "previous \<noteq> temporary"
    using temporary_internal name previous_not_internal [where f = "file" and pid = pid and n = "install_sequence s"] previous_ne [of "file"]
    unfolding names by (metis, metis, metis, metis, metis, simp, metis)
  define s0 where "s0 = s\<lparr>install_sequence := install_sequence s + 1\<rparr>"
  have k0: "keeps n s s0" for n unfolding s0_def by (rule keeps_install_sequence)
  obtain w s1 where wr: "write_new_file True temporary contents s0 = (w, s1)" by fastforce
  have k1: "keeps file s s1"
    using keeps_write_new_file [OF k0 ne(1)] wr by (rule keeps_pair)
  define keep where "keep = (case current of None \<Rightarrow> (OA_RUNTIME_OK, s1) | Some m \<Rightarrow> retain_previous lib a file backup previous m s1)"
  obtain rst s2 where ret: "keep = (rst, s2)" by fastforce
  have rst: "rst \<noteq> OA_RUNTIME_EDURABILITY"
    using ret retain_status by (auto simp: keep_def split: option.splits)
  have k12: "keeps n s1 s2" if "n \<noteq> backup" "n \<noteq> previous" for n
    using ret keeps_pair [OF keeps_retain [OF keeps_refl, of backup n previous s1 lib a "file"]] that
    by (auto simp: keep_def split: option.splits)
  have k2: "keeps file s s2" using k1 k12 [of "file"] ne by (metis keeps_trans)
  obtain re s3 where ren: "sys_renameat temporary file s2 = (re, s3)" by fastforce
  have run': "(if \<not> w then ((OA_RUNTIME_EIO, a), s1)
      else if rst \<noteq> OA_RUNTIME_OK then ((rst, a), unlink_quietly temporary s2)
      else if \<not> re then ((OA_RUNTIME_EIO, a), unlink_quietly temporary s3)
      else confirm_install lib a file previous copy (current \<noteq> None) s3) = ((st, a'), s')"
    using run unfolding install_signed_v2_def Let_def names [symmetric] s0_def [symmetric] wr prod.case keep_def [symmetric] ret ren .
  show ?thesis
  proof (cases "w \<and> rst = OA_RUNTIME_OK \<and> re")
    case True
    then have w: w and r: "rst = OA_RUNTIME_OK" and re: re by auto
    note new = written_file [OF wr [unfolded eq_True [THEN iffD2, OF w]]]
    have here: "map_of (entries s2) temporary = Some (File (next_inode s0) contents True)"
      using keepsD(1) [OF k12 [of temporary]] ne new(1) by auto
    have i0: "next_inode s0 = next_inode s" by (simp add: s0_def)
    have other: "map_of (entries s2) file \<noteq> Some (File (next_inode s0) u c)" for u c
      using below keepsD(1) [OF k2] i0 by (auto simp: inodes_below_def)
    note mv = renamed_file [OF ren [unfolded eq_True [THEN iffD2, OF re]] here other]
    have kept: "\<exists>i t j b. map_of (entries s3) previous = Some (File i t True) \<and> map_of (entries s) file = Some (File j t b)
        \<and> (\<forall>u d. map_of (entries s3) file \<noteq> Some (File i u d))" if some: "current \<noteq> None"
    proof -
      obtain m where m: "current = Some m" using some by blast
      have below1: "inodes_below s1" using keepsD(3) [OF k1] below by blast
      obtain i t j b where p: "map_of (entries s2) previous = Some (File i t True)"
        "map_of (entries s1) file = Some (File j t b)" "next_inode s1 \<le> i"
        using retained [of lib a "file" backup previous m s1 s2] ret r m below1 ne by (auto simp: keep_def)
      have "keeps previous s2 s3"
        using keeps_sys_renameat [OF keeps_refl ne(5) ne(3) [symmetric]] ren by (rule keeps_pair)
      then show ?thesis
        using p mv(1) new(2) keepsD(1) [of previous s2 s3] keepsD(1) [OF k1] by auto
    qed
    have now: "new_entry contents (map_of (entries s3) file)" using mv(1) by (auto simp: new_entry_def)
    have c: "confirm_install lib a file previous copy (current \<noteq> None) s3 = ((st, a'), s')"
      using run' w r re by simp
    have old: "\<not> current \<noteq> None \<Longrightarrow> map_of (entries s) file = None" using absent by simp
    note ends = confirm_ends [OF c now kept old]
    have "passes file (map_of (entries s) file) contents s s3"
      using passes_trans [OF passes_keeps [OF k2] passes_step [OF mv(2)]] now by (simp add: old_entry_def)
    then show ?thesis
      using ends passes_trans unfolding file_outcome_def by auto
  next
    case False
    have k3: "keeps file s s3" if "\<not> re"
      using keeps_trans [OF k2 keeps_not_renamed] ren that by simp
    have "keeps file s s' \<and> st \<noteq> OA_RUNTIME_OK \<and> st \<noteq> OA_RUNTIME_EDURABILITY"
      using run' False k1 k3 keeps_unlink_quietly [OF k2 ne(1)] keeps_unlink_quietly [OF k3 ne(1)] rst
      by (auto split: if_splits)
    then show ?thesis by (blast intro: outcome_kept)
  qed
qed

section \<open>The save\<close>

lemma expected_absent:
  assumes "expected_current lib a name c s = (Inr None, s')"
  shows "map_of (entries s') name = None"
  using assms
  by (auto simp: expected_current_def target_is_regular_or_absent_def sys_fstatat_def dest!: attempt_frame
      split: prod.splits option.splits sum.splits if_splits)

lemma expected_present:
  assumes "expected_current lib a name c s = (Inr (Some m), s')"
  obtains s1 where "load_authenticated_at_v2 lib a name name s1 = (Inr m, s')" "exact_checkpoint m c"
    "entries s1 = entries s"
  using assms
  by (auto simp: expected_current_def target_is_regular_or_absent_def sys_fstatat_def dest!: attempt_frame
      split: prod.splits option.splits sum.splits if_splits)

lemma expected_status:
  assumes "expected_current lib a name c s = (Inl st, s')"
  shows "st \<noteq> OA_RUNTIME_EDURABILITY \<and> st \<noteq> OA_RUNTIME_OK"
  using assms by (auto simp: expected_current_def dest: load_status split: prod.splits sum.splits if_splits)

lemma cleanup_status: "cleanup_internal_artifacts s = (st, s') \<Longrightarrow> st = OA_RUNTIME_OK \<or> st = OA_RUNTIME_EIO"
  by (auto simp: cleanup_internal_artifacts_def split: prod.splits if_splits)

lemma locked_expected:
  assumes "under_lock (expected_current lib a name c) s = (r, s')" "\<not> internal_transaction_name name"
  shows "keeps name s s'"
    and "r = Inr None \<Longrightarrow> map_of (entries s') name = None"
    and "r = Inl st \<Longrightarrow> st \<noteq> OA_RUNTIME_EDURABILITY \<and> st \<noteq> OA_RUNTIME_OK"
    and "r = Inr (Some m) \<Longrightarrow> exact_checkpoint m c"
proof -
  show "keeps name s s'"
    using keeps_under_lock [OF assms(2) keeps_expected_current] assms(1) by (rule keeps_pair)
  show "r = Inr None \<Longrightarrow> map_of (entries s') name = None"
    "r = Inl st \<Longrightarrow> st \<noteq> OA_RUNTIME_EDURABILITY \<and> st \<noteq> OA_RUNTIME_OK" "r = Inr (Some m) \<Longrightarrow> exact_checkpoint m c"
    using assms(1)
    by (auto simp: under_lock_def dest: cleanup_status expected_absent expected_status elim: expected_present
        split: prod.splits if_splits)
qed

lemma directory_frame:
  assumes "sys_fsync_directory s = (ok, s')"
  shows "entries s' = entries s \<and> trace s' = trace s \<and> (ok \<longrightarrow> entries_synced s')"
  using directory_synced [OF assms] by blast

lemma sync_existing_ends:
  assumes "sync_existing name s = (st, s')"
  shows "trace s' = trace s" "st = OA_RUNTIME_OK \<or> st = OA_RUNTIME_EIO"
    "\<exists>i t b b'. map_of (entries s') name = map_of (entries s) name
       \<or> map_of (entries s) name = Some (File i t b) \<and> map_of (entries s') name = Some (File i t True)"
    "st = OA_RUNTIME_OK \<Longrightarrow> entries_synced s' \<and> (\<exists>i t b. map_of (entries s) name = Some (File i t b)
        \<and> map_of (entries s') name = Some (File i t True))"
  using assms
  by (auto simp: sync_existing_def sys_openat_def sys_fsync_file_def update_conv' dest!: attempt_frame directory_frame
      split: prod.splits option.splits node.splits if_splits)

lemma bind_keeps_key: "bind_v2_call a name c = (st, a1) \<Longrightarrow> pa_key_id a1 = pa_key_id a \<and> authentication_key a1 = authentication_key a"
  by (auto simp: bind_v2_call_def bind_name_def split: if_splits option.splits)

lemma build_signed_v2_key:
  "pa_key_id a1 = pa_key_id a \<Longrightarrow> authentication_key a1 = authentication_key a
    \<Longrightarrow> build_signed_v2 neg a1 m name = build_signed_v2 neg a m name"
  by (simp add: build_signed_v2_def signed_copy_def sign_text_def slot_authentication_input_def)

definition revision_outcome ::
  "string \<Rightarrow> checkpoint \<Rightarrow> manifest_data \<times> string \<Rightarrow> (runtime_status + checkpoint) \<times> persistence_authority \<Rightarrow> disk \<Rightarrow> disk \<Rightarrow> bool" where
  "revision_outcome name c built result s s' \<longleftrightarrow>
     (let old = map_of (entries s) name; now = map_of (entries s') name in
      passes name old (snd built) s s'
      \<and> (case fst result of
           Inr k \<Rightarrow> k = fill_checkpoint (fst built) \<and> entries_synced s'
             \<and> (new_entry (snd built) now
                 \<or> exact_checkpoint (fst built) c \<and> (\<exists>i t b. old = Some (File i t b) \<and> now = Some (File i t True)))
         | Inl st \<Rightarrow> if st = OA_RUNTIME_EDURABILITY then poisoned (snd result) else old_entry old now))"

lemma store_ends:
  assumes run: "store_revision lib neg pid a m name c current s = ((r, a'), s')"
    and name: "\<not> internal_transaction_name name" and below: "inodes_below s"
    and absent: "current = None \<Longrightarrow> map_of (entries s) name = None"
  shows "revision_outcome name c (build_signed_v2 neg a m name) (r, a') s s'"
proof -
  obtain copy contents where b: "build_signed_v2 neg a m name = (copy, contents)" by fastforce
  consider (sync) "current \<noteq> None" "exact_checkpoint copy c"
    | (stale) "\<not> (current \<noteq> None \<and> exact_checkpoint copy c)" "manifest_revision (md_config copy) \<le> ck_revision c"
    | (install) "\<not> (current \<noteq> None \<and> exact_checkpoint copy c)" "\<not> manifest_revision (md_config copy) \<le> ck_revision c"
    by blast
  then show ?thesis
  proof cases
    case sync
    then obtain st where d: "sync_existing name s = (st, s')" "r = (if st \<noteq> OA_RUNTIME_OK then Inl st else Inr (fill_checkpoint copy))"
      using run by (auto simp: store_revision_def b split: prod.splits)
    note ends = sync_existing_ends [OF d(1)]
    have "old_entry (map_of (entries s) name) (map_of (entries s') name)"
      using ends(3) by (auto simp: old_entry_def)
    then show ?thesis
      using ends sync by (auto simp: revision_outcome_def Let_def b d(2) passes_same)
  next
    case stale
    then have "r = Inl OA_RUNTIME_ESTALE" "s' = s" using run by (auto simp: store_revision_def b)
    then show ?thesis by (simp add: revision_outcome_def b passes_same old_entry_def)
  next
    case install
    then obtain st where d: "install_signed_v2 lib pid a name copy contents current s = ((st, a'), s')"
      "r = (if st \<noteq> OA_RUNTIME_OK then Inl st else Inr (fill_checkpoint copy))"
      using run by (auto simp: store_revision_def b split: prod.splits)
    show ?thesis
      using install_ends [OF d(1) name below absent] by (auto simp: file_outcome_def revision_outcome_def Let_def b d(2))
  qed
qed

lemma outcome_from:
  assumes "keeps name s s1" "revision_outcome name c built result s1 s'"
  shows "revision_outcome name c built result s s'"
  using assms passes_trans [OF passes_keeps [OF assms(1)]]
  by (simp add: revision_outcome_def Let_def keepsD(1) old_entry_def)

lemma safe_not_internal: "safe_v2_file_name (Some name) \<Longrightarrow> \<not> internal_transaction_name name"
  by (simp add: safe_v2_file_name_def safe_file_name_def)

lemma save_v2_ends:
  assumes "safe_v2_file_name (Some name)" "inodes_below s"
  shows "case save_transaction_v2 lib neg pid m name c a s of (result, s') \<Rightarrow>
     revision_outcome name c (build_signed_v2 neg a m name) result s s'"
proof -
  obtain st a1 where bind: "bind_v2_call a name c = (st, a1)" by fastforce
  note name = safe_not_internal [OF assms(1)]
  have key: "build_signed_v2 neg a1 m name = build_signed_v2 neg a m name"
    using bind_keeps_key [OF bind] build_signed_v2_key by blast
  show ?thesis
  proof (cases "st = OA_RUNTIME_OK")
    case False
    have "st = OA_RUNTIME_EDURABILITY \<Longrightarrow> poisoned a1"
      using bind by (auto simp: bind_v2_call_def split: if_splits option.splits)
    then show ?thesis
      using False by (simp add: save_transaction_v2_def bind revision_outcome_def passes_same old_entry_def)
  next
    case True
    obtain r s1 where lock: "under_lock (expected_current lib a1 name c) s = (r, s1)" by fastforce
    note found = locked_expected [OF lock name]
    show ?thesis
    proof (cases r)
      case (Inl e)
      then have "revision_outcome name c (build_signed_v2 neg a m name) (Inl e, a1) s1 s1"
        using found(3) by (simp add: revision_outcome_def passes_same old_entry_def)
      then show ?thesis
        using outcome_from [OF found(1)] True Inl lock by (simp add: save_transaction_v2_def bind)
    next
      case (Inr current)
      obtain q a2 s2 where store: "store_revision lib neg pid a1 m name c current s1 = ((q, a2), s2)" by (metis prod.collapse)
      have "revision_outcome name c (build_signed_v2 neg a m name) (q, a2) s1 s2"
        using store_ends [OF store name] found(2) keepsD(3) [OF found(1) assms(2)] Inr key by auto
      then have "revision_outcome name c (build_signed_v2 neg a m name) (q, case q of Inl _ \<Rightarrow> a2 | Inr k \<Rightarrow> trust k a2) s1 s2"
          by (cases q) (auto simp: revision_outcome_def Let_def split: if_splits)
      then show ?thesis
        using outcome_from [OF found(1)] True Inr lock store by (simp add: save_transaction_v2_def bind)
    qed
  qed
qed

end
