(* ===== verification/Persistence_Roundtrip.thy ===== *)
theory Persistence_Roundtrip
  imports Persistence_Atomic Manifest_Text
begin

text \<open>
  The signed text of the second protocol and its reader: a text that an authority signs for a slot is
  read back by it as the same manifest, for every key identifier but those that end in the reader's
  own marker.
\<close>

section \<open>The marker of the signature\<close>

abbreviation BAR :: char where "BAR \<equiv> CHR ''|''"

definition marker_v2 :: string where
  "marker_v2 = ''hmac-sha256-v2''"

lemma marker_v2: "marker_v2 @ [BAR] = ''hmac-sha256-v2|''" "BAR \<notin> set marker_v2" "marker_v2 \<noteq> []"
  by (simp_all add: marker_v2_def)

lemma rfind_after: "rfind_text p s = Some n \<Longrightarrow> rfind_text p (u @ s) = Some (length u + n)"
  by (induction u) simp_all

lemma rfind_no_bar: "BAR \<notin> set t \<Longrightarrow> rfind_text (w @ [BAR]) t = None"
proof (induction t)
  case (Cons ch t)
  have "take (length (w @ [BAR])) (ch # t) \<noteq> w @ [BAR]"
    using Cons.prems by (metis in_set_takeD last_in_set last_snoc snoc_eq_iff_butlast)
  then show ?case using Cons by simp
qed simp

lemma bar_prefix:
  assumes "BAR \<notin> set k" "BAR \<notin> set w"
  shows "take (length (w @ [BAR])) (k @ BAR # t) = w @ [BAR] \<longleftrightarrow> k = w"
proof
  assume *: "take (length (w @ [BAR])) (k @ BAR # t) = w @ [BAR]"
  have "k @ BAR # t = w @ BAR # drop (length (w @ [BAR])) (k @ BAR # t)"
    using append_take_drop_id [of "length (w @ [BAR])" "k @ BAR # t"] unfolding * by simp
  then show "k = w" using assms by (simp add: append_eq_append_conv2) (auto simp: Cons_eq_append_conv append_eq_Cons_conv)
qed simp

lemma ends_with_Cons: "ends_with (ch # k) w \<longleftrightarrow> ch # k = w \<or> ends_with k w"
proof -
  have "ends_with s w \<longleftrightarrow> (\<exists>u. s = u @ w)" for s
    by (auto simp: ends_with_def) (metis append_take_drop_id)
  then show ?thesis by (auto simp: Cons_eq_append_conv)
qed

lemma rfind_bar:
  assumes "BAR \<notin> set k" "BAR \<notin> set w" "w \<noteq> []" "rfind_text (w @ [BAR]) t = None"
  shows "rfind_text (w @ [BAR]) (k @ BAR # t) = (if ends_with k w then Some (length k - length w) else None)"
  using assms(1)
proof (induction k)
  case Nil
  then show ?case using bar_prefix [OF Nil assms(2), of t] assms(3,4) by (simp add: ends_with_def)
next
  case (Cons ch k)
  then have IH: "rfind_text (w @ [BAR]) (k @ BAR # t) = (if ends_with k w then Some (length k - length w) else None)" by simp
  show ?case
  proof (cases "ends_with k w")
    case True
    then have "length w \<le> length k" by (simp add: ends_with_def)
    then show ?thesis using True IH by (simp add: ends_with_Cons Suc_diff_le)
  next
    case False
    then show ?thesis using IH bar_prefix [OF Cons.prems assms(2), of t] by (auto simp: ends_with_Cons)
  qed
qed

section \<open>The signed text\<close>

lemma hex_text_form:
  "length (sha256_hex bs) = 64" "list_all lower_hex (sha256_hex bs)"
proof -
  show "length (sha256_hex bs) = 64" by (simp add: sha256_hex_reference)
  have "list_all lower_hex ''0123456789abcdef''" by (simp add: lower_hex_def)
  moreover have "set (sha256_hex bs) \<subseteq> set ''0123456789abcdef''"
    unfolding sha256_hex_reference by (rule set_hex_bytes)
  ultimately show "list_all lower_hex (sha256_hex bs)" unfolding list_all_iff by blast
qed

lemma sign_text_form: "length (sign_text a t) = 64" "list_all lower_hex (sign_text a t)"
  by (simp_all add: sign_text_def hmac_sha256_hex_def Let_def hex_text_form)

definition signature_line :: "persistence_authority \<Rightarrow> string \<Rightarrow> string" where
  "signature_line a tag = marker_v2 @ BAR # pa_key_id a @ BAR # tag"

lemma signature_fields:
  assumes "safe_key_id (Some (pa_key_id a))" "list_all lower_hex tag" "length tag = 64"
  shows "split_fields (signature_line a tag) = [marker_v2, pa_key_id a, tag]" "short_line (signature_line a tag)"
    "BAR \<notin> set (pa_key_id a)" "BAR \<notin> set (tag @ [NEWLINE])"
proof -
  have key: "list_all field_char (pa_key_id a)" "length (pa_key_id a) < 64"
    using assms(1) safe_field by (simp_all add: safe_key_id_def)
  have tag: "list_all field_char tag" using assms(2) by (rule hex_field)
  show bars: "BAR \<notin> set (pa_key_id a)" "BAR \<notin> set (tag @ [NEWLINE])"
    using field_no_bar key(1) tag by auto
  then show "split_fields (signature_line a tag) = [marker_v2, pa_key_id a, tag]"
    by (simp add: signature_line_def split_bar split_no_bar marker_v2(2))
  show "short_line (signature_line a tag)"
    using field_plain [OF key(1)] field_plain [OF tag] key(2) assms(3)
    by (auto simp: signature_line_def short_line_def marker_v2_def list_all_iff plain_char_def)
qed

lemma constant_time_refl [simp]: "constant_time_equal t t"
proof -
  have "foldl (\<lambda>d (a, b). d OR (of_char a XOR of_char b)) (0 :: u8) (zip t t) = 0"
    by (induction t) simp_all
  then show ?thesis by (simp add: constant_time_equal_def)
qed

text \<open>What the reader makes of the signed text: the manifest in its stored form, with its signature.\<close>

definition signed_form :: "zero_signs \<Rightarrow> persistence_authority \<Rightarrow> manifest_data \<Rightarrow> string \<Rightarrow> manifest_data" where
  "signed_form neg a m name =
     (stored_form (m\<lparr>content_digest := sha256_text (manifest_canonical neg m False)\<rparr>))
       \<lparr>integrity_kind := OA_RUNTIME_INTEGRITY_HMAC_SHA256, authentication_version := 2,
        authentication_key_id := pa_key_id a, authentication_tag := authentication_tag (fst (build_signed_v2 neg a m name))\<rparr>"

lemma canonical_unsigned [simp]:
  "manifest_canonical neg (m\<lparr>content_digest := x\<rparr>) False = manifest_canonical neg m False"
  "manifest_canonical neg (m\<lparr>integrity_kind := k\<rparr>) False = manifest_canonical neg m False"
  "manifest_canonical neg (m\<lparr>authenticated := b\<rparr>) False = manifest_canonical neg m False"
  "manifest_canonical neg (m\<lparr>authentication_key_id := x\<rparr>) False = manifest_canonical neg m False"
  "manifest_canonical neg (m\<lparr>checkpoint_authorized := b\<rparr>) False = manifest_canonical neg m False"
  "manifest_canonical neg (m\<lparr>authentication_version := v\<rparr>) False = manifest_canonical neg m False"
  by (simp_all add: manifest_canonical_def summary_line_def motor_line_def)

definition payload_v2 :: "zero_signs \<Rightarrow> manifest_data \<Rightarrow> string" where
  "payload_v2 neg m = manifest_canonical neg m False @ ''sha256|'' @ sha256_text (manifest_canonical neg m False) @ [NEWLINE]"

lemma signed_text_v2:
  obtains tag where "tag = sign_text a (slot_authentication_input a name (payload_v2 neg m))"
    "snd (build_signed_v2 neg a m name) = payload_v2 neg m @ line (signature_line a tag)"
    "authentication_tag (fst (build_signed_v2 neg a m name)) = tag"
    "content_digest (fst (build_signed_v2 neg a m name)) = sha256_text (manifest_canonical neg m False)"
proof -
  define copy where "copy = (signed_copy neg a m)\<lparr>checkpoint_authorized := True, authentication_version := 2\<rparr>"
  have d: "content_digest copy = sha256_text (manifest_canonical neg m False)" by (simp add: copy_def signed_copy_def)
  have ne: "sha256_text (manifest_canonical neg m False) \<noteq> []" using sha256_text_form(1) by (metis list.size(3) zero_neq_numeral)
  have same: "manifest_canonical neg copy False = manifest_canonical neg m False" by (simp add: copy_def signed_copy_def)
  have "manifest_canonical neg copy True = manifest_canonical neg copy False @ ''sha256|'' @ content_digest copy @ [NEWLINE]"
    using ne by (simp add: manifest_canonical_def [of neg copy] Let_def d)
  then have p: "manifest_canonical neg copy True = payload_v2 neg m" by (simp add: payload_v2_def d same)
  define tag where "tag = sign_text a (slot_authentication_input a name (payload_v2 neg m))"
  have "build_signed_v2 neg a m name = (copy\<lparr>authentication_tag := tag\<rparr>, payload_v2 neg m @ line (signature_line a tag))"
    by (simp add: build_signed_v2_def copy_def [symmetric] p tag_def [symmetric] signature_line_def marker_v2_def line_def)
  then show thesis using that [OF tag_def] d by simp
qed

lemma parse_signed:
  assumes "places_ok m" "fingerprint_ok m" "writable m" "safe_key_id (Some (pa_key_id a))"
  shows "parse_content (snd (build_signed_v2 neg a m name)) = Some (signed_form neg a m name)"
proof -
  obtain tag where t: "tag = sign_text a (slot_authentication_input a name (payload_v2 neg m))"
    "snd (build_signed_v2 neg a m name) = payload_v2 neg m @ line (signature_line a tag)"
    "authentication_tag (fst (build_signed_v2 neg a m name)) = tag"
    by (rule signed_text_v2)
  have hex: "list_all lower_hex tag" "length tag = 64" using sign_text_form t(1) by simp_all
  note sig = signature_fields [OF assms(4) hex]
  have "snd (build_signed_v2 neg a m name) = manifest_canonical neg m False @ ''sha256|''
      @ sha256_text (manifest_canonical neg m False) @ NEWLINE # concat (map line [signature_line a tag])"
    by (simp add: t(2) payload_v2_def)
  moreover have "safe_text (pa_key_id a) OA_RUNTIME_TEXT_CAPACITY False"
    using assms(4) by (simp add: safe_key_id_def safe_text_def)
  then have "parse_authentication (manifest_lines neg m @ (''sha256|'' @ sha256_text (manifest_canonical neg m False)) # [signature_line a tag])
      (stored_form (m\<lparr>content_digest := sha256_text (manifest_canonical neg m False)\<rparr>)) = Some (signed_form neg a m name)"
    using sig(1) hex by (simp add: parse_authentication_def manifest_lines_def motor_places_def marker_v2_def signed_form_def t(3))
  ultimately show ?thesis
    using parse_content_signed [OF assms(1-3) sha256_text_form, of "[signature_line a tag]" neg] sig(2)
    by (simp add: signature_lines_def)
qed

section \<open>Reading it back\<close>

lemma no_faults [simp]: "faults s = [] \<Longrightarrow> attempt s = (True, s)" "faults s = [] \<Longrightarrow> s\<lparr>faults := []\<rparr> = s"
  by (simp_all add: attempt_def next_fault_def)

lemma transfer_no_faults [simp]: "transfer retry n [] = ((True, 0), [])"
  by (cases n) simp_all

lemma parse_content_size: "parse_content t = Some d \<Longrightarrow> t \<noteq> [] \<and> length t \<le> 65536"
  by (auto simp: parse_content_def require_def Let_def split: if_splits bind_splits)

lemma read_intact:
  assumes "map_of (entries s) name = Some (File i t b)" "faults s = []" "t \<noteq> []" "length t \<le> 65536"
  shows "read_file_at name s = (Inr t, s)"
  using assms by (simp add: read_file_at_def sys_openat_def Let_def)

lemma validate_same:
  assumes "md_config d = md_config m" "md_state d = md_state m" "intended_backend d = intended_backend m"
    "evidence_records d = evidence_records m" "inventory_fingerprint d = inventory_fingerprint m"
  shows "validate_manifest_data lib nm d s = validate_manifest_data lib nm m s"
  unfolding validate_manifest_data_def assms by (rule refl)

lemma parse_signed_text:
  assumes "validate_manifest_data lib False m (library s) = (True, l)" "writable m" "safe_key_id (Some (pa_key_id a))" "faults s = []"
  shows "parse_on_disk lib (snd (build_signed_v2 neg a m name)) s = (Inr (signed_form neg a m name), s\<lparr>library := l\<rparr>)"
    "parse_content (snd (build_signed_v2 neg a m name)) = Some (signed_form neg a m name)"
proof -
  obtain cfg where c: "new_manifest lib (md_config m) = Inr cfg"
    "list_all (\<lambda>t. safe_text t OA_RUNTIME_TEXT_CAPACITY False) (evidence_records m)" "fingerprint_ok m"
    using assms(1) by (rule validate_accepts)
  show p: "parse_content (snd (build_signed_v2 neg a m name)) = Some (signed_form neg a m name)"
    using validated_places [OF c(1) assms(2) c(2)] c(3) assms(2,3) by (rule parse_signed)
  have "validate_manifest_data lib False (signed_form neg a m name) (library s)
      = validate_manifest_data lib False (stored_form m) (library s)"
    by (rule validate_same) (simp_all add: signed_form_def stored_form_def)
  then show "parse_on_disk lib (snd (build_signed_v2 neg a m name)) s = (Inr (signed_form neg a m name), s\<lparr>library := l\<rparr>)"
    using validate_stored [OF assms(1,2)] p assms(4) by (simp add: parse_on_disk_def parse_manifest_def)
qed

lemma authenticate_signed:
  assumes "validate_manifest_data lib False m (library s) = (True, l)" "writable m" "safe_key_id (Some (pa_key_id a))" "faults s = []"
    and key: "\<not> ends_with (pa_key_id a) marker_v2"
  shows "authenticate_text_v2 lib a name (snd (build_signed_v2 neg a m name)) s
      = (Inr (from_file (signed_form neg a m name)), s\<lparr>library := l\<rparr>)"
proof -
  obtain tag where t: "tag = sign_text a (slot_authentication_input a name (payload_v2 neg m))"
    "snd (build_signed_v2 neg a m name) = payload_v2 neg m @ line (signature_line a tag)"
    "authentication_tag (fst (build_signed_v2 neg a m name)) = tag"
    by (rule signed_text_v2)
  note sig = signature_fields [OF assms(3), of tag]
  have hex: "list_all lower_hex tag" "length tag = 64" using sign_text_form t(1) by simp_all
  have "rfind_text (marker_v2 @ [BAR]) (pa_key_id a @ BAR # tag @ [NEWLINE]) = None"
    using rfind_bar [OF sig(3) [OF hex] marker_v2(2,3) rfind_no_bar [OF sig(4) [OF hex]]] key by simp
  then have "rfind_text (marker_v2 @ [BAR]) (marker_v2 @ BAR # pa_key_id a @ BAR # tag @ [NEWLINE]) = Some 0"
    using rfind_bar [OF marker_v2(2,2,3)] by (simp add: ends_with_def)
  then have found: "rfind_text ''hmac-sha256-v2|'' (snd (build_signed_v2 neg a m name)) = Some (length (payload_v2 neg m))"
    using rfind_after [of "marker_v2 @ [BAR]" "line (signature_line a tag)" 0 "payload_v2 neg m"]
    by (simp add: t(2) signature_line_def line_def marker_v2(1))
  have ne: "payload_v2 neg m \<noteq> []" by (simp add: payload_v2_def)
  have kind: "signed_with 2 a (signed_form neg a m name)" "authentication_tag (signed_form neg a m name) = tag"
    by (simp_all add: signed_with_def signed_form_def t(3))
  show ?thesis
    using parse_signed_text(1) [OF assms(1-4), of neg name] found ne kind
    by (simp add: authenticate_text_v2_def t(1,2))
qed

lemma digest_padded: "c_string (char_array OA_RUNTIME_DIGEST_CAPACITY (sha256_text x)) = sha256_text x"
proof -
  have "NUL \<notin> set (sha256_text x)"
    using sha256_text_form(2) [of x] by (auto simp: list_all_iff lower_hex_def Let_def)
  then show ?thesis using sha256_text_form(1) [of x] by (intro c_string_array) simp_all
qed

lemma signed_revision:
  "manifest_revision (md_config (signed_form neg a m name)) = manifest_revision (md_config m)"
  "content_digest (signed_form neg a m name) = sha256_text (manifest_canonical neg m False)"
  "manifest_revision (md_config (fst (build_signed_v2 neg a m name))) = manifest_revision (md_config m)"
  "content_digest (fst (build_signed_v2 neg a m name)) = sha256_text (manifest_canonical neg m False)"
  by (simp_all add: signed_form_def stored_form_def build_signed_v2_def signed_copy_def Let_def)

lemma from_file_revision [simp]:
  "md_config (from_file m) = md_config m" "content_digest (from_file m) = content_digest m"
  by (simp_all add: from_file_def)

lemma load_saved:
  assumes "validate_manifest_data lib False m (library s) = (True, l)" "writable m" "safe_key_id (Some (pa_key_id a))" "faults s = []"
    "\<not> ends_with (pa_key_id a) marker_v2" "map_of (entries s) name = Some (File i (snd (build_signed_v2 neg a m name)) b)"
  shows "load_checked lib a name (fill_checkpoint (fst (build_signed_v2 neg a m name))) s
    = (Inr ((from_file (signed_form neg a m name))\<lparr>checkpoint_authorized := True\<rparr>), s\<lparr>library := l\<rparr>)"
proof -
  have size: "snd (build_signed_v2 neg a m name) \<noteq> []" "length (snd (build_signed_v2 neg a m name)) \<le> 65536"
    using parse_content_size [OF parse_signed_text(2) [OF assms(1-4)]] by simp_all
  have "load_authenticated_at_v2 lib a name name s = (Inr (from_file (signed_form neg a m name)), s\<lparr>library := l\<rparr>)"
    using read_intact [OF assms(6,4) size] authenticate_signed [OF assms(1-5)]
    by (simp add: load_authenticated_at_v2_def)
  then show ?thesis
    by (simp add: load_checked_def satisfies_floor_def fill_checkpoint_def signed_revision digest_padded)
qed

text \<open>
  A key identifier that ends in the marker is accepted too, but the reader, which looks for the last
  marker of the text, then takes the offset of the identifier's end for that of the signature line:
  what it authenticates is not what was signed.
\<close>

lemma marker_key_misread:
  assumes "safe_key_id (Some (pa_key_id a))" "ends_with (pa_key_id a) marker_v2"
  shows "rfind_text ''hmac-sha256-v2|'' (snd (build_signed_v2 neg a m name))
    = Some (length (payload_v2 neg m) + 15 + (length (pa_key_id a) - 14))"
proof -
  obtain tag where t: "tag = sign_text a (slot_authentication_input a name (payload_v2 neg m))"
    "snd (build_signed_v2 neg a m name) = payload_v2 neg m @ line (signature_line a tag)"
    by (rule signed_text_v2)
  have hex: "list_all lower_hex tag" "length tag = 64" using sign_text_form t(1) by simp_all
  note sig = signature_fields [OF assms(1) hex]
  have "rfind_text (marker_v2 @ [BAR]) (pa_key_id a @ BAR # tag @ [NEWLINE]) = Some (length (pa_key_id a) - 14)"
    using rfind_bar [OF sig(3) marker_v2(2,3) rfind_no_bar [OF sig(4)]] assms(2) by (simp add: marker_v2_def)
  from rfind_after [OF this, of "payload_v2 neg m @ marker_v2 @ [BAR]"]
  show ?thesis by (simp add: t(2) signature_line_def line_def marker_v2(1)) (simp add: marker_v2_def)
qed

end
