(* ===== verification/Persistence_Trust.thy ===== *)
theory Persistence_Trust
  imports Persistence_Roundtrip
begin

text \<open>
  What an authority lets through, and what it remembers: a manifest that a call of the second protocol
  returns was signed for its slot and is no older than the caller's checkpoint, and the checkpoint
  that an authority trusts never goes back.
\<close>

section \<open>Signatures\<close>

lemma of_char_u8: "(of_char c :: u8) = of_char d \<longleftrightarrow> c = d"
proof -
  have "unat (of_char c :: u8) = of_char c" for c
  proof -
    have "(of_char c :: u8) = word_of_nat (of_char c)" by (rule of_nat_of_char [symmetric])
    then have "unat (of_char c :: u8) = of_char c mod 2 ^ 8" by (simp only: unat_of_nat len_num1 len_bit0) simp
    then show ?thesis by simp
  qed
  then show ?thesis by (metis of_char_eq_iff)
qed

lemma or_zero: "x OR y = 0 \<longleftrightarrow> x = 0 \<and> y = (0 :: u8)"
  by (auto simp: bit_eq_iff bit_simps)

lemma xor_zero: "x XOR y = 0 \<longleftrightarrow> x = (y :: u8)"
  by (auto simp: bit_eq_iff bit_simps)

lemma constant_time_equal [simp]: "constant_time_equal a b \<longleftrightarrow> a = b"
proof -
  have "foldl (\<lambda>d (x, y). d OR (of_char x XOR of_char y)) (z :: u8) (zip a b) = 0 \<longleftrightarrow> z = 0 \<and> a = b"
    if "length a = length b" for z
    using that by (induction a b arbitrary: z rule: list_induct2) (auto simp: or_zero xor_zero of_char_u8)
  then show ?thesis by (auto simp: constant_time_equal_def)
qed

lemma parsed_digest: "parse_content t = Some d \<Longrightarrow> \<exists>x. sha256_text x = content_digest d"
  by (auto simp: parse_content_def parse_authentication_def require_def Let_def split: if_splits bind_splits) blast+

definition authentic :: "persistence_authority \<Rightarrow> string \<Rightarrow> string \<Rightarrow> manifest_data \<Rightarrow> bool" where
  "authentic a slot t m \<longleftrightarrow>
     (\<exists>d n. parse_content t = Some d \<and> rfind_text ''hmac-sha256-v2|'' t = Some n
        \<and> authentication_tag d = sign_text a (slot_authentication_input a slot (take n t))
        \<and> authentication_key_id d = pa_key_id a \<and> authentication_version d = 2 \<and> m = from_file d)"

lemma authenticate_authentic: "authenticate_text_v2 lib a slot t s = (Inr m, s') \<Longrightarrow> authentic a slot t m"
  by (auto simp: authenticate_text_v2_def parse_on_disk_def parse_manifest_def authentic_def signed_with_def
      split: prod.splits sum.splits option.splits if_splits)

lemma load_authentic:
  assumes "load_authenticated_at_v2 lib a n slot s = (Inr m, s')"
  shows "\<exists>i t b. map_of (entries s) n = Some (File i t b) \<and> authentic a slot t m"
proof -
  obtain t s1 where "read_file_at n s = (Inr t, s1)" "authenticate_text_v2 lib a slot t s1 = (Inr m, s')"
    using assms by (auto simp: load_authenticated_at_v2_def split: prod.splits sum.splits)
  then show ?thesis using read_content authenticate_authentic by meson
qed

lemma authentic_digest: "authentic a slot t m \<Longrightarrow> \<exists>x. sha256_text x = content_digest m"
  by (auto simp: authentic_def dest: parsed_digest)

lemma below_trusted_not:
  "\<not> below_trusted a c \<longleftrightarrow> trusted_revision a \<le> ck_revision c
     \<and> (ck_revision c = trusted_revision a \<longrightarrow> c_string (ck_content_sha256 c) = trusted_digest a)"
  by (auto simp: below_trusted_def)

definition covers :: "checkpoint \<Rightarrow> manifest_data \<Rightarrow> bool" where
  "covers c m \<longleftrightarrow> ck_revision c \<le> manifest_revision (md_config m)
     \<and> (manifest_revision (md_config m) = ck_revision c \<longrightarrow> content_digest m = c_string (ck_content_sha256 c))"

lemma satisfies_covers: "satisfies_floor m c = OA_RUNTIME_OK \<longleftrightarrow> covers c m"
  by (auto simp: satisfies_floor_def covers_def)

lemma bind_ok:
  assumes "bind_v2_call a name c = (OA_RUNTIME_OK, a1)"
  shows "protocol_version a = 2" "\<not> poisoned a" "bound_file_name a = [] \<or> bound_file_name a = name"
    "\<not> below_trusted a c" "a1 = a\<lparr>bound_file_name := name\<rparr>"
  using assms by (auto simp: bind_v2_call_def bind_name_def below_trusted_def split: if_splits option.splits)

lemma load_transaction_ok:
  assumes "load_transaction_v2 lib name c a s = ((Inr m, a'), s')" "\<not> internal_transaction_name name"
  shows "bind_v2_call a name c = (OA_RUNTIME_OK, a')" "covers c m" "checkpoint_authorized m"
    "\<exists>i t b m0. map_of (entries s) name = Some (File i t b) \<and> authentic a name t m0 \<and> m = m0\<lparr>checkpoint_authorized := True\<rparr>"
proof -
  obtain a1 where b: "bind_v2_call a name c = (OA_RUNTIME_OK, a1)"
    and u: "under_lock (load_checked lib a1 name c) s = (Inr m, s')" and a': "a' = a1"
    using assms(1) by (auto simp: load_transaction_v2_def split: prod.splits if_splits)
  then show "bind_v2_call a name c = (OA_RUNTIME_OK, a')" by simp
  obtain s1 s2 where l: "directory_transaction s = (True, s1)" "cleanup_internal_artifacts s1 = (OA_RUNTIME_OK, s2)"
    "load_checked lib a1 name c s2 = (Inr m, s')"
    using u by (auto simp: under_lock_def split: prod.splits if_splits)
  have k: "keeps name s s2"
    using keeps_trans [OF keeps_pair [OF keeps_transaction [OF keeps_refl] l(1)]
        keeps_pair [OF keeps_cleanup [OF keeps_refl assms(2)] l(2)]] .
  obtain m0 where m0: "load_authenticated_at_v2 lib a1 name name s2 = (Inr m0, s')" "satisfies_floor m0 c = OA_RUNTIME_OK"
    "m = m0\<lparr>checkpoint_authorized := True\<rparr>"
    using l(3) by (auto simp: load_checked_def split: prod.splits sum.splits if_splits)
  then show "covers c m" "checkpoint_authorized m" by (simp_all add: satisfies_covers covers_def)
  have "authentic a1 = authentic a" unfolding bind_ok(5) [OF b] 
    by (simp add: authentic_def [abs_def] sign_text_def slot_authentication_input_def)
  then show "\<exists>i t b m0. map_of (entries s) name = Some (File i t b) \<and> authentic a name t m0 \<and> m = m0\<lparr>checkpoint_authorized := True\<rparr>"
    using load_authentic [OF m0(1)] keepsD(1) [OF k] m0(3) by auto
qed

end
