(* ===== verification/Persistence_Floor.thy ===== *)
theory Persistence_Floor
  imports Persistence_Trust
begin

text \<open>
  What an authority trusts only advances: through each transaction, through each exported call, and
  so over every sequence of calls.
\<close>

section \<open>Advancing\<close>

definition newer :: "u64 \<times> string \<Rightarrow> u64 \<times> string \<Rightarrow> bool" where
  "newer x y \<longleftrightarrow> fst x < fst y \<or> fst y = fst x \<and> (snd x = [] \<or> snd y = snd x)"

definition advances :: "persistence_authority \<Rightarrow> persistence_authority \<Rightarrow> bool" where
  "advances a b \<longleftrightarrow>
     directory_fd b = directory_fd a \<and> authentication_key b = authentication_key a \<and> pa_key_id b = pa_key_id a
     \<and> protocol_version b = protocol_version a
     \<and> (bound_file_name a \<noteq> [] \<longrightarrow> bound_file_name b = bound_file_name a)
     \<and> newer (trusted_revision a, trusted_digest a) (trusted_revision b, trusted_digest b)
     \<and> newer (accepted_revision_floor a, accepted_revision_digest a) (accepted_revision_floor b, accepted_revision_digest b)
     \<and> (\<forall>n x. map_of (accepted_artifacts a) n = Some x \<longrightarrow> (\<exists>y. map_of (accepted_artifacts b) n = Some y \<and> newer x y))"

lemma newer_refl [simp]: "newer x x"
  by (simp add: newer_def)

lemma newer_trans: "newer x y \<Longrightarrow> newer y z \<Longrightarrow> newer x z"
  by (auto simp: newer_def)

lemma advances_refl [simp]: "advances a a"
  by (simp add: advances_def)

lemma advances_trans:
  assumes "advances a b" "advances b c"
  shows "advances a c"
proof -
  have "\<exists>z. map_of (accepted_artifacts c) n = Some z \<and> newer x z" if "map_of (accepted_artifacts a) n = Some x" for n x
    using assms that unfolding advances_def by (meson newer_trans)
  moreover have "newer (trusted_revision a, trusted_digest a) (trusted_revision c, trusted_digest c)"
    "newer (accepted_revision_floor a, accepted_revision_digest a) (accepted_revision_floor c, accepted_revision_digest c)"
    using assms unfolding advances_def by (meson newer_trans)+
  ultimately show ?thesis using assms by (simp add: advances_def)
qed

lemma advances_poison [simp]: "advances a (b\<lparr>poisoned := p\<rparr>) \<longleftrightarrow> advances a b"
  by (simp add: advances_def)

lemma bind_advances: "bind_v2_call a name c = (st, b) \<Longrightarrow> advances a b"
  by (auto simp: bind_v2_call_def bind_name_def advances_def split: if_splits option.splits)

lemma accept_advances: "advances a (snd (accept_revision a m name grow))"
  by (auto simp: accept_revision_def advances_def newer_def Let_def update_conv' not_less split: option.splits if_splits)

section \<open>The first protocol\<close>

lemma scan_newer: "scan_floor lib a ns best s = (Inr best', s') \<Longrightarrow> newer best best'"
proof (induction ns arbitrary: best s)
  case Nil
  then show ?case by (auto split: prod.splits if_splits)
next
  case (Cons n ns)
  show ?case
    using Cons.prems Cons.IH
    by (cases best) (fastforce simp: Let_def newer_def split: prod.splits sum.splits if_splits)
qed

lemma refresh_advances:
  assumes "refresh_revision_floor lib a s = ((st, b), s')"
  shows "advances a b"
proof -
  obtain opened s1 where o: "open_scan s = (opened, s1)" by fastforce
  obtain r s2 where f: "scan_floor lib a (map fst (entries s1)) (accepted_revision_floor a, accepted_revision_digest a) s1 = (r, s2)"
    by fastforce
  show ?thesis
    using assms scan_newer [of lib a _ _ s1 _ s2] f
    by (cases r) (auto simp: refresh_revision_floor_def o advances_def split: prod.splits if_splits)
qed

lemma confirm_v1_advances: "confirm_install_v1 lib a name previous copy e s = ((st, b), s') \<Longrightarrow> advances a b"
  using accept_advances [of a copy name True]
  by (auto simp: confirm_install_v1_def Let_def split: prod.splits if_splits)

lemma install_v1_advances: "install_signed_v1 lib pid a name copy t e s = ((st, b), s') \<Longrightarrow> advances a b"
  by (auto simp: install_signed_v1_def Let_def dest: confirm_v1_advances split: prod.splits if_splits)

lemma load_v1_advances:
  assumes "load_transaction lib name a s = ((r, b), s')"
  shows "advances a b"
proof -
  have "b = a \<or> (\<exists>st a1 t t'. refresh_revision_floor lib a t = ((st, a1), t')
      \<and> (b = a1 \<or> (\<exists>m. b = snd (accept_revision a1 m name True))))"
    using assms by (auto simp: load_transaction_def split: prod.splits sum.splits if_splits) (metis snd_conv)+
  then show ?thesis by (metis refresh_advances accept_advances advances_trans advances_refl)
qed

lemma save_v1_advances:
  assumes "save_transaction lib neg pid m name a s = ((r, b), s')"
  shows "advances a b"
proof -
  have "b = a \<or> (\<exists>st a1 t t'. refresh_revision_floor lib a t = ((st, a1), t') \<and> advances a1 b)"
    using assms accept_advances install_v1_advances
    by (fastforce simp: save_transaction_def split: prod.splits sum.splits option.splits if_splits)
  then show ?thesis by (metis refresh_advances advances_trans advances_refl)
qed

section \<open>The second protocol\<close>

lemma trust_advances:
  assumes "\<not> below_trusted a c" "covers c m" "sha256_text x = content_digest m" "advances a b" "trusted_revision b = trusted_revision a"
    "trusted_digest b = trusted_digest a"
  shows "advances a (trust (fill_checkpoint m) b)"
proof -
  have d: "c_string (char_array OA_RUNTIME_DIGEST_CAPACITY (content_digest m)) = content_digest m"
    using digest_padded [of x] assms(3) by simp
  have "newer (trusted_revision a, trusted_digest a) (manifest_revision (md_config m), content_digest m)"
    using assms(1,2) unfolding below_trusted_not covers_def newer_def by (auto simp: order_le_less)
  then show ?thesis
    using assms(4-6) d by (simp add: advances_def trust_def fill_checkpoint_def)
qed

lemma confirm_poison: "confirm_install lib a name previous copy e s = ((st, b), s') \<Longrightarrow> \<exists>p. b = a\<lparr>poisoned := p\<rparr>"
  by (auto simp: confirm_install_def split: prod.splits if_splits) (metis persistence_authority.surjective persistence_authority.update_convs(5))+

lemma same_poison: "a = a\<lparr>poisoned := poisoned a\<rparr>"
  by simp

lemma install_poison: "install_signed_v2 lib pid a name copy t cur s = ((st, b), s') \<Longrightarrow> \<exists>p. b = a\<lparr>poisoned := p\<rparr>"
  by (auto simp: install_signed_v2_def Let_def dest: confirm_poison intro: same_poison split: prod.splits if_splits)

lemma store_poison:
  assumes "store_revision lib neg pid a m name c cur s = ((r, b), s')"
  shows "\<exists>p. b = a\<lparr>poisoned := p\<rparr>"
    "r = Inr k \<Longrightarrow> k = fill_checkpoint (fst (build_signed_v2 neg a m name)) \<and> covers c (fst (build_signed_v2 neg a m name))"
proof -
  obtain copy contents where b: "build_signed_v2 neg a m name = (copy, contents)" by fastforce
  show "\<exists>p. b = a\<lparr>poisoned := p\<rparr>"
    using assms by (auto simp: store_revision_def b dest: install_poison intro: same_poison split: prod.splits if_splits)
  show "r = Inr k \<Longrightarrow> k = fill_checkpoint (fst (build_signed_v2 neg a m name)) \<and> covers c (fst (build_signed_v2 neg a m name))"
    using assms
    by (auto simp: store_revision_def b covers_def exact_checkpoint_def not_le split: prod.splits if_splits)
qed

lemma bind_trusted: "bind_v2_call a name c = (st, b) \<Longrightarrow> trusted_revision b = trusted_revision a \<and> trusted_digest b = trusted_digest a"
  by (auto simp: bind_v2_call_def bind_name_def split: if_splits option.splits)

lemma save_v2_advances:
  assumes "save_transaction_v2 lib neg pid m name c a s = ((r, b), s')"
  shows "advances a b"
proof -
  obtain st a1 where bind: "bind_v2_call a name c = (st, a1)" by fastforce
  obtain l s1 where lock: "under_lock (expected_current lib a1 name c) s = (l, s1)" by fastforce
  note adv = bind_advances [OF bind]
  show ?thesis
  proof (cases "st = OA_RUNTIME_OK \<and> (\<exists>cur. l = Inr cur)")
    case True
    then obtain cur where cur: "l = Inr cur" and ok: "st = OA_RUNTIME_OK" by blast
    obtain q a2 s2 where store: "store_revision lib neg pid a1 m name c cur s1 = ((q, a2), s2)" by (metis prod.collapse)
    obtain p where p: "a2 = a1\<lparr>poisoned := p\<rparr>" using store_poison(1) [OF store] by blast
    have b: "b = (case q of Inl _ \<Rightarrow> a2 | Inr k \<Rightarrow> trust k a2)"
      using assms bind ok lock cur store by (auto simp: save_transaction_v2_def)
    note bo = bind_ok [OF bind [unfolded ok]]
    show ?thesis
    proof (cases q)
      case (Inl e)
      then show ?thesis using adv b p by simp
    next
      case (Inr k)
      have "advances a (trust (fill_checkpoint (fst (build_signed_v2 neg a1 m name))) a2)"
        using store_poison(2) [OF store Inr] bo(4) adv p bind_trusted [OF bind]
        by (intro trust_advances [of a c _ "manifest_canonical neg m False"]) (simp_all add: signed_revision)
      then show ?thesis using store_poison(2) [OF store Inr] b Inr by simp
    qed
  next
    case False
    then have "b = a1"
      using assms bind lock by (cases l) (auto simp: save_transaction_v2_def split: if_splits)
    then show ?thesis using adv by simp
  qed
qed

text \<open>Load and recovery: the manifest that they return is one to trust.\<close>

definition trustworthy :: "persistence_authority \<Rightarrow> (runtime_status + manifest_data) \<Rightarrow> persistence_authority \<Rightarrow> bool" where
  "trustworthy a r b \<longleftrightarrow> advances a b
     \<and> (case r of Inl _ \<Rightarrow> True | Inr m \<Rightarrow> advances a (trust (fill_checkpoint m) b))"

lemma trustworthyI:
  assumes "\<not> below_trusted a c" "advances a b" "trusted_revision b = trusted_revision a" "trusted_digest b = trusted_digest a"
    "\<And>m. r = Inr m \<Longrightarrow> covers c m \<and> (\<exists>x. sha256_text x = content_digest m)"
  shows "trustworthy a r b"
  using assms trust_advances [of a c _ _ b] by (cases r) (auto simp: trustworthy_def)

lemma trustworthy_error [simp]: "trustworthy a (Inl e) b \<longleftrightarrow> advances a b"
  by (simp add: trustworthy_def)

lemma load_v2_trustworthy:
  assumes "load_transaction_v2 lib name c a s = ((r, b), s')" "\<not> internal_transaction_name name"
  shows "trustworthy a r b"
proof (cases r)
  case (Inl e)
  obtain st a1 where bind: "bind_v2_call a name c = (st, a1)" by fastforce
  have "b = a1" using assms(1) bind by (auto simp: load_transaction_v2_def split: prod.splits if_splits)
  then show ?thesis using Inl bind_advances [OF bind] by simp
next
  case (Inr m)
  note ok = load_transaction_ok [OF assms(1) [unfolded Inr] assms(2)]
  obtain t m0 where "authentic a name t m0" "m = m0\<lparr>checkpoint_authorized := True\<rparr>" using ok(4) by blast
  then have "\<exists>x. sha256_text x = content_digest m" using authentic_digest by force
  then show ?thesis
    using bind_ok(4) [OF ok(1)] bind_advances [OF ok(1)] bind_trusted [OF ok(1)] ok(2) Inr
    by (intro trustworthyI [of a c]) auto
qed

definition proper :: "checkpoint \<Rightarrow> manifest_data \<Rightarrow> bool" where
  "proper c m \<longleftrightarrow> covers c m \<and> (\<exists>x. sha256_text x = content_digest m)"

lemma proper_same: "proper c m \<Longrightarrow> same_revision d m \<Longrightarrow> proper c d"
  by (auto simp: proper_def same_revision_def covers_def)

lemma proper_authorized [simp]: "proper c (m\<lparr>checkpoint_authorized := b\<rparr>) = proper c m"
  by (simp add: proper_def covers_def)

lemma accepted_proper:
  assumes "load_authenticated_at_v2 lib a n slot s = (r, s')" "accepted r c = Some m"
  shows "proper c m"
proof -
  have "r = Inr m" "satisfies_floor m c = OA_RUNTIME_OK"
    using assms(2) by (auto simp: accepted_def split: sum.splits if_splits)
  then show ?thesis
    using load_authentic [of lib a n slot s m s'] assms(1) authentic_digest by (auto simp: proper_def satisfies_covers)
qed

lemma choose_proper:
  assumes "choose_revision f p c current prior s = (ch, s')"
  shows "ch = Keep m \<Longrightarrow> accepted current c = Some m" "ch = Promote m \<Longrightarrow> accepted prior c = Some m"
  using assms by (auto simp: choose_revision_def split: option.splits if_splits prod.splits)

lemma promote_same:
  assumes "promote_previous lib pid a f p sel s = ((r, b), s')"
  shows "\<exists>q. b = a\<lparr>poisoned := q\<rparr>" "r = Inr m \<Longrightarrow> same_revision m sel"
  using assms
  by (auto simp: promote_previous_def Let_def intro: same_poison split: prod.splits sum.splits if_splits)

lemma recover_body_proper:
  assumes "recover_body lib pid a f c s = ((r, b), s')"
  shows "\<exists>q. b = a\<lparr>poisoned := q\<rparr>" "r = Inr m \<Longrightarrow> proper c m"
proof -
  obtain current s1 where l1: "load_authenticated_at_v2 lib a f f s = (current, s1)" by fastforce
  obtain prior s2 where l2: "load_authenticated_at_v2 lib a (f @ previous_suffix) f s1 = (prior, s2)" by fastforce
  obtain ch s3 where ch: "choose_revision f (f @ previous_suffix) c current prior s2 = (ch, s3)" by fastforce
  note body = assms [unfolded recover_body_def Let_def l1 l2 prod.case ch]
  show "\<exists>q. b = a\<lparr>poisoned := q\<rparr>"
    using body by (cases ch) (auto dest: promote_same(1) intro: same_poison split: prod.splits)
  show "proper c m" if r: "r = Inr m"
  proof (cases ch)
    case (Keep x)
    then have "x = m" using body r by (auto split: prod.splits if_splits)
    then show ?thesis using accepted_proper [OF l1] choose_proper(1) [OF ch] Keep by blast
  next
    case (Promote x)
    then have "same_revision m x" using body r promote_same(2) by auto
    then show ?thesis using accepted_proper [OF l2] choose_proper(2) [OF ch] Promote proper_same by blast
  qed (use body r in simp)
qed

lemma bind_recovery_ok:
  assumes "bind_recovery a name c = (st, b)"
  shows "advances a b" "trusted_revision b = trusted_revision a" "trusted_digest b = trusted_digest a"
    "st = OA_RUNTIME_OK \<Longrightarrow> \<not> below_trusted a c"
  using assms
  by (auto simp: bind_recovery_def bind_name_def advances_def below_trusted_def split: if_splits option.splits)

lemma recover_trustworthy:
  assumes "recover_transaction_v2 lib pid name c a s = ((r, b), s')"
  shows "trustworthy a r b"
proof -
  obtain st a1 where bind: "bind_recovery a name c = (st, a1)" by fastforce
  note bo = bind_recovery_ok [OF bind]
  show ?thesis
  proof (cases "st = OA_RUNTIME_OK")
    case False
    then show ?thesis using assms bind bo(1) by (auto simp: recover_transaction_v2_def)
  next
    case True
    obtain l s1 where lock: "under_lock (\<lambda>s. (Inr (), s)) s = (l, s1)" by fastforce
    show ?thesis
    proof (cases l)
      case (Inl e)
      then show ?thesis using assms bind lock True bo(1) by (auto simp: recover_transaction_v2_def)
    next
      case (Inr u)
      obtain q a2 s2 where body: "recover_body lib pid a1 name c s1 = ((q, a2), s2)" by (metis prod.collapse)
      obtain p where p: "a2 = a1\<lparr>poisoned := p\<rparr>" using recover_body_proper(1) [OF body] by blast
      have rb: "b = a2" "r = (case q of Inl st \<Rightarrow> Inl st | Inr m \<Rightarrow> Inr (m\<lparr>checkpoint_authorized := True\<rparr>))"
        using assms bind lock True Inr body by (simp_all add: recover_transaction_v2_def)
      have "proper c m" if "r = Inr m" for m
        using that rb(2) recover_body_proper(2) [OF body] by (auto split: sum.splits)
      then show ?thesis
        using bo(4) [OF True] bo(1-3) p rb(1) by (intro trustworthyI [of a c]) (auto simp: proper_def)
    qed
  qed
qed

end
