(* ===== verification/Persistence_Behaviours.thy ===== *)
theory Persistence_Behaviours
  imports Persistence_Floor
begin

text \<open>
  The exported calls of the persistence over time: whatever they are and whatever becomes of the files
  in between, an authority never trusts less than it did.
\<close>

section \<open>One call\<close>

definition remembers :: "platform \<Rightarrow> platform \<Rightarrow> bool" where
  "remembers p q \<longleftrightarrow>
     (registry_good kPersistenceTag (authorities p) \<longrightarrow>
        registry_good kPersistenceTag (authorities q)
        \<and> (\<forall>h. handle_issued kPersistenceTag (authorities p) h \<longrightarrow>
             handle_issued kPersistenceTag (authorities q) h
             \<and> (\<forall>b. registered (authorities q) h = Some b \<longrightarrow>
                  (\<exists>a. registered (authorities p) h = Some a \<and> advances a b))))"

lemma persistence_tag: "proper_tag kPersistenceTag"
  by (simp add: proper_tag_def)

lemma remembers_same: "authorities q = authorities p \<Longrightarrow> remembers p q"
  by (simp add: remembers_def)

lemma remembers_refl [simp]: "remembers p p"
  by (simp add: remembers_def)

lemma remembers_trans: "remembers p q \<Longrightarrow> remembers q r \<Longrightarrow> remembers p r"
  unfolding remembers_def by (meson advances_trans)

lemma remembers_update:
  assumes "registered (authorities p) h = Some a" "advances a b" "authorities q = registry_update h b (authorities p)"
  shows "remembers p q"
  using assms by (auto simp: remembers_def registry_update_def registry_good_def handle_issued_def)

lemma remembers_drop: "remembers p (oa_runtime_persistence_authority_destroy h p)"
  by (auto simp: remembers_def oa_runtime_persistence_authority_destroy_def registry_drop_def registry_good_def
      handle_issued_def)

lemma remembers_insert:
  assumes "registry_insert kPersistenceTag no_node a (authorities p) = (h, authorities q)"
  shows "remembers p q"
proof (cases h)
  case None
  have "handle_issued kPersistenceTag (authorities p) t \<Longrightarrow> handle_issued kPersistenceTag (authorities q) t"
    if "registry_good kPersistenceTag (authorities p)" for t
    using assms None that issued_step [of "authorities p" kPersistenceTag "registered (authorities p)"]
    by (auto simp: registry_insert_def Let_def registry_good_def not_less split: if_splits)
  then show ?thesis
    using registry_insert_none_grows [of kPersistenceTag "authorities p" no_node a "authorities q"] assms None
    by (auto simp: remembers_def)
next
  case (Some t)
  then show ?thesis
    using registry_insert_some [OF persistence_tag, of "authorities p" no_node a t "authorities q"] assms
    by (auto simp: remembers_def)
qed

lemma on_directory_authorities: "on_directory d body p = (r, q) \<Longrightarrow> authorities q = authorities p"
  by (auto simp: on_directory_def split: prod.splits)

lemma register_authorities: "register_manifest no_node m p = (h, q) \<Longrightarrow> authorities q = authorities p"
  by (auto simp: register_manifest_def split: prod.splits)

lemma pin_registered: "registry_pin kPersistenceTag h r = Some a \<Longrightarrow> registered r h = Some a"
  by (simp add: registry_pin_def split: if_splits)

lemma transact_remembers:
  assumes "transact h a body p = (r, q)" "registry_pin kPersistenceTag h (authorities p) = Some a"
    and "\<And>s r b s'. body a s = ((r, b), s') \<Longrightarrow> advances a b"
  shows "remembers p q"
proof -
  obtain x b p1 where d: "on_directory (directory_fd a) (body a) p = ((x, b), p1)" by (metis prod.collapse)
  then obtain s s' where "body a s = ((x, b), s')" by (auto simp: on_directory_def split: prod.splits)
  then show ?thesis
    using assms d on_directory_authorities [OF d]
    by (intro remembers_update [OF pin_registered [OF assms(2)], of b]) (auto simp: transact_def)
qed

lemma read_file_authorities: "read_file lib fs path p = (r, q) \<Longrightarrow> authorities q = authorities p"
  by (auto simp: read_file_def dest: on_directory_authorities split: option.splits prod.splits)

lemma manifest_load_remembers: "remembers p (snd (snd (oa_runtime_manifest_load lib fs no_node path out p)))"
  by (rule remembers_same)
    (auto simp: oa_runtime_manifest_load_def dest!: read_file_authorities register_authorities
      split: prod.splits sum.splits option.splits)

lemma preview_file_remembers: "remembers p (snd (snd (oa_runtime_manifest_preview_file lib fs path out p)))"
  by (rule remembers_same)
    (auto simp: oa_runtime_manifest_preview_file_def dest!: read_file_authorities split: prod.splits sum.splits)

lemma open_remembers: "remembers p (snd (snd (open_authority fs no_object no_node d key key_id prepare p)))"
  by (auto simp: open_authority_def intro: remembers_insert split: option.splits prod.splits)

lemma save_remembers: "remembers p (snd (oa_runtime_manifest_save lib neg pid m h name p))"
  by (auto simp: oa_runtime_manifest_save_def split: option.splits)
    (metis transact_remembers save_v1_advances prod.collapse)

lemma load_remembers: "remembers p (snd (snd (oa_runtime_manifest_load_authenticated lib no_node h name out p)))"
proof -
  have "remembers p q" if "registry_pin kPersistenceTag h (authorities p) = Some a"
    "transact h a (load_transaction lib n) p = (r, p1)" "authorities q = authorities p1" for a n r p1 q
    using transact_remembers [OF that(2,1)] load_v1_advances that(3) by (simp add: remembers_def)
  then show ?thesis
    by (auto simp: oa_runtime_manifest_load_authenticated_def split: option.splits prod.splits sum.splits
        dest!: register_authorities)
qed

lemma save_v2_remembers:
  "remembers p (snd (snd (oa_runtime_manifest_save_v2 lib neg pid m h name expected committed p)))"
proof -
  have "remembers p p1" if "registry_pin kPersistenceTag h (authorities p) = Some a"
    "transact h a (save_transaction_v2 lib neg pid d n c) p = (r, p1)" for a d n c r p1
    using transact_remembers [OF that(2,1)] save_v2_advances by blast
  then show ?thesis
    by (auto simp: oa_runtime_manifest_save_v2_def split: option.splits prod.splits sum.splits)
qed

text \<open>A load or a recovery: the transaction, the new handle, and the checkpoint that is trusted then.\<close>

lemma checked_remembers:
  assumes body: "\<And>n c a s r b s'. safe_v2_file_name (Some n) \<Longrightarrow> body n c a s = ((r, b), s') \<Longrightarrow> trustworthy a r b"
    and fin: "\<And>a b. advances a b \<Longrightarrow> advances a (fin b)"
  shows "remembers p (snd (snd (checked_manifest body fin no_node h name trusted out observed p)))"
proof -
  have main: "remembers p p1"
    "r = Inr m \<Longrightarrow> authorities p2 = authorities p1 \<Longrightarrow> remembers p (change_authority h (\<lambda>a. fin (trust (fill_checkpoint m) a)) p2)"
    if pin: "registry_pin kPersistenceTag h (authorities p) = Some a" and n: "safe_v2_file_name (Some n)"
      and t: "transact h a (body n c) p = (r, p1)" for a n c r p1 m p2
  proof -
    obtain x b p' where d: "on_directory (directory_fd a) (body n c a) p = ((x, b), p')" by (metis prod.collapse)
    then obtain s s' where "body n c a s = ((x, b), s')" by (auto simp: on_directory_def split: prod.splits)
    then have tr: "trustworthy a x b" using body [OF n] by blast
    have p1: "r = x" "authorities p1 = registry_update h b (authorities p)"
      using t d on_directory_authorities [OF d] by (auto simp: transact_def)
    note pinned = pin_registered [OF pin]
    show "remembers p p1" using tr remembers_update [OF pinned _ p1(2)] by (simp add: trustworthy_def)
    assume r: "r = Inr m" and p2: "authorities p2 = authorities p1"
    have "authorities (change_authority h (\<lambda>a. fin (trust (fill_checkpoint m) a)) p2)
        = registry_update h (fin (trust (fill_checkpoint m) b)) (authorities p)"
      using p1(2) p2 by (simp add: change_authority_def registry_update_def)
    then show "remembers p (change_authority h (\<lambda>a. fin (trust (fill_checkpoint m) a)) p2)"
      using tr r p1(1) fin by (intro remembers_update [OF pinned]) (auto simp: trustworthy_def)
  qed
  have new: "remembers p p2" if "registry_pin kPersistenceTag h (authorities p) = Some a" "safe_v2_file_name (Some n)"
    "transact h a (body n c) p = (r, p1)" "register_manifest no_node m p1 = (mh, p2)" for a n c r p1 m mh p2
    using remembers_trans [OF main(1) [OF that(1-3)] remembers_same [OF register_authorities [OF that(4)]]] .
  show ?thesis
    unfolding checked_manifest_def Let_def
    using main new
    by (auto simp: safe_v2_file_name_def safe_file_name_def dest: register_authorities
        split: option.splits prod.splits sum.splits)
qed

lemma load_v2_remembers:
  "remembers p (snd (snd (oa_runtime_manifest_load_authenticated_v2 lib no_node h name trusted out observed p)))"
  unfolding oa_runtime_manifest_load_authenticated_v2_def
  using load_v2_trustworthy safe_not_internal by (intro checked_remembers) blast+

lemma recover_v2_remembers:
  "remembers p (snd (snd (oa_runtime_manifest_recover_v2 lib pid no_node h name trusted out observed p)))"
  unfolding oa_runtime_manifest_recover_v2_def
  using recover_trustworthy by (intro checked_remembers) (blast, simp)

section \<open>Any sequence of calls\<close>

text \<open>
  A step is an exported call with any arguments, or anything that the rest of the runtime, other
  processes and a crash do to the world and the directories.
\<close>

inductive persistence_call :: "platform \<Rightarrow> platform \<Rightarrow> bool" where
  manifest_load: "persistence_call p (snd (snd (oa_runtime_manifest_load lib fs no_node path out p)))"
| preview_file: "persistence_call p (snd (snd (oa_runtime_manifest_preview_file lib fs path preview p)))"
| authority_create: "persistence_call p
    (snd (snd (oa_runtime_persistence_authority_create fs no_object no_node directory key key_id out p)))"
| authority_open_v2: "persistence_call p
    (snd (snd (oa_runtime_persistence_authority_open_v2 fs no_object no_node directory key key_id trusted out p)))"
| authority_destroy: "persistence_call p (oa_runtime_persistence_authority_destroy h p)"
| load_authenticated: "persistence_call p (snd (snd (oa_runtime_manifest_load_authenticated lib no_node h name out p)))"
| save: "persistence_call p (snd (oa_runtime_manifest_save lib neg pid m h name p))"
| load_authenticated_v2: "persistence_call p
    (snd (snd (oa_runtime_manifest_load_authenticated_v2 lib no_node h name trusted out observed p)))"
| recover_v2: "persistence_call p
    (snd (snd (oa_runtime_manifest_recover_v2 lib pid no_node h name trusted out observed p)))"
| save_v2: "persistence_call p (snd (snd (oa_runtime_manifest_save_v2 lib neg pid m h name expected committed p)))"
| others: "persistence_call p (p\<lparr>world := w, directories := ds, counters := k\<rparr>)"

lemma call_remembers: "persistence_call p q \<Longrightarrow> remembers p q"
proof (induction rule: persistence_call.induct)
  case (authority_create p fs no_object no_node directory key key_id out)
  show ?case by (simp add: oa_runtime_persistence_authority_create_def open_remembers)
next
  case (authority_open_v2 p fs no_object no_node directory key key_id trusted out)
  show ?case by (simp add: oa_runtime_persistence_authority_open_v2_def open_remembers)
qed (simp_all add: manifest_load_remembers preview_file_remembers remembers_drop load_remembers save_remembers
  load_v2_remembers recover_v2_remembers save_v2_remembers remembers_same)

lemma calls_remember: "persistence_call\<^sup>*\<^sup>* p q \<Longrightarrow> remembers p q"
  by (induction rule: rtranclp_induct) (auto intro: remembers_trans call_remembers)

section \<open>A sample\<close>

definition sample_authority :: persistence_authority where
  "sample_authority = (new_authority 0 (replicate 32 1) ''key-1'')\<lparr>protocol_version := 2\<rparr>"

definition sample_revision :: "manifest_data \<times> string" where
  "sample_revision = build_signed_v2 no_minus sample_authority (make_virtual_manifest no_minus) ''arm''"

definition sample_disk :: disk where
  "sample_disk = \<lparr>entries = [(''arm'', File 1 (snd sample_revision) True)], entries_synced = True, next_inode = 2,
     faults = [], trace = [], library = initial_api, save_sequence = 0, install_sequence = 0, recovery_sequence = 0\<rparr>"

lemma sample_facts:
  "safe_v2_file_name (Some ''arm'')" "inodes_below sample_disk" "safe_key_id (Some (pa_key_id sample_authority))"
  "\<not> ends_with (pa_key_id sample_authority) ''hmac-sha256-v2''" "faults sample_disk = []"
  by (auto simp: safe_v2_file_name_def safe_file_name_def internal_transaction_name_def file_char_def safe_char_def is_previous_def
      previous_suffix_def inodes_below_def sample_disk_def sample_authority_def new_authority_def safe_key_id_def ends_with_def)

lemma sample_valid: "\<exists>l. validate_manifest_data wide_lib False (make_virtual_manifest no_minus) initial_api = (True, l)"
proof -
  have "wide_limits wide_lib" by (simp add: wide_limits_def wide_lib_def model_limit_def)
  then show ?thesis by (rule virtual_validated)
qed

lemma sample_loads:
  obtains m s' where "load_transaction_v2 wide_lib ''arm'' (fill_checkpoint (fst sample_revision)) sample_authority sample_disk
    = ((Inr m, sample_authority\<lparr>bound_file_name := ''arm''\<rparr>), s')" "manifest_revision (md_config m) = 1"
proof -
  obtain l where l: "validate_manifest_data wide_lib False (make_virtual_manifest no_minus) (library sample_disk) = (True, l)"
    using sample_valid by (auto simp: sample_disk_def)
  define a1 where "a1 = sample_authority\<lparr>bound_file_name := ''arm''\<rparr>"
  have same: "build_signed_v2 no_minus a1 (make_virtual_manifest no_minus) ''arm'' = sample_revision"
    unfolding sample_revision_def a1_def by (rule build_signed_v2_key) simp_all
  have key: "safe_key_id (Some (pa_key_id a1))" "\<not> ends_with (pa_key_id a1) marker_v2"
    using sample_facts(3,4) by (simp_all add: a1_def marker_v2_def)
  have there: "map_of (entries sample_disk) ''arm'' = Some (File 1 (snd sample_revision) True)" by (simp add: sample_disk_def)
  note loaded = load_saved [OF l virtual_writable key(1) sample_facts(5) key(2) there [folded same]]
  have one: "manifest_revision (md_config (make_virtual_manifest no_minus)) = 1"
    by (simp add: make_virtual_manifest_def Let_def virtual_config_def)
  have "manifest_revision (md_config (fst sample_revision)) = 1"
    by (simp add: sample_revision_def signed_revision make_virtual_manifest_def Let_def virtual_config_def)
  then have bind: "bind_v2_call sample_authority ''arm'' (fill_checkpoint (fst sample_revision)) = (OA_RUNTIME_OK, a1)"
    by (simp add: bind_v2_call_def bind_name_def below_trusted_def fill_checkpoint_def sample_authority_def new_authority_def a1_def)
  have lock: "directory_transaction sample_disk = (True, sample_disk)"
    using sample_facts(5) by (simp add: directory_transaction_def)
  have clean: "cleanup_internal_artifacts sample_disk = (OA_RUNTIME_OK, sample_disk)"
    using sample_facts(5) by (simp add: cleanup_internal_artifacts_def open_scan_def)
      (simp add: sample_disk_def internal_transaction_name_def)
  show thesis
  proof (rule that)
    show "load_transaction_v2 wide_lib ''arm'' (fill_checkpoint (fst sample_revision)) sample_authority sample_disk
      = ((Inr ((from_file (signed_form no_minus a1 (make_virtual_manifest no_minus) ''arm''))\<lparr>checkpoint_authorized := True\<rparr>),
          sample_authority\<lparr>bound_file_name := ''arm''\<rparr>), sample_disk\<lparr>library := l\<rparr>)"
      by (simp add: load_transaction_v2_def bind under_lock_def lock clean loaded [unfolded same] a1_def [symmetric])
  qed (simp add: signed_revision one)
qed

definition sample_platform :: platform where
  "sample_platform = \<lparr>world = initial_facade,
     authorities = snd (registry_insert kPersistenceTag False sample_authority empty_registry),
     directories = (\<lambda>d. sample_disk), counters = (0, 0, 0)\<rparr>"

lemma sample_insert: "registry_insert kPersistenceTag False sample_authority empty_registry
    = (Some 0x17, \<lparr>registered = [0x17 \<mapsto> sample_authority], next_index = 2\<rparr>)"
  by (simp add: registry_insert_def empty_registry_def Let_def)

lemma sample_platform_good:
  "registry_good kPersistenceTag (authorities sample_platform)" "registered (authorities sample_platform) 0x17 = Some sample_authority"
proof -
  note new = registry_insert_some [OF persistence_tag empty_registry_good sample_insert]
  have a: "authorities sample_platform = \<lparr>registered = [0x17 \<mapsto> sample_authority], next_index = 2\<rparr>"
    by (simp add: sample_platform_def sample_insert)
  show "registry_good kPersistenceTag (authorities sample_platform)"
    unfolding a using new by (elim conjE) assumption
  show "registered (authorities sample_platform) 0x17 = Some sample_authority" by (simp add: a)
qed

lemma sample_checkpoint: "checkpoint_status (Some (fill_checkpoint (fst sample_revision))) = OA_RUNTIME_OK"
  "ck_revision (fill_checkpoint (fst sample_revision)) = 1"
proof -
  obtain x where x: "content_digest (fst sample_revision) = sha256_text x" by (simp add: sample_revision_def signed_revision)
  have one: "manifest_revision (md_config (fst sample_revision)) = 1"
    by (simp add: sample_revision_def signed_revision make_virtual_manifest_def Let_def virtual_config_def)
  have "char_array OA_RUNTIME_DIGEST_CAPACITY (sha256_text x) = sha256_text x @ [NUL]"
    using sha256_text_form(1) [of x] by (simp add: char_array_def)
  then have "lowercase_digest (char_array OA_RUNTIME_DIGEST_CAPACITY (sha256_text x))"
    using sha256_text_form [of x] digest_padded [of x] by (simp add: lowercase_digest_def)
  then show "checkpoint_status (Some (fill_checkpoint (fst sample_revision))) = OA_RUNTIME_OK"
    "ck_revision (fill_checkpoint (fst sample_revision)) = 1"
    by (simp_all add: checkpoint_status_def fill_checkpoint_def empty_checkpoint_def x one)
qed

lemma sample_load_step:
  obtains q b where "persistence_call sample_platform q" "registered (authorities q) 0x17 = Some b" "trusted_revision b = 1"
proof -
  obtain m s' where l: "load_transaction_v2 wide_lib ''arm'' (fill_checkpoint (fst sample_revision)) sample_authority sample_disk
    = ((Inr m, sample_authority\<lparr>bound_file_name := ''arm''\<rparr>), s')" "manifest_revision (md_config m) = 1" by (rule sample_loads)
  define a1 where "a1 = sample_authority\<lparr>bound_file_name := ''arm''\<rparr>"
  have disk: "sample_disk\<lparr>library := initial_api, save_sequence := 0, install_sequence := 0, recovery_sequence := 0\<rparr> = sample_disk"
    by (simp add: sample_disk_def)
  define p1 where "p1 = snd (transact 0x17 sample_authority (load_transaction_v2 wide_lib ''arm'' (fill_checkpoint (fst sample_revision)))
    sample_platform)"
  have t: "transact 0x17 sample_authority (load_transaction_v2 wide_lib ''arm'' (fill_checkpoint (fst sample_revision)))
      sample_platform = (Inr m, p1)"
    and p1: "authorities p1 = registry_update 0x17 a1 (authorities sample_platform)" "manifest_handles (world p1) = empty_registry"
    using l(1) disk
    by (simp_all add: p1_def transact_def on_directory_def sample_platform_def initial_facade_def a1_def)
  obtain mh p2 where r: "register_manifest False m p1 = (Some mh, p2)" "authorities p2 = authorities p1"
    using p1(2) by (simp add: register_manifest_def registry_insert_def empty_registry_def Let_def)
  have pin: "registry_pin kPersistenceTag 0x17 (authorities sample_platform) = Some sample_authority"
    using sample_platform_good by (simp add: registry_pin_def)
  have "output_valid SIZEOF_CHECKPOINT (Some empty_checkpoint)" by (simp add: output_valid_def empty_checkpoint_def)
  then have "checked_manifest (load_transaction_v2 wide_lib) (\<lambda>a. a) False 0x17 (Some ''arm'')
      (Some (fill_checkpoint (fst sample_revision))) (Some 0) (Some empty_checkpoint) sample_platform
    = (OA_RUNTIME_OK, (Some mh, Some (fill_checkpoint m)), change_authority 0x17 (\<lambda>a. trust (fill_checkpoint m) a) p2)"
    using sample_checkpoint pin sample_facts(1) t r(1) by (simp add: checked_manifest_def snapshot_checkpoint_def Let_def)
  then have "persistence_call sample_platform (change_authority 0x17 (\<lambda>a. trust (fill_checkpoint m) a) p2)"
    using persistence_call.load_authenticated_v2 [where p = sample_platform and lib = wide_lib and no_node = False and h = "0x17" and name = "Some ''arm''"
      and trusted = "Some (fill_checkpoint (fst sample_revision))" and out = "Some 0" and observed = "Some empty_checkpoint"]
    by (simp add: oa_runtime_manifest_load_authenticated_v2_def)
  moreover have "registered (authorities (change_authority 0x17 (\<lambda>a. trust (fill_checkpoint m) a) p2)) 0x17
      = Some (trust (fill_checkpoint m) a1)"
    by (simp add: change_authority_def r(2) p1(1) registry_update_def)
  moreover have "trusted_revision (trust (fill_checkpoint m) a1) = 1" by (simp add: trust_def fill_checkpoint_def l(2))
  ultimately show thesis by (rule that)
qed

section \<open>The store of revisions\<close>

text \<open>
  C11: saving a revision under the second protocol is atomic whatever call of the operating system
  fails. In every directory that the call goes through, and so after a crash at any moment, the file
  is the old one or the new text in full and synced. When the call reports success the new text is
  there, or the same revision as before, synced with its directory; when it reports lost durability
  the authority is poisoned; on any other error the old text is there.
\<close>

theorem save_v2_atomic:
  assumes "safe_v2_file_name (Some name)" "inodes_below s"
  shows "case save_transaction_v2 lib neg pid m name c a s of (result, s') \<Rightarrow>
     revision_outcome name c (build_signed_v2 neg a m name) result s s'"
  using assms by (rule save_v2_ends)

theorem save_v2_atomic_witness:
  "case save_transaction_v2 wide_lib no_minus 7 (make_virtual_manifest no_minus) ''arm'' (fill_checkpoint (fst sample_revision))
       sample_authority sample_disk of (result, s') \<Rightarrow>
     revision_outcome ''arm'' (fill_checkpoint (fst sample_revision))
       (build_signed_v2 no_minus sample_authority (make_virtual_manifest no_minus) ''arm'') result sample_disk s'"
  by (rule save_v2_atomic [OF sample_facts(1,2)])

text \<open>
  C20: a load under the second protocol lets nothing through that was not signed for it. When it
  succeeds, the authority was neither poisoned nor bound to another file, the checkpoint was not below
  the one it trusts, the file's text reads as a manifest whose tag is the signature, under the
  authority's key, of its key identifier, the slot's name and the text before the signature, and the
  manifest returned is that one, no older than the checkpoint and with its digest if just as old.
\<close>

theorem load_v2_authentic:
  assumes "load_transaction_v2 lib name c a s = ((Inr m, a'), s')" "safe_v2_file_name (Some name)"
  shows "protocol_version a = 2 \<and> \<not> poisoned a \<and> (bound_file_name a = [] \<or> bound_file_name a = name)
    \<and> \<not> below_trusted a c \<and> covers c m
    \<and> (\<exists>i t b m0. map_of (entries s) name = Some (File i t b) \<and> authentic a name t m0
        \<and> m = m0\<lparr>checkpoint_authorized := True\<rparr>)"
  using load_transaction_ok [OF assms(1) safe_not_internal [OF assms(2)]] bind_ok by blast

theorem load_v2_authentic_witness:
  "\<exists>m. covers (fill_checkpoint (fst sample_revision)) m
     \<and> (\<exists>i t b m0. map_of (entries sample_disk) ''arm'' = Some (File i t b) \<and> authentic sample_authority ''arm'' t m0
        \<and> m = m0\<lparr>checkpoint_authorized := True\<rparr>)"
proof -
  obtain m s' where l: "load_transaction_v2 wide_lib ''arm'' (fill_checkpoint (fst sample_revision)) sample_authority sample_disk
    = ((Inr m, sample_authority\<lparr>bound_file_name := ''arm''\<rparr>), s')" by (rule sample_loads)
  from load_v2_authentic [OF l sample_facts(1)] show ?thesis by blast
qed

text \<open>
  C26: what a save under the second protocol writes can be loaded. A manifest that the control library
  accepts, written for a slot by \<open>build_signed_v2\<close>, is read back by the same authority from that
  slot against the checkpoint that the save returned: its signature holds and it is the manifest in
  its stored form, authorised by the checkpoint, for every key identifier that does not end in the
  marker of the signature line.
\<close>

theorem saved_revision_loads:
  assumes "validate_manifest_data lib False m (library s) = (True, l)" "writable m" "safe_key_id (Some (pa_key_id a))" "faults s = []"
    "\<not> ends_with (pa_key_id a) ''hmac-sha256-v2''"
    "map_of (entries s) name = Some (File i (snd (build_signed_v2 neg a m name)) b)"
  shows "load_checked lib a name (fill_checkpoint (fst (build_signed_v2 neg a m name))) s
    = (Inr ((from_file (signed_form neg a m name))\<lparr>checkpoint_authorized := True\<rparr>), s\<lparr>library := l\<rparr>)"
  using load_saved [OF assms(1-4) _ assms(6)] assms(5) by (simp add: marker_v2_def)

theorem saved_revision_loads_witness:
  "fst (load_checked wide_lib sample_authority ''arm'' (fill_checkpoint (fst sample_revision)) sample_disk)
    = Inr ((from_file (signed_form no_minus sample_authority (make_virtual_manifest no_minus) ''arm''))\<lparr>checkpoint_authorized := True\<rparr>)"
proof -
  obtain l where l: "validate_manifest_data wide_lib False (make_virtual_manifest no_minus) (library sample_disk) = (True, l)"
    using sample_valid by (auto simp: sample_disk_def)
  have there: "map_of (entries sample_disk) ''arm'' = Some (File 1 (snd (build_signed_v2 no_minus sample_authority
      (make_virtual_manifest no_minus) ''arm'')) True)"
    by (simp add: sample_disk_def sample_revision_def)
  from saved_revision_loads [OF l virtual_writable sample_facts(3,5,4) there] show ?thesis
    by (simp add: sample_revision_def)
qed

text \<open>
  C15: an authority never goes back. Over any sequence of exported calls of the persistence, with
  anything done to the files, the other handles and the rest of the runtime in between, an authority
  that is still there keeps its directory, key, protocol and the file it is bound to; the revision it
  trusts and the floor of the first protocol never get smaller, and neither does the accepted revision
  of any file; at an equal revision the digest stays. A replayed older file is never trusted again.
\<close>

theorem authority_never_goes_back:
  assumes "persistence_call\<^sup>*\<^sup>* p q" "registry_good kPersistenceTag (authorities p)"
    and "registered (authorities p) h = Some a" "registered (authorities q) h = Some b"
  shows "advances a b"
proof -
  have "handle_issued kPersistenceTag (authorities p) h"
    using assms(2,3) by (auto simp: registry_good_def)
  then show ?thesis
    using calls_remember [OF assms(1)] assms(2-4) by (auto simp: remembers_def)
qed

theorem authority_never_goes_back_witness:
  "\<exists>q b. persistence_call\<^sup>*\<^sup>* sample_platform q \<and> registered (authorities q) 0x17 = Some b \<and> trusted_revision b = 1
     \<and> trusted_revision sample_authority = 0 \<and> advances sample_authority b"
proof -
  obtain q b where q: "persistence_call sample_platform q" "registered (authorities q) 0x17 = Some b" "trusted_revision b = 1"
    by (rule sample_load_step)
  have "advances sample_authority b"
    using authority_never_goes_back [OF r_into_rtranclp [of persistence_call, OF q(1)] sample_platform_good(1,2) q(2)] .
  then show ?thesis using q r_into_rtranclp [of persistence_call, OF q(1)]
    by (auto simp: sample_authority_def new_authority_def)
qed

end
