(* ===== verification/Spec2Isabelle.thy ===== *)
theory Spec2Isabelle
  imports Transport_Api Commission_Api_Safety Sha256_Standard Control_Plan_Safety Control_Api_Safety
    Manifest_Patch Runtime_Behaviours Persistence_Behaviours
begin

text \<open>
  OpenArmIK: the C++ components of the OpenArm robot stack.

  The repository drives a bimanual robot arm: two arms of seven DaMiao motors on two CAN buses. Its
  C++ core is a set of small libraries with C interfaces, stacked on one another. This development
  models them as they are written, state by state and call by call, and proves what makes them
  safe: no dangerous frame without a licence, no motion without arming, no arming without a fresh
  challenge, every failure latched, every handle dead for good once destroyed.

  \<^bold>\<open>Parts of the program and their theories\<close>

  \<^item> Shared vocabulary. \<open>Prelude\<close>: machine integers as words, pointers as options, the
    lemma collections. \<open>Binary64\<close>: the C++ \<open>double\<close> as an executable type with not-a-number,
    infinities and correctly rounded rationals (one zero). \<open>Ring_Buffer\<close>: arrays with a head and a
    count, the interface \<open>bounded_fifo\<close>. \<open>Handle_Table\<close>: the interface of a registry of handles.
    \<open>Latched_Machine\<close>: the interface of a session that ends in a terminal state. Each of the three
    interfaces is a locale, interpreted in the theories of the code that provides it.
  \<^item> \<open>src/transport\<close>. \<open>Damiao_Registers\<close> (the part of \<open>src/can/src/openarm_can.c\<close> that the
    classifier calls), \<open>Transport\<close> (\<open>transport.cpp\<close>, \<open>transport_internal.hpp\<close>: frame classes, one-shot
    authorities, send, receive, close), \<open>Socketcan\<close> (\<open>socketcan_backend.cpp\<close>: the Linux backend over
    tapes of system-call results, the netlink parser and the ring of link transitions),
    \<open>Transport_Api\<close> (\<open>c_api.cpp\<close>). The transport owns a backend; the backend's answers are the
    parameters \<open>backend_ops\<close> of the transport's operations, and \<open>Socketcan\<close> supplies the real ones.
    Lemmas: \<open>Transport_Safety\<close> (licences, classes), \<open>Socketcan_Safety\<close> (parser, queue, descriptors, the
    transport over this backend).
  \<^item> \<open>src/commission\<close>. \<open>Commission_Manual\<close> and \<open>Commission_Recipe\<close> (\<open>calibration_session.cpp\<close>: the
    manual session, and the contact recipe with one definition per case of its switch),
    \<open>Commission_Api\<close> (\<open>c_api.cpp\<close>: the registry of sessions and the exported calls). Lemmas:
    \<open>Manual_Safety\<close>, \<open>Recipe_Safety\<close>, \<open>Recipe_Properties\<close>, \<open>Commission_Api_Safety\<close>.
  \<^item> \<open>src/control\<close>. \<open>Motor_Sim\<close> (the class \<open>DamiaoMotorSimulator\<close>: the plant of a joint and its
    quantised feedback frame), \<open>Arm_Runtime\<close> (the class \<open>ArmRuntime\<close>: seven motors and the queue of
    delayed feedback generations), \<open>Kinematics\<close> (\<open>kinematics.cpp\<close>), \<open>Control_State\<close> (the fields of
    \<open>Controller\<close>, its event array, faults and stops), \<open>Control_Session\<close> (opening, challenge, arming,
    interlocks, stop, disarm, reset, reports, simulation hooks), \<open>Control_Plan\<close> (the five planners),
    \<open>Control_Cycle\<close> (execute and advance with the watchdogs, the trajectory, the two monitors and the
    settling), \<open>Control_Manifest\<close> (the constructor of \<open>Manifest\<close> and \<open>standard_manifest.cpp\<close>), \<open>Units\<close>
    (\<open>src/model/src/openarm_units.c\<close>), \<open>Control_Api\<close> (\<open>c_api.cpp\<close>: three registries over one counter of
    tokens, the process-wide emergency stop, and every exported call). Lemmas: \<open>Control_Safety\<close> (the
    invariant of the controller, kept by each operation), \<open>Control_Calls\<close> (the calls as a datatype and
    the graph of the lifecycle as a step relation), \<open>Control_Estop\<close>, \<open>Control_Arming\<close>,
    \<open>Control_Motion\<close>, \<open>Control_Plan_Safety\<close>, \<open>Control_Api_Safety\<close>; \<open>Control_Samples\<close> holds the concrete
    controllers of the instances.
  \<^item> \<open>src/runtime\<close>. \<open>Sha256\<close> (\<open>sha256.cpp\<close>: the digest and the HMAC over text), and \<open>Sha256_Standard\<close>
    (FIPS 180-4 and RFC 2104 stated on their own, with the constants as roots of primes, and that the
    code computes them).
    Over it the manifests: \<open>Number_Text\<close> and \<open>Runtime_Manifest\<close> (\<open>manifest.cpp\<close>: numbers as the
    standard library prints and reads them, validation, the canonical text and its reader, the patch
    of a calibration), with their properties in \<open>Manifest_Text\<close> and \<open>Manifest_Patch\<close>. The facade:
    \<open>Runtime_Core\<close> (\<open>runtime_internal.hpp\<close>: statuses and the template \<open>Registry\<close>, an instance of
    \<open>handle_table\<close>), \<open>Runtime_State\<close> (the objects behind the handles, their destructors, the queue of
    dated events and the worker thread of \<open>runtime.cpp\<close>), \<open>Runtime_Facade\<close> (creation, reports,
    snapshots), \<open>Runtime_Motion\<close> and \<open>Runtime_Execution\<close> (arming, planning under the plan authority,
    execution, and the inline adapters of the headers \<open>openarm_runtime_motion.h\<close> and
    \<open>openarm_runtime_units.h\<close>), \<open>Runtime_Calibration\<close> (\<open>calibration.cpp\<close>: a session of the
    commissioning library fed from the controller of the control library). A runtime calls the two
    lower libraries through their C interfaces only: the record \<open>facade\<close> holds their states as
    \<open>control\<close> and \<open>commission\<close>. Lemmas: \<open>Runtime_Steps\<close> (every call and every turn of a worker as a
    rule of the relation \<open>facade_step\<close>, and what the calls leave alone), \<open>Runtime_Lifetime\<close> (the shared
    references), \<open>Runtime_Evolution\<close> (authorities are never regained, clocks never go back),
    \<open>Runtime_Properties\<close>, \<open>Runtime_Behaviours\<close>.
  \<^item> The persistence of the runtime, \<open>persistence.cpp\<close>. \<open>Persistence_Files\<close>: a directory as the calls of the
    operating system change it (the record \<open>disk\<close>, with a tape of faults from which each call takes its
    outcome, and the trace of the directories a crash could find), the tests of names and paths,
    reading and writing. \<open>Persistence_Store\<close>: authorities, the two forms of signature, checkpoints and
    the installation of a revision with its rollback. \<open>Persistence_Api\<close>: the transactions under the
    directory's lock, recovery among them. \<open>Persistence_Calls\<close>: the ten exported calls over the handles
    (the record \<open>platform\<close> holds the facade, the authorities and the directories). Lemmas:
    \<open>Persistence_Frame\<close> (what a call keeps of a name), \<open>Persistence_Install\<close> and \<open>Persistence_Atomic\<close> (the
    moments of a file through an installation and a save), \<open>Persistence_Roundtrip\<close> (the signed text and
    its reader), \<open>Persistence_Trust\<close> and \<open>Persistence_Floor\<close> (what an authority lets through and
    remembers), \<open>Persistence_Behaviours\<close> (every sequence of calls, and the properties).

  \<^bold>\<open>How state and effects are represented\<close>

  An object's fields are a record, and a member function takes the record and returns it changed
  with its status. The mutexes of the libraries make each exported call one atomic step, so an
  interleaving of threads is a sequence of calls; the sequences are lists of values of a datatype of
  calls (\<open>control_call\<close>, \<open>api_call\<close>, and those of the transport and of commissioning) folded over the
  state. Clocks, system calls and allocation failures are inputs: an argument of the call, or a tape
  in the state. The emergency-stop word of the process is read where the code samples it and passed
  to the controller as the flag \<open>estop\<close>. Unsigned integers are words of their width, so that sums
  wrap where the code's do. Two arms are a pair, seven joints a list, a \<open>char\<close> array a string with
  its zero bytes. Errors are values: a sum of a status and a result, or a status beside the state.

  \<^bold>\<open>What the groups of lemmas show\<close>

  \<^item> Invariants of the state over any sequence of calls: the authorities of a transport, the queue
    of an arm, the controller, the registries.
  \<^item> Licences: what must have held when a dangerous frame was sent, an arm armed, a command started,
    a mapping committed, and that each licence is used once.
  \<^item> Failures: every failing step of a recipe that is not committed, watchdog of a cycle, bad sample or emergency stop
    leaves its object latched, and only the documented reset leaves the latch.
  \<^item> The facade: a plan is executed once and only under its authority, objects live exactly as long as
    something refers to them, a manifest survives its text, a calibration changes one
    mapping and the fields that vouch for it.
  \<^item> The persistence: a save is atomic whatever call fails and whenever a crash comes, a load returns
    only what was signed for its slot and is no older than the checkpoint, what was saved is read
    back, and what an authority trusts never goes back.
  \<^item> Refinements and equivalences: the ring of transitions and the queue of the runtime are lists, the lifecycle follows its
    graph, the digest and the HMAC are the standard ones, encoders and parsers are inverse.
  \<^item> Where the code does not do what its comments say, the theorem states what it does:
    \<open>planning_masks_estop\<close> (a planning request under an asserted stop keeps the stop from being made),
    \<open>pending_plan_masks_estop\<close> (no cycle runs while a plan is pending), \<open>busy_begin_evicts\<close> (a
    calibration refused as busy takes the runtime from the one that is active),
    \<open>wide_identifier_delivered\<close> (the check of an identifier's width never refuses) and
    \<open>digestless_text_refused\<close> (a manifest written without its digest is not read back). Likewise
    \<open>marker_key_misread\<close> (a key identifier that ends in the marker of the signature hides it) and
    \<open>nan_spans_accepted\<close> (a manifest passes its checks with NaN as the spans and gear of its motors).

  \<^bold>\<open>Bounds and termination\<close>

  Loops over arrays recurse on lists or on a bounded index and end by themselves; the search for a
  trajectory segment and the digest's blocks have termination proofs by measures. The system-call
  loops of the backend consume a tape of answers and return \<open>None\<close> when it ends, which stands for a
  call still waiting; the properties that a call returns hold for tapes with enough answers. The
  netlink parser counts in 64-bit words whose differences wrap, as \<open>size_t\<close> does; it ends because every message
  leaves fewer bytes, which needs the test of the rounded length, and \<open>link_parser_safe\<close> shows that it
  reads inside its buffer. The drain of the controller's events has 65 turns (\<open>DRAIN_TURNS\<close>): the controller's queue
  holds at most 64, and \<open>drain_keeps_newest\<close> shows that it is empty at the end.
  \<open>challenge_arms_once\<close> is for fewer than two to the power 63 calls, the range of the counter.

  \<^bold>\<open>What is a parameter\<close>

  The C model library (\<open>src/model/src/openarm_model.c\<close>, \<open>openarm_collision.c\<close>) computes with sine,
  cosine and cube roots of the mathematics library; the controller is modelled over any such
  library, the record \<open>model_lib\<close>, and no property assumes what it computes. The content of a
  \<open>double\<close> whose bytes are only partly copied by \<open>copy_record_prefix\<close> is the parameter \<open>mix\<close>.

  What the operating system answers to paths is the record \<open>path_answers\<close>, and the number of the process
  is an argument of a save. Calls on a directory are the calls of POSIX, whose result is theirs on the
  entries unless the tape of faults makes them fail; the tape is any list, and a call after its end
  does not fail.

  The texts that identify the kinematic model are the record \<open>model_texts\<close>. \<open>Binary64\<close> has one zero:
  where the sign of a zero is printed it is the parameter \<open>zero_signs\<close>. Failures of allocations in a
  call of the facade are a record of flags (\<open>create_faults\<close>, \<open>plan_faults\<close>, \<open>session_faults\<close>,
  \<open>publish_faults\<close>). The guard that refuses a forked process is taken to hold.

  \<^bold>\<open>Not modelled\<close>

  \<^item> The C model library, above. \<open>src/can/src/openarm_can.c\<close> beyond the register table: C code with
    floating-point packing, used by the tools and not by the modelled libraries.
  \<^item> The inventory of the runtime (\<open>inventory.cpp\<close>): a listing of the CAN interfaces of the operating
    system that no other component depends on. Of the persistence, the hooks of its tests, and
    allocations that fail elsewhere than in reading a file, parsing it and making an object.
  \<^item> The ROS 2 portal, sessions and nodes (\<open>src/ros2_ws\<close>): HTTP, ROS 2 and X11 around the C interfaces.
  \<^item> Test hooks, compiled only for the tests.
\<close>

end
